(* ===== verification/Prelude.thy ===== *)
theory Prelude
  imports Main "HOL-Library.Word"
begin

text \<open>
  Shared vocabulary of the development: machine integers and Rust's saturating arithmetic on
  them, results and the \<^verbatim>\<open>?\<close> operator, Rust strings with the three string functions the code
  uses, and diagnostic messages.  The collections \<open>invar_intros\<close> and \<open>frame_simps\<close> gather the
  preservation lemmas and the frame lemmas of all components.
\<close>

named_theorems invar_intros "preservation of the component invariants"
named_theorems frame_simps "fields that an operation leaves alone"

section \<open>Machine integers\<close>

type_synonym u8 = "8 word"
type_synonym u16 = "16 word"
type_synonym u32 = "32 word"
type_synonym u64 = "64 word"
type_synonym u128 = "128 word"
type_synonym i16 = "16 word" \<comment> \<open>two's complement, read with \<open>sint\<close>\<close>
type_synonym i64 = int \<comment> \<open>only produced by \<open>signed_delta\<close>, which clamps to the i64 range\<close>

text \<open>Rust's \<^verbatim>\<open>saturating_add\<close> and \<^verbatim>\<open>saturating_sub\<close> on unsigned integers.\<close>

definition sat_add :: "'a::len word \<Rightarrow> 'a word \<Rightarrow> 'a word" where
  "sat_add a b = (if unat a + unat b < 2 ^ LENGTH('a) then a + b else - 1)"

definition sat_sub :: "'a::len word \<Rightarrow> 'a word \<Rightarrow> 'a word" where
  "sat_sub a b = (if b \<le> a then a - b else 0)"

lemma unat_minus_one_word: "unat (- 1 :: 'a::len word) = 2 ^ LENGTH('a) - 1"
  by (simp add: unsigned_minus_1_eq_mask mask_eq_exp_minus_1)

lemma unat_sat_add:
  "unat (sat_add a b) = min (unat a + unat b) (2 ^ LENGTH('a) - 1)" for a b :: "'a::len word"
proof (cases "unat a + unat b < 2 ^ LENGTH('a)")
  case True
  then show ?thesis by (simp add: sat_add_def unat_word_ariths)
next
  case False
  then show ?thesis by (simp add: sat_add_def unat_minus_one_word)
qed

lemma unat_sat_sub: "unat (sat_sub a b) = unat a - unat b"
  by (auto simp: sat_sub_def unat_sub word_le_nat_alt)

lemma sat_add_ge: "a \<le> sat_add a b" for a b :: "'a::len word"
proof -
  have "unat a < 2 ^ LENGTH('a)" by (rule unsigned_less)
  then have "unat a \<le> 2 ^ LENGTH('a) - 1" by linarith
  then have "unat a \<le> unat (sat_add a b)" by (simp add: unat_sat_add)
  then show ?thesis by (simp add: word_le_nat_alt)
qed

lemma unat_of_nat_small: "n < 2 ^ LENGTH('a) \<Longrightarrow> unat (of_nat n :: 'a::len word) = n"
  by (simp add: unsigned_of_nat take_bit_nat_eq_self)

lemma unat_sat_add_of_nat:
  fixes a :: "'a::len word"
  assumes "unat a + n < 2 ^ LENGTH('a)"
  shows "unat (sat_add a (of_nat n)) = unat a + n"
proof -
  from assms have "n < 2 ^ LENGTH('a)" by linarith
  with assms show ?thesis
    unfolding unat_sat_add unat_of_nat_small [OF \<open>n < 2 ^ LENGTH('a)\<close>] by linarith
qed

lemma sat_add_0 [simp]: "sat_add a 0 = a"
  by (simp add: sat_add_def)

section \<open>Results\<close>

text \<open>
  A Rust \<^verbatim>\<open>Result<T, E>\<close> is \<open>'e + 'a\<close>, with \<open>Inl\<close> for \<^verbatim>\<open>Err\<close>.  \<open>res_bind\<close> is the
  \<^verbatim>\<open>?\<close> operator: it returns early with the error.
\<close>

definition res_bind :: "'e + 'a \<Rightarrow> ('a \<Rightarrow> 'e + 'b) \<Rightarrow> 'e + 'b" where
  "res_bind r f = (case r of Inl e \<Rightarrow> Inl e | Inr a \<Rightarrow> f a)"

definition map_err :: "('e \<Rightarrow> 'f) \<Rightarrow> 'e + 'a \<Rightarrow> 'f + 'a" where
  "map_err f r = (case r of Inl e \<Rightarrow> Inl (f e) | Inr a \<Rightarrow> Inr a)"

lemma res_bind_simps [simp]:
  "res_bind (Inl e) f = Inl e" "res_bind (Inr a) f = f a"
  by (simp_all add: res_bind_def)

lemma map_err_simps [simp]:
  "map_err f (Inl e) = Inl (f e)" "map_err f (Inr a) = Inr a"
  by (simp_all add: map_err_def)

lemma res_bind_eq_Inr: "res_bind r f = Inr b \<longleftrightarrow> (\<exists>a. r = Inr a \<and> f a = Inr b)"
  by (cases r) simp_all

lemma res_bind_eq_Inl:
  "res_bind r f = Inl e \<longleftrightarrow> r = Inl e \<or> (\<exists>a. r = Inr a \<and> f a = Inl e)"
  by (cases r) simp_all

lemma map_err_eq_Inr [simp]: "map_err f r = Inr a \<longleftrightarrow> r = Inr a"
  by (cases r) simp_all

lemma map_err_eq_Inl: "map_err f r = Inl e \<longleftrightarrow> (\<exists>e'. r = Inl e' \<and> e = f e')"
  by (cases r) auto

definition is_err :: "'e + 'a \<Rightarrow> bool" where
  "is_err r = (case r of Inl _ \<Rightarrow> True | Inr _ \<Rightarrow> False)"

lemma is_err_simps [simp]: "is_err (Inl e)" "\<not> is_err (Inr a)"
  by (simp_all add: is_err_def)

section \<open>Strings\<close>

text \<open>
  A Rust string is the list of its Unicode scalar values.  \<open>lit\<close> embeds an Isabelle string
  literal.  \<open>is_whitespace\<close> is \<^verbatim>\<open>char::is_whitespace\<close> (the property White\_Space), which
  \<^verbatim>\<open>str::trim\<close> strips on both sides; the ASCII functions change only the letters A-Z.
\<close>

type_synonym str = "nat list"

definition lit :: "string \<Rightarrow> str" where
  "lit s = map of_char s"

definition is_whitespace :: "nat \<Rightarrow> bool" where
  "is_whitespace c \<longleftrightarrow> 9 \<le> c \<and> c \<le> 13 \<or> c = 32 \<or> c = 133 \<or> c = 160 \<or> c = 5760
     \<or> 8192 \<le> c \<and> c \<le> 8202 \<or> c = 8232 \<or> c = 8233 \<or> c = 8239 \<or> c = 8287 \<or> c = 12288"

definition trim :: "str \<Rightarrow> str" where
  "trim s = rev (dropWhile is_whitespace (rev (dropWhile is_whitespace s)))"

definition blank :: "str \<Rightarrow> bool" where
  "blank s \<longleftrightarrow> trim s = []"

definition ascii_lower :: "nat \<Rightarrow> nat" where
  "ascii_lower c = (if 65 \<le> c \<and> c \<le> 90 then c + 32 else c)"

definition to_ascii_lowercase :: "str \<Rightarrow> str" where
  "to_ascii_lowercase s = map ascii_lower s"

definition eq_ignore_ascii_case :: "str \<Rightarrow> str \<Rightarrow> bool" where
  "eq_ignore_ascii_case a b \<longleftrightarrow> to_ascii_lowercase a = to_ascii_lowercase b"

fun str_contains :: "str \<Rightarrow> str \<Rightarrow> bool" where
  "str_contains [] p \<longleftrightarrow> p = []"
| "str_contains (c # s) p \<longleftrightarrow> take (length p) (c # s) = p \<or> str_contains s p"

text \<open>\<^verbatim>\<open>to_string\<close> of an unsigned number.\<close>

definition digit_char :: "nat \<Rightarrow> char" where
  "digit_char d = char_of (48 + d)"

fun show_nat :: "nat \<Rightarrow> string" where
  "show_nat n = (if n < 10 then [digit_char n] else show_nat (n div 10) @ [digit_char (n mod 10)])"

declare show_nat.simps [simp del]

lemma blank_iff: "blank s \<longleftrightarrow> (\<forall>c \<in> set s. is_whitespace c)"
proof -
  have "trim s = [] \<longleftrightarrow> (\<forall>c \<in> set (dropWhile is_whitespace s). is_whitespace c)"
    by (simp add: trim_def)
  also have "\<dots> \<longleftrightarrow> (\<forall>c \<in> set s. is_whitespace c)"
    by (induction s) auto
  finally show ?thesis by (simp add: blank_def)
qed

lemma dropWhile_rev_dropWhile:
  "dropWhile P (rev (dropWhile P (rev (dropWhile P s)))) = rev (dropWhile P (rev (dropWhile P s)))"
proof (cases "dropWhile P s")
  case (Cons c t)
  then have "\<not> P c" by (metis hd_dropWhile list.discI list.sel(1))
  with Cons have "rev (dropWhile P (rev (dropWhile P s))) = c # rev (dropWhile P (rev t))"
    by (auto simp: dropWhile_append dropWhile_eq_Nil_conv)
  with \<open>\<not> P c\<close> show ?thesis by simp
next
  case Nil
  then show ?thesis by (simp only: rev.simps dropWhile.simps)
qed

lemma trim_trim [simp]: "trim (trim s) = trim s"
  by (simp add: trim_def dropWhile_rev_dropWhile)

lemma blank_trim [simp]: "blank (trim s) = blank s"
  by (simp add: blank_def)

lemma str_contains_iff: "str_contains s p \<longleftrightarrow> (\<exists>a b. s = a @ p @ b)"
proof (induction s)
  case (Cons c s)
  have "take (length p) (c # s) = p \<longleftrightarrow> (\<exists>b. c # s = p @ b)"
    by (metis append_eq_conv_conj append_take_drop_id)
  moreover have "(\<exists>a b. c # s = a @ p @ b) \<longleftrightarrow> (\<exists>b. c # s = p @ b) \<or> (\<exists>a b. s = a @ p @ b)"
    by (metis (no_types) append_Cons append_Nil list.sel(3) neq_Nil_conv)
  ultimately show ?case using Cons by simp
qed simp

lemma eq_ignore_ascii_case_refl [simp]: "eq_ignore_ascii_case a a"
  by (simp add: eq_ignore_ascii_case_def)

lemma eq_ignore_ascii_case_sym: "eq_ignore_ascii_case a b \<Longrightarrow> eq_ignore_ascii_case b a"
  by (simp add: eq_ignore_ascii_case_def)

section \<open>Diagnostic messages\<close>

text \<open>
  The text of an error is kept as the sequence of its pieces, in the order the format string
  has them: literal text, a string shown with \<^verbatim>\<open>{}\<close> or with \<^verbatim>\<open>{:?}\<close>, a number, a fraction shown with so
  many decimals, and the message of another error.  No code branches on a message.
\<close>

datatype message =
    Text string
  | Shown str
  | Quoted str
  | Number nat
  | Decimal nat "int \<times> int"
  | Pieces "message list"

text \<open>\<^verbatim>\<open>anyhow\<close>'s \<^verbatim>\<open>with_context\<close>, shown as the chain of contexts.\<close>

definition with_context :: "message \<Rightarrow> message + 'a \<Rightarrow> message + 'a" where
  "with_context m = map_err (\<lambda>e. Pieces [m, Text '': '', e])"

lemma with_context_eq_Inr [simp]: "with_context m r = Inr a \<longleftrightarrow> r = Inr a"
  by (simp add: with_context_def)

section \<open>Loops\<close>

text \<open>
  A loop whose body either goes on with a new state or leaves with a value.  \<open>run_loop\<close> takes fuel,
  one unit per iteration: \<open>None\<close> is a loop that has not left yet, and more fuel never changes a
  result.
\<close>

datatype ('c, 'b) flow = Continue 'c | Break 'b

fun run_loop :: "('c \<Rightarrow> ('c, 'b) flow) \<Rightarrow> nat \<Rightarrow> 'c \<Rightarrow> 'b option" where
  "run_loop body 0 c = None"
| "run_loop body (Suc n) c = (case body c of Continue c \<Rightarrow> run_loop body n c | Break b \<Rightarrow> Some b)"

lemma run_loop_mono: "run_loop body n c = Some b \<Longrightarrow> n \<le> m \<Longrightarrow> run_loop body m c = Some b"
proof (induction body n c arbitrary: m rule: run_loop.induct)
  case (2 body n c)
  then obtain m' where "m = Suc m'" "n \<le> m'" by (cases m) auto
  with 2 show ?case by (auto split: flow.splits)
qed simp

lemma run_loop_invariant:
  assumes "run_loop body n c = Some b" "I c"
    and "\<And>c c'. I c \<Longrightarrow> body c = Continue c' \<Longrightarrow> I c'"
    and "\<And>c b. I c \<Longrightarrow> body c = Break b \<Longrightarrow> Q b"
  shows "Q b"
  using assms(1,2)
  by (induction n arbitrary: c) (auto split: flow.splits dest: assms(3,4))

lemma run_loop_terminates:
  assumes "I c" and "\<And>c c'. I c \<Longrightarrow> body c = Continue c' \<Longrightarrow> I c' \<and> \<mu> c' < (\<mu> c :: nat)"
  shows "\<exists>b. run_loop body (Suc (\<mu> c)) c = Some b"
  using assms(1)
proof (induction "\<mu> c" arbitrary: c rule: less_induct)
  case less
  show ?case
  proof (cases "body c")
    case (Continue c')
    from assms(2) [OF less.prems this] less.hyps obtain b
      where "run_loop body (Suc (\<mu> c')) c' = Some b" "\<mu> c' < \<mu> c" by blast
    then have "run_loop body (\<mu> c) c' = Some b"
      using run_loop_mono [of body "Suc (\<mu> c')" c' b "\<mu> c"] by simp
    with Continue show ?thesis by auto
  qed auto
qed

text \<open>A \<^verbatim>\<open>for\<close> loop whose body may panic.\<close>

fun fold_opt :: "('a \<Rightarrow> 's \<Rightarrow> 's option) \<Rightarrow> 'a list \<Rightarrow> 's \<Rightarrow> 's option" where
  "fold_opt f [] s = Some s"
| "fold_opt f (x # xs) s = (case f x s of None \<Rightarrow> None | Some s' \<Rightarrow> fold_opt f xs s')"

lemma fold_opt_append:
  "fold_opt f (xs @ ys) s = (case fold_opt f xs s of None \<Rightarrow> None | Some s' \<Rightarrow> fold_opt f ys s')"
  by (induction xs arbitrary: s) (auto split: option.splits)

lemma fold_opt_cong:
  assumes "I s"
    and "\<And>x s. x \<in> set xs \<Longrightarrow> I s \<Longrightarrow> f x s = g x s"
    and "\<And>x s s'. x \<in> set xs \<Longrightarrow> I s \<Longrightarrow> g x s = Some s' \<Longrightarrow> I s'"
  shows "fold_opt f xs s = fold_opt g xs s"
  using assms
proof (induction xs arbitrary: s)
  case (Cons x xs)
  then have "f x s = g x s" by simp
  moreover have "fold_opt f xs s' = fold_opt g xs s'" if "g x s = Some s'" for s'
  proof (rule Cons.IH)
    show "I s'" using Cons.prems(1,3) that by (metis list.set_intros(1))
  qed (use Cons.prems(2,3) in \<open>metis list.set_intros(2)\<close>)+
  ultimately show ?case by (simp split: option.split)
qed simp

section \<open>Cutting a stream into frames\<close>

text \<open>
  \<open>chunks n xs\<close> are the complete blocks of \<open>n\<close> elements of \<open>xs\<close>, in order, and
  \<open>leftover n xs\<close> what remains after the last of them.
\<close>

function chunks :: "nat \<Rightarrow> 'a list \<Rightarrow> 'a list list" where
  "chunks n xs = (if n = 0 \<or> length xs < n then [] else take n xs # chunks n (drop n xs))"
  by pat_completeness auto
termination
  by (relation "measure (\<lambda>(n, xs). length xs)") auto

function leftover :: "nat \<Rightarrow> 'a list \<Rightarrow> 'a list" where
  "leftover n xs = (if n = 0 \<or> length xs < n then xs else leftover n (drop n xs))"
  by pat_completeness auto
termination
  by (relation "measure (\<lambda>(n, xs). length xs)") auto

declare chunks.simps [simp del] leftover.simps [simp del]

lemma chunks_short [simp]: "length xs < n \<Longrightarrow> chunks n xs = []"
  by (simp add: chunks.simps)

lemma leftover_short [simp]: "length xs < n \<Longrightarrow> leftover n xs = xs"
  by (simp add: leftover.simps)

lemma chunks_block: "0 < n \<Longrightarrow> length p = n \<Longrightarrow> chunks n (p @ xs) = p # chunks n xs"
  by (subst chunks.simps) simp

lemma leftover_block: "0 < n \<Longrightarrow> length p = n \<Longrightarrow> leftover n (p @ xs) = leftover n xs"
  by (subst leftover.simps) simp

lemma concat_chunks: "concat (chunks n xs) @ leftover n xs = xs"
proof (induction n xs rule: chunks.induct)
  case (1 n xs)
  then show ?case by (simp add: chunks.simps [of n xs] leftover.simps [of n xs])
qed

lemma chunks_length: "c \<in> set (chunks n xs) \<Longrightarrow> length c = n"
proof (induction n xs rule: chunks.induct)
  case (1 n xs)
  then show ?case by (auto simp: chunks.simps [of n xs] split: if_splits)
qed

lemma leftover_length: "0 < n \<Longrightarrow> length (leftover n xs) < n"
proof (induction n xs rule: leftover.induct)
  case (1 n xs)
  then show ?case by (auto simp: leftover.simps [of n xs])
qed

lemma length_chunks: "0 < n \<Longrightarrow> length (chunks n xs) = length xs div n"
proof (induction n xs rule: chunks.induct)
  case (1 n xs)
  then show ?case by (auto simp: chunks.simps [of n xs] le_div_geq)
qed

lemma chunks_append:
  "chunks n (xs @ ys) = chunks n xs @ chunks n (leftover n xs @ ys)
   \<and> leftover n (xs @ ys) = leftover n (leftover n xs @ ys)"
proof (induction n xs rule: chunks.induct)
  case (1 n xs)
  show ?case
  proof (cases "n = 0 \<or> length xs < n")
    case True
    then show ?thesis by (auto simp: chunks.simps [of 0] leftover.simps [of 0])
  next
    case False
    then have "xs = take n xs @ drop n xs" "length (take n xs) = n" "0 < n" by auto
    with 1 False show ?thesis
      by (metis append_Cons append_assoc chunks_block leftover_block)
  qed
qed

end
