(* ===== verification/Output_Contract.thy ===== *)
theory Output_Contract
  imports Prelude
begin

text \<open>
  The contract between the engine and an output bridge, \<^verbatim>\<open>crates/mini-aec-output/src/lib.rs\<close>:
  the PCM format and session types, output errors, diagnostics, the operations of the
  \<^verbatim>\<open>AudioOutput\<close> trait, and \<open>resolve_pair\<close>, which selects the VB-CABLE pair by exact
  endpoint identities.
\<close>

definition FRAME_SAMPLES :: nat where "FRAME_SAMPLES = 480"

definition DIAGNOSTICS_SCHEMA_VERSION :: u16 where "DIAGNOSTICS_SCHEMA_VERSION = 3"

type_synonym pcm_samples = "i16 list" \<comment> \<open>\<^verbatim>\<open>[i16; FRAME_SAMPLES]\<close>\<close>

record pcm_format =
  pf_sample_rate_hz :: u32
  pf_channels :: u16
  pf_bits_per_sample :: u16
  pf_frame_samples_per_channel :: u16

definition MONO_48_KHZ_PCM16 :: pcm_format where
  "MONO_48_KHZ_PCM16 = \<lparr>pf_sample_rate_hz = 48000, pf_channels = 1, pf_bits_per_sample = 16,
     pf_frame_samples_per_channel = 480\<rparr>"

datatype session_id = SessionId u128

definition session_id_new :: "u128 \<Rightarrow> session_id option" where
  "session_id_new v = (if v = 0 then None else Some (SessionId v))"

fun session_id_get :: "session_id \<Rightarrow> u128" where
  "session_id_get (SessionId v) = v"

record session_config =
  sc_session_id :: session_id
  sc_format :: pcm_format

definition session_config_new :: "session_id \<Rightarrow> session_config" where
  "session_config_new sid = \<lparr>sc_session_id = sid, sc_format = MONO_48_KHZ_PCM16\<rparr>"

record pcm_frame =
  pcm_sequence :: u64
  pcm_data :: pcm_samples

definition pcm_frame_new :: "u64 \<Rightarrow> pcm_samples \<Rightarrow> pcm_frame" where
  "pcm_frame_new s xs = \<lparr>pcm_sequence = s, pcm_data = xs\<rparr>"

datatype write_receipt = Accepted (receipt_sequence: u64)

datatype endpoint_role = Playback | Recording

record output_endpoint =
  oe_endpoint_id :: str
  oe_friendly_name :: str
  oe_role :: endpoint_role
  oe_active :: bool
  oe_device_family :: str

record output_pair =
  playback :: output_endpoint
  recording :: output_endpoint

datatype output_error_kind =
    OK_AccessDenied | OK_PrerequisiteMissing | OK_AmbiguousEndpoints | OK_InvalidEndpoint
  | OK_DeviceInvalidated | OK_InvalidState | OK_InvalidFormat | OK_SequenceViolation
  | OK_RejectedWrite | OK_RenderFailure

record output_error =
  oerr_kind :: output_error_kind
  oerr_message :: message

definition output_error_new :: "output_error_kind \<Rightarrow> message \<Rightarrow> output_error" where
  "output_error_new k m = \<lparr>oerr_kind = k, oerr_message = m\<rparr>"

lemma output_error_new_sel [simp]:
  "oerr_kind (output_error_new k m) = k" "oerr_message (output_error_new k m) = m"
  by (simp_all add: output_error_new_def)

section \<open>Exact-identity pair resolution\<close>

text \<open>The closure \<^verbatim>\<open>select\<close> of \<^verbatim>\<open>resolve_pair\<close>.\<close>

definition select_endpoint :: "output_endpoint list \<Rightarrow> str \<Rightarrow> output_error + output_endpoint" where
  "select_endpoint inventory ident =
     (case filter (\<lambda>e. oe_endpoint_id e = ident) inventory of
        [] \<Rightarrow> Inl (output_error_new OK_PrerequisiteMissing
                (Pieces [Text ''configured VB-CABLE endpoint '', Quoted ident, Text '' is unavailable'']))
      | [endpoint] \<Rightarrow> Inr endpoint
      | _ \<Rightarrow> Inl (output_error_new OK_AmbiguousEndpoints
                (Pieces [Text ''configured endpoint identity '', Quoted ident, Text '' is ambiguous''])))"

definition same_vb_family :: "str \<Rightarrow> str \<Rightarrow> bool" where
  "same_vb_family fp fr \<longleftrightarrow> trim fp \<noteq> [] \<and> eq_ignore_ascii_case (trim fp) (trim fr)
     \<and> str_contains (to_ascii_lowercase (trim fp)) (lit ''vb-audio'')"

definition resolve_pair ::
  "output_endpoint list \<Rightarrow> str \<Rightarrow> str \<Rightarrow> output_error + output_pair" where
  "resolve_pair inventory playback_id recording_id =
     (if trim playback_id = [] \<or> trim recording_id = []
      then Inl (output_error_new OK_InvalidEndpoint
             (Text ''exact CABLE Input and CABLE Output endpoint IDs are required''))
      else if playback_id = recording_id
      then Inl (output_error_new OK_InvalidEndpoint
             (Text ''CABLE Input and CABLE Output must be distinct endpoint identities''))
      else res_bind (select_endpoint inventory playback_id) (\<lambda>p.
           res_bind (select_endpoint inventory recording_id) (\<lambda>r.
             if oe_role p \<noteq> Playback \<or> oe_role r \<noteq> Recording
             then Inl (output_error_new OK_InvalidEndpoint
                    (Text ''configured VB-CABLE endpoints have the wrong Windows data-flow roles''))
             else if \<not> oe_active p \<or> \<not> oe_active r
             then Inl (output_error_new OK_PrerequisiteMissing
                    (Text ''configured VB-CABLE endpoint pair is not active''))
             else if \<not> same_vb_family (oe_device_family p) (oe_device_family r)
             then Inl (output_error_new OK_InvalidEndpoint
                    (Text ''configured endpoints do not share corroborating VB-Audio adapter metadata''))
             else Inr \<lparr>playback = p, recording = r\<rparr>)))"

lemma select_endpoint_Inr_iff:
  "select_endpoint devs ident = Inr e \<longleftrightarrow> filter (\<lambda>e. oe_endpoint_id e = ident) devs = [e]"
  by (auto simp: select_endpoint_def split: list.splits)

lemma select_endpoint_InrD:
  "select_endpoint devs ident = Inr e \<Longrightarrow> e \<in> set devs \<and> oe_endpoint_id e = ident"
  by (drule select_endpoint_Inr_iff [THEN iffD1]) (auto dest!: arg_cong [where f = set])

lemma select_endpoint_InlD:
  "select_endpoint devs ident = Inl e \<Longrightarrow>
     oerr_kind e = OK_PrerequisiteMissing \<and> ident \<notin> oe_endpoint_id ` set devs
   \<or> oerr_kind e = OK_AmbiguousEndpoints \<and> 2 \<le> length (filter (\<lambda>e. oe_endpoint_id e = ident) devs)"
  by (auto simp: select_endpoint_def filter_empty_conv image_iff split: list.splits)

text \<open>The output pair is chosen by exact identity only: resolution succeeds exactly when both identities are
  given, distinct, each the identity of exactly one device of the inventory, with the right data-flow
  roles, both active and of one VB-Audio adapter family; and then it returns those two devices.\<close>

theorem resolve_pair_exact:
  "resolve_pair devs pid rid = Inr pr \<longleftrightarrow>
     \<not> blank pid \<and> \<not> blank rid \<and> pid \<noteq> rid
   \<and> filter (\<lambda>e. oe_endpoint_id e = pid) devs = [playback pr]
   \<and> filter (\<lambda>e. oe_endpoint_id e = rid) devs = [recording pr]
   \<and> oe_role (playback pr) = Playback \<and> oe_role (recording pr) = Recording
   \<and> oe_active (playback pr) \<and> oe_active (recording pr)
   \<and> same_vb_family (oe_device_family (playback pr)) (oe_device_family (recording pr))"
  by (cases pr) (auto simp: resolve_pair_def blank_def res_bind_eq_Inr select_endpoint_Inr_iff)

text \<open>Friendly names play no part: renaming the endpoints renames the result and nothing else.\<close>

definition rename_endpoint :: "(str \<Rightarrow> str) \<Rightarrow> output_endpoint \<Rightarrow> output_endpoint" where
  "rename_endpoint f e = e\<lparr>oe_friendly_name := f (oe_friendly_name e)\<rparr>"

lemma rename_endpoint_sel [simp]:
  "oe_endpoint_id (rename_endpoint f e) = oe_endpoint_id e"
  "oe_role (rename_endpoint f e) = oe_role e"
  "oe_active (rename_endpoint f e) = oe_active e"
  "oe_device_family (rename_endpoint f e) = oe_device_family e"
  by (simp_all add: rename_endpoint_def)

lemma select_endpoint_rename:
  "select_endpoint (map (rename_endpoint f) devs) ident =
     map_sum id (rename_endpoint f) (select_endpoint devs ident)"
proof -
  have "filter (\<lambda>e. oe_endpoint_id e = ident) (map (rename_endpoint f) devs)
      = map (rename_endpoint f) (filter (\<lambda>e. oe_endpoint_id e = ident) devs)"
    by (simp add: filter_map o_def)
  then show ?thesis
    by (simp add: select_endpoint_def split: list.splits)
qed

text \<open>Display names play no part: renaming the devices in any way renames the devices of the result and
  changes neither the outcome nor the error.\<close>

theorem resolve_pair_ignores_names:
  "resolve_pair (map (rename_endpoint f) devs) pid rid =
     map_sum id (\<lambda>pr. \<lparr>playback = rename_endpoint f (playback pr),
                        recording = rename_endpoint f (recording pr)\<rparr>) (resolve_pair devs pid rid)"
  by (cases "select_endpoint devs pid"; cases "select_endpoint devs rid")
    (simp_all add: resolve_pair_def select_endpoint_rename)

section \<open>Diagnostics and the output trait\<close>

datatype session_state = Closed | Open

datatype output_sample_type = Integer | Float

record output_format =
  of_sample_rate_hz :: u32
  of_channels :: u16
  of_bits_per_sample :: u16
  of_sample_type :: output_sample_type

record diagnostic_counters =
  dc_session_opens :: u64
  dc_session_closes :: u64
  dc_accepted_frames :: u64
  dc_rejected_writes :: u64
  dc_underruns :: u64
  dc_overflows :: u64
  dc_discarded_frames :: u64
  dc_converted_frames :: u64
  dc_endpoint_invalidations :: u64
  dc_output_failures :: u64

definition default_counters :: diagnostic_counters where
  "default_counters = \<lparr>dc_session_opens = 0, dc_session_closes = 0, dc_accepted_frames = 0,
     dc_rejected_writes = 0, dc_underruns = 0, dc_overflows = 0, dc_discarded_frames = 0,
     dc_converted_frames = 0, dc_endpoint_invalidations = 0, dc_output_failures = 0\<rparr>"

record output_diagnostics =
  od_schema_version :: u16
  od_state :: session_state
  od_active_session :: "session_id option"
  od_last_accepted_sequence :: "u64 option"
  od_current_depth :: u32
  od_high_water_mark :: u32
  od_current_padding_frames :: u32
  od_rendered_frames :: u64
  od_output_clock_frequency :: "u64 option"
  od_output_clock_position :: "u64 option"
  od_output_clock_qpc_position :: "u64 option"
  od_negotiated_format :: "output_format option"
  od_counters :: diagnostic_counters

definition default_diagnostics :: output_diagnostics where
  "default_diagnostics = \<lparr>od_schema_version = DIAGNOSTICS_SCHEMA_VERSION, od_state = Closed,
     od_active_session = None, od_last_accepted_sequence = None, od_current_depth = 0,
     od_high_water_mark = 0, od_current_padding_frames = 0, od_rendered_frames = 0,
     od_output_clock_frequency = None, od_output_clock_position = None,
     od_output_clock_qpc_position = None, od_negotiated_format = None,
     od_counters = default_counters\<rparr>"

text \<open>
  The trait \<^verbatim>\<open>AudioOutput\<close>: a trait object is the record of its methods over the adapter's
  own state \<open>'s\<close>.
\<close>

record 's audio_output =
  ao_open_session :: "session_config \<Rightarrow> 's \<Rightarrow> 's \<times> (output_error + unit)"
  ao_write_frame :: "pcm_frame \<Rightarrow> 's \<Rightarrow> 's \<times> (output_error + write_receipt)"
  ao_diagnostics :: "'s \<Rightarrow> 's \<times> (output_error + output_diagnostics)"
  ao_close_session :: "'s \<Rightarrow> 's \<times> (output_error + unit)"

end
