(* ===== verification/Ieee.thy ===== *)
theory Ieee
  imports Complex_Main Prelude
begin

text \<open>
  The binary floating-point values of Rust (\<^verbatim>\<open>f32\<close>, \<^verbatim>\<open>f64\<close>) and the operations on them
  the code uses.  A finite value is the rational it denotes; the sign of zero is not kept, because
  the modelled code never observes it.  Arithmetic is exact arithmetic followed by one rounding to
  nearest, ties to even, of the format's precision and exponent range, as IEEE 754 prescribes.
  The lemmas say that rounding is monotone, odd, exact on small integers and off by at most half a
  unit in the last place.
\<close>

datatype fp = NaN | PInf | NInf | Fin rat

datatype float_format = Binary32 | Binary64

fun precision :: "float_format \<Rightarrow> nat" where
  "precision Binary32 = 24"
| "precision Binary64 = 53"

fun min_exp :: "float_format \<Rightarrow> int" where
  "min_exp Binary32 = - 149"
| "min_exp Binary64 = - 1074"

fun max_exp :: "float_format \<Rightarrow> int" where
  "max_exp Binary32 = 104"
| "max_exp Binary64 = 971"

section \<open>Rounding to an integer\<close>

definition round_half_even :: "rat \<Rightarrow> int" where
  "round_half_even q = (let f = \<lfloor>q\<rfloor>; d = q - of_int f in
     if d < 1 / 2 then f else if 1 / 2 < d then f + 1 else if even f then f else f + 1)"

definition round_half_away :: "rat \<Rightarrow> int" where
  "round_half_away q = (if 0 \<le> q then \<lfloor>q + 1 / 2\<rfloor> else - \<lfloor>1 / 2 - q\<rfloor>)"

lemma round_half_even_of_int [simp]: "round_half_even (of_int n) = n"
  by (simp add: round_half_even_def)

lemma round_half_even_bounds:
  "\<lfloor>q\<rfloor> \<le> round_half_even q" "round_half_even q \<le> \<lfloor>q\<rfloor> + 1"
  by (simp_all add: round_half_even_def Let_def)

lemma round_half_even_mono: "q \<le> r \<Longrightarrow> round_half_even q \<le> round_half_even r"
proof (cases "\<lfloor>q\<rfloor> = \<lfloor>r\<rfloor>")
  case True
  assume "q \<le> r"
  with True show ?thesis by (auto simp: round_half_even_def Let_def)
next
  case False
  assume "q \<le> r"
  with False have "\<lfloor>q\<rfloor> + 1 \<le> \<lfloor>r\<rfloor>" using floor_mono [of q r] by linarith
  then show ?thesis
    using round_half_even_bounds(2) [of q] round_half_even_bounds(1) [of r] by linarith
qed

lemma round_half_even_error: "\<bar>of_int (round_half_even q) - q\<bar> \<le> 1 / 2"
proof -
  have "of_int \<lfloor>q\<rfloor> \<le> q" "q < of_int \<lfloor>q\<rfloor> + 1" by linarith+
  then show ?thesis by (auto simp: round_half_even_def Let_def abs_le_iff)
qed

lemma round_half_even_minus: "round_half_even (- q) = - round_half_even q"
proof (cases "q = of_int \<lfloor>q\<rfloor>")
  case True
  then show ?thesis by (metis of_int_minus round_half_even_of_int)
next
  case False
  have *: "of_int \<lfloor>q\<rfloor> \<le> q" "q < of_int \<lfloor>q\<rfloor> + 1" by linarith+
  with False have lt: "of_int \<lfloor>q\<rfloor> < q" by linarith
  with * have "\<lfloor>- q\<rfloor> = - \<lfloor>q\<rfloor> - 1" by (intro floor_unique) auto
  then show ?thesis using * lt by (auto simp: round_half_even_def Let_def)
qed

lemma round_half_away_of_int [simp]: "round_half_away (of_int n) = n"
  by (simp add: round_half_away_def) linarith

lemma round_half_away_mono: "q \<le> r \<Longrightarrow> round_half_away q \<le> round_half_away r"
  unfolding round_half_away_def by (auto intro!: floor_mono) linarith+

lemma round_half_away_error: "\<bar>of_int (round_half_away q) - q\<bar> \<le> 1 / 2"
proof -
  have *: "\<bar>of_int \<lfloor>x + 1 / 2\<rfloor> - x\<bar> \<le> 1 / 2" for x :: rat
    unfolding abs_le_iff by linarith
  show ?thesis
  proof (cases "0 \<le> q")
    case True
    then show ?thesis using * [of q] by (simp only: round_half_away_def if_True)
  next
    case False
    have "\<bar>of_int \<lfloor>1 / 2 - q\<rfloor> + q\<bar> \<le> 1 / 2" using * [of "- q"] by (simp only: add.commute uminus_add_conv_diff diff_minus_eq_add add_uminus_conv_diff)
    then have "\<bar>- of_int \<lfloor>1 / 2 - q\<rfloor> - q\<bar> \<le> 1 / 2" by linarith
    with False show ?thesis by (simp only: round_half_away_def if_False of_int_minus)
  qed
qed

section \<open>Rounding to a format\<close>

text \<open>
  The exponent of the last place: the least \<open>e\<close> in the format's range such that the magnitude is
  below \<open>2\<^sup>p\<^sup>+\<^sup>e\<close>.
\<close>

fun exp_search :: "nat \<Rightarrow> nat \<Rightarrow> int \<Rightarrow> rat \<Rightarrow> int" where
  "exp_search p 0 e a = e"
| "exp_search p (Suc k) e a = (if a < 2 powi (int p + e) then e else exp_search p k (e + 1) a)"

definition last_place :: "float_format \<Rightarrow> rat \<Rightarrow> int" where
  "last_place fmt q =
     exp_search (precision fmt) (nat (max_exp fmt - min_exp fmt)) (min_exp fmt) \<bar>q\<bar>"

definition round_value :: "float_format \<Rightarrow> rat \<Rightarrow> rat" where
  "round_value fmt q =
     (let u = 2 powi last_place fmt q in of_int (round_half_even (q / u)) * u)"

definition max_finite :: "float_format \<Rightarrow> rat" where
  "max_finite fmt = (2 ^ precision fmt - 1) * 2 powi max_exp fmt"

definition fp_rounded :: "float_format \<Rightarrow> rat \<Rightarrow> fp" where
  "fp_rounded fmt q = (let v = round_value fmt q in
     if \<bar>v\<bar> \<le> max_finite fmt then Fin v else if q < 0 then NInf else PInf)"

lemma exp_search_props:
  "e \<le> exp_search p k e a \<and> exp_search p k e a \<le> e + int k
   \<and> (e < exp_search p k e a \<longrightarrow> 2 powi (int p + exp_search p k e a - 1) \<le> a)
   \<and> (exp_search p k e a < e + int k \<longrightarrow> a < 2 powi (int p + exp_search p k e a))"
proof (induction k arbitrary: e)
  case (Suc k)
  show ?case
  proof (cases "a < 2 powi (int p + e)")
    case False
    have "exp_search p k (e + 1) a = e + 1 \<Longrightarrow> 2 powi (int p + (e + 1) - 1) \<le> a"
      using False by (simp add: add.assoc)
    with False Suc [of "e + 1"] show ?thesis
      by (cases "exp_search p k (e + 1) a = e + 1") auto
  qed simp
qed simp

lemma exp_range [simp]: "min_exp fmt \<le> max_exp fmt"
  by (cases fmt) simp_all

lemma last_place_minus [simp]: "last_place fmt (- q) = last_place fmt q"
  by (simp add: last_place_def)

lemma last_place_range: "min_exp fmt \<le> last_place fmt q" "last_place fmt q \<le> max_exp fmt"
  using exp_search_props [of "min_exp fmt" "precision fmt" "nat (max_exp fmt - min_exp fmt)" "\<bar>q\<bar>"]
  by (simp_all add: last_place_def)

lemma last_place_lower:
  "min_exp fmt < last_place fmt q \<Longrightarrow> 2 powi (int (precision fmt) + last_place fmt q - 1) \<le> \<bar>q\<bar>"
  using exp_search_props [of "min_exp fmt" "precision fmt" "nat (max_exp fmt - min_exp fmt)" "\<bar>q\<bar>"]
  by (simp add: last_place_def)

lemma last_place_upper:
  assumes "\<bar>q\<bar> < 2 powi (int (precision fmt) + max_exp fmt)"
  shows "\<bar>q\<bar> < 2 powi (int (precision fmt) + last_place fmt q)"
proof (cases "last_place fmt q < max_exp fmt")
  case True
  then show ?thesis
    using exp_search_props [of "min_exp fmt" "precision fmt" "nat (max_exp fmt - min_exp fmt)" "\<bar>q\<bar>"]
    by (simp add: last_place_def)
next
  case False
  then have "last_place fmt q = max_exp fmt" using last_place_range(2) [of fmt q] by simp
  with assms show ?thesis by simp
qed

lemma last_place_bound:
  assumes "\<bar>q\<bar> \<le> 2 powi m" and "min_exp fmt \<le> m - int (precision fmt) + 1"
  shows "last_place fmt q \<le> m - int (precision fmt) + 1"
proof (rule ccontr)
  assume "\<not> ?thesis"
  then have gt: "m < int (precision fmt) + last_place fmt q - 1"
    and "min_exp fmt < last_place fmt q" using assms(2) by linarith+
  from last_place_lower [OF this(2)] assms(1)
  have "2 powi (int (precision fmt) + last_place fmt q - 1) \<le> (2 powi m :: rat)" by linarith
  moreover from gt have "(2 powi m :: rat) < 2 powi (int (precision fmt) + last_place fmt q - 1)"
    by (simp add: power_int_strict_increasing)
  ultimately show False by simp
qed

lemma round_value_minus: "round_value fmt (- q) = - round_value fmt q"
  by (simp add: round_value_def round_half_even_minus Let_def)

lemma round_value_0 [simp]: "round_value fmt 0 = 0"
  using round_half_even_of_int [of 0] by (simp add: round_value_def Let_def)

lemma round_value_nonneg: "0 \<le> q \<Longrightarrow> 0 \<le> round_value fmt q"
  using round_half_even_mono [of 0 "q / 2 powi last_place fmt q"] round_half_even_of_int [of 0]
  by (simp add: round_value_def Let_def)

lemma round_value_le_pow:
  assumes "0 \<le> q" and "q < 2 powi (int (precision fmt) + max_exp fmt)"
  shows "round_value fmt q \<le> 2 powi (int (precision fmt) + last_place fmt q)"
proof -
  let ?u = "2 powi last_place fmt q :: rat"
  have u: "0 < ?u" by simp
  have "q < 2 ^ precision fmt * ?u"
    using last_place_upper [of q fmt] assms by (simp add: power_int_add)
  then have "q / ?u \<le> of_int (2 ^ precision fmt)" using u by (simp add: field_simps)
  then have "round_half_even (q / ?u) \<le> 2 ^ precision fmt"
    using round_half_even_mono round_half_even_of_int by metis
  then have "of_int (round_half_even (q / ?u)) \<le> (2 ^ precision fmt :: rat)"
    by (metis of_int_le_iff of_int_numeral of_int_power)
  then show ?thesis using u by (simp add: round_value_def Let_def power_int_add)
qed

lemma round_value_ge_pow:
  assumes "0 \<le> q" and "min_exp fmt < last_place fmt q"
  shows "2 powi (int (precision fmt) + last_place fmt q - 1) \<le> round_value fmt q"
proof -
  let ?u = "2 powi last_place fmt q :: rat"
  have u: "0 < ?u" by simp
  obtain k where k: "precision fmt = Suc k" by (cases fmt) simp_all
  have "2 ^ k * ?u \<le> q"
    using last_place_lower [OF assms(2)] assms(1) by (simp add: k power_int_add)
  then have "of_int (2 ^ k) \<le> q / ?u" using u by (simp add: field_simps)
  then have "2 ^ k \<le> round_half_even (q / ?u)"
    using round_half_even_mono round_half_even_of_int by metis
  then have "(2 ^ k :: rat) \<le> of_int (round_half_even (q / ?u))"
    by (metis of_int_le_iff of_int_numeral of_int_power)
  then show ?thesis using u by (simp add: round_value_def Let_def k power_int_add)
qed

lemma round_value_mono_nonneg:
  assumes "0 \<le> q" and "q \<le> r" and "r < 2 powi (int (precision fmt) + max_exp fmt)"
  shows "round_value fmt q \<le> round_value fmt r"
proof (cases "last_place fmt q" "last_place fmt r" rule: linorder_cases)
  case equal
  then show ?thesis
    using assms by (auto simp: round_value_def Let_def divide_right_mono intro!: round_half_even_mono)
next
  case less
  then have "min_exp fmt < last_place fmt r" using last_place_range(1) [of fmt q] by linarith
  then have "2 powi (int (precision fmt) + last_place fmt r - 1) \<le> round_value fmt r"
    using assms by (intro round_value_ge_pow) auto
  moreover have "round_value fmt q \<le> 2 powi (int (precision fmt) + last_place fmt q)"
    using assms by (intro round_value_le_pow) auto
  moreover have "(2 powi (int (precision fmt) + last_place fmt q) :: rat)
      \<le> 2 powi (int (precision fmt) + last_place fmt r - 1)"
    using less by (intro power_int_increasing) auto
  ultimately show ?thesis by linarith
next
  case greater
  then have "min_exp fmt < last_place fmt q" using last_place_range(1) [of fmt r] by linarith
  then have "2 powi (int (precision fmt) + last_place fmt q - 1) \<le> q"
    using last_place_lower [of fmt q] assms by simp
  moreover have "r < 2 powi (int (precision fmt) + last_place fmt r)"
    using last_place_upper [of r fmt] assms by simp
  moreover have "(2 powi (int (precision fmt) + last_place fmt r) :: rat)
      \<le> 2 powi (int (precision fmt) + last_place fmt q - 1)"
    using greater by (intro power_int_increasing) auto
  ultimately have False using assms by linarith
  then show ?thesis ..
qed

lemma round_value_mono:
  assumes "q \<le> r" and "\<bar>q\<bar> < 2 powi (int (precision fmt) + max_exp fmt)"
    and "\<bar>r\<bar> < 2 powi (int (precision fmt) + max_exp fmt)"
  shows "round_value fmt q \<le> round_value fmt r"
proof -
  consider "0 \<le> q" | "q < 0" "0 \<le> r" | "r < 0" by linarith
  then show ?thesis
  proof cases
    case 1
    then show ?thesis using assms by (intro round_value_mono_nonneg) auto
  next
    case 2
    then have "round_value fmt q \<le> 0" using round_value_nonneg [of "- q" fmt]
      by (simp add: round_value_minus)
    with 2 show ?thesis using round_value_nonneg [of r fmt] by linarith
  next
    case 3
    then have "round_value fmt (- r) \<le> round_value fmt (- q)"
      using assms by (intro round_value_mono_nonneg) auto
    then show ?thesis by (simp add: round_value_minus)
  qed
qed

lemma round_value_of_int:
  assumes "\<bar>n\<bar> \<le> 2 ^ precision fmt"
  shows "round_value fmt (of_int n) = of_int n"
proof -
  let ?e = "last_place fmt (of_int n)"
  have "\<exists>m. of_int n / (2 powi ?e :: rat) = of_int m"
  proof (cases "?e \<le> 0")
    case True
    then have "of_int n / (2 powi ?e :: rat) = of_int (n * 2 ^ nat (- ?e))"
      by (simp add: power_int_def field_simps)
    then show ?thesis by blast
  next
    case False
    then have "min_exp fmt < ?e" by (cases fmt) simp_all
    from last_place_lower [OF this]
    have "2 powi (int (precision fmt) + ?e - 1) \<le> \<bar>rat_of_int n\<bar>" .
    also have "\<dots> \<le> 2 powi int (precision fmt)"
      using assms by (metis of_int_abs of_int_le_iff of_int_numeral of_int_power power_int_of_nat)
    finally have le: "2 powi (int (precision fmt) + ?e - 1) \<le> (2 powi int (precision fmt) :: rat)" .
    have "?e \<le> 1"
    proof (rule ccontr)
      assume "\<not> ?e \<le> 1"
      then have "(2 powi int (precision fmt) :: rat) < 2 powi (int (precision fmt) + ?e - 1)"
        by (intro power_int_strict_increasing) auto
      with le show False by linarith
    qed
    with False have e: "?e = 1" by linarith
    have "\<bar>rat_of_int n\<bar> = 2 ^ precision fmt"
      using last_place_lower [OF \<open>min_exp fmt < ?e\<close>] e assms
      by (metis add_diff_cancel_right' antisym of_int_abs of_int_le_iff of_int_numeral of_int_power
          power_int_of_nat)
    then have "\<bar>n\<bar> = 2 ^ precision fmt"
      by (metis of_int_abs of_int_eq_iff of_int_numeral of_int_power)
    then have "even n" by (cases fmt) (metis dvd_abs_iff even_numeral dvd_power precision.simps zero_less_numeral)+
    then obtain m where "n = 2 * m" by (rule evenE)
    then have "of_int n / (2 powi ?e :: rat) = of_int m" unfolding e by simp
    then show ?thesis by blast
  qed
  then obtain m where m: "of_int n / (2 powi ?e :: rat) = of_int m" ..
  then have "round_value fmt (of_int n) = of_int m * 2 powi ?e"
    by (simp add: round_value_def Let_def)
  also have "\<dots> = of_int n" unfolding m [symmetric] by simp
  finally show ?thesis .
qed

lemma round_value_error: "\<bar>round_value fmt q - q\<bar> \<le> 2 powi (last_place fmt q - 1)"
proof -
  let ?u = "2 powi last_place fmt q :: rat"
  have u: "0 < ?u" by simp
  have "\<bar>of_int (round_half_even (q / ?u)) - q / ?u\<bar> * ?u \<le> 1 / 2 * ?u"
    by (intro mult_right_mono round_half_even_error) simp
  moreover have "(of_int (round_half_even (q / ?u)) - q / ?u) * ?u = round_value fmt q - q"
    using u by (simp add: round_value_def Let_def left_diff_distrib)
  ultimately have "\<bar>round_value fmt q - q\<bar> \<le> 1 / 2 * ?u"
    by (metis abs_mult abs_of_pos u)
  then show ?thesis by (simp add: power_int_diff)
qed

lemma round_value_between:
  assumes "of_int a \<le> q" "q \<le> of_int b" "\<bar>a\<bar> \<le> 2 ^ precision fmt" "\<bar>b\<bar> \<le> 2 ^ precision fmt"
  shows "of_int a \<le> round_value fmt q" "round_value fmt q \<le> of_int b"
proof -
  have small: "\<bar>rat_of_int n\<bar> < 2 powi (int (precision fmt) + max_exp fmt)"
    if "\<bar>n\<bar> \<le> 2 ^ precision fmt" for n
  proof -
    have "\<bar>rat_of_int n\<bar> \<le> 2 powi int (precision fmt)"
      using that by (metis of_int_abs of_int_le_iff of_int_numeral of_int_power power_int_of_nat)
    also have "\<dots> < 2 powi (int (precision fmt) + max_exp fmt)"
      by (intro power_int_strict_increasing) (cases fmt; simp)+
    finally show ?thesis .
  qed
  have q: "\<bar>q\<bar> < 2 powi (int (precision fmt) + max_exp fmt)"
    using assms(1,2) small [OF assms(3)] small [OF assms(4)] by linarith
  show "of_int a \<le> round_value fmt q"
    using round_value_mono [OF assms(1) small [OF assms(3)] q] round_value_of_int [OF assms(3)] by simp
  show "round_value fmt q \<le> of_int b"
    using round_value_mono [OF assms(2) q small [OF assms(4)]] round_value_of_int [OF assms(4)] by simp
qed

lemma fp_rounded_finite:
  assumes "\<bar>q\<bar> \<le> of_int b" "b \<le> 2 ^ precision fmt"
  shows "fp_rounded fmt q = Fin (round_value fmt q)"
proof -
  have b: "\<bar>b\<bar> \<le> 2 ^ precision fmt" using assms by linarith
  have "\<bar>round_value fmt q\<bar> \<le> of_int b"
    using round_value_between [of "- b" q b fmt] assms b by (simp add: abs_le_iff)
  also have "\<dots> \<le> 2 ^ precision fmt"
    using assms(2) by (metis of_int_le_iff of_int_numeral of_int_power)
  also have "\<dots> \<le> max_finite fmt"
    by (cases fmt) (simp_all add: max_finite_def)
  finally show ?thesis by (simp add: fp_rounded_def)
qed

section \<open>Operations\<close>

definition is_finite :: "fp \<Rightarrow> bool" where
  "is_finite x = (case x of Fin _ \<Rightarrow> True | _ \<Rightarrow> False)"

fun fp_less :: "fp \<Rightarrow> fp \<Rightarrow> bool" where
  "fp_less (Fin a) (Fin b) \<longleftrightarrow> a < b"
| "fp_less (Fin a) PInf \<longleftrightarrow> True"
| "fp_less NInf (Fin b) \<longleftrightarrow> True"
| "fp_less NInf PInf \<longleftrightarrow> True"
| "fp_less _ _ \<longleftrightarrow> False"

fun fp_eq :: "fp \<Rightarrow> fp \<Rightarrow> bool" where
  "fp_eq NaN _ \<longleftrightarrow> False"
| "fp_eq x y \<longleftrightarrow> x = y"

definition fp_le :: "fp \<Rightarrow> fp \<Rightarrow> bool" where
  "fp_le x y \<longleftrightarrow> fp_less x y \<or> fp_eq x y"

text \<open>\<^verbatim>\<open>f32::clamp\<close>: two comparisons, so a NaN passes through.\<close>

definition fp_clamp :: "fp \<Rightarrow> fp \<Rightarrow> fp \<Rightarrow> fp" where
  "fp_clamp x lo hi =
     (let y = (if fp_less x lo then lo else x) in if fp_less hi y then hi else y)"

fun fp_sgn :: "fp \<Rightarrow> int" where
  "fp_sgn NaN = 0"
| "fp_sgn PInf = 1"
| "fp_sgn NInf = - 1"
| "fp_sgn (Fin q) = (if q < 0 then - 1 else if 0 < q then 1 else 0)"

definition fp_mul :: "float_format \<Rightarrow> fp \<Rightarrow> fp \<Rightarrow> fp" where
  "fp_mul fmt x y = (case (x, y) of
     (Fin a, Fin b) \<Rightarrow> fp_rounded fmt (a * b)
   | _ \<Rightarrow> (let s = fp_sgn x * fp_sgn y in if 0 < s then PInf else if s < 0 then NInf else NaN))"

fun fp_round :: "fp \<Rightarrow> fp" where
  "fp_round (Fin q) = Fin (of_int (round_half_away q))"
| "fp_round x = x"

text \<open>\<^verbatim>\<open>x as iN\<close>: truncation towards zero, saturating, NaN to zero.\<close>

definition truncate :: "rat \<Rightarrow> int" where
  "truncate q = (if 0 \<le> q then \<lfloor>q\<rfloor> else - \<lfloor>- q\<rfloor>)"

fun fp_to_signed :: "nat \<Rightarrow> fp \<Rightarrow> int" where
  "fp_to_signed w NaN = 0"
| "fp_to_signed w PInf = 2 ^ (w - 1) - 1"
| "fp_to_signed w NInf = - (2 ^ (w - 1))"
| "fp_to_signed w (Fin q) = max (- (2 ^ (w - 1))) (min (2 ^ (w - 1) - 1) (truncate q))"

lemma is_finite_simps [simp]:
  "is_finite (Fin q)" "\<not> is_finite NaN" "\<not> is_finite PInf" "\<not> is_finite NInf"
  by (simp_all add: is_finite_def)

lemma is_finite_iff: "is_finite x \<longleftrightarrow> (\<exists>q. x = Fin q)"
  by (cases x) simp_all

lemma fp_le_Fin [simp]: "fp_le (Fin a) (Fin b) \<longleftrightarrow> a \<le> b"
  by (auto simp: fp_le_def)

lemma fp_le_special [simp]:
  "\<not> fp_le NaN x" "\<not> fp_le x NaN" "fp_le (Fin a) PInf" "\<not> fp_le PInf (Fin a)"
  "fp_le NInf (Fin a)" "\<not> fp_le (Fin a) NInf"
  by (cases x; simp add: fp_le_def)+

lemma fp_clamp_Fin [simp]:
  "lo \<le> hi \<Longrightarrow> fp_clamp (Fin q) (Fin lo) (Fin hi) = Fin (max lo (min hi q))"
  by (auto simp: fp_clamp_def Let_def)

lemma truncate_of_int [simp]: "truncate (of_int n) = n"
  by (simp add: truncate_def)

lemma truncate_numeral [simp]:
  "truncate (numeral k) = numeral k" "truncate (- numeral k) = - numeral k"
  by (simp_all add: truncate_def)

end
