(* ===== verification/Engine_Types.thy ===== *)
theory Engine_Types
  imports Output_Contract Ieee
begin

text \<open>
  The public data types of the engine, \<^verbatim>\<open>crates/mini-aec-engine/src/lib.rs\<close>: configuration,
  lifecycle states, source descriptors, packet metadata, errors and their mappings, the
  metadata-only snapshot, and the traits of the input adapters as records of operations.
\<close>

definition SAMPLE_RATE_HZ :: u32 where "SAMPLE_RATE_HZ = 48000"
definition CHANNELS :: u16 where "CHANNELS = 1"

section \<open>Configuration and lifecycle\<close>

datatype processing_mode = Bypass | Aec

datatype input_role = Microphone | RenderLoopback

record engine_config =
  ec_mode :: processing_mode
  ec_microphone_endpoint_id :: str
  ec_render_endpoint_id :: "str option"
  ec_cable_input_endpoint_id :: str
  ec_cable_output_endpoint_id :: str

definition engine_config_bypass :: "str \<Rightarrow> str \<Rightarrow> str \<Rightarrow> engine_config" where
  "engine_config_bypass mic cin cout = \<lparr>ec_mode = Bypass, ec_microphone_endpoint_id = mic,
     ec_render_endpoint_id = None, ec_cable_input_endpoint_id = cin,
     ec_cable_output_endpoint_id = cout\<rparr>"

definition engine_config_new :: "str \<Rightarrow> str \<Rightarrow> str \<Rightarrow> engine_config" where
  "engine_config_new src cin cout = engine_config_bypass src cin cout"

definition engine_config_aec :: "str \<Rightarrow> str \<Rightarrow> str \<Rightarrow> str \<Rightarrow> engine_config" where
  "engine_config_aec mic ren cin cout = \<lparr>ec_mode = Aec, ec_microphone_endpoint_id = mic,
     ec_render_endpoint_id = Some ren, ec_cable_input_endpoint_id = cin,
     ec_cable_output_endpoint_id = cout\<rparr>"

datatype engine_command = Start engine_config | Stop | Restart engine_config

datatype engine_state =
    Stopped | Starting | RunningBypass | RunningAec | Degraded | Stopping | EngineFailed

fun engine_state_debug :: "engine_state \<Rightarrow> string" where
  "engine_state_debug Stopped = ''Stopped''"
| "engine_state_debug Starting = ''Starting''"
| "engine_state_debug RunningBypass = ''RunningBypass''"
| "engine_state_debug RunningAec = ''RunningAec''"
| "engine_state_debug Degraded = ''Degraded''"
| "engine_state_debug Stopping = ''Stopping''"
| "engine_state_debug EngineFailed = ''Failed''"

fun input_role_debug :: "input_role \<Rightarrow> string" where
  "input_role_debug Microphone = ''Microphone''"
| "input_role_debug RenderLoopback = ''RenderLoopback''"

datatype degradation_reason =
  RenderReferenceMissing | AecReset | ProcessingDeadline | QueuePressure

section \<open>Sources and packets\<close>

record source_format =
  sf_sample_rate_hz :: u32
  sf_channels :: u16
  sf_bits_per_sample :: u16

record source_descriptor =
  sd_role :: input_role
  sd_endpoint_id :: str
  sd_friendly_name :: str
  sd_active :: bool
  sd_native_format :: "source_format option"

record packet_metadata =
  pm_frames :: nat
  pm_silent :: bool
  pm_data_discontinuity :: bool
  pm_timestamp_error :: bool
  pm_device_position :: u64
  pm_qpc_timestamp_100ns :: u64

definition default_packet_metadata :: packet_metadata where
  "default_packet_metadata = \<lparr>pm_frames = 0, pm_silent = False, pm_data_discontinuity = False,
     pm_timestamp_error = False, pm_device_position = 0, pm_qpc_timestamp_100ns = 0\<rparr>"

abbreviation packet_resets :: "packet_metadata \<Rightarrow> bool" where
  "packet_resets m \<equiv> pm_data_discontinuity m \<or> pm_timestamp_error m"

datatype source_error_kind =
  SK_InvalidSource | SK_Unavailable | SK_AccessDenied | SK_DeviceInvalidated | SK_CaptureFailure

record source_error =
  serr_kind :: source_error_kind
  serr_message :: message

text \<open>
  The traits \<^verbatim>\<open>AudioInput\<close>, \<^verbatim>\<open>AudioInputFactory\<close> and \<^verbatim>\<open>AudioOutputFactory\<close> as
  records of operations over the state of the adapter.  \<open>read_packet\<close> writes into the caller's
  buffer: it gets the buffer and returns it together with its result.
\<close>

record 'i audio_input =
  ai_read_packet :: "fp list \<Rightarrow> 'i \<Rightarrow> 'i \<times> fp list \<times> (source_error + packet_metadata option)"
  ai_stop :: "'i \<Rightarrow> 'i \<times> (source_error + unit)"

record 'i audio_input_factory =
  aif_resolve :: "input_role \<Rightarrow> str \<Rightarrow> source_error + source_descriptor"
  aif_open :: "input_role \<Rightarrow> source_descriptor \<Rightarrow> source_error + 'i"

record 's audio_output_factory =
  aof_resolve_pair :: "str \<Rightarrow> str \<Rightarrow> output_error + output_pair"
  aof_connect :: "output_pair \<Rightarrow> output_error + 's"

section \<open>Engine errors\<close>

datatype engine_error_kind =
    EK_InvalidConfiguration | EK_InvalidSource
  | EK_SourceUnavailable | EK_SourceAccessDenied | EK_SourceInvalidated | EK_SourceFailure
  | EK_RenderUnavailable | EK_RenderAccessDenied | EK_RenderInvalidated | EK_RenderFailure
  | EK_SynchronizationFailure | EK_EchoCancellerFailure
  | EK_OutputPrerequisiteMissing | EK_OutputAmbiguous | EK_OutputAccessDenied
  | EK_OutputInvalidEndpoint | EK_OutputInvalidated | EK_OutputRejectedWrite | EK_OutputFailure
  | EK_WorkerFailure | EK_StopTimeout

record engine_error =
  ee_kind :: engine_error_kind
  ee_message :: message

definition engine_error_new :: "engine_error_kind \<Rightarrow> message \<Rightarrow> engine_error" where
  "engine_error_new k m = \<lparr>ee_kind = k, ee_message = m\<rparr>"

lemma engine_error_new_sel [simp]:
  "ee_kind (engine_error_new k m) = k" "ee_message (engine_error_new k m) = m"
  by (simp_all add: engine_error_new_def)

fun engine_error_kind_debug :: "engine_error_kind \<Rightarrow> string" where
  "engine_error_kind_debug EK_InvalidConfiguration = ''InvalidConfiguration''"
| "engine_error_kind_debug EK_InvalidSource = ''InvalidSource''"
| "engine_error_kind_debug EK_SourceUnavailable = ''SourceUnavailable''"
| "engine_error_kind_debug EK_SourceAccessDenied = ''SourceAccessDenied''"
| "engine_error_kind_debug EK_SourceInvalidated = ''SourceInvalidated''"
| "engine_error_kind_debug EK_SourceFailure = ''SourceFailure''"
| "engine_error_kind_debug EK_RenderUnavailable = ''RenderUnavailable''"
| "engine_error_kind_debug EK_RenderAccessDenied = ''RenderAccessDenied''"
| "engine_error_kind_debug EK_RenderInvalidated = ''RenderInvalidated''"
| "engine_error_kind_debug EK_RenderFailure = ''RenderFailure''"
| "engine_error_kind_debug EK_SynchronizationFailure = ''SynchronizationFailure''"
| "engine_error_kind_debug EK_EchoCancellerFailure = ''EchoCancellerFailure''"
| "engine_error_kind_debug EK_OutputPrerequisiteMissing = ''OutputPrerequisiteMissing''"
| "engine_error_kind_debug EK_OutputAmbiguous = ''OutputAmbiguous''"
| "engine_error_kind_debug EK_OutputAccessDenied = ''OutputAccessDenied''"
| "engine_error_kind_debug EK_OutputInvalidEndpoint = ''OutputInvalidEndpoint''"
| "engine_error_kind_debug EK_OutputInvalidated = ''OutputInvalidated''"
| "engine_error_kind_debug EK_OutputRejectedWrite = ''OutputRejectedWrite''"
| "engine_error_kind_debug EK_OutputFailure = ''OutputFailure''"
| "engine_error_kind_debug EK_WorkerFailure = ''WorkerFailure''"
| "engine_error_kind_debug EK_StopTimeout = ''StopTimeout''"

text \<open>\<^verbatim>\<open>EngineError\<close>'s \<^verbatim>\<open>to_string\<close>.\<close>

definition engine_error_text :: "engine_error \<Rightarrow> message" where
  "engine_error_text e = Pieces [Text (engine_error_kind_debug (ee_kind e)), Text '': '', ee_message e]"

fun source_kind_to_engine :: "input_role \<Rightarrow> source_error_kind \<Rightarrow> engine_error_kind" where
  "source_kind_to_engine _ SK_InvalidSource = EK_InvalidSource"
| "source_kind_to_engine Microphone SK_Unavailable = EK_SourceUnavailable"
| "source_kind_to_engine Microphone SK_AccessDenied = EK_SourceAccessDenied"
| "source_kind_to_engine Microphone SK_DeviceInvalidated = EK_SourceInvalidated"
| "source_kind_to_engine Microphone SK_CaptureFailure = EK_SourceFailure"
| "source_kind_to_engine RenderLoopback SK_Unavailable = EK_RenderUnavailable"
| "source_kind_to_engine RenderLoopback SK_AccessDenied = EK_RenderAccessDenied"
| "source_kind_to_engine RenderLoopback SK_DeviceInvalidated = EK_RenderInvalidated"
| "source_kind_to_engine RenderLoopback SK_CaptureFailure = EK_RenderFailure"

definition engine_error_from_source :: "input_role \<Rightarrow> source_error \<Rightarrow> engine_error" where
  "engine_error_from_source role e =
     engine_error_new (source_kind_to_engine role (serr_kind e)) (serr_message e)"

fun output_kind_to_engine :: "output_error_kind \<Rightarrow> engine_error_kind" where
  "output_kind_to_engine OK_AccessDenied = EK_OutputAccessDenied"
| "output_kind_to_engine OK_PrerequisiteMissing = EK_OutputPrerequisiteMissing"
| "output_kind_to_engine OK_AmbiguousEndpoints = EK_OutputAmbiguous"
| "output_kind_to_engine OK_InvalidEndpoint = EK_OutputInvalidEndpoint"
| "output_kind_to_engine OK_DeviceInvalidated = EK_OutputInvalidated"
| "output_kind_to_engine OK_RejectedWrite = EK_OutputRejectedWrite"
| "output_kind_to_engine OK_SequenceViolation = EK_OutputRejectedWrite"
| "output_kind_to_engine _ = EK_OutputFailure"

definition engine_error_from_output :: "output_error \<Rightarrow> engine_error" where
  "engine_error_from_output e =
     engine_error_new (output_kind_to_engine (oerr_kind e)) (oerr_message e)"

lemma engine_error_from_source_kind [simp]:
  "ee_kind (engine_error_from_source role e) = source_kind_to_engine role (serr_kind e)"
  by (simp add: engine_error_from_source_def)

lemma engine_error_from_output_kind [simp]:
  "ee_kind (engine_error_from_output e) = output_kind_to_engine (oerr_kind e)"
  by (simp add: engine_error_from_output_def)

text \<open>The kind of a source failure identifies the role it came from, but for an invalid source.\<close>

lemma source_kind_to_engine_inj:
  "source_kind_to_engine r k = source_kind_to_engine r' k' \<longleftrightarrow>
     k = k' \<and> (r = r' \<or> k = SK_InvalidSource)"
  by (cases "(r, k)" rule: source_kind_to_engine.cases;
      cases "(r', k')" rule: source_kind_to_engine.cases) auto

section \<open>Snapshots\<close>

record processing_time_snapshot =
  pt_samples :: u64
  pt_p50_us :: u64
  pt_p95_us :: u64
  pt_p99_us :: u64
  pt_maximum_us :: u64

datatype output_sample_type_snapshot = SnapshotInteger | SnapshotFloat

record output_format_snapshot =
  ofs_sample_rate_hz :: u32
  ofs_channels :: u16
  ofs_bits_per_sample :: u16
  ofs_sample_type :: output_sample_type_snapshot

definition output_format_snapshot_from :: "output_format \<Rightarrow> output_format_snapshot" where
  "output_format_snapshot_from f = \<lparr>ofs_sample_rate_hz = of_sample_rate_hz f,
     ofs_channels = of_channels f, ofs_bits_per_sample = of_bits_per_sample f,
     ofs_sample_type = (case of_sample_type f of Integer \<Rightarrow> SnapshotInteger | Float \<Rightarrow> SnapshotFloat)\<rparr>"

datatype sink_transport_state = SinkClosed | SinkOpen

fun sink_transport_state_from :: "session_state \<Rightarrow> sink_transport_state" where
  "sink_transport_state_from Closed = SinkClosed"
| "sink_transport_state_from Open = SinkOpen"

record sink_transport_snapshot =
  st_schema_version :: u16
  st_state :: sink_transport_state
  st_active_session_id :: "u128 option"
  st_last_accepted_sequence :: "u64 option"
  st_current_depth :: u32
  st_high_water_mark :: u32
  st_session_opens :: u64
  st_session_closes :: u64
  st_session_resets :: u64
  st_accepted_frames :: u64
  st_rejected_writes :: u64
  st_underruns :: u64
  st_overflows :: u64
  st_discarded_frames :: u64
  st_current_padding_frames :: u32
  st_rendered_frames :: u64
  st_output_clock_frequency :: "u64 option"
  st_output_clock_position :: "u64 option"
  st_output_clock_qpc_position :: "u64 option"
  st_negotiated_format :: "output_format_snapshot option"
  st_converted_frames :: u64
  st_endpoint_invalidations :: u64
  st_output_failures :: u64
  st_driver_restarts :: u64

definition sink_transport_snapshot_from :: "output_diagnostics \<Rightarrow> sink_transport_snapshot" where
  "sink_transport_snapshot_from d =
    \<lparr>st_schema_version = od_schema_version d,
     st_state = sink_transport_state_from (od_state d),
     st_active_session_id = map_option session_id_get (od_active_session d),
     st_last_accepted_sequence = od_last_accepted_sequence d,
     st_current_depth = od_current_depth d,
     st_high_water_mark = od_high_water_mark d,
     st_session_opens = dc_session_opens (od_counters d),
     st_session_closes = dc_session_closes (od_counters d),
     st_session_resets = 0,
     st_accepted_frames = dc_accepted_frames (od_counters d),
     st_rejected_writes = dc_rejected_writes (od_counters d),
     st_underruns = dc_underruns (od_counters d),
     st_overflows = dc_overflows (od_counters d),
     st_discarded_frames = dc_discarded_frames (od_counters d),
     st_current_padding_frames = od_current_padding_frames d,
     st_rendered_frames = od_rendered_frames d,
     st_output_clock_frequency = od_output_clock_frequency d,
     st_output_clock_position = od_output_clock_position d,
     st_output_clock_qpc_position = od_output_clock_qpc_position d,
     st_negotiated_format = map_option output_format_snapshot_from (od_negotiated_format d),
     st_converted_frames = dc_converted_frames (od_counters d),
     st_endpoint_invalidations = dc_endpoint_invalidations (od_counters d),
     st_output_failures = dc_output_failures (od_counters d),
     st_driver_restarts = 0\<rparr>"

record output_pair_snapshot =
  op_cable_input_endpoint_id :: str
  op_cable_input_friendly_name :: str
  op_cable_output_endpoint_id :: str
  op_cable_output_friendly_name :: str
  op_device_family :: str

definition output_pair_snapshot_from :: "output_pair \<Rightarrow> output_pair_snapshot" where
  "output_pair_snapshot_from pair =
    \<lparr>op_cable_input_endpoint_id = oe_endpoint_id (playback pair),
     op_cable_input_friendly_name = oe_friendly_name (playback pair),
     op_cable_output_endpoint_id = oe_endpoint_id (recording pair),
     op_cable_output_friendly_name = oe_friendly_name (recording pair),
     op_device_family = oe_device_family (playback pair)\<rparr>"

end
