(* ===== verification/Engine_Snapshot.thy ===== *)
theory Engine_Snapshot
  imports Engine_Types
begin

text \<open>
  \<^verbatim>\<open>EngineSnapshot\<close> of \<^verbatim>\<open>crates/mini-aec-engine/src/lib.rs\<close>, field by field, with its default
  value, and the records of a validation run.
\<close>

definition default_processing_time :: processing_time_snapshot where
  "default_processing_time =
     \<lparr>pt_samples = 0, pt_p50_us = 0, pt_p95_us = 0, pt_p99_us = 0, pt_maximum_us = 0\<rparr>"

record engine_snapshot =
  es_state :: engine_state
  es_mode :: "processing_mode option"
  es_source :: "source_descriptor option"
  es_render_source :: "source_descriptor option"
  es_output_pair :: "output_pair_snapshot option"
  es_run_id :: "u128 option"
  es_session_id :: "u128 option"
  es_aec_instance_id :: "u128 option"
  es_captured_packets :: u64
  es_captured_samples :: u64
  es_silent_packets :: u64
  es_discontinuities :: u64
  es_timestamp_errors :: u64
  es_sanitized_samples :: u64
  es_output_frames :: u64
  es_queue_depth :: u32
  es_queue_high_water :: u32
  es_queue_overflows :: u64
  es_discarded_frames :: u64
  es_sink_accepted_frames :: u64
  es_sink_failures :: u64
  es_sink_diagnostics_start :: "sink_transport_snapshot option"
  es_sink_diagnostics_latest :: "sink_transport_snapshot option"
  es_last_device_position :: "u64 option"
  es_last_qpc_timestamp_100ns :: "u64 option"
  es_render_packets :: u64
  es_render_samples :: u64
  es_render_silent_packets :: u64
  es_render_discontinuities :: u64
  es_render_timestamp_errors :: u64
  es_render_sanitized_samples :: u64
  es_render_frames :: u64
  es_render_queue_depth :: u32
  es_render_queue_high_water :: u32
  es_render_queue_overflows :: u64
  es_render_discarded_frames :: u64
  es_last_render_device_position :: "u64 option"
  es_last_render_qpc_timestamp_100ns :: "u64 option"
  es_synchronization_epoch :: u64
  es_synchronization_origin_qpc_100ns :: "u64 option"
  es_current_delta_100ns :: "i64 option"
  es_maximum_absolute_skew_100ns :: u64
  es_paired_frames :: u64
  es_silent_render_references :: u64
  es_stale_render_frames :: u64
  es_alignment_resets :: u64
  es_aec_processed_frames :: u64
  es_aec_resets :: u64
  es_aec_rebuilds :: u64
  es_aec_invalid_outputs :: u64
  es_processing_deadline_misses :: u64
  es_processing_time :: processing_time_snapshot
  es_degradation_reason :: "degradation_reason option"
  es_last_error :: "engine_error option"

definition default_snapshot :: engine_snapshot where
  "default_snapshot = \<lparr>
     es_state = Stopped,
     es_mode = None,
     es_source = None,
     es_render_source = None,
     es_output_pair = None,
     es_run_id = None,
     es_session_id = None,
     es_aec_instance_id = None,
     es_captured_packets = 0,
     es_captured_samples = 0,
     es_silent_packets = 0,
     es_discontinuities = 0,
     es_timestamp_errors = 0,
     es_sanitized_samples = 0,
     es_output_frames = 0,
     es_queue_depth = 0,
     es_queue_high_water = 0,
     es_queue_overflows = 0,
     es_discarded_frames = 0,
     es_sink_accepted_frames = 0,
     es_sink_failures = 0,
     es_sink_diagnostics_start = None,
     es_sink_diagnostics_latest = None,
     es_last_device_position = None,
     es_last_qpc_timestamp_100ns = None,
     es_render_packets = 0,
     es_render_samples = 0,
     es_render_silent_packets = 0,
     es_render_discontinuities = 0,
     es_render_timestamp_errors = 0,
     es_render_sanitized_samples = 0,
     es_render_frames = 0,
     es_render_queue_depth = 0,
     es_render_queue_high_water = 0,
     es_render_queue_overflows = 0,
     es_render_discarded_frames = 0,
     es_last_render_device_position = None,
     es_last_render_qpc_timestamp_100ns = None,
     es_synchronization_epoch = 0,
     es_synchronization_origin_qpc_100ns = None,
     es_current_delta_100ns = None,
     es_maximum_absolute_skew_100ns = 0,
     es_paired_frames = 0,
     es_silent_render_references = 0,
     es_stale_render_frames = 0,
     es_alignment_resets = 0,
     es_aec_processed_frames = 0,
     es_aec_resets = 0,
     es_aec_rebuilds = 0,
     es_aec_invalid_outputs = 0,
     es_processing_deadline_misses = 0,
     es_processing_time = default_processing_time,
     es_degradation_reason = None,
     es_last_error = None\<rparr>"

datatype validation_event_kind = Started | Periodic | Final | EventFailed

record validation_event =
  ve_schema_version :: u16
  ve_unix_ms :: u128
  ve_monotonic_elapsed_ms :: u128
  ve_requested_duration_ms :: u128
  ve_event :: validation_event_kind
  ve_snapshot :: engine_snapshot

end
