(* ===== verification/Bounded_Queue.thy ===== *)
theory Bounded_Queue
  imports Prelude "HOL-Library.Sublist"
begin

text \<open>
  What the two frame queues of the engine promise, as a locale: a bounded FIFO that drops the
  oldest frame when it is full, refuses frames once it is finished or failed, and keeps its metrics
  in step.  The client's lemmas are proved here once, over arbitrary sequences of the operations,
  which is also what the threads of the engine do to a queue: every operation runs under the
  queue's mutex, so any interleaving of producer and consumer is one such sequence.
\<close>

record queue_metrics =
  qm_depth :: u32
  qm_high_water :: u32
  qm_overflows :: u64
  qm_discarded :: u64

definition default_queue_metrics :: queue_metrics where
  "default_queue_metrics = \<lparr>qm_depth = 0, qm_high_water = 0, qm_overflows = 0, qm_discarded = 0\<rparr>"

datatype 'f pop_result = Frame 'f | Timeout | Finished

text \<open>The mutex-protected state, \<^verbatim>\<open>QueueState\<close> and \<^verbatim>\<open>TimedQueueState\<close>.\<close>

record 'f queue_state =
  qs_frames :: "'f list"
  qs_producer_done :: bool
  qs_failed :: bool
  qs_metrics :: queue_metrics

section \<open>Sequences of operations\<close>

datatype 'f queue_op = QPush 'f | QPop | QFinish | QFail | QClear

fun frames_of :: "'f pop_result \<Rightarrow> 'f list" where
  "frames_of (Frame f) = [f]"
| "frames_of Timeout = []"
| "frames_of Finished = []"

text \<open>
  \<open>queue_run\<close> performs the operations in order and returns the final queue and the frames that the
  pops delivered.
\<close>

fun queue_step ::
  "('f \<Rightarrow> 'q \<Rightarrow> 'q) \<Rightarrow> ('q \<Rightarrow> 'q \<times> 'f pop_result) \<Rightarrow> ('q \<Rightarrow> 'q) \<Rightarrow> ('q \<Rightarrow> 'q) \<Rightarrow> ('q \<Rightarrow> 'q)
     \<Rightarrow> 'f queue_op \<Rightarrow> 'q \<Rightarrow> 'q \<times> 'f list" where
  "queue_step push pop finish fail clear (QPush f) q = (push f q, [])"
| "queue_step push pop finish fail clear QPop q = (fst (pop q), frames_of (snd (pop q)))"
| "queue_step push pop finish fail clear QFinish q = (finish q, [])"
| "queue_step push pop finish fail clear QFail q = (fail q, [])"
| "queue_step push pop finish fail clear QClear q = (clear q, [])"

fun queue_run :: "('f queue_op \<Rightarrow> 'q \<Rightarrow> 'q \<times> 'f list) \<Rightarrow> 'f queue_op list \<Rightarrow> 'q \<Rightarrow> 'q \<times> 'f list" where
  "queue_run step [] q = (q, [])"
| "queue_run step (a # as) q =
    (let (q', out) = step a q; (q'', outs) = queue_run step as q' in (q'', out @ outs))"

text \<open>The frames that a queue takes in: those pushed before it is finished or failed.\<close>

fun accepted :: "bool \<Rightarrow> 'f queue_op list \<Rightarrow> 'f list" where
  "accepted closed [] = []"
| "accepted closed (QPush f # as) = (if closed then [] else [f]) @ accepted closed as"
| "accepted closed (QPop # as) = accepted closed as"
| "accepted closed (QFinish # as) = accepted True as"
| "accepted closed (QFail # as) = accepted True as"
| "accepted closed (QClear # as) = accepted closed as"

lemma accepted_closed [simp]: "accepted True as = []"
  by (induction "True" as rule: accepted.induct) simp_all

lemma queue_run_Cons:
  "queue_run step (a # as) q = (fst (queue_run step as (fst (step a q))),
     snd (step a q) @ snd (queue_run step as (fst (step a q))))"
  by (simp add: Let_def split: prod.splits)

declare queue_run.simps(2) [simp del]

lemma queue_run_append:
  "queue_run step (as @ bs) q =
    (let (q', out) = queue_run step as q; (q'', outs) = queue_run step bs q' in (q'', out @ outs))"
  by (induction as arbitrary: q) (auto simp: queue_run_Cons Let_def split: prod.splits)

definition keep_last :: "nat \<Rightarrow> 'f list \<Rightarrow> 'f list" where
  "keep_last n xs = drop (length xs - n) xs"

lemma keep_last_append: "keep_last n (keep_last n xs @ ys) = keep_last n (xs @ ys)"
  by (cases "length xs \<le> n") (auto simp: keep_last_def add.commute)

section \<open>The contract\<close>

locale latest_wins_queue =
  fixes cap :: nat
    and new_queue :: "'q"
    and push :: "'f \<Rightarrow> 'q \<Rightarrow> 'q"
    and pop :: "'q \<Rightarrow> 'q \<times> 'f pop_result"
    and finish :: "'q \<Rightarrow> 'q"
    and fail :: "'q \<Rightarrow> 'q"
    and clear :: "'q \<Rightarrow> 'q"
    and items :: "'q \<Rightarrow> 'f list"
    and finished :: "'q \<Rightarrow> bool"
    and failed :: "'q \<Rightarrow> bool"
    and metrics :: "'q \<Rightarrow> queue_metrics"
  assumes cap_pos: "0 < cap" and cap_small: "cap < 2 ^ 32"
    and new_items: "items new_queue = []"
    and new_open: "\<not> finished new_queue" "\<not> failed new_queue"
    and new_metrics: "metrics new_queue = default_queue_metrics"
    and push_closed: "failed q \<or> finished q \<Longrightarrow> push f q = q"
    and push_items: "\<not> failed q \<Longrightarrow> \<not> finished q \<Longrightarrow>
      items (push f q) = (if length (items q) = cap then tl (items q) else items q) @ [f]"
    and push_flags: "finished (push f q) = finished q" "failed (push f q) = failed q"
    and push_metrics: "\<not> failed q \<Longrightarrow> \<not> finished q \<Longrightarrow>
      metrics (push f q) = \<lparr>qm_depth = of_nat (length (items (push f q))),
        qm_high_water = max (qm_high_water (metrics q)) (of_nat (length (items (push f q)))),
        qm_overflows = qm_overflows (metrics q) + of_bool (length (items q) = cap),
        qm_discarded = qm_discarded (metrics q) + of_bool (length (items q) = cap)\<rparr>"
    and pop_failed: "failed q \<Longrightarrow> pop q = (q, Finished)"
    and pop_empty: "\<not> failed q \<Longrightarrow> items q = [] \<Longrightarrow>
      pop q = (q, if finished q then Finished else Timeout)"
    and pop_frame: "\<not> failed q \<Longrightarrow> items q = f # fs \<Longrightarrow> snd (pop q) = Frame f"
    and pop_items: "\<not> failed q \<Longrightarrow> items (fst (pop q)) = tl (items q)"
    and pop_flags: "finished (fst (pop q)) = finished q" "failed (fst (pop q)) = failed q"
    and pop_metrics: "\<not> failed q \<Longrightarrow> items q \<noteq> [] \<Longrightarrow>
      metrics (fst (pop q)) = (metrics q)\<lparr>qm_depth := of_nat (length (items q) - 1)\<rparr>"
    and finish_view: "items (finish q) = items q" "finished (finish q)"
      "failed (finish q) = failed q" "metrics (finish q) = metrics q"
    and fail_view: "items (fail q) = []" "finished (fail q) = finished q" "failed (fail q)"
      "metrics (fail q) = (metrics q)\<lparr>qm_depth := 0\<rparr>"
    and clear_view: "items (clear q) = []" "finished (clear q) = finished q"
      "failed (clear q) = failed q" "metrics (clear q) = (metrics q)\<lparr>qm_depth := 0\<rparr>"
begin

abbreviation step :: "'f queue_op \<Rightarrow> 'q \<Rightarrow> 'q \<times> 'f list" where
  "step \<equiv> queue_step push pop finish fail clear"

abbreviation run :: "'f queue_op list \<Rightarrow> 'q \<Rightarrow> 'q \<times> 'f list" where
  "run \<equiv> queue_run step"

definition ok :: "'q \<Rightarrow> bool" where
  "ok q \<longleftrightarrow> length (items q) \<le> cap \<and> (failed q \<longrightarrow> items q = [])
     \<and> qm_depth (metrics q) = of_nat (length (items q))
     \<and> length (items q) \<le> unat (qm_high_water (metrics q))
     \<and> unat (qm_high_water (metrics q)) \<le> cap
     \<and> qm_discarded (metrics q) = qm_overflows (metrics q)"

lemma small_depth: "n \<le> cap \<Longrightarrow> unat (of_nat n :: u32) = n"
  using cap_small by (simp add: unsigned_of_nat take_bit_nat_eq_self)

lemma unat_max_word: "unat (max a b) = max (unat a) (unat (b :: u32))"
  by (simp add: max_def word_le_nat_alt)

lemma ok_new: "ok new_queue"
  by (simp add: ok_def new_items new_metrics default_queue_metrics_def new_open)

lemma push_length: "ok q \<Longrightarrow> length (items (push f q)) \<le> cap"
  using cap_pos by (cases "failed q \<or> finished q") (auto simp: ok_def push_closed push_items)

lemma ok_push: "ok q \<Longrightarrow> ok (push f q)"
proof (cases "failed q \<or> finished q")
  case False
  assume "ok q"
  from push_length [OF this] have "unat (of_nat (length (items (push f q))) :: u32)
      = length (items (push f q))" by (rule small_depth)
  with False \<open>ok q\<close> push_length [OF \<open>ok q\<close>] show ?thesis
    by (simp add: ok_def push_metrics push_flags unat_max_word)
qed (simp add: push_closed)

lemma pop_unchanged: "failed q \<or> items q = [] \<Longrightarrow> fst (pop q) = q"
  by (cases "failed q") (simp_all add: pop_failed pop_empty)

lemma ok_pop: "ok q \<Longrightarrow> ok (fst (pop q))"
proof (cases "failed q \<or> items q = []")
  case False
  assume q: "ok q"
  then have le: "length (items q) - Suc 0 \<le> length (items q)" "length (items q) \<le> cap"
    "length (items q) \<le> unat (qm_high_water (metrics q))"
    by (simp_all add: ok_def)
  then show ?thesis
    using le False q by (auto simp: ok_def pop_items pop_flags pop_metrics)
qed (simp add: pop_unchanged)

lemma ok_finish: "ok q \<Longrightarrow> ok (finish q)" and ok_fail: "ok q \<Longrightarrow> ok (fail q)"
  and ok_clear: "ok q \<Longrightarrow> ok (clear q)"
  by (simp_all add: ok_def finish_view fail_view clear_view)

lemma ok_step: "ok q \<Longrightarrow> ok (fst (step a q))"
  by (cases a) (simp_all add: ok_push ok_pop ok_finish ok_fail ok_clear)

lemma ok_run: "ok q \<Longrightarrow> ok (fst (run as q))"
proof (induction as arbitrary: q)
  case (Cons a as)
  from Cons.IH [OF ok_step [OF Cons.prems]] show ?case
    by (simp add: queue_run_Cons)
qed simp

text \<open>First in, first out: what was delivered and what waits is a subsequence of what was taken in.\<close>

lemma push_subseq: "\<not> failed q \<Longrightarrow> \<not> finished q \<Longrightarrow> subseq (items (push f q)) (items q @ [f])"
  by (simp add: push_items suffix_imp_subseq suffix_tl)

lemma step_subseq:
  assumes "ok q"
  shows "subseq (snd (step a q) @ items (fst (step a q)))
    (items q @ accepted (failed q \<or> finished q) [a])"
proof (cases a)
  case (QPush f)
  then show ?thesis
    using push_subseq by (cases "failed q \<or> finished q") (simp_all add: push_closed)
next
  case QPop
  then show ?thesis
    by (cases "failed q"; cases "items q")
      (simp_all add: pop_failed pop_empty pop_frame pop_items)
qed (simp_all add: finish_view fail_view clear_view)

lemma step_closed:
  "accepted (failed q \<or> finished q) (a # as) =
     accepted (failed q \<or> finished q) [a]
       @ accepted (failed (fst (step a q)) \<or> finished (fst (step a q))) as"
  by (cases a) (simp_all add: push_flags pop_flags finish_view fail_view clear_view)

lemma run_fifo:
  "ok q \<Longrightarrow> subseq (snd (run as q) @ items (fst (run as q)))
     (items q @ accepted (failed q \<or> finished q) as)"
proof (induction as arbitrary: q)
  case (Cons a as)
  let ?q = "fst (step a q)"
  let ?rest = "accepted (failed ?q \<or> finished ?q) as"
  from Cons.IH [OF ok_step [OF Cons.prems]]
  have "subseq (snd (step a q) @ snd (run as ?q) @ items (fst (run as ?q)))
      (snd (step a q) @ items ?q @ ?rest)"
    unfolding subseq_append' .
  also have "subseq (snd (step a q) @ items ?q @ ?rest)
      (items q @ accepted (failed q \<or> finished q) [a] @ ?rest)"
    using list_emb_append_mono [OF step_subseq [OF Cons.prems] subseq_order.order_refl]
    by (simp only: append_assoc)
  finally show ?case
    unfolding step_closed [of q a as] queue_run_Cons by (simp only: append_assoc fst_conv snd_conv)
qed simp

text \<open>Nothing is lost but what the overflow counter reports (counters modulo \<open>2 ^ 64\<close>).\<close>

lemma step_accounting:
  assumes "ok q" "\<not> failed q" "a \<noteq> QFail" "a \<noteq> QClear"
  shows "of_nat (length (items q) + length (accepted (finished q) [a])) + qm_discarded (metrics q)
    = of_nat (length (snd (step a q)) + length (items (fst (step a q))))
      + qm_discarded (metrics (fst (step a q)))"
proof (cases a)
  case (QPush f)
  with assms cap_pos show ?thesis
    by (cases "finished q"; cases "length (items q) = cap"; cases "items q")
      (auto simp: push_closed push_items push_metrics)
next
  case QPop
  with assms show ?thesis
    by (cases "items q") (simp_all add: pop_empty pop_frame pop_items pop_metrics)
qed (use assms in \<open>simp_all add: finish_view\<close>)

lemma account_chain:
  fixes a :: u64
  assumes "a + x + d = p + i + e" "i + y + e = r + j + h"
  shows "a + (x + y) + d = p + r + j + h"
proof -
  have i: "i = a + x + d - p - e" using assms(1) by (simp add: algebra_simps)
  show ?thesis using assms(2) unfolding i by (simp add: algebra_simps)
qed

lemma run_accounting:
  "ok q \<Longrightarrow> \<not> failed q \<Longrightarrow> QFail \<notin> set as \<Longrightarrow> QClear \<notin> set as \<Longrightarrow>
     of_nat (length (items q) + length (accepted (finished q) as)) + qm_discarded (metrics q)
       = of_nat (length (snd (run as q)) + length (items (fst (run as q))))
         + qm_discarded (metrics (fst (run as q)))"
proof (induction as arbitrary: q)
  case (Cons a as)
  let ?q = "fst (step a q)"
  have a: "a \<noteq> QFail" "a \<noteq> QClear" using Cons.prems by auto
  then have nf: "\<not> failed ?q" using Cons.prems
    by (cases a) (auto simp: push_flags pop_flags finish_view)
  have "accepted (finished q) (a # as) = accepted (finished q) [a] @ accepted (finished ?q) as"
    using step_closed [of q a as] Cons.prems nf by simp
  moreover note step_accounting [OF Cons.prems(1,2) a]
  moreover have "of_nat (length (items ?q) + length (accepted (finished ?q) as))
        + qm_discarded (metrics ?q)
      = of_nat (length (snd (run as ?q)) + length (items (fst (run as ?q))))
        + qm_discarded (metrics (fst (run as ?q)))"
    using Cons.IH [OF ok_step [OF Cons.prems(1)] nf] Cons.prems(3,4) by simp
  ultimately show ?case
    using account_chain by (simp add: queue_run_Cons)
qed simp

text \<open>Latest wins: a burst of pushes leaves the last \<open>cap\<close> frames, in order.\<close>

lemma run_pushes:
  "ok q \<Longrightarrow> \<not> failed q \<Longrightarrow> \<not> finished q \<Longrightarrow>
     items (fst (run (map QPush fs) q)) = keep_last cap (items q @ fs)"
proof (induction fs arbitrary: q)
  case Nil
  then show ?case by (simp add: ok_def keep_last_def)
next
  case (Cons f fs)
  have "items (push f q) = keep_last cap (items q @ [f])"
    using Cons.prems cap_pos
    by (cases "length (items q) = cap")
      (auto simp: ok_def push_items keep_last_def drop_Suc)
  then have "keep_last cap (items (push f q) @ fs) = keep_last cap (items q @ f # fs)"
    by (simp add: keep_last_append)
  with Cons.IH [OF ok_push [OF Cons.prems(1)]] Cons.prems show ?case
    by (simp add: queue_run_Cons push_flags)
qed

text \<open>A finished queue is drained completely before it reports the end, a failed one at once.\<close>

lemma run_drain:
  "\<not> failed q \<Longrightarrow> snd (run (replicate (length (items q)) QPop) q) = items q
     \<and> items (fst (run (replicate (length (items q)) QPop) q)) = []"
proof (induction "items q" arbitrary: q)
  case (Cons f fs)
  note q = Cons.hyps(2) [symmetric]
  have "items (fst (pop q)) = fs" "\<not> failed (fst (pop q))" "snd (pop q) = Frame f"
    using Cons.prems q by (simp_all add: pop_items pop_flags pop_frame [OF _ q])
  with Cons.hyps(1) [of "fst (pop q)"] q show ?case
    by (simp add: queue_run_Cons)
qed simp

lemma run_finished: "finished q \<Longrightarrow> finished (fst (run as q))"
proof (induction as arbitrary: q)
  case (Cons a as)
  have "finished (fst (step a q))" using Cons.prems
    by (cases a) (simp_all add: push_flags pop_flags finish_view fail_view clear_view)
  with Cons.IH show ?case by (simp add: queue_run_Cons)
qed simp

lemma run_failed: "failed q \<Longrightarrow> failed (fst (run as q)) \<and> snd (run as q) = []"
proof (induction as arbitrary: q)
  case (Cons a as)
  have "failed (fst (step a q)) \<and> snd (step a q) = []" using Cons.prems
    by (cases a) (simp_all add: push_flags pop_flags finish_view fail_view clear_view pop_failed)
  with Cons.IH [of "fst (step a q)"] show ?case by (simp add: queue_run_Cons)
qed simp

lemma no_end_before_frames:
  "snd (pop q) = Finished \<Longrightarrow> failed q \<or> finished q \<and> items q = []"
  by (cases "failed q"; cases "items q")
    (auto simp: pop_frame pop_empty split: if_splits)

end

text \<open>
  The render queue is also polled without waiting; \<^verbatim>\<open>try_pop\<close> does not look at the flags, and
  the laws say that this makes no difference in the states that occur.
\<close>

locale polled_queue = latest_wins_queue cap new_queue push pop finish fail clear items finished
    failed metrics
  for cap :: nat
    and new_queue :: "'q"
    and push :: "'f \<Rightarrow> 'q \<Rightarrow> 'q"
    and pop :: "'q \<Rightarrow> 'q \<times> 'f pop_result"
    and finish :: "'q \<Rightarrow> 'q"
    and fail :: "'q \<Rightarrow> 'q"
    and clear :: "'q \<Rightarrow> 'q"
    and items :: "'q \<Rightarrow> 'f list"
    and finished :: "'q \<Rightarrow> bool"
    and failed :: "'q \<Rightarrow> bool"
    and metrics :: "'q \<Rightarrow> queue_metrics" +
  fixes try_pop :: "'q \<Rightarrow> 'q \<times> 'f option"
  assumes try_pop_result: "snd (try_pop q) = (case items q of [] \<Rightarrow> None | f # _ \<Rightarrow> Some f)"
    and try_pop_items: "items (fst (try_pop q)) = tl (items q)"
    and try_pop_flags: "finished (fst (try_pop q)) = finished q" "failed (fst (try_pop q)) = failed q"
    and try_pop_metrics:
      "metrics (fst (try_pop q)) = (metrics q)\<lparr>qm_depth := of_nat (length (items q) - 1)\<rparr>"
begin

lemma ok_try_pop: "ok q \<Longrightarrow> ok (fst (try_pop q))"
proof -
  assume q: "ok q"
  then have le: "length (items q) - Suc 0 \<le> length (items q)" "length (items q) \<le> cap"
    "length (items q) \<le> unat (qm_high_water (metrics q))"
    by (simp_all add: ok_def)
  then show ?thesis using le q
    by (auto simp: ok_def try_pop_items try_pop_flags try_pop_metrics)
qed

lemma try_pop_as_pop:
  "ok q \<Longrightarrow> snd (try_pop q) = Some f \<longleftrightarrow> snd (pop q) = Frame f"
  by (cases "failed q"; cases "items q")
    (auto simp: try_pop_result pop_failed pop_empty pop_frame ok_def)

end

end
