(* ===== verification/Frame_Queue.thy ===== *)
theory Frame_Queue
  imports Bounded_Queue Engine_Types
begin

text \<open>
  \<^verbatim>\<open>crates/mini-aec-engine/src/queue.rs\<close>: the queue of finished PCM frames between a
  processing thread and the sink thread.  Each operation is one critical section of the queue's
  mutex.  The conversions of the length to \<^verbatim>\<open>u32\<close> cannot fail: the queue holds at most four
  frames (\<open>frame_queue_ok\<close>).
\<close>

definition QUEUE_CAPACITY :: nat where "QUEUE_CAPACITY = 4"

type_synonym frame_queue = "pcm_samples queue_state"

definition frame_queue_new :: frame_queue where
  "frame_queue_new = \<lparr>qs_frames = [], qs_producer_done = False, qs_failed = False,
     qs_metrics = default_queue_metrics\<rparr>"

definition frame_queue_push :: "pcm_samples \<Rightarrow> frame_queue \<Rightarrow> frame_queue \<times> queue_metrics" where
  "frame_queue_push frame q =
    (if qs_failed q \<or> qs_producer_done q then (q, qs_metrics q)
     else
       let m = qs_metrics q;
           full = length (qs_frames q) = QUEUE_CAPACITY;
           kept = (if full then tl (qs_frames q) else qs_frames q);
           m = (if full then m\<lparr>qm_overflows := qm_overflows m + 1,
                               qm_discarded := qm_discarded m + 1\<rparr> else m);
           frames = kept @ [frame];
           m = m\<lparr>qm_depth := of_nat (length frames)\<rparr>;
           m = m\<lparr>qm_high_water := max (qm_high_water m) (qm_depth m)\<rparr>
       in (q\<lparr>qs_frames := frames, qs_metrics := m\<rparr>, m))"

text \<open>
  \<open>frame_queue_pop\<close> waits only when it finds the queue empty and open; \<open>wait\<close> is what the other
  threads do to the queue before the wait ends (by notification, timeout or spuriously).  The rest
  of the operation is \<open>frame_queue_take\<close>.
\<close>

definition frame_queue_take :: "frame_queue \<Rightarrow> frame_queue \<times> pcm_samples pop_result" where
  "frame_queue_take q =
    (if qs_failed q then (q, Finished)
     else case qs_frames q of
       frame # rest \<Rightarrow>
         (q\<lparr>qs_frames := rest, qs_metrics := (qs_metrics q)\<lparr>qm_depth := of_nat (length rest)\<rparr>\<rparr>,
          Frame frame)
     | [] \<Rightarrow> if qs_producer_done q then (q, Finished) else (q, Timeout))"

definition frame_queue_pop ::
  "(frame_queue \<Rightarrow> frame_queue) \<Rightarrow> frame_queue \<Rightarrow> frame_queue \<times> pcm_samples pop_result" where
  "frame_queue_pop wait q =
    (let q = (if qs_frames q = [] \<and> \<not> qs_producer_done q \<and> \<not> qs_failed q then wait q else q)
     in frame_queue_take q)"

definition frame_queue_finish_producer :: "frame_queue \<Rightarrow> frame_queue" where
  "frame_queue_finish_producer q = q\<lparr>qs_producer_done := True\<rparr>"

definition frame_queue_fail :: "frame_queue \<Rightarrow> frame_queue" where
  "frame_queue_fail q = q\<lparr>qs_failed := True, qs_frames := [],
     qs_metrics := (qs_metrics q)\<lparr>qm_depth := 0\<rparr>\<rparr>"

definition frame_queue_clear :: "frame_queue \<Rightarrow> frame_queue \<times> queue_metrics" where
  "frame_queue_clear q =
    (let m = (qs_metrics q)\<lparr>qm_depth := 0\<rparr> in (q\<lparr>qs_frames := [], qs_metrics := m\<rparr>, m))"

definition frame_queue_metrics :: "frame_queue \<Rightarrow> queue_metrics" where
  "frame_queue_metrics q = qs_metrics q"

section \<open>The queue keeps the contract\<close>

lemmas frame_queue_defs = frame_queue_new_def frame_queue_push_def frame_queue_take_def
  frame_queue_finish_producer_def frame_queue_fail_def frame_queue_clear_def
  default_queue_metrics_def QUEUE_CAPACITY_def

interpretation fq: latest_wins_queue QUEUE_CAPACITY frame_queue_new
    "\<lambda>f q. fst (frame_queue_push f q)" frame_queue_take frame_queue_finish_producer
    frame_queue_fail "\<lambda>q. fst (frame_queue_clear q)" qs_frames qs_producer_done qs_failed qs_metrics
  by unfold_locales
    (auto simp: frame_queue_defs Let_def split: list.splits)

definition frame_queue_ok :: "frame_queue \<Rightarrow> bool" where
  "frame_queue_ok q \<longleftrightarrow> length (qs_frames q) \<le> QUEUE_CAPACITY \<and> (qs_failed q \<longrightarrow> qs_frames q = [])
     \<and> qm_depth (qs_metrics q) = of_nat (length (qs_frames q))
     \<and> length (qs_frames q) \<le> unat (qm_high_water (qs_metrics q))
     \<and> unat (qm_high_water (qs_metrics q)) \<le> QUEUE_CAPACITY
     \<and> qm_discarded (qs_metrics q) = qm_overflows (qs_metrics q)"

lemma frame_queue_ok_iff: "fq.ok q \<longleftrightarrow> frame_queue_ok q"
  by (simp add: fq.ok_def frame_queue_ok_def)

lemma frame_queue_ok_new [invar_intros]: "frame_queue_ok frame_queue_new"
  using fq.ok_new by (simp add: frame_queue_ok_iff)

lemma frame_queue_ok_push [invar_intros]:
  "frame_queue_ok q \<Longrightarrow> frame_queue_ok (fst (frame_queue_push f q))"
  using fq.ok_push by (simp add: frame_queue_ok_iff)

lemma frame_queue_ok_take [invar_intros]:
  "frame_queue_ok q \<Longrightarrow> frame_queue_ok (fst (frame_queue_take q))"
  using fq.ok_pop by (simp add: frame_queue_ok_iff)

lemma frame_queue_ok_others [invar_intros]:
  "frame_queue_ok q \<Longrightarrow> frame_queue_ok (frame_queue_finish_producer q)"
  "frame_queue_ok q \<Longrightarrow> frame_queue_ok (frame_queue_fail q)"
  "frame_queue_ok q \<Longrightarrow> frame_queue_ok (fst (frame_queue_clear q))"
  using fq.ok_finish fq.ok_fail fq.ok_clear by (simp_all add: frame_queue_ok_iff)

lemma frame_queue_ok_pop [invar_intros]:
  "frame_queue_ok q \<Longrightarrow> (\<And>q. frame_queue_ok q \<Longrightarrow> frame_queue_ok (wait q)) \<Longrightarrow>
     frame_queue_ok (fst (frame_queue_pop wait q))"
  by (simp add: frame_queue_pop_def Let_def frame_queue_ok_take)

lemma frame_queue_push_returns_metrics:
  "snd (frame_queue_push f q) = qs_metrics (fst (frame_queue_push f q))"
  by (simp add: frame_queue_push_def Let_def)

section \<open>Sequences of queue operations\<close>

definition frame_queue_run ::
  "pcm_samples queue_op list \<Rightarrow> frame_queue \<Rightarrow> frame_queue \<times> pcm_samples list" where
  "frame_queue_run = queue_run (queue_step (\<lambda>f q. fst (frame_queue_push f q)) frame_queue_take
     frame_queue_finish_producer frame_queue_fail (\<lambda>q. fst (frame_queue_clear q)))"

lemma frame_queue_run_iff: "fq.run = frame_queue_run"
  by (simp add: frame_queue_run_def)

lemma frame_queue_pop_as_run:
  "frame_queue_pop (\<lambda>q. fst (frame_queue_run as q)) q =
     frame_queue_take (fst (frame_queue_run
       (if qs_frames q = [] \<and> \<not> qs_producer_done q \<and> \<not> qs_failed q then as else []) q))"
  by (simp add: frame_queue_pop_def frame_queue_run_def)

text \<open>C8
  First in, first out, and bounded: whatever sequence of operations the threads perform on a new
  frame queue, the frames delivered so far followed by the frames still queued are a subsequence of
  the frames the queue took in (so none is reordered, duplicated or invented), at most four are
  queued, and the metrics agree with the queue.\<close>

theorem frame_queue_trace:
  "subseq (snd (frame_queue_run ops frame_queue_new)
       @ qs_frames (fst (frame_queue_run ops frame_queue_new))) (accepted False ops)
   \<and> frame_queue_ok (fst (frame_queue_run ops frame_queue_new))"
proof -
  have "subseq (snd (frame_queue_run ops frame_queue_new)
      @ qs_frames (fst (frame_queue_run ops frame_queue_new))) (accepted False ops)"
    using fq.run_fifo [OF fq.ok_new, of ops]
    unfolding frame_queue_run_iff by (simp add: frame_queue_new_def)
  moreover have "frame_queue_ok (fst (frame_queue_run ops frame_queue_new))"
    using fq.ok_run [OF fq.ok_new] unfolding frame_queue_run_iff by (simp add: frame_queue_ok_iff)
  ultimately show ?thesis ..
qed

text \<open>No silent loss: while the queue has not failed and is not cleared, every frame it took in was
  delivered, is queued, or is counted in \<^verbatim>\<open>discarded\<close> (counters modulo \<open>2 ^ 64\<close>).\<close>

theorem frame_queue_accounting:
  assumes "QFail \<notin> set ops" "QClear \<notin> set ops"
  shows "of_nat (length (accepted False ops)) =
    of_nat (length (snd (frame_queue_run ops frame_queue_new))
      + length (qs_frames (fst (frame_queue_run ops frame_queue_new))))
    + qm_discarded (frame_queue_metrics (fst (frame_queue_run ops frame_queue_new)))"
  using fq.run_accounting [OF fq.ok_new _ assms]
  unfolding frame_queue_run_iff frame_queue_metrics_def
  by (simp add: frame_queue_new_def default_queue_metrics_def)

definition overflow_ops :: "pcm_samples queue_op list" where
  "overflow_ops = [QPush [1], QPush [2], QPush [3], QPush [4], QPush [5], QPop, QFinish, QPop]"

lemma frame_queue_accounting_witness:
  "(of_nat (length (accepted False overflow_ops)) :: u64) =
    of_nat (length (snd (frame_queue_run overflow_ops frame_queue_new))
      + length (qs_frames (fst (frame_queue_run overflow_ops frame_queue_new))))
    + qm_discarded (frame_queue_metrics (fst (frame_queue_run overflow_ops frame_queue_new)))
   \<and> snd (frame_queue_run overflow_ops frame_queue_new) = [[2], [3]]
   \<and> qs_frames (fst (frame_queue_run overflow_ops frame_queue_new)) = [[4], [5]]"
proof (intro conjI)
  show "(of_nat (length (accepted False overflow_ops)) :: u64) =
    of_nat (length (snd (frame_queue_run overflow_ops frame_queue_new))
      + length (qs_frames (fst (frame_queue_run overflow_ops frame_queue_new))))
    + qm_discarded (frame_queue_metrics (fst (frame_queue_run overflow_ops frame_queue_new)))"
    by (rule frame_queue_accounting) (simp_all add: overflow_ops_def)
qed (simp_all add: overflow_ops_def frame_queue_run_def queue_run_Cons frame_queue_defs Let_def)

text \<open>Latest wins: a burst of pushes into an open queue leaves exactly the last four frames of what was
  queued and pushed, oldest first.\<close>

theorem frame_queue_latest_wins:
  assumes "frame_queue_ok q" "\<not> qs_failed q" "\<not> qs_producer_done q"
  shows "qs_frames (fst (frame_queue_run (map QPush fs) q)) = keep_last 4 (qs_frames q @ fs)"
  using fq.run_pushes [of q fs] assms unfolding frame_queue_run_iff frame_queue_ok_iff
  by (simp add: QUEUE_CAPACITY_def)

lemma frame_queue_latest_wins_witness:
  "qs_frames (fst (frame_queue_run (map QPush [[1], [2], [3], [4], [5], [6]]) frame_queue_new))
     = [[3], [4], [5], [6 :: i16]]"
  using frame_queue_latest_wins [OF frame_queue_ok_new, of "[[1], [2], [3], [4], [5], [6]]"]
  by (simp add: frame_queue_new_def keep_last_def)

text \<open>Draining: when the producer has finished, the consumer still gets every queued frame, in order,
  and only then the end; when the queue has failed it gets the end at once, whatever is pushed
  afterwards, and a pop never reports the end while frames wait in a queue that has not failed.\<close>

theorem frame_queue_drain:
  "\<not> qs_failed q \<Longrightarrow>
     snd (frame_queue_run (replicate (length (qs_frames q)) QPop) (frame_queue_finish_producer q))
       = qs_frames q
     \<and> snd (frame_queue_take (fst (frame_queue_run (replicate (length (qs_frames q)) QPop)
         (frame_queue_finish_producer q)))) = Finished
     \<and> snd (frame_queue_run ops (frame_queue_fail q)) = []
     \<and> snd (frame_queue_take (fst (frame_queue_run ops (frame_queue_fail q)))) = Finished"
proof -
  assume q: "\<not> qs_failed q"
  let ?f = "frame_queue_finish_producer q"
  let ?ops = "replicate (length (qs_frames q)) QPop"
  have view: "\<not> qs_failed ?f" "qs_frames ?f = qs_frames q" "qs_producer_done ?f"
    "qs_failed (frame_queue_fail q)"
    using q by (simp_all add: frame_queue_finish_producer_def frame_queue_fail_def)
  from fq.run_drain [OF view(1)] view(2) have drained:
    "snd (frame_queue_run ?ops ?f) = qs_frames q" "qs_frames (fst (frame_queue_run ?ops ?f)) = []"
    unfolding frame_queue_run_iff by simp_all
  moreover have "snd (frame_queue_take (fst (frame_queue_run ?ops ?f))) = Finished"
    using fq.run_finished [OF view(3), of ?ops] drained(2)
    unfolding frame_queue_run_iff by (simp add: frame_queue_take_def)
  moreover have "snd (frame_queue_run ops (frame_queue_fail q)) = []
    \<and> snd (frame_queue_take (fst (frame_queue_run ops (frame_queue_fail q)))) = Finished"
    using fq.run_failed [OF view(4), of ops]
    unfolding frame_queue_run_iff by (simp add: frame_queue_take_def)
  ultimately show ?thesis by simp
qed

definition two_frames :: frame_queue where
  "two_frames = fst (frame_queue_run [QPush [1], QPush [2]] frame_queue_new)"

lemma frame_queue_drain_witness:
  "snd (frame_queue_run [QPop, QPop] (frame_queue_finish_producer two_frames)) = [[1], [2]]"
proof -
  have "qs_frames two_frames = [[1], [2]]" "\<not> qs_failed two_frames"
    by (simp_all add: two_frames_def frame_queue_run_def queue_run_Cons frame_queue_defs Let_def)
  with frame_queue_drain [of two_frames "[]"] show ?thesis by simp
qed

end
