(* ===== verification/Framing.thy ===== *)
theory Framing
  imports Engine_Types
begin

text \<open>
  \<^verbatim>\<open>crates/mini-aec-engine/src/framing.rs\<close>: the quantisation \<open>pcm16\<close> of one sample and the
  accumulator that cuts the packets of the microphone into frames of 480 samples.  A push that
  would index the buffer out of bounds (a panic) is \<open>None\<close>.  The abstract accumulator is the list
  of pending samples; \<open>frame_push_packet_spec\<close> refines the buffer code to cutting a stream.
\<close>

section \<open>PCM16 conversion\<close>

definition pcm16 :: "fp \<Rightarrow> i16 \<times> bool" where
  "pcm16 sample =
     (if \<not> is_finite sample then (0, True)
      else let clamped = fp_clamp sample (Fin (- 1)) (Fin 1);
               changed = (\<not> (fp_le (Fin (- 1)) sample \<and> fp_le sample (Fin 1)));
               converted = (if fp_le (Fin 0) clamped
                 then fp_to_signed 16 (fp_round (fp_mul Binary32 clamped (Fin 32767)))
                 else fp_to_signed 16 (fp_round (fp_mul Binary32 clamped (Fin 32768))))
           in (word_of_int converted, changed))"

text \<open>The integer behind the conversion of a finite sample.\<close>

definition pcm16_level :: "rat \<Rightarrow> int" where
  "pcm16_level q = (let c = max (- 1) (min 1 q) in
     round_half_away (round_value Binary32 (c * (if 0 \<le> c then 32767 else 32768))))"

lemma scaled_bounds:
  assumes "- 1 \<le> c" "c \<le> (1 :: rat)"
  shows "\<bar>round_value Binary32 (c * 32767)\<bar> \<le> 32767" "\<bar>round_value Binary32 (c * 32768)\<bar> \<le> 32768"
proof -
  have "of_int (- 32767) \<le> round_value Binary32 (c * 32767)"
    "round_value Binary32 (c * 32767) \<le> of_int 32767"
    using assms by (intro round_value_between [where a = "- 32767" and b = 32767]; simp)+
  then show "\<bar>round_value Binary32 (c * 32767)\<bar> \<le> 32767" by (simp add: abs_le_iff)
  have "of_int (- 32768) \<le> round_value Binary32 (c * 32768)"
    "round_value Binary32 (c * 32768) \<le> of_int 32768"
    using assms by (intro round_value_between [where a = "- 32768" and b = 32768]; simp)+
  then show "\<bar>round_value Binary32 (c * 32768)\<bar> \<le> 32768" by (simp add: abs_le_iff)
qed

lemma fp_mul_scaled:
  assumes "- 1 \<le> c" "c \<le> (1 :: rat)"
  shows "fp_mul Binary32 (Fin c) (Fin 32767) = Fin (round_value Binary32 (c * 32767))"
    "fp_mul Binary32 (Fin c) (Fin 32768) = Fin (round_value Binary32 (c * 32768))"
  using assms by (auto simp: fp_mul_def abs_le_iff intro!: fp_rounded_finite [where b = 32768])

lemma pcm16_level_range: "- 32768 \<le> pcm16_level q" "pcm16_level q \<le> 32767"
proof -
  define c where "c = max (- 1) (min 1 q)"
  have c: "- 1 \<le> c" "c \<le> 1" by (auto simp: c_def)
  let ?v = "round_value Binary32 (c * (if 0 \<le> c then 32767 else 32768))"
  have "of_int (- 32768) \<le> ?v" "?v \<le> of_int 32767"
    using scaled_bounds [OF c] round_value_nonneg [of "- (c * 32768)" Binary32]
    by (auto simp: abs_le_iff round_value_minus)
  then have "round_half_away (of_int (- 32768)) \<le> round_half_away ?v"
    "round_half_away ?v \<le> round_half_away (of_int 32767)"
    by (intro round_half_away_mono; simp)+
  then show "- 32768 \<le> pcm16_level q" "pcm16_level q \<le> 32767"
    unfolding pcm16_level_def Let_def c_def [symmetric] round_half_away_of_int by simp_all
qed

lemma pcm16_Fin:
  "pcm16 (Fin q) = (word_of_int (pcm16_level q), \<not> (- 1 \<le> q \<and> q \<le> 1))"
proof -
  define c where "c = max (- 1) (min 1 q)"
  have c: "- 1 \<le> c" "c \<le> 1" by (auto simp: c_def)
  have clamp: "fp_clamp (Fin q) (Fin (- 1)) (Fin 1) = Fin c"
    by (simp add: c_def)
  have "fp_to_signed 16 (fp_round (fp_mul Binary32 (Fin c) (Fin (if 0 \<le> c then 32767 else 32768))))
      = pcm16_level q"
    using pcm16_level_range [of q] c
    by (auto simp: fp_mul_scaled pcm16_level_def Let_def c_def [symmetric])
  then show ?thesis
    by (cases "0 \<le> c") (simp_all add: pcm16_def Let_def clamp del: fp_clamp_Fin)
qed

lemma sint_pcm16: "sint (fst (pcm16 (Fin q))) = pcm16_level q"
  using pcm16_level_range [of q]
  by (simp add: pcm16_Fin sint_sbintrunc' signed_take_bit_int_eq_self)

lemma pcm16_not_finite [simp]: "\<not> is_finite x \<Longrightarrow> pcm16 x = (0, True)"
  by (simp add: pcm16_def)

lemma pcm16_level_0 [simp]: "pcm16_level 0 = 0"
  using round_half_away_of_int [of 0] by (simp add: pcm16_level_def)

lemma pcm16_level_ends:
  "1 \<le> q \<Longrightarrow> pcm16_level q = 32767" "q \<le> - 1 \<Longrightarrow> pcm16_level q = - 32768"
  using round_value_of_int [of 32767 Binary32] round_value_of_int [of "- 32768" Binary32]
    round_half_away_of_int [of 32767] round_half_away_of_int [of "- 32768"]
  by (simp_all add: pcm16_level_def Let_def)

lemma pcm16_level_mono:
  assumes "q \<le> r"
  shows "pcm16_level q \<le> pcm16_level r"
proof -
  define c d where "c = max (- 1) (min 1 q)" and "d = max (- 1) (min 1 r)"
  have cd: "- 1 \<le> c" "c \<le> d" "d \<le> 1" using assms by (auto simp: c_def d_def)
  let ?k = "\<lambda>c :: rat. if 0 \<le> c then 32767 else 32768 :: rat"
  have "c * ?k c \<le> d * ?k d"
    using cd mult_nonpos_nonneg [of c 32768] by (auto intro: order_trans [of _ 0])
  moreover have "\<bar>c * ?k c\<bar> < 2 powi (int (precision Binary32) + max_exp Binary32)"
    "\<bar>d * ?k d\<bar> < 2 powi (int (precision Binary32) + max_exp Binary32)"
    using cd by (auto simp: abs_if)
  ultimately have "round_value Binary32 (c * ?k c) \<le> round_value Binary32 (d * ?k d)"
    by (rule round_value_mono)
  then show ?thesis
    by (simp add: pcm16_level_def Let_def c_def [symmetric] d_def [symmetric] round_half_away_mono)
qed

text \<open>
  The quantisation error, against the ideal scaling of the clamped sample: half a level for the
  rounding to an integer and \<open>2\<^sup>-\<^sup>1\<^sup>0\<close> for the \<^verbatim>\<open>f32\<close> product.
\<close>

lemma pcm16_level_error:
  assumes "- 1 \<le> q" "q \<le> 1"
  shows "\<bar>of_int (pcm16_level q) - q * (if 0 \<le> q then 32767 else 32768)\<bar> \<le> 1 / 2 + 1 / 512"
proof -
  let ?x = "q * (if 0 \<le> q then 32767 else 32768)"
  let ?v = "round_value Binary32 ?x"
  have "\<bar>?x\<bar> \<le> 2 powi 15" using assms by (auto simp: abs_if)
  then have "last_place Binary32 ?x \<le> 15 - 24 + 1"
    using last_place_bound [of ?x 15 Binary32] by simp
  then have "(2 powi (last_place Binary32 ?x - 1) :: rat) \<le> 2 powi (- 9)"
    by (intro power_int_increasing) auto
  then have "\<bar>?v - ?x\<bar> \<le> 1 / 512"
    using round_value_error [of Binary32 ?x] by (simp add: power_int_minus)
  moreover have "\<bar>of_int (round_half_away ?v) - ?v\<bar> \<le> 1 / 2"
    by (rule round_half_away_error)
  moreover have "pcm16_level q = round_half_away ?v"
    using assms by (simp add: pcm16_level_def Let_def min_absorb2 max_absorb2)
  ultimately show ?thesis by linarith
qed

section \<open>The frame accumulator\<close>

record frame_accumulator =
  fa_samples :: pcm_samples
  fa_len :: nat

definition default_frame_accumulator :: frame_accumulator where
  "default_frame_accumulator = \<lparr>fa_samples = replicate FRAME_SAMPLES 0, fa_len = 0\<rparr>"

definition frame_accumulator_clear :: "frame_accumulator \<Rightarrow> frame_accumulator" where
  "frame_accumulator_clear acc =
     acc\<lparr>fa_samples := replicate (length (fa_samples acc)) 0, fa_len := 0\<rparr>"

text \<open>
  The loop of \<^verbatim>\<open>push_packet\<close>.  The callback \<open>emit\<close> acts on the caller's state \<open>env\<close>; the
  counter is \<^verbatim>\<open>sanitized\<close>.
\<close>

fun frame_push_samples ::
  "(pcm_samples \<Rightarrow> 'e \<Rightarrow> 'e) \<Rightarrow> bool \<Rightarrow> fp list \<Rightarrow> frame_accumulator \<Rightarrow> 'e \<Rightarrow> u64
     \<Rightarrow> (frame_accumulator \<times> 'e \<times> u64) option" where
  "frame_push_samples emit silent [] acc env n = Some (acc, env, n)"
| "frame_push_samples emit silent (x # xs) acc env n =
    (let sample = (if silent then Fin 0 else x);
         (converted, changed) = pcm16 sample;
         n = n + of_bool changed
     in if fa_len acc < length (fa_samples acc) then
          let samples = (fa_samples acc)[fa_len acc := converted];
              len = fa_len acc + 1
          in if len = FRAME_SAMPLES
             then frame_push_samples emit silent xs
                    (acc\<lparr>fa_samples := replicate (length samples) 0, fa_len := 0\<rparr>) (emit samples env) n
             else frame_push_samples emit silent xs (acc\<lparr>fa_samples := samples, fa_len := len\<rparr>) env n
        else None)"

definition frame_push_packet ::
  "(pcm_samples \<Rightarrow> 'e \<Rightarrow> 'e) \<Rightarrow> frame_accumulator \<Rightarrow> fp list \<Rightarrow> packet_metadata \<Rightarrow> 'e
     \<Rightarrow> (frame_accumulator \<times> 'e \<times> u64) option" where
  "frame_push_packet emit acc samples metadata env =
    (let acc = (if pm_data_discontinuity metadata \<or> pm_timestamp_error metadata
                then frame_accumulator_clear acc else acc)
     in frame_push_samples emit (pm_silent metadata) (take (pm_frames metadata) samples) acc env 0)"

text \<open>
  The concrete accumulator that holds the pending samples \<open>p\<close>: they fill the front of the buffer
  and the rest is zero, so no sample of an earlier frame stays behind.
\<close>

definition frame_accumulator_of :: "pcm_samples \<Rightarrow> frame_accumulator" where
  "frame_accumulator_of p =
     \<lparr>fa_samples = p @ replicate (FRAME_SAMPLES - length p) 0, fa_len = length p\<rparr>"

definition converted_sample :: "bool \<Rightarrow> fp \<Rightarrow> i16" where
  "converted_sample silent x = fst (pcm16 (if silent then Fin 0 else x))"

definition sample_changed :: "bool \<Rightarrow> fp \<Rightarrow> bool" where
  "sample_changed silent x = snd (pcm16 (if silent then Fin 0 else x))"

definition sanitized_count :: "bool \<Rightarrow> fp list \<Rightarrow> u64" where
  "sanitized_count silent xs = of_nat (length (filter (sample_changed silent) xs))"

lemma default_frame_accumulator_of: "default_frame_accumulator = frame_accumulator_of []"
  by (simp add: default_frame_accumulator_def frame_accumulator_of_def)

lemma clear_frame_accumulator_of:
  "length p \<le> FRAME_SAMPLES \<Longrightarrow>
     frame_accumulator_clear (frame_accumulator_of p) = frame_accumulator_of []"
  by (simp add: frame_accumulator_clear_def frame_accumulator_of_def)

lemma update_front:
  "length p < m \<Longrightarrow> (p @ replicate (m - length p) z)[length p := c]
     = (p @ [c]) @ replicate (m - length (p @ [c])) z"
proof -
  assume "length p < m"
  then obtain k where "m - length p = Suc k" by (metis Suc_diff_Suc)
  then show ?thesis by (simp add: list_update_append)
qed

lemma frame_push_samples_spec:
  assumes "length p < FRAME_SAMPLES"
  shows "frame_push_samples emit silent xs (frame_accumulator_of p) env n =
    Some (frame_accumulator_of (leftover FRAME_SAMPLES (p @ map (converted_sample silent) xs)),
          fold emit (chunks FRAME_SAMPLES (p @ map (converted_sample silent) xs)) env,
          n + sanitized_count silent xs)"
  using assms
proof (induction xs arbitrary: p env n)
  case Nil
  then show ?case by (simp add: sanitized_count_def)
next
  case (Cons x xs)
  let ?c = "converted_sample silent x"
  have pos: "0 < FRAME_SAMPLES" by (simp add: FRAME_SAMPLES_def)
  have count: "n + of_bool (sample_changed silent x) + sanitized_count silent xs
      = n + sanitized_count silent (x # xs)"
    by (simp add: sanitized_count_def)
  have pc: "pcm16 (if silent then Fin 0 else x) = (?c, sample_changed silent x)"
    by (simp add: converted_sample_def sample_changed_def)
  have upd: "(fa_samples (frame_accumulator_of p))[fa_len (frame_accumulator_of p) := ?c]
      = (p @ [?c]) @ replicate (FRAME_SAMPLES - length (p @ [?c])) 0"
    using update_front [OF Cons.prems] by (simp add: frame_accumulator_of_def)
  show ?case
  proof (cases "length p + 1 = FRAME_SAMPLES")
    case True
    then have blk: "length (p @ [?c]) = FRAME_SAMPLES" by simp
    have "frame_push_samples emit silent (x # xs) (frame_accumulator_of p) env n
        = frame_push_samples emit silent xs (frame_accumulator_of [])
            (emit (p @ [?c]) env) (n + of_bool (sample_changed silent x))"
      using True Cons.prems upd pc by (simp add: frame_accumulator_of_def Let_def)
    also have "\<dots> = Some (frame_accumulator_of (leftover FRAME_SAMPLES (map (converted_sample silent) xs)),
          fold emit (chunks FRAME_SAMPLES (map (converted_sample silent) xs)) (emit (p @ [?c]) env),
          n + sanitized_count silent (x # xs))"
      using Cons.IH [of "[]"] pos count by simp
    finally show ?thesis
      using chunks_block [OF pos blk] leftover_block [OF pos blk] by simp
  next
    case False
    with Cons.prems have lt: "length (p @ [?c]) < FRAME_SAMPLES" by simp
    have "frame_push_samples emit silent (x # xs) (frame_accumulator_of p) env n
        = frame_push_samples emit silent xs (frame_accumulator_of (p @ [?c])) env
            (n + of_bool (sample_changed silent x))"
      using False Cons.prems upd pc by (simp add: frame_accumulator_of_def Let_def)
    then show ?thesis using Cons.IH [OF lt] count by simp
  qed
qed

lemma frame_push_packet_spec:
  fixes samples :: "fp list" and m :: packet_metadata
  assumes "length p < FRAME_SAMPLES"
  defines "xs \<equiv> take (pm_frames m) samples"
  defines "stream \<equiv> (if packet_resets m then [] else p) @ map (converted_sample (pm_silent m)) xs"
  shows "frame_push_packet emit (frame_accumulator_of p) samples m env =
    Some (frame_accumulator_of (leftover FRAME_SAMPLES stream),
          fold emit (chunks FRAME_SAMPLES stream) env, sanitized_count (pm_silent m) xs)"
proof -
  have "length (if packet_resets m then [] else p) < FRAME_SAMPLES" using assms(1) by auto
  moreover have "(if packet_resets m then frame_accumulator_clear (frame_accumulator_of p)
      else frame_accumulator_of p) = frame_accumulator_of (if packet_resets m then [] else p)"
    using assms(1) by (simp add: clear_frame_accumulator_of)
  ultimately show ?thesis
    by (simp only: frame_push_packet_def stream_def xs_def Let_def frame_push_samples_spec add_0)
qed

section \<open>Properties\<close>

text \<open>Quantisation to 16 bits: for a finite sample the result is the clamped sample scaled by 32768 below
  zero and 32767 above, to within half a level and a \<^verbatim>\<open>f32\<close> rounding, and monotone in the sample;
  the flag says exactly whether the sample was outside \<open>[-1, 1]\<close>; NaN and the infinities give silence
  and the flag.\<close>

theorem pcm16_quantises:
  assumes "q \<le> r"
  defines "c \<equiv> max (- 1) (min 1 q)"
  shows "sint (fst (pcm16 (Fin q))) \<le> sint (fst (pcm16 (Fin r)))
    \<and> \<bar>of_int (sint (fst (pcm16 (Fin q)))) - c * (if 0 \<le> c then 32767 else 32768)\<bar> \<le> 1 / 2 + 1 / 512
    \<and> (snd (pcm16 (Fin q)) \<longleftrightarrow> q < - 1 \<or> 1 < q)
    \<and> pcm16 NaN = (0, True) \<and> pcm16 PInf = (0, True) \<and> pcm16 NInf = (0, True)"
proof -
  have "pcm16_level c = pcm16_level q" by (simp add: pcm16_level_def c_def)
  moreover have "- 1 \<le> c" "c \<le> 1" by (simp_all add: c_def)
  ultimately have "\<bar>of_int (pcm16_level q) - c * (if 0 \<le> c then 32767 else 32768)\<bar> \<le> 1 / 2 + 1 / 512"
    using pcm16_level_error [of c] by simp
  moreover have "snd (pcm16 (Fin q)) \<longleftrightarrow> q < - 1 \<or> 1 < q" by (auto simp: pcm16_Fin)
  ultimately show ?thesis
    using pcm16_level_mono [OF assms(1)] by (simp add: sint_pcm16)
qed

lemma pcm16_quantises_witness:
  "sint (fst (pcm16 (Fin (- 2)))) \<le> sint (fst (pcm16 (Fin (1 / 2))))
   \<and> snd (pcm16 (Fin (- 2))) \<and> sint (fst (pcm16 (Fin (- 2)))) = - 32768"
proof -
  have "(- 2 :: rat) \<le> 1 / 2" by simp
  from pcm16_quantises [OF this] show ?thesis by (simp add: sint_pcm16 pcm16_level_ends)
qed

definition collect_frames :: "pcm_samples \<Rightarrow> pcm_samples list \<Rightarrow> pcm_samples list" where
  "collect_frames f fs = fs @ [f]"

lemma fold_collect_frames [simp]: "fold collect_frames fs acc = acc @ fs"
  by (induction fs arbitrary: acc) (simp_all add: collect_frames_def)

text \<open>C9
  The microphone stream is cut without loss: with fewer than 480 samples pending, a packet makes the
  accumulator emit frames of exactly 480 samples which, followed by what stays pending, are what was
  pending (dropped after a discontinuity or a timestamp error) followed by the converted samples of the
  packet; what stays is again fewer than 480 samples, and no push panics.\<close>

theorem frame_accumulator_stream:
  assumes "length p < FRAME_SAMPLES"
  shows "\<exists>p' frames. frame_push_packet collect_frames (frame_accumulator_of p) samples m []
      = Some (frame_accumulator_of p', frames, sanitized_count (pm_silent m) (take (pm_frames m) samples))
    \<and> concat frames @ p' = (if packet_resets m then [] else p)
        @ map (converted_sample (pm_silent m)) (take (pm_frames m) samples)
    \<and> length p' < FRAME_SAMPLES \<and> list_all (\<lambda>f. length f = FRAME_SAMPLES) frames"
proof -
  let ?stream = "(if packet_resets m then [] else p)
    @ map (converted_sample (pm_silent m)) (take (pm_frames m) samples)"
  have "0 < FRAME_SAMPLES" by (simp add: FRAME_SAMPLES_def)
  from leftover_length [OF this, of ?stream]
  show ?thesis
    unfolding frame_push_packet_spec [OF assms, of collect_frames samples m "[]"]
    by (intro exI [of _ "leftover FRAME_SAMPLES ?stream"] exI [of _ "chunks FRAME_SAMPLES ?stream"])
      (simp only: fold_collect_frames append_Nil concat_chunks list_all_iff,
       simp add: chunks_length del: append_assoc)
qed

lemma frame_accumulator_stream_witness:
  "\<exists>p' frames. frame_push_packet collect_frames (frame_accumulator_of (replicate 479 7)) [Fin 1, Fin 1]
      (default_packet_metadata\<lparr>pm_frames := 2\<rparr>) [] = Some (frame_accumulator_of p', frames, 0)
    \<and> concat frames @ p' = replicate 479 7 @ [32767, 32767]"
proof -
  have "length (replicate 479 (7 :: i16)) < FRAME_SAMPLES" by (simp add: FRAME_SAMPLES_def)
  from frame_accumulator_stream [OF this, of "[Fin 1, Fin 1]" "default_packet_metadata\<lparr>pm_frames := 2\<rparr>"]
  show ?thesis
    by (auto simp: default_packet_metadata_def sanitized_count_def sample_changed_def
        converted_sample_def pcm16_Fin pcm16_level_ends)
qed

end
