(* ===== verification/Synchronization.thy ===== *)
theory Synchronization
  imports Bounded_Queue Framing
begin

text \<open>
  \<^verbatim>\<open>crates/mini-aec-engine/src/synchronization.rs\<close>: the accumulator that cuts captured packets
  into frames stamped with the time and the device position of their first sample, and the queues
  of those frames towards the echo canceller.  A panic (an index out of bounds, an offset that does
  not fit \<^verbatim>\<open>u64\<close>) is \<open>None\<close>.
\<close>

definition QPC_TICKS_PER_SECOND :: u64 where "QPC_TICKS_PER_SECOND = 10000000"
definition ALIGNMENT_TOLERANCE_100NS :: u64 where "ALIGNMENT_TOLERANCE_100NS = 50000"
definition MAXIMUM_SKEW_100NS :: u64 where "MAXIMUM_SKEW_100NS = 1000000"
definition TIMED_QUEUE_CAPACITY :: nat where "TIMED_QUEUE_CAPACITY = 8"
definition MAX_CONSECUTIVE_RENDER_MISSES :: u32 where "MAX_CONSECUTIVE_RENDER_MISSES = 50"
definition HEALTHY_RECOVERY_FRAMES :: u32 where "HEALTHY_RECOVERY_FRAMES = 10"

section \<open>Timed frames\<close>

record timed_frame =
  tf_samples :: "fp list"
  tf_qpc_timestamp_100ns :: u64
  tf_device_position :: u64
  tf_reset_epoch :: bool

record timed_accumulator =
  ta_samples :: "fp list"
  ta_len :: nat
  ta_frame_qpc :: u64
  ta_frame_position :: u64
  ta_reset_epoch :: bool

definition default_timed_accumulator :: timed_accumulator where
  "default_timed_accumulator = \<lparr>ta_samples = replicate FRAME_SAMPLES (Fin 0), ta_len = 0,
     ta_frame_qpc = 0, ta_frame_position = 0, ta_reset_epoch = False\<rparr>"

definition timed_accumulator_clear :: "timed_accumulator \<Rightarrow> timed_accumulator" where
  "timed_accumulator_clear acc = acc\<lparr>ta_samples := replicate (length (ta_samples acc)) (Fin 0),
     ta_len := 0, ta_reset_epoch := False\<rparr>"

definition sample_offset_100ns :: "u64 \<Rightarrow> u64 option" where
  "sample_offset_100ns samples =
    (let numerator = (ucast samples :: u128) * ucast QPC_TICKS_PER_SECOND;
         ticks = (numerator + ucast (SAMPLE_RATE_HZ div 2)) div ucast SAMPLE_RATE_HZ
     in if unat ticks < 2 ^ 64 then Some (ucast ticks) else None)"

definition clean_sample :: "fp \<Rightarrow> fp" where
  "clean_sample sample =
     (if is_finite sample then fp_clamp sample (Fin (- 1)) (Fin 1) else Fin 0)"

definition unclean :: "fp \<Rightarrow> bool" where
  "unclean sample \<longleftrightarrow>
     \<not> is_finite sample \<or> \<not> (fp_le (Fin (- 1)) sample \<and> fp_le sample (Fin 1))"

text \<open>The loop of \<^verbatim>\<open>push_packet\<close>; \<open>offset\<close> is the index that \<^verbatim>\<open>enumerate\<close> counts.\<close>

fun timed_push_samples ::
  "(timed_frame \<Rightarrow> 'e \<Rightarrow> 'e) \<Rightarrow> packet_metadata \<Rightarrow> nat \<Rightarrow> fp list \<Rightarrow> timed_accumulator \<Rightarrow> 'e \<Rightarrow> u64
     \<Rightarrow> (timed_accumulator \<times> 'e \<times> u64) option" where
  "timed_push_samples emit m offset [] acc env n = Some (acc, env, n)"
| "timed_push_samples emit m offset (x # xs) acc env n =
    (case (if ta_len acc = 0 then
             map_option (\<lambda>ticks. acc
               \<lparr>ta_frame_qpc := sat_add (pm_qpc_timestamp_100ns m) ticks,
                ta_frame_position := sat_add (pm_device_position m) (of_nat offset)\<rparr>)
               (sample_offset_100ns (of_nat offset))
           else Some acc) of
       None \<Rightarrow> None
     | Some acc \<Rightarrow>
        (let sample = (if pm_silent m then Fin 0 else x);
             n = n + of_bool (unclean sample)
         in if ta_len acc < length (ta_samples acc) then
              let acc = acc\<lparr>ta_samples := (ta_samples acc)[ta_len acc := clean_sample sample],
                            ta_len := ta_len acc + 1\<rparr>
              in if ta_len acc = FRAME_SAMPLES then
                   let frame = \<lparr>tf_samples = ta_samples acc,
                         tf_qpc_timestamp_100ns = ta_frame_qpc acc,
                         tf_device_position = ta_frame_position acc,
                         tf_reset_epoch = ta_reset_epoch acc\<rparr>
                   in timed_push_samples emit m (offset + 1) xs
                        (acc\<lparr>ta_samples := replicate (length (ta_samples acc)) (Fin 0),
                             ta_len := 0, ta_reset_epoch := False\<rparr>) (emit frame env) n
                 else timed_push_samples emit m (offset + 1) xs acc env n
            else None))"

definition timed_push_packet ::
  "(timed_frame \<Rightarrow> 'e \<Rightarrow> 'e) \<Rightarrow> timed_accumulator \<Rightarrow> fp list \<Rightarrow> packet_metadata \<Rightarrow> 'e
     \<Rightarrow> (timed_accumulator \<times> 'e \<times> u64) option" where
  "timed_push_packet emit acc samples metadata env =
    (let acc = (if pm_data_discontinuity metadata \<or> pm_timestamp_error metadata
                then (timed_accumulator_clear acc)\<lparr>ta_reset_epoch := True\<rparr> else acc)
     in timed_push_samples emit metadata 0 (take (pm_frames metadata) samples) acc env 0)"

section \<open>Sample offsets\<close>

text \<open>The ticks of 100 ns that \<open>o\<close> samples take, rounded to nearest.\<close>

definition ticks :: "nat \<Rightarrow> nat" where
  "ticks n = (n * 10000000 + 24000) div 48000"

definition in_range :: "nat \<Rightarrow> bool" where
  "in_range n \<longleftrightarrow> n < 2 ^ 56"

lemma ticks_block: "ticks (n + FRAME_SAMPLES) = ticks n + 100000"
proof -
  have "(n + 480) * 10000000 + 24000 = (n * 10000000 + 24000) + 100000 * 48000" by simp
  then show ?thesis unfolding ticks_def FRAME_SAMPLES_def by (simp only: div_mult_self1)
qed

lemma ticks_error: "\<bar>real (ticks n) - real n * 10000000 / 48000\<bar> \<le> 1 / 2"
proof -
  define d where "d = n * 10000000 + 24000"
  have "ticks n * 48000 + d mod 48000 = d" "d mod 48000 < 48000"
    by (simp_all add: ticks_def d_def)
  then have "real (ticks n) * 48000 \<le> real d" "real d < real (ticks n) * 48000 + 48000"
    by linarith+
  moreover have "real d = real n * 10000000 + 24000" by (simp add: d_def)
  ultimately show ?thesis by linarith
qed

lemma unat_u32_div: "unat (ucast (SAMPLE_RATE_HZ div 2) :: u128) = 24000"
  "unat (ucast SAMPLE_RATE_HZ :: u128) = 48000"
  by (simp_all add: SAMPLE_RATE_HZ_def)

lemma sample_offset_100ns_ticks:
  assumes "in_range n"
  shows "sample_offset_100ns (of_nat n) = Some (of_nat (ticks n))" "ticks n < 2 ^ 64"
proof -
  have n: "n < 2 ^ 56" using assms by (simp add: in_range_def)
  let ?num = "(ucast (of_nat n :: u64) :: u128) * ucast QPC_TICKS_PER_SECOND
    + ucast (SAMPLE_RATE_HZ div 2)"
  have u: "unat (ucast (of_nat n :: u64) :: u128) = n"
    using n by (simp add: unsigned_ucast_eq take_bit_nat_eq_self unsigned_of_nat)
  have "unat ?num = n * 10000000 + 24000"
    using n u by (simp add: unat_word_ariths unat_u32_div QPC_TICKS_PER_SECOND_def)
  then have num: "unat (?num div ucast SAMPLE_RATE_HZ) = ticks n"
    by (simp add: unat_div unat_u32_div ticks_def)
  show lt: "ticks n < 2 ^ 64" using n by (simp add: ticks_def div_less_iff_less_mult)
  have "(ucast (?num div ucast SAMPLE_RATE_HZ) :: u64) = of_nat (ticks n)"
    using num by (metis of_nat_unat)
  then show "sample_offset_100ns (of_nat n) = Some (of_nat (ticks n))"
    using num lt by (simp add: sample_offset_100ns_def Let_def)
qed

section \<open>What the accumulator emits\<close>

text \<open>
  \<open>timed_of p t r\<close> holds the pending samples \<open>p\<close>, stamped \<open>t = (qpc, position)\<close>, with the reset
  mark \<open>r\<close>.  \<open>stamp_at m o\<close> is the stamp of the sample at offset \<open>o\<close> of a packet, and \<open>stamped\<close>
  the frames made of consecutive blocks whose second block starts at offset \<open>o\<close>.
\<close>

definition timed_of :: "fp list \<Rightarrow> u64 \<times> u64 \<Rightarrow> bool \<Rightarrow> timed_accumulator" where
  "timed_of p t r = \<lparr>ta_samples = p @ replicate (FRAME_SAMPLES - length p) (Fin 0),
     ta_len = length p, ta_frame_qpc = fst t, ta_frame_position = snd t, ta_reset_epoch = r\<rparr>"

definition stamp_at :: "packet_metadata \<Rightarrow> nat \<Rightarrow> u64 \<times> u64" where
  "stamp_at m offset = (sat_add (pm_qpc_timestamp_100ns m) (of_nat (ticks offset)),
     sat_add (pm_device_position m) (of_nat offset))"

fun stamped :: "packet_metadata \<Rightarrow> u64 \<times> u64 \<Rightarrow> bool \<Rightarrow> nat \<Rightarrow> fp list list \<Rightarrow> timed_frame list" where
  "stamped m t r offset [] = []"
| "stamped m t r offset (c # cs) =
    \<lparr>tf_samples = c, tf_qpc_timestamp_100ns = fst t, tf_device_position = snd t,
      tf_reset_epoch = r\<rparr> # stamped m (stamp_at m offset) False (offset + FRAME_SAMPLES) cs"

definition clean :: "bool \<Rightarrow> fp \<Rightarrow> fp" where
  "clean silent x = clean_sample (if silent then Fin 0 else x)"

definition unclean_count :: "bool \<Rightarrow> fp list \<Rightarrow> u64" where
  "unclean_count silent xs = of_nat (length (filter (\<lambda>x. unclean (if silent then Fin 0 else x)) xs))"

text \<open>The stamp under which the samples at hand are kept.\<close>

definition start_stamp :: "packet_metadata \<Rightarrow> nat \<Rightarrow> fp list \<Rightarrow> u64 \<times> u64 \<Rightarrow> u64 \<times> u64" where
  "start_stamp m offset p t = (if p = [] then stamp_at m offset else t)"

lemma length_stamped [simp]: "length (stamped m t r offset cs) = length cs"
  by (induction cs arbitrary: t r offset) simp_all

lemma map_samples_stamped [simp]: "map tf_samples (stamped m t r offset cs) = cs"
  by (induction cs arbitrary: t r offset) simp_all

lemma stamped_chunks_length:
  assumes "f \<in> set (stamped m t r offset (chunks n xs))"
  shows "length (tf_samples f) = n"
proof -
  from assms have "tf_samples f \<in> tf_samples ` set (stamped m t r offset (chunks n xs))" by simp
  also have "\<dots> = set (chunks n xs)"
    unfolding list.set_map [symmetric] map_samples_stamped ..
  finally show ?thesis by (rule chunks_length)
qed

lemma map_reset_stamped:
  "map tf_reset_epoch (stamped m t r offset cs) = (if cs = [] then [] else r # replicate (length cs - 1) False)"
proof -
  have "map tf_reset_epoch (stamped m t False offset cs) = replicate (length cs) False" for t offset
    by (induction cs arbitrary: t offset) simp_all
  then show ?thesis by (cases cs) simp_all
qed

lemma nth_stamped:
  "Suc k < length cs \<Longrightarrow> tf_qpc_timestamp_100ns (stamped m t r offset cs ! Suc k)
     = fst (stamp_at m (offset + k * FRAME_SAMPLES))
   \<and> tf_device_position (stamped m t r offset cs ! Suc k)
     = snd (stamp_at m (offset + k * FRAME_SAMPLES))"
proof (induction cs arbitrary: t r offset k)
  case (Cons c cs)
  then obtain d ds where cs: "cs = d # ds" by (cases cs) auto
  show ?case
  proof (cases k)
    case (Suc j)
    with Cons.IH [of j "stamp_at m offset" False "offset + FRAME_SAMPLES"] Cons.prems cs
    show ?thesis by (simp add: ac_simps)
  qed (simp add: cs)
qed simp

text \<open>
  What a push leaves behind: the samples \<open>lo\<close>, still marked when no frame was completed, and
  stamped by the first of them.
\<close>

definition end_stamp :: "packet_metadata \<Rightarrow> u64 \<times> u64 \<Rightarrow> nat \<Rightarrow> nat \<Rightarrow> u64 \<times> u64" where
  "end_stamp m t offset n = (if n = 0 then t else stamp_at m (offset + (n - 1) * FRAME_SAMPLES))"

definition timed_left ::
  "fp list \<Rightarrow> u64 \<times> u64 \<Rightarrow> bool \<Rightarrow> timed_accumulator \<Rightarrow> bool" where
  "timed_left lo t r acc \<longleftrightarrow> (\<exists>t'. acc = timed_of lo t' r \<and> (lo \<noteq> [] \<longrightarrow> t' = t))"

lemma end_stamp_Suc:
  "end_stamp m s offset (Suc k) = end_stamp m (stamp_at m offset) (offset + FRAME_SAMPLES) k"
  by (cases k) (simp_all add: end_stamp_def ac_simps)

lemma timed_push_one:
  assumes "length p < FRAME_SAMPLES" "in_range offset"
  shows "timed_push_samples emit m offset (x # xs) (timed_of p t r) env n =
    (let q = p @ [clean (pm_silent m) x]; s = start_stamp m offset p t;
         n = n + of_bool (unclean (if pm_silent m then Fin 0 else x))
     in if length q = FRAME_SAMPLES
        then timed_push_samples emit m (offset + 1) xs (timed_of [] s False)
          (emit \<lparr>tf_samples = q, tf_qpc_timestamp_100ns = fst s, tf_device_position = snd s,
             tf_reset_epoch = r\<rparr> env) n
        else timed_push_samples emit m (offset + 1) xs (timed_of q s r) env n)"
proof -
  let ?s = "start_stamp m offset p t"
  have stamp: "(if ta_len (timed_of p t r) = 0 then
      map_option (\<lambda>ticks. (timed_of p t r)
        \<lparr>ta_frame_qpc := sat_add (pm_qpc_timestamp_100ns m) ticks,
         ta_frame_position := sat_add (pm_device_position m) (of_nat offset)\<rparr>)
        (sample_offset_100ns (of_nat offset)) else Some (timed_of p t r)) = Some (timed_of p ?s r)"
    using sample_offset_100ns_ticks(1) [OF assms(2)]
    by (simp add: timed_of_def start_stamp_def stamp_at_def)
  have upd: "(ta_samples (timed_of p ?s r))[length p := clean (pm_silent m) x]
      = (p @ [clean (pm_silent m) x])
          @ replicate (FRAME_SAMPLES - length (p @ [clean (pm_silent m) x])) (Fin 0)"
    using update_front [OF assms(1)] by (simp add: timed_of_def)
  have len: "ta_len (timed_of p ?s r) = length p"
    "length (ta_samples (timed_of p ?s r)) = FRAME_SAMPLES"
    using assms(1) by (simp_all add: timed_of_def)
  show ?thesis
    unfolding timed_push_samples.simps stamp option.case len
    using assms(1) upd
    by (simp add: Let_def timed_of_def clean_def)
qed

lemma timed_push_samples_spec:
  fixes m :: packet_metadata
  assumes "length p < FRAME_SAMPLES" "in_range (offset + length xs)"
  defines "stream \<equiv> p @ map (clean (pm_silent m)) xs"
  shows "\<exists>acc. timed_push_samples emit m offset xs (timed_of p t r) env n =
      Some (acc, fold emit (stamped m (start_stamp m offset p t) r (offset + (FRAME_SAMPLES - length p))
              (chunks FRAME_SAMPLES stream)) env, n + unclean_count (pm_silent m) xs)
    \<and> timed_left (leftover FRAME_SAMPLES stream)
        (end_stamp m (start_stamp m offset p t) (offset + (FRAME_SAMPLES - length p))
           (length (chunks FRAME_SAMPLES stream)))
        (r \<and> chunks FRAME_SAMPLES stream = []) acc"
  unfolding stream_def using assms(1,2)
proof (induction xs arbitrary: p t r offset env n)
  case Nil
  have "timed_left p (start_stamp m offset p t) r (timed_of p t r)"
    unfolding timed_left_def by (intro exI [of _ t]) (simp add: start_stamp_def)
  with Nil show ?case
    by (simp add: end_stamp_def unclean_count_def)
next
  case (Cons x xs)
  let ?c = "clean (pm_silent m) x" and ?s = "start_stamp m offset p t"
  let ?n = "n + of_bool (unclean (if pm_silent m then Fin 0 else x))"
  have pos: "0 < FRAME_SAMPLES" by (simp add: FRAME_SAMPLES_def)
  have off: "in_range offset" "in_range (offset + 1 + length xs)"
    using Cons.prems by (simp_all add: in_range_def)
  have count: "?n + unclean_count (pm_silent m) xs = n + unclean_count (pm_silent m) (x # xs)"
    by (simp add: unclean_count_def)
  note one = timed_push_one [OF Cons.prems(1) off(1), of emit m x xs t r env n, unfolded Let_def]
  show ?case
  proof (cases "length (p @ [?c]) = FRAME_SAMPLES")
    case True
    then have fs: "FRAME_SAMPLES - length p = 1" by simp
    note blk = chunks_block [OF pos True] leftover_block [OF pos True]
    let ?f = "\<lparr>tf_samples = p @ [?c], tf_qpc_timestamp_100ns = fst ?s,
      tf_device_position = snd ?s, tf_reset_epoch = r\<rparr>"
    have st: "start_stamp m (offset + 1) [] ?s = stamp_at m (offset + 1)"
      by (simp add: start_stamp_def)
    have "(p @ [?c]) @ map (clean (pm_silent m)) xs = p @ map (clean (pm_silent m)) (x # xs)" by simp
    note blk = blk [of "map (clean (pm_silent m)) xs", unfolded this]
    from Cons.IH [of "[]" "offset + 1" ?s False "emit ?f env" ?n, unfolded st] off(2) pos
    show ?thesis
      unfolding fs blk one if_P [OF True] stamped.simps fold_Cons comp_apply length_Cons
        end_stamp_Suc [symmetric] count
      by (simp add: count end_stamp_Suc split del: if_split)
  next
    case False
    then have lt: "length (p @ [?c]) < FRAME_SAMPLES"
      and fs: "offset + 1 + (FRAME_SAMPLES - length (p @ [?c])) = offset + (FRAME_SAMPLES - length p)"
      using Cons.prems(1) by simp_all
    have st: "start_stamp m (offset + 1) (p @ [?c]) ?s = ?s" by (simp add: start_stamp_def)
    from Cons.IH [OF lt off(2), of ?s r env ?n, unfolded st fs count] show ?thesis
      unfolding one using False by simp
  qed
qed

lemma default_timed_accumulator_of: "default_timed_accumulator = timed_of [] (0, 0) False"
  by (simp add: default_timed_accumulator_def timed_of_def)

lemma timed_packet_start:
  assumes "length p < FRAME_SAMPLES"
  shows "(if packet_resets m then (timed_accumulator_clear (timed_of p t r))\<lparr>ta_reset_epoch := True\<rparr>
      else timed_of p t r)
    = timed_of (if packet_resets m then [] else p) t (packet_resets m \<or> r)"
  using assms by (simp add: timed_accumulator_clear_def timed_of_def)

lemma timed_push_packet_spec:
  fixes m :: packet_metadata and t :: "u64 \<times> u64" and r :: bool and p :: "fp list"
  assumes "length p < FRAME_SAMPLES" "in_range (length samples)"
  defines "xs \<equiv> take (pm_frames m) samples" and "p' \<equiv> if packet_resets m then [] else p"
  defines "stream \<equiv> p' @ map (clean (pm_silent m)) xs" and "r' \<equiv> packet_resets m \<or> r"
  defines "first \<equiv> start_stamp m 0 p' t" and "next_block \<equiv> FRAME_SAMPLES - length p'"
  shows "\<exists>acc. timed_push_packet emit (timed_of p t r) samples m env =
      Some (acc, fold emit (stamped m first r' next_block (chunks FRAME_SAMPLES stream)) env,
            unclean_count (pm_silent m) xs)
    \<and> timed_left (leftover FRAME_SAMPLES stream)
        (end_stamp m first next_block (length (chunks FRAME_SAMPLES stream)))
        (r' \<and> chunks FRAME_SAMPLES stream = []) acc"
proof -
  have "length p' < FRAME_SAMPLES" "in_range (0 + length xs)"
    using assms(1,2) by (auto simp: p'_def xs_def in_range_def)
  from timed_push_samples_spec [OF this, of emit m t r' env 0]
  show ?thesis
    unfolding timed_push_packet_def timed_packet_start [OF assms(1), of m t r] Let_def
      xs_def [symmetric] p'_def [symmetric] r'_def [symmetric] stream_def first_def next_block_def
    by (simp only: add_0)
qed

text \<open>Every sample that leaves the accumulator is finite and within \<open>[-1, 1]\<close>.\<close>

lemma clean_sample_range: "\<exists>q. clean_sample x = Fin q \<and> - 1 \<le> q \<and> q \<le> 1"
  by (cases x) (auto simp: clean_sample_def)

lemma clean_range: "\<exists>q. clean silent x = Fin q \<and> - 1 \<le> q \<and> q \<le> 1"
  by (simp add: clean_def clean_sample_range)

lemma clean_idle: "\<not> unclean x \<Longrightarrow> clean False x = x"
  by (cases x) (auto simp: unclean_def clean_def clean_sample_def)

section \<open>The timed frame queues\<close>

type_synonym timed_frame_queue = "timed_frame queue_state"

definition timed_queue_new :: timed_frame_queue where
  "timed_queue_new = \<lparr>qs_frames = [], qs_producer_done = False, qs_failed = False,
     qs_metrics = default_queue_metrics\<rparr>"

definition timed_queue_push ::
  "timed_frame \<Rightarrow> timed_frame_queue \<Rightarrow> timed_frame_queue \<times> queue_metrics" where
  "timed_queue_push frame q =
    (if qs_failed q \<or> qs_producer_done q then (q, qs_metrics q)
     else
       let m = qs_metrics q;
           full = length (qs_frames q) = TIMED_QUEUE_CAPACITY;
           kept = (if full then tl (qs_frames q) else qs_frames q);
           m = (if full then m\<lparr>qm_overflows := qm_overflows m + 1,
                               qm_discarded := qm_discarded m + 1\<rparr> else m);
           frames = kept @ [frame];
           m = m\<lparr>qm_depth := of_nat (length frames)\<rparr>;
           m = m\<lparr>qm_high_water := max (qm_high_water m) (qm_depth m)\<rparr>
       in (q\<lparr>qs_frames := frames, qs_metrics := m\<rparr>, m))"

definition timed_queue_take :: "timed_frame_queue \<Rightarrow> timed_frame_queue \<times> timed_frame pop_result" where
  "timed_queue_take q =
    (if qs_failed q then (q, Finished)
     else case qs_frames q of
       frame # rest \<Rightarrow>
         (q\<lparr>qs_frames := rest, qs_metrics := (qs_metrics q)\<lparr>qm_depth := of_nat (length rest)\<rparr>\<rparr>,
          Frame frame)
     | [] \<Rightarrow> if qs_producer_done q then (q, Finished) else (q, Timeout))"

text \<open>As in the frame queue, \<open>wait\<close> is what other threads do while the consumer waits.\<close>

definition timed_queue_pop ::
  "(timed_frame_queue \<Rightarrow> timed_frame_queue) \<Rightarrow> timed_frame_queue
     \<Rightarrow> timed_frame_queue \<times> timed_frame pop_result" where
  "timed_queue_pop wait q =
    (let q = (if qs_frames q = [] \<and> \<not> qs_producer_done q \<and> \<not> qs_failed q then wait q else q)
     in timed_queue_take q)"

definition timed_queue_try_pop :: "timed_frame_queue \<Rightarrow> timed_frame_queue \<times> timed_frame option" where
  "timed_queue_try_pop q =
    (let frame = (case qs_frames q of [] \<Rightarrow> None | f # _ \<Rightarrow> Some f);
         frames = tl (qs_frames q)
     in (q\<lparr>qs_frames := frames, qs_metrics := (qs_metrics q)\<lparr>qm_depth := of_nat (length frames)\<rparr>\<rparr>,
         frame))"

definition timed_queue_finish_producer :: "timed_frame_queue \<Rightarrow> timed_frame_queue" where
  "timed_queue_finish_producer q = q\<lparr>qs_producer_done := True\<rparr>"

definition timed_queue_fail :: "timed_frame_queue \<Rightarrow> timed_frame_queue" where
  "timed_queue_fail q = q\<lparr>qs_failed := True, qs_frames := [],
     qs_metrics := (qs_metrics q)\<lparr>qm_depth := 0\<rparr>\<rparr>"

definition timed_queue_clear :: "timed_frame_queue \<Rightarrow> timed_frame_queue" where
  "timed_queue_clear q = q\<lparr>qs_frames := [], qs_metrics := (qs_metrics q)\<lparr>qm_depth := 0\<rparr>\<rparr>"

definition timed_queue_metrics :: "timed_frame_queue \<Rightarrow> queue_metrics" where
  "timed_queue_metrics q = qs_metrics q"

lemmas timed_queue_defs = timed_queue_new_def timed_queue_push_def timed_queue_take_def
  timed_queue_try_pop_def timed_queue_finish_producer_def timed_queue_fail_def
  timed_queue_clear_def default_queue_metrics_def TIMED_QUEUE_CAPACITY_def

interpretation tq: polled_queue TIMED_QUEUE_CAPACITY timed_queue_new
    "\<lambda>f q. fst (timed_queue_push f q)" timed_queue_take timed_queue_finish_producer
    timed_queue_fail timed_queue_clear qs_frames qs_producer_done qs_failed qs_metrics
    timed_queue_try_pop
  by unfold_locales
    (auto simp: timed_queue_defs Let_def split: list.splits)

definition timed_queue_ok :: "timed_frame_queue \<Rightarrow> bool" where
  "timed_queue_ok q \<longleftrightarrow> length (qs_frames q) \<le> TIMED_QUEUE_CAPACITY
     \<and> (qs_failed q \<longrightarrow> qs_frames q = [])
     \<and> qm_depth (qs_metrics q) = of_nat (length (qs_frames q))
     \<and> length (qs_frames q) \<le> unat (qm_high_water (qs_metrics q))
     \<and> unat (qm_high_water (qs_metrics q)) \<le> TIMED_QUEUE_CAPACITY
     \<and> qm_discarded (qs_metrics q) = qm_overflows (qs_metrics q)"

lemma timed_queue_ok_iff: "tq.ok q \<longleftrightarrow> timed_queue_ok q"
  by (simp add: tq.ok_def timed_queue_ok_def)

lemma timed_queue_ok_new [invar_intros]: "timed_queue_ok timed_queue_new"
  using tq.ok_new by (simp add: timed_queue_ok_iff)

lemma timed_queue_ok_ops [invar_intros]:
  "timed_queue_ok q \<Longrightarrow> timed_queue_ok (fst (timed_queue_push f q))"
  "timed_queue_ok q \<Longrightarrow> timed_queue_ok (fst (timed_queue_take q))"
  "timed_queue_ok q \<Longrightarrow> timed_queue_ok (fst (timed_queue_try_pop q))"
  "timed_queue_ok q \<Longrightarrow> timed_queue_ok (timed_queue_finish_producer q)"
  "timed_queue_ok q \<Longrightarrow> timed_queue_ok (timed_queue_fail q)"
  "timed_queue_ok q \<Longrightarrow> timed_queue_ok (timed_queue_clear q)"
  using tq.ok_push tq.ok_pop tq.ok_try_pop tq.ok_finish tq.ok_fail tq.ok_clear
  by (simp_all add: timed_queue_ok_iff)

lemma timed_queue_ok_pop [invar_intros]:
  "timed_queue_ok q \<Longrightarrow> (\<And>q. timed_queue_ok q \<Longrightarrow> timed_queue_ok (wait q)) \<Longrightarrow>
     timed_queue_ok (fst (timed_queue_pop wait q))"
  by (simp add: timed_queue_pop_def Let_def timed_queue_ok_ops)

definition timed_queue_run ::
  "timed_frame queue_op list \<Rightarrow> timed_frame_queue \<Rightarrow> timed_frame_queue \<times> timed_frame list" where
  "timed_queue_run = queue_run (queue_step (\<lambda>f q. fst (timed_queue_push f q)) timed_queue_take
     timed_queue_finish_producer timed_queue_fail timed_queue_clear)"

lemma timed_queue_run_iff: "tq.run = timed_queue_run"
  by (simp add: timed_queue_run_def)

section \<open>Properties\<close>

definition collect :: "'f \<Rightarrow> 'f list \<Rightarrow> 'f list" where
  "collect f fs = fs @ [f]"

lemma fold_collect [simp]: "fold collect fs acc = acc @ fs"
  by (induction fs arbitrary: acc) (simp_all add: collect_def)

text \<open>C10
  The timed accumulator cuts the stream: with fewer than 480 samples pending, a packet makes it
  emit exactly the complete blocks of 480 samples of what was pending (dropped when the packet
  reports a discontinuity or a timestamp error) followed by the packet's samples, each clamped to
  \<open>[-1, 1]\<close> with zero for NaN, infinities and silence, and keep the rest; only the first frame
  after a reset carries the reset mark.  No push panics.\<close>

theorem timed_push_packet_stream:
  fixes m :: packet_metadata
  assumes "length p < FRAME_SAMPLES" "in_range (length samples)"
  shows "\<exists>acc frames. timed_push_packet collect (timed_of p t r) samples m [] =
      Some (acc, frames, unclean_count (pm_silent m) (take (pm_frames m) samples))
    \<and> concat (map tf_samples frames) @ take (ta_len acc) (ta_samples acc) =
        (if packet_resets m then [] else p)
          @ map (clean (pm_silent m)) (take (pm_frames m) samples)
    \<and> (\<forall>f \<in> set frames. length (tf_samples f) = FRAME_SAMPLES) \<and> ta_len acc < FRAME_SAMPLES
    \<and> map tf_reset_epoch frames @ [ta_reset_epoch acc] =
        (packet_resets m \<or> r) # replicate (length frames) False"
proof -
  let ?p = "if packet_resets m then [] else p"
  let ?stream = "?p @ map (clean (pm_silent m)) (take (pm_frames m) samples)"
  let ?cs = "chunks FRAME_SAMPLES ?stream"
  let ?frames = "stamped m (start_stamp m 0 ?p t) (packet_resets m \<or> r)
    (FRAME_SAMPLES - length ?p) ?cs"
  have pos: "0 < FRAME_SAMPLES" by (simp add: FRAME_SAMPLES_def)
  from timed_push_packet_spec [OF assms, of collect t r m "[]"] obtain acc t' where acc:
    "timed_push_packet collect (timed_of p t r) samples m [] =
      Some (acc, ?frames, unclean_count (pm_silent m) (take (pm_frames m) samples))"
    "acc = timed_of (leftover FRAME_SAMPLES ?stream) t' ((packet_resets m \<or> r) \<and> ?cs = [])"
    unfolding timed_left_def by auto
  have "concat (map tf_samples ?frames) @ take (ta_len acc) (ta_samples acc) = ?stream"
    using concat_chunks [of FRAME_SAMPLES ?stream] acc(2) by (simp add: timed_of_def)
  moreover have "length (tf_samples f) = FRAME_SAMPLES" if "f \<in> set ?frames" for f
    using that by (rule stamped_chunks_length)
  moreover have "ta_len acc < FRAME_SAMPLES"
    using leftover_length [OF pos, of ?stream] unfolding acc(2)
    by (simp only: timed_of_def timed_accumulator.simps)
  moreover have "map tf_reset_epoch ?frames @ [ta_reset_epoch acc]
      = (packet_resets m \<or> r) # replicate (length ?frames) False"
    unfolding map_reset_stamped acc(2)
    by (cases ?cs) (simp_all add: timed_of_def replicate_append_same)
  ultimately show ?thesis using acc(1) by blast
qed

definition loud_packet :: packet_metadata where
  "loud_packet = default_packet_metadata\<lparr>pm_frames := 480, pm_data_discontinuity := True,
     pm_qpc_timestamp_100ns := 1000, pm_device_position := 7\<rparr>"

lemma timed_push_packet_stream_witness:
  "\<exists>acc frames. timed_push_packet collect (timed_of [Fin 1] (0, 0) False)
      (replicate 480 (Fin 2)) loud_packet [] = Some (acc, frames, 480)
    \<and> concat (map tf_samples frames) @ take (ta_len acc) (ta_samples acc) = replicate 480 (Fin 1)"
proof -
  have len: "length [Fin 1] < FRAME_SAMPLES" "in_range (length (replicate 480 (Fin 2)))"
    by (simp_all add: FRAME_SAMPLES_def in_range_def)
  have m: "take (pm_frames loud_packet) (replicate 480 (Fin 2)) = replicate 480 (Fin 2)"
    "packet_resets loud_packet" "\<not> pm_silent loud_packet"
    by (simp_all add: loud_packet_def default_packet_metadata_def)
  have "unclean_count False (replicate 480 (Fin 2)) = 480" "clean False (Fin 2) = Fin 1"
    by (simp_all add: unclean_count_def unclean_def clean_def clean_sample_def)
  with timed_push_packet_stream [OF len, of "(0, 0)" False loud_packet] m
  show ?thesis by (auto)
qed

text \<open>Exact timestamps: the frames cut from one packet by an empty accumulator are stamped exactly
  100 000 ticks of 100 ns (10 ms) and 480 device positions apart, starting at the packet's own time
  and position, as long as the values stay below \<open>2 ^ 64\<close>.\<close>

theorem timed_packet_timestamps:
  fixes m :: packet_metadata
  assumes "in_range (length samples)" "k < length (take (pm_frames m) samples) div FRAME_SAMPLES"
    and "unat (pm_qpc_timestamp_100ns m) + 100000 * k < 2 ^ 64"
    and "unat (pm_device_position m) + FRAME_SAMPLES * k < 2 ^ 64"
  shows "\<exists>acc frames n. timed_push_packet collect default_timed_accumulator samples m []
      = Some (acc, frames, n)
    \<and> length frames = length (take (pm_frames m) samples) div FRAME_SAMPLES
    \<and> unat (tf_qpc_timestamp_100ns (frames ! k)) = unat (pm_qpc_timestamp_100ns m) + 100000 * k
    \<and> unat (tf_device_position (frames ! k)) = unat (pm_device_position m) + FRAME_SAMPLES * k"
proof -
  let ?stream = "map (clean (pm_silent m)) (take (pm_frames m) samples)"
  let ?cs = "chunks FRAME_SAMPLES ?stream"
  have pos: "0 < FRAME_SAMPLES" by (simp add: FRAME_SAMPLES_def)
  from timed_push_packet_spec [of "[]", OF _ assms(1), of collect "(0, 0)" False m "[]"] pos
  obtain acc r where run: "timed_push_packet collect default_timed_accumulator samples m []
      = Some (acc, stamped m (stamp_at m 0) r FRAME_SAMPLES ?cs,
          unclean_count (pm_silent m) (take (pm_frames m) samples))"
    unfolding default_timed_accumulator_of start_stamp_def by auto
  have len: "length ?cs = length (take (pm_frames m) samples) div FRAME_SAMPLES"
    using length_chunks [OF pos, of ?stream] by simp
  have at: "tf_qpc_timestamp_100ns (stamped m (stamp_at m 0) r FRAME_SAMPLES ?cs ! k)
      = fst (stamp_at m (k * FRAME_SAMPLES))
    \<and> tf_device_position (stamped m (stamp_at m 0) r FRAME_SAMPLES ?cs ! k)
      = snd (stamp_at m (k * FRAME_SAMPLES))"
  proof (cases k)
    case 0
    with assms(2) len show ?thesis by (cases ?cs) auto
  next
    case (Suc j)
    with assms(2) len have "Suc j < length ?cs" by simp
    from nth_stamped [OF this, of m "stamp_at m 0" r FRAME_SAMPLES] Suc show ?thesis
      by (simp add: ac_simps)
  qed
  have "ticks (k * FRAME_SAMPLES) = 100000 * k"
  proof (induction k)
    case (Suc k)
    then show ?case using ticks_block [of "k * FRAME_SAMPLES"] by (simp add: ac_simps)
  qed (simp add: ticks_def)
  then have "unat (fst (stamp_at m (k * FRAME_SAMPLES)))
      = unat (pm_qpc_timestamp_100ns m) + 100000 * k"
    using unat_sat_add_of_nat [of "pm_qpc_timestamp_100ns m" "100000 * k"] assms(3)
    by (simp add: stamp_at_def)
  moreover have "unat (snd (stamp_at m (k * FRAME_SAMPLES)))
      = unat (pm_device_position m) + FRAME_SAMPLES * k"
    using unat_sat_add_of_nat [of "pm_device_position m" "FRAME_SAMPLES * k"] assms(4)
    unfolding stamp_at_def mult.commute [of k] by simp
  moreover have "length (stamped m (stamp_at m 0) r FRAME_SAMPLES ?cs)
      = length (take (pm_frames m) samples) div FRAME_SAMPLES"
    using len by (simp only: length_stamped)
  ultimately show ?thesis using run at by metis
qed

lemma timed_packet_timestamps_witness:
  "\<exists>acc frames n. timed_push_packet collect default_timed_accumulator (replicate 1000 (Fin 2))
      (loud_packet\<lparr>pm_frames := 960\<rparr>) [] = Some (acc, frames, n)
    \<and> length frames = 2 \<and> unat (tf_qpc_timestamp_100ns (frames ! 1)) = 101000
    \<and> unat (tf_device_position (frames ! 1)) = 487"
  using timed_packet_timestamps [of "replicate 1000 (Fin 2)" 1 "loud_packet\<lparr>pm_frames := 960\<rparr>"]
  by (simp add: loud_packet_def default_packet_metadata_def FRAME_SAMPLES_def in_range_def
     )

text \<open>The timed queues keep the same contract with room for eight frames: whatever the threads do to a
  new queue, delivered and waiting frames are a subsequence of those taken in, and polling without
  waiting returns a frame exactly when a pop would.\<close>

theorem timed_queue_trace:
  "let (q, out) = timed_queue_run ops timed_queue_new in
     subseq (out @ qs_frames q) (accepted False ops) \<and> timed_queue_ok q
     \<and> (\<forall>f. snd (timed_queue_try_pop q) = Some f \<longleftrightarrow> snd (timed_queue_take q) = Frame f)"
proof -
  let ?q = "fst (timed_queue_run ops timed_queue_new)"
  have "subseq (snd (timed_queue_run ops timed_queue_new) @ qs_frames ?q) (accepted False ops)"
    using tq.run_fifo [OF tq.ok_new, of ops]
    unfolding timed_queue_run_iff by (simp add: timed_queue_new_def)
  moreover have ok: "tq.ok ?q"
    using tq.ok_run [OF tq.ok_new] unfolding timed_queue_run_iff .
  moreover have "snd (timed_queue_try_pop ?q) = Some f \<longleftrightarrow> snd (timed_queue_take ?q) = Frame f" for f
    by (rule tq.try_pop_as_pop [OF ok])
  ultimately show ?thesis by (simp add: split_beta timed_queue_ok_iff)
qed

end
