(* ===== verification/Runtime_Shared.thy ===== *)
theory Runtime_Shared
  imports Engine_Snapshot Frame_Queue Synchronization
begin

text \<open>
  What the threads of a run share, \<^verbatim>\<open>crates/mini-aec-engine/src/runtime.rs\<close>: the snapshot, the two
  flags of \<^verbatim>\<open>Shared\<close>, the queues, the readiness channels and the identity counter, and the
  operations on them that several workers use.

  Concurrency.  The code shares nothing but atomics and mutex-protected state, so a thread is a
  sequence of atomic actions on the world.  \<open>world\<close> has, beside the shared state, a component of
  arbitrary type for the state of the other threads and of the scheduler.  Before every atomic action
  of the modelled thread an arbitrary function \<open>others\<close> is applied to the world: it is whatever
  the other threads did since the previous action.  A statement proved for every \<open>others\<close> that
  keeps some relation holds for every interleaving with threads that keep it.
\<close>

definition MAX_CONSECUTIVE_AEC_FAILURES :: u32 where "MAX_CONSECUTIVE_AEC_FAILURES = 3"
definition PACKET_CAPACITY :: nat where "PACKET_CAPACITY = 16384"
definition PROCESSING_BUDGET_ns :: nat where "PROCESSING_BUDGET_ns = 10000000"

section \<open>The world\<close>

datatype worker = SinkWorker | CaptureWorker | RenderWorker | ProcessingWorker

text \<open>One readiness channel: its capacity is one and each worker sends once.\<close>

record ready_channel =
  rc_message :: "(engine_error + unit) option"
  rc_receiver_alive :: bool

record 'x world =
  w_snapshot :: engine_snapshot
  w_stop_requested :: bool
  w_terminal_failure :: bool
  w_queue :: frame_queue
  w_microphone_queue :: timed_frame_queue
  w_render_queue :: timed_frame_queue
  w_ready :: "worker \<Rightarrow> ready_channel"
  w_next_id :: u64
  w_rest :: 'x

text \<open>
  The world at \<^verbatim>\<open>Engine::new\<close>: no run exists, so the queues are still empty ones.
\<close>

definition initial_world :: "'x \<Rightarrow> 'x world" where
  "initial_world x = \<lparr>w_snapshot = default_snapshot, w_stop_requested = False,
     w_terminal_failure = False, w_queue = frame_queue_new, w_microphone_queue = timed_queue_new,
     w_render_queue = timed_queue_new,
     w_ready = (\<lambda>_. \<lparr>rc_message = None, rc_receiver_alive = False\<rparr>), w_next_id = 1, w_rest = x\<rparr>"

definition on_snapshot :: "(engine_snapshot \<Rightarrow> engine_snapshot) \<Rightarrow> 'x world \<Rightarrow> 'x world" where
  "on_snapshot f w = w\<lparr>w_snapshot := f (w_snapshot w)\<rparr>"

lemma on_snapshot_sel [simp, frame_simps]:
  "w_snapshot (on_snapshot f w) = f (w_snapshot w)"
  "w_stop_requested (on_snapshot f w) = w_stop_requested w"
  "w_terminal_failure (on_snapshot f w) = w_terminal_failure w"
  "w_queue (on_snapshot f w) = w_queue w"
  "w_microphone_queue (on_snapshot f w) = w_microphone_queue w"
  "w_render_queue (on_snapshot f w) = w_render_queue w"
  "w_ready (on_snapshot f w) = w_ready w"
  "w_next_id (on_snapshot f w) = w_next_id w"
  "w_rest (on_snapshot f w) = w_rest w"
  by (simp_all add: on_snapshot_def)

definition ready_send ::
  "('x world \<Rightarrow> 'x world) \<Rightarrow> worker \<Rightarrow> (engine_error + unit) \<Rightarrow> 'x world \<Rightarrow> 'x world \<times> bool" where
  "ready_send others k msg w =
    (let w = others w in
     if rc_receiver_alive (w_ready w k)
     then (w\<lparr>w_ready := (w_ready w)(k := (w_ready w k)\<lparr>rc_message := Some msg\<rparr>)\<rparr>, True)
     else (w, False))"

section \<open>Failures\<close>

text \<open>
  \<^verbatim>\<open>Shared::record_failure\<close>: an atomic exchange of the failure flag, an atomic store, the queue's
  critical section and the snapshot's.
\<close>

definition record_failure ::
  "('x world \<Rightarrow> 'x world) \<Rightarrow> engine_error \<Rightarrow> 'x world \<Rightarrow> 'x world" where
  "record_failure others e w =
    (let w = others w in
     if w_terminal_failure w then w
     else
       let w = others (w\<lparr>w_terminal_failure := True\<rparr>);
           w = others (w\<lparr>w_stop_requested := True\<rparr>);
           w = others (w\<lparr>w_queue := frame_queue_fail (w_queue w)\<rparr>)
       in on_snapshot (\<lambda>s. s\<lparr>es_state := EngineFailed, es_last_error := Some e, es_queue_depth := 0\<rparr>) w)"

text \<open>
  \<^verbatim>\<open>Shared::record_aec_failure\<close>.  The callers pass their own queue and the peer's; both are failed,
  so \<open>mic_first\<close> only tells in which order.
\<close>

definition record_aec_failure ::
  "('x world \<Rightarrow> 'x world) \<Rightarrow> bool \<Rightarrow> engine_error \<Rightarrow> 'x world \<Rightarrow> 'x world" where
  "record_aec_failure others mic_first e w =
    (let w = others w in
     if w_terminal_failure w then w
     else
       let fail_microphone = (\<lambda>w. w\<lparr>w_microphone_queue := timed_queue_fail (w_microphone_queue w)\<rparr>);
           fail_render = (\<lambda>w. w\<lparr>w_render_queue := timed_queue_fail (w_render_queue w)\<rparr>);
           w = others (w\<lparr>w_terminal_failure := True\<rparr>);
           w = others (w\<lparr>w_stop_requested := True\<rparr>);
           w = others ((if mic_first then fail_microphone else fail_render) w);
           w = others ((if mic_first then fail_render else fail_microphone) w)
       in on_snapshot (\<lambda>s. s\<lparr>es_state := EngineFailed, es_last_error := Some e, es_queue_depth := 0,
            es_render_queue_depth := 0, es_degradation_reason := None\<rparr>) w)"

definition update_queue ::
  "('x world \<Rightarrow> 'x world) \<Rightarrow> queue_metrics \<Rightarrow> 'x world \<Rightarrow> 'x world" where
  "update_queue others m w =
     on_snapshot (\<lambda>s. s\<lparr>es_queue_depth := qm_depth m, es_queue_high_water := qm_high_water m,
       es_queue_overflows := qm_overflows m, es_discarded_frames := qm_discarded m\<rparr>) (others w)"

section \<open>Sources, diagnostics, identities\<close>

definition validate_source ::
  "source_descriptor \<Rightarrow> input_role \<Rightarrow> str \<Rightarrow> engine_error + unit" where
  "validate_source source role requested_id =
    (if sd_endpoint_id source \<noteq> requested_id then
       Inl (engine_error_new EK_InvalidSource
         (Text ''the capture adapter did not resolve the exact requested endpoint ID''))
     else if sd_role source \<noteq> role then
       Inl (engine_error_new EK_InvalidSource
         (Pieces [Text ''the endpoint adapter resolved '', Text (input_role_debug role), Text '' as '',
           Text (input_role_debug (sd_role source))]))
     else if \<not> sd_active source then
       Inl (engine_error_new EK_SourceUnavailable
         (Pieces [Text ''capture endpoint '', Quoted (sd_friendly_name source), Text '' is not active'']))
     else Inr ())"

lemma validate_source_Inr_iff [simp]:
  "validate_source d role i = Inr () \<longleftrightarrow> sd_endpoint_id d = i \<and> sd_role d = role \<and> sd_active d"
  by (simp add: validate_source_def)

definition refresh_sink_diagnostics ::
  "('s, 'm) audio_output_scheme \<Rightarrow> ('x world \<Rightarrow> 'x world) \<Rightarrow> 's \<Rightarrow> 'x world
     \<Rightarrow> 's \<times> 'x world \<times> (engine_error + unit)" where
  "refresh_sink_diagnostics sink others s w =
    (case ao_diagnostics sink s of
       (s, Inl e) \<Rightarrow> (s, w, Inl (engine_error_from_output e))
     | (s, Inr diagnostics) \<Rightarrow>
         (s, on_snapshot (\<lambda>sn. sn\<lparr>es_sink_diagnostics_latest :=
            Some (sink_transport_snapshot_from diagnostics)\<rparr>) (others w), Inr ()))"

text \<open>
  \<^verbatim>\<open>new_identity\<close>; \<open>time\<close> is the number of nanoseconds since the epoch (\<open>None\<close> before it),
  \<open>pid\<close> the process number.
\<close>

definition new_identity ::
  "('x world \<Rightarrow> 'x world) \<Rightarrow> nat option \<Rightarrow> u32 \<Rightarrow> 'x world \<Rightarrow> 'x world \<times> u128" where
  "new_identity others time pid w =
    (let w = others w;
         counter = (ucast (w_next_id w) :: u128);
         w = w\<lparr>w_next_id := w_next_id w + 1\<rparr>;
         t = (case time of None \<Rightarrow> 0 | Some n \<Rightarrow> of_nat n);
         high = and (xor t (ucast pid)) (ucast (- 1 :: u64));
         value = or (push_bit 64 high) counter
     in (w, if value = 0 then 1 else value))"

section \<open>What every thread of a run keeps\<close>

text \<open>
  \<open>follows w0 w\<close>: seen from an earlier world \<open>w0\<close> of the same run, \<open>w\<close> has kept the flags that
  are only ever raised, and its queues are well formed.  A thread relies on the others to keep this and
  keeps it itself, so it holds of every interleaving of such threads.
\<close>

definition world_ok :: "'x world \<Rightarrow> bool" where
  "world_ok w \<longleftrightarrow> frame_queue_ok (w_queue w) \<and> timed_queue_ok (w_microphone_queue w)
     \<and> timed_queue_ok (w_render_queue w)"

definition flags_le :: "'f queue_state \<Rightarrow> 'f queue_state \<Rightarrow> bool" where
  "flags_le q q' \<longleftrightarrow> (qs_producer_done q \<longrightarrow> qs_producer_done q') \<and> (qs_failed q \<longrightarrow> qs_failed q')"

definition follows :: "'x world \<Rightarrow> 'x world \<Rightarrow> bool" where
  "follows w0 w \<longleftrightarrow> world_ok w
     \<and> (w_terminal_failure w0 \<longrightarrow> w_terminal_failure w)
     \<and> (w_stop_requested w0 \<longrightarrow> w_stop_requested w)
     \<and> flags_le (w_queue w0) (w_queue w)
     \<and> flags_le (w_microphone_queue w0) (w_microphone_queue w)
     \<and> flags_le (w_render_queue w0) (w_render_queue w)"

definition cooperative :: "('x world \<Rightarrow> 'x world) \<Rightarrow> bool" where
  "cooperative others \<longleftrightarrow> (\<forall>w. world_ok w \<longrightarrow> follows w (others w))"

lemma flags_le_refl [simp]: "flags_le q q"
  by (simp add: flags_le_def)

lemma flags_le_trans: "flags_le a b \<Longrightarrow> flags_le b c \<Longrightarrow> flags_le a c"
  by (auto simp: flags_le_def)

lemma follows_refl [simp]: "follows w w \<longleftrightarrow> world_ok w"
  by (simp add: follows_def)

lemma follows_ok: "follows w0 w \<Longrightarrow> world_ok w"
  by (simp add: follows_def)

lemma follows_trans: "follows a b \<Longrightarrow> follows b c \<Longrightarrow> follows a c"
  using flags_le_trans [of "w_queue a" "w_queue b" "w_queue c"]
    flags_le_trans [of "w_microphone_queue a" "w_microphone_queue b" "w_microphone_queue c"]
    flags_le_trans [of "w_render_queue a" "w_render_queue b" "w_render_queue c"]
  by (auto simp: follows_def)

lemma others_after:
  assumes "cooperative others" "world_ok w"
  shows "follows w (others w)"
  using assms by (simp add: cooperative_def)

lemma follows_others: "cooperative others \<Longrightarrow> follows w0 w \<Longrightarrow> follows w0 (others w)"
  using follows_trans others_after follows_ok by metis

lemma follows_snapshot [invar_intros]: "follows w0 w \<Longrightarrow> follows w0 (on_snapshot f w)"
  by (simp add: follows_def world_ok_def)

lemma follows_flags [invar_intros]:
  "follows w0 w \<Longrightarrow> follows w0 (w\<lparr>w_terminal_failure := True\<rparr>)"
  "follows w0 w \<Longrightarrow> follows w0 (w\<lparr>w_stop_requested := True\<rparr>)"
  "follows w0 w \<Longrightarrow> follows w0 (w\<lparr>w_ready := r\<rparr>)"
  "follows w0 w \<Longrightarrow> follows w0 (w\<lparr>w_next_id := n\<rparr>)"
  by (simp_all add: follows_def world_ok_def)

lemma follows_queue:
  "follows w0 w \<Longrightarrow> frame_queue_ok q \<Longrightarrow> flags_le (w_queue w) q \<Longrightarrow> follows w0 (w\<lparr>w_queue := q\<rparr>)"
  "follows w0 w \<Longrightarrow> timed_queue_ok p \<Longrightarrow> flags_le (w_microphone_queue w) p \<Longrightarrow>
     follows w0 (w\<lparr>w_microphone_queue := p\<rparr>)"
  "follows w0 w \<Longrightarrow> timed_queue_ok p \<Longrightarrow> flags_le (w_render_queue w) p \<Longrightarrow>
     follows w0 (w\<lparr>w_render_queue := p\<rparr>)"
  using flags_le_trans by (auto simp: follows_def world_ok_def)

lemma flags_le_frame_queue:
  "flags_le q (fst (frame_queue_push f q))" "flags_le q (fst (frame_queue_take q))"
  "flags_le q (frame_queue_finish_producer q)" "flags_le q (frame_queue_fail q)"
  "flags_le q (fst (frame_queue_clear q))"
  by (auto simp: flags_le_def frame_queue_defs Let_def split: list.splits)

lemma flags_le_timed_queue:
  "flags_le p (fst (timed_queue_push g p))" "flags_le p (fst (timed_queue_take p))"
  "flags_le p (fst (timed_queue_try_pop p))" "flags_le p (timed_queue_finish_producer p)"
  "flags_le p (timed_queue_fail p)" "flags_le p (timed_queue_clear p)"
  by (auto simp: flags_le_def timed_queue_defs Let_def split: list.splits)

lemma follows_queue_ops [invar_intros]:
  "follows w0 w \<Longrightarrow> follows w0 (w\<lparr>w_queue := fst (frame_queue_push f (w_queue w))\<rparr>)"
  "follows w0 w \<Longrightarrow> follows w0 (w\<lparr>w_queue := fst (frame_queue_take (w_queue w))\<rparr>)"
  "follows w0 w \<Longrightarrow> follows w0 (w\<lparr>w_queue := frame_queue_finish_producer (w_queue w)\<rparr>)"
  "follows w0 w \<Longrightarrow> follows w0 (w\<lparr>w_queue := frame_queue_fail (w_queue w)\<rparr>)"
  "follows w0 w \<Longrightarrow> follows w0 (w\<lparr>w_queue := fst (frame_queue_clear (w_queue w))\<rparr>)"
  by (auto dest: follows_ok simp: world_ok_def intro!: follows_queue frame_queue_ok_push
      frame_queue_ok_take frame_queue_ok_others flags_le_frame_queue)

lemma follows_microphone_ops [invar_intros]:
  "follows w0 w \<Longrightarrow> follows w0 (w\<lparr>w_microphone_queue := fst (timed_queue_push f (w_microphone_queue w))\<rparr>)"
  "follows w0 w \<Longrightarrow> follows w0 (w\<lparr>w_microphone_queue := fst (timed_queue_take (w_microphone_queue w))\<rparr>)"
  "follows w0 w \<Longrightarrow> follows w0 (w\<lparr>w_microphone_queue := timed_queue_finish_producer (w_microphone_queue w)\<rparr>)"
  "follows w0 w \<Longrightarrow> follows w0 (w\<lparr>w_microphone_queue := timed_queue_fail (w_microphone_queue w)\<rparr>)"
  "follows w0 w \<Longrightarrow> follows w0 (w\<lparr>w_microphone_queue := timed_queue_clear (w_microphone_queue w)\<rparr>)"
  by (auto dest: follows_ok simp: world_ok_def intro!: follows_queue timed_queue_ok_ops
      flags_le_timed_queue)

lemma follows_render_ops [invar_intros]:
  "follows w0 w \<Longrightarrow> follows w0 (w\<lparr>w_render_queue := fst (timed_queue_push f (w_render_queue w))\<rparr>)"
  "follows w0 w \<Longrightarrow> follows w0 (w\<lparr>w_render_queue := fst (timed_queue_take (w_render_queue w))\<rparr>)"
  "follows w0 w \<Longrightarrow> follows w0 (w\<lparr>w_render_queue := fst (timed_queue_try_pop (w_render_queue w))\<rparr>)"
  "follows w0 w \<Longrightarrow> follows w0 (w\<lparr>w_render_queue := timed_queue_finish_producer (w_render_queue w)\<rparr>)"
  "follows w0 w \<Longrightarrow> follows w0 (w\<lparr>w_render_queue := timed_queue_fail (w_render_queue w)\<rparr>)"
  "follows w0 w \<Longrightarrow> follows w0 (w\<lparr>w_render_queue := timed_queue_clear (w_render_queue w)\<rparr>)"
  by (auto dest: follows_ok simp: world_ok_def intro!: follows_queue timed_queue_ok_ops
      flags_le_timed_queue)

lemma follows_ready_send [invar_intros]:
  assumes "cooperative others" "follows w0 w"
  shows "follows w0 (fst (ready_send others k msg w))"
  using follows_others [OF assms] by (simp add: ready_send_def Let_def follows_flags)

lemma follows_record_failure [invar_intros]:
  assumes "cooperative others" "follows w0 w"
  shows "follows w0 (record_failure others e w)"
proof -
  note o = follows_others [OF assms(1)]
  show ?thesis
    unfolding record_failure_def Let_def
    by (rule if_split [THEN iffD2]) (intro conjI impI o assms(2) follows_snapshot follows_queue_ops follows_flags)
qed

lemma follows_record_aec_failure [invar_intros]:
  assumes "cooperative others" "follows w0 w"
  shows "follows w0 (record_aec_failure others b e w)"
proof -
  note o = follows_others [OF assms(1)]
  show ?thesis
    unfolding record_aec_failure_def Let_def
    by (rule if_split [THEN iffD2], cases b)
      (simp_all only: if_True if_False, (intro conjI impI o assms(2) follows_snapshot
        follows_microphone_ops follows_render_ops follows_flags)+)
qed

lemma follows_refresh:
  assumes "refresh_sink_diagnostics sink others s w = (s', w', r)" "cooperative others" "follows w0 w"
  shows "follows w0 w'"
  using assms(1) follows_others [OF assms(2,3)] assms(3)
  by (auto simp: refresh_sink_diagnostics_def follows_snapshot split: prod.splits sum.splits)

section \<open>The failure latch\<close>


lemma record_failure_lost: "w_terminal_failure (others w) \<Longrightarrow> record_failure others e w = others w"
  by (simp add: record_failure_def)

lemma fail_ok [simp]:
  "world_ok (w\<lparr>w_terminal_failure := b\<rparr>) = world_ok w"
  "world_ok (w\<lparr>w_stop_requested := b\<rparr>) = world_ok w"
  "world_ok w \<Longrightarrow> world_ok (w\<lparr>w_queue := frame_queue_fail (w_queue w)\<rparr>)"
  "world_ok w \<Longrightarrow> world_ok (w\<lparr>w_microphone_queue := timed_queue_fail (w_microphone_queue w)\<rparr>)"
  "world_ok w \<Longrightarrow> world_ok (w\<lparr>w_render_queue := timed_queue_fail (w_render_queue w)\<rparr>)"
  by (simp_all add: world_ok_def frame_queue_ok_others timed_queue_ok_ops)

text \<open>C5
  The failure latch, in any interleaving of threads that only raise the flags: the thread that wins the
  exchange of the failure flag leaves both flags raised, the frame queue failed and empty, and the
  snapshot Failed with its own error, and every later failure, whatever its error, then changes nothing.\<close>

theorem record_failure_latch:
  fixes e :: engine_error and w :: "'x world"
  assumes "\<not> w_terminal_failure (others w)" "cooperative others" "world_ok w"
  defines "w' \<equiv> record_failure others e w"
  shows "w_terminal_failure w' \<and> w_stop_requested w'
    \<and> qs_failed (w_queue w') \<and> qs_frames (w_queue w') = []
    \<and> es_state (w_snapshot w') = EngineFailed \<and> es_last_error (w_snapshot w') = Some e
    \<and> record_failure others e2 w' = others w'"
proof -
  define w1 where "w1 = others ((others w)\<lparr>w_terminal_failure := True\<rparr>)"
  define w2 where "w2 = others (w1\<lparr>w_stop_requested := True\<rparr>)"
  define w3 where "w3 = others (w2\<lparr>w_queue := frame_queue_fail (w_queue w2)\<rparr>)"
  have w': "w' = on_snapshot (\<lambda>s. s\<lparr>es_state := EngineFailed, es_last_error := Some e,
      es_queue_depth := 0\<rparr>) w3"
    using assms(1) by (simp add: w'_def record_failure_def Let_def w1_def w2_def w3_def)
  have 0: "follows w (others w)" by (rule others_after [OF assms(2,3)])
  have 1: "follows ((others w)\<lparr>w_terminal_failure := True\<rparr>) w1"
    unfolding w1_def by (rule others_after [OF assms(2)]) (use follows_ok [OF 0] in simp)
  have 2: "follows (w1\<lparr>w_stop_requested := True\<rparr>) w2"
    unfolding w2_def by (rule others_after [OF assms(2)]) (use follows_ok [OF 1] in simp)
  have 3: "follows (w2\<lparr>w_queue := frame_queue_fail (w_queue w2)\<rparr>) w3"
    unfolding w3_def by (rule others_after [OF assms(2)]) (use follows_ok [OF 2] in simp)
  have "world_ok w3" "w_terminal_failure w3" "w_stop_requested w3" "qs_failed (w_queue w3)"
    using 1 2 3 by (simp_all add: follows_def flags_le_def frame_queue_fail_def)
  moreover from this have "world_ok w'" "w_terminal_failure w'" unfolding w' by (simp_all add: world_ok_def)
  moreover from this have "w_terminal_failure (others w')"
    using others_after [OF assms(2), of w'] by (simp add: follows_def)
  ultimately show ?thesis
    unfolding w' by (simp add: record_failure_lost world_ok_def frame_queue_ok_def)
qed

lemma world_ok_initial: "world_ok (initial_world x)"
  by (simp add: world_ok_def initial_world_def frame_queue_ok_new timed_queue_ok_new)

lemma record_failure_latch_witness:
  "let w = record_failure id (engine_error_new EK_SourceFailure (Text ''gone'')) (initial_world ()) in
     w_terminal_failure w \<and> es_state (w_snapshot w) = EngineFailed
     \<and> record_failure id (engine_error_new EK_OutputFailure (Text ''late'')) w = w"
  using record_failure_latch [of id "initial_world ()" "engine_error_new EK_SourceFailure (Text ''gone'')"
      "engine_error_new EK_OutputFailure (Text ''late'')"]
  by (simp add: world_ok_initial cooperative_def) (simp add: initial_world_def)

text \<open>The same of the failures of an AEC run, which fail both queues.\<close>

lemma record_aec_failure_lost:
  "w_terminal_failure (others w) \<Longrightarrow> record_aec_failure others b e w = others w"
  by (simp add: record_aec_failure_def)

lemma record_aec_failure_won:
  "record_aec_failure id b e w = (if w_terminal_failure w then w else
     w\<lparr>w_terminal_failure := True, w_stop_requested := True,
       w_microphone_queue := timed_queue_fail (w_microphone_queue w),
       w_render_queue := timed_queue_fail (w_render_queue w),
       w_snapshot := (w_snapshot w)\<lparr>es_state := EngineFailed, es_last_error := Some e,
         es_queue_depth := 0, es_render_queue_depth := 0, es_degradation_reason := None\<rparr>\<rparr>)"
  by (simp add: record_aec_failure_def Let_def on_snapshot_def)

section \<open>Identities\<close>

lemma unat_widen: "unat (ucast c :: u128) = unat (c :: u64)"
  using unsigned_less [of c, where ?'a = nat] by (simp add: unsigned_ucast_eq take_bit_nat_eq_self)

lemma new_identity_nonzero: "snd (new_identity others t pid w) \<noteq> 0"
  by (simp add: new_identity_def Let_def)

text \<open>The counter of a process makes its identities distinct, whatever the clock says.\<close>

lemma new_identity_low:
  assumes "w_next_id (others w) \<noteq> 0"
  shows "take_bit 64 (snd (new_identity others t pid w)) = ucast (w_next_id (others w))"
proof -
  have low: "take_bit 64 (or (push_bit 64 h) (ucast c)) = (ucast c :: u128)" for h :: u128 and c :: u64
    by (rule bit_word_eqI) (auto simp: bit_simps dest: bit_imp_le_length)
  have nz: "or (push_bit 64 h) (ucast (w_next_id (others w))) \<noteq> (0 :: u128)" for h
  proof
    assume "or (push_bit 64 h) (ucast (w_next_id (others w))) = (0 :: u128)"
    with low [of h "w_next_id (others w)"] have "(ucast (w_next_id (others w)) :: u128) = 0" by simp
    then have "unat (ucast (w_next_id (others w)) :: u128) = 0" by simp
    then have "unat (w_next_id (others w)) = 0" by (simp only: unat_widen)
    with assms show False by (simp add: unat_eq_zero)
  qed
  show ?thesis by (simp only: new_identity_def Let_def snd_conv nz low if_False)
qed

text \<open>Identities: a new identity is never zero, so making a session identity of it cannot fail, and two
  identities taken at different values of the process-wide counter differ, whatever the clock says.\<close>

theorem new_identity_unique:
  assumes "w_next_id (others w) \<noteq> 0" "w_next_id (others' w') \<noteq> 0"
    and "w_next_id (others w) \<noteq> w_next_id (others' w')"
  shows "snd (new_identity others t pid w) \<noteq> snd (new_identity others' t' pid' w')
    \<and> session_id_new (snd (new_identity others t pid w)) = Some (SessionId (snd (new_identity others t pid w)))
    \<and> w_next_id (fst (new_identity others t pid w)) = w_next_id (others w) + 1"
proof -
  have inj: "a = b" if "(ucast a :: u128) = ucast b" for a b :: u64
    using that unat_widen [of a] unat_widen [of b] by (simp add: word_unat_eq_iff)
  have "snd (new_identity others t pid w) \<noteq> snd (new_identity others' t' pid' w')"
    using new_identity_low [of others w t pid, OF assms(1)]
      new_identity_low [of others' w' t' pid', OF assms(2)]
      inj assms(3) by metis
  moreover have "w_next_id (fst (new_identity others t pid w)) = w_next_id (others w) + 1"
    by (simp add: new_identity_def Let_def)
  ultimately show ?thesis
    using new_identity_nonzero [of others t pid w] by (simp add: session_id_new_def)
qed

lemma new_identity_unique_witness:
  "snd (new_identity id (Some 5) 9 (initial_world ()))
     \<noteq> snd (new_identity id (Some 5) 9 ((initial_world ())\<lparr>w_next_id := 2\<rparr>))"
  using new_identity_unique [of id "initial_world ()" id "(initial_world ())\<lparr>w_next_id := 2\<rparr>"]
  by (simp add: initial_world_def)

end
