(* ===== verification/Capture_Worker.thy ===== *)
theory Capture_Worker
  imports Runtime_Shared
begin

text \<open>
  The threads that read a capture endpoint, \<^verbatim>\<open>crates/mini-aec-engine/src/runtime.rs\<close>:
  \<^verbatim>\<open>capture_worker\<close> of a bypass run and \<^verbatim>\<open>aec_input_worker\<close>, of which an AEC run has one for
  the microphone and one for the render loopback.  The endpoint is any record of operations; reading a
  packet is where it blocks.  A panic of the thread is \<open>Panicked\<close>; fuel counts packets.
\<close>

datatype 'b thread_end = Panicked | Ended 'b

section \<open>The bypass capture thread\<close>

text \<open>What the callback of \<^verbatim>\<open>push_packet\<close> does with a finished frame.\<close>

definition emit_frame ::
  "('x world \<Rightarrow> 'x world) \<Rightarrow> pcm_samples \<Rightarrow> 'x world \<Rightarrow> 'x world" where
  "emit_frame others frame w =
    (let w = others w;
         (q, metrics) = frame_queue_push frame (w_queue w);
         w = others (w\<lparr>w_queue := q\<rparr>)
     in on_snapshot (\<lambda>s. s\<lparr>es_output_frames := es_output_frames s + 1,
          es_queue_depth := qm_depth metrics, es_queue_high_water := qm_high_water metrics,
          es_queue_overflows := qm_overflows metrics, es_discarded_frames := qm_discarded metrics\<rparr>) w)"

definition count_packet :: "packet_metadata \<Rightarrow> engine_snapshot \<Rightarrow> engine_snapshot" where
  "count_packet m s = s\<lparr>es_captured_packets := es_captured_packets s + 1,
     es_captured_samples := es_captured_samples s + of_nat (pm_frames m),
     es_silent_packets := es_silent_packets s + of_bool (pm_silent m),
     es_discontinuities := es_discontinuities s + of_bool (pm_data_discontinuity m),
     es_timestamp_errors := es_timestamp_errors s + of_bool (pm_timestamp_error m),
     es_last_device_position := Some (pm_device_position m),
     es_last_qpc_timestamp_100ns := Some (pm_qpc_timestamp_100ns m)\<rparr>"

definition too_large :: "string \<Rightarrow> packet_metadata \<Rightarrow> nat \<Rightarrow> message" where
  "too_large who m capacity = Pieces [Text who, Text '' packet contains '', Number (pm_frames m),
     Text '' frames; preallocated capacity is '', Number capacity]"

text \<open>One iteration, on the endpoint's state, the packet buffer, the accumulator and the world.\<close>

definition capture_iteration ::
  "'i audio_input \<Rightarrow> ('x world \<Rightarrow> 'x world) \<Rightarrow> input_role
     \<Rightarrow> 'i \<times> fp list \<times> frame_accumulator \<times> 'x world
     \<Rightarrow> ('i \<times> fp list \<times> frame_accumulator \<times> 'x world, ('i \<times> 'x world) thread_end) flow" where
  "capture_iteration inp others role = (\<lambda>(i, packet, acc, w).
    (let w = others w in
     if w_stop_requested w then Break (Ended (i, w))
     else case ai_read_packet inp packet i of
       (i, packet, Inr (Some metadata)) \<Rightarrow>
         if length packet < pm_frames metadata then
           Break (Ended (i, record_failure others
             (engine_error_new EK_SourceFailure (too_large ''capture'' metadata (length packet))) w))
         else
           (case frame_push_packet (emit_frame others) acc packet metadata
                   (on_snapshot (count_packet metadata) (others w)) of
              None \<Rightarrow> Break Panicked
            | Some (acc, w, sanitized) \<Rightarrow>
                Continue (i, packet, acc,
                  on_snapshot (\<lambda>s. s\<lparr>es_sanitized_samples := es_sanitized_samples s + sanitized\<rparr>)
                    (others w)))
     | (i, packet, Inr None) \<Rightarrow> Continue (i, packet, acc, w)
     | (i, packet, Inl e) \<Rightarrow>
         Break (Ended (i, record_failure others (engine_error_from_source role e) w))))"

text \<open>After the loop: the endpoint is stopped and the queue gets no more frames.\<close>

definition finish_queue :: "('x world \<Rightarrow> 'x world) \<Rightarrow> 'x world \<Rightarrow> 'x world" where
  "finish_queue others w =
    (let w = others w in w\<lparr>w_queue := frame_queue_finish_producer (w_queue w)\<rparr>)"

definition capture_teardown ::
  "'i audio_input \<Rightarrow> ('x world \<Rightarrow> 'x world) \<Rightarrow> input_role \<Rightarrow> 'i \<Rightarrow> 'x world \<Rightarrow> 'i \<times> 'x world" where
  "capture_teardown inp others role i w =
    (case ai_stop inp i of
       (i, Inl e) \<Rightarrow>
         let w = others w;
             w = (if w_terminal_failure w then w
                  else record_failure others (engine_error_from_source role e) w)
         in (i, finish_queue others w)
     | (i, Inr _) \<Rightarrow> (i, finish_queue others w))"

definition capture_worker ::
  "'i audio_input_factory \<Rightarrow> 'i audio_input \<Rightarrow> ('x world \<Rightarrow> 'x world) \<Rightarrow> input_role
     \<Rightarrow> source_descriptor \<Rightarrow> nat \<Rightarrow> 'x world \<Rightarrow> ('i option \<times> 'x world) thread_end option" where
  "capture_worker factory inp others role source fuel w =
    (case aif_open factory role source of
       Inl e \<Rightarrow>
         let (w, _) = ready_send others CaptureWorker (Inl (engine_error_from_source role e)) w
         in Some (Ended (None, finish_queue others w))
     | Inr i \<Rightarrow>
       let (w, sent) = ready_send others CaptureWorker (Inr ()) w in
       if \<not> sent then Some (Ended (Some (fst (ai_stop inp i)), finish_queue others w))
       else
         case run_loop (capture_iteration inp others role) fuel
                (i, replicate PACKET_CAPACITY (Fin 0), default_frame_accumulator, w) of
           None \<Rightarrow> None
         | Some Panicked \<Rightarrow> Some Panicked
         | Some (Ended (i, w)) \<Rightarrow>
             let (i, w) = capture_teardown inp others role i w in Some (Ended (Some i, w)))"

section \<open>The AEC input threads\<close>

text \<open>The worker of a role owns the queue of that role; the other queue is its peer's.\<close>

definition role_worker :: "input_role \<Rightarrow> worker" where
  "role_worker role = (case role of Microphone \<Rightarrow> CaptureWorker | RenderLoopback \<Rightarrow> RenderWorker)"

definition on_role_queue ::
  "input_role \<Rightarrow> (timed_frame_queue \<Rightarrow> timed_frame_queue \<times> 'r) \<Rightarrow> 'x world \<Rightarrow> 'x world \<times> 'r" where
  "on_role_queue role f w =
    (case role of
       Microphone \<Rightarrow> let (q, r) = f (w_microphone_queue w) in (w\<lparr>w_microphone_queue := q\<rparr>, r)
     | RenderLoopback \<Rightarrow> let (q, r) = f (w_render_queue w) in (w\<lparr>w_render_queue := q\<rparr>, r))"

definition update_input_packet_snapshot ::
  "('x world \<Rightarrow> 'x world) \<Rightarrow> input_role \<Rightarrow> packet_metadata \<Rightarrow> 'x world \<Rightarrow> 'x world" where
  "update_input_packet_snapshot others role m w = on_snapshot (\<lambda>s.
    (case role of
       Microphone \<Rightarrow> count_packet m s
     | RenderLoopback \<Rightarrow> s\<lparr>es_render_packets := es_render_packets s + 1,
         es_render_samples := es_render_samples s + of_nat (pm_frames m),
         es_render_silent_packets := es_render_silent_packets s + of_bool (pm_silent m),
         es_render_discontinuities := es_render_discontinuities s + of_bool (pm_data_discontinuity m),
         es_render_timestamp_errors := es_render_timestamp_errors s + of_bool (pm_timestamp_error m),
         es_last_render_device_position := Some (pm_device_position m),
         es_last_render_qpc_timestamp_100ns := Some (pm_qpc_timestamp_100ns m)\<rparr>)) (others w)"

definition update_input_frame_snapshot ::
  "('x world \<Rightarrow> 'x world) \<Rightarrow> input_role \<Rightarrow> queue_metrics \<Rightarrow> 'x world \<Rightarrow> 'x world" where
  "update_input_frame_snapshot others role metrics w = on_snapshot (\<lambda>s.
    (case role of
       Microphone \<Rightarrow> s\<lparr>es_output_frames := es_output_frames s + 1,
         es_queue_depth := qm_depth metrics, es_queue_high_water := qm_high_water metrics,
         es_queue_overflows := qm_overflows metrics, es_discarded_frames := qm_discarded metrics\<rparr>
     | RenderLoopback \<Rightarrow> s\<lparr>es_render_frames := es_render_frames s + 1,
         es_render_queue_depth := qm_depth metrics, es_render_queue_high_water := qm_high_water metrics,
         es_render_queue_overflows := qm_overflows metrics,
         es_render_discarded_frames := qm_discarded metrics\<rparr>)) (others w)"

definition emit_timed_frame ::
  "('x world \<Rightarrow> 'x world) \<Rightarrow> input_role \<Rightarrow> timed_frame \<Rightarrow> 'x world \<Rightarrow> 'x world" where
  "emit_timed_frame others role frame w =
    (let (w, metrics) = on_role_queue role (timed_queue_push frame) (others w)
     in update_input_frame_snapshot others role metrics w)"

definition aec_input_iteration ::
  "'i audio_input \<Rightarrow> ('x world \<Rightarrow> 'x world) \<Rightarrow> input_role
     \<Rightarrow> 'i \<times> fp list \<times> timed_accumulator \<times> 'x world
     \<Rightarrow> ('i \<times> fp list \<times> timed_accumulator \<times> 'x world, ('i \<times> 'x world) thread_end) flow" where
  "aec_input_iteration inp others role = (\<lambda>(i, packet, acc, w).
    (let w = others w in
     if w_stop_requested w then Break (Ended (i, w))
     else case ai_read_packet inp packet i of
       (i, packet, Inr (Some metadata)) \<Rightarrow>
         if length packet < pm_frames metadata then
           Break (Ended (i, record_aec_failure others (role = Microphone)
             (engine_error_new
               (case role of Microphone \<Rightarrow> EK_SourceFailure | RenderLoopback \<Rightarrow> EK_RenderFailure)
               (too_large (input_role_debug role) metadata (length packet))) w))
         else
           (case timed_push_packet (emit_timed_frame others role) acc packet metadata
                   (update_input_packet_snapshot others role metadata w) of
              None \<Rightarrow> Break Panicked
            | Some (acc, w, sanitized) \<Rightarrow>
                Continue (i, packet, acc, on_snapshot (\<lambda>s.
                  (case role of
                     Microphone \<Rightarrow> s\<lparr>es_sanitized_samples := es_sanitized_samples s + sanitized\<rparr>
                   | RenderLoopback \<Rightarrow>
                       s\<lparr>es_render_sanitized_samples := es_render_sanitized_samples s + sanitized\<rparr>))
                  (others w)))
     | (i, packet, Inr None) \<Rightarrow> Continue (i, packet, acc, w)
     | (i, packet, Inl e) \<Rightarrow>
         Break (Ended (i, record_aec_failure others (role = Microphone)
           (engine_error_from_source role e) w))))"

definition finish_role_queue :: "('x world \<Rightarrow> 'x world) \<Rightarrow> input_role \<Rightarrow> 'x world \<Rightarrow> 'x world" where
  "finish_role_queue others role w =
     fst (on_role_queue role (\<lambda>q. (timed_queue_finish_producer q, ())) (others w))"

definition aec_input_teardown ::
  "'i audio_input \<Rightarrow> ('x world \<Rightarrow> 'x world) \<Rightarrow> input_role \<Rightarrow> 'i \<Rightarrow> 'x world \<Rightarrow> 'i \<times> 'x world" where
  "aec_input_teardown inp others role i w =
    (case ai_stop inp i of
       (i, Inl e) \<Rightarrow>
         let w = others w;
             w = (if w_terminal_failure w then w
                  else record_aec_failure others (role = Microphone) (engine_error_from_source role e) w)
         in (i, finish_role_queue others role w)
     | (i, Inr _) \<Rightarrow> (i, finish_role_queue others role w))"

definition aec_input_worker ::
  "'i audio_input_factory \<Rightarrow> 'i audio_input \<Rightarrow> ('x world \<Rightarrow> 'x world) \<Rightarrow> input_role
     \<Rightarrow> source_descriptor \<Rightarrow> nat \<Rightarrow> 'x world \<Rightarrow> ('i option \<times> 'x world) thread_end option" where
  "aec_input_worker factory inp others role source fuel w =
    (case aif_open factory role source of
       Inl e \<Rightarrow>
         let (w, _) = ready_send others (role_worker role) (Inl (engine_error_from_source role e)) w
         in Some (Ended (None, finish_role_queue others role w))
     | Inr i \<Rightarrow>
       let (w, sent) = ready_send others (role_worker role) (Inr ()) w in
       if \<not> sent then Some (Ended (Some (fst (ai_stop inp i)), finish_role_queue others role w))
       else
         case run_loop (aec_input_iteration inp others role) fuel
                (i, replicate PACKET_CAPACITY (Fin 0), default_timed_accumulator, w) of
           None \<Rightarrow> None
         | Some Panicked \<Rightarrow> Some Panicked
         | Some (Ended (i, w)) \<Rightarrow>
             let (i, w) = aec_input_teardown inp others role i w in Some (Ended (Some i, w)))"

section \<open>The bypass thread is safe\<close>

lemma fold_keeps: "P w \<Longrightarrow> (\<And>f w. P w \<Longrightarrow> P (g f w)) \<Longrightarrow> P (fold g fs w)"
  by (induction fs arbitrary: w) simp_all

lemma follows_emit_frame:
  assumes "cooperative others" "follows w0 w"
  shows "follows w0 (emit_frame others f w)"
proof -
  note o = follows_others [OF assms(1)]
  show ?thesis
    unfolding emit_frame_def Let_def split_beta fst_conv
    by (intro follows_snapshot o follows_queue_ops assms(2))
qed

definition cutting :: "frame_accumulator \<Rightarrow> bool" where
  "cutting acc \<longleftrightarrow> (\<exists>p. acc = frame_accumulator_of p \<and> length p < FRAME_SAMPLES)"

lemma cutting_default: "cutting default_frame_accumulator"
  by (auto simp: cutting_def default_frame_accumulator_of FRAME_SAMPLES_def intro!: exI [of _ "[]"])

lemma capture_push_cases:
  assumes "cutting acc"
  shows "\<exists>acc' fs n. frame_push_packet emit acc samples m env = Some (acc', fold emit fs env, n)
    \<and> cutting acc'"
proof -
  from assms obtain p where p: "acc = frame_accumulator_of p" "length p < FRAME_SAMPLES"
    by (auto simp: cutting_def)
  have "0 < FRAME_SAMPLES" by (simp add: FRAME_SAMPLES_def)
  then show ?thesis
    using frame_push_packet_spec [OF p(2), of emit samples m env] leftover_length
    by (auto simp: p(1) cutting_def)
qed

definition capture_inv :: "'x world \<Rightarrow> 'i \<times> fp list \<times> frame_accumulator \<times> 'x world \<Rightarrow> bool" where
  "capture_inv w0 = (\<lambda>(i, packet, acc, w). cutting acc \<and> follows w0 w)"

lemma capture_iteration_packet:
  assumes "capture_inv w0 (i, packet, acc, w)" "cooperative others"
    and "ai_read_packet inp packet i = (i', packet', Inr (Some m))"
  shows "case capture_iteration inp others role (i, packet, acc, w) of
      Continue c \<Rightarrow> capture_inv w0 c | Break b \<Rightarrow> \<exists>i w. b = Ended (i, w) \<and> follows w0 w"
proof -
  have cut: "cutting acc" and f: "follows w0 w" using assms(1) by (simp_all add: capture_inv_def)
  note o = follows_others [OF assms(2)]
  let ?w = "on_snapshot (count_packet m) (others (others w))"
  obtain acc' fs n where push: "frame_push_packet (emit_frame others) acc packet' m ?w
      = Some (acc', fold (emit_frame others) fs ?w, n)" "cutting acc'"
    using capture_push_cases [OF cut, of "emit_frame others" packet' m ?w] by blast
  have "follows w0 (fold (emit_frame others) fs ?w)"
    by (rule fold_keeps) (intro follows_snapshot o f follows_emit_frame assms(2); assumption)+
  moreover have "follows w0 (record_failure others e (others w))" for e
    by (intro follows_record_failure assms(2) o f)
  ultimately show ?thesis
    using push f by (auto simp: capture_iteration_def capture_inv_def assms(3) Let_def
        intro!: o follows_snapshot)
qed

lemma capture_iteration_inv:
  assumes "capture_inv w0 (i, packet, acc, w)" "cooperative others"
  shows "case capture_iteration inp others role (i, packet, acc, w) of
      Continue c \<Rightarrow> capture_inv w0 c | Break b \<Rightarrow> \<exists>i w. b = Ended (i, w) \<and> follows w0 w"
proof (cases "ai_read_packet inp packet i")
  case (fields i' packet' r)
  have f: "follows w0 (others w)"
    using assms by (simp add: capture_inv_def follows_others)
  moreover have "follows w0 (record_failure others e (others w))" for e
    by (intro follows_record_failure assms(2) f)
  ultimately show ?thesis
    using capture_iteration_packet [OF assms] fields assms(1)
    by (cases r rule: sum.exhaust; cases "projr r" rule: option.exhaust)
      (auto simp: capture_iteration_def capture_inv_def Let_def)
qed

lemma capture_loop_inv:
  assumes "run_loop (capture_iteration inp others role) fuel (i, packet, acc, w) = Some b"
    and "cutting acc" "follows w0 w" "cooperative others"
  shows "\<exists>i w. b = Ended (i, w) \<and> follows w0 w"
  by (rule run_loop_invariant [OF assms(1), where I = "capture_inv w0"])
    (use assms(2,3) capture_iteration_inv [OF _ assms(4), where inp = inp and role = role]
      in \<open>fastforce simp: capture_inv_def split_paired_all\<close>)+

lemma follows_finish_queue:
  assumes "cooperative others" "follows w0 w"
  shows "follows w0 (finish_queue others w)"
  using follows_others [OF assms] by (simp add: finish_queue_def Let_def follows_queue_ops)

lemma finish_queue_done [simp]: "qs_producer_done (w_queue (finish_queue others w))"
  by (simp add: finish_queue_def Let_def frame_queue_finish_producer_def)

lemma capture_teardown_ends:
  assumes "cooperative others" "follows w0 w" "capture_teardown inp others role i w = (i', w')"
  shows "follows w0 w' \<and> qs_producer_done (w_queue w')"
proof -
  note o = follows_others [OF assms(1)]
  have "follows w0 (record_failure others e (others w))" for e
    by (intro follows_record_failure assms(1) o assms(2))
  moreover note follows_finish_queue [OF assms(1)] assms(2)
  ultimately show ?thesis
    using assms(3) o [OF assms(2)]
    by (auto simp: capture_teardown_def Let_def split: prod.splits sum.splits if_splits)
qed

lemma ready_send_follows:
  assumes "ready_send others k msg w = (w', sent)" "cooperative others" "follows w0 w"
  shows "follows w0 w'"
  using follows_ready_send [OF assms(2,3), of k msg] assms(1) by simp

lemma capture_iteration_packet_eq:
  assumes "\<not> w_stop_requested (others w)" "length p < FRAME_SAMPLES"
    and "ai_read_packet inp packet i = (i', packet', Inr (Some m))"
  defines "xs \<equiv> take (pm_frames m) packet'"
  defines "stream \<equiv> (if packet_resets m then [] else p) @ map (converted_sample (pm_silent m)) xs"
  shows "capture_iteration inp others role (i, packet, frame_accumulator_of p, w) =
    (if pm_frames m \<le> length packet' then
       Continue (i', packet', frame_accumulator_of (leftover FRAME_SAMPLES stream),
         on_snapshot (\<lambda>s. s\<lparr>es_sanitized_samples := es_sanitized_samples s
             + sanitized_count (pm_silent m) xs\<rparr>)
           (others (fold (emit_frame others) (chunks FRAME_SAMPLES stream)
             (on_snapshot (count_packet m) (others (others w))))))
     else Break (Ended (i', record_failure others (engine_error_new EK_SourceFailure
         (too_large ''capture'' m (length packet'))) (others w))))"
  using assms(1,3) frame_push_packet_spec [OF assms(2), of "emit_frame others" packet' m]
  by (simp add: capture_iteration_def Let_def stream_def xs_def)


text \<open>Stopping: once a stop is requested, the capture thread reads no further packet; it returns without
  another turn of its loop.\<close>

theorem capture_worker_stops:
  assumes "cooperative others" "world_ok w" "w_stop_requested w"
  shows "\<exists>b. capture_worker factory inp others role source 1 w = Some b"
proof -
  obtain w1 sent where send: "ready_send others CaptureWorker (Inr ()) w = (w1, sent)"
    by (cases "ready_send others CaptureWorker (Inr ()) w")
  have "follows w w1" by (rule ready_send_follows [OF send assms(1)]) (simp add: assms(2))
  from follows_others [OF assms(1) this] assms(3) have "w_stop_requested (others w1)"
    by (simp add: follows_def)
  then show ?thesis
    by (auto simp: capture_worker_def send capture_iteration_def Let_def
        split: sum.splits prod.splits)
qed

text \<open>What one packet does, in any interleaving: with fewer than 480 samples pending, the thread counts the
  packet, pushes exactly the complete frames of the pending samples followed by the packet's converted
  samples, one push per frame and in order, and keeps the remainder; a packet larger than the buffer
  fails the run instead.\<close>

theorem capture_iteration_stream:
  assumes "\<not> w_stop_requested (others w)" "length p < FRAME_SAMPLES"
    and "ai_read_packet inp packet i = (i', packet', Inr (Some m))"
  defines "xs \<equiv> take (pm_frames m) packet'"
  defines "stream \<equiv> (if packet_resets m then [] else p) @ map (converted_sample (pm_silent m)) xs"
  shows "capture_iteration inp others role (i, packet, frame_accumulator_of p, w) =
    (if pm_frames m \<le> length packet' then
       Continue (i', packet', frame_accumulator_of (leftover FRAME_SAMPLES stream),
         on_snapshot (\<lambda>s. s\<lparr>es_sanitized_samples := es_sanitized_samples s
             + sanitized_count (pm_silent m) xs\<rparr>)
           (others (fold (emit_frame others) (chunks FRAME_SAMPLES stream)
             (on_snapshot (count_packet m) (others (others w))))))
     else Break (Ended (i', record_failure others (engine_error_new EK_SourceFailure
         (too_large ''capture'' m (length packet'))) (others w))))"
  unfolding stream_def xs_def
  by (rule capture_iteration_packet_eq [where others = others, OF assms(1-3)])

text \<open>An endpoint that delivers one silent packet of two samples and is then gone.\<close>

definition short_packet :: packet_metadata where
  "short_packet = default_packet_metadata\<lparr>pm_frames := 2, pm_silent := True\<rparr>"

definition brief_input :: "nat audio_input" where
  "brief_input = \<lparr>
     ai_read_packet = (\<lambda>packet n. (Suc n, packet,
       if n = 0 then Inr (Some short_packet)
       else Inl \<lparr>serr_kind = SK_DeviceInvalidated, serr_message = Text ''gone''\<rparr>)),
     ai_stop = (\<lambda>n. (n, Inr ()))\<rparr>"

definition some_source :: source_descriptor where
  "some_source = \<lparr>sd_role = Microphone, sd_endpoint_id = lit ''mic'', sd_friendly_name = lit ''Mic'',
     sd_active = True, sd_native_format = None\<rparr>"

definition brief_factory :: "nat audio_input_factory" where
  "brief_factory = \<lparr>aif_resolve = (\<lambda>r e. Inr some_source), aif_open = (\<lambda>r d. Inr 0)\<rparr>"

definition ready_world :: "unit world" where
  "ready_world = (initial_world ())\<lparr>w_ready := (\<lambda>_. \<lparr>rc_message = None, rc_receiver_alive = True\<rparr>)\<rparr>"

lemma ready_world_ok: "world_ok ready_world" "cooperative (id :: unit world \<Rightarrow> unit world)"
  using world_ok_initial [of "()"] by (simp_all add: ready_world_def world_ok_def cooperative_def)


lemma capture_worker_stops_witness:
  "\<exists>b. capture_worker brief_factory brief_input id Microphone some_source 1
     (ready_world\<lparr>w_stop_requested := True\<rparr>) = Some b"
  by (rule capture_worker_stops) (simp_all add: ready_world_ok)

lemma capture_iteration_stream_witness:
  "\<exists>i packet w. capture_iteration brief_input id Microphone (0, [Fin 1, Fin 1, Fin 1],
      frame_accumulator_of [5], ready_world) = Continue (i, packet, frame_accumulator_of [5, 0, 0], w)"
proof -
  have "\<not> w_stop_requested (id ready_world)" "length [5 :: i16] < FRAME_SAMPLES"
    "ai_read_packet brief_input [Fin 1, Fin 1, Fin 1] 0
      = (1, [Fin 1, Fin 1, Fin 1], Inr (Some short_packet))"
    by (simp_all add: ready_world_def initial_world_def FRAME_SAMPLES_def brief_input_def)
  from capture_iteration_stream [of id, OF this, of Microphone] show ?thesis
    by (simp add: short_packet_def default_packet_metadata_def FRAME_SAMPLES_def
        converted_sample_def pcm16_Fin)
qed

end
