(* ===== verification/Aec_Input.thy ===== *)
theory Aec_Input
  imports Capture_Worker
begin

text \<open>
  The AEC input threads (\<^verbatim>\<open>aec_input_worker\<close>, modelled in \<open>Capture_Worker\<close>) are safe in any
  interleaving: no panic, flags only raised, the own queue finished at the end.  Packets are stamped,
  so the argument needs that an endpoint does not resize the buffer it is lent, which a Rust slice
  guarantees.
\<close>

definition keeps_buffer :: "'i audio_input \<Rightarrow> bool" where
  "keeps_buffer inp \<longleftrightarrow> (\<forall>packet i. length (fst (snd (ai_read_packet inp packet i))) = length packet)"

definition role_queue :: "input_role \<Rightarrow> 'x world \<Rightarrow> timed_frame_queue" where
  "role_queue role w =
     (case role of Microphone \<Rightarrow> w_microphone_queue w | RenderLoopback \<Rightarrow> w_render_queue w)"

lemma follows_emit_timed_frame:
  assumes "cooperative others" "follows w0 w"
  shows "follows w0 (emit_timed_frame others role f w)"
proof -
  note o = follows_others [OF assms(1)]
  show ?thesis
    unfolding emit_timed_frame_def on_role_queue_def update_input_frame_snapshot_def Let_def split_beta
    by (cases role; simp only: input_role.case fst_conv;
        intro follows_snapshot o follows_microphone_ops follows_render_ops assms(2))
qed

definition timing :: "timed_accumulator \<Rightarrow> bool" where
  "timing acc \<longleftrightarrow> (\<exists>p t r. acc = timed_of p t r \<and> length p < FRAME_SAMPLES)"

lemma timing_default: "timing default_timed_accumulator"
  unfolding timing_def default_timed_accumulator_of
  by (intro exI conjI) (rule refl, simp add: FRAME_SAMPLES_def)

lemma timed_push_cases:
  assumes "timing acc" "in_range (length samples)"
  shows "\<exists>acc' fs n. timed_push_packet emit acc samples m env = Some (acc', fold emit fs env, n)
    \<and> timing acc'"
proof -
  from assms obtain p t r where p: "acc = timed_of p t r" "length p < FRAME_SAMPLES"
    by (auto simp: timing_def)
  have "0 < FRAME_SAMPLES" by (simp add: FRAME_SAMPLES_def)
  then show ?thesis
    using timed_push_packet_spec [OF p(2) assms(2), of emit t r m env] leftover_length
    unfolding p(1) timing_def timed_left_def by blast
qed

definition input_inv :: "'x world \<Rightarrow> 'i \<times> fp list \<times> timed_accumulator \<times> 'x world \<Rightarrow> bool" where
  "input_inv w0 = (\<lambda>(i, packet, acc, w). timing acc \<and> length packet = PACKET_CAPACITY \<and> follows w0 w)"

lemma aec_input_packet:
  assumes "input_inv w0 (i, packet, acc, w)" "cooperative others" "keeps_buffer inp"
    and "ai_read_packet inp packet i = (i', packet', Inr (Some m))"
  shows "case aec_input_iteration inp others role (i, packet, acc, w) of
      Continue c \<Rightarrow> input_inv w0 c | Break b \<Rightarrow> \<exists>i w. b = Ended (i, w) \<and> follows w0 w"
proof -
  have acc: "timing acc" and len: "length packet = PACKET_CAPACITY" and f: "follows w0 w"
    using assms(1) by (simp_all add: input_inv_def)
  have len': "length packet' = PACKET_CAPACITY"
    using assms(3,4) len unfolding keeps_buffer_def by (metis fst_conv snd_conv)
  then have range: "in_range (length packet')" by (simp add: in_range_def PACKET_CAPACITY_def)
  note o = follows_others [OF assms(2)]
  let ?w = "update_input_packet_snapshot others role m (others w)"
  obtain acc' fs n where push: "timed_push_packet (emit_timed_frame others role) acc packet' m ?w
      = Some (acc', fold (emit_timed_frame others role) fs ?w, n)" "timing acc'"
    using timed_push_cases [OF acc range, of "emit_timed_frame others role" m ?w] by blast
  have "follows w0 ?w"
    unfolding update_input_packet_snapshot_def by (intro follows_snapshot o f)
  then have "follows w0 (fold (emit_timed_frame others role) fs ?w)"
    by (rule fold_keeps) (rule follows_emit_timed_frame [OF assms(2)])
  moreover have "follows w0 (record_aec_failure others b e (others w))" for b e
    by (intro follows_record_aec_failure assms(2) o f)
  ultimately show ?thesis
    using push f len' by (auto simp: aec_input_iteration_def input_inv_def assms(4) Let_def
        intro!: o follows_snapshot)
qed

lemma aec_input_iteration_inv:
  assumes "input_inv w0 (i, packet, acc, w)" "cooperative others" "keeps_buffer inp"
  shows "case aec_input_iteration inp others role (i, packet, acc, w) of
      Continue c \<Rightarrow> input_inv w0 c | Break b \<Rightarrow> \<exists>i w. b = Ended (i, w) \<and> follows w0 w"
proof (cases "ai_read_packet inp packet i")
  case (fields i' packet' r)
  have f: "follows w0 (others w)"
    using assms by (simp add: input_inv_def follows_others)
  moreover have "length packet' = length packet"
    using assms(3) fields unfolding keeps_buffer_def by (metis fst_conv snd_conv)
  moreover have "follows w0 (record_aec_failure others b e (others w))" for b e
    by (intro follows_record_aec_failure assms(2) f)
  ultimately show ?thesis
    using aec_input_packet [OF assms] fields assms(1)
    by (cases r rule: sum.exhaust; cases "projr r" rule: option.exhaust)
      (auto simp: aec_input_iteration_def input_inv_def Let_def)
qed

lemma aec_input_loop_inv:
  assumes "run_loop (aec_input_iteration inp others role) fuel (i, packet, acc, w) = Some b"
    and "input_inv w0 (i, packet, acc, w)" "cooperative others" "keeps_buffer inp"
  shows "\<exists>i w. b = Ended (i, w) \<and> follows w0 w"
  by (rule run_loop_invariant [OF assms(1), where I = "input_inv w0"])
    (use assms(2) aec_input_iteration_inv [OF _ assms(3,4), where role = role]
      in \<open>fastforce simp: split_paired_all\<close>)+

lemma finish_role_queue_done [simp]: "qs_producer_done (role_queue role (finish_role_queue others role w))"
  by (cases role) (simp_all add: role_queue_def finish_role_queue_def on_role_queue_def
      timed_queue_finish_producer_def)

lemma follows_finish_role_queue:
  assumes "cooperative others" "follows w0 w"
  shows "follows w0 (finish_role_queue others role w)"
  using follows_others [OF assms]
  by (cases role) (simp_all add: finish_role_queue_def on_role_queue_def follows_microphone_ops
      follows_render_ops)

lemma aec_input_teardown_ends:
  assumes "cooperative others" "follows w0 w" "aec_input_teardown inp others role i w = (i', w')"
  shows "follows w0 w' \<and> qs_producer_done (role_queue role w')"
proof -
  note o = follows_others [OF assms(1)]
  have "follows w0 (record_aec_failure others b e (others w))" for b e
    by (intro follows_record_aec_failure assms(1) o assms(2))
  moreover note follows_finish_role_queue [OF assms(1)] assms(2)
  ultimately show ?thesis
    using assms(3) o [OF assms(2)]
    by (auto simp: aec_input_teardown_def Let_def split: prod.splits sum.splits if_splits)
qed

text \<open>The input threads of an AEC run, in any interleaving and whatever their endpoint returns: they never
  panic, keep the queues well formed and the flags raised, and end, on every path, by marking their own
  queue finished.\<close>

theorem aec_input_worker_ends:
  assumes "cooperative others" "world_ok w" "keeps_buffer inp"
    and "aec_input_worker factory inp others role source fuel w = Some b"
  shows "\<exists>i w'. b = Ended (i, w') \<and> follows w w' \<and> qs_producer_done (role_queue role w')"
proof -
  have w: "follows w w" using assms(2) by simp
  note fin = follows_finish_role_queue [OF assms(1)]
  obtain w1 sent where send: "ready_send others (role_worker role) (Inr ()) w = (w1, sent)"
    by (cases "ready_send others (role_worker role) (Inr ()) w")
  note f1 = ready_send_follows [OF send assms(1) w]
  show ?thesis
  proof (cases "aif_open factory role source")
    case (Inl e)
    obtain w2 sent2 where "ready_send others (role_worker role)
        (Inl (engine_error_from_source role e)) w = (w2, sent2)"
      by (cases "ready_send others (role_worker role) (Inl (engine_error_from_source role e)) w")
    with ready_send_follows [OF this assms(1) w] fin assms(4) Inl show ?thesis
      by (auto simp: aec_input_worker_def)
  next
    case (Inr i)
    show ?thesis
    proof (cases sent)
      case True
      let ?start = "(i, replicate PACKET_CAPACITY (Fin 0), default_timed_accumulator, w1)"
      have inv: "input_inv w ?start" using f1 timing_default by (simp add: input_inv_def)
      from assms(4) Inr send True obtain l
        where loop: "run_loop (aec_input_iteration inp others role) fuel ?start = Some l"
        by (auto simp: aec_input_worker_def split: option.splits)
      from aec_input_loop_inv [OF this inv assms(1,3)] obtain i2 w2
        where "l = Ended (i2, w2)" "follows w w2" by blast
      with aec_input_teardown_ends [OF assms(1) this(2), of inp role i2] assms(4) Inr send True loop
      show ?thesis by (auto simp: aec_input_worker_def split: prod.splits)
    qed (use assms(4) Inr send fin [OF f1] in \<open>auto simp: aec_input_worker_def\<close>)
  qed
qed

lemma aec_input_worker_ends_witness:
  "\<exists>w'. aec_input_worker brief_factory brief_input id RenderLoopback some_source 1
      (ready_world\<lparr>w_stop_requested := True\<rparr>) = Some (Ended (Some 0, w'))
    \<and> qs_producer_done (w_render_queue w')"
proof -
  have "keeps_buffer brief_input" by (simp add: keeps_buffer_def brief_input_def)
  moreover have "\<exists>w'. aec_input_worker brief_factory brief_input id RenderLoopback some_source 1
      (ready_world\<lparr>w_stop_requested := True\<rparr>) = Some (Ended (Some 0, w'))"
    by (simp add: aec_input_worker_def brief_factory_def ready_send_def ready_world_def
        initial_world_def aec_input_iteration_def aec_input_teardown_def brief_input_def
        role_worker_def)
  moreover have "world_ok (ready_world\<lparr>w_stop_requested := True\<rparr>)" by (simp add: ready_world_ok)
  ultimately show ?thesis
    using aec_input_worker_ends [OF ready_world_ok(2)] by (fastforce simp: role_queue_def)
qed

end
