(* ===== verification/Echo.thy ===== *)
theory Echo
  imports Engine_Types
begin

text \<open>
  \<^verbatim>\<open>crates/mini-aec-engine/src/aec.rs\<close>: the echo-canceller boundary of the engine and its
  default implementation over the WebRTC audio-processing library.  The library is not part of the
  repository's code: its processor is a record of operations over an abstract state, an argument
  of the definitions that use it.
\<close>

section \<open>The boundary\<close>

record echo_canceller_error =
  ece_message :: message

definition echo_canceller_error_new :: "message \<Rightarrow> echo_canceller_error" where
  "echo_canceller_error_new m = \<lparr>ece_message = m\<rparr>"

text \<open>
  \<^verbatim>\<open>EchoCanceller\<close> and \<^verbatim>\<open>EchoCancellerFactory\<close>: \<open>process\<close> gets the caller's output buffer
  and returns it; \<open>create\<close> may have effects on a state \<open>'w\<close> of its own.
\<close>

record 'a echo_canceller =
  ec_process :: "fp list \<Rightarrow> fp list \<Rightarrow> fp list \<Rightarrow> 'a \<Rightarrow> 'a \<times> fp list \<times> (echo_canceller_error + unit)"

record ('w, 'a) echo_factory =
  ecf_create :: "'w \<Rightarrow> 'w \<times> (echo_canceller_error + 'a)"

section \<open>The default canceller\<close>

text \<open>
  The operations of \<^verbatim>\<open>webrtc_audio_processing::Processor\<close>.  Frames are lists of channels, each
  a list of samples, processed in place; an error is known by its displayed text.
\<close>

record ('w, 'p) webrtc_processor =
  wp_new :: "u32 \<Rightarrow> 'w \<Rightarrow> 'w \<times> (message + 'p)"
  wp_set_full_echo_canceller :: "nat option \<Rightarrow> 'p \<Rightarrow> 'p"
  wp_process_render_frame :: "fp list list \<Rightarrow> 'p \<Rightarrow> 'p \<times> fp list list \<times> (message + unit)"
  wp_process_capture_frame :: "fp list list \<Rightarrow> 'p \<Rightarrow> 'p \<times> fp list list \<times> (message + unit)"

record 'p default_echo_canceller =
  dec_processor :: 'p
  dec_render_channels :: "fp list list"
  dec_capture_channels :: "fp list list"

definition default_echo_canceller_new ::
  "('w, 'p) webrtc_processor \<Rightarrow> 'w \<Rightarrow> 'w \<times> (echo_canceller_error + 'p default_echo_canceller)" where
  "default_echo_canceller_new lib w =
    (case wp_new lib SAMPLE_RATE_HZ w of
       (w, Inl e) \<Rightarrow>
         (w, Inl (echo_canceller_error_new (Pieces [Text ''failed to create WebRTC AEC: '', e])))
     | (w, Inr processor) \<Rightarrow>
         (w, Inr \<lparr>dec_processor = wp_set_full_echo_canceller lib None processor,
                  dec_render_channels = [replicate FRAME_SAMPLES (Fin 0)],
                  dec_capture_channels = [replicate FRAME_SAMPLES (Fin 0)]\<rparr>))"

definition default_echo_factory ::
  "('w, 'p) webrtc_processor \<Rightarrow> ('w, 'p default_echo_canceller) echo_factory" where
  "default_echo_factory lib = \<lparr>ecf_create = default_echo_canceller_new lib\<rparr>"

text \<open>The zip of the last loop stops at the shorter of the two frames.\<close>

definition write_front :: "fp list \<Rightarrow> fp list \<Rightarrow> fp list" where
  "write_front new old = take (length old) new @ drop (length new) old"

definition default_process ::
  "('w, 'p) webrtc_processor \<Rightarrow> fp list \<Rightarrow> fp list \<Rightarrow> fp list \<Rightarrow> 'p default_echo_canceller
     \<Rightarrow> 'p default_echo_canceller \<times> fp list \<times> (echo_canceller_error + unit)" where
  "default_process lib render capture out self =
    (let (processor, render_channels, result) =
           wp_process_render_frame lib ((dec_render_channels self)[0 := render]) (dec_processor self);
         self = self\<lparr>dec_processor := processor, dec_render_channels := render_channels\<rparr>
     in case result of
          Inl e \<Rightarrow> (self, out, Inl (echo_canceller_error_new
            (Pieces [Text ''WebRTC render processing failed: '', e])))
        | Inr _ \<Rightarrow>
          let (processor, capture_channels, result) =
                wp_process_capture_frame lib ((dec_capture_channels self)[0 := capture])
                  (dec_processor self);
              self = self\<lparr>dec_processor := processor, dec_capture_channels := capture_channels\<rparr>
          in case result of
               Inl e \<Rightarrow> (self, out, Inl (echo_canceller_error_new
                 (Pieces [Text ''WebRTC capture processing failed: '', e])))
             | Inr _ \<Rightarrow>
               if \<exists>sample \<in> set (capture_channels ! 0). \<not> is_finite sample
               then (self, out, Inl (echo_canceller_error_new
                 (Text ''WebRTC produced a non-finite capture sample'')))
               else (self,
                 write_front (map (\<lambda>sample. fp_clamp sample (Fin (- 1)) (Fin 1)) (capture_channels ! 0))
                   out,
                 Inr ()))"

definition default_echo_canceller ::
  "('w, 'p) webrtc_processor \<Rightarrow> 'p default_echo_canceller echo_canceller" where
  "default_echo_canceller lib = \<lparr>ec_process = default_process lib\<rparr>"

section \<open>The contract of a canceller\<close>

text \<open>
  What the processing worker relies on: given a buffer of samples within \<open>[-1, 1]\<close>, a call
  leaves it with such samples and at its length, and a failed call leaves it alone.
\<close>

definition in_unit :: "fp \<Rightarrow> bool" where
  "in_unit x \<longleftrightarrow> (case x of Fin q \<Rightarrow> - 1 \<le> q \<and> q \<le> 1 | _ \<Rightarrow> False)"

lemma in_unit_finite: "in_unit x \<Longrightarrow> is_finite x"
  by (cases x) (simp_all add: in_unit_def)

lemma in_unit_clamp: "is_finite x \<Longrightarrow> in_unit (fp_clamp x (Fin (- 1)) (Fin 1))"
  by (auto simp: is_finite_iff in_unit_def)

locale echo_contract =
  fixes process :: "fp list \<Rightarrow> fp list \<Rightarrow> fp list \<Rightarrow> 'a \<Rightarrow> 'a \<times> fp list \<times> (echo_canceller_error + unit)"
  assumes process_ok: "\<forall>x \<in> set out. in_unit x \<Longrightarrow> process render capture out a = (a', out', Inr ())
      \<Longrightarrow> length out' = length out \<and> (\<forall>x \<in> set out'. in_unit x)"
    and process_failed: "process render capture out a = (a', out', Inl e) \<Longrightarrow> out' = out"
begin

text \<open>So the worker's buffer, zeroed before the call, is a valid frame whatever the call returns.\<close>

lemma output_in_unit:
  "length (fst (snd (process render capture (replicate FRAME_SAMPLES (Fin 0)) a))) = FRAME_SAMPLES
    \<and> (\<forall>x \<in> set (fst (snd (process render capture (replicate FRAME_SAMPLES (Fin 0)) a))). in_unit x)"
proof (cases "process render capture (replicate FRAME_SAMPLES (Fin 0)) a")
  case (fields a' out' r)
  then show ?thesis
    using process_ok [of "replicate FRAME_SAMPLES (Fin 0)" render capture a a' out']
      process_failed [of render capture "replicate FRAME_SAMPLES (Fin 0)" a a' out']
    by (cases r) (auto simp: in_unit_def)
qed

lemma outputs_finite:
  "x \<in> set (fst (snd (process render capture (replicate FRAME_SAMPLES (Fin 0)) a))) \<Longrightarrow> is_finite x"
  using output_in_unit in_unit_finite by blast

end

lemma length_write_front [simp]: "length (write_front new old) = length old"
  by (auto simp: write_front_def)

lemma set_write_front: "x \<in> set (write_front new old) \<Longrightarrow> x \<in> set new \<or> x \<in> set old"
  by (auto simp: write_front_def dest: in_set_takeD in_set_dropD)

lemma default_process_Inr:
  assumes "default_process lib render capture out c = (c', out', Inr ())"
  shows "\<exists>ch. (\<exists>q. ch = fst (snd (wp_process_capture_frame lib
        ((dec_capture_channels c)[0 := capture]) q)))
    \<and> (\<forall>x \<in> set (ch ! 0). is_finite x)
    \<and> out' = write_front (map (\<lambda>x. fp_clamp x (Fin (- 1)) (Fin 1)) (ch ! 0)) out"
  using assms
  by (auto simp: default_process_def Let_def split_beta split: sum.splits if_splits)

interpretation dec: echo_contract "default_process lib" for lib
proof
  fix render capture out a a' out'
  assume out: "\<forall>x \<in> set out. in_unit x"
    and run: "default_process lib render capture out a = (a', out', Inr ())"
  from default_process_Inr [OF run] obtain ch where
    fin: "\<forall>x \<in> set (ch ! 0). is_finite x"
    and out': "out' = write_front (map (\<lambda>x. fp_clamp x (Fin (- 1)) (Fin 1)) (ch ! 0)) out" by blast
  have "in_unit x" if "x \<in> set out'" for x
    using set_write_front [OF that [unfolded out']] out fin in_unit_clamp by auto
  then show "length out' = length out \<and> (\<forall>x \<in> set out'. in_unit x)" by (simp add: out')
qed (auto simp: default_process_def Let_def split_beta split: sum.splits if_splits)

text \<open>
  What the WebRTC library does with the buffers it gets: it keeps their shape.  (It processes the
  channels in place; whether the samples are finite is not taken for granted.)
\<close>

definition keeps_shape :: "('w, 'p) webrtc_processor \<Rightarrow> bool" where
  "keeps_shape lib \<longleftrightarrow>
    (\<forall>cs p. map length (fst (snd (wp_process_render_frame lib cs p))) = map length cs
          \<and> map length (fst (snd (wp_process_capture_frame lib cs p))) = map length cs)"

definition canceller_shape :: "'p default_echo_canceller \<Rightarrow> bool" where
  "canceller_shape c \<longleftrightarrow> map length (dec_render_channels c) = [FRAME_SAMPLES]
     \<and> map length (dec_capture_channels c) = [FRAME_SAMPLES]"

lemma map_length_update:
  "map length cs = [n] \<Longrightarrow> length xs = n \<Longrightarrow> map length (cs[0 := xs]) = [n]"
  by (cases cs) auto

lemma keeps_shapeD:
  assumes "keeps_shape lib" "map length cs = [FRAME_SAMPLES]" "length xs = FRAME_SAMPLES"
  shows "map length (fst (snd (wp_process_render_frame lib (cs[0 := xs]) p))) = [FRAME_SAMPLES]"
    "map length (fst (snd (wp_process_capture_frame lib (cs[0 := xs]) p))) = [FRAME_SAMPLES]"
  using assms map_length_update by (auto simp: keeps_shape_def)

lemma default_process_shape:
  assumes lib: "keeps_shape lib" and c: "canceller_shape c"
    and len: "length render = FRAME_SAMPLES" "length capture = FRAME_SAMPLES"
  shows "canceller_shape (fst (default_process lib render capture out c))"
  using keeps_shapeD(1) [OF lib _ len(1)] keeps_shapeD(2) [OF lib _ len(2)] c
  by (simp add: default_process_def canceller_shape_def Let_def split_beta split: sum.splits)

lemma default_new_shape:
  "snd (default_echo_canceller_new lib w) = Inr a \<Longrightarrow> canceller_shape a"
  by (auto simp: default_echo_canceller_new_def canceller_shape_def split: prod.splits sum.splits)

text \<open>The default canceller never lets a bad sample out: whatever the WebRTC library does to the frames
  it is given, the output frame has 480 samples, all finite and within \<open>[-1, 1]\<close>, and when the
  call fails the output is the silence the caller put there.\<close>

theorem default_process_output:
  "let (c', out, result) = default_process lib render capture (replicate FRAME_SAMPLES (Fin 0)) c in
     length out = FRAME_SAMPLES \<and> list_all in_unit out
     \<and> (case result of Inl _ \<Rightarrow> out = replicate FRAME_SAMPLES (Fin 0) | Inr _ \<Rightarrow> True)"
proof -
  let ?silence = "replicate FRAME_SAMPLES (Fin 0)"
  obtain c' out result where run: "default_process lib render capture ?silence c = (c', out, result)"
    by (cases "default_process lib render capture ?silence c")
  have "length out = FRAME_SAMPLES \<and> list_all in_unit out"
    using dec.output_in_unit [of lib render capture c] by (simp add: run list_all_iff)
  moreover have "case result of Inl _ \<Rightarrow> out = ?silence | Inr _ \<Rightarrow> True"
    using dec.process_failed run by (cases result) auto
  ultimately show ?thesis by (simp add: run)
qed

end
