(* ===== verification/Histogram.thy ===== *)
theory Histogram
  imports Engine_Snapshot
begin

text \<open>
  \<^verbatim>\<open>ProcessingHistogram\<close> and \<^verbatim>\<open>signed_delta\<close> of \<^verbatim>\<open>crates/mini-aec-engine/src/runtime.rs\<close>: the
  bucketed processing times with their percentiles, and the signed distance of two timestamps.
  \<open>record_all\<close> records a list of durations; the percentile is characterised by counting them.
\<close>

section \<open>Signed distance\<close>

definition i64_min :: i64 where "i64_min = - (2 ^ 63)"
definition i64_max :: i64 where "i64_max = 2 ^ 63 - 1"

definition signed_delta :: "u64 \<Rightarrow> u64 \<Rightarrow> i64" where
  "signed_delta left right =
    (let delta = uint left - uint right in
     if i64_min \<le> delta \<and> delta \<le> i64_max then delta
     else if delta < 0 then i64_min else i64_max)"

lemma signed_delta_clamp:
  "signed_delta a b = max i64_min (min i64_max (uint a - uint b))"
  by (auto simp: signed_delta_def Let_def i64_min_def i64_max_def)

text \<open>\<^verbatim>\<open>i64::unsigned_abs\<close>.\<close>

definition unsigned_abs :: "i64 \<Rightarrow> u64" where
  "unsigned_abs d = word_of_int \<bar>d\<bar>"

lemma uint_unsigned_abs: "i64_min \<le> d \<Longrightarrow> d \<le> i64_max \<Longrightarrow> uint (unsigned_abs d) = \<bar>d\<bar>"
  by (simp add: unsigned_abs_def i64_min_def i64_max_def take_bit_int_eq_self
      unsigned_of_int)

lemma signed_delta_range: "i64_min \<le> signed_delta a b" "signed_delta a b \<le> i64_max"
  by (auto simp: signed_delta_clamp i64_min_def i64_max_def)

section \<open>The histogram\<close>

record processing_histogram =
  ph_buckets :: "u64 list"
  ph_samples :: u64
  ph_maximum_us :: u64

definition default_histogram :: processing_histogram where
  "default_histogram = \<lparr>ph_buckets = replicate 8 0, ph_samples = 0, ph_maximum_us = 0\<rparr>"

definition LIMITS_US :: "u64 list" where
  "LIMITS_US = [100, 250, 500, 1000, 2000, 5000, 10000, - 1]"

fun position :: "('a \<Rightarrow> bool) \<Rightarrow> 'a list \<Rightarrow> nat option" where
  "position P [] = None"
| "position P (x # xs) = (if P x then Some 0 else map_option Suc (position P xs))"

text \<open>A duration is its number of nanoseconds.\<close>

definition as_micros_u64 :: "nat \<Rightarrow> u64" where
  "as_micros_u64 duration =
    (let micros = duration div 1000 in if micros < 2 ^ 64 then of_nat micros else - 1)"

definition bucket_index :: "u64 \<Rightarrow> nat" where
  "bucket_index micros =
    (case position (\<lambda>limit. micros \<le> limit) LIMITS_US of
       Some i \<Rightarrow> i | None \<Rightarrow> length LIMITS_US - 1)"

definition histogram_record :: "processing_histogram \<Rightarrow> nat \<Rightarrow> processing_histogram" where
  "histogram_record h duration =
    (let micros = as_micros_u64 duration;
         index = bucket_index micros
     in h\<lparr>ph_buckets := (ph_buckets h)[index := ph_buckets h ! index + 1],
          ph_samples := ph_samples h + 1,
          ph_maximum_us := max (ph_maximum_us h) micros\<rparr>)"

definition sat_mul :: "u64 \<Rightarrow> u64 \<Rightarrow> u64" where
  "sat_mul a b = (if unat a * unat b < 2 ^ 64 then a * b else - 1)"

definition div_ceil :: "u64 \<Rightarrow> u64 \<Rightarrow> u64" where
  "div_ceil a b = a div b + of_bool (a mod b \<noteq> 0)"

fun percentile_scan :: "u64 \<Rightarrow> u64 \<Rightarrow> u64 \<Rightarrow> (u64 \<times> u64) list \<Rightarrow> u64" where
  "percentile_scan maximum target cumulative [] = maximum"
| "percentile_scan maximum target cumulative ((count, limit) # rest) =
    (let cumulative = cumulative + count in
     if target \<le> cumulative then min limit (max maximum 1)
     else percentile_scan maximum target cumulative rest)"

definition histogram_percentile :: "processing_histogram \<Rightarrow> u64 \<Rightarrow> u64" where
  "histogram_percentile h percentile =
    (if ph_samples h = 0 then 0
     else percentile_scan (ph_maximum_us h) (div_ceil (sat_mul (ph_samples h) percentile) 100) 0
            (zip (ph_buckets h) LIMITS_US))"

definition histogram_snapshot :: "processing_histogram \<Rightarrow> processing_time_snapshot" where
  "histogram_snapshot h = \<lparr>pt_samples = ph_samples h, pt_p50_us = histogram_percentile h 50,
     pt_p95_us = histogram_percentile h 95, pt_p99_us = histogram_percentile h 99,
     pt_maximum_us = ph_maximum_us h\<rparr>"

section \<open>Counting the samples\<close>

definition record_all :: "nat list \<Rightarrow> processing_histogram" where
  "record_all ds = fold (\<lambda>d h. histogram_record h d) ds default_histogram"

lemma record_all_snoc: "record_all (ds @ [d]) = histogram_record (record_all ds) d"
  by (simp add: record_all_def)

lemma bucket_index_less: "bucket_index m < 8"
  by (simp add: bucket_index_def LIMITS_US_def)

lemma limits_sorted: "i \<le> j \<Longrightarrow> j < 8 \<Longrightarrow> LIMITS_US ! i \<le> LIMITS_US ! j"
proof -
  have "sorted LIMITS_US" "length LIMITS_US = 8" by (simp_all add: LIMITS_US_def)
  then show "i \<le> j \<Longrightarrow> j < 8 \<Longrightarrow> LIMITS_US ! i \<le> LIMITS_US ! j"
    by (simp add: sorted_iff_nth_mono)
qed

lemma position_Some:
  "position P xs = Some i \<Longrightarrow> i < length xs \<and> P (xs ! i) \<and> (\<forall>j < i. \<not> P (xs ! j))"
proof (induction xs arbitrary: i)
  case (Cons x xs)
  then show ?case by (auto split: if_splits simp: nth_Cons split: nat.splits)
qed simp

lemma position_None: "position P xs = None \<longleftrightarrow> (\<forall>x \<in> set xs. \<not> P x)"
  by (induction xs) auto

lemma bucket_index_le: "j < 8 \<Longrightarrow> bucket_index m \<le> j \<longleftrightarrow> m \<le> LIMITS_US ! j"
proof -
  assume j: "j < 8"
  have "position (\<lambda>limit. m \<le> limit) LIMITS_US \<noteq> None"
    unfolding position_None by (simp add: LIMITS_US_def)
  then obtain i where i: "position (\<lambda>limit. m \<le> limit) LIMITS_US = Some i" by blast
  note p = position_Some [OF i]
  have b: "bucket_index m = i" by (simp add: bucket_index_def i)
  show ?thesis
  proof
    assume "bucket_index m \<le> j"
    with b p j limits_sorted [of i j] show "m \<le> LIMITS_US ! j" by auto
  next
    assume "m \<le> LIMITS_US ! j"
    with p b show "bucket_index m \<le> j" by (metis linorder_not_le)
  qed
qed

definition count_in :: "nat list \<Rightarrow> nat \<Rightarrow> nat" where
  "count_in ds j = length (filter (\<lambda>d. bucket_index (as_micros_u64 d) = j) ds)"

definition count_le :: "nat list \<Rightarrow> u64 \<Rightarrow> nat" where
  "count_le ds limit = length (filter (\<lambda>d. as_micros_u64 d \<le> limit) ds)"

lemma count_in_sum: "j < 8 \<Longrightarrow> (\<Sum>i \<le> j. count_in ds i) = count_le ds (LIMITS_US ! j)"
proof (induction ds)
  case (Cons d ds)
  have "(\<Sum>i \<le> j. count_in (d # ds) i)
      = (\<Sum>i \<le> j. of_bool (bucket_index (as_micros_u64 d) = i) + count_in ds i)"
    by (rule sum.cong) (auto simp: count_in_def)
  also have "\<dots> = (\<Sum>i \<le> j. of_bool (bucket_index (as_micros_u64 d) = i)) + (\<Sum>i \<le> j. count_in ds i)"
    by (rule sum.distrib)
  also have "(\<Sum>i \<le> j. of_bool (bucket_index (as_micros_u64 d) = i) :: nat)
      = of_bool (as_micros_u64 d \<le> LIMITS_US ! j)"
    using bucket_index_le [OF Cons.prems] by (simp add: of_bool_def)
  finally show ?case using Cons by (simp add: count_le_def)
qed (simp add: count_in_def count_le_def)

lemma record_all_view:
  "ph_samples (record_all ds) = of_nat (length ds)
   \<and> ph_buckets (record_all ds) = map (\<lambda>j. of_nat (count_in ds j)) [0..<8]"
proof (induction ds rule: rev_induct)
  case Nil
  show ?case by (simp add: record_all_def default_histogram_def count_in_def map_replicate_const)
next
  case (snoc d ds)
  let ?k = "bucket_index (as_micros_u64 d)"
  have "(map (\<lambda>j. of_nat (count_in ds j)) [0..<8])[?k := of_nat (count_in ds ?k) + 1]
      = map (\<lambda>j. of_nat (count_in (ds @ [d]) j) :: u64) [0..<8]"
    by (rule nth_equalityI) (auto simp: nth_list_update count_in_def)
  with snoc bucket_index_less [of "as_micros_u64 d"] show ?case
    by (simp add: record_all_snoc histogram_record_def Let_def)
qed

lemma record_all_maximum: "ph_maximum_us (record_all ds) = fold max (map as_micros_u64 ds) 0"
  by (induction ds rule: rev_induct)
    (simp_all add: record_all_snoc histogram_record_def Let_def,
     simp_all add: record_all_def default_histogram_def max.commute)

section \<open>What a percentile is\<close>

text \<open>The scan over buckets whose counts do not wrap stops at the first one that reaches the rank.\<close>

lemma percentile_scan_spec:
  fixes c :: "nat \<Rightarrow> nat" and L :: "nat \<Rightarrow> u64"
  assumes "s < k" "k \<le> s + (\<Sum>i \<in> {a..<b}. c i)" "s + (\<Sum>i \<in> {a..<b}. c i) < 2 ^ 64"
  shows "\<exists>j \<in> {a..<b}. percentile_scan m (of_nat k) (of_nat s) (map (\<lambda>j. (of_nat (c j), L j)) [a..<b])
      = min (L j) (max m 1)
    \<and> k \<le> s + (\<Sum>i \<in> {a..j}. c i) \<and> (\<forall>i \<in> {a..<j}. s + (\<Sum>l \<in> {a..i}. c l) < k)"
  using assms
proof (induction "b - a" arbitrary: a s)
  case (Suc n)
  from Suc.hyps(2) have ab: "a < b" "[a..<b] = a # [Suc a..<b]" "{a..<b} = insert a {Suc a..<b}"
    by (auto simp: upt_rec)
  have sum: "(\<Sum>i \<in> {a..<b}. c i) = c a + (\<Sum>i \<in> {Suc a..<b}. c i)" unfolding ab(3) by simp
  have add: "of_nat s + of_nat (c a) = (of_nat (s + c a) :: u64)" by simp
  have small: "s + c a < 2 ^ 64" "k < 2 ^ 64" using Suc.prems sum by linarith+
  have le: "(of_nat k :: u64) \<le> of_nat (s + c a) \<longleftrightarrow> k \<le> s + c a"
    using unat_of_nat_small [of "s + c a", where ?'a = 64] unat_of_nat_small [of k, where ?'a = 64] small
    by (simp add: word_le_nat_alt del: of_nat_add)
  show ?case
  proof (cases "k \<le> s + c a")
    case True
    then show ?thesis using ab(1) le by (intro bexI [of _ a]) (auto simp: ab(2) add Let_def simp del: of_nat_add)
  next
    case False
    then have "s + c a < k" by simp
    moreover have "n = b - Suc a" "k \<le> s + c a + (\<Sum>i \<in> {Suc a..<b}. c i)"
      "s + c a + (\<Sum>i \<in> {Suc a..<b}. c i) < 2 ^ 64"
      using Suc.hyps(2) Suc.prems(2,3) sum by (simp_all add: add.assoc)
    ultimately obtain j where j: "j \<in> {Suc a..<b}"
      "percentile_scan m (of_nat k) (of_nat (s + c a)) (map (\<lambda>j. (of_nat (c j), L j)) [Suc a..<b])
        = min (L j) (max m 1)"
      "k \<le> s + c a + (\<Sum>i \<in> {Suc a..j}. c i)"
      "\<forall>i \<in> {Suc a..<j}. s + c a + (\<Sum>l \<in> {Suc a..i}. c l) < k"
      using Suc.hyps(1) [of "Suc a" "s + c a"] by blast
    have split: "(\<Sum>l \<in> {a..i}. c l) = c a + (\<Sum>l \<in> {Suc a..i}. c l)" if "a \<le> i" for i
      using that by (simp add: sum.atLeast_Suc_atMost)
    have "\<forall>i \<in> {a..<j}. s + (\<Sum>l \<in> {a..i}. c l) < k"
    proof
      fix i assume "i \<in> {a..<j}"
      with j(4) \<open>s + c a < k\<close> split [of i] show "s + (\<Sum>l \<in> {a..i}. c l) < k"
        by (cases "i = a") (auto simp: add.assoc)
    qed
    moreover have "percentile_scan m (of_nat k) (of_nat s) (map (\<lambda>j. (of_nat (c j), L j)) [a..<b])
        = min (L j) (max m 1)"
      using j(2) le False by (simp add: ab(2) add Let_def del: of_nat_add)
    moreover have "k \<le> s + (\<Sum>i \<in> {a..j}. c i)" "j \<in> {a..<b}"
      using j(1,3) split [of j] by simp_all
    ultimately show ?thesis by blast
  qed
qed simp

definition rank :: "nat \<Rightarrow> nat \<Rightarrow> nat" where
  "rank n p = (n * p + 99) div 100"

lemma rank_bounds: "0 < n \<Longrightarrow> 0 < p \<Longrightarrow> p \<le> 100 \<Longrightarrow> 0 < rank n p \<and> rank n p \<le> n"
proof -
  assume a: "0 < n" "0 < p" "p \<le> 100"
  then have "1 \<le> n * p" "n * p \<le> n * 100" by simp_all
  then show ?thesis unfolding rank_def by linarith
qed

lemma ceil_hundred: "(x + 99) div 100 = x div 100 + of_bool (x mod 100 \<noteq> 0)" for x :: nat
proof -
  obtain q r where x: "x = q * 100 + r" "r < 100" "x div 100 = q" "x mod 100 = r"
    by (metis div_mult_mod_eq mod_less_divisor zero_less_numeral)
  show ?thesis
  proof (cases "r = 0")
    case True
    with x show ?thesis by simp
  next
    case False
    then have "100 * (q + 1) \<le> x + 99" "x + 99 < 100 * Suc (q + 1)" using x(1,2) by simp_all
    then have "(x + 99) div 100 = q + 1" by (rule div_nat_eqI)
    with False x show ?thesis by simp
  qed
qed

lemma div_ceil_rank:
  assumes "n * p < 2 ^ 64"
  shows "div_ceil (of_nat (n * p)) 100 = of_nat (rank n p)"
proof -
  define x where "x = n * p"
  have u: "unat (of_nat x :: u64) = x" "unat (100 :: u64) = 100"
    using unat_of_nat_small [of x, where ?'a = 64] assms by (simp_all add: x_def)
  have div_eq: "(of_nat x div 100 :: u64) = of_nat (x div 100)"
    by (simp only: word_arith_nat_div u)
  have mod_eq: "(of_nat x mod 100 :: u64) = of_nat (x mod 100)"
    by (simp only: word_arith_nat_mod u)
  define r where "r = x mod 100"
  have "r < 100" by (simp add: r_def)
  then have "r < 2 ^ LENGTH(64)" by simp
  from unat_of_nat_small [OF this] have "r = 0" if "(of_nat r :: u64) = 0" using that by simp
  then have zero: "(of_nat (x mod 100) :: u64) = 0 \<longleftrightarrow> x mod 100 = 0"
    unfolding r_def [symmetric] by auto
  show ?thesis
    unfolding rank_def x_def [symmetric] div_ceil_def div_eq mod_eq zero ceil_hundred
      of_nat_add of_nat_of_bool ..
qed

text \<open>The reported percentiles are nearest-rank percentiles at the resolution of the buckets: over any
  recorded durations the value is the least bucket limit below which at least the fraction \<open>p\<close> of them
  lies, capped by the longest duration (and by no less than 1 microsecond); the number of samples is
  exact.\<close>

theorem percentile_nearest_rank:
  assumes "ds \<noteq> []" "0 < p" "p \<le> 100" "length ds * 100 < 2 ^ 64"
  shows "\<exists>j < 8. histogram_percentile (record_all ds) (of_nat p)
      = min (LIMITS_US ! j) (max (fold max (map as_micros_u64 ds) 0) 1)
    \<and> rank (length ds) p \<le> count_le ds (LIMITS_US ! j)
    \<and> (\<forall>i < j. count_le ds (LIMITS_US ! i) < rank (length ds) p)
    \<and> unat (ph_samples (record_all ds)) = length ds"
proof -
  let ?n = "length ds" and ?h = "record_all ds"
  have n: "0 < ?n" "?n * p \<le> ?n * 100" using assms by simp_all
  have np: "?n * p < 2 ^ 64" "?n < 2 ^ 64" using n assms(4) by linarith+
  have un: "unat (of_nat ?n :: u64) = ?n" "unat (of_nat p :: u64) = p"
    using unat_of_nat_small [of ?n, where ?'a = 64] unat_of_nat_small [of p, where ?'a = 64] np assms(3)
    by simp_all
  have target: "div_ceil (sat_mul (ph_samples ?h) (of_nat p)) 100 = of_nat (rank ?n p)"
    using div_ceil_rank [OF np(1)] record_all_view [of ds] np un by (simp add: sat_mul_def)
  have buckets: "ph_buckets ?h = map (\<lambda>j. of_nat (count_in ds j)) [0..<8]"
    and samples: "ph_samples ?h = of_nat ?n" using record_all_view [of ds] by simp_all
  have "ph_samples ?h \<noteq> 0"
  proof
    assume "ph_samples ?h = 0"
    then have "unat (of_nat ?n :: u64) = 0" by (simp add: samples)
    with un(1) n(1) show False by simp
  qed
  moreover have "zip (ph_buckets ?h) LIMITS_US
      = map (\<lambda>j. (of_nat (count_in ds j), LIMITS_US ! j)) [0..<8]"
  proof (rule nth_equalityI)
    have "length LIMITS_US = 8" by (simp add: LIMITS_US_def)
    then show "length (zip (ph_buckets ?h) LIMITS_US)
        = length (map (\<lambda>j. (of_nat (count_in ds j) :: u64, LIMITS_US ! j)) [0..<8])"
      and "\<And>i. i < length (zip (ph_buckets ?h) LIMITS_US) \<Longrightarrow> zip (ph_buckets ?h) LIMITS_US ! i
        = map (\<lambda>j. (of_nat (count_in ds j), LIMITS_US ! j)) [0..<8] ! i"
      by (simp_all add: buckets)
  qed
  ultimately have scan: "histogram_percentile ?h (of_nat p) = percentile_scan (ph_maximum_us ?h)
      (of_nat (rank ?n p)) (of_nat 0) (map (\<lambda>j. (of_nat (count_in ds j), LIMITS_US ! j)) [0..<8])"
    by (simp add: histogram_percentile_def target)
  have "{0..<8} = {..(7 :: nat)}" by auto
  then have total: "(\<Sum>i \<in> {0..<8}. count_in ds i) = ?n"
    using count_in_sum [of 7 ds] by (simp add: count_le_def LIMITS_US_def)
  from percentile_scan_spec [where s = 0 and k = "rank ?n p" and a = 0 and b = 8 and c = "count_in ds"
      and m = "ph_maximum_us ?h" and L = "\<lambda>j. LIMITS_US ! j"]
    rank_bounds [OF n(1) assms(2,3)] np(2)
  obtain j where j: "j < 8" "histogram_percentile ?h (of_nat p) = min (LIMITS_US ! j) (max (ph_maximum_us ?h) 1)"
    "rank ?n p \<le> (\<Sum>i \<in> {0..j}. count_in ds i)" "\<forall>i < j. (\<Sum>l \<in> {0..i}. count_in ds l) < rank ?n p"
    unfolding scan total by auto
  have sums: "(\<Sum>i \<in> {0..j}. count_in ds i) = count_le ds (LIMITS_US ! j)" if "j < 8" for j
    using count_in_sum [OF that, of ds] by (simp add: atLeast0AtMost)
  have "unat (ph_samples ?h) = ?n" using record_all_view [of ds] un by simp
  with j sums show ?thesis by (auto simp: record_all_maximum)
qed

lemma percentile_nearest_rank_witness:
  "\<exists>j < 8. histogram_percentile (record_all [90000, 120000, 7000000]) 50
      = min (LIMITS_US ! j) (max (fold max (map as_micros_u64 [90000, 120000, 7000000]) 0) 1)
    \<and> 2 \<le> count_le [90000, 120000, 7000000] (LIMITS_US ! j)
    \<and> (\<forall>i < j. count_le [90000, 120000, 7000000] (LIMITS_US ! i) < 2)
    \<and> unat (ph_samples (record_all [90000, 120000, 7000000])) = 3"
  using percentile_nearest_rank [of "[90000, 120000, 7000000]" 50]
  by (simp add: rank_def numeral_3_eq_3)

text \<open>
  A percentile can exceed the maximum beside it: with one duration below a microsecond the median is
  reported as 1 and the maximum as 0.
\<close>

lemma percentile_above_maximum:
  "pt_p50_us (histogram_snapshot (record_all [500])) = 1
   \<and> pt_maximum_us (histogram_snapshot (record_all [500])) = 0"
proof -
  have "replicate 8 (0 :: u64) = [0, 0, 0, 0, 0, 0, 0, 0]" by (simp add: numeral_eq_Suc)
  then show ?thesis
    by (simp add: histogram_snapshot_def record_all_def default_histogram_def histogram_record_def
        as_micros_u64_def bucket_index_def LIMITS_US_def histogram_percentile_def sat_mul_def
        div_ceil_def Let_def)
qed

end
