(* ===== verification/Pairing.thy ===== *)
theory Pairing
  imports Echo Runtime_Shared Histogram
begin

text \<open>
  How an AEC run finds the render frame for a microphone frame: \<^verbatim>\<open>rebuild_echo\<close> and
  \<^verbatim>\<open>select_render_frame\<close> of \<^verbatim>\<open>crates/mini-aec-engine/src/runtime.rs\<close>.  What the worker takes
  from its surroundings is gathered in \<open>runtime\<close>; the loop over stale render frames takes fuel.
\<close>

section \<open>The surroundings of the worker\<close>

text \<open>
  \<open>rt_clock\<close> is the system time in nanoseconds (\<open>None\<close> before the epoch), \<open>rt_elapsed\<close> the time a
  frame took, \<open>rt_echo\<close> and \<open>rt_echo_factory\<close> the canceller and its factory.
\<close>

record ('x, 'a, 'f) runtime =
  rt_others :: "'x world \<Rightarrow> 'x world"
  rt_clock :: "'x world \<Rightarrow> nat option"
  rt_pid :: u32
  rt_elapsed :: "'x world \<Rightarrow> nat"
  rt_echo :: "'a echo_canceller"
  rt_echo_factory :: "('f, 'a) echo_factory"

text \<open>The canceller in use and the state of its factory.\<close>

type_synonym ('a, 'f) echo_slot = "'a \<times> 'f"

section \<open>Rebuilding the canceller\<close>

text \<open>The new identity is taken while the snapshot is locked.\<close>

definition rebuild_echo ::
  "('x, 'a, 'f) runtime \<Rightarrow> degradation_reason \<Rightarrow> bool \<Rightarrow> ('a, 'f) echo_slot \<Rightarrow> 'x world
     \<Rightarrow> ('a, 'f) echo_slot \<times> 'x world \<times> (engine_error + unit)" where
  "rebuild_echo rt reason alignment_reset slot w =
    (case ecf_create (rt_echo_factory rt) (snd slot) of
       (f, Inl e) \<Rightarrow> ((fst slot, f), w, Inl (engine_error_new EK_EchoCancellerFailure
         (Pieces [Text ''failed to reconstruct the echo canceller: '', ece_message e])))
     | (f, Inr rebuilt) \<Rightarrow>
         let w = rt_others rt w;
             (w, identity) = new_identity id (rt_clock rt w) (rt_pid rt) w;
             w = on_snapshot (\<lambda>s.
               let s = s\<lparr>es_aec_resets := es_aec_resets s + 1,
                         es_aec_rebuilds := es_aec_rebuilds s + 1,
                         es_aec_instance_id := Some identity\<rparr>;
                   s = (if alignment_reset then
                          s\<lparr>es_alignment_resets := es_alignment_resets s + 1,
                            es_synchronization_epoch := sat_add (es_synchronization_epoch s) 1\<rparr>
                        else s)
               in s\<lparr>es_state := Degraded, es_degradation_reason := Some reason\<rparr>) w
         in ((rebuilt, f), w, Inr ()))"

section \<open>Taking frames from the timed queues\<close>

text \<open>\<open>on_timed\<close> is a \<^verbatim>\<open>pop\<close>: other threads run before it and while it waits.\<close>

definition pop_microphone ::
  "('x world \<Rightarrow> 'x world) \<Rightarrow> 'x world \<Rightarrow> 'x world \<times> timed_frame pop_result" where
  "pop_microphone others w =
    (let w = others w;
         q = w_microphone_queue w;
         w = (if qs_frames q = [] \<and> \<not> qs_producer_done q \<and> \<not> qs_failed q then others w else w);
         (q, r) = timed_queue_take (w_microphone_queue w)
     in (w\<lparr>w_microphone_queue := q\<rparr>, r))"

definition pop_render ::
  "('x world \<Rightarrow> 'x world) \<Rightarrow> 'x world \<Rightarrow> 'x world \<times> timed_frame pop_result" where
  "pop_render others w =
    (let w = others w;
         q = w_render_queue w;
         w = (if qs_frames q = [] \<and> \<not> qs_producer_done q \<and> \<not> qs_failed q then others w else w);
         (q, r) = timed_queue_take (w_render_queue w)
     in (w\<lparr>w_render_queue := q\<rparr>, r))"

definition try_pop_render ::
  "('x world \<Rightarrow> 'x world) \<Rightarrow> 'x world \<Rightarrow> 'x world \<times> timed_frame option" where
  "try_pop_render others w =
    (let w = others w; (q, r) = timed_queue_try_pop (w_render_queue w)
     in (w\<lparr>w_render_queue := q\<rparr>, r))"

section \<open>Selecting the render frame\<close>

definition silence :: "fp list" where
  "silence = replicate FRAME_SAMPLES (Fin 0)"

text \<open>A selection: the render samples, whether a frame was paired, and its distance if there was one.\<close>

type_synonym selection = "fp list \<times> bool \<times> i64 option"

text \<open>The state of the selection: the candidate, the wait flag, the canceller and the world.\<close>

type_synonym ('x, 'a, 'f) pairing = "timed_frame option \<times> bool \<times> ('a, 'f) echo_slot \<times> 'x world"

text \<open>The first part: get a candidate when there is none.\<close>

definition next_candidate ::
  "('x, 'a, 'f) runtime \<Rightarrow> ('x, 'a, 'f) pairing \<Rightarrow> ('x, 'a, 'f) pairing" where
  "next_candidate rt = (\<lambda>(render, exhausted, slot, w).
    (case render of
       Some _ \<Rightarrow> (render, exhausted, slot, w)
     | None \<Rightarrow>
         let (w, render, exhausted) =
           (if exhausted then
              let (w, r) = try_pop_render (rt_others rt) w in (w, r, exhausted)
            else case pop_render (rt_others rt) w of
              (w, Frame frame) \<Rightarrow> (w, Some frame, exhausted)
            | (w, _) \<Rightarrow> (w, None, True));
           exhausted = (if render \<noteq> None then False else exhausted)
         in (render, exhausted, slot, w)))"

text \<open>One turn of \<^verbatim>\<open>while let Some(candidate) = *render\<close>.\<close>

definition select_turn ::
  "('x, 'a, 'f) runtime \<Rightarrow> timed_frame \<Rightarrow> ('x, 'a, 'f) pairing
     \<Rightarrow> (('x, 'a, 'f) pairing, ('x, 'a, 'f) pairing \<times> (engine_error + selection)) flow" where
  "select_turn rt microphone = (\<lambda>(render, exhausted, slot, w).
    (case render of
       None \<Rightarrow> Break ((render, exhausted, slot, w), Inr (silence, False, None))
     | Some candidate \<Rightarrow>
       (case (if tf_reset_epoch candidate then rebuild_echo rt AecReset True slot w
              else (slot, w, Inr ())) of
          (slot, w, Inl e) \<Rightarrow> Break ((render, exhausted, slot, w), Inl e)
        | (slot, w, Inr _) \<Rightarrow>
          let delta = signed_delta (tf_qpc_timestamp_100ns candidate) (tf_qpc_timestamp_100ns microphone)
          in if delta < - sint ALIGNMENT_TOLERANCE_100NS then
               let w = on_snapshot (\<lambda>s. s\<lparr>es_stale_render_frames := es_stale_render_frames s + 1\<rparr>)
                         (rt_others rt w);
                   (w, render) = try_pop_render (rt_others rt) w
               in Continue (render, exhausted, slot, w)
             else if unsigned_abs delta > MAXIMUM_SKEW_100NS then
               Break ((render, exhausted, slot, w), Inr (silence, False, Some delta))
             else if delta \<le> sint ALIGNMENT_TOLERANCE_100NS then
               let (w, render) = try_pop_render (rt_others rt) w
               in Break ((render, False, slot, w), Inr (tf_samples candidate, True, Some delta))
             else Break ((render, exhausted, slot, w), Inr (silence, False, Some delta)))))"

definition select_render_frame ::
  "('x, 'a, 'f) runtime \<Rightarrow> nat \<Rightarrow> timed_frame \<Rightarrow> ('x, 'a, 'f) pairing
     \<Rightarrow> (('x, 'a, 'f) pairing \<times> (engine_error + selection)) option" where
  "select_render_frame rt fuel microphone p =
     run_loop (select_turn rt microphone) fuel (next_candidate rt p)"

section \<open>What a selection means\<close>

definition tolerance :: int where "tolerance = 50000"

lemma sint_tolerance [simp]: "sint ALIGNMENT_TOLERANCE_100NS = tolerance"
  by (simp add: ALIGNMENT_TOLERANCE_100NS_def tolerance_def)

text \<open>The distance of a render frame from a microphone frame.\<close>

definition distance :: "timed_frame \<Rightarrow> timed_frame \<Rightarrow> int" where
  "distance render microphone =
     signed_delta (tf_qpc_timestamp_100ns render) (tf_qpc_timestamp_100ns microphone)"

text \<open>The last candidate that a run of turns looks at, and how the turn on it ends.\<close>

definition selection_of :: "timed_frame option \<Rightarrow> timed_frame \<Rightarrow> selection" where
  "selection_of render microphone =
    (case render of
       None \<Rightarrow> (silence, False, None)
     | Some c \<Rightarrow> if distance c microphone \<le> tolerance
                 then (tf_samples c, True, Some (distance c microphone))
                 else (silence, False, Some (distance c microphone)))"

lemma select_turn_break:
  assumes "select_turn rt m (render, exhausted, slot, w) = Break (p, Inr sel)"
  shows "sel = selection_of render m \<and> (case render of Some c \<Rightarrow> - tolerance \<le> distance c m | None \<Rightarrow> True)
    \<and> (fst (snd sel) = False \<longrightarrow> fst p = render)"
proof (cases render)
  case (Some c)
  have skew: "MAXIMUM_SKEW_100NS < unsigned_abs (signed_delta a b) \<longleftrightarrow> 1000000 < \<bar>signed_delta a b\<bar>" for a b
    using uint_unsigned_abs [OF signed_delta_range, of a b]
    by (simp add: MAXIMUM_SKEW_100NS_def word_less_def)
  then show ?thesis
    using assms Some
    by (auto simp: select_turn_def selection_of_def distance_def Let_def tolerance_def not_le
        split: prod.splits sum.splits if_splits)
qed (use assms in \<open>auto simp: select_turn_def selection_of_def\<close>)

lemma select_turn_silent:
  assumes "select_turn rt m (render, exhausted, slot, w) = Break (p, Inr (samples, False, delta))"
  shows "samples = silence \<and> (case delta of
      None \<Rightarrow> fst p = None
    | Some d \<Rightarrow> tolerance < d \<and> (\<exists>c. fst p = Some c \<and> distance c m = d))"
  using select_turn_break [OF assms]
  by (auto simp: selection_of_def split: option.splits if_splits)

definition sound_selection :: "timed_frame \<Rightarrow> timed_frame option \<Rightarrow> selection \<Rightarrow> bool" where
  "sound_selection m kept = (\<lambda>(samples, paired, delta).
    if paired
    then \<exists>c d. samples = tf_samples c \<and> delta = Some d \<and> d = distance c m \<and> \<bar>d\<bar> \<le> tolerance
    else samples = silence \<and> (case delta of
        None \<Rightarrow> kept = None
      | Some d \<Rightarrow> tolerance < d \<and> (\<exists>c. kept = Some c \<and> distance c m = d)))"

lemma select_turn_sound:
  assumes "select_turn rt m (render, exhausted, slot, w) = Break (p, Inr sel)"
  shows "sound_selection m (fst p) sel"
proof (cases sel)
  case (fields samples paired delta)
  show ?thesis
  proof (cases paired)
    case True
    then show ?thesis
      using select_turn_break [OF assms]
      by (auto simp: sound_selection_def fields selection_of_def abs_le_iff split: option.splits if_splits)
  next
    case False
    then show ?thesis
      using select_turn_silent [of rt m render exhausted slot w p samples delta] assms
      by (simp add: sound_selection_def fields)
  qed
qed

definition sound_result ::
  "timed_frame \<Rightarrow> ('x, 'a, 'f) pairing \<times> (engine_error + selection) \<Rightarrow> bool" where
  "sound_result m b \<longleftrightarrow>
     (case snd b of Inl _ \<Rightarrow> True | Inr sel \<Rightarrow> sound_selection m (fst (fst b)) sel)"

lemma select_turn_result: "select_turn rt m c = Break b \<Longrightarrow> sound_result m b"
proof -
  assume turn: "select_turn rt m c = Break b"
  obtain render exhausted slot w where c: "c = (render, exhausted, slot, w)" by (cases c)
  show "sound_result m b"
  proof (cases "snd b")
    case (Inr sel)
    with turn have "select_turn rt m (render, exhausted, slot, w) = Break (fst b, Inr sel)"
      unfolding c by (cases b) simp
    from select_turn_sound [OF this] Inr show ?thesis by (simp add: sound_result_def)
  qed (simp add: sound_result_def)
qed

text \<open>Pairing is sound in any interleaving: a paired selection uses the samples of a render frame whose
  timestamp is within 5 ms of the microphone frame's; an unpaired one uses silence, either because no
  render frame is at hand, or because the next one is more than 5 ms ahead, in which case that frame is
  kept for a later microphone frame.\<close>

theorem select_render_frame_sound:
  assumes "select_render_frame rt fuel m p = Some (p', Inr sel)"
  shows "sound_selection m (fst p') sel"
proof -
  have "sound_result m (p', Inr sel)"
    by (rule run_loop_invariant [OF assms [unfolded select_render_frame_def], where I = "\<lambda>_. True"])
      (simp_all add: select_turn_result)
  then show ?thesis by (simp add: sound_result_def)
qed

section \<open>The selection of an undisturbed queue\<close>

text \<open>
  \<open>pending\<close> are the render frames in the order the worker sees them.  A frame is stale for a
  microphone frame when it lies more than 5 ms before it.
\<close>

definition pending :: "timed_frame option \<Rightarrow> 'x world \<Rightarrow> timed_frame list" where
  "pending render w = (case render of None \<Rightarrow> [] | Some c \<Rightarrow> [c]) @ qs_frames (w_render_queue w)"

definition stale :: "timed_frame \<Rightarrow> timed_frame \<Rightarrow> bool" where
  "stale m c \<longleftrightarrow> distance c m < - tolerance"

definition first_of :: "'f list \<Rightarrow> 'f option" where
  "first_of fs = (case fs of [] \<Rightarrow> None | f # _ \<Rightarrow> Some f)"

lemma first_of_simps [simp]: "first_of [] = None" "first_of (f # fs) = Some f"
  by (simp_all add: first_of_def)

definition keeps_render :: "('x world \<Rightarrow> 'x world) \<Rightarrow> bool" where
  "keeps_render others \<longleftrightarrow> (\<forall>w. w_render_queue (others w) = w_render_queue w)"

definition creates :: "('f, 'a) echo_factory \<Rightarrow> bool" where
  "creates factory \<longleftrightarrow> (\<forall>f. \<not> is_err (snd (ecf_create factory f)))"

lemma keeps_renderD [simp]: "keeps_render others \<Longrightarrow> w_render_queue (others w) = w_render_queue w"
  by (simp add: keeps_render_def)

lemma new_identity_frame [frame_simps]:
  "new_identity others t pid w = (w', i) \<Longrightarrow> w_render_queue w' = w_render_queue (others w)"
  "new_identity others t pid w = (w', i) \<Longrightarrow> w_snapshot w' = w_snapshot (others w)"
  by (auto simp: new_identity_def Let_def)

lemma rebuild_quiet:
  assumes "creates (rt_echo_factory rt)" "keeps_render (rt_others rt)"
  shows "\<exists>slot' w'. rebuild_echo rt reason reset slot w = (slot', w', Inr ())
    \<and> w_render_queue w' = w_render_queue w"
proof -
  have "\<not> is_err (snd (ecf_create (rt_echo_factory rt) (snd slot)))"
    using assms(1) by (simp add: creates_def)
  then obtain f a where "ecf_create (rt_echo_factory rt) (snd slot) = (f, Inr a)"
    by (cases "ecf_create (rt_echo_factory rt) (snd slot)") (auto simp: is_err_def split: sum.splits)
  moreover obtain w2 i where id: "new_identity id (rt_clock rt (rt_others rt w)) (rt_pid rt)
      (rt_others rt w) = (w2, i)" by (cases "new_identity id (rt_clock rt (rt_others rt w)) (rt_pid rt)
      (rt_others rt w)")
  moreover have "w_render_queue w2 = w_render_queue w"
    using new_identity_frame(1) [OF id] assms(2) by simp
  ultimately show ?thesis by (simp add: rebuild_echo_def)
qed

lemma try_pop_quiet:
  assumes "keeps_render others" "try_pop_render others w = (w', r)"
  shows "r = first_of (qs_frames (w_render_queue w))
    \<and> qs_frames (w_render_queue w') = tl (qs_frames (w_render_queue w))
    \<and> qs_failed (w_render_queue w') = qs_failed (w_render_queue w)"
  using assms by (auto simp: try_pop_render_def timed_queue_try_pop_def first_of_def Let_def
      split: list.splits)

lemma try_pop_pending:
  assumes "keeps_render others" "try_pop_render others w = (w', r)"
  shows "pending r w' = qs_frames (w_render_queue w)" "r = None \<longrightarrow> qs_frames (w_render_queue w') = []"
  using try_pop_quiet [OF assms]
  by (cases "qs_frames (w_render_queue w)"; simp add: pending_def)+

text \<open>The turns on a non-empty and on an empty list of pending frames.\<close>

lemma select_turn_none:
  "select_turn rt m (None, exhausted, slot, w) = Break ((None, exhausted, slot, w), Inr (selection_of None m))"
  by (simp add: select_turn_def selection_of_def)

lemma select_turn_quiet:
  assumes "creates (rt_echo_factory rt)" "keeps_render (rt_others rt)"
  shows "\<exists>exhausted' slot' w' render'.
    (if stale m c then
       select_turn rt m (Some c, exhausted, slot, w) = Continue (render', exhausted', slot', w')
       \<and> pending render' w' = qs_frames (w_render_queue w)
       \<and> (render' = None \<longrightarrow> qs_frames (w_render_queue w') = [])
     else
       select_turn rt m (Some c, exhausted, slot, w)
         = Break ((render', exhausted', slot', w'), Inr (selection_of (Some c) m))
       \<and> pending render' w' = (if distance c m \<le> tolerance then qs_frames (w_render_queue w)
                               else c # qs_frames (w_render_queue w)))"
proof -
  have "\<exists>slot1 w1. (if tf_reset_epoch c then rebuild_echo rt AecReset True slot w
      else (slot, w, Inr ())) = (slot1, w1, Inr ()) \<and> w_render_queue w1 = w_render_queue w"
    using rebuild_quiet [OF assms, of AecReset True slot w] by (cases "tf_reset_epoch c") auto
  then obtain slot1 w1 where r: "(if tf_reset_epoch c then rebuild_echo rt AecReset True slot w
      else (slot, w, Inr ())) = (slot1, w1, Inr ())" "w_render_queue w1 = w_render_queue w" by blast
  obtain w2 r2 where p2: "try_pop_render (rt_others rt) w1 = (w2, r2)"
    by (cases "try_pop_render (rt_others rt) w1")
  let ?w = "on_snapshot (\<lambda>s. s\<lparr>es_stale_render_frames := es_stale_render_frames s + 1\<rparr>) (rt_others rt w1)"
  obtain w3 r3 where p3: "try_pop_render (rt_others rt) ?w = (w3, r3)"
    by (cases "try_pop_render (rt_others rt) ?w")
  have q: "w_render_queue ?w = w_render_queue w" using assms(2) r(2) by simp
  note pend = try_pop_pending [OF assms(2) p2] try_pop_pending [OF assms(2) p3]
  have skew: "MAXIMUM_SKEW_100NS < unsigned_abs (distance c m) \<longleftrightarrow> 1000000 < \<bar>distance c m\<bar>"
    using uint_unsigned_abs [OF signed_delta_range, of "tf_qpc_timestamp_100ns c" "tf_qpc_timestamp_100ns m"]
    by (simp add: MAXIMUM_SKEW_100NS_def word_less_def distance_def)
  note turn = select_turn_def distance_def [symmetric] Let_def
  consider "stale m c" | "\<not> stale m c" "distance c m \<le> tolerance" | "tolerance < distance c m"
    by linarith
  then show ?thesis
  proof cases
    case 1
    then have "distance c m < - tolerance" by (simp add: stale_def)
    then show ?thesis using 1 pend(3,4) q by (simp add: turn r p3)
  next
    case 2
    then have "\<not> distance c m < - tolerance" "\<not> 1000000 < \<bar>distance c m\<bar>"
      by (auto simp: stale_def tolerance_def)
    then show ?thesis using 2 pend(1) r(2)
      by (auto simp: turn r(1) skew p2 selection_of_def)
  next
    case 3
    then have "\<not> distance c m < - tolerance" "\<not> distance c m \<le> tolerance" by (auto simp: tolerance_def)
    moreover from this have "\<not> stale m c" by (simp add: stale_def)
    ultimately show ?thesis using r(2)
      by (simp add: turn r(1) selection_of_def pending_def)
  qed
qed

lemma select_loop_quiet:
  assumes "creates (rt_echo_factory rt)" "keeps_render (rt_others rt)"
    and "render = None \<longrightarrow> qs_frames (w_render_queue w) = []"
  shows "\<exists>render' exhausted' slot' w'.
    run_loop (select_turn rt m) (Suc (length (pending render w))) (render, exhausted, slot, w)
      = Some ((render', exhausted', slot', w'),
          Inr (selection_of (first_of (dropWhile (stale m) (pending render w))) m))
    \<and> pending render' w' = (let fresh = dropWhile (stale m) (pending render w) in
        if fst (snd (selection_of (first_of fresh) m)) then tl fresh else fresh)"
  using assms(3)
proof (induction "length (pending render w)" arbitrary: render exhausted slot w)
  case 0
  then have "render = None" "pending render w = []"
    by (auto simp: pending_def split: option.splits)
  then show ?case by (simp add: select_turn_none selection_of_def Let_def)
next
  case (Suc n)
  then obtain c where c: "render = Some c" by (cases render) (auto simp: pending_def)
  then have pc: "pending render w = c # qs_frames (w_render_queue w)" by (simp add: pending_def)
  obtain exhausted' slot' w' render' where turn: "if stale m c then
       select_turn rt m (Some c, exhausted, slot, w) = Continue (render', exhausted', slot', w')
       \<and> pending render' w' = qs_frames (w_render_queue w)
       \<and> (render' = None \<longrightarrow> qs_frames (w_render_queue w') = [])
     else
       select_turn rt m (Some c, exhausted, slot, w)
         = Break ((render', exhausted', slot', w'), Inr (selection_of (Some c) m))
       \<and> pending render' w' = (if distance c m \<le> tolerance then qs_frames (w_render_queue w)
                               else c # qs_frames (w_render_queue w))"
    using select_turn_quiet [OF assms(1,2)] by blast
  show ?case
  proof (cases "stale m c")
    case True
    with turn pc Suc.hyps(2) Suc.hyps(1) [of render' w' exhausted' slot'] show ?thesis
      by (simp add: c)
  next
    case False
    with turn pc show ?thesis by (auto simp: c selection_of_def)
  qed
qed

text \<open>Getting the first candidate only moves the head of the queue into the slot.\<close>

lemma next_candidate_quiet:
  assumes "keeps_render (rt_others rt)" "\<not> qs_failed (w_render_queue w)"
  shows "\<exists>render' exhausted' w'. next_candidate rt (render, exhausted, slot, w) = (render', exhausted', slot, w')
    \<and> pending render' w' = pending render w
    \<and> (render' = None \<longrightarrow> qs_frames (w_render_queue w') = [])"
proof (cases render)
  case None
  obtain w1 r1 where t: "try_pop_render (rt_others rt) w = (w1, r1)" by (cases "try_pop_render (rt_others rt) w")
  note try_pop = try_pop_pending [OF assms(1) t]
  have pop: "pop_render (rt_others rt) w = (case qs_frames (w_render_queue w) of
      f # fs \<Rightarrow> ((rt_others rt w)\<lparr>w_render_queue := fst (timed_queue_take (w_render_queue w))\<rparr>, Frame f)
    | [] \<Rightarrow> (let w' = (if qs_producer_done (w_render_queue w) then rt_others rt w
                          else rt_others rt (rt_others rt w))
             in (w', if qs_producer_done (w_render_queue w) then Finished else Timeout)))"
    using assms by (auto simp: pop_render_def timed_queue_take_def Let_def split: list.splits)
  show ?thesis
  proof (cases "qs_frames (w_render_queue w)")
    case Nil
    then show ?thesis
      using None try_pop t pop assms(1) by (cases exhausted) (auto simp: next_candidate_def pending_def Let_def)
  next
    case (Cons f fs)
    then have "qs_frames (fst (timed_queue_take (w_render_queue w))) = fs"
      using assms(2) by (simp add: timed_queue_take_def)
    then show ?thesis
      using None try_pop t pop assms(1) Cons
      by (cases exhausted) (auto simp: next_candidate_def pending_def Let_def)
  qed
qed (simp add: next_candidate_def)

text \<open>C6
  The pairing rule: on a render queue that nobody else touches, and with a canceller that can be
  rebuilt, the selection ends and is exactly this: drop the render frames more than 5 ms older than the
  microphone frame, pair with the next one if it is at most 5 ms ahead and consume it, and otherwise use
  silence and keep it.  So no render frame is used twice, none that could pair is skipped, and their
  order is kept.\<close>

theorem select_render_frame_exact:
  assumes "creates (rt_echo_factory rt)" "keeps_render (rt_others rt)" "\<not> qs_failed (w_render_queue w)"
  shows "\<exists>render' exhausted' slot' w'.
    select_render_frame rt (Suc (length (pending render w))) m (render, exhausted, slot, w)
      = Some ((render', exhausted', slot', w'),
          Inr (selection_of (first_of (dropWhile (stale m) (pending render w))) m))
    \<and> pending render' w' = (let fresh = dropWhile (stale m) (pending render w) in
        if fst (snd (selection_of (first_of fresh) m)) then tl fresh else fresh)"
proof -
  obtain render1 exhausted1 w1 where nc:
    "next_candidate rt (render, exhausted, slot, w) = (render1, exhausted1, slot, w1)"
    "pending render1 w1 = pending render w"
    "render1 = None \<longrightarrow> qs_frames (w_render_queue w1) = []"
    using next_candidate_quiet [OF assms(2,3), of render exhausted slot] by blast
  show ?thesis
    using select_loop_quiet [OF assms(1,2) nc(3), of m exhausted1 slot]
    unfolding select_render_frame_def nc(1) nc(2) .
qed

section \<open>A reset mark on an early render frame\<close>

text \<open>
  A render frame that carries a reset mark and is too early to pair stays the candidate, mark included:
  every microphone frame until it pairs rebuilds the canceller and counts an alignment reset again.
\<close>

lemma rebuild_id:
  assumes "rt_others rt = id" "ecf_create (rt_echo_factory rt) (snd slot) = (f, Inr a)"
  shows "\<exists>w'. rebuild_echo rt reason True slot w = ((a, f), w', Inr ())
    \<and> es_alignment_resets (w_snapshot w') = es_alignment_resets (w_snapshot w) + 1
    \<and> es_aec_rebuilds (w_snapshot w') = es_aec_rebuilds (w_snapshot w) + 1
    \<and> es_state (w_snapshot w') = Degraded"
proof -
  obtain w2 i where id: "new_identity id (rt_clock rt w) (rt_pid rt) w = (w2, i)"
    by (cases "new_identity id (rt_clock rt w) (rt_pid rt) w")
  with new_identity_frame(2) [OF id] assms show ?thesis
    by (simp add: rebuild_echo_def Let_def)
qed

text \<open>What the code does with a discontinuity of the render stream that arrives early: each call for a
  microphone frame more than 5 ms before a marked render frame rebuilds the canceller, counts one more
  alignment reset, uses silence, and leaves the candidate with its mark in place, so the next call does
  the same again.\<close>

theorem early_reset_rebuilds_again:
  assumes "rt_others rt = id" "creates (rt_echo_factory rt)"
    and "tf_reset_epoch c" "tolerance < distance c m"
  shows "\<exists>slot' w'. select_render_frame rt 1 m (Some c, exhausted, slot, w)
      = Some ((Some c, exhausted, slot', w'), Inr (silence, False, Some (distance c m)))
    \<and> es_alignment_resets (w_snapshot w') = es_alignment_resets (w_snapshot w) + 1
    \<and> es_aec_rebuilds (w_snapshot w') = es_aec_rebuilds (w_snapshot w) + 1"
proof -
  have "\<not> is_err (snd (ecf_create (rt_echo_factory rt) (snd slot)))"
    using assms(2) by (simp add: creates_def)
  then obtain f a where "ecf_create (rt_echo_factory rt) (snd slot) = (f, Inr a)"
    by (cases "ecf_create (rt_echo_factory rt) (snd slot)") (auto simp: is_err_def split: sum.splits)
  from rebuild_id [OF assms(1) this, of AecReset w] obtain w' where w':
    "rebuild_echo rt AecReset True slot w = ((a, f), w', Inr ())"
    "es_alignment_resets (w_snapshot w') = es_alignment_resets (w_snapshot w) + 1"
    "es_aec_rebuilds (w_snapshot w') = es_aec_rebuilds (w_snapshot w) + 1" by blast
  have "\<not> distance c m < - tolerance" "\<not> distance c m \<le> tolerance"
    using assms(4) by (auto simp: tolerance_def)
  then show ?thesis
    using w' assms(3) by (simp add: select_render_frame_def next_candidate_def select_turn_def
        distance_def Let_def)
qed

text \<open>Concrete surroundings: nobody interferes, and the canceller passes the capture through.\<close>

definition through_echo :: "unit echo_canceller" where
  "through_echo = \<lparr>ec_process = (\<lambda>render capture out a. (a, capture, Inr ()))\<rparr>"

definition plain_runtime :: "(unit, unit, unit) runtime" where
  "plain_runtime = \<lparr>rt_others = id, rt_clock = (\<lambda>w. Some 0), rt_pid = 1, rt_elapsed = (\<lambda>w. 0),
     rt_echo = through_echo, rt_echo_factory = \<lparr>ecf_create = (\<lambda>f. (f, Inr ()))\<rparr>\<rparr>"

definition frame_at :: "u64 \<Rightarrow> bool \<Rightarrow> timed_frame" where
  "frame_at t reset = \<lparr>tf_samples = [Fin 1], tf_qpc_timestamp_100ns = t, tf_device_position = 0,
     tf_reset_epoch = reset\<rparr>"

definition render_world :: "unit world" where
  "render_world = (initial_world ())\<lparr>w_render_queue :=
     fst (timed_queue_push (frame_at 1010000 False) (fst (timed_queue_push (frame_at 900000 False)
       timed_queue_new)))\<rparr>"

lemma plain_runtime_ok: "rt_others plain_runtime = id" "creates (rt_echo_factory plain_runtime)"
  "keeps_render (rt_others plain_runtime)"
  by (simp_all add: plain_runtime_def creates_def keeps_render_def)

lemma render_world_queue:
  "qs_frames (w_render_queue render_world) = [frame_at 900000 False, frame_at 1010000 False]"
  "\<not> qs_failed (w_render_queue render_world)"
  by (simp_all add: render_world_def timed_queue_defs Let_def)

lemma distance_frame_at:
  "distance (frame_at a r) (frame_at b r') = signed_delta a b"
  by (simp add: distance_def frame_at_def)

lemma select_render_frame_exact_witness:
  "\<exists>p. select_render_frame plain_runtime 3 (frame_at 1000000 False) (None, True, ((), ()), render_world)
      = Some (p, Inr ([Fin 1], True, Some 10000))"
proof -
  have d: "signed_delta 900000 1000000 = - 100000" "signed_delta 1010000 1000000 = 10000"
    by (simp_all add: signed_delta_def i64_min_def i64_max_def)
  have p: "pending None render_world = [frame_at 900000 False, frame_at 1010000 False]"
    by (simp add: pending_def render_world_queue)
  from select_render_frame_exact [OF plain_runtime_ok(2,3) render_world_queue(2), of None
      "frame_at 1000000 False" True "((), ())"]
  show ?thesis
    by (auto simp: p d distance_frame_at stale_def tolerance_def selection_of_def numeral_3_eq_3)
      (auto simp: frame_at_def)
qed

lemma select_render_frame_sound_witness:
  "sound_selection (frame_at 1000000 False) (Some (frame_at 2000000 False)) (silence, False, Some 1000000)"
proof -
  have d: "signed_delta 2000000 1000000 = 1000000"
    by (simp add: signed_delta_def i64_min_def i64_max_def)
  have "select_render_frame plain_runtime 1 (frame_at 1000000 False)
      (Some (frame_at 2000000 False), False, ((), ()), render_world)
    = Some ((Some (frame_at 2000000 False), False, ((), ()), render_world),
        Inr (silence, False, Some 1000000))"
    by (simp add: select_render_frame_def next_candidate_def select_turn_def frame_at_def d Let_def
        tolerance_def)
  from select_render_frame_sound [OF this] show ?thesis by simp
qed

lemma early_reset_rebuilds_again_witness:
  "\<exists>slot w. select_render_frame plain_runtime 1 (frame_at 1000000 False)
      (Some (frame_at 2000000 True), False, ((), ()), render_world)
    = Some ((Some (frame_at 2000000 True), False, slot, w), Inr (silence, False, Some 1000000))
    \<and> es_alignment_resets (w_snapshot w) = 1"
proof -
  have d: "distance (frame_at 2000000 True) (frame_at 1000000 False) = 1000000"
    by (simp add: distance_frame_at signed_delta_def i64_min_def i64_max_def)
  have "tf_reset_epoch (frame_at 2000000 True)"
    "tolerance < distance (frame_at 2000000 True) (frame_at 1000000 False)"
    by (simp add: frame_at_def) (simp add: d tolerance_def)
  from early_reset_rebuilds_again [OF plain_runtime_ok(1,2) this, of False "((), ())" render_world]
  show ?thesis by (auto simp: d render_world_def initial_world_def default_snapshot_def)
qed

end
