(* ===== verification/Sink_Worker.thy ===== *)
theory Sink_Worker
  imports Runtime_Shared
begin

text \<open>
  \<^verbatim>\<open>sink_worker\<close> of \<^verbatim>\<open>crates/mini-aec-engine/src/runtime.rs\<close>: the thread that opens one session
  on the output adapter, writes the frames of the frame queue to it under consecutive sequence
  numbers, and closes it.  The adapter is any record of operations; \<open>logged\<close> wraps it so that its
  calls can be observed.  The loop runs until the queue ends or an operation fails: the model takes
  fuel, one unit per iteration, and is \<open>None\<close> when it runs out.
\<close>

section \<open>The worker\<close>

text \<open>\<^verbatim>\<open>queue.pop\<close> on the shared queue: other threads run before it and while it waits.\<close>

definition pop_frame ::
  "('x world \<Rightarrow> 'x world) \<Rightarrow> 'x world \<Rightarrow> 'x world \<times> pcm_samples pop_result" where
  "pop_frame others w =
    (let w = others w;
         q = w_queue w;
         w = (if qs_frames q = [] \<and> \<not> qs_producer_done q \<and> \<not> qs_failed q then others w else w);
         (q, r) = frame_queue_take (w_queue w)
     in (w\<lparr>w_queue := q\<rparr>, r))"

definition count_sink_failure :: "('x world \<Rightarrow> 'x world) \<Rightarrow> 'x world \<Rightarrow> 'x world" where
  "count_sink_failure others w =
     on_snapshot (\<lambda>s. s\<lparr>es_sink_failures := es_sink_failures s + 1\<rparr>) (others w)"

definition count_sink_accepted :: "('x world \<Rightarrow> 'x world) \<Rightarrow> 'x world \<Rightarrow> 'x world" where
  "count_sink_accepted others w =
     on_snapshot (\<lambda>s. s\<lparr>es_sink_accepted_frames := es_sink_accepted_frames s + 1\<rparr>) (others w)"

text \<open>
  Up to the readiness message.  The result is \<open>None\<close> when the worker returns early; the adapter's
  state is returned in any case.
\<close>

definition sink_startup ::
  "'s audio_output \<Rightarrow> ('x world \<Rightarrow> 'x world) \<Rightarrow> session_id \<Rightarrow> 's \<Rightarrow> 'x world \<Rightarrow> 's \<times> 'x world \<times> bool" where
  "sink_startup sink others session_id s w =
    (case ao_open_session sink (session_config_new session_id) s of
       (s, Inl e) \<Rightarrow>
         (s, fst (ready_send others SinkWorker (Inl (engine_error_from_output e)) w), False)
     | (s, Inr _) \<Rightarrow>
       (case ao_diagnostics sink s of
          (s, Inr diagnostics) \<Rightarrow>
            let d = sink_transport_snapshot_from diagnostics;
                w = on_snapshot (\<lambda>sn. sn\<lparr>es_sink_diagnostics_start := Some d,
                                        es_sink_diagnostics_latest := Some d\<rparr>) (others w);
                (w, sent) = ready_send others SinkWorker (Inr ()) w
            in if sent then (s, w, True) else (fst (ao_close_session sink s), w, False)
        | (s, Inl e) \<Rightarrow>
            let (s, _) = ao_close_session sink s
            in (s, fst (ready_send others SinkWorker (Inl (engine_error_from_output e)) w), False)))"

text \<open>One iteration of the loop, on the adapter's state, the next sequence number and the world.\<close>

definition sink_iteration ::
  "'s audio_output \<Rightarrow> ('x world \<Rightarrow> 'x world) \<Rightarrow> 's \<times> u64 \<times> 'x world
     \<Rightarrow> ('s \<times> u64 \<times> 'x world, 's \<times> 'x world) flow" where
  "sink_iteration sink others = (\<lambda>(s, sequence, w).
    (case pop_frame others w of
       (w, Frame samples) \<Rightarrow>
         (case ao_write_frame sink (pcm_frame_new sequence samples) s of
            (s, Inr _) \<Rightarrow>
              let sequence = sat_add sequence 1;
                  w = count_sink_accepted others w
              in if sequence mod 100 = 0 then
                   (case refresh_sink_diagnostics sink others s w of
                      (s, w, Inl e) \<Rightarrow> Break (s, record_failure others e (count_sink_failure others w))
                    | (s, w, Inr _) \<Rightarrow> Continue (s, sequence, w))
                 else Continue (s, sequence, w)
          | (s, Inl e) \<Rightarrow>
              Break (s, record_failure others (engine_error_from_output e) (count_sink_failure others w)))
     | (w, Timeout) \<Rightarrow> Continue (s, sequence, w)
     | (w, Finished) \<Rightarrow> Break (s, w)))"

definition sink_loop ::
  "'s audio_output \<Rightarrow> ('x world \<Rightarrow> 'x world) \<Rightarrow> nat \<Rightarrow> 's \<Rightarrow> u64 \<Rightarrow> 'x world \<Rightarrow> ('s \<times> 'x world) option" where
  "sink_loop sink others fuel s sequence w = run_loop (sink_iteration sink others) fuel (s, sequence, w)"

definition sink_teardown ::
  "'s audio_output \<Rightarrow> ('x world \<Rightarrow> 'x world) \<Rightarrow> 's \<Rightarrow> 'x world \<Rightarrow> 's \<times> 'x world" where
  "sink_teardown sink others s w =
    (let (s, closed) = ao_close_session sink s;
         w = (case closed of
                Inl e \<Rightarrow> record_failure others (engine_error_from_output e) (count_sink_failure others w)
              | Inr _ \<Rightarrow> w);
         (s, w, refreshed) = refresh_sink_diagnostics sink others s w
     in case refreshed of
          Inl e \<Rightarrow>
            let w = others w in
            if w_terminal_failure w then (s, w)
            else (s, record_failure others e (count_sink_failure others w))
        | Inr _ \<Rightarrow> (s, w))"

text \<open>The adapter's state is \<open>None\<close> when it could not be connected.\<close>

definition sink_worker ::
  "'s audio_output_factory \<Rightarrow> 's audio_output \<Rightarrow> ('x world \<Rightarrow> 'x world) \<Rightarrow> output_pair \<Rightarrow> session_id
     \<Rightarrow> nat \<Rightarrow> 'x world \<Rightarrow> ('s option \<times> 'x world) option" where
  "sink_worker factory sink others pair session_id fuel w =
    (case aof_connect factory pair of
       Inl e \<Rightarrow> Some (None, fst (ready_send others SinkWorker (Inl (engine_error_from_output e)) w))
     | Inr s \<Rightarrow>
       (case sink_startup sink others session_id s w of
          (s, w, False) \<Rightarrow> Some (Some s, w)
        | (s, w, True) \<Rightarrow>
          (case sink_loop sink others fuel s 0 w of
             None \<Rightarrow> None
           | Some (s, w) \<Rightarrow>
               let (s, w) = sink_teardown sink others s w in Some (Some s, w))))"

section \<open>Observing the adapter\<close>

datatype sink_call = CallOpen session_config | CallWrite pcm_frame | CallDiagnostics | CallClose

definition logged :: "'s audio_output \<Rightarrow> ('s \<times> sink_call list) audio_output" where
  "logged sink = \<lparr>
     ao_open_session = (\<lambda>c (s, l). let (s, r) = ao_open_session sink c s in ((s, l @ [CallOpen c]), r)),
     ao_write_frame = (\<lambda>f (s, l). let (s, r) = ao_write_frame sink f s in ((s, l @ [CallWrite f]), r)),
     ao_diagnostics = (\<lambda>(s, l). let (s, r) = ao_diagnostics sink s in ((s, l @ [CallDiagnostics]), r)),
     ao_close_session = (\<lambda>(s, l). let (s, r) = ao_close_session sink s in ((s, l @ [CallClose]), r))\<rparr>"

text \<open>The calls that move the session, without the diagnostics.\<close>

definition session_calls :: "sink_call list \<Rightarrow> sink_call list" where
  "session_calls = filter (\<lambda>c. c \<noteq> CallDiagnostics)"

lemma session_calls_simps [simp]:
  "session_calls [] = []"
  "session_calls (c # l) = (if c = CallDiagnostics then session_calls l else c # session_calls l)"
  "session_calls (l @ l') = session_calls l @ session_calls l'"
  by (simp_all add: session_calls_def)

text \<open>\<open>numbered k fs\<close>: the frames written under the numbers from \<open>k\<close> (saturating as the code does).\<close>

fun numbered :: "u64 \<Rightarrow> pcm_samples list \<Rightarrow> sink_call list" where
  "numbered k [] = []"
| "numbered k (f # fs) = CallWrite (pcm_frame_new k f) # numbered (sat_add k 1) fs"

lemma numbered_nth:
  "i < length fs \<Longrightarrow> unat k + i < 2 ^ 64 \<Longrightarrow>
     numbered k fs ! i = CallWrite (pcm_frame_new (k + of_nat i) (fs ! i))"
proof (induction fs arbitrary: k i)
  case (Cons f fs)
  show ?case
  proof (cases i)
    case (Suc j)
    with Cons.prems have "sat_add k 1 = k + 1" "unat (k + 1) = unat k + 1"
      by (simp_all add: sat_add_def unat_word_ariths)
    with Suc Cons show ?thesis by (simp add: add.assoc)
  qed simp
qed simp

lemma length_numbered [simp]: "length (numbered k fs) = length fs"
  by (induction fs arbitrary: k) simp_all

text \<open>The number after \<open>n\<close> writes, and what one iteration calls.\<close>

fun next_number :: "nat \<Rightarrow> u64 \<Rightarrow> u64" where
  "next_number 0 k = k"
| "next_number (Suc n) k = next_number n (sat_add k 1)"

lemma next_number_Suc: "next_number (Suc n) k = sat_add (next_number n k) 1"
  by (induction n arbitrary: k) simp_all

lemma numbered_snoc:
  "numbered k (fs @ [f]) = numbered k fs @ [CallWrite (pcm_frame_new (next_number (length fs) k) f)]"
  by (induction fs arbitrary: k) simp_all

lemma logged_sel:
  "ao_open_session (logged sink) c (s, l) =
     ((fst (ao_open_session sink c s), l @ [CallOpen c]), snd (ao_open_session sink c s))"
  "ao_write_frame (logged sink) f (s, l) =
     ((fst (ao_write_frame sink f s), l @ [CallWrite f]), snd (ao_write_frame sink f s))"
  "ao_diagnostics (logged sink) (s, l) =
     ((fst (ao_diagnostics sink s), l @ [CallDiagnostics]), snd (ao_diagnostics sink s))"
  "ao_close_session (logged sink) (s, l) =
     ((fst (ao_close_session sink s), l @ [CallClose]), snd (ao_close_session sink s))"
  by (simp_all add: logged_def split_beta)

lemma refresh_logged:
  "refresh_sink_diagnostics (logged sink) others (s, l) w =
     (let (s', w', r) = refresh_sink_diagnostics sink others s w
      in ((s', l @ [CallDiagnostics]), w', r))"
  by (simp add: refresh_sink_diagnostics_def logged_sel split: prod.splits sum.splits)

definition wrote :: "sink_call list \<Rightarrow> u64 \<Rightarrow> sink_call list \<Rightarrow> u64 \<Rightarrow> bool" where
  "wrote l k l' k' \<longleftrightarrow> (\<exists>fs. session_calls l' = session_calls l @ numbered k fs
     \<and> k' = next_number (length fs) k)"

lemma wrote_none: "session_calls l' = session_calls l \<Longrightarrow> wrote l k l' k"
  unfolding wrote_def by (rule exI [of _ "[]"]) simp

lemma wrote_refl: "wrote l k l k"
  by (rule wrote_none) simp

lemma wrote_one:
  assumes "wrote l k l' k'"
    and "session_calls l'' = session_calls l' @ [CallWrite (pcm_frame_new k' f)]"
  shows "wrote l k l'' (sat_add k' 1)"
proof -
  from assms obtain fs where "session_calls l'' = session_calls l @ numbered k (fs @ [f])"
    "sat_add k' 1 = next_number (length (fs @ [f])) k"
    unfolding wrote_def numbered_snoc
    by (auto simp: next_number_Suc simp del: next_number.simps)
  then show ?thesis unfolding wrote_def by blast
qed

lemma sink_iteration_continue:
  assumes "sink_iteration (logged sink) others ((s, l), k, w) = Continue ((s', l'), k', w')"
    and "wrote l0 k0 l k"
  shows "wrote l0 k0 l' k'"
proof -
  from assms(1) have "(session_calls l' = session_calls l \<and> k' = k)
      \<or> (\<exists>f. session_calls l' = session_calls l @ [CallWrite (pcm_frame_new k f)] \<and> k' = sat_add k 1)"
    by (auto simp: sink_iteration_def logged_sel refresh_logged Let_def
        split: prod.splits sum.splits if_splits pop_result.splits)
  with assms(2) show ?thesis by (auto intro: wrote_one) (simp add: wrote_def)
qed

lemma sink_iteration_break:
  assumes "sink_iteration (logged sink) others ((s, l), k, w) = Break ((s', l'), w')"
    and "wrote l0 k0 l k"
  shows "\<exists>k'. wrote l0 k0 l' k'"
proof -
  from assms(1) have "session_calls l' = session_calls l
      \<or> (\<exists>f. session_calls l' = session_calls l @ [CallWrite (pcm_frame_new k f)])"
    by (auto simp: sink_iteration_def logged_sel refresh_logged Let_def
        split: prod.splits sum.splits if_splits pop_result.splits)
  with assms(2) show ?thesis by (auto intro: wrote_one) (auto simp: wrote_def)
qed

lemma sink_loop_calls:
  assumes "sink_loop (logged sink) others fuel (s, l) k w = Some ((s', l'), w')"
  shows "\<exists>fs. session_calls l' = session_calls l @ numbered k fs"
proof -
  have "\<exists>k'. wrote l k (snd (fst ((s', l'), w'))) k'"
    by (rule run_loop_invariant [OF assms [unfolded sink_loop_def],
          where I = "\<lambda>((s', l'), k', w'). wrote l k l' k'"])
      (auto simp: wrote_refl dest: sink_iteration_continue sink_iteration_break)
  then show ?thesis by (auto simp: wrote_def)
qed

section \<open>The loop ends\<close>

text \<open>
  Once the queue takes no more frames, the other threads can only take some out or drop them all;
  each iteration then removes a frame or ends the loop.
\<close>

definition queue_closed :: "'x world \<Rightarrow> bool" where
  "queue_closed w \<longleftrightarrow> qs_producer_done (w_queue w) \<or> qs_failed (w_queue w)"

definition queue_shrinks :: "('x world \<Rightarrow> 'x world) \<Rightarrow> bool" where
  "queue_shrinks others \<longleftrightarrow> (\<forall>w. queue_closed w \<longrightarrow> queue_closed (others w)
     \<and> length (qs_frames (w_queue (others w))) \<le> length (qs_frames (w_queue w)))"

lemma queue_shrinksD:
  assumes "queue_shrinks others" "queue_closed w"
  shows "queue_closed (others w)"
    "length (qs_frames (w_queue (others w))) \<le> length (qs_frames (w_queue w))"
  using assms by (auto simp: queue_shrinks_def)

lemma queue_closed_snapshot [simp]: "queue_closed (on_snapshot f w) = queue_closed w"
  by (simp add: queue_closed_def)

lemma pop_frame_closed:
  assumes "queue_shrinks others" "queue_closed w" "pop_frame others w = (w', r)"
  shows "queue_closed w' \<and> r \<noteq> Timeout
    \<and> (case r of Frame f \<Rightarrow> length (qs_frames (w_queue w')) < length (qs_frames (w_queue w)) | _ \<Rightarrow> True)"
  using queue_shrinksD [OF assms(1,2)] assms(3)
  by (auto simp: pop_frame_def Let_def frame_queue_take_def queue_closed_def
      split: if_splits list.splits)

lemma refresh_closed:
  assumes "refresh_sink_diagnostics sink others s w = (s', w', r)" "queue_shrinks others"
    and "queue_closed w" "length (qs_frames (w_queue w)) < n"
  shows "queue_closed w' \<and> length (qs_frames (w_queue w')) < n"
  using queue_shrinksD [OF assms(2,3)] assms
  by (auto simp: refresh_sink_diagnostics_def split: prod.splits sum.splits)

lemma sink_iteration_closed:
  assumes "queue_shrinks others" "queue_closed w"
    and "sink_iteration sink others (s, k, w) = Continue (s', k', w')"
  shows "queue_closed w' \<and> length (qs_frames (w_queue w')) < length (qs_frames (w_queue w))"
proof (cases "pop_frame others w")
  case (Pair w1 r)
  note popped = pop_frame_closed [OF assms(1,2) Pair]
  show ?thesis
  proof (cases r)
    case (Frame f)
    have w1: "queue_closed w1" "length (qs_frames (w_queue w1)) < length (qs_frames (w_queue w))"
      using popped Frame by auto
    let ?w = "count_sink_accepted others w1"
    have w: "queue_closed ?w" "length (qs_frames (w_queue ?w)) < length (qs_frames (w_queue w))"
      using queue_shrinksD [OF assms(1) w1(1)] w1(2) by (auto simp: count_sink_accepted_def)
    show ?thesis
      using assms(3) Pair Frame w
      by (auto simp: sink_iteration_def Let_def split: prod.splits sum.splits if_splits
          dest: refresh_closed [OF _ assms(1) w])
  qed (use assms(3) Pair popped in \<open>auto simp: sink_iteration_def\<close>)
qed

text \<open>The sink thread always stops: once the frame queue is finished or failed, the sink loop ends
  within one iteration per queued frame and one more, whatever the output adapter answers and
  whatever the other threads do that does not add frames.\<close>

theorem sink_loop_ends:
  assumes "queue_shrinks others" "queue_closed w"
  shows "\<exists>s' w'. sink_loop sink others (Suc (length (qs_frames (w_queue w)))) s k w = Some (s', w')"
proof -
  have "\<exists>b. run_loop (sink_iteration sink others)
      (Suc ((\<lambda>(s, k, w). length (qs_frames (w_queue w))) (s, k, w))) (s, k, w) = Some b"
    by (rule run_loop_terminates [where I = "\<lambda>(s, k, w). queue_closed w"])
      (use assms in \<open>auto dest: sink_iteration_closed\<close>)
  then show ?thesis by (simp add: sink_loop_def)
qed

text \<open>C4
  One session, numbered frames: in any interleaving, the sink thread opens exactly one session on the
  adapter, writes frames under the consecutive sequence numbers 0, 1, 2, ... and closes the session
  once, last; it writes and closes nothing when the session could not be opened.\<close>

theorem sink_worker_protocol:
  assumes "aof_connect factory pair = Inr (s0, [])"
    and "sink_worker factory (logged sink) others pair session_id fuel w = Some (Some (s, calls), w')"
  shows "\<exists>frames. session_calls calls =
      (if is_err (snd (ao_open_session sink (session_config_new session_id) s0))
       then [CallOpen (session_config_new session_id)]
       else CallOpen (session_config_new session_id) # numbered 0 frames @ [CallClose])"
proof -
  let ?open = "CallOpen (session_config_new session_id)"
  have close: ?thesis if "session_calls calls = ?open # numbered 0 fs @ [CallClose]"
    "\<not> is_err (snd (ao_open_session sink (session_config_new session_id) s0))" for fs
    using that by auto
  show ?thesis
  proof (cases "snd (ao_open_session sink (session_config_new session_id) s0)")
    case (Inl e)
    with assms show ?thesis by (auto simp: sink_worker_def sink_startup_def logged_sel)
  next
    case (Inr u)
    obtain s1 calls1 w1 ok where start: "sink_startup (logged sink) others session_id (s0, []) w
        = ((s1, calls1), w1, ok)"
      by (metis prod.collapse)
    with Inr have "session_calls calls1 = (if ok then [?open] else [?open, CallClose])"
      by (auto simp: sink_startup_def logged_sel Let_def split: sum.splits prod.splits if_splits)
    moreover have "session_calls calls = session_calls calls1 @ numbered 0 fs @ [CallClose]"
      if "sink_loop (logged sink) others fuel (s1, calls1) 0 w1 = Some ((s2, calls2), w2)"
        "sink_teardown (logged sink) others (s2, calls2) w2 = ((s, calls), w')"
        "session_calls calls2 = session_calls calls1 @ numbered 0 fs" for s2 calls2 w2 fs
      using that(2,3)
      by (auto simp: sink_teardown_def logged_sel refresh_logged Let_def split: sum.splits prod.splits if_splits)
    ultimately show ?thesis
      using assms(2) sink_loop_calls [of sink others fuel s1 calls1 0 w1] Inr close
        close [of "[]"]
      by (cases ok) (fastforce simp: sink_worker_def assms(1) start split: option.splits prod.splits)+
  qed
qed

section \<open>Every queued frame is written\<close>

definition keeps_queue :: "('x world \<Rightarrow> 'x world) \<Rightarrow> bool" where
  "keeps_queue others \<longleftrightarrow> (\<forall>w. w_queue (others w) = w_queue w)"

definition accepts :: "'s audio_output \<Rightarrow> bool" where
  "accepts sink \<longleftrightarrow> (\<forall>f s. \<not> is_err (snd (ao_write_frame sink f s)))
     \<and> (\<forall>s. \<not> is_err (snd (ao_diagnostics sink s)))"

lemma pop_frame_kept:
  assumes "keeps_queue others" "\<not> qs_failed (w_queue w)" "qs_producer_done (w_queue w)"
  shows "pop_frame others w =
    (let w = others w; (q, r) = frame_queue_take (w_queue w) in (w\<lparr>w_queue := q\<rparr>, r))"
  using assms by (simp add: pop_frame_def keeps_queue_def Let_def)

lemma keeps_queueD [simp]: "keeps_queue others \<Longrightarrow> w_queue (others w) = w_queue w"
  by (simp add: keeps_queue_def)

lemma refresh_accepting:
  assumes "accepts sink" "keeps_queue others"
  shows "\<exists>s' w'. refresh_sink_diagnostics (logged sink) others (s, l) w
      = ((s', l @ [CallDiagnostics]), w', Inr ()) \<and> w_queue w' = w_queue w"
proof -
  have "\<not> is_err (snd (ao_diagnostics sink s))" using assms(1) by (simp add: accepts_def)
  then show ?thesis using assms(2)
    by (auto simp: refresh_sink_diagnostics_def logged_sel is_err_def split: prod.splits sum.splits)
qed

lemma write_accepting:
  assumes "accepts sink"
  shows "\<exists>s' r. ao_write_frame (logged sink) f (s, l) = ((s', l @ [CallWrite f]), Inr r)"
proof -
  have "\<not> is_err (snd (ao_write_frame sink f s))" using assms by (simp add: accepts_def)
  then show ?thesis by (auto simp: logged_sel is_err_def split: prod.splits sum.splits)
qed

lemma sink_iteration_frame:
  assumes "accepts sink" "keeps_queue others"
    and "\<not> qs_failed (w_queue w)" "qs_producer_done (w_queue w)" "qs_frames (w_queue w) = f # fs"
  shows "\<exists>s' l' w'. sink_iteration (logged sink) others ((s, l), k, w) = Continue ((s', l'), sat_add k 1, w')
    \<and> session_calls l' = session_calls l @ [CallWrite (pcm_frame_new k f)]
    \<and> qs_frames (w_queue w') = fs \<and> \<not> qs_failed (w_queue w') \<and> qs_producer_done (w_queue w')"
proof -
  obtain s1 r where wr: "ao_write_frame (logged sink) (pcm_frame_new k f) (s, l)
      = ((s1, l @ [CallWrite (pcm_frame_new k f)]), Inr r)"
    using write_accepting [OF assms(1)] by blast
  obtain w1 where pop: "pop_frame others w = (w1, Frame f)" "qs_frames (w_queue w1) = fs"
    "\<not> qs_failed (w_queue w1)" "qs_producer_done (w_queue w1)"
    using assms by (simp add: pop_frame_kept frame_queue_take_def Let_def)
  let ?w = "count_sink_accepted others w1"
  have w: "w_queue ?w = w_queue w1" using assms(2) by (simp add: count_sink_accepted_def)
  obtain s2 w2 where "refresh_sink_diagnostics (logged sink) others
      (s1, l @ [CallWrite (pcm_frame_new k f)]) ?w
      = ((s2, (l @ [CallWrite (pcm_frame_new k f)]) @ [CallDiagnostics]), w2, Inr ())"
    "w_queue w2 = w_queue ?w"
    using refresh_accepting [OF assms(1,2)] by blast
  then show ?thesis
    by (simp add: sink_iteration_def pop wr Let_def w)
qed


section \<open>An adapter that accepts everything\<close>

definition accept_all :: "unit audio_output" where
  "accept_all = \<lparr>
     ao_open_session = (\<lambda>c s. (s, Inr ())),
     ao_write_frame = (\<lambda>f s. (s, Inr (Accepted (pcm_sequence f)))),
     ao_diagnostics = (\<lambda>s. (s, Inr default_diagnostics)),
     ao_close_session = (\<lambda>s. (s, Inr ()))\<rparr>"

definition accept_factory :: "(unit \<times> sink_call list) audio_output_factory" where
  "accept_factory = \<lparr>
     aof_resolve_pair = (\<lambda>a b. Inl (output_error_new OK_PrerequisiteMissing (Text ''no devices''))),
     aof_connect = (\<lambda>p. Inr ((), []))\<rparr>"

definition two_queued :: "unit world" where
  "two_queued = (initial_world ())
     \<lparr>w_queue := frame_queue_finish_producer (fst (frame_queue_run [QPush [1], QPush [2]] frame_queue_new)),
      w_ready := (\<lambda>_. \<lparr>rc_message = None, rc_receiver_alive = True\<rparr>)\<rparr>"

lemmas witness_simps = accept_all_def accept_factory_def logged_def two_queued_def
  initial_world_def sink_worker_def sink_startup_def sink_loop_def sink_iteration_def
  sink_teardown_def ready_send_def pop_frame_def count_sink_accepted_def on_snapshot_def
  refresh_sink_diagnostics_def frame_queue_run_def queue_run_Cons frame_queue_defs

lemma sat_add_small: "sat_add 0 1 = (1 :: u64)" "sat_add 1 1 = (2 :: u64)"
  by (simp_all add: sat_add_def)

definition cable_endpoint :: "endpoint_role \<Rightarrow> output_endpoint" where
  "cable_endpoint role = \<lparr>oe_endpoint_id = lit ''cable'', oe_friendly_name = lit ''CABLE'',
     oe_role = role, oe_active = True, oe_device_family = lit ''VB-Audio''\<rparr>"

definition cable_pair :: output_pair where
  "cable_pair = \<lparr>playback = cable_endpoint Playback, recording = cable_endpoint Recording\<rparr>"

lemma two_queued_run:
  "\<exists>w'. sink_worker accept_factory (logged accept_all) id cable_pair (SessionId 7) 3 two_queued =
     Some (Some ((), [CallOpen (session_config_new (SessionId 7)), CallDiagnostics,
       CallWrite (pcm_frame_new 0 [1]), CallWrite (pcm_frame_new 1 [2]), CallClose, CallDiagnostics]), w')"
  by (simp add: witness_simps Let_def numeral_3_eq_3 sat_add_small)

lemma sink_worker_protocol_witness:
  "\<exists>w' calls frames. sink_worker accept_factory (logged accept_all) id cable_pair (SessionId 7) 3 two_queued =
     Some (Some ((), calls), w')
   \<and> session_calls calls = CallOpen (session_config_new (SessionId 7)) # numbered 0 frames @ [CallClose]"
proof -
  obtain w' calls where run:
    "sink_worker accept_factory (logged accept_all) id cable_pair (SessionId 7) 3 two_queued = Some (Some ((), calls), w')"
    using two_queued_run by blast
  have "aof_connect accept_factory cable_pair = Inr ((), [])" by (simp add: accept_factory_def)
  from sink_worker_protocol [OF this run] run show ?thesis by (auto simp: accept_all_def)
qed

lemma sink_loop_ends_witness:
  "\<exists>s' w'. sink_loop accept_all id 3 () 0 two_queued = Some (s', w')"
proof -
  have "queue_shrinks (id :: unit world \<Rightarrow> unit world)" "queue_closed two_queued"
    "length (qs_frames (w_queue two_queued)) = 2"
    by (simp_all add: queue_shrinks_def queue_closed_def witness_simps Let_def)
  with sink_loop_ends [OF this(1,2), of accept_all "()" 0] show ?thesis
    by (simp add: numeral_3_eq_3)
qed


end
