(* ===== verification/Aec_Worker.thy ===== *)
theory Aec_Worker
  imports Pairing Sink_Worker
begin

text \<open>
  \<^verbatim>\<open>aec_processing_worker\<close> of \<^verbatim>\<open>crates/mini-aec-engine/src/runtime.rs\<close>: the thread of an AEC run
  that pairs microphone and render frames, runs the canceller and writes the result to the output.  The
  body of its loop is cut into the stages below, in the order of the code; a stage either hands on the
  local state and the world or leaves the loop.
\<close>

section \<open>Local state\<close>

record ('s, 'a, 'f) aec_local =
  al_sink :: 's
  al_echo :: "('a, 'f) echo_slot"
  al_microphone :: "timed_frame option"
  al_render :: "timed_frame option"
  al_render_wait_exhausted :: bool
  al_sequence :: u64
  al_consecutive_skew_misses :: u32
  al_consecutive_aec_failures :: u32
  al_healthy_frames :: u32
  al_histogram :: processing_histogram

type_synonym ('x, 's, 'a, 'f) aec_state = "('s, 'a, 'f) aec_local \<times> 'x world"

definition flow_bind :: "('c, 'b) flow \<Rightarrow> ('c \<Rightarrow> ('d, 'b) flow) \<Rightarrow> ('d, 'b) flow" where
  "flow_bind m f = (case m of Continue c \<Rightarrow> f c | Break b \<Rightarrow> Break b)"

lemma flow_bind_simps [simp]:
  "flow_bind (Continue c) f = f c" "flow_bind (Break b) f = Break b"
  by (simp_all add: flow_bind_def)

lemma flow_bind_Continue: "flow_bind m f = Continue d \<longleftrightarrow> (\<exists>c. m = Continue c \<and> f c = Continue d)"
  by (cases m) simp_all

lemma flow_bind_Break:
  "flow_bind m f = Break b \<longleftrightarrow> m = Break b \<or> (\<exists>c. m = Continue c \<and> f c = Break b)"
  by (cases m) simp_all

text \<open>Leaving the loop after recording a failure.\<close>

definition aec_fail ::
  "('x, 'a, 'f) runtime \<Rightarrow> engine_error \<Rightarrow> ('x, 's, 'a, 'f) aec_state \<Rightarrow> ('c, ('x, 's, 'a, 'f) aec_state) flow" where
  "aec_fail rt e = (\<lambda>(l, w). Break (l, record_aec_failure (rt_others rt) True e w))"

section \<open>Before the loop\<close>

text \<open>
  \<open>Inl\<close> is an early return: the adapter and the factory as they are left, and the world; \<open>Inr\<close>
  starts the loop.
\<close>

definition aec_give_up ::
  "('x, 'a, 'f) runtime \<Rightarrow> 's audio_output \<Rightarrow> engine_error \<Rightarrow> 's \<Rightarrow> 'x world \<Rightarrow> 's \<times> 'x world" where
  "aec_give_up rt sink e s w =
    (let (s, _) = ao_close_session sink s;
         (w, _) = ready_send (rt_others rt) ProcessingWorker (Inl e) w
     in (s, w))"

text \<open>The first frames: \<open>Inl\<close> is the error that ends the startup.\<close>

definition aec_first_frames ::
  "('x, 'a, 'f) runtime \<Rightarrow> 'x world \<Rightarrow> 'x world \<times> (engine_error + timed_frame \<times> timed_frame option)" where
  "aec_first_frames rt w =
    (case pop_microphone (rt_others rt) w of
       (w, Frame microphone) \<Rightarrow>
         (case pop_render (rt_others rt) w of
            (w, Frame render) \<Rightarrow> (w, Inr (microphone, Some render))
          | (w, Finished) \<Rightarrow>
              let w = rt_others rt w in
              if w_terminal_failure w then
                let w = rt_others rt w in
                (w, Inl (case es_last_error (w_snapshot w) of
                     Some e \<Rightarrow> e
                   | None \<Rightarrow> engine_error_new EK_RenderFailure
                       (Text ''render loopback failed before the AEC timeline started'')))
              else (w, Inr (microphone, None))
          | (w, Timeout) \<Rightarrow> (w, Inr (microphone, None)))
     | (w, _) \<Rightarrow> (w, Inl (engine_error_new EK_SynchronizationFailure
         (Text ''microphone did not establish the AEC timeline''))))"

definition timeline_origin :: "timed_frame \<Rightarrow> timed_frame option \<Rightarrow> u64" where
  "timeline_origin microphone render =
    (case render of
       None \<Rightarrow> tf_qpc_timestamp_100ns microphone
     | Some r \<Rightarrow> max (tf_qpc_timestamp_100ns microphone) (tf_qpc_timestamp_100ns r))"

definition aec_local_start ::
  "'s \<Rightarrow> ('a, 'f) echo_slot \<Rightarrow> timed_frame \<Rightarrow> timed_frame option \<Rightarrow> ('s, 'a, 'f) aec_local" where
  "aec_local_start s slot microphone render = \<lparr>al_sink = s, al_echo = slot,
     al_microphone = Some microphone, al_render = render, al_render_wait_exhausted = (render = None),
     al_sequence = 0, al_consecutive_skew_misses = 0, al_consecutive_aec_failures = 0,
     al_healthy_frames = 0, al_histogram = default_histogram\<rparr>"

definition aec_startup ::
  "('x, 'a, 'f) runtime \<Rightarrow> 's audio_output \<Rightarrow> session_id \<Rightarrow> 's \<Rightarrow> 'f \<Rightarrow> 'x world
     \<Rightarrow> ('s \<times> 'x world) + ('x, 's, 'a, 'f) aec_state" where
  "aec_startup rt sink session_id s f w =
    (case ao_open_session sink (session_config_new session_id) s of
       (s, Inl e) \<Rightarrow>
         Inl (s, fst (ready_send (rt_others rt) ProcessingWorker (Inl (engine_error_from_output e)) w))
     | (s, Inr _) \<Rightarrow>
       (case refresh_sink_diagnostics sink (rt_others rt) s w of
          (s, w, Inl e) \<Rightarrow> Inl (aec_give_up rt sink e s w)
        | (s, w, Inr _) \<Rightarrow>
          (case ecf_create (rt_echo_factory rt) f of
             (f, Inl e) \<Rightarrow>
               Inl (aec_give_up rt sink (engine_error_new EK_EchoCancellerFailure (ece_message e)) s w)
           | (f, Inr echo) \<Rightarrow>
             (case aec_first_frames rt w of
                (w, Inl e) \<Rightarrow> Inl (aec_give_up rt sink e s w)
              | (w, Inr (microphone, render)) \<Rightarrow>
                let w = on_snapshot (\<lambda>sn. sn\<lparr>es_synchronization_origin_qpc_100ns :=
                          Some (timeline_origin microphone render)\<rparr>) (rt_others rt w);
                    (w, sent) = ready_send (rt_others rt) ProcessingWorker (Inr ()) w
                in if sent then Inr (aec_local_start s (echo, f) microphone render, w)
                   else Inl (fst (ao_close_session sink s), w)))))"

section \<open>The stages of the loop\<close>

datatype taken = TakeFrame timed_frame | TakeRetry | TakeStop

definition take_microphone ::
  "('x, 'a, 'f) runtime \<Rightarrow> ('x, 's, 'a, 'f) aec_state \<Rightarrow> ('x, 's, 'a, 'f) aec_state \<times> taken" where
  "take_microphone rt = (\<lambda>(l, w).
    (case al_microphone l of
       Some frame \<Rightarrow> ((l\<lparr>al_microphone := None\<rparr>, w), TakeFrame frame)
     | None \<Rightarrow>
       (case pop_microphone (rt_others rt) w of
          (w, Frame frame) \<Rightarrow> ((l, w), TakeFrame frame)
        | (w, Timeout) \<Rightarrow> ((l, w), TakeRetry)
        | (w, Finished) \<Rightarrow> ((l, w), TakeStop))))"

definition reset_stage ::
  "('x, 'a, 'f) runtime \<Rightarrow> timed_frame \<Rightarrow> ('x, 's, 'a, 'f) aec_state
     \<Rightarrow> (('x, 's, 'a, 'f) aec_state, ('x, 's, 'a, 'f) aec_state) flow" where
  "reset_stage rt microphone = (\<lambda>(l, w).
    if tf_reset_epoch microphone then
      (case rebuild_echo rt AecReset True (al_echo l) w of
         (slot, w, Inl e) \<Rightarrow> aec_fail rt e (l\<lparr>al_echo := slot\<rparr>, w)
       | (slot, w, Inr _) \<Rightarrow> Continue (l\<lparr>al_echo := slot\<rparr>, w))
    else Continue (l, w))"

text \<open>\<open>None\<close>: the fuel for stale render frames ran out.\<close>

definition select_stage ::
  "('x, 'a, 'f) runtime \<Rightarrow> nat \<Rightarrow> timed_frame \<Rightarrow> ('x, 's, 'a, 'f) aec_state
     \<Rightarrow> (selection \<times> ('x, 's, 'a, 'f) aec_state, ('x, 's, 'a, 'f) aec_state) flow option" where
  "select_stage rt fuel microphone = (\<lambda>(l, w).
    (case select_render_frame rt fuel microphone
            (al_render l, al_render_wait_exhausted l, al_echo l, w) of
       None \<Rightarrow> None
     | Some ((render, exhausted, slot, w), result) \<Rightarrow>
         let l = l\<lparr>al_render := render, al_render_wait_exhausted := exhausted, al_echo := slot\<rparr>
         in Some (case result of
              Inl e \<Rightarrow> aec_fail rt e (l, w)
            | Inr selection \<Rightarrow> Continue (selection, l, w))))"

definition note_pairing :: "timed_frame \<Rightarrow> bool \<Rightarrow> i64 option \<Rightarrow> engine_snapshot \<Rightarrow> engine_snapshot" where
  "note_pairing microphone paired delta s =
    (let s = s\<lparr>es_last_device_position := Some (tf_device_position microphone),
               es_current_delta_100ns := delta\<rparr>;
         s = (case delta of
                Some d \<Rightarrow> s\<lparr>es_maximum_absolute_skew_100ns :=
                  max (es_maximum_absolute_skew_100ns s) (unsigned_abs d)\<rparr>
              | None \<Rightarrow> s)
     in if paired then s\<lparr>es_paired_frames := es_paired_frames s + 1\<rparr>
        else s\<lparr>es_silent_render_references := es_silent_render_references s + 1\<rparr>)"

definition health_stage ::
  "('x, 'a, 'f) runtime \<Rightarrow> timed_frame \<Rightarrow> bool \<Rightarrow> i64 option \<Rightarrow> ('x, 's, 'a, 'f) aec_state
     \<Rightarrow> (('x, 's, 'a, 'f) aec_state, ('x, 's, 'a, 'f) aec_state) flow" where
  "health_stage rt microphone paired delta = (\<lambda>(l, w).
    let w = on_snapshot (note_pairing microphone paired delta) (rt_others rt w);
        (l, w) =
          (if paired then
             let l = l\<lparr>al_consecutive_skew_misses := 0,
                       al_healthy_frames := sat_add (al_healthy_frames l) 1\<rparr>
             in (l, if HEALTHY_RECOVERY_FRAMES \<le> al_healthy_frames l then
                      on_snapshot (\<lambda>s. s\<lparr>es_state := RunningAec, es_degradation_reason := None\<rparr>)
                        (rt_others rt w)
                    else w)
           else
             (l\<lparr>al_consecutive_skew_misses :=
                 (if delta \<noteq> None then sat_add (al_consecutive_skew_misses l) 1 else 0),
                al_healthy_frames := 0\<rparr>,
              on_snapshot (\<lambda>s. s\<lparr>es_state := Degraded,
                es_degradation_reason := Some RenderReferenceMissing\<rparr>) (rt_others rt w)))
    in if MAX_CONSECUTIVE_RENDER_MISSES \<le> al_consecutive_skew_misses l then
         aec_fail rt (engine_error_new EK_SynchronizationFailure (Text
           ''render and microphone timestamps remained unpairable beyond the bounded M3 skew window''))
           (l, w)
       else Continue (l, w))"

text \<open>The output of a failed call, and of one with a sample that is not finite, is replaced by silence.\<close>

definition process_stage ::
  "('x, 'a, 'f) runtime \<Rightarrow> fp list \<Rightarrow> timed_frame \<Rightarrow> ('x, 's, 'a, 'f) aec_state
     \<Rightarrow> (fp list \<times> ('x, 's, 'a, 'f) aec_state, ('x, 's, 'a, 'f) aec_state) flow" where
  "process_stage rt render microphone = (\<lambda>(l, w).
    let (echo, out, result) =
          ec_process (rt_echo rt) render (tf_samples microphone) silence (fst (al_echo l));
        l = l\<lparr>al_echo := (echo, snd (al_echo l))\<rparr>;
        invalid_output = (\<exists>sample \<in> set out. \<not> is_finite sample)
    in if is_err result \<or> invalid_output then
         let l = l\<lparr>al_consecutive_aec_failures := sat_add (al_consecutive_aec_failures l) 1,
                   al_healthy_frames := 0\<rparr>;
             out = replicate (length out) (Fin 0);
             w = on_snapshot (\<lambda>s. s\<lparr>es_aec_invalid_outputs :=
                       es_aec_invalid_outputs s + of_bool invalid_output,
                     es_state := Degraded, es_degradation_reason := Some AecReset\<rparr>) (rt_others rt w)
         in if MAX_CONSECUTIVE_AEC_FAILURES \<le> al_consecutive_aec_failures l then
              aec_fail rt (engine_error_new EK_EchoCancellerFailure (Text
                ''echo canceller repeatedly failed after bounded reconstruction attempts'')) (l, w)
            else
              (case rebuild_echo rt AecReset False (al_echo l) w of
                 (slot, w, Inl e) \<Rightarrow> aec_fail rt e (l\<lparr>al_echo := slot\<rparr>, w)
               | (slot, w, Inr _) \<Rightarrow> Continue (out, l\<lparr>al_echo := slot\<rparr>, w))
       else
         Continue (out, l\<lparr>al_consecutive_aec_failures := 0\<rparr>,
           on_snapshot (\<lambda>s. s\<lparr>es_aec_processed_frames := es_aec_processed_frames s + 1\<rparr>)
             (rt_others rt w)))"

definition timing_stage ::
  "('x, 'a, 'f) runtime \<Rightarrow> ('x, 's, 'a, 'f) aec_state \<Rightarrow> ('x, 's, 'a, 'f) aec_state" where
  "timing_stage rt = (\<lambda>(l, w).
    let elapsed = rt_elapsed rt w;
        l = l\<lparr>al_histogram := histogram_record (al_histogram l) elapsed\<rparr>
    in (l, on_snapshot (\<lambda>s.
         let s = s\<lparr>es_processing_time := histogram_snapshot (al_histogram l)\<rparr> in
         if PROCESSING_BUDGET_ns < elapsed then
           s\<lparr>es_processing_deadline_misses := es_processing_deadline_misses s + 1,
             es_state := Degraded, es_degradation_reason := Some ProcessingDeadline\<rparr>
         else s) (rt_others rt w)))"

definition output_stage ::
  "('x, 'a, 'f) runtime \<Rightarrow> 's audio_output \<Rightarrow> fp list \<Rightarrow> ('x, 's, 'a, 'f) aec_state
     \<Rightarrow> (('x, 's, 'a, 'f) aec_state, ('x, 's, 'a, 'f) aec_state) flow" where
  "output_stage rt sink out = (\<lambda>(l, w).
    let pcm = map (\<lambda>sample. fst (pcm16 sample)) out in
    (case ao_write_frame sink (pcm_frame_new (al_sequence l) pcm) (al_sink l) of
       (s, Inl e) \<Rightarrow>
         aec_fail rt (engine_error_from_output e)
           (l\<lparr>al_sink := s\<rparr>, count_sink_failure (rt_others rt) w)
     | (s, Inr _) \<Rightarrow>
         let l = l\<lparr>al_sink := s, al_sequence := sat_add (al_sequence l) 1\<rparr>;
             w = count_sink_accepted (rt_others rt) w
         in if al_sequence l mod 100 = 0 then
              (case refresh_sink_diagnostics sink (rt_others rt) (al_sink l) w of
                 (s, w, Inl e) \<Rightarrow> aec_fail rt e (l\<lparr>al_sink := s\<rparr>, w)
               | (s, w, Inr _) \<Rightarrow> Continue (l\<lparr>al_sink := s\<rparr>, w))
            else Continue (l, w)))"

section \<open>The loop and the worker\<close>

text \<open>The stages on one microphone frame.\<close>

definition aec_frame ::
  "('x, 'a, 'f) runtime \<Rightarrow> 's audio_output \<Rightarrow> nat \<Rightarrow> timed_frame \<Rightarrow> ('x, 's, 'a, 'f) aec_state
     \<Rightarrow> (('x, 's, 'a, 'f) aec_state, ('x, 's, 'a, 'f) aec_state) flow option" where
  "aec_frame rt sink fuel microphone st =
    (case reset_stage rt microphone st of
       Break b \<Rightarrow> Some (Break b)
     | Continue st \<Rightarrow>
       map_option (\<lambda>m. flow_bind m (\<lambda>((render, paired, delta), st).
           flow_bind (health_stage rt microphone paired delta st) (\<lambda>st.
           flow_bind (process_stage rt render microphone st) (\<lambda>(out, st).
           output_stage rt sink out (timing_stage rt st)))))
         (select_stage rt fuel microphone st))"

text \<open>\<open>Break None\<close> is the inner fuel running out.\<close>

definition aec_iteration ::
  "('x, 'a, 'f) runtime \<Rightarrow> 's audio_output \<Rightarrow> nat \<Rightarrow> ('x, 's, 'a, 'f) aec_state
     \<Rightarrow> (('x, 's, 'a, 'f) aec_state, ('x, 's, 'a, 'f) aec_state option) flow" where
  "aec_iteration rt sink fuel = (\<lambda>(l, w).
    let w = rt_others rt w in
    if w_stop_requested w then Break (Some (l, w))
    else case take_microphone rt (l, w) of
        (st, TakeRetry) \<Rightarrow> Continue st
      | (st, TakeStop) \<Rightarrow> Break (Some st)
      | (st, TakeFrame microphone) \<Rightarrow>
          (case aec_frame rt sink fuel microphone st of
             None \<Rightarrow> Break None
           | Some (Continue st) \<Rightarrow> Continue st
           | Some (Break st) \<Rightarrow> Break (Some st)))"

definition aec_teardown ::
  "('x, 'a, 'f) runtime \<Rightarrow> 's audio_output \<Rightarrow> 's \<Rightarrow> 'x world \<Rightarrow> 's \<times> 'x world" where
  "aec_teardown rt sink s w =
    (let (s, w, _) = refresh_sink_diagnostics sink (rt_others rt) s w;
         (s, closed) = ao_close_session sink s
     in case closed of
          Inr _ \<Rightarrow> (s, w)
        | Inl e \<Rightarrow>
          let w = rt_others rt w in
          (s, if w_terminal_failure w then w
              else record_aec_failure (rt_others rt) True (engine_error_from_output e) w))"

definition aec_processing_worker ::
  "('x, 'a, 'f) runtime \<Rightarrow> 's audio_output_factory \<Rightarrow> 's audio_output \<Rightarrow> output_pair \<Rightarrow> session_id
     \<Rightarrow> nat \<Rightarrow> nat \<Rightarrow> 'f \<Rightarrow> 'x world \<Rightarrow> ('s option \<times> 'x world) option" where
  "aec_processing_worker rt factory sink pair session_id fuel select_fuel f w =
    (case aof_connect factory pair of
       Inl e \<Rightarrow> Some (None,
         fst (ready_send (rt_others rt) ProcessingWorker (Inl (engine_error_from_output e)) w))
     | Inr s \<Rightarrow>
       (case aec_startup rt sink session_id s f w of
          Inl (s, w) \<Rightarrow> Some (Some s, w)
        | Inr st \<Rightarrow>
          (case run_loop (aec_iteration rt sink select_fuel) fuel st of
             Some (Some (l, w)) \<Rightarrow>
               let (s, w) = aec_teardown rt sink (al_sink l) w in Some (Some s, w)
           | _ \<Rightarrow> None)))"

end
