(* ===== verification/Aec_Properties.thy ===== *)
theory Aec_Properties
  imports Aec_Worker
begin

text \<open>
  Properties of the AEC processing thread modelled in \<open>Aec_Worker\<close>: the protocol it keeps with the
  output adapter, the bounds on its retries, what it writes when the canceller fails, how health is
  reported, and a race between it and a thread that records a failure.
\<close>

section \<open>The stages before the output leave the adapter alone\<close>

definition same_sink :: "('s, 'a, 'f) aec_local \<Rightarrow> ('s, 'a, 'f) aec_local \<Rightarrow> bool" where
  "same_sink l l' \<longleftrightarrow> al_sink l' = al_sink l \<and> al_sequence l' = al_sequence l"

lemma same_sink_refl [simp]: "same_sink l l"
  by (simp add: same_sink_def)

lemma same_sink_trans: "same_sink a b \<Longrightarrow> same_sink b c \<Longrightarrow> same_sink a c"
  by (simp add: same_sink_def)

lemma aec_fail_Break [simp]:
  "aec_fail rt e (l, w) = Break (l', w') \<longleftrightarrow> l' = l \<and> w' = record_aec_failure (rt_others rt) True e w"
  "aec_fail rt e st \<noteq> Continue c"
  by (auto simp: aec_fail_def split: prod.splits)

lemma reset_stage_sink:
  "reset_stage rt m (l, w) = Continue (l', w') \<Longrightarrow> same_sink l l'"
  "reset_stage rt m (l, w) = Break (l', w') \<Longrightarrow> same_sink l l'"
  by (auto simp: reset_stage_def same_sink_def split: if_splits prod.splits sum.splits)

lemma select_stage_sink:
  "select_stage rt n m (l, w) = Some (Continue (sel, l', w')) \<Longrightarrow> same_sink l l'"
  "select_stage rt n m (l, w) = Some (Break (l', w')) \<Longrightarrow> same_sink l l'"
  by (auto simp: select_stage_def same_sink_def Let_def split: option.splits prod.splits sum.splits)

lemma health_stage_sink:
  "health_stage rt m paired delta (l, w) = Continue (l', w') \<Longrightarrow> same_sink l l'"
  "health_stage rt m paired delta (l, w) = Break (l', w') \<Longrightarrow> same_sink l l'"
  by (auto simp: health_stage_def same_sink_def Let_def split: if_splits)

lemma process_stage_sink:
  "process_stage rt render m (l, w) = Continue (out, l', w') \<Longrightarrow> same_sink l l'"
  "process_stage rt render m (l, w) = Break (l', w') \<Longrightarrow> same_sink l l'"
  by (auto simp: process_stage_def same_sink_def Let_def split: if_splits prod.splits sum.splits)

lemma timing_stage_sink: "timing_stage rt (l, w) = (l', w') \<Longrightarrow> same_sink l l'"
  by (auto simp: timing_stage_def same_sink_def Let_def)

lemma take_microphone_sink: "take_microphone rt (l, w) = ((l', w'), t) \<Longrightarrow> same_sink l l'"
  by (auto simp: take_microphone_def same_sink_def split: option.splits prod.splits pop_result.splits)

lemmas stage_sinks = reset_stage_sink select_stage_sink health_stage_sink process_stage_sink
  timing_stage_sink take_microphone_sink

section \<open>The calls to the adapter\<close>

text \<open>\<open>wrote_on l l'\<close>: seen from \<open>l\<close>, the log of \<open>l'\<close> has only gained numbered writes.\<close>

definition wrote_on ::
  "('s \<times> sink_call list, 'a, 'f) aec_local \<Rightarrow> ('s \<times> sink_call list, 'a, 'f) aec_local \<Rightarrow> bool" where
  "wrote_on l l' \<longleftrightarrow> wrote (snd (al_sink l)) (al_sequence l) (snd (al_sink l')) (al_sequence l')"

definition wrote_last ::
  "('s \<times> sink_call list, 'a, 'f) aec_local \<Rightarrow> ('s \<times> sink_call list, 'a, 'f) aec_local \<Rightarrow> bool" where
  "wrote_last l l' \<longleftrightarrow> (\<exists>k. wrote (snd (al_sink l)) (al_sequence l) (snd (al_sink l')) k)"

lemma wrote_on_refl: "wrote_on l l"
  by (simp add: wrote_on_def wrote_refl)

lemma wrote_on_same: "wrote_on l l' \<Longrightarrow> same_sink l' l'' \<Longrightarrow> wrote_on l l''"
  by (simp add: wrote_on_def same_sink_def)

lemma wrote_on_last: "wrote_on l l' \<Longrightarrow> wrote_last l l'"
  by (auto simp: wrote_on_def wrote_last_def)

lemma output_stage_calls:
  assumes "wrote_on l0 l"
  shows "output_stage rt (logged sink) out (l, w) = Continue (l', w') \<Longrightarrow> wrote_on l0 l'"
    and "output_stage rt (logged sink) out (l, w) = Break (l', w') \<Longrightarrow> wrote_last l0 l'"
proof -
  obtain s calls where sk: "al_sink l = (s, calls)" by (cases "al_sink l")
  have w0: "wrote (snd (al_sink l0)) (al_sequence l0) calls (al_sequence l)"
    using assms by (simp add: wrote_on_def sk)
  note one = wrote_one [OF w0]
  show "wrote_on l0 l'" if "output_stage rt (logged sink) out (l, w) = Continue (l', w')"
    using that
    by (auto simp: output_stage_def sk logged_sel refresh_logged wrote_on_def Let_def
        split: prod.splits sum.splits if_splits intro!: one)
  show "wrote_last l0 l'" if "output_stage rt (logged sink) out (l, w) = Break (l', w')"
    using that
    by (auto simp: output_stage_def sk logged_sel refresh_logged wrote_last_def Let_def
        split: prod.splits sum.splits if_splits intro!: exI one)
qed

text \<open>A frame leaves the loop with the adapter untouched, or reaches the output stage.\<close>

definition reaches_output ::
  "('x, 'a, 'f) runtime \<Rightarrow> 's audio_output \<Rightarrow> ('s, 'a, 'f) aec_local
     \<Rightarrow> (('x, 's, 'a, 'f) aec_state, ('x, 's, 'a, 'f) aec_state) flow \<Rightarrow> bool" where
  "reaches_output rt sink l r \<longleftrightarrow> (\<exists>l' w'. same_sink l l'
     \<and> (r = Break (l', w') \<or> (\<exists>out. r = output_stage rt sink out (l', w'))))"

lemma reaches_outputI:
  "same_sink l l' \<Longrightarrow> reaches_output rt sink l (Break (l', w'))"
  "same_sink l l' \<Longrightarrow> reaches_output rt sink l (output_stage rt sink out (l', w'))"
  by (auto simp: reaches_output_def)

lemma reaches_output_same: "same_sink l l' \<Longrightarrow> reaches_output rt sink l' r \<Longrightarrow> reaches_output rt sink l r"
  by (auto simp: reaches_output_def intro: same_sink_trans)

lemma process_reaches:
  "reaches_output rt sink l (flow_bind (process_stage rt render m (l, w))
     (\<lambda>(out, st). output_stage rt sink out (timing_stage rt st)))"
proof (cases "process_stage rt render m (l, w)")
  case (Continue c)
  obtain out l1 w1 where c: "c = (out, l1, w1)" by (cases c)
  obtain l2 w2 where t: "timing_stage rt (l1, w1) = (l2, w2)" by (cases "timing_stage rt (l1, w1)")
  have "same_sink l l2"
    using process_stage_sink(1) [OF Continue [unfolded c]] timing_stage_sink [OF t] by (rule same_sink_trans)
  then show ?thesis by (simp add: Continue c t reaches_outputI)
next
  case (Break b)
  obtain l1 w1 where b: "b = (l1, w1)" by (cases b)
  show ?thesis using process_stage_sink(2) [OF Break [unfolded b]] by (simp add: Break b reaches_outputI)
qed

lemma health_reaches:
  "reaches_output rt sink l (flow_bind (health_stage rt m paired delta (l, w))
     (\<lambda>st. flow_bind (process_stage rt render m st)
     (\<lambda>(out, st). output_stage rt sink out (timing_stage rt st))))"
proof (cases "health_stage rt m paired delta (l, w)")
  case (Continue c)
  obtain l1 w1 where c: "c = (l1, w1)" by (cases c)
  show ?thesis
    using reaches_output_same [OF health_stage_sink(1) [OF Continue [unfolded c]] process_reaches]
    by (simp add: Continue c)
next
  case (Break b)
  obtain l1 w1 where b: "b = (l1, w1)" by (cases b)
  show ?thesis using health_stage_sink(2) [OF Break [unfolded b]] by (simp add: Break b reaches_outputI)
qed

lemma aec_frame_reaches:
  assumes "aec_frame rt sink n m (l, w) = Some r"
  shows "reaches_output rt sink l r"
proof (cases "reset_stage rt m (l, w)")
  case (Break b)
  obtain l1 w1 where b: "b = (l1, w1)" by (cases b)
  show ?thesis
    using reset_stage_sink(2) [OF Break [unfolded b]] assms by (auto simp: aec_frame_def Break b reaches_outputI)
next
  case (Continue c)
  obtain l1 w1 where c: "c = (l1, w1)" by (cases c)
  note same = reset_stage_sink(1) [OF Continue [unfolded c]]
  obtain sel where sel: "select_stage rt n m (l1, w1) = Some sel"
    using assms by (auto simp: aec_frame_def Continue c)
  show ?thesis
  proof (cases sel)
    case (Break b)
    obtain l2 w2 where b: "b = (l2, w2)" by (cases b)
    have "same_sink l l2"
      using same select_stage_sink(2) [OF sel [unfolded Break b]] by (rule same_sink_trans)
    then show ?thesis using assms by (auto simp: aec_frame_def Continue c sel Break b reaches_outputI)
  next
    case (Continue d)
    obtain render paired delta l2 w2 where d: "d = ((render, paired, delta), l2, w2)" by (cases d) auto
    have "same_sink l l2"
      using same select_stage_sink(1) [OF sel [unfolded Continue d]] by (rule same_sink_trans)
    from reaches_output_same [OF this health_reaches] assms show ?thesis
      by (auto simp: aec_frame_def \<open>reset_stage rt m (l, w) = _\<close> c sel Continue d)
  qed
qed

lemma aec_frame_calls:
  assumes "wrote_on l0 l"
  shows "aec_frame rt (logged sink) n m (l, w) = Some (Continue (l', w')) \<Longrightarrow> wrote_on l0 l'"
    and "aec_frame rt (logged sink) n m (l, w) = Some (Break (l', w')) \<Longrightarrow> wrote_last l0 l'"
  using wrote_on_same [OF assms]
  by (auto dest!: aec_frame_reaches simp: reaches_output_def)
    (metis wrote_on_last output_stage_calls)+

lemma aec_iteration_calls:
  assumes "wrote_on l0 l"
  shows "aec_iteration rt (logged sink) n (l, w) = Continue (l', w') \<Longrightarrow> wrote_on l0 l'"
    and "aec_iteration rt (logged sink) n (l, w) = Break (Some (l', w')) \<Longrightarrow> wrote_last l0 l'"
proof -
  obtain l1 w1 t where take: "take_microphone rt (l, rt_others rt w) = ((l1, w1), t)"
    by (metis surj_pair)
  note l1 = wrote_on_same [OF assms take_microphone_sink [OF take]]
  show "aec_iteration rt (logged sink) n (l, w) = Continue (l', w') \<Longrightarrow> wrote_on l0 l'"
    using l1 aec_frame_calls(1) [OF l1]
    by (auto simp: aec_iteration_def take Let_def split: if_splits taken.splits option.splits flow.splits)
  show "aec_iteration rt (logged sink) n (l, w) = Break (Some (l', w')) \<Longrightarrow> wrote_last l0 l'"
    using l1 assms aec_frame_calls(2) [OF l1] wrote_on_last
    by (auto simp: aec_iteration_def take Let_def split: if_splits taken.splits option.splits flow.splits)
qed

lemma aec_loop_calls:
  assumes "run_loop (aec_iteration rt (logged sink) n) fuel (l, w) = Some (Some (l', w'))"
  shows "wrote_last l l'"
proof -
  have "case Some (l', w') of None \<Rightarrow> True | Some (l', w') \<Rightarrow> wrote_last l l'"
    by (rule run_loop_invariant [OF assms, where I = "\<lambda>(l', w'). wrote_on l l'"
          and Q = "\<lambda>b. case b of None \<Rightarrow> True | Some (l', w') \<Rightarrow> wrote_last l l'"])
      (auto simp: wrote_on_refl split: option.splits dest: aec_iteration_calls)
  then show ?thesis by simp
qed

lemma aec_give_up_calls:
  "aec_give_up rt (logged sink) e (s, l) w = ((s', l'), w') \<Longrightarrow> session_calls l' = session_calls l @ [CallClose]"
  by (auto simp: aec_give_up_def logged_sel Let_def split: prod.splits)

lemma aec_startup_calls:
  assumes "snd (ao_open_session sink (session_config_new sid) s) = Inr u"
  shows "aec_startup rt (logged sink) sid (s, []) f w = Inl ((s', l'), w')
      \<Longrightarrow> session_calls l' = [CallOpen (session_config_new sid), CallClose]"
    and "aec_startup rt (logged sink) sid (s, []) f w = Inr (l, w')
      \<Longrightarrow> session_calls (snd (al_sink l)) = [CallOpen (session_config_new sid)] \<and> al_sequence l = 0"
  using assms
  by (auto simp: aec_startup_def logged_sel refresh_logged aec_local_start_def Let_def
      split: prod.splits sum.splits if_splits dest!: aec_give_up_calls)

text \<open>C15
  One session, numbered frames, in an AEC run: in any interleaving and whatever the canceller does, the
  processing thread opens exactly one session on the adapter, writes frames under the consecutive
  sequence numbers 0, 1, 2, ... and closes the session once, last; it writes and closes nothing when
  the session could not be opened.\<close>

theorem aec_worker_protocol:
  assumes "aof_connect factory pair = Inr (s0, [])"
    and "aec_processing_worker rt factory (logged sink) pair sid fuel n f w = Some (Some (s, calls), w')"
  shows "\<exists>frames. session_calls calls =
      (if is_err (snd (ao_open_session sink (session_config_new sid) s0))
       then [CallOpen (session_config_new sid)]
       else CallOpen (session_config_new sid) # numbered 0 frames @ [CallClose])"
proof (cases "snd (ao_open_session sink (session_config_new sid) s0)")
  case (Inl e)
  with assms show ?thesis by (auto simp: aec_processing_worker_def aec_startup_def logged_sel)
next
  case (Inr u)
  note start = aec_startup_calls [OF Inr, of rt f w]
  show ?thesis
  proof (cases "aec_startup rt (logged sink) sid (s0, []) f w")
    case (Inl r)
    obtain s1 calls1 w1 where r: "r = ((s1, calls1), w1)" by (cases r) auto
    have "session_calls calls = [CallOpen (session_config_new sid), CallClose]"
      using assms start(1) [OF Inl [unfolded r]] by (simp add: aec_processing_worker_def Inl r)
    with Inr show ?thesis by (intro exI [of _ "[]"]) simp
  next
    case (Inr st)
    obtain l1 w1 where st: "st = (l1, w1)" by (cases st)
    from assms Inr st obtain l2 w2 where loop:
      "run_loop (aec_iteration rt (logged sink) n) fuel (l1, w1) = Some (Some (l2, w2))"
      "aec_teardown rt (logged sink) (al_sink l2) w2 = ((s, calls), w')"
      by (auto simp: aec_processing_worker_def split: option.splits prod.splits)
    from aec_loop_calls [OF loop(1)] start(2) [OF Inr [unfolded st]] obtain frames
      where "session_calls (snd (al_sink l2)) = [CallOpen (session_config_new sid)] @ numbered 0 frames"
      by (auto simp: wrote_last_def wrote_def)
    moreover have "session_calls calls = session_calls (snd (al_sink l2)) @ [CallClose]"
      using loop(2) by (cases "al_sink l2")
        (auto simp: aec_teardown_def logged_sel refresh_logged Let_def split: prod.splits sum.splits if_splits)
    ultimately show ?thesis using \<open>snd (ao_open_session sink _ s0) = Inr u\<close> by auto
  qed
qed

section \<open>Bounded retries\<close>

definition retries_bounded :: "('s, 'a, 'f) aec_local \<Rightarrow> bool" where
  "retries_bounded l \<longleftrightarrow> al_consecutive_skew_misses l < MAX_CONSECUTIVE_RENDER_MISSES
     \<and> al_consecutive_aec_failures l < MAX_CONSECUTIVE_AEC_FAILURES"

lemma retries_start: "retries_bounded (aec_local_start s slot m r)"
  by (simp add: retries_bounded_def aec_local_start_def MAX_CONSECUTIVE_RENDER_MISSES_def
      MAX_CONSECUTIVE_AEC_FAILURES_def)

lemma retries_stages:
  "reset_stage rt m (l, w) = Continue (l', w') \<Longrightarrow> retries_bounded l \<Longrightarrow> retries_bounded l'"
  "select_stage rt n m (l, w) = Some (Continue (sel, l', w')) \<Longrightarrow> retries_bounded l \<Longrightarrow> retries_bounded l'"
  "timing_stage rt (l, w) = (l', w') \<Longrightarrow> retries_bounded l \<Longrightarrow> retries_bounded l'"
  "output_stage rt sink out (l, w) = Continue (l', w') \<Longrightarrow> retries_bounded l \<Longrightarrow> retries_bounded l'"
  "take_microphone rt (l, w) = ((l', w'), t) \<Longrightarrow> retries_bounded l \<Longrightarrow> retries_bounded l'"
  by (auto simp: reset_stage_def select_stage_def timing_stage_def output_stage_def
      take_microphone_def retries_bounded_def Let_def
      split: if_splits option.splits prod.splits sum.splits pop_result.splits)

lemma retries_health:
  "health_stage rt m paired delta (l, w) = Continue (l', w') \<Longrightarrow> retries_bounded l \<Longrightarrow> retries_bounded l'"
  by (auto simp: health_stage_def retries_bounded_def Let_def not_le MAX_CONSECUTIVE_RENDER_MISSES_def
      split: if_splits)

lemma retries_process:
  "process_stage rt render m (l, w) = Continue (out, l', w') \<Longrightarrow> retries_bounded l \<Longrightarrow> retries_bounded l'"
  by (auto simp: process_stage_def retries_bounded_def Let_def not_le MAX_CONSECUTIVE_AEC_FAILURES_def
      split: if_splits prod.splits sum.splits)

lemma retries_frame:
  assumes "aec_frame rt sink n m (l, w) = Some (Continue (l', w'))" "retries_bounded l"
  shows "retries_bounded l'"
proof -
  from assms(1) obtain l1 w1 where r: "reset_stage rt m (l, w) = Continue (l1, w1)"
    by (auto simp: aec_frame_def split: flow.splits)
  moreover from assms(1) r obtain sel l2 w2 where s: "select_stage rt n m (l1, w1) = Some (Continue (sel, l2, w2))"
    by (auto simp: aec_frame_def flow_bind_Continue split: flow.splits)
  moreover from assms(1) r s obtain l3 w3 where h:
    "health_stage rt m (fst (snd sel)) (snd (snd sel)) (l2, w2) = Continue (l3, w3)"
    by (cases sel) (auto simp: aec_frame_def flow_bind_Continue)
  moreover from assms(1) r s h obtain out l4 w4 where p:
    "process_stage rt (fst sel) m (l3, w3) = Continue (out, l4, w4)"
    by (cases sel) (auto simp: aec_frame_def flow_bind_Continue)
  moreover obtain l5 w5 where t: "timing_stage rt (l4, w4) = (l5, w5)" by (cases "timing_stage rt (l4, w4)")
  moreover from assms(1) r s h p t have "output_stage rt sink out (l5, w5) = Continue (l', w')"
    by (cases sel) (auto simp: aec_frame_def)
  ultimately show ?thesis
    using assms(2) retries_stages retries_health retries_process by metis
qed


section \<open>What is written when the canceller fails\<close>

text \<open>No bad sample reaches the output of an AEC run, whatever the canceller does: the frame handed to the
  output is all finite; it is the canceller's own output when the call succeeded with finite samples, and
  silence in every other case, after which the canceller has been rebuilt and the failure counted.\<close>

theorem process_stage_silence:
  assumes "process_stage rt render m (l, w) = Continue (out, l', w')"
  defines "call \<equiv> ec_process (rt_echo rt) render (tf_samples m) silence (fst (al_echo l))"
  shows "list_all is_finite out \<and>
    (if is_err (snd (snd call)) \<or> \<not> list_all is_finite (fst (snd call))
     then out = replicate (length (fst (snd call))) (Fin 0)
       \<and> al_consecutive_aec_failures l' = sat_add (al_consecutive_aec_failures l) 1
       \<and> al_healthy_frames l' = 0
     else out = fst (snd call) \<and> al_consecutive_aec_failures l' = 0)"
proof -
  obtain a raw result where call': "call = (a, raw, result)" by (cases call)
  have fin: "(\<exists>x \<in> set raw. \<not> is_finite x) \<longleftrightarrow> \<not> list_all is_finite raw" by (auto simp: list_all_iff)
  have zeros: "list_all is_finite (replicate k (Fin 0))" for k by (auto simp: list_all_iff)
  show ?thesis
    using assms(1) zeros
    by (auto simp: process_stage_def call_def [symmetric] call' Let_def fin
        split: if_splits prod.splits sum.splits)
qed

section \<open>A failure that is overwritten\<close>

text \<open>
  The stages write the state of the snapshot without looking at the failure flag.  A thread that records
  a failure between two of their actions makes the run Failed; the stage then puts Degraded back, while
  the flag stays raised and the error recorded.
\<close>

definition plain_runtime_with :: "(nat world \<Rightarrow> nat world) \<Rightarrow> (nat, unit, unit) runtime" where
  "plain_runtime_with others = \<lparr>rt_others = others, rt_clock = (\<lambda>w. Some 0), rt_pid = 1,
     rt_elapsed = (\<lambda>w. 0), rt_echo = through_echo, rt_echo_factory = \<lparr>ecf_create = (\<lambda>f. (f, Inr ()))\<rparr>\<rparr>"

definition meddling :: "nat \<Rightarrow> engine_error \<Rightarrow> nat world \<Rightarrow> nat world" where
  "meddling k e w =
    (let w' = (if w_rest w = k then record_aec_failure id True e w else w)
     in w'\<lparr>w_rest := w_rest w + 1\<rparr>)"

lemma meddling_cooperative: "cooperative (meddling k e)"
proof -
  have "cooperative (id :: nat world \<Rightarrow> nat world)" by (simp add: cooperative_def)
  then have rec: "follows w (record_aec_failure id True e w)" if "world_ok w" for w :: "nat world"
    using that by (intro follows_record_aec_failure) simp_all
  have rest: "follows w (w'\<lparr>w_rest := n\<rparr>)" if "follows w w'" for w w' :: "nat world" and n
    using that by (simp add: follows_def world_ok_def)
  show ?thesis using rec rest by (auto simp: cooperative_def meddling_def Let_def)
qed

text \<open>A race in the code: there is an interleaving with a thread that only records a failure the regular way,
  between the two critical sections of one stage, after which the failure flag is raised and the error is
  in the snapshot, yet the state reads Degraded instead of Failed.\<close>

theorem health_stage_overwrites_failure:
  "\<exists>others :: nat world \<Rightarrow> nat world. cooperative others
    \<and> (case health_stage (plain_runtime_with others) (frame_at 1000000 False) False None
          (aec_local_start () ((), ()) (frame_at 1000000 False) None, initial_world 0) of
        Continue (l, w) \<Rightarrow> w_terminal_failure w \<and> es_last_error (w_snapshot w) = Some e
          \<and> es_state (w_snapshot w) = Degraded
      | Break _ \<Rightarrow> False)"
proof (intro exI conjI)
  show "cooperative (meddling 1 e)" by (rule meddling_cooperative)
  show "case health_stage (plain_runtime_with (meddling 1 e)) (frame_at 1000000 False) False None
          (aec_local_start () ((), ()) (frame_at 1000000 False) None, initial_world 0) of
        Continue (l, w) \<Rightarrow> w_terminal_failure w \<and> es_last_error (w_snapshot w) = Some e
          \<and> es_state (w_snapshot w) = Degraded
      | Break _ \<Rightarrow> False"
    by (simp add: health_stage_def Let_def plain_runtime_with_def meddling_def initial_world_def
        aec_local_start_def record_aec_failure_won note_pairing_def MAX_CONSECUTIVE_RENDER_MISSES_def
        default_snapshot_def)
qed

section \<open>A concrete run\<close>

definition one_frame_world :: "unit world" where
  "one_frame_world = (initial_world ())\<lparr>
     w_ready := (\<lambda>_. \<lparr>rc_message = None, rc_receiver_alive = True\<rparr>),
     w_microphone_queue := timed_queue_finish_producer (fst (timed_queue_push (frame_at 5 False) timed_queue_new)),
     w_render_queue := timed_queue_finish_producer timed_queue_new\<rparr>"

text \<open>One microphone frame and no render frame: silence is the reference and the frame is written.\<close>

lemma one_frame_startup:
  "\<exists>w. aec_startup plain_runtime (logged accept_all) (SessionId 7) ((), []) () one_frame_world =
     Inr (aec_local_start ((), [CallOpen (session_config_new (SessionId 7)), CallDiagnostics]) ((), ())
       (frame_at 5 False) None, w)
   \<and> \<not> w_stop_requested w \<and> qs_frames (w_render_queue w) = [] \<and> qs_frames (w_microphone_queue w) = []
   \<and> qs_producer_done (w_microphone_queue w)"
  by (simp add: aec_startup_def one_frame_world_def initial_world_def accept_all_def logged_def
      refresh_sink_diagnostics_def plain_runtime_def aec_first_frames_def pop_microphone_def pop_render_def
      timed_queue_defs Let_def ready_send_def on_snapshot_def)

lemma one_frame_iteration:
  assumes "\<not> w_stop_requested w" "qs_frames (w_render_queue w) = []"
  shows "\<exists>l w'. aec_iteration plain_runtime (logged accept_all) 1
      (aec_local_start ((), calls) ((), ()) (frame_at 5 False) None, w) = Continue (l, w')
    \<and> al_sink l = ((), calls @ [CallWrite (pcm_frame_new 0 [32767])])
    \<and> al_microphone l = None \<and> \<not> w_stop_requested w' \<and> w_microphone_queue w' = w_microphone_queue w"
  using assms
  by (simp add: aec_iteration_def take_microphone_def aec_local_start_def aec_frame_def reset_stage_def
      frame_at_def select_stage_def select_render_frame_def next_candidate_def try_pop_render_def
      timed_queue_try_pop_def select_turn_def health_stage_def process_stage_def timing_stage_def
      output_stage_def plain_runtime_def through_echo_def Let_def MAX_CONSECUTIVE_RENDER_MISSES_def
      pcm16_Fin pcm16_level_ends accept_all_def logged_def count_sink_accepted_def sat_add_small)

lemma no_frame_iteration:
  assumes "al_microphone l = None" "\<not> w_stop_requested w"
    and "qs_frames (w_microphone_queue w) = []" "qs_producer_done (w_microphone_queue w)"
  shows "\<exists>w'. aec_iteration plain_runtime sink 1 (l, w) = Break (Some (l, w'))"
  using assms
  by (simp add: aec_iteration_def take_microphone_def pop_microphone_def timed_queue_take_def
      plain_runtime_def Let_def)

lemma one_frame_run:
  "\<exists>w. aec_processing_worker plain_runtime accept_factory (logged accept_all) cable_pair (SessionId 7)
      2 1 () one_frame_world = Some (Some ((), [CallOpen (session_config_new (SessionId 7)), CallDiagnostics,
        CallWrite (pcm_frame_new 0 [32767]), CallDiagnostics, CallClose]), w)"
proof -
  let ?calls = "[CallOpen (session_config_new (SessionId 7)), CallDiagnostics]"
  obtain w where start:
    "aec_startup plain_runtime (logged accept_all) (SessionId 7) ((), []) () one_frame_world =
       Inr (aec_local_start ((), ?calls) ((), ()) (frame_at 5 False) None, w)"
    and w: "\<not> w_stop_requested w" "qs_frames (w_render_queue w) = []"
      "qs_frames (w_microphone_queue w) = []" "qs_producer_done (w_microphone_queue w)"
    using one_frame_startup by blast
  obtain l w1 where first: "aec_iteration plain_runtime (logged accept_all) 1
      (aec_local_start ((), ?calls) ((), ()) (frame_at 5 False) None, w) = Continue (l, w1)"
    and l: "al_sink l = ((), ?calls @ [CallWrite (pcm_frame_new 0 [32767])])" "al_microphone l = None"
      "\<not> w_stop_requested w1" "w_microphone_queue w1 = w_microphone_queue w"
    using one_frame_iteration [OF w(1,2), of ?calls] by blast
  obtain w2 where second: "aec_iteration plain_runtime (logged accept_all) 1 (l, w1) = Break (Some (l, w2))"
    using no_frame_iteration [of l w1 "logged accept_all"] l w by auto
  have "run_loop (aec_iteration plain_runtime (logged accept_all) 1) 2
      (aec_local_start ((), ?calls) ((), ()) (frame_at 5 False) None, w) = Some (Some (l, w2))"
    using first second by (simp add: numeral_2_eq_2)
  moreover have "fst (aec_teardown plain_runtime (logged accept_all) (al_sink l) w2) =
      ((), ?calls @ [CallWrite (pcm_frame_new 0 [32767]), CallDiagnostics, CallClose])"
    by (simp add: l aec_teardown_def refresh_sink_diagnostics_def accept_all_def logged_def Let_def)
  ultimately show ?thesis
    using start by (simp add: aec_processing_worker_def accept_factory_def prod_eq_iff split_def Let_def)
qed

lemma aec_worker_protocol_witness:
  "\<exists>w calls frames. aec_processing_worker plain_runtime accept_factory (logged accept_all) cable_pair
      (SessionId 7) 2 1 () one_frame_world = Some (Some ((), calls), w)
    \<and> session_calls calls = CallOpen (session_config_new (SessionId 7)) # numbered 0 frames @ [CallClose]"
proof -
  obtain w calls where run: "aec_processing_worker plain_runtime accept_factory (logged accept_all)
      cable_pair (SessionId 7) 2 1 () one_frame_world = Some (Some ((), calls), w)"
    using one_frame_run by blast
  have "aof_connect accept_factory cable_pair = Inr ((), [])" by (simp add: accept_factory_def)
  from aec_worker_protocol [OF this run] run show ?thesis by (auto simp: accept_all_def)
qed


lemma process_stage_silence_witness:
  "\<exists>out l w. process_stage (plain_runtime\<lparr>rt_echo := \<lparr>ec_process = (\<lambda>r c out a. (a, [NaN, Fin 1], Inr ()))\<rparr>\<rparr>)
      silence (frame_at 5 False) (aec_local_start () ((), ()) (frame_at 5 False) None, one_frame_world) =
        Continue (out, l, w)
    \<and> out = [Fin 0, Fin 0] \<and> al_consecutive_aec_failures l = 1"
proof -
  let ?rt = "plain_runtime\<lparr>rt_echo := \<lparr>ec_process = (\<lambda>r c out a. (a, [NaN, Fin 1], Inr ()))\<rparr>\<rparr>"
  let ?l = "aec_local_start () ((), ()) (frame_at 5 False) None"
  obtain out l w where run: "process_stage ?rt silence (frame_at 5 False) (?l, one_frame_world) = Continue (out, l, w)"
    by (simp add: process_stage_def plain_runtime_def aec_local_start_def Let_def rebuild_echo_def
        new_identity_def MAX_CONSECUTIVE_AEC_FAILURES_def sat_add_def word_le_nat_alt)
  from process_stage_silence [OF run] run show ?thesis
    by (simp add: plain_runtime_def aec_local_start_def sat_add_def)
qed

end
