(* ===== verification/Aec_Stream.thy ===== *)
theory Aec_Stream
  imports Aec_Properties Capture_Worker
begin

text \<open>
  What an AEC run plays, in any interleaving of its three threads: one frame for each microphone frame the
  processing thread takes, in the order of the microphone's stream, and each the canceller's answer to that very
  frame and to a render frame of the same time.

  The other threads are the function \<open>others\<close>, of which only this is assumed: to the microphone queue they append
  frames, and from it they may drop some.  What they append is kept as a history in the rest of the world.
\<close>

section \<open>What the other threads do to the microphone queue\<close>

definition fed :: "('x \<Rightarrow> timed_frame list) \<Rightarrow> 'x world \<Rightarrow> 'x world \<Rightarrow> bool" where
  "fed emitted w w' \<longleftrightarrow> (\<exists>new. emitted (w_rest w') = emitted (w_rest w) @ new
     \<and> subseq (qs_frames (w_microphone_queue w')) (qs_frames (w_microphone_queue w) @ new))"

definition feeds :: "('x \<Rightarrow> timed_frame list) \<Rightarrow> ('x world \<Rightarrow> 'x world) \<Rightarrow> bool" where
  "feeds emitted others \<longleftrightarrow> (\<forall>w. fed emitted w (others w))"

lemma fed_refl [simp]: "fed emitted w w"
  by (auto simp: fed_def)

lemma fed_trans:
  assumes "fed emitted a b" "fed emitted b c"
  shows "fed emitted a c"
proof -
  from assms obtain new1 new2 where 1: "emitted (w_rest b) = emitted (w_rest a) @ new1"
      "subseq (qs_frames (w_microphone_queue b)) (qs_frames (w_microphone_queue a) @ new1)"
    and 2: "emitted (w_rest c) = emitted (w_rest b) @ new2"
      "subseq (qs_frames (w_microphone_queue c)) (qs_frames (w_microphone_queue b) @ new2)"
    unfolding fed_def by blast
  have "subseq (qs_frames (w_microphone_queue b) @ new2) ((qs_frames (w_microphone_queue a) @ new1) @ new2)"
    using 1(2) by (rule list_emb_append_mono) simp
  with 2 1(1) show ?thesis
    unfolding fed_def by (intro exI [of _ "new1 @ new2"]) (auto intro: subseq_order.trans)
qed

lemma fed_others: "feeds emitted others \<Longrightarrow> fed emitted w0 w \<Longrightarrow> fed emitted w0 (others w)"
  unfolding feeds_def by (blast intro: fed_trans)

lemma fed_update [simp]:
  "fed emitted w0 (on_snapshot f w) = fed emitted w0 w"
  "fed emitted w0 (w\<lparr>w_render_queue := q\<rparr>) = fed emitted w0 w"
  "fed emitted w0 (w\<lparr>w_terminal_failure := b\<rparr>) = fed emitted w0 w"
  "fed emitted w0 (w\<lparr>w_stop_requested := b\<rparr>) = fed emitted w0 w"
  "fed emitted w0 (w\<lparr>w_ready := r\<rparr>) = fed emitted w0 w"
  "fed emitted w0 (w\<lparr>w_next_id := n\<rparr>) = fed emitted w0 w"
  by (simp_all add: fed_def on_snapshot_def)

lemma fed_fail: "fed emitted w0 w \<Longrightarrow> fed emitted w0 (w\<lparr>w_microphone_queue := timed_queue_fail q\<rparr>)"
  by (auto simp: fed_def timed_queue_fail_def)

text \<open>The input threads do no more: the microphone's pushes the frames it emits, which the history records, and both
  end by finishing their queue or by failing both.\<close>

lemma emit_timed_frame_fed:
  "emitted x = emitted (w_rest w) @ [f] \<Longrightarrow> fed emitted w ((emit_timed_frame id Microphone f w)\<lparr>w_rest := x\<rparr>)"
  "fed emitted w (emit_timed_frame id RenderLoopback f w)"
  by (cases "qs_frames (w_microphone_queue w)"; auto simp: fed_def emit_timed_frame_def on_role_queue_def
      update_input_frame_snapshot_def timed_queue_push_def Let_def split: prod.split)+

lemma input_ends_fed:
  "fed emitted w (finish_role_queue id role w)" "fed emitted w (record_aec_failure id b e w)"
  by (auto simp: finish_role_queue_def on_role_queue_def timed_queue_finish_producer_def fed_def record_aec_failure_def
      timed_queue_fail_def Let_def split: input_role.split)

text \<open>The frames taken, then those queued, are a part of what was emitted, in order.\<close>

definition taken_from :: "('x \<Rightarrow> timed_frame list) \<Rightarrow> timed_frame list \<Rightarrow> 'x world \<Rightarrow> bool" where
  "taken_from emitted taken w \<longleftrightarrow> subseq (taken @ qs_frames (w_microphone_queue w)) (emitted (w_rest w))"

lemma taken_from_fed:
  assumes "taken_from emitted taken w" "fed emitted w w'"
  shows "taken_from emitted taken w'"
proof -
  from assms(2) obtain new where new: "emitted (w_rest w') = emitted (w_rest w) @ new"
    "subseq (qs_frames (w_microphone_queue w')) (qs_frames (w_microphone_queue w) @ new)"
    unfolding fed_def by blast
  have "subseq (taken @ qs_frames (w_microphone_queue w')) ((taken @ qs_frames (w_microphone_queue w)) @ new)"
    using new(2) by (simp add: list_emb_append_mono)
  moreover have "subseq ((taken @ qs_frames (w_microphone_queue w)) @ new) (emitted (w_rest w) @ new)"
    using assms(1) unfolding taken_from_def by (rule list_emb_append_mono) simp
  ultimately show ?thesis
    unfolding taken_from_def new(1) by (rule subseq_order.trans)
qed

lemma taken_from_less:
  assumes "taken_from emitted (taken @ rest) w"
  shows "taken_from emitted taken w"
proof -
  let ?q = "qs_frames (w_microphone_queue w)"
  have "subseq (taken @ ?q) (taken @ rest @ ?q)"
    by (rule list_emb_append_mono) (auto intro: list_emb_append2)
  with assms show ?thesis unfolding taken_from_def by (auto intro: subseq_order.trans)
qed

lemma pop_microphone_taken:
  assumes "feeds emitted others" "taken_from emitted taken w" "pop_microphone others w = (w', r)"
  shows "taken_from emitted (taken @ (case r of Frame m \<Rightarrow> [m] | _ \<Rightarrow> [])) w'"
proof -
  obtain v where v: "fed emitted w v"
    "(w', r) = (let (q, r) = timed_queue_take (w_microphone_queue v) in (v\<lparr>w_microphone_queue := q\<rparr>, r))"
    using assms(3) fed_others [OF assms(1) fed_refl, of w] fed_others [OF assms(1) fed_others [OF assms(1) fed_refl], of w]
    by (simp add: pop_microphone_def Let_def split: if_splits)
  from taken_from_fed [OF assms(2) v(1)] v(2) show ?thesis
    by (auto simp: taken_from_def timed_queue_take_def Let_def split: prod.splits if_splits list.splits)
qed

section \<open>The other actions of the processing thread leave it alone\<close>

lemma rebuild_echo_fed:
  assumes "feeds emitted (rt_others rt)" "fed emitted w0 w" "rebuild_echo rt reason b slot w = (slot', w', r)"
  shows "fed emitted w0 w'"
  using assms(2,3) fed_others [OF assms(1,2)]
  by (auto simp: rebuild_echo_def new_identity_def Let_def split: prod.splits sum.splits)

lemma record_aec_failure_fed:
  assumes "feeds emitted others" "fed emitted w0 w"
  shows "fed emitted w0 (record_aec_failure others b e w)"
  using assms(2) by (simp add: record_aec_failure_def Let_def fed_others [OF assms(1)] fed_fail)

lemma pop_render_fed:
  assumes "feeds emitted others" "fed emitted w0 w" "pop_render others w = (w', r)"
  shows "fed emitted w0 w'"
  using assms(3) fed_others [OF assms(1,2)] fed_others [OF assms(1) fed_others [OF assms(1,2)]]
  by (auto simp: pop_render_def Let_def split: prod.splits if_splits)

lemma try_pop_render_fed:
  assumes "feeds emitted others" "fed emitted w0 w" "try_pop_render others w = (w', r)"
  shows "fed emitted w0 w'"
  using assms(3) fed_others [OF assms(1,2)] by (auto simp: try_pop_render_def Let_def split: prod.splits)

lemma count_sink_fed:
  assumes "feeds emitted others" "fed emitted w0 w"
  shows "fed emitted w0 (count_sink_failure others w)" "fed emitted w0 (count_sink_accepted others w)"
  using fed_others [OF assms] by (simp_all add: count_sink_failure_def count_sink_accepted_def)

lemma refresh_fed:
  assumes "feeds emitted others" "fed emitted w0 w" "refresh_sink_diagnostics sink others s w = (s', w', r)"
  shows "fed emitted w0 w'"
  using assms(2,3) fed_others [OF assms(1,2)] by (auto simp: refresh_sink_diagnostics_def split: prod.splits sum.splits)

lemma ready_send_fed:
  assumes "feeds emitted others" "fed emitted w0 w" "ready_send others k msg w = (w', b)"
  shows "fed emitted w0 w'"
  using assms(3) fed_others [OF assms(1,2)] by (auto simp: ready_send_def Let_def split: if_splits)

lemma next_candidate_fed:
  assumes "feeds emitted (rt_others rt)" "fed emitted w0 w"
  shows "fed emitted w0 (snd (snd (snd (next_candidate rt (render, exhausted, slot, w)))))"
  using assms
  by (auto simp: next_candidate_def Let_def dest: pop_render_fed try_pop_render_fed
      split: option.splits prod.splits pop_result.splits if_splits)

lemma select_turn_fed:
  assumes "feeds emitted (rt_others rt)" "fed emitted w0 w"
  shows "select_turn rt m (render, exhausted, slot, w) = Continue (render', exhausted', slot', w') \<Longrightarrow> fed emitted w0 w'"
    "select_turn rt m (render, exhausted, slot, w) = Break ((render', exhausted', slot', w'), r) \<Longrightarrow> fed emitted w0 w'"
  using assms(2)
  by (auto simp: select_turn_def Let_def split: option.splits prod.splits sum.splits if_splits
      dest!: rebuild_echo_fed [OF assms(1), rotated] try_pop_render_fed [OF assms(1), rotated]
      intro: fed_others [OF assms(1)])

lemma select_render_frame_fed:
  assumes "feeds emitted (rt_others rt)" "fed emitted w0 w"
    and "select_render_frame rt n m (render, exhausted, slot, w) = Some ((render', exhausted', slot', w'), r)"
  shows "fed emitted w0 w'"
proof -
  let ?fed = "\<lambda>p. fed emitted w0 (snd (snd (snd p)))"
  from assms(3) have loop: "run_loop (select_turn rt m) n (next_candidate rt (render, exhausted, slot, w))
    = Some ((render', exhausted', slot', w'), r)"
    by (simp add: select_render_frame_def)
  have "?fed (fst ((render', exhausted', slot', w'), r))"
    by (rule run_loop_invariant [OF loop, where I = ?fed and Q = "\<lambda>b. ?fed (fst b)"])
      (auto simp: next_candidate_fed [OF assms(1,2)] dest: select_turn_fed [OF assms(1)])
  then show ?thesis by simp
qed

section \<open>One microphone frame\<close>

text \<open>
  \<open>played rt m pcm\<close>: the frame \<open>pcm\<close> is the answer to the microphone frame \<open>m\<close>.  The canceller, in some state, was
  given the samples of \<open>m\<close> and those of a render frame within the tolerance (or silence, when there was none), and
  \<open>pcm\<close> is its output, or silence of that length when the call failed or the output was not finite.
\<close>

definition played :: "('x, 'a, 'f) runtime \<Rightarrow> timed_frame \<Rightarrow> pcm_samples \<Rightarrow> bool" where
  "played rt m pcm \<longleftrightarrow> (\<exists>render paired delta kept echo echo' out r.
     sound_selection m kept (render, paired, delta)
   \<and> ec_process (rt_echo rt) render (tf_samples m) silence echo = (echo', out, r)
   \<and> pcm = map (\<lambda>x. fst (pcm16 x))
       (if is_err r \<or> (\<exists>x \<in> set out. \<not> is_finite x) then replicate (length out) (Fin 0) else out))"

text \<open>What a stage before the output leaves alone.\<close>

definition same_hand :: "('s, 'a, 'f) aec_local \<Rightarrow> ('s, 'a, 'f) aec_local \<Rightarrow> bool" where
  "same_hand l l' \<longleftrightarrow> same_sink l l' \<and> al_microphone l' = al_microphone l"

lemma same_hand_refl [simp]: "same_hand l l"
  by (simp add: same_hand_def)

lemma same_hand_trans: "same_hand a b \<Longrightarrow> same_hand b c \<Longrightarrow> same_hand a c"
  by (auto simp: same_hand_def intro: same_sink_trans)

text \<open>Every stage passes on the sink, the pending frame and the microphone queue.\<close>

definition passes ::
  "('x \<Rightarrow> timed_frame list) \<Rightarrow> ('s, 'a, 'f) aec_local \<times> 'x world \<Rightarrow> ('s, 'a, 'f) aec_local \<times> 'x world \<Rightarrow> bool" where
  "passes emitted = (\<lambda>(l, w) (l', w'). same_hand l l' \<and> fed emitted w w')"

lemma passes_refl [simp]: "passes emitted st st"
  by (auto simp: passes_def split: prod.split)

lemma passes_trans: "passes emitted a b \<Longrightarrow> passes emitted b c \<Longrightarrow> passes emitted a c"
  by (auto simp: passes_def intro: same_hand_trans fed_trans)

lemma reset_stage_passes:
  assumes "feeds emitted (rt_others rt)"
  shows "reset_stage rt m st = Continue st' \<Longrightarrow> passes emitted st st'"
    "reset_stage rt m st = Break st' \<Longrightarrow> passes emitted st st'"
  by (cases st; auto simp: reset_stage_def passes_def same_hand_def same_sink_def aec_fail_def
      record_aec_failure_fed [OF assms] dest: rebuild_echo_fed [OF assms fed_refl]
      split: if_splits prod.splits sum.splits)+

lemma select_stage_passes:
  assumes "feeds emitted (rt_others rt)"
  shows "select_stage rt n m st = Some (Continue (sel, st')) \<Longrightarrow> passes emitted st st' \<and> (\<exists>kept. sound_selection m kept sel)"
    "select_stage rt n m st = Some (Break st') \<Longrightarrow> passes emitted st st'"
proof -
  obtain l w where st: "st = (l, w)" by fastforce
  show "passes emitted st st' \<and> (\<exists>kept. sound_selection m kept sel)" if run: "select_stage rt n m st = Some (Continue (sel, st'))"
  proof -
    from run obtain render exhausted slot w' where
      sel: "select_render_frame rt n m (al_render l, al_render_wait_exhausted l, al_echo l, w)
        = Some ((render, exhausted, slot, w'), Inr sel)"
      and st': "st' = (l\<lparr>al_render := render, al_render_wait_exhausted := exhausted, al_echo := slot\<rparr>, w')"
      by (auto simp: st select_stage_def Let_def aec_fail_def split: option.splits prod.splits sum.splits)
    obtain echo f where slot: "al_echo l = (echo, f)" by fastforce
    from select_render_frame_fed [OF assms fed_refl sel] select_render_frame_sound [OF sel]
    show ?thesis by (auto simp: st st' passes_def same_hand_def same_sink_def)
  qed
  show "select_stage rt n m st = Some (Break st') \<Longrightarrow> passes emitted st st'"
    by (auto simp: st select_stage_def passes_def same_hand_def same_sink_def Let_def aec_fail_def
        intro!: record_aec_failure_fed [OF assms] dest!: select_render_frame_fed [OF assms fed_refl]
        split: option.splits prod.splits sum.splits)
qed

lemma health_stage_passes:
  assumes "feeds emitted (rt_others rt)"
  shows "health_stage rt m paired delta st = Continue st' \<Longrightarrow> passes emitted st st'"
    "health_stage rt m paired delta st = Break st' \<Longrightarrow> passes emitted st st'"
  by (cases st; auto simp: health_stage_def passes_def same_hand_def same_sink_def Let_def aec_fail_def
      record_aec_failure_fed [OF assms] fed_others [OF assms] split: if_splits)+

lemma process_stage_passes:
  assumes "feeds emitted (rt_others rt)" "sound_selection m kept (render, paired, delta)"
  shows "process_stage rt render m st = Continue (out, st') \<Longrightarrow>
      passes emitted st st' \<and> played rt m (map (\<lambda>x. fst (pcm16 x)) out)"
    "process_stage rt render m st = Break st' \<Longrightarrow> passes emitted st st'"
proof -
  obtain l w where st: "st = (l, w)" by fastforce
  obtain echo out0 r where call: "ec_process (rt_echo rt) render (tf_samples m) silence (fst (al_echo l)) = (echo, out0, r)"
    by (metis prod_cases3)
  let ?w1 = "on_snapshot (\<lambda>s. s\<lparr>es_aec_invalid_outputs := es_aec_invalid_outputs s + of_bool (\<exists>x \<in> set out0. \<not> is_finite x),
      es_state := Degraded, es_degradation_reason := Some AecReset\<rparr>) (rt_others rt w)"
  obtain slot w2 q where rebuilt: "rebuild_echo rt AecReset False (echo, snd (al_echo l)) ?w1 = (slot, w2, q)"
    by (rule prod_cases3)
  have "fed emitted w w2"
    by (rule rebuild_echo_fed [OF assms(1) _ rebuilt]) (simp add: fed_others [OF assms(1)])
  then have same: "passes emitted st st'"
    if "process_stage rt render m st = Continue (out, st') \<or> process_stage rt render m st = Break st'"
    using that rebuilt
    by (cases q) (auto simp: st call process_stage_def passes_def same_hand_def same_sink_def Let_def aec_fail_def
        record_aec_failure_fed [OF assms(1)] fed_others [OF assms(1)] split: if_splits)
  then show "process_stage rt render m st = Break st' \<Longrightarrow> passes emitted st st'" by blast
  assume run: "process_stage rt render m st = Continue (out, st')"
  then have "out = (if is_err r \<or> (\<exists>x \<in> set out0. \<not> is_finite x) then replicate (length out0) (Fin 0) else out0)"
    by (auto simp: st call process_stage_def Let_def aec_fail_def split: if_splits prod.splits sum.splits)
  with call assms(2) have "played rt m (map (\<lambda>x. fst (pcm16 x)) out)" unfolding played_def by blast
  with same run show "passes emitted st st' \<and> played rt m (map (\<lambda>x. fst (pcm16 x)) out)" by blast
qed

lemma timing_stage_passes: "feeds emitted (rt_others rt) \<Longrightarrow> passes emitted st (timing_stage rt st)"
  by (cases st) (simp add: timing_stage_def passes_def same_hand_def same_sink_def Let_def fed_others)

lemma aec_frame_plays:
  assumes "feeds emitted (rt_others rt)" "aec_frame rt sink n m st = Some r"
  shows "\<exists>st'. passes emitted st st' \<and> (r = Break st'
    \<or> (\<exists>out. played rt m (map (\<lambda>x. fst (pcm16 x)) out) \<and> r = output_stage rt sink out st'))"
proof (cases "reset_stage rt m st")
  case (Break st1)
  with assms(2) reset_stage_passes(2) [OF assms(1) Break] show ?thesis
    by (intro exI [of _ st1]) (auto simp: aec_frame_def)
next
  case (Continue st1)
  note p1 = reset_stage_passes(1) [OF assms(1) Continue]
  obtain sel where sel: "select_stage rt n m st1 = Some sel"
    using assms(2) by (auto simp: aec_frame_def Continue)
  show ?thesis
  proof (cases sel)
    case (Break st2)
    with passes_trans [OF p1 select_stage_passes(2) [OF assms(1) sel [unfolded Break]]] assms(2) sel Continue
    show ?thesis by (intro exI [of _ st2]) (auto simp: aec_frame_def)
  next
    case selected: (Continue c)
    obtain render paired delta st2 where c: "c = ((render, paired, delta), st2)" by (metis prod_cases3 surj_pair)
    note s2 = select_stage_passes(1) [OF assms(1) sel [unfolded selected c]]
    then obtain kept where kept: "sound_selection m kept (render, paired, delta)" by blast
    have p2: "passes emitted st st2" using p1 s2 passes_trans by blast
    have r: "r = flow_bind (health_stage rt m paired delta st2) (\<lambda>st. flow_bind (process_stage rt render m st)
        (\<lambda>(out, st). output_stage rt sink out (timing_stage rt st)))"
      using assms(2) by (simp add: aec_frame_def Continue sel selected c)
    show ?thesis
    proof (cases "health_stage rt m paired delta st2")
      case (Break st3)
      with r passes_trans [OF p2 health_stage_passes(2) [OF assms(1) Break]] show ?thesis by (intro exI [of _ st3]) auto
    next
      case healthy: (Continue st3)
      note p3 = passes_trans [OF p2 health_stage_passes(1) [OF assms(1) healthy]]
      show ?thesis
      proof (cases "process_stage rt render m st3")
        case (Break st4)
        with r healthy passes_trans [OF p3 process_stage_passes(2) [OF assms(1) kept Break]] show ?thesis by (intro exI [of _ st4]) auto
      next
        case processed: (Continue d)
        obtain out st4 where d: "d = (out, st4)" by (cases d)
        note s4 = process_stage_passes(1) [OF assms(1) kept processed [unfolded d]]
        have "passes emitted st (timing_stage rt st4)"
          using p3 s4 timing_stage_passes [OF assms(1), of st4] passes_trans by blast
        with s4 r healthy processed d show ?thesis by (intro exI [of _ "timing_stage rt st4"]) auto
      qed
    qed
  qed
qed

section \<open>The frames that were written\<close>

text \<open>In a session the frames written are the answers to the frames \<open>answered\<close>, one each.\<close>

definition answers ::
  "('x, 'a, 'f) runtime \<Rightarrow> session_config \<Rightarrow> timed_frame list \<Rightarrow> pcm_samples list \<Rightarrow> sink_call list \<Rightarrow> bool" where
  "answers rt config answered frames calls \<longleftrightarrow> list_all2 (played rt) answered frames
     \<and> session_calls calls = CallOpen config # numbered 0 frames"

lemma output_stage_answers:
  assumes "feeds emitted (rt_others rt)" "played rt m (map (\<lambda>x. fst (pcm16 x)) out)"
    and "answers rt config answered frames (snd (al_sink l))" "al_sequence l = next_number (length frames) 0"
  shows "output_stage rt (logged sink) out (l, w) = Continue (l', w') \<Longrightarrow> \<exists>f.
      answers rt config (answered @ [m]) (frames @ [f]) (snd (al_sink l'))
      \<and> al_sequence l' = next_number (length (frames @ [f])) 0 \<and> al_microphone l' = al_microphone l \<and> fed emitted w w'"
    "output_stage rt (logged sink) out (l, w) = Break (l', w') \<Longrightarrow> \<exists>f.
      answers rt config (answered @ [m]) (frames @ [f]) (snd (al_sink l')) \<and> fed emitted w w'"
proof -
  obtain s calls where sk: "al_sink l = (s, calls)" by fastforce
  let ?f = "map (\<lambda>x. fst (pcm16 x)) out"
  have one: "answers rt config (answered @ [m]) (frames @ [?f]) (calls @ [CallWrite (pcm_frame_new (al_sequence l) ?f)])"
    "answers rt config (answered @ [m]) (frames @ [?f])
       (calls @ [CallWrite (pcm_frame_new (al_sequence l) ?f), CallDiagnostics])"
    using assms(2-4) by (auto simp: answers_def sk numbered_snoc list_all2_appendI simp del: numbered.simps)
  have seq: "sat_add (al_sequence l) 1 = next_number (length (frames @ [?f])) 0"
    using assms(4) by (simp add: next_number_Suc del: next_number.simps)
  obtain s1 written where wrote: "ao_write_frame sink (pcm_frame_new (al_sequence l) ?f) s = (s1, written)" by fastforce
  obtain s2 w2 r where refreshed:
    "refresh_sink_diagnostics sink (rt_others rt) s1 (count_sink_accepted (rt_others rt) w) = (s2, w2, r)"
    by (rule prod_cases3)
  have fed: "fed emitted w w2"
    by (rule refresh_fed [OF assms(1) _ refreshed]) (rule count_sink_fed [OF assms(1) fed_refl])
  show "output_stage rt (logged sink) out (l, w) = Continue (l', w') \<Longrightarrow> \<exists>f.
      answers rt config (answered @ [m]) (frames @ [f]) (snd (al_sink l'))
      \<and> al_sequence l' = next_number (length (frames @ [f])) 0 \<and> al_microphone l' = al_microphone l \<and> fed emitted w w'"
    using one seq fed
    by (intro exI [of _ ?f]) (auto simp: output_stage_def sk logged_sel refresh_logged Let_def wrote refreshed
        count_sink_fed [OF assms(1) fed_refl] split: sum.splits if_splits)
  show "output_stage rt (logged sink) out (l, w) = Break (l', w') \<Longrightarrow> \<exists>f.
      answers rt config (answered @ [m]) (frames @ [f]) (snd (al_sink l')) \<and> fed emitted w w'"
    using one seq fed
    by (intro exI [of _ ?f]) (auto simp: output_stage_def sk logged_sel refresh_logged Let_def wrote refreshed
        aec_fail_def count_sink_fed [OF assms(1) fed_refl] record_aec_failure_fed [OF assms(1)]
        split: sum.splits if_splits)
qed

section \<open>The loop\<close>

definition pending :: "('s, 'a, 'f) aec_local \<Rightarrow> timed_frame list" where
  "pending l = (case al_microphone l of None \<Rightarrow> [] | Some m \<Rightarrow> [m])"

text \<open>At the head of the loop every frame taken has been answered, but one that is still in hand.\<close>

definition stream_kept ::
  "('x \<Rightarrow> timed_frame list) \<Rightarrow> ('x, 'a, 'f) runtime \<Rightarrow> session_config
     \<Rightarrow> ('x, 's \<times> sink_call list, 'a, 'f) aec_state \<Rightarrow> bool" where
  "stream_kept emitted rt config = (\<lambda>(l, w). \<exists>answered frames.
     answers rt config answered frames (snd (al_sink l)) \<and> al_sequence l = next_number (length frames) 0
     \<and> taken_from emitted (answered @ pending l) w)"

definition stream_left ::
  "('x \<Rightarrow> timed_frame list) \<Rightarrow> ('x, 'a, 'f) runtime \<Rightarrow> session_config
     \<Rightarrow> ('x, 's \<times> sink_call list, 'a, 'f) aec_state \<Rightarrow> bool" where
  "stream_left emitted rt config = (\<lambda>(l, w). \<exists>answered frames.
     answers rt config answered frames (snd (al_sink l)) \<and> taken_from emitted answered w)"

lemma stream_kept_left: "stream_kept emitted rt config st \<Longrightarrow> stream_left emitted rt config st"
  by (auto simp: stream_kept_def stream_left_def dest: taken_from_less)

lemma take_microphone_kept:
  assumes "feeds emitted (rt_others rt)" "stream_kept emitted rt config (l, w)"
    and "take_microphone rt (l, rt_others rt w) = ((l', w'), t)"
  shows "case t of
      TakeFrame m \<Rightarrow> al_microphone l' = None \<and> (\<exists>answered frames. answers rt config answered frames (snd (al_sink l'))
        \<and> al_sequence l' = next_number (length frames) 0 \<and> taken_from emitted (answered @ [m]) w')
    | _ \<Rightarrow> stream_kept emitted rt config (l', w')"
proof -
  from assms(2) obtain answered frames where
    kept: "answers rt config answered frames (snd (al_sink l))" "al_sequence l = next_number (length frames) 0"
      "taken_from emitted (answered @ pending l) w" by (auto simp: stream_kept_def)
  have taken: "taken_from emitted (answered @ pending l) (rt_others rt w)"
    using kept(3) fed_others [OF assms(1) fed_refl] by (rule taken_from_fed)
  show ?thesis
  proof (cases "al_microphone l")
    case (Some m)
    with assms(3) kept taken show ?thesis
      by (auto simp: take_microphone_def pending_def intro!: exI [of _ answered] exI [of _ frames])
  next
    case None
    obtain w1 r where pop: "pop_microphone (rt_others rt) (rt_others rt w) = (w1, r)" by fastforce
    have "taken_from emitted (answered @ (case r of Frame m \<Rightarrow> [m] | _ \<Rightarrow> [])) w1"
      using pop_microphone_taken [OF assms(1) _ pop] taken None by (simp add: pending_def)
    with assms(3) None pop kept(1,2) show ?thesis
      by (cases r) (auto simp: take_microphone_def pending_def stream_kept_def
          intro!: exI [of _ answered] exI [of _ frames])
  qed
qed

lemma aec_frame_kept:
  assumes "feeds emitted (rt_others rt)" "al_microphone l = None"
    and "answers rt config answered frames (snd (al_sink l))" "al_sequence l = next_number (length frames) 0"
    and "taken_from emitted (answered @ [m]) w" "aec_frame rt (logged sink) n m (l, w) = Some r"
  shows "r = Continue st \<Longrightarrow> stream_kept emitted rt config st" "r = Break st \<Longrightarrow> stream_left emitted rt config st"
proof -
  from aec_frame_plays [OF assms(1,6)] obtain l1 w1 where
    passed: "same_hand l l1" "fed emitted w w1"
    and r: "r = Break (l1, w1) \<or> (\<exists>out. played rt m (map (\<lambda>x. fst (pcm16 x)) out)
      \<and> r = output_stage rt (logged sink) out (l1, w1))"
    by (auto simp: passes_def)
  have l1: "answers rt config answered frames (snd (al_sink l1))" "al_sequence l1 = next_number (length frames) 0"
    "al_microphone l1 = None" "taken_from emitted (answered @ [m]) w1"
    using passed assms(2-5) taken_from_fed by (auto simp: same_hand_def same_sink_def)
  show "stream_kept emitted rt config st" if "r = Continue st"
  proof -
    obtain l2 w2 where st: "st = (l2, w2)" by fastforce
    from r that st obtain out where out: "played rt m (map (\<lambda>x. fst (pcm16 x)) out)"
      "output_stage rt (logged sink) out (l1, w1) = Continue (l2, w2)" by auto
    from output_stage_answers(1) [OF assms(1) out(1) l1(1,2) out(2)] obtain f where
      f: "answers rt config (answered @ [m]) (frames @ [f]) (snd (al_sink l2))"
        "al_sequence l2 = next_number (length (frames @ [f])) 0" "al_microphone l2 = al_microphone l1" "fed emitted w1 w2"
      by blast
    from taken_from_fed [OF l1(4) f(4)] f(1-3) l1(3) st show ?thesis
      unfolding stream_kept_def pending_def
      by (auto simp del: next_number.simps intro!: exI [of _ "answered @ [m]"] exI [of _ "frames @ [f]"])
  qed
  show "stream_left emitted rt config st" if "r = Break st"
  proof -
    obtain l2 w2 where st: "st = (l2, w2)" by fastforce
    from r that st consider "l2 = l1" "w2 = w1"
      | out where "played rt m (map (\<lambda>x. fst (pcm16 x)) out)" "output_stage rt (logged sink) out (l1, w1) = Break (l2, w2)"
      by auto
    then show ?thesis
    proof cases
      case 1
      with l1(1) st taken_from_less [OF l1(4)] show ?thesis by (auto simp: stream_left_def)
    next
      case 2
      from output_stage_answers(2) [OF assms(1) 2(1) l1(1,2) 2(2)] l1(4) st show ?thesis
        by (auto simp: stream_left_def dest: taken_from_fed)
    qed
  qed
qed

lemma aec_iteration_kept:
  assumes "feeds emitted (rt_others rt)" "stream_kept emitted rt config (l, w)"
  shows "aec_iteration rt (logged sink) n (l, w) = Continue st \<Longrightarrow> stream_kept emitted rt config st"
    "aec_iteration rt (logged sink) n (l, w) = Break (Some st) \<Longrightarrow> stream_left emitted rt config st"
proof -
  obtain l1 w1 t where take: "take_microphone rt (l, rt_others rt w) = ((l1, w1), t)" by (metis surj_pair)
  have stopped: "stream_left emitted rt config (l, rt_others rt w)"
    using assms(2) fed_others [OF assms(1) fed_refl, of w] taken_from_fed taken_from_less
    by (fastforce simp: stream_kept_def stream_left_def)
  note kept = take_microphone_kept [OF assms take]
  note framed = aec_frame_kept(1) [OF assms(1) _ _ _ _ _ refl] aec_frame_kept(2) [OF assms(1) _ _ _ _ _ refl]
  show "aec_iteration rt (logged sink) n (l, w) = Continue st \<Longrightarrow> stream_kept emitted rt config st"
    using kept
    by (auto simp: aec_iteration_def take Let_def split: if_splits taken.splits option.splits flow.splits
        intro: framed)
  show "aec_iteration rt (logged sink) n (l, w) = Break (Some st) \<Longrightarrow> stream_left emitted rt config st"
    using kept stopped
    by (auto simp: aec_iteration_def take Let_def split: if_splits taken.splits option.splits flow.splits
        intro: framed stream_kept_left)
qed

section \<open>The processing thread\<close>

fun is_write :: "sink_call \<Rightarrow> bool" where
  "is_write (CallWrite f) \<longleftrightarrow> True"
| "is_write _ \<longleftrightarrow> False"

lemma numbered_writes [simp]: "filter is_write (numbered k fs) = numbered k fs"
  by (induction fs arbitrary: k) simp_all

lemma session_writes: "filter is_write (session_calls calls) = filter is_write calls"
  by (induction calls) auto

lemma aec_first_frames_taken:
  assumes "feeds emitted (rt_others rt)" "taken_from emitted [] w" "aec_first_frames rt w = (w', r)"
  shows "taken_from emitted (case r of Inr (m, _) \<Rightarrow> [m] | Inl _ \<Rightarrow> []) w'"
proof -
  obtain w1 p where pop: "pop_microphone (rt_others rt) w = (w1, p)" by fastforce
  note taken = pop_microphone_taken [OF assms(1,2) pop]
  obtain w2 q where render: "pop_render (rt_others rt) w1 = (w2, q)" by fastforce
  have fed: "fed emitted w1 w2" "fed emitted w1 (rt_others rt w2)" "fed emitted w1 (rt_others rt (rt_others rt w2))"
    using pop_render_fed [OF assms(1) fed_refl render] fed_others [OF assms(1)] by auto
  show ?thesis
  proof (cases p)
    case (Frame m)
    with taken have m: "taken_from emitted [m] w1" by simp
    have "taken_from emitted ([] @ [m]) v \<Longrightarrow> taken_from emitted [] v" for v using taken_from_less by blast
    with taken_from_fed [OF m fed(1)] taken_from_fed [OF m fed(2)] taken_from_fed [OF m fed(3)] assms(3) pop render Frame
    show ?thesis by (auto simp: aec_first_frames_def Let_def split: pop_result.splits if_splits)
  qed (use taken assms(3) pop in \<open>auto simp: aec_first_frames_def\<close>)
qed

lemma on_snapshot_taken [simp]: "taken_from emitted taken (on_snapshot f w) = taken_from emitted taken w"
  by (simp add: taken_from_def)

lemma ready_taken:
  assumes "feeds emitted (rt_others rt)" "taken_from emitted taken w"
  shows "taken_from emitted taken (fst (ready_send (rt_others rt) k msg w))"
  using ready_send_fed [OF assms(1) fed_refl] taken_from_fed [OF assms(2)] by (metis prod.collapse)

lemma aec_give_up_taken:
  assumes "feeds emitted (rt_others rt)" "taken_from emitted [] w" "aec_give_up rt sink e s w = (s', w')"
  shows "taken_from emitted [] w'"
  using assms(2) ready_send_fed [OF assms(1) fed_refl] assms(3)
  by (auto simp: aec_give_up_def Let_def split: prod.splits intro: taken_from_fed)

lemma aec_startup_taken:
  assumes "feeds emitted (rt_others rt)" "taken_from emitted [] w"
  shows "case aec_startup rt (logged sink) sid (s, []) f w of
      Inl ((s', calls), w') \<Rightarrow> filter is_write calls = [] \<and> taken_from emitted [] w'
    | Inr st \<Rightarrow> stream_kept emitted rt (session_config_new sid) st"
proof -
  let ?cfg = "session_config_new sid"
  obtain s1 r1 where opened: "ao_open_session sink ?cfg s = (s1, r1)" by fastforce
  obtain s2 w2 r2 where refreshed: "refresh_sink_diagnostics sink (rt_others rt) s1 w = (s2, w2, r2)"
    by (rule prod_cases3)
  obtain w3 r3 where first: "aec_first_frames rt w2 = (w3, r3)" by fastforce
  have t2: "taken_from emitted [] w2"
    using assms(2) refresh_fed [OF assms(1) fed_refl refreshed] by (rule taken_from_fed)
  note t3 = aec_first_frames_taken [OF assms(1) t2 first]
  have given_up: "taken_from emitted [] v \<Longrightarrow> aec_give_up rt (logged sink) e (s', calls') v = ((s'', calls''), v')
      \<Longrightarrow> filter is_write calls'' = filter is_write calls' \<and> taken_from emitted [] v'" for e s' calls' v s'' calls'' v'
    using aec_give_up_taken [OF assms(1), of v "logged sink" e "(s', calls')" "(s'', calls'')" v']
    by (auto simp: aec_give_up_def logged_sel Let_def split: prod.splits)
  have sent: "taken_from emitted taken v \<Longrightarrow> ready_send (rt_others rt) k msg v = (v', b) \<Longrightarrow> taken_from emitted taken v'"
    for taken v k msg v' b using ready_send_fed [OF assms(1) fed_refl] taken_from_fed by blast
  show ?thesis
  proof (cases "\<exists>m render echo f'. r1 = Inr () \<and> r2 = Inr () \<and> r3 = Inr (m, render)
      \<and> ecf_create (rt_echo_factory rt) f = (f', Inr echo)")
    case True
    then obtain m render f' echo where r: "r1 = Inr ()" "r2 = Inr ()" "r3 = Inr (m, render)"
      "ecf_create (rt_echo_factory rt) f = (f', Inr echo)" by auto
    obtain w5 b where ready: "ready_send (rt_others rt) ProcessingWorker (Inr ()) (on_snapshot
        (\<lambda>sn. sn\<lparr>es_synchronization_origin_qpc_100ns := Some (timeline_origin m render)\<rparr>) (rt_others rt w3)) = (w5, b)"
      by fastforce
    have "taken_from emitted [m] (rt_others rt w3)"
      using t3 fed_others [OF assms(1) fed_refl, of w3] taken_from_fed r(3) by fastforce
    then have t5: "taken_from emitted [m] w5" using sent [OF _ ready] by simp
    then have "taken_from emitted [] w5" using taken_from_less [of emitted "[]"] by simp
    with t5 ready r show ?thesis
      by (auto simp: aec_startup_def opened refreshed first logged_sel refresh_logged Let_def stream_kept_def
          pending_def aec_local_start_def answers_def split: if_splits intro!: exI [of _ "[]"])
  next
    case False
    show ?thesis
    proof (cases r3)
      case (Inl e)
      with t3 have "taken_from emitted [] w3" by simp
      from given_up [OF this] False Inl ready_taken [OF assms] show ?thesis
        by (auto simp: aec_startup_def opened refreshed first logged_sel refresh_logged Let_def
            split: sum.splits prod.splits dest!: given_up [OF t2])
    next
      case (Inr c)
      with False ready_taken [OF assms] show ?thesis
        by (cases c) (auto simp: aec_startup_def opened refreshed first logged_sel refresh_logged Let_def
            split: sum.splits prod.splits dest!: given_up [OF t2])
    qed
  qed
qed

lemma aec_teardown_fed:
  assumes "feeds emitted (rt_others rt)" "aec_teardown rt (logged sink) (al_sink l) w = ((s', calls), w')"
  shows "session_calls calls = session_calls (snd (al_sink l)) @ [CallClose] \<and> fed emitted w w'"
proof -
  obtain s c where sk: "al_sink l = (s, c)" by fastforce
  obtain s1 w1 r where refreshed: "refresh_sink_diagnostics sink (rt_others rt) s w = (s1, w1, r)"
    by (rule prod_cases3)
  note fed = refresh_fed [OF assms(1) fed_refl refreshed]
  from assms(2) fed fed_others [OF assms(1) fed] record_aec_failure_fed [OF assms(1) fed_others [OF assms(1) fed]]
  show ?thesis
    by (auto simp: aec_teardown_def sk refresh_logged refreshed logged_sel Let_def split: prod.splits sum.splits if_splits)
qed



end
