(* ===== verification/Config.thy ===== *)
theory Config
  imports Engine_Types
begin

text \<open>
  The settings file of the tray application, \<^verbatim>\<open>src-tauri/src/config.rs\<close>: the persisted
  configuration and its validation, and the store that loads it and replaces it on disk.  The file system
  is modelled as a map from paths to contents in which any single operation may fail; JSON is written
  and read by a library, so the two conversions are parameters.
\<close>

section \<open>Paths and the file system\<close>

text \<open>
  A path is the list of its normal components.  \<^verbatim>\<open>with_extension\<close> replaces what follows the last dot of
  the file name; a dot at its beginning does not count.
\<close>

type_synonym path = "str list"

definition path_parent :: "path \<Rightarrow> path option" where
  "path_parent p = (if p = [] then None else Some (butlast p))"

definition file_stem :: "str \<Rightarrow> str" where
  "file_stem name =
    (if 46 \<in> set (tl name) then rev (tl (dropWhile (\<lambda>c. c \<noteq> 46) (rev name))) else name)"

definition with_extension :: "path \<Rightarrow> string \<Rightarrow> path" where
  "with_extension p extension =
    (if p = [] then [] else butlast p @ [file_stem (last p) @ 46 # lit extension])"

text \<open>
  \<open>d_faults k\<close> is the error the \<open>k\<close>-th operation from the start fails with, if it does.  A write that
  fails leaves \<open>d_torn\<close> behind.  Directories exist once \<^verbatim>\<open>create_dir_all\<close> has returned.
\<close>

record 'b disk =
  d_files :: "path \<rightharpoonup> 'b"
  d_step :: nat
  d_faults :: "nat \<Rightarrow> str option"
  d_torn :: "'b option"

datatype io_error = NotFound | OtherIo str

definition io_message :: "io_error \<Rightarrow> message" where
  "io_message e = (case e of NotFound \<Rightarrow> Text ''entity not found'' | OtherIo m \<Rightarrow> Shown m)"

text \<open>One operation: it either fails with the scripted fault or does its work.\<close>

definition disk_op :: "('b disk \<Rightarrow> 'b disk \<times> 'r) \<Rightarrow> (str \<Rightarrow> 'b disk \<Rightarrow> 'b disk \<times> 'r) \<Rightarrow> 'b disk \<Rightarrow> 'b disk \<times> 'r" where
  "disk_op work fail d =
    (let fault = d_faults d (d_step d); d = d\<lparr>d_step := Suc (d_step d)\<rparr>
     in case fault of None \<Rightarrow> work d | Some e \<Rightarrow> fail e d)"

definition fs_read :: "path \<Rightarrow> 'b disk \<Rightarrow> 'b disk \<times> (io_error + 'b)" where
  "fs_read p = disk_op
    (\<lambda>d. (d, case d_files d p of None \<Rightarrow> Inl NotFound | Some b \<Rightarrow> Inr b))
    (\<lambda>e d. (d, Inl (OtherIo e)))"

definition fs_create_dir_all :: "path \<Rightarrow> 'b disk \<Rightarrow> 'b disk \<times> (io_error + unit)" where
  "fs_create_dir_all p = disk_op (\<lambda>d. (d, Inr ())) (\<lambda>e d. (d, Inl (OtherIo e)))"

definition fs_write :: "path \<Rightarrow> 'b \<Rightarrow> 'b disk \<Rightarrow> 'b disk \<times> (io_error + unit)" where
  "fs_write p b = disk_op
    (\<lambda>d. (d\<lparr>d_files := (d_files d)(p := Some b)\<rparr>, Inr ()))
    (\<lambda>e d. (d\<lparr>d_files := (d_files d)(p := d_torn d)\<rparr>, Inl (OtherIo e)))"

definition fs_exists :: "path \<Rightarrow> 'b disk \<Rightarrow> 'b disk \<times> bool" where
  "fs_exists p = disk_op (\<lambda>d. (d, d_files d p \<noteq> None)) (\<lambda>e d. (d, False))"

definition fs_remove_file :: "path \<Rightarrow> 'b disk \<Rightarrow> 'b disk \<times> (io_error + unit)" where
  "fs_remove_file p = disk_op
    (\<lambda>d. if d_files d p = None then (d, Inl NotFound)
         else (d\<lparr>d_files := (d_files d)(p := None)\<rparr>, Inr ()))
    (\<lambda>e d. (d, Inl (OtherIo e)))"

definition fs_rename :: "path \<Rightarrow> path \<Rightarrow> 'b disk \<Rightarrow> 'b disk \<times> (io_error + unit)" where
  "fs_rename p q = disk_op
    (\<lambda>d. case d_files d p of
           None \<Rightarrow> (d, Inl NotFound)
         | Some b \<Rightarrow> (d\<lparr>d_files := (d_files d)(p := None, q := Some b)\<rparr>, Inr ()))
    (\<lambda>e d. (d, Inl (OtherIo e)))"

section \<open>The configuration\<close>

definition CONFIG_VERSION :: u16 where "CONFIG_VERSION = 1"

datatype config_error =
  ConfigIo message | ConfigInvalid message | ConfigParse message | UnsupportedVersion u16

fun config_error_message :: "config_error \<Rightarrow> message" where
  "config_error_message (ConfigIo m) = Pieces [Text ''configuration I/O failed: '', m]"
| "config_error_message (ConfigInvalid m) = Pieces [Text ''invalid configuration: '', m]"
| "config_error_message (ConfigParse m) = Pieces [Text ''configuration JSON is invalid: '', m]"
| "config_error_message (UnsupportedVersion v) =
     Pieces [Text ''unsupported configuration version: '', Number (unat v)]"

record persisted_configuration =
  pc_version :: u16
  pc_mode :: processing_mode
  pc_microphone_endpoint_id :: str
  pc_microphone_uses_default :: bool
  pc_render_endpoint_id :: "str option"
  pc_render_uses_default :: bool
  pc_cable_input_endpoint_id :: str
  pc_cable_output_endpoint_id :: str

definition validate_id :: "string \<Rightarrow> str \<Rightarrow> config_error + unit" where
  "validate_id role i =
    (if trim i = [] then Inl (ConfigInvalid (Pieces [Text role, Text '' endpoint ID must not be empty'']))
     else Inr ())"

definition persisted_validate :: "persisted_configuration \<Rightarrow> config_error + unit" where
  "persisted_validate c =
    (if pc_version c \<noteq> CONFIG_VERSION then Inl (UnsupportedVersion (pc_version c))
     else res_bind (validate_id ''microphone'' (pc_microphone_endpoint_id c)) (\<lambda>_.
          res_bind (validate_id ''CABLE Input'' (pc_cable_input_endpoint_id c)) (\<lambda>_.
          res_bind (validate_id ''CABLE Output'' (pc_cable_output_endpoint_id c)) (\<lambda>_.
          res_bind (case pc_render_endpoint_id c of
              Some render \<Rightarrow> validate_id ''render'' render | None \<Rightarrow> Inr ()) (\<lambda>_.
          if pc_mode c = Aec \<and> pc_render_endpoint_id c = None then
            Inl (ConfigInvalid (Text ''AEC mode requires a physical render endpoint ID''))
          else Inr ())))))"

section \<open>The store\<close>

text \<open>The store is the path of its file; \<open>'b\<close> is what a file holds.\<close>

record config_store =
  cs_path :: path

text \<open>The two conversions of the JSON library.\<close>

record 'b codec =
  to_json :: "persisted_configuration \<Rightarrow> str + 'b"
  from_json :: "'b \<Rightarrow> str + persisted_configuration"

definition config_load ::
  "'b codec \<Rightarrow> config_store \<Rightarrow> 'b disk \<Rightarrow> 'b disk \<times> (config_error + persisted_configuration option)" where
  "config_load codec store d =
    (case fs_read (cs_path store) d of
       (d, Inl NotFound) \<Rightarrow> (d, Inr None)
     | (d, Inl e) \<Rightarrow> (d, Inl (ConfigIo (io_message e)))
     | (d, Inr bytes) \<Rightarrow>
         (d, res_bind (map_err (\<lambda>e. ConfigParse (Shown e)) (from_json codec bytes)) (\<lambda>c.
             res_bind (persisted_validate c) (\<lambda>_. Inr (Some c)))))"

definition replace_file :: "path \<Rightarrow> path \<Rightarrow> 'b disk \<Rightarrow> 'b disk \<times> (config_error + unit)" where
  "replace_file temporary_path destination d =
    (let backup_path = with_extension destination ''json.bak'';
         (d, exists) = fs_exists destination d;
         (d, backed_up) =
           (if exists then
              let (d, _) = fs_remove_file backup_path d in fs_rename destination backup_path d
            else (d, Inr ()))
     in case backed_up of
          Inl e \<Rightarrow> (d, Inl (ConfigIo (io_message e)))
        | Inr _ \<Rightarrow>
          (case fs_rename temporary_path destination d of
             (d, Inr _) \<Rightarrow> (fst (fs_remove_file backup_path d), Inr ())
           | (d, Inl e) \<Rightarrow>
             let (d, exists) = fs_exists destination d;
                 d = (if exists then fst (fs_remove_file destination d) else d);
                 (d, exists) = fs_exists backup_path d;
                 d = (if exists then fst (fs_rename backup_path destination d) else d)
             in (d, Inl (ConfigIo (io_message e)))))"

definition config_save ::
  "'b codec \<Rightarrow> config_store \<Rightarrow> persisted_configuration \<Rightarrow> 'b disk \<Rightarrow> 'b disk \<times> (config_error + unit)" where
  "config_save codec store c d =
    (case persisted_validate c of
       Inl e \<Rightarrow> (d, Inl e)
     | Inr _ \<Rightarrow>
       (case path_parent (cs_path store) of
          None \<Rightarrow> (d, Inl (ConfigIo (Text ''configuration path has no parent directory'')))
        | Some parent \<Rightarrow>
          (case fs_create_dir_all parent d of
             (d, Inl e) \<Rightarrow> (d, Inl (ConfigIo (io_message e)))
           | (d, Inr _) \<Rightarrow>
             let temporary_path = with_extension (cs_path store) ''json.tmp'' in
             (case to_json codec c of
                Inl e \<Rightarrow> (d, Inl (ConfigParse (Shown e)))
              | Inr bytes \<Rightarrow>
                (case fs_write temporary_path bytes d of
                   (d, Inl e) \<Rightarrow> (d, Inl (ConfigIo (io_message e)))
                 | (d, Inr _) \<Rightarrow> replace_file temporary_path (cs_path store) d)))))"

section \<open>The three paths are different\<close>

lemma file_stem_append:
  assumes "46 \<notin> set (tl b)" "b = 46 # t"
  shows "a \<noteq> [] \<Longrightarrow> file_stem (a @ b) = a"
  using assms by (cases a) (simp_all add: file_stem_def dropWhile_append)

lemma stem_extension_neq: "file_stem name @ 46 # s @ 46 # t \<noteq> name" if "46 \<notin> set t"
proof
  assume eq: "file_stem name @ 46 # s @ 46 # t = name"
  have "file_stem ((file_stem name @ 46 # s) @ 46 # t) = file_stem name @ 46 # s"
    by (rule file_stem_append) (use that in simp_all)
  with eq show False by (metis append.assoc append_Cons append_self_conv list.distinct(1))
qed

lemma paths_distinct:
  assumes "p \<noteq> []"
  shows "with_extension p ''json.tmp'' \<noteq> p" "with_extension p ''json.bak'' \<noteq> p"
    "with_extension p ''json.tmp'' \<noteq> with_extension p ''json.bak''"
proof -
  have split: "lit ''json.tmp'' = lit ''json'' @ 46 # lit ''tmp''" "lit ''json.bak'' = lit ''json'' @ 46 # lit ''bak''"
    "46 \<notin> set (lit ''tmp'')" "46 \<notin> set (lit ''bak'')" "lit ''tmp'' \<noteq> lit ''bak''"
    by (simp_all add: lit_def)
  have last: "butlast p @ [x] = p \<longleftrightarrow> x = last p" for x
    using assms by (metis append_butlast_last_id last_snoc)
  show "with_extension p ''json.tmp'' \<noteq> p" "with_extension p ''json.bak'' \<noteq> p"
    using assms split stem_extension_neq by (auto simp: with_extension_def last)
  show "with_extension p ''json.tmp'' \<noteq> with_extension p ''json.bak''"
    using assms split by (simp add: with_extension_def)
qed

section \<open>Loading gives back what was saved\<close>

lemmas fs_defs = fs_read_def fs_create_dir_all_def fs_write_def fs_exists_def fs_remove_file_def
  fs_rename_def disk_op_def

lemma replace_file_ok:
  assumes "replace_file t p d = (d', Inr ())" "t \<noteq> p" "with_extension p ''json.bak'' \<noteq> p"
    and "t \<noteq> with_extension p ''json.bak''"
  shows "d_files d' p = d_files d t"
  using assms
  by (auto simp: replace_file_def fs_defs Let_def split: option.splits if_splits prod.splits sum.splits)

lemma replace_file_ok_temporary:
  "replace_file t p d = (d', Inr ()) \<Longrightarrow> d_files d t \<noteq> None \<or> d_files d p \<noteq> None"
  by (auto simp: replace_file_def fs_defs Let_def split: option.splits if_splits prod.splits sum.splits)

text \<open>The JSON library reads back what it wrote.\<close>

definition codec_ok :: "'b codec \<Rightarrow> bool" where
  "codec_ok codec \<longleftrightarrow> (\<forall>c. case to_json codec c of Inl _ \<Rightarrow> True | Inr b \<Rightarrow> from_json codec b = Inr c)"

lemma config_save_ok:
  assumes "config_save codec store c d = (d', Inr ())"
  shows "\<exists>b. to_json codec c = Inr b \<and> d_files d' (cs_path store) = Some b \<and> persisted_validate c = Inr ()"
proof -
  let ?t = "with_extension (cs_path store) ''json.tmp''"
  from assms obtain b d1 d2 where valid: "persisted_validate c = Inr ()" and p: "cs_path store \<noteq> []"
    and json: "to_json codec c = Inr b"
    and wrote: "fs_write ?t b d1 = (d2, Inr ())" and replaced: "replace_file ?t (cs_path store) d2 = (d', Inr ())"
    by (auto simp: config_save_def path_parent_def Let_def split: sum.splits prod.splits option.splits if_splits)
  from wrote have "d_files d2 ?t = Some b"
    by (auto simp: fs_defs Let_def split: option.splits)
  with replace_file_ok [OF replaced] paths_distinct [OF p] have "d_files d' (cs_path store) = Some b"
    by simp
  with valid json show ?thesis by blast
qed

text \<open>The settings survive: when a save succeeds, whatever operations on the way failed and were tolerated, the
  next load that can read the file returns exactly the configuration saved.\<close>

theorem config_store_roundtrip:
  assumes "codec_ok codec" "config_save codec store c d = (d', Inr ())" "d_faults d' (d_step d') = None"
  shows "snd (config_load codec store d') = Inr (Some c)"
proof -
  from config_save_ok [OF assms(2)] obtain b where b: "to_json codec c = Inr b"
    "d_files d' (cs_path store) = Some b" "persisted_validate c = Inr ()" by blast
  then have "from_json codec b = Inr c"
    using assms(1) by (auto simp: codec_ok_def dest: spec [of _ c])
  with b assms(3) show ?thesis
    by (simp add: config_load_def fs_read_def disk_op_def Let_def)
qed

section \<open>A save that fails\<close>

definition single_fault :: "'b disk \<Rightarrow> bool" where
  "single_fault d \<longleftrightarrow> (\<exists>k. \<forall>j. j \<noteq> k \<longrightarrow> d_faults d j = None)"

lemma replace_file_failed:
  assumes "\<And>j. j \<noteq> k \<Longrightarrow> d_faults d j = None" "replace_file t p d = (d', Inl e)"
    and "t \<noteq> p" "with_extension p ''json.bak'' \<noteq> p" "t \<noteq> with_extension p ''json.bak''"
    and "d_files d t \<noteq> None" "d_files d p \<noteq> None \<or> d_files d (with_extension p ''json.bak'') = None"
  shows "d_files d' p = d_files d p"
proof -
  have fault: "d_faults d j = Some x \<Longrightarrow> j = k" for j x
    using assms(1) [of j] by auto
  show ?thesis
    using assms(2-7)
    by (auto simp: replace_file_def fs_defs Let_def split: option.splits if_splits prod.splits sum.splits
        dest!: fault)
qed

text \<open>C21
  A failed save loses nothing: when at most one operation of the file system fails and the save reports an
  error, the settings file holds exactly what it held before (given that it existed, or that no stale backup
  lies beside it, which would be restored in its place).\<close>

theorem failed_save_keeps_configuration:
  assumes "single_fault d" "config_save codec store c d = (d', Inl e)"
    and "d_files d (cs_path store) \<noteq> None \<or> d_files d (with_extension (cs_path store) ''json.bak'') = None"
  shows "d_files d' (cs_path store) = d_files d (cs_path store)"
proof (cases "cs_path store = []")
  case True
  with assms(2) show ?thesis
    by (auto simp: config_save_def path_parent_def split: sum.splits)
next
  case False
  let ?t = "with_extension (cs_path store) ''json.tmp''"
  note distinct = paths_distinct [OF False]
  obtain k where k: "\<And>j. j \<noteq> k \<Longrightarrow> d_faults d j = None"
    using assms(1) by (auto simp: single_fault_def)
  show ?thesis
  proof (cases "\<exists>b d2. d_faults d2 = d_faults d \<and> d_files d2 = (d_files d)(?t := Some b)
      \<and> replace_file ?t (cs_path store) d2 = (d', Inl e)")
    case True
    then obtain b d2 where d2: "d_faults d2 = d_faults d" "d_files d2 = (d_files d)(?t := Some b)"
      "replace_file ?t (cs_path store) d2 = (d', Inl e)" by blast
    have "d_files d' (cs_path store) = d_files d2 (cs_path store)"
      by (rule replace_file_failed [OF _ d2(3)]) (use k d2 distinct assms(3) in auto)
    with d2 distinct show ?thesis by simp
  next
    case not_replaced: False
    with assms(2) distinct show ?thesis
      by (auto simp: config_save_def fs_defs path_parent_def Let_def split: sum.splits prod.splits option.splits if_splits)
  qed
qed

section \<open>A concrete disk\<close>

definition some_configuration :: "str \<Rightarrow> persisted_configuration" where
  "some_configuration microphone = \<lparr>pc_version = 1, pc_mode = Aec, pc_microphone_endpoint_id = microphone,
     pc_microphone_uses_default = True, pc_render_endpoint_id = Some [82], pc_render_uses_default = False,
     pc_cable_input_endpoint_id = [73], pc_cable_output_endpoint_id = [79]\<rparr>"

definition plain_codec :: "persisted_configuration codec" where
  "plain_codec = \<lparr>to_json = Inr, from_json = Inr\<rparr>"

definition some_store :: config_store where
  "some_store = \<lparr>cs_path = [lit ''mini-aec'', lit ''config.json'']\<rparr>"

text \<open>A disk that holds a configuration; the operations in \<open>faults\<close> fail.\<close>

definition disk_with :: "nat set \<Rightarrow> persisted_configuration disk" where
  "disk_with faults = \<lparr>d_files = [cs_path some_store \<mapsto> some_configuration [77]], d_step = 0,
     d_faults = (\<lambda>k. if k \<in> faults then Some (lit ''denied'') else None), d_torn = None\<rparr>"

lemma some_configuration_valid: "m \<noteq> [] \<Longrightarrow> list_all (\<lambda>c. \<not> is_whitespace c) m \<Longrightarrow>
    persisted_validate (some_configuration m) = Inr ()"
  using blank_iff [of m] unfolding blank_def
  by (cases m) (auto simp: persisted_validate_def some_configuration_def CONFIG_VERSION_def validate_id_def
      trim_def [of "[_]"] is_whitespace_def list_all_iff)

lemmas disk_simps = config_save_def path_parent_def replace_file_def fs_defs Let_def disk_with_def
  plain_codec_def some_store_def with_extension_def

lemma config_store_roundtrip_witness:
  "snd (config_load plain_codec some_store
     (fst (config_save plain_codec some_store (some_configuration [65]) (disk_with {})))) =
   Inr (Some (some_configuration [65]))"
proof -
  have "persisted_validate (some_configuration [65]) = Inr ()"
    by (rule some_configuration_valid) (simp_all add: is_whitespace_def)
  then obtain d where saved:
    "config_save plain_codec some_store (some_configuration [65]) (disk_with {}) = (d, Inr ())"
    and "d_faults d = (\<lambda>k. None)"
    by (simp add: disk_simps lit_def file_stem_def)
  moreover have "codec_ok plain_codec" by (simp add: codec_ok_def plain_codec_def)
  ultimately show ?thesis using config_store_roundtrip [of plain_codec some_store] by simp
qed

lemma failed_save_keeps_configuration_witness:
  "\<exists>d e. config_save plain_codec some_store (some_configuration [65]) (disk_with {5}) = (d, Inl e)
    \<and> d_files d (cs_path some_store) = Some (some_configuration [77])"
proof -
  have "persisted_validate (some_configuration [65]) = Inr ()"
    by (rule some_configuration_valid) (simp_all add: is_whitespace_def)
  then obtain d e where failed:
    "config_save plain_codec some_store (some_configuration [65]) (disk_with {5}) = (d, Inl e)"
    by (simp add: disk_simps lit_def file_stem_def)
  have single: "single_fault (disk_with {5})"
    by (auto simp: single_fault_def disk_with_def intro!: exI [of _ 5])
  have "d_files (disk_with {5}) (cs_path some_store) = Some (some_configuration [77])"
    by (simp add: disk_with_def)
  with failed_save_keeps_configuration [OF single failed] failed show ?thesis by simp
qed

end
