(* ===== verification/Controller.thy ===== *)
theory Controller
  imports Runtime_Shared Echo
begin

text \<open>
  The controller of the engine, \<^verbatim>\<open>Engine\<close> in \<^verbatim>\<open>crates/mini-aec-engine/src/runtime.rs\<close>:
  \<^verbatim>\<open>command\<close>, \<^verbatim>\<open>start\<close>, \<^verbatim>\<open>stop\<close>, \<^verbatim>\<open>snapshot\<close>, the startup of a bypass and of
  an AEC run, the cleanup of the previous run, and the helpers that wait for, join and spawn workers.

  The thread library and the clock are the record \<open>host\<close>.  The bodies of the threads are the workers of
  the other theories; what they do while the controller runs is part of \<open>ho_others\<close>, which is applied
  before every atomic action of the controller.  The controller's own calls do not overlap.  \<open>None\<close> is
  a call that does not return: the fuel for a joining loop runs out, or \<^verbatim>\<open>expect\<close> panics.
\<close>

definition JOIN_TIMEOUT_ms :: nat where "JOIN_TIMEOUT_ms = 3000"

section \<open>Threads and the controller's state\<close>

text \<open>What a thread is spawned to run: the worker with its arguments.\<close>

datatype task =
    SinkTask output_pair session_id
  | CaptureTask source_descriptor
  | AecInputTask input_role source_descriptor
  | AecProcessingTask output_pair session_id

text \<open>
  \<open>ho_spawn\<close> starts a thread or reports the error of the operating system; \<open>ho_is_finished\<close> and
  \<open>ho_panicked\<close> are \<^verbatim>\<open>JoinHandle::is_finished\<close> and the outcome of \<^verbatim>\<open>join\<close>;
  \<open>ho_sender_dropped\<close> tells that a worker's end of its readiness channel is gone; \<open>ho_now\<close> is
  \<^verbatim>\<open>Instant::now\<close> in milliseconds and \<open>ho_sleep\<close> what happens during a sleep of 5 ms.
\<close>

record ('x, 'h) host =
  ho_others :: "'x world \<Rightarrow> 'x world"
  ho_clock :: "'x world \<Rightarrow> nat option"
  ho_pid :: u32
  ho_now :: "'x world \<Rightarrow> nat"
  ho_sleep :: "'x world \<Rightarrow> 'x world"
  ho_spawn :: "task \<Rightarrow> 'x world \<Rightarrow> 'x world \<times> (str + 'h)"
  ho_is_finished :: "'h \<Rightarrow> 'x world \<Rightarrow> bool"
  ho_panicked :: "'h \<Rightarrow> 'x world \<Rightarrow> bool"
  ho_sender_dropped :: "worker \<Rightarrow> 'x world \<Rightarrow> bool"

text \<open>\<^verbatim>\<open>RunHandles\<close>; the queues of the run are in the world, the handles tell which of them it has.\<close>

record 'h run_handles =
  rh_queue :: bool
  rh_microphone_queue :: bool
  rh_render_queue :: bool
  rh_capture :: "'h option"
  rh_render :: "'h option"
  rh_sink :: "'h option"
  rh_processing :: "'h option"

record ('x, 'h, 'i, 's, 'f, 'a) engine =
  en_source_factory :: "'i audio_input_factory"
  en_sink_factory :: "'s audio_output_factory"
  en_echo_factory :: "('f, 'a) echo_factory option"
  en_world :: "'x world"
  en_run :: "'h run_handles option"

definition engine_new ::
  "'x \<Rightarrow> 'i audio_input_factory \<Rightarrow> 's audio_output_factory \<Rightarrow> ('x, 'h, 'i, 's, 'f, 'a) engine" where
  "engine_new x source sink = \<lparr>en_source_factory = source, en_sink_factory = sink,
     en_echo_factory = None, en_world = initial_world x, en_run = None\<rparr>"

definition engine_new_with_aec ::
  "'x \<Rightarrow> 'i audio_input_factory \<Rightarrow> 's audio_output_factory \<Rightarrow> ('f, 'a) echo_factory
     \<Rightarrow> ('x, 'h, 'i, 's, 'f, 'a) engine" where
  "engine_new_with_aec x source sink echo = (engine_new x source sink)\<lparr>en_echo_factory := Some echo\<rparr>"

text \<open>A call on the controller that may fail, and \<^verbatim>\<open>?\<close> between two of them.\<close>

type_synonym ('e, 'r) call = "('e \<times> (engine_error + 'r)) option"

definition try_call :: "('e, 'r) call \<Rightarrow> ('e \<Rightarrow> 'r \<Rightarrow> ('e, 'q) call) \<Rightarrow> ('e, 'q) call" where
  "try_call m f =
    (case m of None \<Rightarrow> None | Some (en, Inl e) \<Rightarrow> Some (en, Inl e) | Some (en, Inr r) \<Rightarrow> f en r)"

lemma try_call_simps [simp]:
  "try_call None f = None" "try_call (Some (en, Inl e)) f = Some (en, Inl e)"
  "try_call (Some (en, Inr r)) f = f en r"
  by (simp_all add: try_call_def)

lemma try_call_Some: "try_call m f = Some (en, r) \<longleftrightarrow>
    (\<exists>e. m = Some (en, Inl e) \<and> r = Inl e) \<or> (\<exists>en' q. m = Some (en', Inr q) \<and> f en' q = Some (en, r))"
  by (auto simp: try_call_def split: option.splits prod.splits sum.splits)

section \<open>Waiting for workers\<close>

definition wait_ready ::
  "('x, 'h) host \<Rightarrow> worker \<Rightarrow> string \<Rightarrow> 'x world \<Rightarrow> 'x world \<times> (engine_error + unit)" where
  "wait_ready h k name w =
    (let w = ho_others h w in
     (w, case rc_message (w_ready w k) of
           Some result \<Rightarrow> result
         | None \<Rightarrow> Inl (engine_error_new EK_WorkerFailure (Pieces [Text name,
             (if ho_sender_dropped h k w then Text '' ended before reporting readiness''
              else Text '' did not become ready within 5s'')]))))"

definition join_turn :: "('x, 'h) host \<Rightarrow> 'h \<Rightarrow> nat \<Rightarrow> 'x world \<Rightarrow> ('x world, 'x world) flow" where
  "join_turn h handle deadline w =
    (let w = ho_others h w in
     if ho_is_finished h handle w then Break w
     else if ho_now h w < deadline then Continue (ho_sleep h w)
     else Break w)"

definition join_finite ::
  "('x, 'h) host \<Rightarrow> nat \<Rightarrow> 'h \<Rightarrow> string \<Rightarrow> 'x world \<Rightarrow> ('x world, unit) call" where
  "join_finite h fuel handle name w =
    (case run_loop (join_turn h handle (ho_now h w + JOIN_TIMEOUT_ms)) fuel w of
       None \<Rightarrow> None
     | Some w \<Rightarrow>
         let w = ho_others h w in
         Some (w,
           if \<not> ho_is_finished h handle w then
             Inl (engine_error_new EK_StopTimeout (Pieces [Text name,
               Text '' worker did not stop within 3s'']))
           else if ho_panicked h handle w then
             Inl (engine_error_new EK_WorkerFailure (Pieces [Text name, Text '' worker panicked'']))
           else Inr ()))"

text \<open>One handle of a run; \<open>get_or_insert\<close> keeps the first error.\<close>

definition join_slot ::
  "('x, 'h) host \<Rightarrow> nat \<Rightarrow> string \<Rightarrow> ('x world \<Rightarrow> 'x world) \<Rightarrow> 'h option
     \<Rightarrow> 'x world \<times> engine_error option \<Rightarrow> ('x world \<times> engine_error option) option" where
  "join_slot h fuel name on_error slot = (\<lambda>(w, first_error).
    (case slot of
       None \<Rightarrow> Some (w, first_error)
     | Some handle \<Rightarrow>
       (case join_finite h fuel handle name w of
          None \<Rightarrow> None
        | Some (w, Inr _) \<Rightarrow> Some (w, first_error)
        | Some (w, Inl e) \<Rightarrow>
            Some (on_error w, Some (case first_error of None \<Rightarrow> e | Some f \<Rightarrow> f)))))"

definition fail_queues :: "('x, 'h) host \<Rightarrow> 'h run_handles \<Rightarrow> 'x world \<Rightarrow> 'x world" where
  "fail_queues h rh w =
    (let w = (if rh_queue rh then
                let w = ho_others h w in w\<lparr>w_queue := frame_queue_fail (w_queue w)\<rparr> else w)
     in if rh_microphone_queue rh then
          let w = ho_others h w in w\<lparr>w_microphone_queue := timed_queue_fail (w_microphone_queue w)\<rparr>
        else w)"

definition fail_render_queue :: "('x, 'h) host \<Rightarrow> 'h run_handles \<Rightarrow> 'x world \<Rightarrow> 'x world" where
  "fail_render_queue h rh w =
    (if rh_render_queue rh then
       let w = ho_others h w in w\<lparr>w_render_queue := timed_queue_fail (w_render_queue w)\<rparr>
     else w)"

text \<open>Without a capture thread nobody else finishes the bypass queue.\<close>

definition finish_unproduced :: "('x, 'h) host \<Rightarrow> 'h run_handles \<Rightarrow> 'x world \<Rightarrow> 'x world" where
  "finish_unproduced h rh w =
    (if rh_capture rh = None \<and> rh_queue rh then
       let w = ho_others h w in w\<lparr>w_queue := frame_queue_finish_producer (w_queue w)\<rparr>
     else w)"

definition join_run ::
  "('x, 'h) host \<Rightarrow> nat \<Rightarrow> 'h run_handles \<Rightarrow> 'x world
     \<Rightarrow> ('x world \<times> 'h run_handles, unit) call" where
  "join_run h fuel rh w =
    map_option
      (\<lambda>(w, first_error).
        ((w, rh\<lparr>rh_capture := None, rh_render := None, rh_sink := None, rh_processing := None\<rparr>),
         (case first_error of None \<Rightarrow> Inr () | Some e \<Rightarrow> Inl e)))
      (Option.bind (join_slot h fuel ''capture'' (fail_queues h rh) (rh_capture rh)
          (finish_unproduced h rh w, None)) (\<lambda>st.
       Option.bind (join_slot h fuel ''render'' (fail_render_queue h rh) (rh_render rh) st) (\<lambda>st.
       Option.bind (join_slot h fuel ''sink'' id (rh_sink rh) st) (\<lambda>st.
       join_slot h fuel ''processing'' id (rh_processing rh) st))))"

section \<open>Cleaning up, stopping, looking\<close>

definition clear_run_queues :: "('x, 'h) host \<Rightarrow> 'h run_handles \<Rightarrow> 'x world \<Rightarrow> 'x world" where
  "clear_run_queues h rh w =
    (let w = (if rh_queue rh then
                let w = ho_others h w; (q, metrics) = frame_queue_clear (w_queue w)
                in update_queue (ho_others h) metrics (w\<lparr>w_queue := q\<rparr>)
              else w);
         w = (if rh_microphone_queue rh then
                let w = ho_others h w in w\<lparr>w_microphone_queue := timed_queue_clear (w_microphone_queue w)\<rparr>
              else w)
     in if rh_render_queue rh then
          let w = ho_others h w in w\<lparr>w_render_queue := timed_queue_clear (w_render_queue w)\<rparr>
        else w)"

definition cleanup_previous_run ::
  "('x, 'h) host \<Rightarrow> nat \<Rightarrow> ('x, 'h, 'i, 's, 'f, 'a) engine
     \<Rightarrow> (('x, 'h, 'i, 's, 'f, 'a) engine, unit) call" where
  "cleanup_previous_run h fuel en =
    (let w = (ho_others h (en_world en))\<lparr>w_stop_requested := True\<rparr> in
     case en_run en of
       None \<Rightarrow> Some (en\<lparr>en_world := w\<rparr>, Inr ())
     | Some rh \<Rightarrow>
       (case join_run h fuel rh w of
          None \<Rightarrow> None
        | Some ((w, rh), Inl e) \<Rightarrow> Some (en\<lparr>en_world := w, en_run := None\<rparr>, Inl e)
        | Some ((w, rh), Inr _) \<Rightarrow>
            Some (en\<lparr>en_world := clear_run_queues h rh w, en_run := None\<rparr>, Inr ())))"

definition engine_stop ::
  "('x, 'h) host \<Rightarrow> nat \<Rightarrow> ('x, 'h, 'i, 's, 'f, 'a) engine
     \<Rightarrow> (('x, 'h, 'i, 's, 'f, 'a) engine, unit) call" where
  "engine_stop h fuel en =
    (let w = ho_others h (en_world en); state = es_state (w_snapshot w) in
     if state = Stopped \<and> en_run en = None then Some (en\<lparr>en_world := w\<rparr>, Inr ())
     else
       let w = (if state \<noteq> EngineFailed
                then on_snapshot (\<lambda>s. s\<lparr>es_state := Stopping\<rparr>) (ho_others h w) else w);
           w = (ho_others h w)\<lparr>w_stop_requested := True\<rparr>
       in try_call (cleanup_previous_run h fuel (en\<lparr>en_world := w\<rparr>)) (\<lambda>en _.
            Some (en\<lparr>en_world := on_snapshot (\<lambda>s. s\<lparr>es_state := Stopped, es_queue_depth := 0,
              es_render_queue_depth := 0\<rparr>) (ho_others h (en_world en))\<rparr>, Inr ())))"

text \<open>\<^verbatim>\<open>Engine::snapshot\<close>: a copy of the shared snapshot with the metrics of the live queues put in.\<close>

definition with_queue_metrics :: "queue_metrics \<Rightarrow> engine_snapshot \<Rightarrow> engine_snapshot" where
  "with_queue_metrics m s = s\<lparr>es_queue_depth := qm_depth m, es_queue_high_water := qm_high_water m,
     es_queue_overflows := qm_overflows m, es_discarded_frames := qm_discarded m\<rparr>"

definition with_render_metrics :: "queue_metrics \<Rightarrow> engine_snapshot \<Rightarrow> engine_snapshot" where
  "with_render_metrics m s = s\<lparr>es_render_queue_depth := qm_depth m,
     es_render_queue_high_water := qm_high_water m, es_render_queue_overflows := qm_overflows m,
     es_render_discarded_frames := qm_discarded m\<rparr>"

definition engine_snapshot_now ::
  "('x, 'h) host \<Rightarrow> ('x, 'h, 'i, 's, 'f, 'a) engine
     \<Rightarrow> ('x, 'h, 'i, 's, 'f, 'a) engine \<times> engine_snapshot" where
  "engine_snapshot_now h en =
    (let w = ho_others h (en_world en); s = w_snapshot w in
     case en_run en of
       None \<Rightarrow> (en\<lparr>en_world := w\<rparr>, s)
     | Some rh \<Rightarrow>
       let (w, s) = (if rh_queue rh then
             let w = ho_others h w in (w, with_queue_metrics (frame_queue_metrics (w_queue w)) s)
             else (w, s));
           (w, s) = (if rh_microphone_queue rh then
             let w = ho_others h w in (w, with_queue_metrics (timed_queue_metrics (w_microphone_queue w)) s)
             else (w, s));
           (w, s) = (if rh_render_queue rh then
             let w = ho_others h w in (w, with_render_metrics (timed_queue_metrics (w_render_queue w)) s)
             else (w, s))
       in (en\<lparr>en_world := w\<rparr>, s))"

text \<open>\<^verbatim>\<open>Drop\<close>: a stop whose result is ignored.\<close>

definition engine_drop ::
  "('x, 'h) host \<Rightarrow> nat \<Rightarrow> ('x, 'h, 'i, 's, 'f, 'a) engine
     \<Rightarrow> ('x, 'h, 'i, 's, 'f, 'a) engine option" where
  "engine_drop h fuel en = map_option fst (engine_stop h fuel en)"

section \<open>Spawning\<close>

definition spawn_worker ::
  "('x, 'h) host \<Rightarrow> task \<Rightarrow> message \<Rightarrow> 'x world \<Rightarrow> 'x world \<times> (engine_error + 'h)" where
  "spawn_worker h task what w =
    (case ho_spawn h task (ho_others h w) of
       (w, Inr handle) \<Rightarrow> (w, Inr handle)
     | (w, Inl e) \<Rightarrow> (w, Inl (engine_error_new EK_WorkerFailure
         (Pieces [Text ''failed to spawn '', what, Text '': '', Shown e]))))"

definition spawn_sink_worker ::
  "('x, 'h) host \<Rightarrow> output_pair \<Rightarrow> session_id \<Rightarrow> 'x world \<Rightarrow> 'x world \<times> (engine_error + 'h)" where
  "spawn_sink_worker h pair session_id w =
     spawn_worker h (SinkTask pair session_id) (Text ''output worker'') w"

definition spawn_capture_worker ::
  "('x, 'h) host \<Rightarrow> source_descriptor \<Rightarrow> 'x world \<Rightarrow> 'x world \<times> (engine_error + 'h)" where
  "spawn_capture_worker h source w =
     spawn_worker h (CaptureTask source) (Text ''physical capture worker'') w"

definition spawn_aec_input_worker ::
  "('x, 'h) host \<Rightarrow> input_role \<Rightarrow> source_descriptor \<Rightarrow> 'x world \<Rightarrow> 'x world \<times> (engine_error + 'h)" where
  "spawn_aec_input_worker h role source w =
     spawn_worker h (AecInputTask role source)
       (Pieces [Text (input_role_debug role), Text '' worker'']) w"

definition spawn_aec_processing_worker ::
  "('x, 'h) host \<Rightarrow> output_pair \<Rightarrow> session_id \<Rightarrow> 'x world \<Rightarrow> 'x world \<times> (engine_error + 'h)" where
  "spawn_aec_processing_worker h pair session_id w =
     spawn_worker h (AecProcessingTask pair session_id) (Text ''AEC processing worker'') w"

text \<open>\<^verbatim>\<open>sync_channel(1)\<close>, and the receivers going out of scope at the end of a start.\<close>

definition open_channel :: "worker \<Rightarrow> 'x world \<Rightarrow> 'x world" where
  "open_channel k w =
     w\<lparr>w_ready := (w_ready w)(k := \<lparr>rc_message = None, rc_receiver_alive = True\<rparr>)\<rparr>"

definition drop_receivers :: "('x, 'h) host \<Rightarrow> 'x world \<Rightarrow> 'x world" where
  "drop_receivers h w =
    (let w = ho_others h w
     in w\<lparr>w_ready := (\<lambda>k. (w_ready w k)\<lparr>rc_receiver_alive := False\<rparr>)\<rparr>)"

section \<open>Starting\<close>

text \<open>The check of the lifecycle state both kinds of run begin with.\<close>

definition ready_to_start ::
  "('x, 'h) host \<Rightarrow> nat \<Rightarrow> ('x, 'h, 'i, 's, 'f, 'a) engine
     \<Rightarrow> (('x, 'h, 'i, 's, 'f, 'a) engine, unit) call" where
  "ready_to_start h fuel en =
    (let w = ho_others h (en_world en); en = en\<lparr>en_world := w\<rparr> in
     case es_state (w_snapshot w) of
       EngineFailed \<Rightarrow> cleanup_previous_run h fuel en
     | Stopped \<Rightarrow> Some (en, Inr ())
     | state \<Rightarrow> Some (en, Inl (engine_error_new EK_InvalidConfiguration
         (Pieces [Text ''cannot start the engine while it is '', Text (engine_state_debug state)]))))"

definition resolve_source ::
  "('x, 'h, 'i, 's, 'f, 'a) engine \<Rightarrow> input_role \<Rightarrow> str \<Rightarrow> engine_error + source_descriptor" where
  "resolve_source en role endpoint_id =
     res_bind (map_err (engine_error_from_source role)
         (aif_resolve (en_source_factory en) role (trim endpoint_id))) (\<lambda>source.
       res_bind (validate_source source role (trim endpoint_id)) (\<lambda>_. Inr source))"

definition starting_bypass :: "source_descriptor \<Rightarrow> output_pair \<Rightarrow> u128 \<Rightarrow> u128 \<Rightarrow> engine_snapshot" where
  "starting_bypass source pair run_id session_value = default_snapshot\<lparr>es_state := Starting,
     es_mode := Some Bypass, es_source := Some source,
     es_output_pair := Some (output_pair_snapshot_from pair),
     es_run_id := Some run_id, es_session_id := Some session_value\<rparr>"

text \<open>The lowered flags.\<close>

definition lower_flags :: "('x, 'h) host \<Rightarrow> 'x world \<Rightarrow> 'x world" where
  "lower_flags h w =
    (let w = (ho_others h w)\<lparr>w_stop_requested := False\<rparr>
     in (ho_others h w)\<lparr>w_terminal_failure := False\<rparr>)"

definition identity_now :: "('x, 'h) host \<Rightarrow> 'x world \<Rightarrow> 'x world \<times> u128" where
  "identity_now h w = new_identity (ho_others h) (ho_clock h w) (ho_pid h) w"

definition begin_bypass ::
  "('x, 'h) host \<Rightarrow> source_descriptor \<Rightarrow> output_pair \<Rightarrow> 'x world \<Rightarrow> ('x world \<times> session_id) option" where
  "begin_bypass h source pair w =
    (let (w, run_id) = identity_now h w;
         (w, session_value) = identity_now h w
     in case session_id_new session_value of
          None \<Rightarrow> None
        | Some session_id \<Rightarrow>
          let w = on_snapshot (\<lambda>_. starting_bypass source pair run_id session_value) (ho_others h w)
          in Some ((lower_flags h w)\<lparr>w_queue := frame_queue_new\<rparr>, session_id))"

text \<open>The lock on the snapshot is held while the failure flag is read.\<close>

definition finish_start ::
  "('x, 'h) host \<Rightarrow> string \<Rightarrow> (engine_state \<Rightarrow> engine_state) \<Rightarrow> ('x, 'h, 'i, 's, 'f, 'a) engine
     \<Rightarrow> ('x, 'h, 'i, 's, 'f, 'a) engine \<times> (engine_error + unit)" where
  "finish_start h message state en =
    (let w = ho_others h (en_world en) in
     if w_terminal_failure w then
       (en\<lparr>en_world := w\<rparr>, Inl (case es_last_error (w_snapshot w) of
          Some e \<Rightarrow> e
        | None \<Rightarrow> engine_error_new EK_WorkerFailure (Text message)))
     else (en\<lparr>en_world := on_snapshot (\<lambda>s. s\<lparr>es_state := state (es_state s)\<rparr>) w\<rparr>, Inr ()))"

text \<open>A bypass run that fails before its capture thread exists.\<close>

definition abort_bypass ::
  "('x, 'h) host \<Rightarrow> nat \<Rightarrow> 'h run_handles \<Rightarrow> engine_error \<Rightarrow> ('x, 'h, 'i, 's, 'f, 'a) engine
     \<Rightarrow> (('x, 'h, 'i, 's, 'f, 'a) engine, unit) call" where
  "abort_bypass h fuel handles e en =
    (case join_run h fuel handles (record_failure (ho_others h) e (en_world en)) of
       None \<Rightarrow> None
     | Some ((w, handles), _) \<Rightarrow> Some (en\<lparr>en_world := w, en_run := Some handles\<rparr>, Inl e))"

definition bypass_handles :: "'h \<Rightarrow> 'h run_handles" where
  "bypass_handles sink = \<lparr>rh_queue = True, rh_microphone_queue = False, rh_render_queue = False,
     rh_capture = None, rh_render = None, rh_sink = Some sink, rh_processing = None\<rparr>"

definition start_bypass_workers ::
  "('x, 'h) host \<Rightarrow> nat \<Rightarrow> source_descriptor \<Rightarrow> output_pair \<Rightarrow> ('x, 'h, 'i, 's, 'f, 'a) engine
     \<Rightarrow> (('x, 'h, 'i, 's, 'f, 'a) engine, unit) call" where
  "start_bypass_workers h fuel source pair en =
    (case begin_bypass h source pair (en_world en) of
       None \<Rightarrow> None
     | Some (w, session_id) \<Rightarrow>
       (case spawn_sink_worker h pair session_id (open_channel SinkWorker w) of
          (w, Inl e) \<Rightarrow> Some (en\<lparr>en_world := w\<rparr>, Inl e)
        | (w, Inr sink) \<Rightarrow>
          let handles = bypass_handles sink in
          (case wait_ready h SinkWorker ''virtual sink'' w of
             (w, Inl e) \<Rightarrow> abort_bypass h fuel handles e (en\<lparr>en_world := w\<rparr>)
           | (w, Inr _) \<Rightarrow>
             (case spawn_capture_worker h source (open_channel CaptureWorker w) of
                (w, Inl e) \<Rightarrow> abort_bypass h fuel handles e (en\<lparr>en_world := w\<rparr>)
              | (w, Inr capture) \<Rightarrow>
                let en = en\<lparr>en_run := Some (handles\<lparr>rh_capture := Some capture\<rparr>)\<rparr> in
                (case wait_ready h CaptureWorker ''physical capture'' w of
                   (w, Inl e) \<Rightarrow>
                     try_call (cleanup_previous_run h fuel
                         (en\<lparr>en_world := record_failure (ho_others h) e w\<rparr>))
                       (\<lambda>en _. Some (en, Inl e))
                 | (w, Inr _) \<Rightarrow>
                     Some (finish_start h ''engine startup worker failed'' (\<lambda>_. RunningBypass)
                       (en\<lparr>en_world := w\<rparr>)))))))"

text \<open>The receivers live as long as the call.\<close>

definition end_start ::
  "('x, 'h) host \<Rightarrow> (('x, 'h, 'i, 's, 'f, 'a) engine, unit) call
     \<Rightarrow> (('x, 'h, 'i, 's, 'f, 'a) engine, unit) call" where
  "end_start h m = map_option (\<lambda>(en, r). (en\<lparr>en_world := drop_receivers h (en_world en)\<rparr>, r)) m"

definition start_bypass ::
  "('x, 'h) host \<Rightarrow> nat \<Rightarrow> str \<Rightarrow> output_pair \<Rightarrow> ('x, 'h, 'i, 's, 'f, 'a) engine
     \<Rightarrow> (('x, 'h, 'i, 's, 'f, 'a) engine, unit) call" where
  "start_bypass h fuel source_endpoint_id pair en =
    (if trim source_endpoint_id = [] then
       Some (en, Inl (engine_error_new EK_InvalidConfiguration
         (Text ''a non-empty physical capture endpoint ID is required'')))
     else try_call (ready_to_start h fuel en) (\<lambda>en _.
       case resolve_source en Microphone source_endpoint_id of
         Inl e \<Rightarrow> Some (en, Inl e)
       | Inr source \<Rightarrow> end_start h (start_bypass_workers h fuel source pair en)))"

text \<open>An AEC run.\<close>

definition starting_aec ::
  "source_descriptor \<Rightarrow> source_descriptor \<Rightarrow> output_pair \<Rightarrow> u128 \<Rightarrow> u128 \<Rightarrow> u128 \<Rightarrow> engine_snapshot" where
  "starting_aec microphone render pair run_id session_value aec_instance_id =
    default_snapshot\<lparr>es_state := Starting, es_mode := Some Aec, es_source := Some microphone,
      es_render_source := Some render, es_output_pair := Some (output_pair_snapshot_from pair),
      es_run_id := Some run_id, es_session_id := Some session_value,
      es_aec_instance_id := Some aec_instance_id, es_synchronization_epoch := 1\<rparr>"

definition begin_aec ::
  "('x, 'h) host \<Rightarrow> source_descriptor \<Rightarrow> source_descriptor \<Rightarrow> output_pair \<Rightarrow> 'x world
     \<Rightarrow> ('x world \<times> session_id) option" where
  "begin_aec h microphone render pair w =
    (let (w, run_id) = identity_now h w;
         (w, session_value) = identity_now h w;
         (w, aec_instance_id) = identity_now h w
     in case session_id_new session_value of
          None \<Rightarrow> None
        | Some session_id \<Rightarrow>
          let w = on_snapshot (\<lambda>_. starting_aec microphone render pair run_id session_value aec_instance_id)
                (ho_others h w)
          in Some ((lower_flags h w)\<lparr>w_microphone_queue := timed_queue_new,
               w_render_queue := timed_queue_new\<rparr>, session_id))"

text \<open>The three workers; a failure to spawn one leaves the ones before it running.\<close>

definition spawn_aec_workers ::
  "('x, 'h) host \<Rightarrow> source_descriptor \<Rightarrow> source_descriptor \<Rightarrow> output_pair \<Rightarrow> session_id \<Rightarrow> 'x world
     \<Rightarrow> 'x world \<times> (engine_error + 'h run_handles)" where
  "spawn_aec_workers h microphone render pair session_id w =
    (case spawn_aec_input_worker h Microphone microphone (open_channel CaptureWorker w) of
       (w, Inl e) \<Rightarrow> (w, Inl e)
     | (w, Inr capture) \<Rightarrow>
       (case spawn_aec_input_worker h RenderLoopback render (open_channel RenderWorker w) of
          (w, Inl e) \<Rightarrow> (w, Inl e)
        | (w, Inr render) \<Rightarrow>
          (case spawn_aec_processing_worker h pair session_id (open_channel ProcessingWorker w) of
             (w, Inl e) \<Rightarrow> (w, Inl e)
           | (w, Inr processing) \<Rightarrow> (w, Inr \<lparr>rh_queue = False, rh_microphone_queue = True,
               rh_render_queue = True, rh_capture = Some capture, rh_render = Some render,
               rh_sink = None, rh_processing = Some processing\<rparr>))))"

fun wait_all ::
  "('x, 'h) host \<Rightarrow> (worker \<times> string) list \<Rightarrow> 'x world \<Rightarrow> 'x world \<times> (engine_error + unit)" where
  "wait_all h [] w = (w, Inr ())"
| "wait_all h ((k, name) # ks) w =
    (case wait_ready h k name w of (w, Inl e) \<Rightarrow> (w, Inl e) | (w, Inr _) \<Rightarrow> wait_all h ks w)"

definition aec_receivers :: "(worker \<times> string) list" where
  "aec_receivers = [(CaptureWorker, ''physical microphone''), (RenderWorker, ''physical render loopback''),
     (ProcessingWorker, ''AEC processing timeline'')]"

definition start_aec_workers ::
  "('x, 'h) host \<Rightarrow> nat \<Rightarrow> source_descriptor \<Rightarrow> source_descriptor \<Rightarrow> output_pair
     \<Rightarrow> ('x, 'h, 'i, 's, 'f, 'a) engine \<Rightarrow> (('x, 'h, 'i, 's, 'f, 'a) engine, unit) call" where
  "start_aec_workers h fuel microphone render pair en =
    (case begin_aec h microphone render pair (en_world en) of
       None \<Rightarrow> None
     | Some (w, session_id) \<Rightarrow>
       (case spawn_aec_workers h microphone render pair session_id w of
          (w, Inl e) \<Rightarrow> Some (en\<lparr>en_world := w\<rparr>, Inl e)
        | (w, Inr handles) \<Rightarrow>
          let en = en\<lparr>en_run := Some handles\<rparr> in
          (case wait_all h aec_receivers w of
             (w, Inl e) \<Rightarrow>
               try_call (cleanup_previous_run h fuel
                   (en\<lparr>en_world := record_aec_failure (ho_others h) True e w\<rparr>))
                 (\<lambda>en _. Some (en, Inl e))
           | (w, Inr _) \<Rightarrow>
               Some (finish_start h ''AEC startup worker failed''
                 (\<lambda>state. if state = Starting then RunningAec else state) (en\<lparr>en_world := w\<rparr>)))))"

definition start_aec ::
  "('x, 'h) host \<Rightarrow> nat \<Rightarrow> str \<Rightarrow> str \<Rightarrow> output_pair \<Rightarrow> ('x, 'h, 'i, 's, 'f, 'a) engine
     \<Rightarrow> (('x, 'h, 'i, 's, 'f, 'a) engine, unit) call" where
  "start_aec h fuel microphone_endpoint_id render_endpoint_id pair en =
    (if trim microphone_endpoint_id = [] \<or> trim render_endpoint_id = [] then
       Some (en, Inl (engine_error_new EK_InvalidConfiguration
         (Text ''non-empty physical microphone and render endpoint IDs are required'')))
     else if en_echo_factory en = None then
       Some (en, Inl (engine_error_new EK_InvalidConfiguration
         (Text ''AEC mode requires a configured project-owned echo-canceller factory'')))
     else try_call (ready_to_start h fuel en) (\<lambda>en _.
       case resolve_source en Microphone microphone_endpoint_id of
         Inl e \<Rightarrow> Some (en, Inl e)
       | Inr microphone \<Rightarrow>
         (case resolve_source en RenderLoopback render_endpoint_id of
            Inl e \<Rightarrow> Some (en, Inl e)
          | Inr render \<Rightarrow> end_start h (start_aec_workers h fuel microphone render pair en))))"

section \<open>Commands\<close>

definition engine_start ::
  "('x, 'h) host \<Rightarrow> nat \<Rightarrow> engine_config \<Rightarrow> ('x, 'h, 'i, 's, 'f, 'a) engine
     \<Rightarrow> (('x, 'h, 'i, 's, 'f, 'a) engine, unit) call" where
  "engine_start h fuel config en =
    (let cable_input = trim (ec_cable_input_endpoint_id config);
         cable_output = trim (ec_cable_output_endpoint_id config)
     in if cable_input = [] \<or> cable_output = [] then
          Some (en, Inl (engine_error_new EK_InvalidConfiguration
            (Text ''exact CABLE Input and CABLE Output endpoint IDs are required'')))
        else if trim (ec_microphone_endpoint_id config) = cable_output then
          Some (en, Inl (engine_error_new EK_InvalidSource
            (Text ''CABLE Output cannot be selected as the physical microphone'')))
        else if map_option trim (ec_render_endpoint_id config) = Some cable_input then
          Some (en, Inl (engine_error_new EK_InvalidSource
            (Text ''CABLE Input cannot be selected as the physical render-loopback reference'')))
        else
          (case aof_resolve_pair (en_sink_factory en) cable_input cable_output of
             Inl e \<Rightarrow> Some (en, Inl (engine_error_from_output e))
           | Inr pair \<Rightarrow>
             (case ec_mode config of
                Bypass \<Rightarrow> start_bypass h fuel (ec_microphone_endpoint_id config) pair en
              | Aec \<Rightarrow>
                (case ec_render_endpoint_id config of
                   None \<Rightarrow> Some (en, Inl (engine_error_new EK_InvalidConfiguration
                     (Text ''an exact physical render endpoint ID is required for AEC mode'')))
                 | Some render \<Rightarrow>
                     start_aec h fuel (ec_microphone_endpoint_id config) render pair en))))"

definition engine_do ::
  "('x, 'h) host \<Rightarrow> nat \<Rightarrow> engine_command \<Rightarrow> ('x, 'h, 'i, 's, 'f, 'a) engine
     \<Rightarrow> (('x, 'h, 'i, 's, 'f, 'a) engine, engine_snapshot) call" where
  "engine_do h fuel command en =
    try_call
      (case command of
         Start config \<Rightarrow> engine_start h fuel config en
       | Stop \<Rightarrow> engine_stop h fuel en
       | Restart config \<Rightarrow> try_call (engine_stop h fuel en) (\<lambda>en _. engine_start h fuel config en))
      (\<lambda>en _. let (en, s) = engine_snapshot_now h en in Some (en, Inr s))"

end
