(* ===== verification/Tray.thy ===== *)
theory Tray
  imports Config Controller
begin

text \<open>
  The tray application's controller, \<^verbatim>\<open>src-tauri/src/audio.rs\<close>: the configurations it builds from
  the environment, from the settings file and from the menu, the device inventory, and \<^verbatim>\<open>TrayEngine\<close>
  with every operation on it.  Enumerating devices is the platform's; the engine is that of the theory
  Controller, so its calls take a host and fuel and \<open>None\<close> is a call that does not return.
\<close>

section \<open>Configurations\<close>

record tray_configuration =
  tc_mode :: processing_mode
  tc_microphone_endpoint_id :: str
  tc_microphone_uses_default :: bool
  tc_render_endpoint_id :: "str option"
  tc_render_uses_default :: bool
  tc_cable_input_endpoint_id :: str
  tc_cable_output_endpoint_id :: str

definition from_persisted :: "persisted_configuration \<Rightarrow> config_error + tray_configuration" where
  "from_persisted c = res_bind (persisted_validate c) (\<lambda>_. Inr \<lparr>
     tc_mode = pc_mode c,
     tc_microphone_endpoint_id = pc_microphone_endpoint_id c,
     tc_microphone_uses_default = pc_microphone_uses_default c,
     tc_render_endpoint_id = pc_render_endpoint_id c,
     tc_render_uses_default = pc_render_uses_default c,
     tc_cable_input_endpoint_id = pc_cable_input_endpoint_id c,
     tc_cable_output_endpoint_id = pc_cable_output_endpoint_id c\<rparr>)"

definition to_persisted :: "tray_configuration \<Rightarrow> persisted_configuration" where
  "to_persisted c = \<lparr>
     pc_version = CONFIG_VERSION,
     pc_mode = tc_mode c,
     pc_microphone_endpoint_id = tc_microphone_endpoint_id c,
     pc_microphone_uses_default = tc_microphone_uses_default c,
     pc_render_endpoint_id = tc_render_endpoint_id c,
     pc_render_uses_default = tc_render_uses_default c,
     pc_cable_input_endpoint_id = tc_cable_input_endpoint_id c,
     pc_cable_output_endpoint_id = tc_cable_output_endpoint_id c\<rparr>"

definition normalize_optional :: "str option \<Rightarrow> str option" where
  "normalize_optional value = Option.bind value (\<lambda>v. if trim v = [] then None else Some (trim v))"

definition normalize_value :: "str \<Rightarrow> str option" where
  "normalize_value v = normalize_optional (Some v)"

definition MICROPHONE_ENV :: string where "MICROPHONE_ENV = ''MINI_AEC_MICROPHONE_ID''"
definition RENDER_ENV :: string where "RENDER_ENV = ''MINI_AEC_RENDER_ID''"
definition CABLE_INPUT_ENV :: string where "CABLE_INPUT_ENV = ''MINI_AEC_CABLE_INPUT_ID''"
definition CABLE_OUTPUT_ENV :: string where "CABLE_OUTPUT_ENV = ''MINI_AEC_CABLE_OUTPUT_ID''"

definition required :: "string \<Rightarrow> str option \<Rightarrow> config_error + str" where
  "required name value = (case normalize_optional value of
     None \<Rightarrow> Inl (ConfigInvalid (Pieces [Text name, Text '' must be set with the complete override group'']))
   | Some v \<Rightarrow> Inr v)"

definition from_values ::
  "str option \<Rightarrow> str option \<Rightarrow> str option \<Rightarrow> str option \<Rightarrow> config_error + tray_configuration option" where
  "from_values microphone render cable_input cable_output =
    (if list_all (\<lambda>v. v = None) [microphone, render, cable_input, cable_output] then Inr None
     else res_bind (required MICROPHONE_ENV microphone) (\<lambda>microphone.
          res_bind (required RENDER_ENV render) (\<lambda>render.
          res_bind (required CABLE_INPUT_ENV cable_input) (\<lambda>cable_input.
          res_bind (required CABLE_OUTPUT_ENV cable_output) (\<lambda>cable_output.
            Inr (Some \<lparr>tc_mode = Aec, tc_microphone_endpoint_id = microphone,
              tc_microphone_uses_default = False, tc_render_endpoint_id = Some render,
              tc_render_uses_default = False, tc_cable_input_endpoint_id = cable_input,
              tc_cable_output_endpoint_id = cable_output\<rparr>))))))"

text \<open>\<open>env\<close> is \<^verbatim>\<open>env::var(..).ok()\<close>.\<close>

definition from_environment :: "(string \<Rightarrow> str option) \<Rightarrow> config_error + tray_configuration option" where
  "from_environment env =
     from_values (env MICROPHONE_ENV) (env RENDER_ENV) (env CABLE_INPUT_ENV) (env CABLE_OUTPUT_ENV)"

definition engine_config_of :: "tray_configuration \<Rightarrow> processing_mode \<Rightarrow> engine_error + engine_config" where
  "engine_config_of c mode = (case mode of
     Bypass \<Rightarrow> Inr (engine_config_bypass (tc_microphone_endpoint_id c) (tc_cable_input_endpoint_id c)
       (tc_cable_output_endpoint_id c))
   | Aec \<Rightarrow> (case tc_render_endpoint_id c of
       None \<Rightarrow> Inl (engine_error_new EK_InvalidConfiguration
         (Text ''AEC mode requires an exact physical render endpoint ID''))
     | Some render \<Rightarrow> Inr (engine_config_aec (tc_microphone_endpoint_id c) render
         (tc_cable_input_endpoint_id c) (tc_cable_output_endpoint_id c))))"

datatype configuration_source = SourceNone | SourcePersisted | SourceEnvironment

record configuration_draft =
  cd_mode :: processing_mode
  cd_microphone_endpoint_id :: "str option"
  cd_render_endpoint_id :: "str option"
  cd_cable_input_endpoint_id :: "str option"
  cd_cable_output_endpoint_id :: "str option"

definition default_draft :: configuration_draft where
  "default_draft = \<lparr>cd_mode = Bypass, cd_microphone_endpoint_id = None, cd_render_endpoint_id = None,
     cd_cable_input_endpoint_id = None, cd_cable_output_endpoint_id = None\<rparr>"

definition draft_from :: "tray_configuration \<Rightarrow> configuration_draft" where
  "draft_from c = \<lparr>cd_mode = tc_mode c, cd_microphone_endpoint_id = Some (tc_microphone_endpoint_id c),
     cd_render_endpoint_id = tc_render_endpoint_id c,
     cd_cable_input_endpoint_id = Some (tc_cable_input_endpoint_id c),
     cd_cable_output_endpoint_id = Some (tc_cable_output_endpoint_id c)\<rparr>"

definition chosen :: "string \<Rightarrow> str option \<Rightarrow> config_error + str" where
  "chosen message value = (case Option.bind value normalize_value of
     None \<Rightarrow> Inl (ConfigInvalid (Text message)) | Some v \<Rightarrow> Inr v)"

definition into_configuration ::
  "configuration_draft \<Rightarrow> processing_mode \<Rightarrow> config_error + tray_configuration" where
  "into_configuration d mode =
    res_bind (chosen ''a physical microphone endpoint is required'' (cd_microphone_endpoint_id d)) (\<lambda>microphone.
    res_bind (chosen ''a CABLE Input endpoint is required'' (cd_cable_input_endpoint_id d)) (\<lambda>cable_input.
    res_bind (chosen ''a CABLE Output endpoint is required'' (cd_cable_output_endpoint_id d)) (\<lambda>cable_output.
      let render = Option.bind (cd_render_endpoint_id d) normalize_value;
          configuration = \<lparr>tc_mode = mode, tc_microphone_endpoint_id = microphone,
            tc_microphone_uses_default = False, tc_render_endpoint_id = render,
            tc_render_uses_default = False, tc_cable_input_endpoint_id = cable_input,
            tc_cable_output_endpoint_id = cable_output\<rparr>
      in if mode = Aec \<and> tc_render_endpoint_id configuration = None then
           Inl (ConfigInvalid (Text ''AEC mode requires a physical render endpoint''))
         else Inr configuration)))"

section \<open>The device inventory\<close>

record device_inventory =
  di_default_microphone :: "source_descriptor option"
  di_default_render :: "source_descriptor option"
  di_microphones :: "source_descriptor list"
  di_renders :: "source_descriptor list"
  di_cable_pairs :: "output_pair list"

definition empty_inventory :: device_inventory where
  "empty_inventory = \<lparr>di_default_microphone = None, di_default_render = None, di_microphones = [],
     di_renders = [], di_cable_pairs = []\<rparr>"

text \<open>What the platform enumerates.\<close>

record platform =
  pl_capture :: "message + source_descriptor list"
  pl_render :: "message + source_descriptor list"
  pl_cable_pairs :: "message + output_pair list"
  pl_default_capture :: "message + source_descriptor"
  pl_default_render :: "message + source_descriptor"

definition usable :: "input_role \<Rightarrow> source_descriptor \<Rightarrow> bool" where
  "usable role source \<longleftrightarrow> sd_active source \<and> sd_role source = role"

text \<open>The default device, if it is usable and among the listed ones.\<close>

definition listed_default ::
  "input_role \<Rightarrow> source_descriptor list \<Rightarrow> message + source_descriptor \<Rightarrow> source_descriptor option" where
  "listed_default role sources enumerated = (case enumerated of
     Inl _ \<Rightarrow> None
   | Inr d \<Rightarrow> if usable role d then find (\<lambda>s. sd_endpoint_id s = sd_endpoint_id d) sources else None)"

definition discover :: "platform \<Rightarrow> message + device_inventory" where
  "discover pl =
    res_bind (map_err (\<lambda>e. Pieces [Text ''failed to enumerate physical microphones: '', e]) (pl_capture pl)) (\<lambda>captures.
    res_bind (map_err (\<lambda>e. Pieces [Text ''failed to enumerate physical render endpoints: '', e]) (pl_render pl)) (\<lambda>renders.
    res_bind (map_err (\<lambda>e. Pieces [Text ''failed to enumerate VB-CABLE pairs: '', e]) (pl_cable_pairs pl)) (\<lambda>pairs.
      let cable_output_ids = map (\<lambda>p. oe_endpoint_id (recording p)) pairs;
          cable_input_ids = map (\<lambda>p. oe_endpoint_id (playback p)) pairs;
          microphones = filter (\<lambda>s. sd_endpoint_id s \<notin> set cable_output_ids)
            (filter (usable Microphone) captures);
          renders = filter (\<lambda>s. sd_endpoint_id s \<notin> set cable_input_ids)
            (filter (usable RenderLoopback) renders)
      in Inr \<lparr>di_default_microphone = listed_default Microphone microphones (pl_default_capture pl),
              di_default_render = listed_default RenderLoopback renders (pl_default_render pl),
              di_microphones = microphones, di_renders = renders, di_cable_pairs = pairs\<rparr>)))"

definition validate_configuration :: "tray_configuration \<Rightarrow> device_inventory \<Rightarrow> config_error + unit" where
  "validate_configuration c inventory =
    (if tc_microphone_endpoint_id c = tc_cable_output_endpoint_id c then
       Inl (ConfigInvalid (Text ''CABLE Output cannot be used as the physical microphone''))
     else if tc_render_endpoint_id c = Some (tc_cable_input_endpoint_id c) then
       Inl (ConfigInvalid (Text ''CABLE Input cannot be used as the physical render-loopback reference''))
     else if \<not> list_ex (\<lambda>s. sd_endpoint_id s = tc_microphone_endpoint_id c \<and> sd_active s) (di_microphones inventory) then
       Inl (ConfigInvalid (Text ''the configured physical microphone is unavailable or inactive''))
     else res_bind
       (if tc_mode c = Aec then
          (case tc_render_endpoint_id c of
             None \<Rightarrow> Inl (ConfigInvalid (Text ''AEC mode requires a physical render endpoint''))
           | Some render \<Rightarrow>
               if \<not> list_ex (\<lambda>s. sd_endpoint_id s = render \<and> sd_active s) (di_renders inventory) then
                 Inl (ConfigInvalid (Text ''the configured physical render endpoint is unavailable or inactive''))
               else Inr ())
        else Inr ())
       (\<lambda>_. let matching_pairs = length (filter (\<lambda>p.
                 oe_endpoint_id (playback p) = tc_cable_input_endpoint_id c
                 \<and> oe_endpoint_id (recording p) = tc_cable_output_endpoint_id c) (di_cable_pairs inventory))
            in if matching_pairs = 1 then Inr ()
               else if matching_pairs = 0 then
                 Inl (ConfigInvalid (Text ''the configured VB-CABLE pair is unavailable or inactive''))
               else Inl (ConfigInvalid (Text ''the configured VB-CABLE pair is ambiguous''))))"

definition should_persist_configuration :: "configuration_source \<Rightarrow> bool" where
  "should_persist_configuration source \<longleftrightarrow> source \<noteq> SourceEnvironment"

definition load_configuration_from ::
  "config_error + tray_configuration option \<Rightarrow> 'b codec \<Rightarrow> config_store \<Rightarrow> 'b disk
     \<Rightarrow> 'b disk \<times> tray_configuration option \<times> configuration_source \<times> message option" where
  "load_configuration_from environment codec store d =
    (case environment of
       Inr (Some c) \<Rightarrow> (d, Some c, SourceEnvironment, None)
     | Inl e \<Rightarrow> (d, None, SourceNone, Some (config_error_message e))
     | Inr None \<Rightarrow>
       (case config_load codec store d of
          (d, Inr (Some c)) \<Rightarrow>
            (case from_persisted c of
               Inr c \<Rightarrow> (d, Some c, SourcePersisted, None)
             | Inl e \<Rightarrow> (d, None, SourceNone, Some (config_error_message e)))
        | (d, Inr None) \<Rightarrow> (d, None, SourceNone, None)
        | (d, Inl e) \<Rightarrow> (d, None, SourceNone, Some (config_error_message e))))"

definition load_configuration ::
  "(string \<Rightarrow> str option) \<Rightarrow> 'b codec \<Rightarrow> config_store \<Rightarrow> 'b disk
     \<Rightarrow> 'b disk \<times> tray_configuration option \<times> configuration_source \<times> message option" where
  "load_configuration env codec store d = load_configuration_from (from_environment env) codec store d"

definition populate_default_draft :: "configuration_draft \<Rightarrow> device_inventory \<Rightarrow> configuration_draft" where
  "populate_default_draft d inventory =
    (let d = (if cd_microphone_endpoint_id d = None then
                d\<lparr>cd_microphone_endpoint_id := map_option sd_endpoint_id (di_default_microphone inventory)\<rparr>
              else d);
         d = (if cd_render_endpoint_id d = None then
                d\<lparr>cd_render_endpoint_id := map_option sd_endpoint_id (di_default_render inventory)\<rparr>
              else d)
     in if cd_cable_input_endpoint_id d = None \<and> cd_cable_output_endpoint_id d = None then
          (case di_cable_pairs inventory of
             pair # _ \<Rightarrow> d\<lparr>cd_cable_input_endpoint_id := Some (oe_endpoint_id (playback pair)),
                          cd_cable_output_endpoint_id := Some (oe_endpoint_id (recording pair))\<rparr>
           | [] \<Rightarrow> d)
        else d)"

section \<open>The tray engine\<close>

definition engine_configuration_error :: "config_error \<Rightarrow> engine_error" where
  "engine_configuration_error e = engine_error_new EK_InvalidConfiguration (config_error_message e)"

text \<open>The fields of \<^verbatim>\<open>TrayEngine\<close>, and the disk its store writes to.\<close>

record ('x, 'h, 'i, 's, 'f, 'a, 'b) tray =
  tr_engine :: "('x, 'h, 'i, 's, 'f, 'a) engine"
  tr_config_store :: config_store
  tr_disk :: "'b disk"
  tr_configuration :: "tray_configuration option"
  tr_draft :: configuration_draft
  tr_source :: configuration_source
  tr_configuration_error :: "message option"
  tr_inventory_error :: "message option"
  tr_inventory :: device_inventory
  tr_selected_mode :: processing_mode
  tr_defaults_pending :: bool
  tr_microphone_default_selected :: bool
  tr_render_default_selected :: bool

definition tray_new ::
  "('x, 'h, 'i, 's, 'f, 'a) engine \<Rightarrow> (string \<Rightarrow> str option) \<Rightarrow> 'b codec \<Rightarrow> config_store \<Rightarrow> 'b disk
     \<Rightarrow> ('x, 'h, 'i, 's, 'f, 'a, 'b) tray" where
  "tray_new engine env codec store d =
    (let (d, configuration, source, configuration_error) = load_configuration env codec store d in
     \<lparr>tr_engine = engine, tr_config_store = store, tr_disk = d, tr_configuration = configuration,
      tr_draft = (case configuration of None \<Rightarrow> default_draft | Some c \<Rightarrow> draft_from c),
      tr_source = source, tr_configuration_error = configuration_error, tr_inventory_error = None,
      tr_inventory = empty_inventory,
      tr_selected_mode = (case configuration of None \<Rightarrow> Bypass | Some c \<Rightarrow> tc_mode c),
      tr_defaults_pending = (configuration_error = None \<and> source = SourceNone \<and> configuration = None),
      tr_microphone_default_selected = (case configuration of None \<Rightarrow> False | Some c \<Rightarrow> tc_microphone_uses_default c),
      tr_render_default_selected = (case configuration of None \<Rightarrow> False | Some c \<Rightarrow> tc_render_uses_default c)\<rparr>)"

definition initialize_defaults ::
  "device_inventory \<Rightarrow> ('x, 'h, 'i, 's, 'f, 'a, 'b) tray \<Rightarrow> ('x, 'h, 'i, 's, 'f, 'a, 'b) tray" where
  "initialize_defaults inventory t =
    (let draft = tr_draft t;
         microphone_was_missing = (tr_defaults_pending t \<and> cd_microphone_endpoint_id draft = None);
         render_was_missing = (tr_defaults_pending t \<and> cd_render_endpoint_id draft = None);
         default_microphone = map_option sd_endpoint_id (di_default_microphone inventory);
         default_render = map_option sd_endpoint_id (di_default_render inventory);
         draft = (if tr_defaults_pending t then populate_default_draft draft inventory else draft);
         draft = (if tr_microphone_default_selected t then draft\<lparr>cd_microphone_endpoint_id := default_microphone\<rparr> else draft);
         draft = (if tr_render_default_selected t then draft\<lparr>cd_render_endpoint_id := default_render\<rparr> else draft);
         microphone_selected = (microphone_was_missing \<and> \<not> tr_microphone_default_selected t
           \<and> cd_microphone_endpoint_id draft = default_microphone);
         render_selected = (render_was_missing \<and> \<not> tr_render_default_selected t
           \<and> cd_render_endpoint_id draft = default_render)
     in t\<lparr>tr_draft := draft,
          tr_microphone_default_selected := (tr_microphone_default_selected t \<or> microphone_selected),
          tr_render_default_selected := (tr_render_default_selected t \<or> render_selected)\<rparr>)"

definition refresh_inventory ::
  "platform \<Rightarrow> ('x, 'h, 'i, 's, 'f, 'a, 'b) tray
     \<Rightarrow> ('x, 'h, 'i, 's, 'f, 'a, 'b) tray \<times> (message + bool)" where
  "refresh_inventory pl t =
    (case discover pl of
       Inr inventory \<Rightarrow>
         ((initialize_defaults inventory t)\<lparr>tr_inventory := inventory, tr_inventory_error := None\<rparr>,
          Inr (tr_inventory t \<noteq> inventory))
     | Inl e \<Rightarrow> (t\<lparr>tr_inventory_error := Some e\<rparr>, Inl e))"

definition configuration_error_of :: "('x, 'h, 'i, 's, 'f, 'a, 'b) tray \<Rightarrow> message option" where
  "configuration_error_of t =
    (case tr_configuration_error t of
       Some e \<Rightarrow> Some e
     | None \<Rightarrow>
       (case tr_inventory_error t of
          Some e \<Rightarrow> Some e
        | None \<Rightarrow>
          (case tr_configuration t of
             None \<Rightarrow> None
           | Some c \<Rightarrow>
             (case validate_configuration c (tr_inventory t) of
                Inl e \<Rightarrow> Some (config_error_message e) | Inr _ \<Rightarrow> None))))"

definition aec_enabled :: "('x, 'h, 'i, 's, 'f, 'a, 'b) tray \<Rightarrow> bool" where
  "aec_enabled t \<longleftrightarrow> tr_selected_mode t = Aec"

text \<open>The closure of \<^verbatim>\<open>apply_current\<close>: first what needs no effect, then the effects.\<close>

definition candidate_of ::
  "('x, 'h, 'i, 's, 'f, 'a, 'b) tray \<Rightarrow> engine_error + tray_configuration \<times> engine_config" where
  "candidate_of t =
    res_bind (map_err engine_configuration_error (into_configuration (tr_draft t) (tr_selected_mode t))) (\<lambda>c.
      let c = c\<lparr>tc_microphone_uses_default := tr_microphone_default_selected t,
                tc_render_uses_default := tr_render_default_selected t\<rparr>
      in res_bind (map_err engine_configuration_error (validate_configuration c (tr_inventory t))) (\<lambda>_.
         res_bind (engine_config_of c (tr_selected_mode t)) (\<lambda>config. Inr (c, config))))"

definition persist_candidate ::
  "'b codec \<Rightarrow> tray_configuration \<Rightarrow> ('x, 'h, 'i, 's, 'f, 'a, 'b) tray
     \<Rightarrow> ('x, 'h, 'i, 's, 'f, 'a, 'b) tray \<times> (engine_error + unit)" where
  "persist_candidate codec c t =
    (if should_persist_configuration (tr_source t) then
       (case config_save codec (tr_config_store t) (to_persisted c) (tr_disk t) of
          (d, Inl e) \<Rightarrow> (t\<lparr>tr_disk := d\<rparr>, Inl (engine_configuration_error e))
        | (d, Inr _) \<Rightarrow> (t\<lparr>tr_disk := d, tr_source := SourcePersisted\<rparr>, Inr ()))
     else (t, Inr ()))"

definition apply_candidate ::
  "('x, 'h) host \<Rightarrow> nat \<Rightarrow> 'b codec \<Rightarrow> ('x, 'h, 'i, 's, 'f, 'a, 'b) tray
     \<Rightarrow> (('x, 'h, 'i, 's, 'f, 'a, 'b) tray, unit) call" where
  "apply_candidate h fuel codec t =
    (case candidate_of t of
       Inl e \<Rightarrow> Some (t, Inl e)
     | Inr (c, config) \<Rightarrow>
       (case persist_candidate codec c t of
          (t, Inl e) \<Rightarrow> Some (t, Inl e)
        | (t, Inr _) \<Rightarrow>
          let t = t\<lparr>tr_configuration := Some c, tr_draft := draft_from c, tr_defaults_pending := False\<rparr>
          in map_option (\<lambda>(en, r). (t\<lparr>tr_engine := en\<rparr>, r)) (engine_start h fuel config (tr_engine t))))"

definition note_error ::
  "(('x, 'h, 'i, 's, 'f, 'a, 'b) tray, unit) call \<Rightarrow> (('x, 'h, 'i, 's, 'f, 'a, 'b) tray, unit) call" where
  "note_error = map_option (\<lambda>(t, r).
     (case r of Inl e \<Rightarrow> t\<lparr>tr_configuration_error := Some (engine_error_text e)\<rparr> | Inr _ \<Rightarrow> t, r))"

definition tray_stop ::
  "('x, 'h) host \<Rightarrow> nat \<Rightarrow> ('x, 'h, 'i, 's, 'f, 'a, 'b) tray
     \<Rightarrow> (('x, 'h, 'i, 's, 'f, 'a, 'b) tray, unit) call" where
  "tray_stop h fuel t = map_option (\<lambda>(en, r). (t\<lparr>tr_engine := en\<rparr>, r)) (engine_stop h fuel (tr_engine t))"

definition apply_current ::
  "('x, 'h) host \<Rightarrow> nat \<Rightarrow> 'b codec \<Rightarrow> ('x, 'h, 'i, 's, 'f, 'a, 'b) tray
     \<Rightarrow> (('x, 'h, 'i, 's, 'f, 'a, 'b) tray, unit) call" where
  "apply_current h fuel codec t =
     note_error (try_call (tray_stop h fuel t) (\<lambda>t _. apply_candidate h fuel codec t))"

section \<open>Editing from the menu\<close>

type_synonym ('t) edit = "('t \<times> (message + unit)) option"

definition ensure_configuration_editable :: "('x, 'h, 'i, 's, 'f, 'a, 'b) tray \<Rightarrow> message + unit" where
  "ensure_configuration_editable t =
    (if tr_source t = SourceEnvironment then
       Inl (Text ''environment overrides are temporary and cannot be edited from the tray'')
     else Inr ())"

definition apply_edit ::
  "('x, 'h) host \<Rightarrow> nat \<Rightarrow> 'b codec \<Rightarrow> ('x, 'h, 'i, 's, 'f, 'a, 'b) tray
     \<Rightarrow> ('x, 'h, 'i, 's, 'f, 'a, 'b) tray edit" where
  "apply_edit h fuel codec t =
     map_option (\<lambda>(t, r). (t, map_err engine_error_text r)) (apply_current h fuel codec t)"

definition update_draft_and_apply ::
  "('x, 'h) host \<Rightarrow> nat \<Rightarrow> 'b codec \<Rightarrow> (configuration_draft \<Rightarrow> configuration_draft)
     \<Rightarrow> ('x, 'h, 'i, 's, 'f, 'a, 'b) tray \<Rightarrow> ('x, 'h, 'i, 's, 'f, 'a, 'b) tray edit" where
  "update_draft_and_apply h fuel codec update t =
    (case ensure_configuration_editable t of
       Inl e \<Rightarrow> Some (t, Inl e)
     | Inr _ \<Rightarrow> apply_edit h fuel codec (t\<lparr>tr_draft := update (tr_draft t)\<rparr>))"

definition set_aec_enabled ::
  "('x, 'h) host \<Rightarrow> nat \<Rightarrow> 'b codec \<Rightarrow> bool \<Rightarrow> ('x, 'h, 'i, 's, 'f, 'a, 'b) tray
     \<Rightarrow> ('x, 'h, 'i, 's, 'f, 'a, 'b) tray edit" where
  "set_aec_enabled h fuel codec enabled t =
    (case ensure_configuration_editable t of
       Inl e \<Rightarrow> Some (t, Inl e)
     | Inr _ \<Rightarrow>
       let mode = (if enabled then Aec else Bypass)
       in apply_edit h fuel codec (t\<lparr>tr_selected_mode := mode, tr_draft := (tr_draft t)\<lparr>cd_mode := mode\<rparr>\<rparr>))"

definition select_microphone_id ::
  "('x, 'h) host \<Rightarrow> nat \<Rightarrow> 'b codec \<Rightarrow> str \<Rightarrow> bool \<Rightarrow> ('x, 'h, 'i, 's, 'f, 'a, 'b) tray
     \<Rightarrow> ('x, 'h, 'i, 's, 'f, 'a, 'b) tray edit" where
  "select_microphone_id h fuel codec endpoint_id is_default t =
    (case ensure_configuration_editable t of
       Inl e \<Rightarrow> Some (t, Inl e)
     | Inr _ \<Rightarrow> update_draft_and_apply h fuel codec (\<lambda>d. d\<lparr>cd_microphone_endpoint_id := Some endpoint_id\<rparr>)
         (t\<lparr>tr_microphone_default_selected := is_default\<rparr>))"

definition select_render_id ::
  "('x, 'h) host \<Rightarrow> nat \<Rightarrow> 'b codec \<Rightarrow> str \<Rightarrow> bool \<Rightarrow> ('x, 'h, 'i, 's, 'f, 'a, 'b) tray
     \<Rightarrow> ('x, 'h, 'i, 's, 'f, 'a, 'b) tray edit" where
  "select_render_id h fuel codec endpoint_id is_default t =
    (case ensure_configuration_editable t of
       Inl e \<Rightarrow> Some (t, Inl e)
     | Inr _ \<Rightarrow> update_draft_and_apply h fuel codec (\<lambda>d. d\<lparr>cd_render_endpoint_id := Some endpoint_id\<rparr>)
         (t\<lparr>tr_render_default_selected := is_default\<rparr>))"

definition nth_option :: "'c list \<Rightarrow> nat \<Rightarrow> 'c option" where
  "nth_option xs k = (if k < length xs then Some (xs ! k) else None)"

definition select_microphone ::
  "('x, 'h) host \<Rightarrow> nat \<Rightarrow> 'b codec \<Rightarrow> nat \<Rightarrow> ('x, 'h, 'i, 's, 'f, 'a, 'b) tray
     \<Rightarrow> ('x, 'h, 'i, 's, 'f, 'a, 'b) tray edit" where
  "select_microphone h fuel codec k t =
    (case nth_option (di_microphones (tr_inventory t)) k of
       None \<Rightarrow> Some (t, Inl (Text ''selected microphone is no longer available''))
     | Some s \<Rightarrow> select_microphone_id h fuel codec (sd_endpoint_id s) False t)"

definition select_default_microphone ::
  "('x, 'h) host \<Rightarrow> nat \<Rightarrow> 'b codec \<Rightarrow> ('x, 'h, 'i, 's, 'f, 'a, 'b) tray
     \<Rightarrow> ('x, 'h, 'i, 's, 'f, 'a, 'b) tray edit" where
  "select_default_microphone h fuel codec t =
    (case di_default_microphone (tr_inventory t) of
       None \<Rightarrow> Some (t, Inl (Text ''the Windows default microphone is not available''))
     | Some s \<Rightarrow> select_microphone_id h fuel codec (sd_endpoint_id s) True t)"

definition select_render ::
  "('x, 'h) host \<Rightarrow> nat \<Rightarrow> 'b codec \<Rightarrow> nat \<Rightarrow> ('x, 'h, 'i, 's, 'f, 'a, 'b) tray
     \<Rightarrow> ('x, 'h, 'i, 's, 'f, 'a, 'b) tray edit" where
  "select_render h fuel codec k t =
    (case nth_option (di_renders (tr_inventory t)) k of
       None \<Rightarrow> Some (t, Inl (Text ''selected render endpoint is no longer available''))
     | Some s \<Rightarrow> select_render_id h fuel codec (sd_endpoint_id s) False t)"

definition select_default_render ::
  "('x, 'h) host \<Rightarrow> nat \<Rightarrow> 'b codec \<Rightarrow> ('x, 'h, 'i, 's, 'f, 'a, 'b) tray
     \<Rightarrow> ('x, 'h, 'i, 's, 'f, 'a, 'b) tray edit" where
  "select_default_render h fuel codec t =
    (case di_default_render (tr_inventory t) of
       None \<Rightarrow> Some (t, Inl (Text ''the Windows default render endpoint is not available''))
     | Some s \<Rightarrow> select_render_id h fuel codec (sd_endpoint_id s) True t)"

definition select_cable_pair ::
  "('x, 'h) host \<Rightarrow> nat \<Rightarrow> 'b codec \<Rightarrow> nat \<Rightarrow> ('x, 'h, 'i, 's, 'f, 'a, 'b) tray
     \<Rightarrow> ('x, 'h, 'i, 's, 'f, 'a, 'b) tray edit" where
  "select_cable_pair h fuel codec k t =
    (case nth_option (di_cable_pairs (tr_inventory t)) k of
       None \<Rightarrow> Some (t, Inl (Text ''selected VB-CABLE pair is no longer available''))
     | Some p \<Rightarrow> update_draft_and_apply h fuel codec (\<lambda>d.
         d\<lparr>cd_cable_input_endpoint_id := Some (oe_endpoint_id (playback p)),
           cd_cable_output_endpoint_id := Some (oe_endpoint_id (recording p))\<rparr>) t)"

end
