(* ===== verification/Controller_Properties.thy ===== *)
theory Controller_Properties
  imports Controller Sink_Worker
begin

text \<open>
  What the controller guarantees: every command returns within the joining deadlines, a stop that
  succeeds has joined every worker, a busy engine refuses a start without touching it, and the two ways in
  which a failed call leaves workers behind.
\<close>

section \<open>Every command returns\<close>

text \<open>
  The clock does not run backwards and a sleep of 5 ms takes at least that long.  The joining loops then
  take at most 3000 / 5 + 1 turns.
\<close>

definition ticking :: "('x, 'h) host \<Rightarrow> bool" where
  "ticking h \<longleftrightarrow> (\<forall>w. ho_now h w \<le> ho_now h (ho_others h w) \<and> ho_now h w + 5 \<le> ho_now h (ho_sleep h w))"

definition join_fuel :: nat where "join_fuel = 601"

lemma div_5_less: "a < d \<Longrightarrow> a + 5 \<le> b \<Longrightarrow> (d - b + 4) div 5 < (d - a + 4) div (5 :: nat)"
proof -
  assume "a < d" "a + 5 \<le> b"
  then have "5 \<le> d - a + 4" "d - b + 4 \<le> d - a + 4 - 5 \<or> d - b + 4 = 4" by linarith+
  then show ?thesis
    using div_le_mono [of "d - b + 4" "d - a + 4 - 5" 5] le_div_geq [of 5 "d - a + 4"] by auto
qed

lemma join_turn_progress:
  assumes "ticking h" "join_turn h t deadline w = Continue w'"
  shows "(deadline - ho_now h w' + 4) div 5 < (deadline - ho_now h w + 4) div 5"
proof -
  let ?w = "ho_others h w"
  from assms(2) have "w' = ho_sleep h ?w" "ho_now h ?w < deadline"
    by (auto simp: join_turn_def Let_def split: if_splits)
  moreover from assms(1) have "ho_now h w \<le> ho_now h ?w" "ho_now h ?w + 5 \<le> ho_now h (ho_sleep h ?w)"
    by (simp_all add: ticking_def)
  ultimately show ?thesis using div_5_less [of "ho_now h w" deadline "ho_now h w'"] by (meson add_le_mono le_less_trans le_trans order_refl)
qed

definition returns :: "'r option \<Rightarrow> bool" where
  "returns m \<longleftrightarrow> m \<noteq> None"

lemma returns_simps [simp]: "returns (Some r)" "\<not> returns None" "returns (map_option f m) = returns m"
  by (simp_all add: returns_def)

lemma returns_iff: "returns m \<longleftrightarrow> (\<exists>r. m = Some r)"
  by (auto simp: returns_def)

lemma returns_bind [intro]: "returns m \<Longrightarrow> (\<And>r. returns (f r)) \<Longrightarrow> returns (Option.bind m f)"
  by (auto simp: returns_iff)

lemma returns_try [intro]: "returns m \<Longrightarrow> (\<And>en r. returns (f en r)) \<Longrightarrow> returns (try_call m f)"
  by (auto simp: returns_def try_call_def split: option.splits sum.splits)

lemma join_finite_returns:
  assumes "ticking h" "join_fuel \<le> fuel"
  shows "returns (join_finite h fuel t name w)"
proof -
  let ?d = "ho_now h w + JOIN_TIMEOUT_ms" and ?m = "\<lambda>v. (ho_now h w + JOIN_TIMEOUT_ms - ho_now h v + 4) div 5"
  obtain b where "run_loop (join_turn h t ?d) (Suc (?m w)) w = Some b"
    using run_loop_terminates [of "\<lambda>_. True" w "join_turn h t ?d" ?m] join_turn_progress [OF assms(1)]
    by auto
  moreover have "Suc (?m w) \<le> fuel" using assms(2) by (simp add: JOIN_TIMEOUT_ms_def join_fuel_def)
  ultimately have "run_loop (join_turn h t ?d) fuel w = Some b" by (rule run_loop_mono)
  then show ?thesis by (simp add: join_finite_def Let_def)
qed

lemma join_slot_returns:
  assumes "ticking h" "join_fuel \<le> fuel"
  shows "returns (join_slot h fuel name f slot st)"
proof (cases slot)
  case (Some t)
  obtain r where "join_finite h fuel t name (fst st) = Some r"
    using join_finite_returns [OF assms] unfolding returns_iff by blast
  then show ?thesis
    by (cases st; cases r) (auto simp: join_slot_def Some split: sum.split)
qed (simp add: join_slot_def split: prod.split)

lemma join_run_returns: "ticking h \<Longrightarrow> join_fuel \<le> fuel \<Longrightarrow> returns (join_run h fuel rh w)"
  unfolding join_run_def using join_slot_returns by (auto intro!: returns_bind)

lemma cleanup_returns:
  assumes "ticking h" "join_fuel \<le> fuel"
  shows "returns (cleanup_previous_run h fuel en)"
proof (cases "en_run en")
  case (Some rh)
  obtain r where "join_run h fuel rh ((ho_others h (en_world en))\<lparr>w_stop_requested := True\<rparr>) = Some r"
    using join_run_returns [OF assms] unfolding returns_iff by blast
  then show ?thesis by (cases r) (auto simp: cleanup_previous_run_def Some split: prod.split sum.split)
qed (simp add: cleanup_previous_run_def)

lemma stop_returns: "ticking h \<Longrightarrow> join_fuel \<le> fuel \<Longrightarrow> returns (engine_stop h fuel en)"
  by (simp add: engine_stop_def Let_def cleanup_returns returns_try)

lemma ready_returns: "ticking h \<Longrightarrow> join_fuel \<le> fuel \<Longrightarrow> returns (ready_to_start h fuel en)"
  by (simp add: ready_to_start_def Let_def cleanup_returns split: engine_state.split)

text \<open>Making the session identity never panics: an identity is not zero.\<close>

lemma begin_returns:
  "returns (begin_bypass h source pair w)" "returns (begin_aec h source render pair w)"
proof -
  have "session_id_new (snd (identity_now h v)) \<noteq> None" for v
    using new_identity_nonzero [of "ho_others h" "ho_clock h v" "ho_pid h" v]
    by (simp add: session_id_new_def identity_now_def)
  then show "returns (begin_bypass h source pair w)" "returns (begin_aec h source render pair w)"
    by (auto simp: begin_bypass_def begin_aec_def Let_def split_def split: option.split)
qed

lemma abort_returns:
  assumes "ticking h" "join_fuel \<le> fuel"
  shows "returns (abort_bypass h fuel handles e en)"
  using join_run_returns [OF assms, of handles "record_failure (ho_others h) e (en_world en)"]
  by (auto simp: abort_bypass_def returns_iff)

lemma start_workers_return:
  assumes "ticking h" "join_fuel \<le> fuel"
  shows "returns (start_bypass_workers h fuel source pair en)"
    and "returns (start_aec_workers h fuel source render pair en)"
proof -
  obtain r where "begin_bypass h source pair (en_world en) = Some r"
    using begin_returns(1) unfolding returns_iff by blast
  then show "returns (start_bypass_workers h fuel source pair en)"
    by (simp add: start_bypass_workers_def Let_def cleanup_returns [OF assms] abort_returns [OF assms]
        returns_try split: prod.split sum.split)
  obtain r where "begin_aec h source render pair (en_world en) = Some r"
    using begin_returns(2) unfolding returns_iff by blast
  then show "returns (start_aec_workers h fuel source render pair en)"
    by (simp add: start_aec_workers_def Let_def cleanup_returns [OF assms] returns_try
        split: prod.split sum.split)
qed

lemma start_returns:
  assumes "ticking h" "join_fuel \<le> fuel"
  shows "returns (engine_start h fuel config en)"
proof -
  have "returns (start_bypass h fuel i pair en)" for i pair
    by (simp add: start_bypass_def end_start_def returns_try ready_returns [OF assms]
        start_workers_return [OF assms] split: sum.split)
  moreover have "returns (start_aec h fuel i r pair en)" for i r pair
    by (simp add: start_aec_def end_start_def returns_try ready_returns [OF assms]
        start_workers_return [OF assms] split: sum.split)
  ultimately show ?thesis
    by (simp add: engine_start_def Let_def split: sum.split processing_mode.split option.split)
qed

text \<open>C14
  Every command of the controller returns, and never panics: whatever the workers do or fail to do, when
  the clock advances with the sleeps, 601 turns are enough for each of the joining loops, whose deadline is
  three seconds.\<close>

theorem engine_do_returns:
  assumes "ticking h" "join_fuel \<le> fuel"
  shows "\<exists>en' r. engine_do h fuel command en = Some (en', r)"
proof -
  have "returns (engine_do h fuel command en)"
    unfolding engine_do_def
    by (simp add: returns_try start_returns [OF assms] stop_returns [OF assms]
        split: engine_command.split prod.split)
  then show ?thesis by (auto simp: returns_iff)
qed

section \<open>A stop that succeeds\<close>

text \<open>
  A thread that has finished stays finished, and whether it has is not up to the state that the threads
  share (it is in the rest of the world).
\<close>

definition lasting :: "('x, 'h) host \<Rightarrow> bool" where
  "lasting h \<longleftrightarrow>
    (\<forall>t w w'. w_rest w = w_rest w' \<longrightarrow> ho_is_finished h t w = ho_is_finished h t w')
    \<and> (\<forall>t w. ho_is_finished h t w \<longrightarrow> ho_is_finished h t (ho_others h w) \<and> ho_is_finished h t (ho_sleep h w))"

definition keeps_finished :: "('x, 'h) host \<Rightarrow> 'x world \<Rightarrow> 'x world \<Rightarrow> bool" where
  "keeps_finished h w w' \<longleftrightarrow> (\<forall>t. ho_is_finished h t w \<longrightarrow> ho_is_finished h t w')"

lemma keeps_refl [simp]: "keeps_finished h w w"
  by (simp add: keeps_finished_def)

lemma keeps_trans: "keeps_finished h a b \<Longrightarrow> keeps_finished h b c \<Longrightarrow> keeps_finished h a c"
  by (simp add: keeps_finished_def)

lemma keeps_rest:
  "lasting h \<Longrightarrow> w_rest w' = w_rest w \<Longrightarrow> keeps_finished h a w' = keeps_finished h a w"
proof -
  assume "lasting h" "w_rest w' = w_rest w"
  then have "ho_is_finished h t w' = ho_is_finished h t w" for t unfolding lasting_def by blast
  then show ?thesis by (simp add: keeps_finished_def)
qed

lemma keeps_others:
  "lasting h \<Longrightarrow> keeps_finished h a w \<Longrightarrow> keeps_finished h a (ho_others h w)"
  "lasting h \<Longrightarrow> keeps_finished h a w \<Longrightarrow> keeps_finished h a (ho_sleep h w)"
  unfolding lasting_def keeps_finished_def by blast+

lemma keeps_updates:
  assumes "lasting h"
  shows "keeps_finished h a (w\<lparr>w_queue := q\<rparr>) = keeps_finished h a w"
    "keeps_finished h a (w\<lparr>w_microphone_queue := p\<rparr>) = keeps_finished h a w"
    "keeps_finished h a (w\<lparr>w_render_queue := p\<rparr>) = keeps_finished h a w"
    "keeps_finished h a (w\<lparr>w_stop_requested := b\<rparr>) = keeps_finished h a w"
    "keeps_finished h a (on_snapshot f w) = keeps_finished h a w"
  by (rule keeps_rest [OF assms], simp)+

lemma join_finite_keeps:
  assumes l: "lasting h" and run: "join_finite h fuel t name w = Some (w', r)"
  shows "keeps_finished h w w' \<and> (r = Inr () \<longrightarrow> ho_is_finished h t w')"
proof -
  let ?d = "ho_now h w + JOIN_TIMEOUT_ms"
  from run obtain w1 where loop: "run_loop (join_turn h t ?d) fuel w = Some w1"
    and w': "w' = ho_others h w1" "r = Inr () \<longrightarrow> ho_is_finished h t w'"
    by (auto simp: join_finite_def Let_def split: option.splits if_splits)
  have "keeps_finished h w w1"
    by (rule run_loop_invariant [OF loop, where I = "keeps_finished h w"])
      (auto simp: join_turn_def Let_def keeps_others [OF l] split: if_splits)
  with w' show ?thesis by (simp add: keeps_others [OF l])
qed

lemma join_slot_keeps:
  assumes l: "lasting h" and f: "\<And>w. keeps_finished h w (f w)"
    and run: "join_slot h fuel name f slot (w, first) = Some (w', first')"
  shows "keeps_finished h w w' \<and> (first' = None \<longrightarrow> first = None \<and> (case slot of None \<Rightarrow> True | Some t \<Rightarrow> ho_is_finished h t w'))"
proof (cases slot)
  case (Some t)
  from run Some obtain v r where v: "join_finite h fuel t name w = Some (v, r)"
    and r: "case r of Inr _ \<Rightarrow> w' = v \<and> first' = first | Inl e \<Rightarrow> w' = f v \<and> first' \<noteq> None"
    by (auto simp: join_slot_def split: option.splits sum.splits prod.splits)
  from join_finite_keeps [OF l v] r f [of v] keeps_trans [of h w v "f v"] Some show ?thesis
    by (cases r) auto
qed (use run in \<open>simp add: join_slot_def\<close>)

definition handle_list :: "'h run_handles \<Rightarrow> 'h list" where
  "handle_list rh = concat (map (case_option [] (\<lambda>t. [t]))
     [rh_capture rh, rh_render rh, rh_sink rh, rh_processing rh])"

lemma keeps_queue_steps:
  assumes "lasting h"
  shows "keeps_finished h w (fail_queues h rh w)" "keeps_finished h w (fail_render_queue h rh w)"
    "keeps_finished h w (finish_unproduced h rh w)" "keeps_finished h w (clear_run_queues h rh w)"
  by (simp_all add: fail_queues_def fail_render_queue_def finish_unproduced_def clear_run_queues_def
      update_queue_def Let_def split_def keeps_others [OF assms] keeps_updates [OF assms])

lemma join_run_keeps:
  assumes l: "lasting h" and run: "join_run h fuel rh w = Some ((w', rh'), Inr ())"
  shows "list_all (\<lambda>t. ho_is_finished h t w') (handle_list rh)"
proof -
  note q = keeps_queue_steps [OF l]
  from run obtain a1 f1 a2 f2 a3 f3 where
    s1: "join_slot h fuel ''capture'' (fail_queues h rh) (rh_capture rh) (finish_unproduced h rh w, None) = Some (a1, f1)"
    and s2: "join_slot h fuel ''render'' (fail_render_queue h rh) (rh_render rh) (a1, f1) = Some (a2, f2)"
    and s3: "join_slot h fuel ''sink'' id (rh_sink rh) (a2, f2) = Some (a3, f3)"
    and s4: "join_slot h fuel ''processing'' id (rh_processing rh) (a3, f3) = Some (w', None)"
    by (auto simp: join_run_def bind_eq_Some_conv split: option.splits)
  have id: "keeps_finished h v (id v)" for v by simp
  note k4 = join_slot_keeps [OF l id s4]
  then have "f3 = None" by simp
  note k3 = join_slot_keeps [OF l id s3 [unfolded this]]
  then have "f2 = None" by simp
  note k2 = join_slot_keeps [OF l q(2) s2 [unfolded this]]
  then have "f1 = None" by simp
  note k1 = join_slot_keeps [OF l q(1) s1 [unfolded this]]
  from k1 k2 k3 k4 show ?thesis
    by (auto simp: handle_list_def keeps_finished_def split: option.splits)
qed

text \<open>C12
  A stop that succeeds on an engine with a run leaves the state Stopped and no run, and every worker of the
  run has finished: no thread of it is left to touch the device.  It holds for whatever the workers do
  meanwhile.\<close>

theorem stop_joins_all:
  assumes "lasting h" "en_run en = Some rh" "engine_stop h fuel en = Some (en', Inr ())"
  shows "es_state (w_snapshot (en_world en')) = Stopped \<and> en_run en' = None
    \<and> list_all (\<lambda>t. ho_is_finished h t (en_world en')) (handle_list rh)"
proof -
  from assms(2,3) obtain w en1 where
    clean: "cleanup_previous_run h fuel (en\<lparr>en_world := w\<rparr>) = Some (en1, Inr ())"
    and en': "en' = en1\<lparr>en_world := on_snapshot (\<lambda>s. s\<lparr>es_state := Stopped, es_queue_depth := 0,
      es_render_queue_depth := 0\<rparr>) (ho_others h (en_world en1))\<rparr>"
    by (auto simp: engine_stop_def Let_def try_call_Some)
  from clean assms(2) obtain v v' rh' where
    run: "join_run h fuel rh v = Some ((v', rh'), Inr ())"
    and en1: "en_world en1 = clear_run_queues h rh' v'" "en_run en1 = None"
    by (auto simp: cleanup_previous_run_def Let_def split: option.splits sum.splits prod.splits)
  have "keeps_finished h v' (en_world en')"
    using keeps_queue_steps(4) [OF assms(1), of v' rh']
    by (simp add: en' en1 keeps_updates [OF assms(1)] keeps_others [OF assms(1)])
  with join_run_keeps [OF assms(1) run] show ?thesis
    by (auto simp: en' en1 list_all_iff keeps_finished_def)
qed

text \<open>A stop that fails forgets the run: whatever worker did not finish in time, or panicked, the next stop
  succeeds at once and reports Stopped, with no handle left to join the worker with.\<close>

theorem second_stop_succeeds:
  assumes "engine_stop h fuel en = Some (en1, Inl e)"
  shows "en_run en1 = None \<and> (case engine_stop h fuel' en1 of
      Some (en2, Inr _) \<Rightarrow> es_state (w_snapshot (en_world en2)) = Stopped
    | _ \<Rightarrow> False)"
proof -
  have "en_run en1 = None"
    using assms by (auto simp: engine_stop_def cleanup_previous_run_def Let_def try_call_Some
        split: if_splits option.splits sum.splits prod.splits)
  then show ?thesis by (simp add: engine_stop_def cleanup_previous_run_def Let_def)
qed

section \<open>Starts\<close>

definition busy :: "engine_state \<Rightarrow> bool" where
  "busy s \<longleftrightarrow> s \<noteq> Stopped \<and> s \<noteq> EngineFailed"

definition refused ::
  "('x, 'h) host \<Rightarrow> ('x, 'h, 'i, 's, 'f, 'a) engine
     \<Rightarrow> (('x, 'h, 'i, 's, 'f, 'a) engine, unit) call \<Rightarrow> bool" where
  "refused h en m \<longleftrightarrow>
    (\<exists>e. m = Some (en, Inl e) \<or> m = Some (en\<lparr>en_world := ho_others h (en_world en)\<rparr>, Inl e))"

lemma refused_simps [simp]: "refused h en (Some (en, Inl e))"
  "refused h en (Some (en\<lparr>en_world := ho_others h (en_world en)\<rparr>, Inl e))"
  by (auto simp: refused_def)

text \<open>A start while the engine is starting, running, degraded or stopping is refused, whatever the
  configuration: the call fails and the only change is what the other threads did meanwhile.\<close>

theorem start_refused_when_busy:
  assumes "busy (es_state (w_snapshot (ho_others h (en_world en))))"
  shows "refused h en (engine_start h fuel config en)"
proof -
  obtain e where ready: "ready_to_start h fuel en = Some (en\<lparr>en_world := ho_others h (en_world en)\<rparr>, Inl e)"
    using assms by (cases "es_state (w_snapshot (ho_others h (en_world en)))")
      (auto simp: busy_def ready_to_start_def)
  then have "refused h en (start_bypass h fuel i pair en)" "refused h en (start_aec h fuel i r pair en)"
    for i r pair
    by (simp_all add: start_bypass_def start_aec_def)
  then show ?thesis
    by (simp add: engine_start_def Let_def split: sum.split processing_mode.split option.split)
qed

text \<open>The handles a run of each mode has.\<close>

definition run_shape :: "processing_mode \<Rightarrow> 'h run_handles \<Rightarrow> bool" where
  "run_shape mode rh = (case mode of
     Bypass \<Rightarrow> rh_queue rh \<and> \<not> rh_microphone_queue rh \<and> \<not> rh_render_queue rh \<and> rh_capture rh \<noteq> None
       \<and> rh_sink rh \<noteq> None \<and> rh_render rh = None \<and> rh_processing rh = None
   | Aec \<Rightarrow> \<not> rh_queue rh \<and> rh_microphone_queue rh \<and> rh_render_queue rh \<and> rh_capture rh \<noteq> None
       \<and> rh_render rh \<noteq> None \<and> rh_processing rh \<noteq> None \<and> rh_sink rh = None)"

lemma finish_start_ok:
  assumes "finish_start h msg state en = (en', Inr ())"
  shows "\<not> w_terminal_failure (en_world en') \<and> (\<exists>s. es_state (w_snapshot (en_world en')) = state s)
    \<and> en_run en' = en_run en"
  using assms by (auto simp: finish_start_def Let_def split: if_splits)

lemma start_bypass_workers_ok:
  assumes "start_bypass_workers h fuel source pair en = Some (en', Inr ())"
  shows "\<not> w_terminal_failure (en_world en') \<and> es_state (w_snapshot (en_world en')) = RunningBypass
    \<and> (case en_run en' of Some rh \<Rightarrow> run_shape Bypass rh | None \<Rightarrow> False)"
  using assms finish_start_ok
  by (fastforce simp: start_bypass_workers_def abort_bypass_def bypass_handles_def run_shape_def Let_def try_call_Some
      split: option.splits prod.splits sum.splits)

lemma start_aec_workers_ok:
  assumes "start_aec_workers h fuel source render pair en = Some (en', Inr ())"
  shows "\<not> w_terminal_failure (en_world en') \<and> es_state (w_snapshot (en_world en')) \<noteq> Starting
    \<and> (case en_run en' of Some rh \<Rightarrow> run_shape Aec rh | None \<Rightarrow> False)"
proof -
  from assms obtain w sid handles v where
    spawn: "\<exists>w0. spawn_aec_workers h source render pair sid w0 = (w, Inr handles)"
    and fin: "finish_start h ''AEC startup worker failed'' (\<lambda>state. if state = Starting then RunningAec else state)
      (en\<lparr>en_run := Some handles, en_world := v\<rparr>) = (en', Inr ())"
    by (fastforce simp: start_aec_workers_def Let_def try_call_Some split: option.splits prod.splits sum.splits)
  from spawn obtain w0 where "spawn_aec_workers h source render pair sid w0 = (w, Inr handles)" by blast
  then have "run_shape Aec handles"
    by (auto simp: spawn_aec_workers_def run_shape_def split: prod.splits sum.splits)
  with finish_start_ok [OF fin] show ?thesis by (auto split: if_splits)
qed

lemma end_start_ok: "end_start h m = Some (en', r) \<longleftrightarrow>
    (\<exists>en1. m = Some (en1, r) \<and> en' = en1\<lparr>en_world := drop_receivers h (en_world en1)\<rparr>)"
  by (auto simp: end_start_def)

lemma start_bypass_ok:
  assumes "start_bypass h fuel i pair en = Some (en', Inr ())"
  shows "\<exists>source en0 en1. start_bypass_workers h fuel source pair en0 = Some (en1, Inr ())
     \<and> en' = en1\<lparr>en_world := drop_receivers h (en_world en1)\<rparr>"
proof -
  from assms obtain en0 where "(case resolve_source en0 Microphone i of
      Inl e \<Rightarrow> Some (en0, Inl e)
    | Inr source \<Rightarrow> end_start h (start_bypass_workers h fuel source pair en0)) = Some (en', Inr ())"
    by (auto simp: start_bypass_def try_call_Some split: if_splits)
  then show ?thesis by (auto simp: end_start_ok split: sum.splits)
qed

lemma start_aec_ok:
  assumes "start_aec h fuel i r pair en = Some (en', Inr ())"
  shows "\<exists>source render en0 en1. start_aec_workers h fuel source render pair en0 = Some (en1, Inr ())
     \<and> en' = en1\<lparr>en_world := drop_receivers h (en_world en1)\<rparr>"
proof -
  from assms obtain en0 where "(case resolve_source en0 Microphone i of
      Inl e \<Rightarrow> Some (en0, Inl e)
    | Inr source \<Rightarrow> (case resolve_source en0 RenderLoopback r of
        Inl e \<Rightarrow> Some (en0, Inl e)
      | Inr render \<Rightarrow> end_start h (start_aec_workers h fuel source render pair en0))) = Some (en', Inr ())"
    by (auto simp: start_aec_def try_call_Some split: if_splits)
  then show ?thesis by (auto simp: end_start_ok split: sum.splits)
qed


section \<open>Starts that fail\<close>

text \<open>The other threads never lower the failure flag; only a start does.\<close>

definition latching :: "('x, 'h) host \<Rightarrow> bool" where
  "latching h \<longleftrightarrow> (\<forall>w. w_terminal_failure w \<longrightarrow>
     w_terminal_failure (ho_others h w) \<and> w_terminal_failure (ho_sleep h w))"

lemma latched_others:
  "latching h \<Longrightarrow> w_terminal_failure w \<Longrightarrow> w_terminal_failure (ho_others h w)"
  "latching h \<Longrightarrow> w_terminal_failure w \<Longrightarrow> w_terminal_failure (ho_sleep h w)"
  by (simp_all add: latching_def)

lemma latched_record:
  assumes "latching h"
  shows "w_terminal_failure (record_failure (ho_others h) e w)"
    "w_terminal_failure (record_aec_failure (ho_others h) b e w)"
  by (simp_all add: record_failure_def record_aec_failure_def Let_def latched_others [OF assms])

text \<open>
  What the workers keep, joining them keeps: the controller's own steps while it joins a run touch only the
  queues, the stop request and the queue counters of the snapshot.
\<close>

locale kept_while_joining =
  fixes others sleep :: "'x world \<Rightarrow> 'x world" and kept :: "'x world \<Rightarrow> bool"
  assumes kept_others: "kept w \<Longrightarrow> kept (others w)"
    and kept_sleep: "kept w \<Longrightarrow> kept (sleep w)"
    and kept_updates: "kept w \<Longrightarrow> kept (w\<lparr>w_queue := q\<rparr>)" "kept w \<Longrightarrow> kept (w\<lparr>w_microphone_queue := m\<rparr>)"
      "kept w \<Longrightarrow> kept (w\<lparr>w_render_queue := m\<rparr>)" "kept w \<Longrightarrow> kept (w\<lparr>w_stop_requested := b\<rparr>)"
      "kept w \<Longrightarrow> kept (on_snapshot (with_queue_metrics metrics) w)"
begin

lemma join_finite_kept:
  assumes h: "ho_others h = others" "ho_sleep h = sleep"
    and run: "join_finite h fuel t name w = Some (w', r)" and w: "kept w"
  shows "kept w'"
proof -
  from run obtain v where
    loop: "run_loop (join_turn h t (ho_now h w + JOIN_TIMEOUT_ms)) fuel w = Some v" and w': "w' = others v"
    by (auto simp: join_finite_def Let_def h split: option.splits)
  have "kept v"
    by (rule run_loop_invariant [OF loop, where I = kept])
      (use w in \<open>auto simp: join_turn_def Let_def h kept_others kept_sleep split: if_splits\<close>)
  then show ?thesis by (simp add: w' kept_others)
qed

lemma join_slot_kept:
  assumes h: "ho_others h = others" "ho_sleep h = sleep" and f: "\<And>w. kept w \<Longrightarrow> kept (f w)"
    and run: "join_slot h fuel name f slot st = Some st'" and w: "kept (fst st)"
  shows "kept (fst st')"
  using run w by (cases st; cases slot)
    (auto simp: join_slot_def f split: option.splits sum.splits prod.splits dest: join_finite_kept [OF h])

lemma queue_steps_kept:
  assumes "ho_others h = others" "kept w"
  shows "kept (fail_queues h rh w)" "kept (fail_render_queue h rh w)"
    "kept (finish_unproduced h rh w)" "kept (clear_run_queues h rh w)"
  using assms(2)
  by (simp_all add: fail_queues_def fail_render_queue_def finish_unproduced_def clear_run_queues_def
      update_queue_def Let_def split_def kept_others kept_updates assms(1)
      kept_updates(5) [unfolded with_queue_metrics_def])

lemma join_run_kept:
  assumes h: "ho_others h = others" "ho_sleep h = sleep"
    and run: "join_run h fuel rh w = Some ((w', rh'), r)" and w: "kept w"
  shows "kept w'"
proof -
  note q = queue_steps_kept [OF h(1)]
  from run obtain a1 a2 a3 f4 where
    s1: "join_slot h fuel ''capture'' (fail_queues h rh) (rh_capture rh) (finish_unproduced h rh w, None) = Some a1"
    and s2: "join_slot h fuel ''render'' (fail_render_queue h rh) (rh_render rh) a1 = Some a2"
    and s3: "join_slot h fuel ''sink'' id (rh_sink rh) a2 = Some a3"
    and s4: "join_slot h fuel ''processing'' id (rh_processing rh) a3 = Some (w', f4)"
    by (auto simp: join_run_def bind_eq_Some_conv)
  have id: "kept v \<Longrightarrow> kept (id v)" for v by simp
  have "kept (fst a1)" by (rule join_slot_kept [OF h q(1) s1]) (simp_all add: q(3) w)
  then have "kept (fst a2)" by (rule join_slot_kept [OF h q(2) s2, rotated])
  then have "kept (fst a3)" by (rule join_slot_kept [OF h id s3, rotated])
  then have "kept (fst (w', f4))" by (rule join_slot_kept [OF h id s4, rotated])
  then show ?thesis by simp
qed

lemma cleanup_kept:
  assumes h: "ho_others h = others" "ho_sleep h = sleep"
    and run: "cleanup_previous_run h fuel en = Some (en', r)" and w: "kept (en_world en)"
  shows "kept (en_world en')"
proof (cases "en_run en")
  case (Some rh)
  let ?w = "(others (en_world en))\<lparr>w_stop_requested := True\<rparr>"
  from run Some obtain w1 rh1 r1 where j: "join_run h fuel rh ?w = Some ((w1, rh1), r1)"
    and en': "en_world en' = w1 \<or> en_world en' = clear_run_queues h rh1 w1"
    by (auto simp: cleanup_previous_run_def Let_def h split: option.splits sum.splits prod.splits)
  have "kept w1" by (rule join_run_kept [OF h j]) (simp add: kept_others kept_updates w)
  with en' queue_steps_kept(4) [OF h(1)] show ?thesis by auto
qed (use run in \<open>auto simp: cleanup_previous_run_def Let_def h kept_others kept_updates w\<close>)

end

interpretation latch: kept_while_joining "ho_others h" "ho_sleep h" "\<lambda>w. latching h \<longrightarrow> w_terminal_failure w"
  for h :: "('x, 'h) host"
  by unfold_locales (simp_all add: latched_others)

lemmas latched_join_run = latch.join_run_kept [OF refl refl]
  and latched_cleanup = latch.cleanup_kept [OF refl refl]

lemma latched_finish_start:
  "finish_start h msg state en = (en', Inl e) \<Longrightarrow> w_terminal_failure (en_world en')"
  by (auto simp: finish_start_def Let_def split: if_splits)

definition failed_latched :: "(('x, 'h, 'i, 's, 'f, 'a) engine, unit) call \<Rightarrow> bool" where
  "failed_latched m = (case m of Some (en, Inl e) \<Rightarrow> w_terminal_failure (en_world en) | _ \<Rightarrow> True)"

lemma failed_latched_try:
  assumes "\<And>en e. m = Some (en, Inl e) \<Longrightarrow> w_terminal_failure (en_world en)"
    and "\<And>en r. m = Some (en, Inr r) \<Longrightarrow> failed_latched (f en r)"
  shows "failed_latched (try_call m f)"
  using assms by (auto simp: failed_latched_def try_call_def split: option.splits sum.splits prod.splits)

lemma failed_latched_cleanup:
  assumes "latching h" "w_terminal_failure (en_world en)"
  shows "failed_latched (try_call (cleanup_previous_run h fuel en) (\<lambda>en _. Some (en, Inl e)))"
  by (rule failed_latched_try) (use latched_cleanup [of h fuel en] assms in \<open>auto simp: failed_latched_def\<close>)

lemma failed_latched_abort:
  assumes "latching h"
  shows "failed_latched (abort_bypass h fuel handles e en)"
  using latched_join_run [of h fuel] latched_record(1) [OF assms] assms
  by (fastforce simp: failed_latched_def abort_bypass_def split: option.splits prod.splits)

lemma failed_latched_finish: "failed_latched (Some (finish_start h msg state en))"
  by (cases "finish_start h msg state en"; cases "snd (finish_start h msg state en)")
    (auto simp: failed_latched_def dest: latched_finish_start)

definition spawns :: "('x, 'h) host \<Rightarrow> bool" where
  "spawns h \<longleftrightarrow> (\<forall>task w. \<not> is_err (snd (ho_spawn h task w)))"

lemma spawns_worker: "spawns h \<Longrightarrow> spawn_worker h task what w \<noteq> (v, Inl e)"
proof
  assume "spawns h" "spawn_worker h task what w = (v, Inl e)"
  then obtain e' where "ho_spawn h task (ho_others h w) = (v, Inl e')"
    by (auto simp: spawn_worker_def split: prod.splits sum.splits)
  with \<open>spawns h\<close> show False unfolding spawns_def by (metis is_err_simps(1) snd_conv)
qed

text \<open>When the threads can be spawned, a start that fails after it has set the engine to Starting leaves the
  failure flag raised: the run is terminally failed, for any behaviour of the workers.\<close>

theorem failed_start_latches:
  assumes "latching h" "spawns h"
  shows "failed_latched (start_bypass_workers h fuel source pair en)
    \<and> failed_latched (start_aec_workers h fuel source render pair en)"
proof
  note clean = failed_latched_cleanup [OF assms(1)] and recorded = latched_record [OF assms(1)]
  have none: "failed_latched None" by (simp add: failed_latched_def)
  have sink: "spawn_sink_worker h pair sid w \<noteq> (v, Inl e)" for sid w v e
    by (simp add: spawn_sink_worker_def spawns_worker [OF assms(2)])
  show "failed_latched (start_bypass_workers h fuel source pair en)"
    by (auto simp: start_bypass_workers_def Let_def none sink clean recorded failed_latched_finish
        failed_latched_abort [OF assms(1)] split: option.split prod.split sum.split)
  have workers: "spawn_aec_workers h source render pair sid w \<noteq> (v, Inl e)" for sid w v e
    by (auto simp: spawn_aec_workers_def spawn_aec_input_worker_def spawn_aec_processing_worker_def
        spawns_worker [OF assms(2)] split: prod.splits sum.splits)
  show "failed_latched (start_aec_workers h fuel source render pair en)"
    by (auto simp: start_aec_workers_def Let_def none workers clean recorded failed_latched_finish
        split: option.split prod.split sum.split)
qed

section \<open>A thread that cannot be spawned\<close>

text \<open>When the render thread of an AEC run cannot be spawned, the call fails but the engine stays in the state
  Starting with no failure recorded and no run to clean up, although the microphone thread is running
  already.\<close>

theorem spawn_failure_leaves_starting:
  assumes quiet: "ho_others h = id"
    and first: "\<And>w. \<exists>t. ho_spawn h (AecInputTask Microphone source) w = (w, Inr t)"
    and second: "\<And>w. ho_spawn h (AecInputTask RenderLoopback render) w = (w, Inl os)"
  shows "case start_aec_workers h fuel source render pair en of
      Some (en', Inl e) \<Rightarrow> es_state (w_snapshot (en_world en')) = Starting
        \<and> \<not> w_terminal_failure (en_world en') \<and> \<not> w_stop_requested (en_world en')
        \<and> es_last_error (w_snapshot (en_world en')) = None \<and> en_run en' = en_run en
    | _ \<Rightarrow> False"
proof -
  obtain w sid where begun: "begin_aec h source render pair (en_world en) = Some (w, sid)"
    using begin_returns(2) unfolding returns_iff by (metis surj_pair)
  then have w: "es_state (w_snapshot w) = Starting \<and> es_last_error (w_snapshot w) = None
      \<and> \<not> w_terminal_failure w \<and> \<not> w_stop_requested w"
    by (auto simp: begin_aec_def lower_flags_def Let_def split_def quiet starting_aec_def
        default_snapshot_def split: option.splits)
  obtain t where t: "ho_spawn h (AecInputTask Microphone source) (open_channel CaptureWorker w) = (open_channel CaptureWorker w, Inr t)"
    using first by blast
  let ?w = "open_channel RenderWorker (open_channel CaptureWorker w)"
  have "start_aec_workers h fuel source render pair en = Some (en\<lparr>en_world := ?w\<rparr>,
      Inl (engine_error_new EK_WorkerFailure (Pieces [Text ''failed to spawn '',
        Pieces [Text (input_role_debug RenderLoopback), Text '' worker''], Text '': '', Shown os])))"
    by (simp add: start_aec_workers_def begun spawn_aec_workers_def spawn_aec_input_worker_def
        spawn_worker_def quiet t second)
  moreover have "es_state (w_snapshot ?w) = Starting" "es_last_error (w_snapshot ?w) = None"
    "\<not> w_terminal_failure ?w" "\<not> w_stop_requested ?w"
    using w by (simp_all add: open_channel_def)
  ultimately show ?thesis by simp
qed

section \<open>A concrete host\<close>

fun task_worker :: "task \<Rightarrow> worker" where
  "task_worker (SinkTask pair session_id) = SinkWorker"
| "task_worker (CaptureTask source) = CaptureWorker"
| "task_worker (AecInputTask role source) = (case role of Microphone \<Rightarrow> CaptureWorker | RenderLoopback \<Rightarrow> RenderWorker)"
| "task_worker (AecProcessingTask pair session_id) = ProcessingWorker"

text \<open>Time is the rest of the world; every worker reports ready when spawned and has finished when asked.\<close>

definition calm_host :: "(nat, nat) host" where
  "calm_host = \<lparr>ho_others = id, ho_clock = (\<lambda>w. Some (w_rest w)), ho_pid = 1, ho_now = w_rest,
     ho_sleep = (\<lambda>w. w\<lparr>w_rest := w_rest w + 5\<rparr>),
     ho_spawn = (\<lambda>task w. (fst (ready_send id (task_worker task) (Inr ()) w), Inr 0)),
     ho_is_finished = (\<lambda>t w. True), ho_panicked = (\<lambda>t w. False), ho_sender_dropped = (\<lambda>k w. True)\<rparr>"

definition any_source :: "input_role \<Rightarrow> str \<Rightarrow> source_descriptor" where
  "any_source role endpoint_id = \<lparr>sd_role = role, sd_endpoint_id = endpoint_id, sd_friendly_name = endpoint_id,
     sd_active = True, sd_native_format = None\<rparr>"

definition calm_engine :: "(nat, nat, unit, unit, unit, unit) engine" where
  "calm_engine = engine_new_with_aec 0
     \<lparr>aif_resolve = (\<lambda>role i. Inr (any_source role i)), aif_open = (\<lambda>role d. Inr ())\<rparr>
     \<lparr>aof_resolve_pair = (\<lambda>i j. Inr cable_pair), aof_connect = (\<lambda>p. Inr ())\<rparr>
     \<lparr>ecf_create = (\<lambda>f. (f, Inr ()))\<rparr>"

definition running_engine :: "(nat, nat, unit, unit, unit, unit) engine" where
  "running_engine = calm_engine\<lparr>en_run := Some ((bypass_handles 1)\<lparr>rh_capture := Some 2\<rparr>),
     en_world := on_snapshot (\<lambda>s. s\<lparr>es_state := RunningBypass\<rparr>) (en_world calm_engine)\<rparr>"

lemma calm_host_sound: "ticking calm_host" "lasting calm_host" "latching calm_host" "spawns calm_host"
  by (simp_all add: ticking_def lasting_def latching_def spawns_def calm_host_def)

lemma engine_do_returns_witness: "\<exists>en r. engine_do calm_host 601 Stop running_engine = Some (en, r)"
  using engine_do_returns [OF calm_host_sound(1), of 601 Stop running_engine] by (simp add: join_fuel_def)

lemmas stop_simps = engine_stop_def cleanup_previous_run_def join_run_def join_slot_def join_finite_def
  join_turn_def Let_def running_engine_def bypass_handles_def calm_engine_def engine_new_with_aec_def
  engine_new_def initial_world_def calm_host_def fail_queues_def finish_unproduced_def

lemma running_engine_stops: "\<exists>en. engine_stop calm_host 1 running_engine = Some (en, Inr ())"
  by (simp add: stop_simps)

lemma stop_joins_all_witness:
  "\<exists>en. engine_stop calm_host 1 running_engine = Some (en, Inr ())
    \<and> es_state (w_snapshot (en_world en)) = Stopped \<and> en_run en = None"
proof -
  obtain en where stop: "engine_stop calm_host 1 running_engine = Some (en, Inr ())"
    using running_engine_stops by blast
  have "en_run running_engine = Some ((bypass_handles 1)\<lparr>rh_capture := Some 2\<rparr>)"
    by (simp add: running_engine_def)
  from stop_joins_all [OF calm_host_sound(2) this stop] stop show ?thesis by blast
qed

lemma second_stop_succeeds_witness:
  "\<exists>en e. engine_stop (calm_host\<lparr>ho_panicked := (\<lambda>t w. t = 2)\<rparr>) 1 running_engine = Some (en, Inl e)
    \<and> (case engine_stop (calm_host\<lparr>ho_panicked := (\<lambda>t w. t = 2)\<rparr>) 1 en of
         Some (en, Inr _) \<Rightarrow> es_state (w_snapshot (en_world en)) = Stopped | _ \<Rightarrow> False)"
proof -
  let ?h = "calm_host\<lparr>ho_panicked := (\<lambda>t w. t = 2)\<rparr>"
  obtain en e where stop: "engine_stop ?h 1 running_engine = Some (en, Inl e)"
    by (simp add: stop_simps)
  from second_stop_succeeds [OF stop, of 1] stop show ?thesis by blast
qed

lemma start_refused_when_busy_witness:
  "refused calm_host running_engine
     (engine_start calm_host 1 (engine_config_bypass [65] [66] [67]) running_engine)"
  by (rule start_refused_when_busy)
    (simp add: busy_def running_engine_def calm_host_def)

lemma calm_start:
  assumes "trim m \<noteq> []" "trim i \<noteq> []" "trim j \<noteq> []" "trim m \<noteq> trim j"
  shows "\<exists>en. engine_start calm_host 1 (engine_config_bypass m i j) calm_engine = Some (en, Inr ())"
proof -
  let ?source = "any_source Microphone (trim m)"
  obtain w sid where begun: "begin_bypass calm_host ?source cable_pair (en_world calm_engine) = Some (w, sid)"
    using begin_returns(1) unfolding returns_iff by (metis surj_pair)
  then have w: "\<not> w_terminal_failure w"
    by (auto simp: begin_bypass_def lower_flags_def Let_def split_def calm_host_def split: option.splits)
  have "\<exists>en. start_bypass_workers calm_host 1 ?source cable_pair calm_engine = Some (en, Inr ())"
    using w by (simp add: start_bypass_workers_def begun)
      (simp add: spawn_sink_worker_def spawn_capture_worker_def spawn_worker_def wait_ready_def
        finish_start_def open_channel_def ready_send_def calm_host_def Let_def)
  moreover have "ready_to_start calm_host 1 calm_engine = Some (calm_engine, Inr ())"
    by (simp add: ready_to_start_def calm_host_def calm_engine_def engine_new_with_aec_def engine_new_def
        initial_world_def default_snapshot_def)
  moreover have "resolve_source calm_engine Microphone m = Inr ?source"
    by (simp add: resolve_source_def calm_engine_def engine_new_with_aec_def engine_new_def any_source_def
        validate_source_def)
  moreover have "aof_resolve_pair (en_sink_factory calm_engine) (trim i) (trim j) = Inr cable_pair"
    by (simp add: calm_engine_def engine_new_with_aec_def engine_new_def)
  ultimately show ?thesis
    using assms by (auto simp: engine_start_def start_bypass_def end_start_def engine_config_bypass_def Let_def)
qed


text \<open>A host whose workers end without reporting.\<close>

definition mute_host :: "(nat, nat) host" where
  "mute_host = calm_host\<lparr>ho_spawn := (\<lambda>task w. (w, Inr 0))\<rparr>"

lemma failed_start_latches_witness:
  "\<exists>en e. start_bypass_workers mute_host 1 (any_source Microphone [65]) cable_pair calm_engine = Some (en, Inl e)
    \<and> w_terminal_failure (en_world en)"
proof -
  have sound: "latching mute_host" "spawns mute_host"
    by (simp_all add: latching_def spawns_def mute_host_def calm_host_def)
  obtain w sid where begun:
    "begin_bypass mute_host (any_source Microphone [65]) cable_pair (en_world calm_engine) = Some (w, sid)"
    using begin_returns(1) unfolding returns_iff by (metis surj_pair)
  obtain en e where start:
    "start_bypass_workers mute_host 1 (any_source Microphone [65]) cable_pair calm_engine = Some (en, Inl e)"
    by (simp add: start_bypass_workers_def begun)
      (simp add: spawn_sink_worker_def spawn_worker_def wait_ready_def open_channel_def abort_bypass_def
        join_run_def join_slot_def join_finite_def join_turn_def finish_unproduced_def bypass_handles_def
        mute_host_def calm_host_def Let_def)
  from failed_start_latches [OF sound, of 1 "any_source Microphone [65]" cable_pair calm_engine] start
  show ?thesis by (simp add: failed_latched_def)
qed

definition short_host :: "(nat, nat) host" where
  "short_host = calm_host\<lparr>ho_spawn := (\<lambda>task w.
     (w, case task of AecInputTask RenderLoopback _ \<Rightarrow> Inl (lit ''no memory'') | _ \<Rightarrow> Inr 0))\<rparr>"

lemma spawn_failure_leaves_starting_witness:
  "case start_aec_workers short_host 1 (any_source Microphone [65]) (any_source RenderLoopback [68])
      cable_pair calm_engine of
    Some (en, Inl e) \<Rightarrow> es_state (w_snapshot (en_world en)) = Starting \<and> \<not> w_stop_requested (en_world en)
  | _ \<Rightarrow> False"
proof -
  have "ho_others short_host = id"
    "\<And>w. \<exists>t. ho_spawn short_host (AecInputTask Microphone (any_source Microphone [65])) w = (w, Inr t)"
    "\<And>w. ho_spawn short_host (AecInputTask RenderLoopback (any_source RenderLoopback [68])) w
      = (w, Inl (lit ''no memory''))"
    by (simp_all add: short_host_def calm_host_def)
  from spawn_failure_leaves_starting [OF this, where fuel = 1 and pair = cable_pair and en = calm_engine] show ?thesis
    by (auto split: option.splits sum.splits)
qed

end
