(* ===== verification/Tray_Properties.thy ===== *)
theory Tray_Properties
  imports Tray Controller_Properties
begin

text \<open>
  What the tray controller guarantees: the configuration it holds is well formed after any sequence of
  operations, an applied configuration comes back after a restart, an environment override is neither
  edited nor written to disk, and the devices it starts the engine with are those it has listed.
\<close>

section \<open>What an operation does\<close>

lemma normalize_optional_Some:
  "normalize_optional v = Some x \<longleftrightarrow> (\<exists>s. v = Some s \<and> \<not> blank s \<and> x = trim s)"
  by (cases v) (auto simp: normalize_optional_def blank_def)

lemma normalize_optional_None:
  "normalize_optional v = None \<longleftrightarrow> (case v of None \<Rightarrow> True | Some s \<Rightarrow> blank s)"
  by (cases v) (auto simp: normalize_optional_def blank_def)

lemma normalize_value_Some: "Option.bind v normalize_value = normalize_optional v"
  by (cases v) (simp_all add: normalize_value_def normalize_optional_def)

lemma required_Inr: "required name v = Inr x \<longleftrightarrow> normalize_optional v = Some x"
  by (auto simp: required_def split: option.split)

lemma chosen_Inr: "chosen message v = Inr x \<longleftrightarrow> normalize_optional v = Some x"
  by (auto simp: chosen_def normalize_value_Some split: option.split)

text \<open>A configuration that passes the validation of the settings file.\<close>

definition configuration_ok :: "tray_configuration \<Rightarrow> bool" where
  "configuration_ok c \<longleftrightarrow> \<not> blank (tc_microphone_endpoint_id c) \<and> \<not> blank (tc_cable_input_endpoint_id c)
     \<and> \<not> blank (tc_cable_output_endpoint_id c)
     \<and> (case tc_render_endpoint_id c of None \<Rightarrow> True | Some r \<Rightarrow> \<not> blank r)
     \<and> (tc_mode c = Bypass \<or> tc_render_endpoint_id c \<noteq> None)"

lemma validate_id_Inr [simp]: "validate_id role i = Inr u \<longleftrightarrow> \<not> blank i"
  by (simp add: validate_id_def blank_def)

lemma persisted_validate_iff:
  "persisted_validate c = Inr () \<longleftrightarrow> pc_version c = CONFIG_VERSION
     \<and> \<not> blank (pc_microphone_endpoint_id c) \<and> \<not> blank (pc_cable_input_endpoint_id c)
     \<and> \<not> blank (pc_cable_output_endpoint_id c)
     \<and> (case pc_render_endpoint_id c of None \<Rightarrow> True | Some r \<Rightarrow> \<not> blank r)
     \<and> (pc_mode c = Bypass \<or> pc_render_endpoint_id c \<noteq> None)"
  by (cases "pc_mode c"; cases "pc_render_endpoint_id c")
    (auto simp: persisted_validate_def res_bind_eq_Inr)

lemma to_persisted_valid: "persisted_validate (to_persisted c) = Inr () \<longleftrightarrow> configuration_ok c"
  by (auto simp: persisted_validate_iff to_persisted_def configuration_ok_def split: option.splits)

lemma from_to_persisted: "configuration_ok c \<Longrightarrow> from_persisted (to_persisted c) = Inr c"
  using to_persisted_valid [of c] by (simp add: from_persisted_def) (simp add: to_persisted_def)

lemma from_persisted_ok: "from_persisted p = Inr c \<Longrightarrow> configuration_ok c"
  by (auto simp: from_persisted_def res_bind_eq_Inr persisted_validate_iff configuration_ok_def
      split: option.splits)

lemma from_values_ok: "from_values m r i j = Inr (Some c) \<Longrightarrow> configuration_ok c"
  by (auto simp: from_values_def res_bind_eq_Inr required_Inr normalize_optional_Some configuration_ok_def
      split: if_splits)

lemma into_configuration_ok:
  assumes "into_configuration d mode = Inr c"
  shows "configuration_ok c \<and> tc_mode c = mode"
  using assms
  by (cases mode) (auto simp: into_configuration_def res_bind_eq_Inr chosen_Inr normalize_value_Some
      normalize_optional_Some normalize_optional_None configuration_ok_def Let_def split: if_splits option.splits)

lemma candidate_ok:
  assumes "candidate_of t = Inr (c, config)"
  shows "configuration_ok c \<and> tc_mode c = tr_selected_mode t
    \<and> tc_microphone_uses_default c = tr_microphone_default_selected t
    \<and> tc_render_uses_default c = tr_render_default_selected t
    \<and> validate_configuration c (tr_inventory t) = Inr () \<and> engine_config_of c (tr_selected_mode t) = Inr config"
proof -
  from assms obtain c0 where c0: "into_configuration (tr_draft t) (tr_selected_mode t) = Inr c0"
    and c: "c = c0\<lparr>tc_microphone_uses_default := tr_microphone_default_selected t,
      tc_render_uses_default := tr_render_default_selected t\<rparr>"
    and rest: "validate_configuration c (tr_inventory t) = Inr ()"
      "engine_config_of c (tr_selected_mode t) = Inr config"
    by (auto simp: candidate_of_def res_bind_eq_Inr Let_def)
  from into_configuration_ok [OF c0] c rest show ?thesis
    by (auto simp: configuration_ok_def split: option.splits)
qed

text \<open>What an apply does to everything but the engine and the error.\<close>

definition applied ::
  "'b codec \<Rightarrow> ('x, 'h, 'i, 's, 'f, 'a, 'b) tray \<Rightarrow> tray_configuration
     \<Rightarrow> ('x, 'h, 'i, 's, 'f, 'a, 'b) tray \<Rightarrow> bool" where
  "applied codec t c t' \<longleftrightarrow> (\<exists>config. candidate_of t = Inr (c, config))
     \<and> tr_configuration t' = Some c \<and> tr_draft t' = draft_from c \<and> \<not> tr_defaults_pending t'
     \<and> (if tr_source t = SourceEnvironment then tr_source t' = SourceEnvironment \<and> tr_disk t' = tr_disk t
        else tr_source t' = SourcePersisted
          \<and> config_save codec (tr_config_store t) (to_persisted c) (tr_disk t) = (tr_disk t', Inr ()))"

text \<open>The fields that no operation of the menu but a refresh of the inventory or a choice changes.\<close>

definition same_choices ::
  "('x, 'h, 'i, 's, 'f, 'a, 'b) tray \<Rightarrow> ('x, 'h, 'i, 's, 'f, 'a, 'b) tray \<Rightarrow> bool" where
  "same_choices t t' \<longleftrightarrow> tr_config_store t' = tr_config_store t \<and> tr_inventory t' = tr_inventory t
     \<and> tr_selected_mode t' = tr_selected_mode t
     \<and> tr_microphone_default_selected t' = tr_microphone_default_selected t
     \<and> tr_render_default_selected t' = tr_render_default_selected t"

text \<open>A tray that an apply has left as it was, but perhaps for a save that failed.\<close>

definition not_applied ::
  "('x, 'h, 'i, 's, 'f, 'a, 'b) tray \<Rightarrow> ('x, 'h, 'i, 's, 'f, 'a, 'b) tray \<Rightarrow> bool" where
  "not_applied t t' \<longleftrightarrow> tr_configuration t' = tr_configuration t \<and> tr_draft t' = tr_draft t
     \<and> tr_defaults_pending t' = tr_defaults_pending t \<and> tr_source t' = tr_source t
     \<and> (tr_source t = SourceEnvironment \<longrightarrow> tr_disk t' = tr_disk t)"

lemma apply_candidate_effect:
  assumes "apply_candidate h fuel codec t = Some (t', r)"
  shows "same_choices t t' \<and> tr_configuration_error t' = tr_configuration_error t
    \<and> ((\<exists>c. applied codec t c t') \<or> is_err r \<and> not_applied t t')
    \<and> (r = Inr () \<longrightarrow> (\<exists>c. applied codec t c t'))"
proof (cases "candidate_of t")
  case (Inl e)
  with assms show ?thesis by (auto simp: apply_candidate_def same_choices_def not_applied_def)
next
  case (Inr p)
  obtain c config where p: "p = (c, config)" by (cases p)
  show ?thesis
    using assms
    by (auto simp: apply_candidate_def Inr p persist_candidate_def should_persist_configuration_def
        same_choices_def not_applied_def applied_def Let_def split: prod.splits sum.splits if_splits)
qed

lemma apply_current_effect:
  assumes "apply_current h fuel codec t = Some (t', r)"
  shows "same_choices t t' \<and> ((\<exists>c. applied codec t c t') \<or> is_err r \<and> not_applied t t')
    \<and> (r = Inr () \<longrightarrow> tr_configuration_error t' = tr_configuration_error t \<and> (\<exists>c. applied codec t c t'))"
proof -
  from assms obtain u where m: "try_call (tray_stop h fuel t) (\<lambda>t _. apply_candidate h fuel codec t) = Some (u, r)"
    and t': "t' = (case r of Inl e \<Rightarrow> u\<lparr>tr_configuration_error := Some (engine_error_text e)\<rparr> | Inr _ \<Rightarrow> u)"
    by (auto simp: apply_current_def note_error_def)
  from m consider (stop) e en where "r = Inl e" "u = t\<lparr>tr_engine := en\<rparr>"
    | (go) en where "apply_candidate h fuel codec (t\<lparr>tr_engine := en\<rparr>) = Some (u, r)"
    by (auto simp: try_call_Some tray_stop_def)
  then show ?thesis
  proof cases
    case stop
    then show ?thesis by (simp add: t' same_choices_def not_applied_def)
  next
    case go
    have cand: "candidate_of (t\<lparr>tr_engine := en\<rparr>) = candidate_of t" by (simp add: candidate_of_def)
    from apply_candidate_effect [OF go] show ?thesis
      by (cases r) (auto simp: t' same_choices_def not_applied_def applied_def cand)
  qed
qed

section \<open>After a restart\<close>

text \<open>C17
  What is applied comes back: after an apply that succeeded on a configuration that may be saved, a new
  tray over the same settings file, with no environment override, starts with the same configuration, draft,
  mode and default choices, marked as persisted, with no error and no defaults left to fill in.\<close>

theorem restart_restores_configuration:
  assumes "codec_ok codec" "apply_current h fuel codec t = Some (t', Inr ())"
    and "tr_source t \<noteq> SourceEnvironment" "from_environment env = Inr None"
    and "d_faults (tr_disk t') (d_step (tr_disk t')) = None"
  shows "let t2 = tray_new engine env codec (tr_config_store t') (tr_disk t') in
    tr_configuration t2 = tr_configuration t' \<and> tr_draft t2 = tr_draft t'
    \<and> tr_selected_mode t2 = tr_selected_mode t' \<and> tr_source t2 = SourcePersisted
    \<and> tr_microphone_default_selected t2 = tr_microphone_default_selected t'
    \<and> tr_render_default_selected t2 = tr_render_default_selected t'
    \<and> tr_configuration_error t2 = None \<and> \<not> tr_defaults_pending t2"
proof -
  from apply_current_effect [OF assms(2)] assms(3) obtain c config where
    cand: "candidate_of t = Inr (c, config)"
    and t': "tr_configuration t' = Some c" "tr_draft t' = draft_from c" "same_choices t t'"
    and saved: "config_save codec (tr_config_store t) (to_persisted c) (tr_disk t) = (tr_disk t', Inr ())"
    by (auto simp: applied_def)
  note c = candidate_ok [OF cand]
  from config_save_ok [OF saved] assms(1) have "from_json codec b = Inr (to_persisted c)"
    if "d_files (tr_disk t') (cs_path (tr_config_store t)) = Some b" for b
    using that by (fastforce simp: codec_ok_def dest: spec [of _ "to_persisted c"])
  then have "snd (config_load codec (tr_config_store t) (tr_disk t')) = Inr (Some (to_persisted c))"
    using config_save_ok [OF saved] assms(5)
    by (auto simp: config_load_def fs_read_def disk_op_def Let_def)
  then obtain d where "load_configuration env codec (tr_config_store t') (tr_disk t') = (d, Some c, SourcePersisted, None)"
    using t'(3) c from_to_persisted [of c]
    by (cases "config_load codec (tr_config_store t) (tr_disk t')")
      (simp add: load_configuration_def load_configuration_from_def assms(4) same_choices_def)
  then show ?thesis using t' c by (simp add: tray_new_def same_choices_def)
qed

section \<open>Any sequence of operations\<close>

datatype tray_op =
    OpRefresh platform | OpApply | OpStop | OpSetAec bool
  | OpMicrophone nat | OpDefaultMicrophone | OpRender nat | OpDefaultRender | OpCablePair nat

definition forget :: "('t \<times> 'r) option \<Rightarrow> 't option" where
  "forget = map_option fst"

fun tray_do ::
  "('x, 'h) host \<Rightarrow> nat \<Rightarrow> 'b codec \<Rightarrow> tray_op \<Rightarrow> ('x, 'h, 'i, 's, 'f, 'a, 'b) tray
     \<Rightarrow> ('x, 'h, 'i, 's, 'f, 'a, 'b) tray option" where
  "tray_do h fuel codec (OpRefresh pl) t = Some (fst (refresh_inventory pl t))"
| "tray_do h fuel codec OpApply t = forget (apply_current h fuel codec t)"
| "tray_do h fuel codec OpStop t = forget (tray_stop h fuel t)"
| "tray_do h fuel codec (OpSetAec b) t = forget (set_aec_enabled h fuel codec b t)"
| "tray_do h fuel codec (OpMicrophone k) t = forget (select_microphone h fuel codec k t)"
| "tray_do h fuel codec OpDefaultMicrophone t = forget (select_default_microphone h fuel codec t)"
| "tray_do h fuel codec (OpRender k) t = forget (select_render h fuel codec k t)"
| "tray_do h fuel codec OpDefaultRender t = forget (select_default_render h fuel codec t)"
| "tray_do h fuel codec (OpCablePair k) t = forget (select_cable_pair h fuel codec k t)"

inductive tray_reaches ::
  "('x, 'h) host \<Rightarrow> nat \<Rightarrow> 'b codec \<Rightarrow> ('x, 'h, 'i, 's, 'f, 'a, 'b) tray
     \<Rightarrow> ('x, 'h, 'i, 's, 'f, 'a, 'b) tray \<Rightarrow> bool"
  for h fuel codec t where
  start: "tray_reaches h fuel codec t t"
| step: "tray_reaches h fuel codec t u \<Longrightarrow> tray_do h fuel codec op u = Some v \<Longrightarrow> tray_reaches h fuel codec t v"

text \<open>
  An edit from the menu changes nothing, or it changes the draft, the mode and the default choices of an
  editable tray and applies them.
\<close>

lemma edit_cases:
  assumes "update_draft_and_apply h fuel codec f t = Some (t', r)" "tr_source t \<noteq> SourceEnvironment"
  shows "\<exists>r0. apply_current h fuel codec (t\<lparr>tr_draft := f (tr_draft t)\<rparr>) = Some (t', r0)"
  using assms by (auto simp: update_draft_and_apply_def ensure_configuration_editable_def apply_edit_def)

lemma not_editable: "tr_source t = SourceEnvironment \<Longrightarrow> \<exists>e. ensure_configuration_editable t = Inl e"
  by (simp add: ensure_configuration_editable_def)

text \<open>The edited trays an operation may apply.\<close>

definition edited ::
  "('x, 'h, 'i, 's, 'f, 'a, 'b) tray \<Rightarrow> ('x, 'h, 'i, 's, 'f, 'a, 'b) tray \<Rightarrow> bool" where
  "edited t u \<longleftrightarrow> tr_source u = tr_source t \<and> tr_configuration u = tr_configuration t
     \<and> tr_disk u = tr_disk t \<and> tr_config_store u = tr_config_store t
     \<and> tr_defaults_pending u = tr_defaults_pending t
     \<and> (tr_source t = SourceEnvironment \<longrightarrow> u = t)
     \<and> (cd_mode (tr_draft t) = tr_selected_mode t \<longrightarrow> cd_mode (tr_draft u) = tr_selected_mode u)"

lemma edited_refl [simp]: "edited t t"
  by (simp add: edited_def)

lemma select_id_cases:
  assumes "select_microphone_id h fuel codec i b t = Some (t', r)
    \<or> select_render_id h fuel codec i b t = Some (t', r)"
  shows "t' = t \<or> (\<exists>u r0. edited t u \<and> apply_current h fuel codec u = Some (t', r0))"
proof (cases "tr_source t = SourceEnvironment")
  case True
  with assms not_editable [OF True] show ?thesis by (auto simp: select_microphone_id_def select_render_id_def)
next
  case False
  let ?m = "t\<lparr>tr_microphone_default_selected := b\<rparr>" and ?r = "t\<lparr>tr_render_default_selected := b\<rparr>"
  let ?fm = "\<lambda>d. d\<lparr>cd_microphone_endpoint_id := Some i\<rparr>" and ?fr = "\<lambda>d. d\<lparr>cd_render_endpoint_id := Some i\<rparr>"
  from assms False have "update_draft_and_apply h fuel codec ?fm ?m = Some (t', r)
      \<or> update_draft_and_apply h fuel codec ?fr ?r = Some (t', r)"
    by (auto simp: select_microphone_id_def select_render_id_def ensure_configuration_editable_def)
  then obtain u r0 where "u = ?m\<lparr>tr_draft := ?fm (tr_draft ?m)\<rparr> \<or> u = ?r\<lparr>tr_draft := ?fr (tr_draft ?r)\<rparr>"
    "apply_current h fuel codec u = Some (t', r0)"
    using edit_cases [of h fuel codec ?fm ?m t' r] edit_cases [of h fuel codec ?fr ?r t' r] False by auto
  with False show ?thesis by (intro disjI2 exI [of _ u] exI [of _ r0]) (auto simp: edited_def)
qed

text \<open>An operation refreshes the inventory, leaves all but the engine, or applies an edited tray.\<close>

lemma tray_do_cases:
  assumes "tray_do h fuel codec op t = Some t'"
  shows "(\<exists>pl. t' = fst (refresh_inventory pl t)) \<or> (\<exists>en. t' = t\<lparr>tr_engine := en\<rparr>)
    \<or> (\<exists>u r. edited t u \<and> apply_current h fuel codec u = Some (t', r))"
proof -
  have same: "\<exists>en. t = t\<lparr>tr_engine := en\<rparr>" by (rule exI [of _ "tr_engine t"]) simp
  note sel = select_id_cases [of h fuel codec _ _ t t']
  show ?thesis
  proof (cases op)
    case (OpSetAec b)
    then obtain r where r: "set_aec_enabled h fuel codec b t = Some (t', r)"
      using assms by (auto simp: forget_def)
    let ?m = "if b then Aec else Bypass"
    let ?u = "t\<lparr>tr_selected_mode := ?m, tr_draft := (tr_draft t)\<lparr>cd_mode := ?m\<rparr>\<rparr>"
    show ?thesis
    proof (cases "tr_source t = SourceEnvironment")
      case True
      with r same not_editable [OF True] show ?thesis by (auto simp: set_aec_enabled_def)
    next
      case False
      with r have "\<exists>r0. apply_current h fuel codec ?u = Some (t', r0)"
        by (auto simp: set_aec_enabled_def ensure_configuration_editable_def apply_edit_def Let_def)
      moreover have "edited t ?u" using False by (simp add: edited_def)
      ultimately show ?thesis by blast
    qed
  next
    case (OpCablePair k)
    then obtain r where r: "select_cable_pair h fuel codec k t = Some (t', r)"
      using assms by (auto simp: forget_def)
    show ?thesis
    proof (cases "tr_source t = SourceEnvironment \<or> nth_option (di_cable_pairs (tr_inventory t)) k = None")
      case True
      with r same not_editable [of t] show ?thesis
        by (auto simp: select_cable_pair_def update_draft_and_apply_def split: option.splits)
    next
      case False
      then obtain p where p: "nth_option (di_cable_pairs (tr_inventory t)) k = Some p" by auto
      let ?f = "\<lambda>d. d\<lparr>cd_cable_input_endpoint_id := Some (oe_endpoint_id (playback p)),
           cd_cable_output_endpoint_id := Some (oe_endpoint_id (recording p))\<rparr>"
      from r p False edit_cases [of h fuel codec ?f t t' r]
      have "\<exists>r0. apply_current h fuel codec (t\<lparr>tr_draft := ?f (tr_draft t)\<rparr>) = Some (t', r0)"
        by (simp add: select_cable_pair_def)
      moreover have "edited t (t\<lparr>tr_draft := ?f (tr_draft t)\<rparr>)" using False by (simp add: edited_def)
      ultimately show ?thesis by blast
    qed
  qed (use assms same sel edited_refl [of t] in \<open>auto simp: forget_def tray_stop_def select_microphone_def
      select_default_microphone_def select_render_def select_default_render_def split: option.splits\<close>)
qed

text \<open>The type of a tray: what its fields say of each other.\<close>

definition tray_typed :: "('x, 'h, 'i, 's, 'f, 'a, 'b) tray \<Rightarrow> bool" where
  "tray_typed t \<longleftrightarrow> (case tr_configuration t of
       None \<Rightarrow> tr_source t = SourceNone
     | Some c \<Rightarrow> tr_source t \<noteq> SourceNone \<and> configuration_ok c)
     \<and> cd_mode (tr_draft t) = tr_selected_mode t
     \<and> (tr_defaults_pending t \<longrightarrow> tr_configuration t = None)"

lemma load_cases:
  assumes "load_configuration env codec store d = (d', c, source, e)"
  shows "case c of None \<Rightarrow> source = SourceNone | Some c \<Rightarrow> source \<noteq> SourceNone \<and> configuration_ok c"
  using assms
  by (auto simp: load_configuration_def load_configuration_from_def from_environment_def
      dest: from_values_ok from_persisted_ok split: sum.splits option.splits prod.splits)

lemma typed_new: "tray_typed (tray_new engine env codec store d)"
proof -
  obtain d' c source e where load: "load_configuration env codec store d = (d', c, source, e)"
    by (metis surj_pair)
  from load_cases [OF load] show ?thesis
    by (auto simp: tray_typed_def tray_new_def load default_draft_def draft_from_def split: option.splits)
qed

lemma populate_mode: "cd_mode (populate_default_draft d inventory) = cd_mode d"
  by (simp add: populate_default_draft_def Let_def split: list.split)

lemma typed_engine [simp]: "tray_typed (t\<lparr>tr_engine := en\<rparr>) = tray_typed t"
  by (simp add: tray_typed_def split: option.split)

lemma typed_refresh: "tray_typed t \<Longrightarrow> tray_typed (fst (refresh_inventory pl t))"
  by (auto simp: refresh_inventory_def initialize_defaults_def tray_typed_def Let_def populate_mode
      split: sum.split option.splits)

lemma typed_apply:
  assumes "edited t u" "tray_typed t" "apply_current h fuel codec u = Some (t', r)"
  shows "tray_typed t'"
proof -
  have mode: "cd_mode (tr_draft u) = tr_selected_mode u" and u: "tr_source u = tr_source t"
    "tr_configuration u = tr_configuration t"
    using assms(1,2) by (simp_all add: edited_def tray_typed_def)
  from apply_current_effect [OF assms(3)] consider (new) c where "applied codec u c t'" "same_choices u t'"
    | (old) "not_applied u t'" "same_choices u t'" by auto
  then show ?thesis
  proof cases
    case new
    then obtain config where "candidate_of u = Inr (c, config)" by (auto simp: applied_def)
    with candidate_ok [OF this] new show ?thesis
      by (auto simp: tray_typed_def applied_def same_choices_def draft_from_def split: if_splits)
  next
    case old
    have "tr_defaults_pending t' = tr_defaults_pending t" using old assms(1) by (simp add: not_applied_def edited_def)
    with old u mode assms(2) show ?thesis
      by (auto simp: tray_typed_def not_applied_def same_choices_def split: option.splits)
  qed
qed

text \<open>C19
  The state of the tray stays well formed: started over any environment and settings file, after any
  sequence of menu operations and inventory refreshes, whether they succeed or fail, a configuration it
  holds passes the validation of the settings file and has a source, no configuration means no source, and
  the draft is for the selected mode.\<close>

theorem tray_well_typed:
  assumes "tray_reaches h fuel codec (tray_new engine env codec store d) t"
  shows "tray_typed t"
  using assms
proof (induction rule: tray_reaches.induct)
  case start
  show ?case by (rule typed_new)
next
  case (step u op v)
  from tray_do_cases [OF step.hyps(2)] step.IH show ?case
    by (auto intro: typed_refresh typed_apply)
qed

section \<open>The environment override\<close>

text \<open>A tray whose configuration comes from the environment, with nothing edited.\<close>

definition overridden ::
  "tray_configuration \<Rightarrow> 'b disk \<Rightarrow> ('x, 'h, 'i, 's, 'f, 'a, 'b) tray \<Rightarrow> bool" where
  "overridden c d t \<longleftrightarrow> tr_source t = SourceEnvironment \<and> tr_configuration t = Some c
     \<and> tr_draft t = draft_from c \<and> tr_selected_mode t = tc_mode c \<and> tr_disk t = d
     \<and> \<not> tr_defaults_pending t \<and> \<not> tr_microphone_default_selected t \<and> \<not> tr_render_default_selected t"

text \<open>The environment gives a configuration whose identifiers have no blanks around them.\<close>

definition normal_configuration :: "tray_configuration \<Rightarrow> bool" where
  "normal_configuration c \<longleftrightarrow> configuration_ok c
     \<and> trim (tc_microphone_endpoint_id c) = tc_microphone_endpoint_id c
     \<and> map_option trim (tc_render_endpoint_id c) = tc_render_endpoint_id c
     \<and> trim (tc_cable_input_endpoint_id c) = tc_cable_input_endpoint_id c
     \<and> trim (tc_cable_output_endpoint_id c) = tc_cable_output_endpoint_id c
     \<and> \<not> tc_microphone_uses_default c \<and> \<not> tc_render_uses_default c"

lemma environment_normal:
  "from_environment env = Inr (Some c) \<Longrightarrow> normal_configuration c \<and> tc_mode c = Aec"
  using from_values_ok [of _ _ _ _ c]
  by (auto simp: from_environment_def from_values_def res_bind_eq_Inr required_Inr normalize_optional_Some
      normal_configuration_def configuration_ok_def split: if_splits)

lemma into_draft_from:
  assumes "normal_configuration c"
  shows "into_configuration (draft_from c) (tc_mode c) = Inr c"
proof -
  have norm: "normalize_optional (Some i) = Some i" if "\<not> blank i" "trim i = i" for i
    using that by (simp add: normalize_optional_def blank_def)
  have render: "normalize_optional (tc_render_endpoint_id c) = tc_render_endpoint_id c"
    using assms by (cases "tc_render_endpoint_id c") (auto simp: norm normal_configuration_def
      configuration_ok_def normalize_optional_def blank_def)
  show ?thesis
    using assms by (auto simp: into_configuration_def draft_from_def chosen_def normalize_value_Some norm
        render normal_configuration_def configuration_ok_def Let_def)
qed

lemma overridden_apply:
  assumes "overridden c d t" "normal_configuration c" "apply_current h fuel codec t = Some (t', r)"
  shows "overridden c d t'"
proof -
  have "candidate_of t = Inr (c', config) \<Longrightarrow> c' = c" for c' config
    using assms(1,2) into_draft_from [OF assms(2)]
    by (auto simp: candidate_of_def overridden_def res_bind_eq_Inr normal_configuration_def Let_def)
  with apply_current_effect [OF assms(3)] assms(1) show ?thesis
    by (auto simp: overridden_def applied_def not_applied_def same_choices_def)
qed

lemma overridden_step:
  assumes "overridden c d t" "normal_configuration c" "tray_do h fuel codec op t = Some t'"
  shows "overridden c d t'"
proof -
  have "overridden c d (fst (refresh_inventory pl t))" for pl
    using assms(1) by (simp add: overridden_def refresh_inventory_def initialize_defaults_def Let_def
        split: sum.split)
  moreover have "overridden c d (t\<lparr>tr_engine := en\<rparr>)" for en
    using assms(1) by (simp add: overridden_def)
  moreover have "overridden c d t'" if "edited t u" "apply_current h fuel codec u = Some (t', r)" for u r
  proof -
    from that(1) assms(1) have "u = t" by (simp add: edited_def overridden_def)
    with overridden_apply [OF assms(1,2)] that(2) show ?thesis by blast
  qed
  ultimately show ?thesis using tray_do_cases [OF assms(3)] by auto
qed

text \<open>C20
  An environment override rules until the end: whatever is clicked and however the devices change, the tray
  keeps exactly the configuration the environment gave, still marked as such, its draft and mode stay those
  of the override, and nothing is written to disk.\<close>

theorem environment_override_is_kept:
  assumes "from_environment env = Inr (Some c)"
    and "tray_reaches h fuel codec (tray_new engine env codec store d) t"
  shows "tr_source t = SourceEnvironment \<and> tr_configuration t = Some c \<and> tr_draft t = draft_from c
    \<and> tr_selected_mode t = Aec \<and> tr_disk t = d"
proof -
  note normal = environment_normal [OF assms(1)]
  from assms(2) have "overridden c d t"
  proof (induction rule: tray_reaches.induct)
    case start
    show ?case
      using normal by (simp add: overridden_def tray_new_def load_configuration_def
          load_configuration_from_def assms(1) normal_configuration_def)
  next
    case (step u op v)
    then show ?case using overridden_step normal by blast
  qed
  with normal show ?thesis by (simp add: overridden_def)
qed

section \<open>The inventory and the defaults\<close>

text \<open>The inventory offers no feedback loop: every microphone and render endpoint it lists is active and of its
  role, none is the recording or playback side of a cable pair it lists, and a default it reports is one of
  those listed and has the identifier the platform calls the default.\<close>

theorem discover_sound:
  assumes "discover pl = Inr inventory"
  shows "list_all (\<lambda>s. usable Microphone s \<and> list_all (\<lambda>p. oe_endpoint_id (recording p) \<noteq> sd_endpoint_id s)
        (di_cable_pairs inventory)) (di_microphones inventory)
    \<and> list_all (\<lambda>s. usable RenderLoopback s \<and> list_all (\<lambda>p. oe_endpoint_id (playback p) \<noteq> sd_endpoint_id s)
        (di_cable_pairs inventory)) (di_renders inventory)
    \<and> (case di_default_microphone inventory of None \<Rightarrow> True
       | Some s \<Rightarrow> s \<in> set (di_microphones inventory)
           \<and> map_sum id sd_endpoint_id (pl_default_capture pl) = Inr (sd_endpoint_id s))
    \<and> (case di_default_render inventory of None \<Rightarrow> True
       | Some s \<Rightarrow> s \<in> set (di_renders inventory)
           \<and> map_sum id sd_endpoint_id (pl_default_render pl) = Inr (sd_endpoint_id s))"
proof -
  have listed: "case listed_default role sources enumerated of None \<Rightarrow> True
      | Some s \<Rightarrow> s \<in> set sources \<and> map_sum id sd_endpoint_id enumerated = Inr (sd_endpoint_id s)"
    for role sources enumerated
    by (auto simp: listed_default_def find_Some_iff split: option.split sum.split)
  from assms obtain captures renders pairs where inv:
    "inventory = \<lparr>di_default_microphone = listed_default Microphone (di_microphones inventory) (pl_default_capture pl),
       di_default_render = listed_default RenderLoopback (di_renders inventory) (pl_default_render pl),
       di_microphones = di_microphones inventory, di_renders = di_renders inventory, di_cable_pairs = pairs\<rparr>"
    "di_microphones inventory = filter (\<lambda>s. sd_endpoint_id s \<notin> set (map (\<lambda>p. oe_endpoint_id (recording p)) pairs))
       (filter (usable Microphone) captures)"
    "di_renders inventory = filter (\<lambda>s. sd_endpoint_id s \<notin> set (map (\<lambda>p. oe_endpoint_id (playback p)) pairs))
       (filter (usable RenderLoopback) renders)"
    by (auto simp: discover_def res_bind_eq_Inr Let_def)
  from inv(1) have sel: "di_cable_pairs inventory = pairs"
    "di_default_microphone inventory = listed_default Microphone (di_microphones inventory) (pl_default_capture pl)"
    "di_default_render inventory = listed_default RenderLoopback (di_renders inventory) (pl_default_render pl)"
    by (metis device_inventory.select_convs)+
  have "list_all (\<lambda>s. usable Microphone s \<and> list_all (\<lambda>p. oe_endpoint_id (recording p) \<noteq> sd_endpoint_id s) pairs)
        (di_microphones inventory)"
    "list_all (\<lambda>s. usable RenderLoopback s \<and> list_all (\<lambda>p. oe_endpoint_id (playback p) \<noteq> sd_endpoint_id s) pairs)
        (di_renders inventory)"
    unfolding inv(2,3) list_all_iff by force+
  then show ?thesis unfolding sel by (intro conjI listed)
qed

text \<open>A choice of the default device follows the default, a direct choice stays: after a refresh that succeeds,
  the draft names the new default device (or none) where the default was chosen, and what it named before
  where a device had been chosen directly; nothing is applied or written by it.\<close>

theorem refresh_follows_defaults:
  assumes "refresh_inventory pl t = (t', Inr changed)"
  shows "(if tr_microphone_default_selected t
      then cd_microphone_endpoint_id (tr_draft t') = map_option sd_endpoint_id (di_default_microphone (tr_inventory t'))
      else cd_microphone_endpoint_id (tr_draft t) \<in> {None, cd_microphone_endpoint_id (tr_draft t')})
    \<and> (if tr_render_default_selected t
      then cd_render_endpoint_id (tr_draft t') = map_option sd_endpoint_id (di_default_render (tr_inventory t'))
      else cd_render_endpoint_id (tr_draft t) \<in> {None, cd_render_endpoint_id (tr_draft t')})
    \<and> discover pl = Inr (tr_inventory t') \<and> changed = (tr_inventory t \<noteq> tr_inventory t')
    \<and> tr_engine t' = tr_engine t \<and> tr_configuration t' = tr_configuration t \<and> tr_disk t' = tr_disk t"
proof -
  have keep: "cd_microphone_endpoint_id d = Some m \<Longrightarrow> cd_microphone_endpoint_id (populate_default_draft d inv) = Some m"
    "cd_render_endpoint_id d = Some r \<Longrightarrow> cd_render_endpoint_id (populate_default_draft d inv) = Some r" for d inv m r
    by (simp_all add: populate_default_draft_def Let_def split: list.split)
  from assms obtain inv where inv: "discover pl = Inr inv"
    "t' = (initialize_defaults inv t)\<lparr>tr_inventory := inv, tr_inventory_error := None\<rparr>"
    "changed = (tr_inventory t \<noteq> inv)"
    by (auto simp: refresh_inventory_def split: sum.splits)
  show ?thesis
    by (cases "cd_microphone_endpoint_id (tr_draft t)"; cases "cd_render_endpoint_id (tr_draft t)")
      (simp_all add: inv initialize_defaults_def Let_def keep)
qed

section \<open>An error that stays\<close>

text \<open>An error noted once is reported for good: an apply that succeeds does not clear the error of an earlier
  one, so the tray goes on reporting it.\<close>

theorem apply_keeps_old_error:
  assumes "tr_configuration_error t = Some e" "apply_current h fuel codec t = Some (t', Inr ())"
  shows "configuration_error_of t' = Some e"
  using apply_current_effect [OF assms(2)] assms(1) by (simp add: configuration_error_of_def)

section \<open>A concrete tray\<close>

definition some_pair :: output_pair where
  "some_pair = \<lparr>playback = (cable_endpoint Playback)\<lparr>oe_endpoint_id := [73]\<rparr>,
     recording = (cable_endpoint Recording)\<lparr>oe_endpoint_id := [79]\<rparr>\<rparr>"

definition one_each :: platform where
  "one_each = \<lparr>pl_capture = Inr [any_source Microphone [77], any_source Microphone [79]],
     pl_render = Inr [any_source RenderLoopback [82]], pl_cable_pairs = Inr [some_pair],
     pl_default_capture = Inr (any_source Microphone [77]), pl_default_render = Inl (Text ''none'')\<rparr>"

definition empty_disk :: "persisted_configuration disk" where
  "empty_disk = \<lparr>d_files = Map.empty, d_step = 0, d_faults = (\<lambda>k. None), d_torn = None\<rparr>"

definition new_tray :: "(string \<Rightarrow> str option) \<Rightarrow> (nat, nat, unit, unit, unit, unit, persisted_configuration) tray" where
  "new_tray env = tray_new calm_engine env plain_codec some_store empty_disk"

definition no_env :: "string \<Rightarrow> str option" where "no_env = (\<lambda>name. None)"

definition full_env :: "string \<Rightarrow> str option" where "full_env = (\<lambda>name. Some [32, 88])"

lemma no_env_load: "from_environment no_env = Inr None"
  by (simp add: no_env_def from_environment_def from_values_def)

lemma new_tray_fields: "tr_source (new_tray no_env) = SourceNone" "tr_defaults_pending (new_tray no_env)"
  "\<not> tr_microphone_default_selected (new_tray no_env)" "\<not> tr_render_default_selected (new_tray no_env)"
  "tr_draft (new_tray no_env) = default_draft" "tr_selected_mode (new_tray no_env) = Bypass"
  "tr_engine (new_tray no_env) = calm_engine" "tr_config_store (new_tray no_env) = some_store"
  "d_files (tr_disk (new_tray no_env)) = Map.empty" "d_faults (tr_disk (new_tray no_env)) = (\<lambda>k. None)"
  by (simp_all add: new_tray_def tray_new_def load_configuration_def load_configuration_from_def no_env_load
      config_load_def fs_read_def disk_op_def empty_disk_def Let_def)

definition one_mic_inventory :: device_inventory where
  "one_mic_inventory = \<lparr>di_default_microphone = Some (any_source Microphone [77]), di_default_render = None,
     di_microphones = [any_source Microphone [77]], di_renders = [any_source RenderLoopback [82]],
     di_cable_pairs = [some_pair]\<rparr>"

lemma one_each_inventory: "discover one_each = Inr one_mic_inventory"
  by (simp add: discover_def one_each_def usable_def any_source_def some_pair_def listed_default_def
      one_mic_inventory_def Let_def)

definition ready_tray :: "(nat, nat, unit, unit, unit, unit, persisted_configuration) tray" where
  "ready_tray = fst (refresh_inventory one_each (new_tray no_env))"

lemma ready_tray_fields: "tr_source ready_tray = SourceNone" "tr_selected_mode ready_tray = Bypass"
  "tr_draft ready_tray = \<lparr>cd_mode = Bypass, cd_microphone_endpoint_id = Some [77], cd_render_endpoint_id = None,
     cd_cable_input_endpoint_id = Some [73], cd_cable_output_endpoint_id = Some [79]\<rparr>"
  "tr_inventory ready_tray = one_mic_inventory" "tr_engine ready_tray = calm_engine"
  "tr_config_store ready_tray = some_store" "d_files (tr_disk ready_tray) = Map.empty"
  "d_faults (tr_disk ready_tray) = (\<lambda>k. None)" "tr_microphone_default_selected ready_tray"
  by (simp_all add: ready_tray_def refresh_inventory_def one_each_inventory initialize_defaults_def
      new_tray_fields populate_default_draft_def default_draft_def one_mic_inventory_def some_pair_def
      any_source_def Let_def)

lemma ready_candidate: "\<exists>c. candidate_of ready_tray = Inr (c, engine_config_bypass [77] [73] [79])"
  by (simp add: candidate_of_def ready_tray_fields into_configuration_def chosen_def normalize_value_def
      normalize_optional_def trim_def is_whitespace_def validate_configuration_def one_mic_inventory_def
      any_source_def some_pair_def engine_config_of_def Let_def)

lemma ready_apply: "\<exists>t. apply_current calm_host 1 plain_codec ready_tray = Some (t, Inr ())
    \<and> d_faults (tr_disk t) = (\<lambda>k. None)"
proof -
  obtain c where c: "candidate_of ready_tray = Inr (c, engine_config_bypass [77] [73] [79])"
    using ready_candidate by blast
  have valid: "persisted_validate (to_persisted c) = Inr ()"
    using candidate_ok [OF c] by (simp add: to_persisted_valid)
  obtain d where saved: "config_save plain_codec some_store (to_persisted c) (tr_disk ready_tray) = (d, Inr ())"
    "d_faults d = (\<lambda>k. None)"
    by (simp add: disk_simps valid ready_tray_fields lit_def file_stem_def)
  have stop: "engine_stop calm_host 1 calm_engine = Some (calm_engine, Inr ())"
    by (simp add: engine_stop_def calm_host_def calm_engine_def engine_new_with_aec_def engine_new_def
        initial_world_def default_snapshot_def)
  obtain en where "engine_start calm_host 1 (engine_config_bypass [77] [73] [79]) calm_engine = Some (en, Inr ())"
    using calm_start [of "[77]" "[73]" "[79]"] by (auto simp: trim_def is_whitespace_def)
  with stop c saved show ?thesis
    by (simp add: apply_current_def note_error_def tray_stop_def apply_candidate_def candidate_of_def
        persist_candidate_def should_persist_configuration_def ready_tray_fields Let_def)
qed

lemma restart_restores_configuration_witness:
  "\<exists>t. apply_current calm_host 1 plain_codec ready_tray = Some (t, Inr ())
    \<and> tr_configuration (tray_new calm_engine no_env plain_codec (tr_config_store t) (tr_disk t)) = tr_configuration t"
proof -
  obtain t where run: "apply_current calm_host 1 plain_codec ready_tray = Some (t, Inr ())"
    "d_faults (tr_disk t) = (\<lambda>k. None)"
    using ready_apply by blast
  have "codec_ok plain_codec" "tr_source ready_tray \<noteq> SourceEnvironment"
    by (simp_all add: codec_ok_def plain_codec_def ready_tray_fields)
  from restart_restores_configuration [OF this(1) run(1) this(2) no_env_load, of calm_engine] run
  show ?thesis by (auto simp: Let_def)
qed

lemma tray_well_typed_witness:
  "\<exists>t. tray_reaches calm_host 1 plain_codec (new_tray no_env) t \<and> tr_configuration t \<noteq> None \<and> tray_typed t"
proof -
  obtain t where run: "apply_current calm_host 1 plain_codec ready_tray = Some (t, Inr ())"
    using ready_apply by blast
  have "tray_reaches calm_host 1 plain_codec (new_tray no_env) ready_tray"
    by (rule tray_reaches.step [OF tray_reaches.start, of _ _ _ "OpRefresh one_each"])
      (simp add: ready_tray_def)
  then have reach: "tray_reaches calm_host 1 plain_codec (new_tray no_env) t"
    by (rule tray_reaches.step [of _ _ _ _ _ OpApply]) (use run in \<open>simp add: forget_def\<close>)
  have "tr_configuration t \<noteq> None"
    using apply_current_effect [OF run] by (auto simp: applied_def)
  with reach tray_well_typed [OF reach [unfolded new_tray_def]] show ?thesis by blast
qed

lemma environment_override_is_kept_witness:
  "\<exists>t. tray_do calm_host 1 plain_codec (OpRefresh one_each) (new_tray full_env) = Some t
    \<and> tr_source t = SourceEnvironment \<and> tr_disk t = empty_disk"
proof -
  obtain c where env: "from_environment full_env = Inr (Some c)"
    by (simp add: from_environment_def full_env_def from_values_def required_def normalize_optional_def
        trim_def is_whitespace_def)
  have reach: "tray_reaches calm_host 1 plain_codec (new_tray full_env) (fst (refresh_inventory one_each (new_tray full_env)))"
    by (rule tray_reaches.step [OF tray_reaches.start, of _ _ _ "OpRefresh one_each"]) simp
  from environment_override_is_kept [OF env reach [unfolded new_tray_def]] show ?thesis
    by (simp add: new_tray_def)
qed

lemma discover_sound_witness:
  "discover one_each = Inr one_mic_inventory \<and> di_default_microphone one_mic_inventory \<noteq> None
    \<and> (case di_default_microphone one_mic_inventory of None \<Rightarrow> True
       | Some s \<Rightarrow> s \<in> set (di_microphones one_mic_inventory))"
  using discover_sound [OF one_each_inventory] one_each_inventory
  by (simp add: one_mic_inventory_def)

lemma refresh_follows_defaults_witness:
  "cd_microphone_endpoint_id (tr_draft (fst (refresh_inventory one_each
     ((new_tray no_env)\<lparr>tr_microphone_default_selected := True\<rparr>)))) = Some [77]"
proof -
  let ?t = "(new_tray no_env)\<lparr>tr_microphone_default_selected := True\<rparr>"
  obtain t' changed where run: "refresh_inventory one_each ?t = (t', Inr changed)"
    by (simp add: refresh_inventory_def one_each_inventory)
  from refresh_follows_defaults [OF run] run show ?thesis
    by (simp add: one_each_inventory one_mic_inventory_def any_source_def)
      (metis Inr_inject device_inventory.select_convs(1) one_each_inventory one_mic_inventory_def
        option.simps(9) any_source_def source_descriptor.select_convs(2))
qed

lemma apply_keeps_old_error_witness:
  "\<exists>t. apply_current calm_host 1 plain_codec (ready_tray\<lparr>tr_configuration_error := Some (Text ''old'')\<rparr>) = Some (t, Inr ())
    \<and> configuration_error_of t = Some (Text ''old'')"
proof -
  let ?t = "ready_tray\<lparr>tr_configuration_error := Some (Text ''old'')\<rparr>"
  obtain t where "apply_current calm_host 1 plain_codec ready_tray = Some (t, Inr ())"
    using ready_apply by blast
  then have "\<exists>u. apply_current calm_host 1 plain_codec ?t = Some (u, Inr ())"
    by (auto simp: apply_current_def note_error_def tray_stop_def apply_candidate_def candidate_of_def
        persist_candidate_def try_call_def Let_def split: option.splits sum.splits prod.splits if_splits)
  then obtain u where u: "apply_current calm_host 1 plain_codec ?t = Some (u, Inr ())" by blast
  have "tr_configuration_error ?t = Some (Text ''old'')" by simp
  from apply_keeps_old_error [OF this u] u show ?thesis by blast
qed

end
