(* ===== verification/Tray_Menu.thy ===== *)
theory Tray_Menu
  imports Tray_Properties
begin

text \<open>
  The menu of the tray, \<^verbatim>\<open>src-tauri/src/main.rs\<close>: what a clicked item does, the contents of the
  submenus, which of them are enabled, the status line, and the turns of the setup and of the polling thread.
  The user-interface library only shows what these definitions compute.
\<close>

section \<open>Numbers in identifiers\<close>

text \<open>\<^verbatim>\<open>str::parse::<usize>\<close>: a sign is allowed, an empty string and an overflow are errors.\<close>

definition digit_of :: "char \<Rightarrow> nat option" where
  "digit_of c = (let k = of_char c :: nat in if 48 \<le> k \<and> k \<le> 57 then Some (k - 48) else None)"

fun parse_digits :: "nat \<Rightarrow> string \<Rightarrow> nat option" where
  "parse_digits n [] = Some n"
| "parse_digits n (c # cs) = (case digit_of c of
     None \<Rightarrow> None
   | Some d \<Rightarrow> if n * 10 + d < 2 ^ 64 then parse_digits (n * 10 + d) cs else None)"

definition parse_usize :: "string \<Rightarrow> nat option" where
  "parse_usize s = (case s of
     [] \<Rightarrow> None
   | c # cs \<Rightarrow> if c = CHR ''+'' then (if cs = [] then None else parse_digits 0 cs) else parse_digits 0 s)"

definition strip_prefix :: "string \<Rightarrow> string \<Rightarrow> string option" where
  "strip_prefix p s = (if take (length p) s = p then Some (drop (length p) s) else None)"

section \<open>What a click does\<close>

definition ENABLE_AEC_MENU_ID :: string where "ENABLE_AEC_MENU_ID = ''enable-aec3''"
definition DEFAULT_MICROPHONE_MENU_ID :: string where "DEFAULT_MICROPHONE_MENU_ID = ''select-microphone-default''"
definition DEFAULT_RENDER_MENU_ID :: string where "DEFAULT_RENDER_MENU_ID = ''select-render-default''"
definition SELECT_MICROPHONE_PREFIX :: string where "SELECT_MICROPHONE_PREFIX = ''select-microphone:''"
definition SELECT_RENDER_PREFIX :: string where "SELECT_RENDER_PREFIX = ''select-render:''"
definition SELECT_CABLE_PAIR_PREFIX :: string where "SELECT_CABLE_PAIR_PREFIX = ''select-cable-pair:''"
definition QUIT_MENU_ID :: string where "QUIT_MENU_ID = ''quit''"

datatype menu_action = Quit | Perform tray_op | NoAction

definition indexed :: "string \<Rightarrow> (nat \<Rightarrow> tray_op) \<Rightarrow> string \<Rightarrow> menu_action option" where
  "indexed pre op i = (case strip_prefix pre i of
     None \<Rightarrow> None
   | Some rest \<Rightarrow> Some (case parse_usize rest of None \<Rightarrow> NoAction | Some k \<Rightarrow> Perform (op k)))"

text \<open>\<open>checked\<close> is \<^verbatim>\<open>is_checked()\<close> of the AEC item, \<open>None\<close> when it fails.\<close>

definition menu_action ::
  "bool option \<Rightarrow> ('x, 'h, 'i, 's, 'f, 'a, 'b) tray \<Rightarrow> string \<Rightarrow> menu_action" where
  "menu_action checked t i =
    (if i = QUIT_MENU_ID then Quit
     else if i = ENABLE_AEC_MENU_ID then
       Perform (OpSetAec (case checked of Some b \<Rightarrow> b | None \<Rightarrow> aec_enabled t))
     else if i = DEFAULT_MICROPHONE_MENU_ID then Perform OpDefaultMicrophone
     else if i = DEFAULT_RENDER_MENU_ID then Perform OpDefaultRender
     else case indexed SELECT_MICROPHONE_PREFIX OpMicrophone i of
        Some a \<Rightarrow> a
      | None \<Rightarrow>
        (case indexed SELECT_RENDER_PREFIX OpRender i of
           Some a \<Rightarrow> a
         | None \<Rightarrow>
           (case indexed SELECT_CABLE_PAIR_PREFIX OpCablePair i of Some a \<Rightarrow> a | None \<Rightarrow> NoAction)))"

definition on_menu_event ::
  "('x, 'h) host \<Rightarrow> nat \<Rightarrow> 'b codec \<Rightarrow> bool option \<Rightarrow> string \<Rightarrow> ('x, 'h, 'i, 's, 'f, 'a, 'b) tray
     \<Rightarrow> ('x, 'h, 'i, 's, 'f, 'a, 'b) tray option" where
  "on_menu_event h fuel codec checked i t =
    (case menu_action checked t i of
       Quit \<Rightarrow> tray_do h fuel codec OpStop t
     | Perform op \<Rightarrow> tray_do h fuel codec op t
     | NoAction \<Rightarrow> Some t)"

section \<open>The submenus\<close>

record menu_item =
  mi_id :: string
  mi_text :: message
  mi_checked :: bool

text \<open>Without items a submenu holds one disabled label.\<close>

datatype submenu = Items "menu_item list" | EmptyLabel string

definition append_check_items :: "menu_item list \<Rightarrow> string \<Rightarrow> submenu" where
  "append_check_items items label = (if items = [] then EmptyLabel label else Items items)"

definition default_item :: "string \<Rightarrow> bool \<Rightarrow> str option \<Rightarrow> source_descriptor option \<Rightarrow> menu_item list" where
  "default_item i selected chosen_id default_source = (case default_source of
     None \<Rightarrow> []
   | Some d \<Rightarrow> [\<lparr>mi_id = i, mi_text = Pieces [Text ''Default ('', Shown (sd_friendly_name d), Text '')''],
       mi_checked = (selected \<and> chosen_id = Some (sd_endpoint_id d))\<rparr>])"

definition source_item :: "string \<Rightarrow> bool \<Rightarrow> str option \<Rightarrow> nat \<times> source_descriptor \<Rightarrow> menu_item" where
  "source_item pre default_selected chosen_id = (\<lambda>(k, s).
     \<lparr>mi_id = pre @ show_nat k, mi_text = Shown (sd_friendly_name s),
      mi_checked = (\<not> default_selected \<and> chosen_id = Some (sd_endpoint_id s))\<rparr>)"

definition microphone_items :: "('x, 'h, 'i, 's, 'f, 'a, 'b) tray \<Rightarrow> menu_item list" where
  "microphone_items t =
    default_item DEFAULT_MICROPHONE_MENU_ID (tr_microphone_default_selected t)
      (cd_microphone_endpoint_id (tr_draft t)) (di_default_microphone (tr_inventory t))
    @ map (source_item SELECT_MICROPHONE_PREFIX (tr_microphone_default_selected t)
        (cd_microphone_endpoint_id (tr_draft t))) (List.enumerate 0 (di_microphones (tr_inventory t)))"

definition render_items :: "('x, 'h, 'i, 's, 'f, 'a, 'b) tray \<Rightarrow> menu_item list" where
  "render_items t =
    default_item DEFAULT_RENDER_MENU_ID (tr_render_default_selected t)
      (cd_render_endpoint_id (tr_draft t)) (di_default_render (tr_inventory t))
    @ map (source_item SELECT_RENDER_PREFIX (tr_render_default_selected t)
        (cd_render_endpoint_id (tr_draft t))) (List.enumerate 0 (di_renders (tr_inventory t)))"

definition cable_item :: "configuration_draft \<Rightarrow> nat \<times> output_pair \<Rightarrow> menu_item" where
  "cable_item d = (\<lambda>(k, p).
     \<lparr>mi_id = SELECT_CABLE_PAIR_PREFIX @ show_nat k,
      mi_text = Pieces [Shown (oe_friendly_name (playback p)), Text '' -> '',
        Shown (oe_friendly_name (recording p)), Text '' ['', Shown (oe_device_family (playback p)), Text '']''],
      mi_checked = (cd_cable_input_endpoint_id d = Some (oe_endpoint_id (playback p))
        \<and> cd_cable_output_endpoint_id d = Some (oe_endpoint_id (recording p)))\<rparr>)"

definition rebuild_device_submenus :: "('x, 'h, 'i, 's, 'f, 'a, 'b) tray \<Rightarrow> submenu \<times> submenu \<times> submenu" where
  "rebuild_device_submenus t =
    (append_check_items (microphone_items t) ''No active physical microphones'',
     append_check_items (render_items t) ''No active physical render references'',
     append_check_items (map (cable_item (tr_draft t)) (List.enumerate 0 (di_cable_pairs (tr_inventory t))))
       ''No active VB-CABLE pair'')"

section \<open>The status\<close>

fun lifecycle_state :: "engine_state \<Rightarrow> string" where
  "lifecycle_state Starting = ''STARTING''"
| "lifecycle_state Stopping = ''STOPPING''"
| "lifecycle_state RunningBypass = ''ONLINE''"
| "lifecycle_state RunningAec = ''ONLINE''"
| "lifecycle_state Degraded = ''DEGRADED''"
| "lifecycle_state EngineFailed = ''ERROR''"
| "lifecycle_state Stopped = ''OFFLINE''"

definition status_text :: "engine_snapshot \<Rightarrow> string" where
  "status_text s = ''Status: '' @ lifecycle_state (es_state s)"

definition stopped_status_state :: "('x, 'h, 'i, 's, 'f, 'a, 'b) tray \<Rightarrow> string" where
  "stopped_status_state t =
    (let inventory = tr_inventory t;
         required_devices = (di_microphones inventory \<noteq> [] \<and> di_cable_pairs inventory \<noteq> []
           \<and> (\<not> aec_enabled t \<or> di_renders inventory \<noteq> []))
     in if configuration_error_of t \<noteq> None \<and> required_devices then ''ERROR'' else ''OFFLINE'')"

text \<open>The snapshot is taken first; the rest looks at the tray.\<close>

definition controller_status_text ::
  "('x, 'h) host \<Rightarrow> ('x, 'h, 'i, 's, 'f, 'a, 'b) tray
     \<Rightarrow> ('x, 'h, 'i, 's, 'f, 'a, 'b) tray \<times> string" where
  "controller_status_text h t =
    (let (en, s) = engine_snapshot_now h (tr_engine t); t = t\<lparr>tr_engine := en\<rparr>
     in (t, if es_state s = Stopped then ''Status: '' @ stopped_status_state t else status_text s))"

record menu_state =
  ms_aec_checked :: bool
  ms_aec_enabled :: bool
  ms_microphones_enabled :: bool
  ms_renders_enabled :: bool
  ms_pairs_enabled :: bool
  ms_status :: string

definition update_menu_state ::
  "('x, 'h) host \<Rightarrow> ('x, 'h, 'i, 's, 'f, 'a, 'b) tray
     \<Rightarrow> ('x, 'h, 'i, 's, 'f, 'a, 'b) tray \<times> menu_state" where
  "update_menu_state h t =
    (let inventory = tr_inventory t;
         editable = (tr_source t \<noteq> SourceEnvironment);
         (u, text) = controller_status_text h t
     in (u, \<lparr>ms_aec_checked = aec_enabled t,
             ms_aec_enabled = (editable \<and> di_microphones inventory \<noteq> [] \<and> di_renders inventory \<noteq> []
               \<and> di_cable_pairs inventory \<noteq> []),
             ms_microphones_enabled = (editable \<and> di_microphones inventory \<noteq> []),
             ms_renders_enabled = (editable \<and> di_renders inventory \<noteq> []),
             ms_pairs_enabled = (editable \<and> di_cable_pairs inventory \<noteq> []),
             ms_status = text\<rparr>))"

section \<open>Setup and polling\<close>

definition tray_setup ::
  "('x, 'h) host \<Rightarrow> nat \<Rightarrow> 'b codec \<Rightarrow> ('x, 'h, 'i, 's, 'f, 'a) engine \<Rightarrow> (string \<Rightarrow> str option)
     \<Rightarrow> config_store \<Rightarrow> 'b disk \<Rightarrow> platform \<Rightarrow> ('x, 'h, 'i, 's, 'f, 'a, 'b) tray option" where
  "tray_setup h fuel codec engine env store d pl =
     forget (apply_current h fuel codec (fst (refresh_inventory pl (tray_new engine env codec store d))))"

definition poll_turn ::
  "('x, 'h) host \<Rightarrow> nat \<Rightarrow> 'b codec \<Rightarrow> platform \<Rightarrow> ('x, 'h, 'i, 's, 'f, 'a, 'b) tray
     \<Rightarrow> ('x, 'h, 'i, 's, 'f, 'a, 'b) tray option" where
  "poll_turn h fuel codec pl t =
    (case refresh_inventory pl t of
       (t, Inr True) \<Rightarrow> forget (apply_current h fuel codec t)
     | (t, _) \<Rightarrow> Some t)"

section \<open>Clicking an item\<close>

lemma digit_of_digit [simp]: "d < 10 \<Longrightarrow> digit_of (digit_char d) = Some d"
  by (simp add: digit_of_def digit_char_def Let_def)

lemma parse_digits_append:
  "parse_digits n (xs @ ys) = Option.bind (parse_digits n xs) (\<lambda>m. parse_digits m ys)"
  by (induction n xs rule: parse_digits.induct) (auto split: option.split)

lemma parse_show: "n < 2 ^ 64 \<Longrightarrow> parse_digits 0 (show_nat n) = Some n"
proof (induction n rule: show_nat.induct)
  case (1 n)
  show ?case
  proof (cases "n < 10")
    case True
    then show ?thesis using 1 by (simp add: show_nat.simps [of n])
  next
    case False
    moreover have "n div 10 < 2 ^ 64" using "1.prems" by linarith
    moreover have "n div 10 * 10 + n mod 10 = n" by simp
    ultimately show ?thesis
      using 1 by (simp add: show_nat.simps [of n] parse_digits_append)
  qed
qed

lemma show_nat_digits: "list_all (\<lambda>c. digit_of c \<noteq> None) (show_nat n) \<and> show_nat n \<noteq> []"
proof (induction n rule: show_nat.induct)
  case (1 n)
  then show ?case by (simp add: show_nat.simps [of n])
qed

lemma parse_usize_show: "n < 2 ^ 64 \<Longrightarrow> parse_usize (show_nat n) = Some n"
proof -
  assume n: "n < 2 ^ 64"
  obtain c cs where s: "show_nat n = c # cs" using show_nat_digits [of n] by (cases "show_nat n") auto
  with show_nat_digits [of n] have "digit_of c \<noteq> None" by simp
  then have "c \<noteq> CHR ''+''" by (auto simp: digit_of_def)
  with s parse_show [OF n] show ?thesis by (simp add: parse_usize_def)
qed

lemma strip_prefix_append [simp]: "strip_prefix p (p @ s) = Some s"
  by (simp add: strip_prefix_def)

lemmas menu_ids = QUIT_MENU_ID_def ENABLE_AEC_MENU_ID_def DEFAULT_MICROPHONE_MENU_ID_def
  DEFAULT_RENDER_MENU_ID_def SELECT_MICROPHONE_PREFIX_def SELECT_RENDER_PREFIX_def SELECT_CABLE_PAIR_PREFIX_def

lemma menu_action_indexed:
  assumes "k < 2 ^ 64"
  shows "menu_action checked t (SELECT_MICROPHONE_PREFIX @ show_nat k) = Perform (OpMicrophone k)"
    "menu_action checked t (SELECT_RENDER_PREFIX @ show_nat k) = Perform (OpRender k)"
    "menu_action checked t (SELECT_CABLE_PAIR_PREFIX @ show_nat k) = Perform (OpCablePair k)"
  using parse_usize_show [OF assms]
  by (simp_all add: menu_action_def indexed_def menu_ids strip_prefix_def)

lemma menu_action_fixed:
  "menu_action checked t DEFAULT_MICROPHONE_MENU_ID = Perform OpDefaultMicrophone"
  "menu_action checked t DEFAULT_RENDER_MENU_ID = Perform OpDefaultRender"
  by (simp_all add: menu_action_def menu_ids)

text \<open>A click does what the menu shows: decoding the identifiers the submenus are built with gives back, item by
  item, the choice of the default device or of the device at that position of the inventory (the number in
  an identifier survives being printed and parsed).\<close>

theorem menu_click_roundtrip:
  fixes checked :: "bool option"
  assumes "length (di_microphones (tr_inventory t)) \<le> 2 ^ 64" "length (di_renders (tr_inventory t)) \<le> 2 ^ 64"
    and "length (di_cable_pairs (tr_inventory t)) \<le> 2 ^ 64"
  defines "click \<equiv> \<lambda>i. menu_action checked t (mi_id i)"
  shows "map click (microphone_items t) =
      (if di_default_microphone (tr_inventory t) = None then [] else [Perform OpDefaultMicrophone])
      @ map (\<lambda>k. Perform (OpMicrophone k)) [0..<length (di_microphones (tr_inventory t))]
    \<and> map click (render_items t) =
      (if di_default_render (tr_inventory t) = None then [] else [Perform OpDefaultRender])
      @ map (\<lambda>k. Perform (OpRender k)) [0..<length (di_renders (tr_inventory t))]
    \<and> map click (map (cable_item (tr_draft t)) (List.enumerate 0 (di_cable_pairs (tr_inventory t)))) =
      map (\<lambda>k. Perform (OpCablePair k)) [0..<length (di_cable_pairs (tr_inventory t))]"
proof -
  have fixed: "map click (default_item DEFAULT_MICROPHONE_MENU_ID b c d) = (if d = None then [] else [Perform OpDefaultMicrophone])"
    "map click (default_item DEFAULT_RENDER_MENU_ID b c d) = (if d = None then [] else [Perform OpDefaultRender])" for b c d
    by (cases d; simp add: default_item_def click_def menu_action_fixed)+
  have "map click (map (source_item SELECT_MICROPHONE_PREFIX b c) (List.enumerate 0 xs)) =
      map (\<lambda>k. Perform (OpMicrophone k)) [0..<length xs]"
    "map click (map (source_item SELECT_RENDER_PREFIX b c) (List.enumerate 0 xs)) =
      map (\<lambda>k. Perform (OpRender k)) [0..<length xs]" if "length xs \<le> 2 ^ 64" for b c xs
    using that by (auto intro!: nth_equalityI simp: nth_enumerate_eq source_item_def click_def menu_action_indexed)
  moreover have "map click (map (cable_item d) (List.enumerate 0 xs)) =
      map (\<lambda>k. Perform (OpCablePair k)) [0..<length xs]" if "length xs \<le> 2 ^ 64" for d xs
    using that by (auto intro!: nth_equalityI simp: nth_enumerate_eq cable_item_def click_def menu_action_indexed)
  ultimately show ?thesis
    using assms(1-3) by (simp add: microphone_items_def render_items_def fixed del: map_map)
qed

lemma menu_click_roundtrip_witness:
  "map (\<lambda>i. menu_action None ready_tray (mi_id i)) (microphone_items ready_tray) =
     [Perform OpDefaultMicrophone, Perform (OpMicrophone 0)]"
  using menu_click_roundtrip [of ready_tray None]
  by (simp add: ready_tray_fields one_mic_inventory_def)

text \<open>
  The status line shows an error exactly for a failed engine and for a stopped one that has a configuration
  error although the devices are there.
\<close>

lemma status_error_iff:
  "snd (controller_status_text h t) = ''Status: ERROR'' \<longleftrightarrow>
    (let (en, s) = engine_snapshot_now h (tr_engine t); t = t\<lparr>tr_engine := en\<rparr>
     in es_state s = EngineFailed \<or> es_state s = Stopped \<and> stopped_status_state t = ''ERROR'')"
  by (cases "es_state (snd (engine_snapshot_now h (tr_engine t)))")
    (simp_all add: controller_status_text_def status_text_def Let_def split_def)

end
