(* ===== verification/Tray_Shell.thy ===== *)
theory Tray_Shell
  imports Tray_Menu
begin

text \<open>
  The tray as a running program, \<^verbatim>\<open>main\<close> in \<^verbatim>\<open>src-tauri/src/main.rs\<close>: the setup that builds the menu, the
  handler of menu events on the main thread, and the polling thread.  Both threads change the tray and redraw
  the menu; what is on the screen is kept beside the tray, because the two can differ.

  One turn of the polling thread is three steps, so that a click can come between them: it refreshes the
  inventory, then, if that has changed, it applies the configuration, then it rebuilds the submenus.  Applying
  stops and starts the engine, which takes as long as its workers need, up to seconds.  The operations of the
  user-interface library are taken to succeed (the code ignores their errors).
\<close>

section \<open>The menu\<close>

definition STATUS_MENU_ID :: string where "STATUS_MENU_ID = ''status''"
definition INPUT_MICROPHONE_SUBMENU_ID :: string where "INPUT_MICROPHONE_SUBMENU_ID = ''input-microphone''"
definition OUTPUT_REFERENCE_SUBMENU_ID :: string where "OUTPUT_REFERENCE_SUBMENU_ID = ''output-reference''"
definition CABLE_PAIRS_SUBMENU_ID :: string where "CABLE_PAIRS_SUBMENU_ID = ''cable-pairs''"

datatype poll_step = Sleeping | Applying | Rebuilding

record ('x, 'h, 'i, 's, 'f, 'a, 'b) shell =
  sh_tray :: "('x, 'h, 'i, 's, 'f, 'a, 'b) tray"
  sh_submenus :: "submenu \<times> submenu \<times> submenu"
  sh_state :: menu_state
  sh_poll :: poll_step

text \<open>The entries from top to bottom: identifier, label, enabled; a check mark; the entries of a submenu.\<close>

datatype menu_entry =
    Line string string bool
  | Check string string bool bool
  | Nested string string bool submenu
  | Separator

definition menu_entries :: "('x, 'h, 'i, 's, 'f, 'a, 'b) shell \<Rightarrow> menu_entry list" where
  "menu_entries s =
     (let (microphones, renders, pairs) = sh_submenus s; m = sh_state s in
      [Line STATUS_MENU_ID (ms_status m) False,
       Check ENABLE_AEC_MENU_ID ''Enable AEC3'' (ms_aec_enabled m) (ms_aec_checked m),
       Separator,
       Nested INPUT_MICROPHONE_SUBMENU_ID ''Input Microphone'' (ms_microphones_enabled m) microphones,
       Nested OUTPUT_REFERENCE_SUBMENU_ID ''Output Reference'' (ms_renders_enabled m) renders,
       Nested CABLE_PAIRS_SUBMENU_ID ''VB-CABLE Pairs'' (ms_pairs_enabled m) pairs,
       Separator,
       Line QUIT_MENU_ID ''Quit MiniAEC'' True])"

text \<open>The menu as it is first built: every submenu empty and everything enabled.\<close>

definition new_shell ::
  "('x, 'h) host \<Rightarrow> ('x, 'h, 'i, 's, 'f, 'a, 'b) tray \<Rightarrow> ('x, 'h, 'i, 's, 'f, 'a, 'b) shell" where
  "new_shell h t =
     (let (t, text) = controller_status_text h t in
      \<lparr>sh_tray = t, sh_submenus = (Items [], Items [], Items []),
       sh_state = \<lparr>ms_aec_checked = aec_enabled t, ms_aec_enabled = True, ms_microphones_enabled = True,
         ms_renders_enabled = True, ms_pairs_enabled = True, ms_status = text\<rparr>,
       sh_poll = Sleeping\<rparr>)"

definition show_devices :: "('x, 'h, 'i, 's, 'f, 'a, 'b) shell \<Rightarrow> ('x, 'h, 'i, 's, 'f, 'a, 'b) shell" where
  "show_devices s = s\<lparr>sh_submenus := rebuild_device_submenus (sh_tray s)\<rparr>"

definition show_state ::
  "('x, 'h) host \<Rightarrow> ('x, 'h, 'i, 's, 'f, 'a, 'b) shell \<Rightarrow> ('x, 'h, 'i, 's, 'f, 'a, 'b) shell" where
  "show_state h s = (let (t, m) = update_menu_state h (sh_tray s) in s\<lparr>sh_tray := t, sh_state := m\<rparr>)"

section \<open>Setup, clicks and polls\<close>

definition shell_setup ::
  "('x, 'h) host \<Rightarrow> nat \<Rightarrow> 'b codec \<Rightarrow> ('x, 'h, 'i, 's, 'f, 'a) engine \<Rightarrow> (string \<Rightarrow> str option)
     \<Rightarrow> config_store \<Rightarrow> 'b disk \<Rightarrow> platform \<Rightarrow> ('x, 'h, 'i, 's, 'f, 'a, 'b) shell option" where
  "shell_setup h fuel codec engine env store d pl =
     map_option (\<lambda>t. show_state h (show_devices (new_shell h t))) (tray_setup h fuel codec engine env store d pl)"

definition shell_click ::
  "('x, 'h) host \<Rightarrow> nat \<Rightarrow> 'b codec \<Rightarrow> bool option \<Rightarrow> string \<Rightarrow> ('x, 'h, 'i, 's, 'f, 'a, 'b) shell
     \<Rightarrow> ('x, 'h, 'i, 's, 'f, 'a, 'b) shell option" where
  "shell_click h fuel codec checked i s =
     map_option (\<lambda>t. show_state h (show_devices (s\<lparr>sh_tray := t\<rparr>)))
       (on_menu_event h fuel codec checked i (sh_tray s))"

definition shell_poll ::
  "('x, 'h) host \<Rightarrow> nat \<Rightarrow> 'b codec \<Rightarrow> platform \<Rightarrow> ('x, 'h, 'i, 's, 'f, 'a, 'b) shell
     \<Rightarrow> ('x, 'h, 'i, 's, 'f, 'a, 'b) shell option" where
  "shell_poll h fuel codec pl s =
     (case sh_poll s of
        Sleeping \<Rightarrow>
          (case refresh_inventory pl (sh_tray s) of
             (t, Inr True) \<Rightarrow> Some (s\<lparr>sh_tray := t, sh_poll := Applying\<rparr>)
           | (t, _) \<Rightarrow> Some (show_state h (s\<lparr>sh_tray := t\<rparr>)))
      | Applying \<Rightarrow>
          map_option (\<lambda>t. s\<lparr>sh_tray := t, sh_poll := Rebuilding\<rparr>) (forget (apply_current h fuel codec (sh_tray s)))
      | Rebuilding \<Rightarrow> Some (show_state h (show_devices (s\<lparr>sh_poll := Sleeping\<rparr>))))"

text \<open>Any interleaving of clicks with the steps of the polling thread.\<close>

inductive shell_reaches ::
  "('x, 'h) host \<Rightarrow> nat \<Rightarrow> 'b codec \<Rightarrow> ('x, 'h, 'i, 's, 'f, 'a, 'b) shell
     \<Rightarrow> ('x, 'h, 'i, 's, 'f, 'a, 'b) shell \<Rightarrow> bool"
  for h fuel codec s0 where
  set_up: "shell_reaches h fuel codec s0 s0"
| click: "shell_reaches h fuel codec s0 s \<Longrightarrow> shell_click h fuel codec checked i s = Some s'
     \<Longrightarrow> shell_reaches h fuel codec s0 s'"
| poll: "shell_reaches h fuel codec s0 s \<Longrightarrow> shell_poll h fuel codec pl s = Some s'
     \<Longrightarrow> shell_reaches h fuel codec s0 s'"

section \<open>What is on the screen\<close>

text \<open>The identifiers and labels on the screen, and those the tray would show.\<close>

fun labels :: "submenu \<Rightarrow> (string \<times> message) list" where
  "labels (Items items) = map (\<lambda>m. (mi_id m, mi_text m)) items"
| "labels (EmptyLabel text) = []"

definition shown :: "submenu \<times> submenu \<times> submenu \<Rightarrow> (string \<times> message) list" where
  "shown menus = (case menus of (a, b, c) \<Rightarrow> labels a @ labels b @ labels c)"

lemma labels_append_check [simp]: "labels (append_check_items items text) = map (\<lambda>m. (mi_id m, mi_text m)) items"
  by (simp add: append_check_items_def)

lemma shown_inventory:
  "tr_inventory t = tr_inventory u \<Longrightarrow> shown (rebuild_device_submenus t) = shown (rebuild_device_submenus u)"
  by (auto simp: shown_def rebuild_device_submenus_def microphone_items_def render_items_def default_item_def
      source_item_def cable_item_def split: option.splits)

lemma update_menu_inventory: "update_menu_state h t = (u, m) \<Longrightarrow> tr_inventory u = tr_inventory t"
  by (auto simp: update_menu_state_def controller_status_text_def Let_def split: prod.splits if_splits)

lemma show_state_sel [simp]:
  "tr_inventory (sh_tray (show_state h s)) = tr_inventory (sh_tray s)" "sh_submenus (show_state h s) = sh_submenus s"
  "sh_poll (show_state h s) = sh_poll s"
  using update_menu_inventory [of h "sh_tray s"] by (auto simp: show_state_def split: prod.split)

lemma show_devices_sel [simp]:
  "sh_tray (show_devices s) = sh_tray s" "sh_submenus (show_devices s) = rebuild_device_submenus (sh_tray s)"
  "sh_poll (show_devices s) = sh_poll s"
  by (simp_all add: show_devices_def)

definition on_screen :: "('x, 'h, 'i, 's, 'f, 'a, 'b) shell \<Rightarrow> bool" where
  "on_screen s \<longleftrightarrow> shown (sh_submenus s) = shown (rebuild_device_submenus (sh_tray s))"

lemma on_screen_shown [simp]: "on_screen (show_state h (show_devices s))"
  by (simp add: on_screen_def) (rule shown_inventory, simp)

lemma on_screen_kept:
  assumes "on_screen s" "sh_submenus s' = sh_submenus s" "tr_inventory (sh_tray s') = tr_inventory (sh_tray s)"
  shows "on_screen s'"
  using assms shown_inventory [OF assms(3)] by (simp add: on_screen_def)

lemma unchanged_inventory:
  "refresh_inventory pl t = (u, r) \<Longrightarrow> r \<noteq> Inr True \<Longrightarrow> tr_inventory u = tr_inventory t"
  by (auto simp: refresh_inventory_def split: sum.splits)

lemma poll_on_screen:
  assumes "shell_poll h fuel codec pl s = Some s'" "sh_poll s = Sleeping \<longrightarrow> on_screen s"
  shows "sh_poll s' = Sleeping \<longrightarrow> on_screen s'"
proof (cases "sh_poll s")
  case Sleeping
  obtain t r where r: "refresh_inventory pl (sh_tray s) = (t, r)" by fastforce
  show ?thesis
  proof (cases "r = Inr True")
    case True
    then show ?thesis using assms(1) r Sleeping by (auto simp: shell_poll_def)
  next
    case False
    then have "s' = show_state h (s\<lparr>sh_tray := t\<rparr>)"
      using assms(1) r Sleeping by (auto simp: shell_poll_def split: sum.splits bool.splits)
    moreover have "on_screen s" using assms(2) Sleeping by simp
    ultimately show ?thesis
      using on_screen_kept [of s s'] unchanged_inventory [OF r False] by simp
  qed
next
  case Applying
  then show ?thesis using assms(1) by (auto simp: shell_poll_def)
next
  case Rebuilding
  then show ?thesis using assms(1) by (auto simp: shell_poll_def)
qed

lemma reached_on_screen:
  assumes "shell_reaches h fuel codec s0 s" "on_screen s0"
  shows "sh_poll s = Sleeping \<longrightarrow> on_screen s"
  using assms(1)
proof (induction rule: shell_reaches.induct)
  case set_up
  then show ?case by (simp add: assms(2))
next
  case (click s checked i s')
  then show ?case by (auto simp: shell_click_def)
next
  case (poll s pl s')
  then show ?case using poll_on_screen by blast
qed

lemma set_up_on_screen: "shell_setup h fuel codec engine env store d pl = Some s \<Longrightarrow> on_screen s"
  by (auto simp: shell_setup_def)

section \<open>What a click on it does\<close>

text \<open>The operation picks the device the label names.\<close>

fun picks :: "device_inventory \<Rightarrow> tray_op \<Rightarrow> message \<Rightarrow> bool" where
  "picks v (OpMicrophone k) text \<longleftrightarrow>
     k < length (di_microphones v) \<and> text = Shown (sd_friendly_name (di_microphones v ! k))"
| "picks v (OpRender k) text \<longleftrightarrow>
     k < length (di_renders v) \<and> text = Shown (sd_friendly_name (di_renders v ! k))"
| "picks v (OpCablePair k) text \<longleftrightarrow>
     k < length (di_cable_pairs v) \<and> text = (let p = di_cable_pairs v ! k in
       Pieces [Shown (oe_friendly_name (playback p)), Text '' -> '', Shown (oe_friendly_name (recording p)),
         Text '' ['', Shown (oe_device_family (playback p)), Text '']''])"
| "picks v OpDefaultMicrophone text \<longleftrightarrow> (case di_default_microphone v of None \<Rightarrow> False
     | Some d \<Rightarrow> text = Pieces [Text ''Default ('', Shown (sd_friendly_name d), Text '')''])"
| "picks v OpDefaultRender text \<longleftrightarrow> (case di_default_render v of None \<Rightarrow> False
     | Some d \<Rightarrow> text = Pieces [Text ''Default ('', Shown (sd_friendly_name d), Text '')''])"
| "picks v _ text \<longleftrightarrow> False"

definition addressable :: "device_inventory \<Rightarrow> bool" where
  "addressable v \<longleftrightarrow> length (di_microphones v) \<le> 2 ^ 64 \<and> length (di_renders v) \<le> 2 ^ 64
     \<and> length (di_cable_pairs v) \<le> 2 ^ 64"

definition click_picks :: "bool option \<Rightarrow> ('x, 'h, 'i, 's, 'f, 'a, 'b) tray \<Rightarrow> string \<times> message \<Rightarrow> bool" where
  "click_picks checked t = (\<lambda>(i, text). case menu_action checked t i of
     Perform op \<Rightarrow> picks (tr_inventory t) op text | _ \<Rightarrow> False)"

lemma rebuilt_click_picks:
  assumes "addressable (tr_inventory t)"
  shows "list_all (click_picks checked t) (shown (rebuild_device_submenus t))"
proof -
  have len: "length (di_microphones (tr_inventory t)) \<le> 2 ^ 64" "length (di_renders (tr_inventory t)) \<le> 2 ^ 64"
    "length (di_cable_pairs (tr_inventory t)) \<le> 2 ^ 64"
    using assms by (auto simp: addressable_def)
  have "list_all (click_picks checked t) (map (\<lambda>m. (mi_id m, mi_text m)) (microphone_items t))"
    using len(1) by (cases "di_default_microphone (tr_inventory t)")
      (auto simp: list_all_iff microphone_items_def default_item_def source_item_def click_picks_def
        menu_action_fixed menu_action_indexed in_set_enumerate_eq)
  moreover have "list_all (click_picks checked t) (map (\<lambda>m. (mi_id m, mi_text m)) (render_items t))"
    using len(2) by (cases "di_default_render (tr_inventory t)")
      (auto simp: list_all_iff render_items_def default_item_def source_item_def click_picks_def
        menu_action_fixed menu_action_indexed in_set_enumerate_eq)
  moreover have "list_all (click_picks checked t) (map (\<lambda>m. (mi_id m, mi_text m))
      (map (cable_item (tr_draft t)) (List.enumerate 0 (di_cable_pairs (tr_inventory t)))))"
    using len(3) by (auto simp: list_all_iff cable_item_def click_picks_def
        menu_action_indexed in_set_enumerate_eq Let_def)
  ultimately show ?thesis
    by (simp add: shown_def rebuild_device_submenus_def del: map_map)
qed

text \<open>C18
  What you click is what you get: after the setup and any interleaving of clicks and polls, while the polling
  thread is not in the middle of a change, every device item on the screen performs the operation that picks
  the very device, default device or cable pair its label names.\<close>

theorem shown_item_picks_its_device:
  assumes "shell_setup h fuel codec engine env store d pl = Some s0" "shell_reaches h fuel codec s0 s"
    and "sh_poll s = Sleeping" "addressable (tr_inventory (sh_tray s))"
  shows "list_all (click_picks checked (sh_tray s)) (shown (sh_submenus s))"
  using reached_on_screen [OF assms(2) set_up_on_screen [OF assms(1)]] rebuilt_click_picks [OF assms(4), of checked]
    assms(3) by (simp add: on_screen_def)

section \<open>A concrete tray\<close>

lemma setup_ready:
  "\<exists>s. shell_setup calm_host 1 plain_codec calm_engine no_env some_store empty_disk one_each = Some s
    \<and> tr_inventory (sh_tray s) = one_mic_inventory \<and> sh_poll s = Sleeping"
proof -
  obtain t where t: "apply_current calm_host 1 plain_codec ready_tray = Some (t, Inr ())" using ready_apply by blast
  from apply_current_effect [OF t] have "tr_inventory t = one_mic_inventory"
    by (simp add: same_choices_def ready_tray_fields)
  moreover have "tray_setup calm_host 1 plain_codec calm_engine no_env some_store empty_disk one_each = Some t"
    using t by (simp add: tray_setup_def forget_def ready_tray_def new_tray_def)
  moreover have "tr_inventory (sh_tray (new_shell h t)) = tr_inventory t \<and> sh_poll (new_shell h t) = Sleeping"
    for h :: "(nat, nat) host"
    by (auto simp: new_shell_def controller_status_text_def Let_def split: prod.splits)
  ultimately show ?thesis by (simp add: shell_setup_def)
qed

lemma show_nat_0: "show_nat 0 = ''0''"
  by code_simp

lemma one_mic_shown:
  "tr_inventory t = one_mic_inventory \<Longrightarrow>
     (''select-microphone:0'', Shown [77]) \<in> set (shown (rebuild_device_submenus t))"
  by (simp add: shown_def rebuild_device_submenus_def microphone_items_def one_mic_inventory_def source_item_def
      any_source_def SELECT_MICROPHONE_PREFIX_def show_nat_0)

lemma shown_item_picks_its_device_witness:
  "\<exists>s. shell_setup calm_host 1 plain_codec calm_engine no_env some_store empty_disk one_each = Some s
    \<and> list_all (click_picks None (sh_tray s)) (shown (sh_submenus s))
    \<and> (''select-microphone:0'', Shown [77]) \<in> set (shown (sh_submenus s))"
proof -
  obtain s where s: "shell_setup calm_host 1 plain_codec calm_engine no_env some_store empty_disk one_each = Some s"
    "tr_inventory (sh_tray s) = one_mic_inventory" "sh_poll s = Sleeping"
    using setup_ready by blast
  have "addressable (tr_inventory (sh_tray s))" by (simp add: s(2) addressable_def one_mic_inventory_def)
  from shown_item_picks_its_device [OF s(1) shell_reaches.set_up s(3) this] set_up_on_screen [OF s(1)]
    one_mic_shown [OF s(2)] s(1)
  show ?thesis by (auto simp: on_screen_def)
qed

text \<open>
  Between the refresh and the redraw it is otherwise.  Here the only microphone is replaced by another one, and
  the polling thread has refreshed the inventory but is still applying the configuration: the item on the
  screen names the old microphone, and a click on it picks the new one.
\<close>

definition other_mic :: platform where
  "other_mic = one_each\<lparr>pl_capture := Inr [any_source Microphone [78], any_source Microphone [79]]\<rparr>"

theorem stale_item_picks_other_device:
  "\<exists>s0 s. shell_setup calm_host 1 plain_codec calm_engine no_env some_store empty_disk one_each = Some s0
    \<and> shell_reaches calm_host 1 plain_codec s0 s
    \<and> (''select-microphone:0'', Shown [77]) \<in> set (shown (sh_submenus s))
    \<and> menu_action None (sh_tray s) ''select-microphone:0'' = Perform (OpMicrophone 0)
    \<and> nth_option (di_microphones (tr_inventory (sh_tray s))) 0 = Some (any_source Microphone [78])"
proof -
  obtain s0 where s0: "shell_setup calm_host 1 plain_codec calm_engine no_env some_store empty_disk one_each = Some s0"
    "tr_inventory (sh_tray s0) = one_mic_inventory" "sh_poll s0 = Sleeping"
    using setup_ready by blast
  have found: "\<exists>v. discover other_mic = Inr v \<and> di_microphones v = [any_source Microphone [78]]"
    by (simp add: discover_def other_mic_def one_each_def usable_def any_source_def some_pair_def Let_def)
  then obtain v where v: "discover other_mic = Inr v" "di_microphones v = [any_source Microphone [78]]" by blast
  have "v \<noteq> one_mic_inventory" using v(2) by (auto simp: one_mic_inventory_def any_source_def)
  then obtain t where t: "refresh_inventory other_mic (sh_tray s0) = (t, Inr True)" "tr_inventory t = v"
    using v(1) s0(2) by (simp add: refresh_inventory_def)
  then have "shell_poll calm_host 1 plain_codec other_mic s0 = Some (s0\<lparr>sh_tray := t, sh_poll := Applying\<rparr>)"
    using s0(3) by (simp add: shell_poll_def)
  then have "shell_reaches calm_host 1 plain_codec s0 (s0\<lparr>sh_tray := t, sh_poll := Applying\<rparr>)"
    using shell_reaches.poll [OF shell_reaches.set_up] by blast
  moreover have "(''select-microphone:0'', Shown [77]) \<in> set (shown (sh_submenus s0))"
    using set_up_on_screen [OF s0(1)] one_mic_shown [OF s0(2)] by (simp add: on_screen_def)
  moreover have "menu_action None t ''select-microphone:0'' = Perform (OpMicrophone 0)"
    by (simp add: menu_action_def menu_ids indexed_def strip_prefix_def parse_usize_def digit_of_def)
  ultimately show ?thesis
    using s0(1) t(2) v(2) by (intro exI [of _ s0] exI [of _ "s0\<lparr>sh_tray := t, sh_poll := Applying\<rparr>"])
      (simp add: nth_option_def)
qed

end
