(* ===== verification/Bypass_Pipeline.thy ===== *)
theory Bypass_Pipeline
  imports Sink_Worker Capture_Worker
begin

text \<open>
  The two threads of a bypass run together: the capture thread of \<open>Capture_Worker\<close>, the sink thread of
  \<open>Sink_Worker\<close> and the controller, over the shared world, in any interleaving.

  The step relation goes from one critical section of the frame queue to the next, which is where the threads
  meet: a turn of the capture loop is the reading of a packet followed by one step per frame it emits, a turn
  of the sink loop is a pop followed by a write.  \<open>capture_iteration_steps\<close> and \<open>sink_iteration_steps\<close> show
  that the parts put together again are the loops of the two threads.  What is read, emitted and written is
  recorded beside the state.
\<close>

section \<open>The parts of a turn\<close>

definition capture_read ::
  "'i audio_input \<Rightarrow> input_role \<Rightarrow> 'i \<times> fp list \<times> frame_accumulator \<times> 'x world
     \<Rightarrow> ('i \<times> fp list \<times> frame_accumulator \<times> pcm_samples list \<times> u64 \<times> 'x world, ('i \<times> 'x world) thread_end) flow" where
  "capture_read inp role = (\<lambda>(i, packet, acc, w).
     if w_stop_requested w then Break (Ended (i, w))
     else case ai_read_packet inp packet i of
       (i, packet, Inr (Some metadata)) \<Rightarrow>
         if length packet < pm_frames metadata then
           Break (Ended (i, record_failure id
             (engine_error_new EK_SourceFailure (too_large ''capture'' metadata (length packet))) w))
         else
           (case frame_push_packet collect_frames acc packet metadata [] of
              None \<Rightarrow> Break Panicked
            | Some (acc, frames, sanitized) \<Rightarrow>
                Continue (i, packet, acc, frames, sanitized, on_snapshot (count_packet metadata) w))
     | (i, packet, Inr None) \<Rightarrow> Continue (i, packet, acc, [], 0, w)
     | (i, packet, Inl e) \<Rightarrow> Break (Ended (i, record_failure id (engine_error_from_source role e) w)))"

definition count_sanitized :: "u64 \<Rightarrow> 'x world \<Rightarrow> 'x world" where
  "count_sanitized n = on_snapshot (\<lambda>s. s\<lparr>es_sanitized_samples := es_sanitized_samples s + n\<rparr>)"

definition sink_write ::
  "'s audio_output \<Rightarrow> 's \<times> u64 \<times> pcm_samples \<times> 'x world \<Rightarrow> ('s \<times> u64 \<times> 'x world, 's \<times> 'x world) flow" where
  "sink_write sink = (\<lambda>(s, sequence, samples, w).
     case ao_write_frame sink (pcm_frame_new sequence samples) s of
       (s, Inr _) \<Rightarrow>
         let sequence = sat_add sequence 1; w = count_sink_accepted id w in
         if sequence mod 100 = 0 then
           (case refresh_sink_diagnostics sink id s w of
              (s, w, Inl e) \<Rightarrow> Break (s, record_failure id e (count_sink_failure id w))
            | (s, w, Inr _) \<Rightarrow> Continue (s, sequence, w))
         else Continue (s, sequence, w)
     | (s, Inl e) \<Rightarrow> Break (s, record_failure id (engine_error_from_output e) (count_sink_failure id w)))"

lemma count_sanitized_0 [simp]: "count_sanitized 0 w = w"
  by (simp add: count_sanitized_def on_snapshot_def)

text \<open>Put together again, the parts are the turns of the loops.  The accumulator of the capture thread always
  has fewer than 480 samples pending.\<close>

lemma capture_read_packet:
  assumes "\<not> w_stop_requested w" "length p < FRAME_SAMPLES"
    and "ai_read_packet inp packet i = (i', packet', Inr (Some m))" "pm_frames m \<le> length packet'"
  defines "xs \<equiv> take (pm_frames m) packet'"
  defines "stream \<equiv> (if packet_resets m then [] else p) @ map (converted_sample (pm_silent m)) xs"
  shows "capture_read inp role (i, packet, frame_accumulator_of p, w) =
    Continue (i', packet', frame_accumulator_of (leftover FRAME_SAMPLES stream), chunks FRAME_SAMPLES stream,
      sanitized_count (pm_silent m) xs, on_snapshot (count_packet m) w)"
  using assms(1,3,4) frame_push_packet_spec [OF assms(2), of collect_frames packet' m "[]"]
  by (simp add: capture_read_def stream_def xs_def)

theorem capture_iteration_steps:
  assumes "length p < FRAME_SAMPLES"
  shows "capture_iteration inp id role (i, packet, frame_accumulator_of p, w) =
     (case capture_read inp role (i, packet, frame_accumulator_of p, w) of
        Break b \<Rightarrow> Break b
      | Continue (i, packet, acc, frames, n, w) \<Rightarrow>
          Continue (i, packet, acc, count_sanitized n (fold (emit_frame id) frames w)))"
proof (cases "w_stop_requested w")
  case True
  then show ?thesis by (simp add: capture_iteration_def capture_read_def)
next
  case False
  obtain i' packet' r where read: "ai_read_packet inp packet i = (i', packet', r)" by (metis prod_cases3)
  show ?thesis
  proof (cases "\<exists>m. r = Inr (Some m)")
    case True
    then obtain m where m: "ai_read_packet inp packet i = (i', packet', Inr (Some m))" using read by blast
    show ?thesis
    proof (cases "pm_frames m \<le> length packet'")
      case True
      then show ?thesis
        using capture_iteration_packet_eq [of id w p inp packet i i' packet' m role] assms False m
          capture_read_packet [OF False assms m True]
        by (simp add: count_sanitized_def)
    qed (use False m in \<open>simp add: capture_iteration_def capture_read_def\<close>)
  next
    case no_packet: False
    then show ?thesis
      using False read by (cases r; cases "projr r") (auto simp: capture_iteration_def capture_read_def)
  qed
qed

theorem sink_iteration_steps:
  "sink_iteration sink id (s, k, w) =
     (case pop_frame id w of
        (w, Frame f) \<Rightarrow> sink_write sink (s, k, f, w)
      | (w, Timeout) \<Rightarrow> Continue (s, k, w)
      | (w, Finished) \<Rightarrow> Break (s, w))"
  by (auto simp: sink_iteration_def sink_write_def split: prod.split pop_result.split)

section \<open>The threads together\<close>

datatype 'i capture_thread =
    Reading 'i "fp list" frame_accumulator
  | Emitting 'i "fp list" frame_accumulator u64 "pcm_samples list"
  | CaptureEnding 'i
  | CaptureDone

datatype 's sink_thread =
    Popping 's u64
  | Writing 's u64 pcm_samples
  | SinkEnding 's
  | SinkDone 's

text \<open>The histories: the packets that were read, as whether they reset the stream and their converted samples,
  the frames that were emitted and those that were handed to the adapter.\<close>

record ('x, 'i, 's) pipeline =
  pp_world :: "'x world"
  pp_capture :: "'i capture_thread"
  pp_sink :: "'s sink_thread"
  pp_packets :: "(bool \<times> pcm_samples) list"
  pp_emitted :: "pcm_samples list"
  pp_written :: "pcm_samples list"

definition packet_read :: "'i audio_input \<Rightarrow> fp list \<Rightarrow> 'i \<Rightarrow> (bool \<times> pcm_samples) list" where
  "packet_read inp packet i =
     (case ai_read_packet inp packet i of
        (_, packet, Inr (Some m)) \<Rightarrow>
          [(packet_resets m, map (converted_sample (pm_silent m)) (take (pm_frames m) packet))]
      | _ \<Rightarrow> [])"

text \<open>What the controller does meanwhile: it asks for a stop, fails the queue of a worker that it could not join,
  writes the snapshot, or records that the start has failed.  It clears the queue only after both threads have
  been joined.\<close>

definition controlled :: "'x world \<Rightarrow> 'x world \<Rightarrow> bool" where
  "controlled w w' \<longleftrightarrow> (\<exists>e. w' = record_failure id e w) \<or>
     (\<exists>stop s q x. w' = w\<lparr>w_stop_requested := stop, w_snapshot := s, w_queue := q, w_rest := x\<rparr>
        \<and> (q = w_queue w \<or> q = frame_queue_fail (w_queue w)))"

lemma controlled_stop: "controlled w (w\<lparr>w_stop_requested := True\<rparr>)"
proof -
  have "w\<lparr>w_stop_requested := True\<rparr> = w\<lparr>w_stop_requested := True, w_snapshot := w_snapshot w,
      w_queue := w_queue w, w_rest := w_rest w\<rparr>" by (cases w) simp
  then show ?thesis unfolding controlled_def by blast
qed

inductive pipeline_step ::
  "'i audio_input \<Rightarrow> 's audio_output \<Rightarrow> input_role \<Rightarrow> ('x, 'i, 's) pipeline \<Rightarrow> ('x, 'i, 's) pipeline \<Rightarrow> bool"
  for inp sink role where
  read_packet: "pp_capture p = Reading i packet acc
     \<Longrightarrow> capture_read inp role (i, packet, acc, pp_world p) = Continue (i', packet', acc', frames, n, w)
     \<Longrightarrow> pipeline_step inp sink role p (p\<lparr>pp_world := w, pp_capture := Emitting i' packet' acc' n frames,
           pp_packets := pp_packets p @ packet_read inp packet i\<rparr>)"
| emit: "pp_capture p = Emitting i packet acc n (f # frames)
     \<Longrightarrow> pipeline_step inp sink role p (p\<lparr>pp_world := emit_frame id f (pp_world p),
           pp_capture := Emitting i packet acc n frames, pp_emitted := pp_emitted p @ [f]\<rparr>)"
| next_packet: "pp_capture p = Emitting i packet acc n []
     \<Longrightarrow> pipeline_step inp sink role p (p\<lparr>pp_world := count_sanitized n (pp_world p),
           pp_capture := Reading i packet acc\<rparr>)"
| read_ends: "pp_capture p = Reading i packet acc
     \<Longrightarrow> capture_read inp role (i, packet, acc, pp_world p) = Break (Ended (i', w))
     \<Longrightarrow> pipeline_step inp sink role p (p\<lparr>pp_world := w, pp_capture := CaptureEnding i'\<rparr>)"
| capture_ends: "pp_capture p = CaptureEnding i \<Longrightarrow> capture_teardown inp id role i (pp_world p) = (i', w)
     \<Longrightarrow> pipeline_step inp sink role p (p\<lparr>pp_world := w, pp_capture := CaptureDone\<rparr>)"
| pop: "pp_sink p = Popping s k \<Longrightarrow> pop_frame id (pp_world p) = (w, Frame f)
     \<Longrightarrow> pipeline_step inp sink role p (p\<lparr>pp_world := w, pp_sink := Writing s k f\<rparr>)"
| pop_again: "pp_sink p = Popping s k \<Longrightarrow> pop_frame id (pp_world p) = (w, Timeout)
     \<Longrightarrow> pipeline_step inp sink role p (p\<lparr>pp_world := w\<rparr>)"
| pop_ends: "pp_sink p = Popping s k \<Longrightarrow> pop_frame id (pp_world p) = (w, Finished)
     \<Longrightarrow> pipeline_step inp sink role p (p\<lparr>pp_world := w, pp_sink := SinkEnding s\<rparr>)"
| write_frame: "pp_sink p = Writing s k f \<Longrightarrow> sink_write sink (s, k, f, pp_world p) = Continue (s', k', w)
     \<Longrightarrow> pipeline_step inp sink role p (p\<lparr>pp_world := w, pp_sink := Popping s' k',
           pp_written := pp_written p @ [f]\<rparr>)"
| write_ends: "pp_sink p = Writing s k f \<Longrightarrow> sink_write sink (s, k, f, pp_world p) = Break (s', w)
     \<Longrightarrow> pipeline_step inp sink role p (p\<lparr>pp_world := w, pp_sink := SinkEnding s',
           pp_written := pp_written p @ [f]\<rparr>)"
| sink_ends: "pp_sink p = SinkEnding s \<Longrightarrow> sink_teardown sink id s (pp_world p) = (s', w)
     \<Longrightarrow> pipeline_step inp sink role p (p\<lparr>pp_world := w, pp_sink := SinkDone s'\<rparr>)"
| control: "controlled (pp_world p) w \<Longrightarrow> pipeline_step inp sink role p (p\<lparr>pp_world := w\<rparr>)"

abbreviation pipeline_reaches ::
  "'i audio_input \<Rightarrow> 's audio_output \<Rightarrow> input_role \<Rightarrow> ('x, 'i, 's) pipeline \<Rightarrow> ('x, 'i, 's) pipeline \<Rightarrow> bool" where
  "pipeline_reaches inp sink role \<equiv> (pipeline_step inp sink role)\<^sup>*\<^sup>*"

text \<open>Both threads at the head of their loops: the endpoint and the session are open.\<close>

definition pipeline_start :: "'i \<Rightarrow> 's \<Rightarrow> 'x world \<Rightarrow> ('x, 'i, 's) pipeline" where
  "pipeline_start i s w =
     \<lparr>pp_world = w, pp_capture = Reading i (replicate PACKET_CAPACITY (Fin 0)) default_frame_accumulator,
      pp_sink = Popping s 0, pp_packets = [], pp_emitted = [], pp_written = []\<rparr>"

section \<open>The frames emitted are the stream that was read\<close>

text \<open>The samples of the packets, cut into frames: what is left over, and the frames.\<close>

definition cut_packet ::
  "bool \<times> pcm_samples \<Rightarrow> pcm_samples \<times> pcm_samples list \<Rightarrow> pcm_samples \<times> pcm_samples list" where
  "cut_packet = (\<lambda>(resets, xs) (left, frames).
     let stream = (if resets then [] else left) @ xs
     in (leftover FRAME_SAMPLES stream, frames @ chunks FRAME_SAMPLES stream))"

definition cut_stream :: "(bool \<times> pcm_samples) list \<Rightarrow> pcm_samples \<times> pcm_samples list" where
  "cut_stream packets = fold cut_packet packets ([], [])"

lemma cut_stream_Nil [simp]: "cut_stream [] = ([], [])"
  by (simp add: cut_stream_def)

lemma cut_stream_snoc: "cut_stream (packets @ [pk]) = cut_packet pk (cut_stream packets)"
  by (simp add: cut_stream_def)

fun stream_inv :: "(bool \<times> pcm_samples) list \<Rightarrow> pcm_samples list \<Rightarrow> 'i capture_thread \<Rightarrow> bool" where
  "stream_inv packets emitted (Reading i packet acc) \<longleftrightarrow>
     (\<exists>left. acc = frame_accumulator_of left \<and> length left < FRAME_SAMPLES \<and> cut_stream packets = (left, emitted))"
| "stream_inv packets emitted (Emitting i packet acc n frames) \<longleftrightarrow>
     (\<exists>left. acc = frame_accumulator_of left \<and> length left < FRAME_SAMPLES
        \<and> cut_stream packets = (left, emitted @ frames))"
| "stream_inv packets emitted (CaptureEnding i) \<longleftrightarrow> snd (cut_stream packets) = emitted"
| "stream_inv packets emitted CaptureDone \<longleftrightarrow> snd (cut_stream packets) = emitted"

lemma capture_read_inv:
  assumes "stream_inv packets emitted (Reading i packet acc)"
    and "capture_read inp role (i, packet, acc, w) = Continue (i', packet', acc', frames, n, w')"
  shows "stream_inv (packets @ packet_read inp packet i) emitted (Emitting i' packet' acc' n frames)"
proof -
  from assms(1) obtain left where left: "acc = frame_accumulator_of left" "length left < FRAME_SAMPLES"
    "cut_stream packets = (left, emitted)" by auto
  obtain i1 packet1 r where read: "ai_read_packet inp packet i = (i1, packet1, r)" by (metis prod_cases3)
  have running: "\<not> w_stop_requested w" using assms(2) by (auto simp: capture_read_def)
  show ?thesis
  proof (cases "\<exists>m. r = Inr (Some m)")
    case True
    then obtain m where m: "r = Inr (Some m)" by blast
    have fits: "pm_frames m \<le> length packet1"
      using assms(2) running read m by (auto simp: capture_read_def split: if_splits)
    from capture_read_packet [OF running left(2) _ fits, of inp packet i i1 role] assms(2) read m left(1)
    have "acc' = frame_accumulator_of (leftover FRAME_SAMPLES ((if packet_resets m then [] else left)
          @ map (converted_sample (pm_silent m)) (take (pm_frames m) packet1)))"
      "frames = chunks FRAME_SAMPLES ((if packet_resets m then [] else left)
          @ map (converted_sample (pm_silent m)) (take (pm_frames m) packet1))" by auto
    moreover have "length (leftover FRAME_SAMPLES xs) < FRAME_SAMPLES" for xs :: pcm_samples
      using leftover_length [of FRAME_SAMPLES xs] by (simp add: FRAME_SAMPLES_def)
    ultimately show ?thesis
      by (simp add: packet_read_def read m cut_stream_snoc left(3) cut_packet_def Let_def)
  next
    case False
    then have "acc' = acc \<and> frames = [] \<and> packet_read inp packet i = []"
      using assms(2) running read by (cases r; cases "projr r") (auto simp: capture_read_def packet_read_def)
    with left show ?thesis by auto
  qed
qed

lemma capture_read_ends:
  assumes "stream_inv packets emitted (Reading i packet acc)" "capture_read inp role (i, packet, acc, w) = Break b"
  shows "\<exists>i' w'. b = Ended (i', w') \<and> (w' = w \<or> (\<exists>e. w' = record_failure id e w))"
proof -
  from assms(1) obtain left where left: "acc = frame_accumulator_of left" "length left < FRAME_SAMPLES" by auto
  obtain i1 packet1 r where read: "ai_read_packet inp packet i = (i1, packet1, r)" by (metis prod_cases3)
  show ?thesis
    using assms(2) read left frame_push_packet_spec [OF left(2), of collect_frames packet1 _ "[]"]
    by (auto simp: capture_read_def split: if_splits sum.splits option.splits)
qed

lemma capture_read_world:
  "capture_read inp role (i, packet, acc, w) = Continue (i', packet', acc', frames, n, w')
    \<Longrightarrow> w_queue w' = w_queue w \<and> w_terminal_failure w' = w_terminal_failure w"
  by (auto simp: capture_read_def split: if_splits prod.splits sum.splits option.splits)

section \<open>What is handed over is a part of what was emitted, in order\<close>

text \<open>
  \<open>handed\<close> are the frames the sink thread has taken from the queue.  The frames handed over and queued are a
  subsequence of those emitted, and as long as the queue has not failed all that is missing is counted as
  discarded.
\<close>

definition delivers ::
  "pcm_samples list \<Rightarrow> pcm_samples list \<Rightarrow> bool \<Rightarrow> bool \<Rightarrow> frame_queue \<Rightarrow> bool \<Rightarrow> bool" where
  "delivers handed emitted capture_done sink_ended q terminal \<longleftrightarrow>
     subseq (handed @ qs_frames q) emitted \<and> length (qs_frames q) \<le> QUEUE_CAPACITY
   \<and> (terminal \<longrightarrow> qs_failed q) \<and> (qs_failed q \<longrightarrow> qs_frames q = [])
   \<and> (qs_producer_done q \<longrightarrow> capture_done)
   \<and> (\<not> qs_failed q \<longrightarrow> of_nat (length emitted) =
        of_nat (length handed + length (qs_frames q)) + qm_discarded (qs_metrics q))
   \<and> (sink_ended \<longrightarrow> qs_failed q \<or> qs_frames q = [] \<and> qs_producer_done q)"

lemma delivers_new: "delivers [] [] False False frame_queue_new False"
  by (simp add: delivers_def frame_queue_defs)

lemma subseq_drop_first: "subseq (xs @ a # ys) zs \<Longrightarrow> subseq (xs @ ys) zs"
  by (meson list_emb_append_mono subseq_Cons' subseq_order.dual_order.refl subseq_order.dual_order.trans)

lemma subseq_first: "subseq (xs @ ys) zs \<Longrightarrow> subseq xs zs"
  by (meson prefixI prefix_imp_subseq subseq_order.order_trans)

lemma delivers_push:
  assumes "delivers handed emitted False ended q t"
  shows "delivers handed (emitted @ [f]) False ended (fst (frame_queue_push f q)) t"
proof (cases "qs_failed q")
  case True
  with assms show ?thesis
    by (auto simp: delivers_def frame_queue_push_def intro: subseq_order.dual_order.trans [OF _ list_emb_prefix])
next
  case False
  with assms have q: "\<not> qs_producer_done q" "length (qs_frames q) \<le> QUEUE_CAPACITY"
    "subseq (handed @ qs_frames q) emitted" by (auto simp: delivers_def)
  have kept: "subseq (handed @ tl (qs_frames q)) emitted"
    using q(3) subseq_drop_first by (cases "qs_frames q") (auto intro: list_emb_append2)
  have "subseq ((handed @ xs) @ [f]) (emitted @ [f])" if "subseq (handed @ xs) emitted" for xs
    using that by (rule list_emb_append_mono) simp
  with q(3) kept have "subseq (handed @ qs_frames (fst (frame_queue_push f q))) (emitted @ [f])"
    using False q(1) by (simp add: frame_queue_push_def Let_def)
  moreover have "length (qs_frames q) = QUEUE_CAPACITY \<Longrightarrow> qs_frames q \<noteq> []"
    by (auto simp: QUEUE_CAPACITY_def)
  ultimately show ?thesis
    using assms False q(1) by (auto simp: delivers_def frame_queue_push_def Let_def QUEUE_CAPACITY_def)
qed

lemma delivers_take:
  assumes "delivers handed emitted cdone False q t"
  shows "case frame_queue_take q of
      (q', Frame f) \<Rightarrow> delivers (handed @ [f]) emitted cdone False q' t
    | (q', Timeout) \<Rightarrow> q' = q
    | (q', Finished) \<Rightarrow> delivers handed emitted cdone True q t \<and> q' = q"
  using assms by (auto simp: delivers_def frame_queue_take_def split: list.splits)

lemma delivers_fail: "delivers handed emitted cdone ended q t \<Longrightarrow> delivers handed emitted cdone True (frame_queue_fail q) t'"
  using subseq_first by (auto simp: delivers_def frame_queue_fail_def)

text \<open>A finished queue is one whose capture thread is done; it may still hold frames.\<close>

lemma delivers_finish:
  "delivers handed emitted cdone ended q t \<Longrightarrow> delivers handed emitted True ended (frame_queue_finish_producer q) t"
  by (auto simp: delivers_def frame_queue_finish_producer_def)

fun in_hand :: "'s sink_thread \<Rightarrow> pcm_samples list" where
  "in_hand (Writing s k f) = [f]"
| "in_hand _ = []"

fun sink_ended :: "'s sink_thread \<Rightarrow> bool" where
  "sink_ended (SinkEnding s) \<longleftrightarrow> True"
| "sink_ended (SinkDone s) \<longleftrightarrow> True"
| "sink_ended _ \<longleftrightarrow> False"

definition pipeline_ok :: "('x, 'i, 's) pipeline \<Rightarrow> bool" where
  "pipeline_ok p \<longleftrightarrow> stream_inv (pp_packets p) (pp_emitted p) (pp_capture p)
     \<and> delivers (pp_written p @ in_hand (pp_sink p)) (pp_emitted p) (pp_capture p = CaptureDone)
         (sink_ended (pp_sink p)) (w_queue (pp_world p)) (w_terminal_failure (pp_world p))"

text \<open>What the parts of a turn do to the queue and to the failure flag.\<close>

lemma emit_frame_world [simp]:
  "w_queue (emit_frame id f w) = fst (frame_queue_push f (w_queue w))"
  "w_terminal_failure (emit_frame id f w) = w_terminal_failure w"
  by (simp_all add: emit_frame_def Let_def split_beta)

lemma record_failure_world:
  "w_queue (record_failure id e w) = (if w_terminal_failure w then w_queue w else frame_queue_fail (w_queue w))"
  "w_terminal_failure (record_failure id e w)"
  by (simp_all add: record_failure_def Let_def)

lemma count_world [simp]:
  "w_queue (count_sink_failure id w) = w_queue w" "w_terminal_failure (count_sink_failure id w) = w_terminal_failure w"
  "w_queue (count_sink_accepted id w) = w_queue w" "w_terminal_failure (count_sink_accepted id w) = w_terminal_failure w"
  "w_queue (count_sanitized n w) = w_queue w" "w_terminal_failure (count_sanitized n w) = w_terminal_failure w"
  by (simp_all add: count_sink_failure_def count_sink_accepted_def count_sanitized_def)

lemma refresh_world:
  "refresh_sink_diagnostics sink id s w = (s', w', r) \<Longrightarrow> w_queue w' = w_queue w \<and> w_terminal_failure w' = w_terminal_failure w"
  by (auto simp: refresh_sink_diagnostics_def split: prod.splits sum.splits)

lemma delivers_record_failure:
  assumes "delivers handed emitted cdone ended (w_queue w) (w_terminal_failure w)"
  shows "delivers handed emitted cdone True (w_queue (record_failure id e w)) (w_terminal_failure (record_failure id e w))"
proof (cases "w_terminal_failure w")
  case True
  with assms show ?thesis by (auto simp: record_failure_world delivers_def)
qed (use delivers_fail [OF assms] in \<open>simp add: record_failure_world\<close>)

lemma delivers_weaken: "delivers handed emitted cdone True q t \<Longrightarrow> delivers handed emitted cdone ended q t"
  by (auto simp: delivers_def)

lemma delivers_done: "delivers handed emitted False ended q t \<Longrightarrow> delivers handed emitted cdone ended q t"
  by (auto simp: delivers_def)

lemma sink_write_Continue:
  "sink_write sink (s, k, f, w) = Continue (s', k', w')
    \<Longrightarrow> w_queue w' = w_queue w \<and> w_terminal_failure w' = w_terminal_failure w"
  by (auto simp: sink_write_def Let_def dest!: refresh_world split: prod.splits sum.splits if_splits)

lemma sink_write_Break:
  "sink_write sink (s, k, f, w) = Break (s', w')
    \<Longrightarrow> \<exists>e w1. w' = record_failure id e w1 \<and> w_queue w1 = w_queue w \<and> w_terminal_failure w1 = w_terminal_failure w"
  by (fastforce simp: sink_write_def Let_def dest!: refresh_world split: prod.splits sum.splits if_splits)

lemma sink_teardown_delivers:
  assumes "delivers handed emitted cdone True (w_queue w) (w_terminal_failure w)"
    and "sink_teardown sink id s w = (s', w')"
  shows "delivers handed emitted cdone True (w_queue w') (w_terminal_failure w')"
proof -
  obtain s1 closed where closed: "ao_close_session sink s = (s1, closed)" by fastforce
  define w1 where "w1 = (case closed of
      Inl e \<Rightarrow> record_failure id (engine_error_from_output e) (count_sink_failure id w) | Inr _ \<Rightarrow> w)"
  have 1: "delivers handed emitted cdone True (w_queue w1) (w_terminal_failure w1)"
    using assms(1) delivers_record_failure [of handed emitted cdone True "count_sink_failure id w"]
    by (simp add: w1_def split: sum.split)
  obtain s2 w2 r where refreshed: "refresh_sink_diagnostics sink id s1 w1 = (s2, w2, r)" by (metis prod_cases3)
  have 2: "delivers handed emitted cdone True (w_queue w2) (w_terminal_failure w2)"
    using 1 refresh_world [OF refreshed] by simp
  have "w' = w2 \<or> (\<exists>e. w' = record_failure id e (count_sink_failure id w2))"
    using assms(2) closed refreshed by (auto simp: sink_teardown_def w1_def Let_def split: sum.splits if_splits)
  with 2 delivers_record_failure [of handed emitted cdone True "count_sink_failure id w2"]
  show ?thesis by auto
qed

lemma finish_queue_delivers:
  "delivers handed emitted False ended (w_queue w) (w_terminal_failure w)
    \<Longrightarrow> delivers handed emitted True ended (w_queue (finish_queue id w)) (w_terminal_failure (finish_queue id w))"
  by (drule delivers_finish) (simp add: finish_queue_def)

lemma capture_teardown_delivers:
  assumes "delivers handed emitted False ended (w_queue w) (w_terminal_failure w)"
    and "capture_teardown inp id role i w = (i', w')"
  shows "delivers handed emitted True ended (w_queue w') (w_terminal_failure w')"
proof -
  have "\<exists>w1. w' = finish_queue id w1 \<and> (w1 = w \<or> (\<exists>e. w1 = record_failure id e w))"
    using assms(2) by (auto simp: capture_teardown_def Let_def split: prod.splits sum.splits if_splits)
  with finish_queue_delivers [OF assms(1)]
    finish_queue_delivers [OF delivers_weaken [OF delivers_record_failure [OF assms(1)]]]
  show ?thesis by blast
qed

lemma pipeline_ok_start:
  assumes "w_queue w = frame_queue_new" "\<not> w_terminal_failure w"
  shows "pipeline_ok (pipeline_start i s w)"
  using assms delivers_new
  by (auto simp: pipeline_ok_def pipeline_start_def default_frame_accumulator_of FRAME_SAMPLES_def)


lemma sink_write_Break_delivers:
  assumes "delivers handed emitted cdone ended (w_queue w) (w_terminal_failure w)"
    and "sink_write sink (s, k, f, w) = Break (s', w')"
  shows "delivers handed emitted cdone True (w_queue w') (w_terminal_failure w')"
proof -
  obtain e w1 where w1: "w' = record_failure id e w1" "w_queue w1 = w_queue w"
    "w_terminal_failure w1 = w_terminal_failure w" using sink_write_Break [OF assms(2)] by blast
  show ?thesis unfolding w1(1) by (rule delivers_record_failure) (use assms(1) w1 in simp)
qed

lemma pop_frame_delivers:
  assumes "delivers handed emitted cdone False (w_queue w) t" "pop_frame id w = (w', r)"
  shows "w_terminal_failure w' = w_terminal_failure w
    \<and> (case r of Frame f \<Rightarrow> delivers (handed @ [f]) emitted cdone False (w_queue w') t
       | Timeout \<Rightarrow> delivers handed emitted cdone False (w_queue w') t
       | Finished \<Rightarrow> delivers handed emitted cdone True (w_queue w') t)"
proof -
  obtain q r' where q: "frame_queue_take (w_queue w) = (q, r')" by fastforce
  with assms(2) have "w' = w\<lparr>w_queue := q\<rparr>" "r = r'"
    by (auto simp: pop_frame_def Let_def cong: if_cong)
  with delivers_take [OF assms(1)] q assms(1) show ?thesis by (cases r') auto
qed

lemma controlled_delivers:
  assumes "controlled w w'"
    and "delivers handed emitted cdone ended (w_queue w) (w_terminal_failure w)"
  shows "delivers handed emitted cdone ended (w_queue w') (w_terminal_failure w')"
  using assms delivers_weaken [OF delivers_fail [OF assms(2)]] delivers_weaken [OF delivers_record_failure [OF assms(2)]]
  by (auto simp: controlled_def)

lemma pipeline_step_ok:
  assumes "pipeline_step inp sink role p p'" "pipeline_ok p"
  shows "pipeline_ok p'"
  using assms
proof (cases rule: pipeline_step.cases)
  case (read_packet i packet acc i' packet' acc' frames n w)
  have same: "w_queue w = w_queue (pp_world p)" "w_terminal_failure w = w_terminal_failure (pp_world p)"
    using capture_read_world [OF read_packet(3)] by simp_all
  with read_packet assms(2) capture_read_inv [OF _ read_packet(3)] show ?thesis
    by (simp add: pipeline_ok_def del: stream_inv.simps)
next
  case (emit i packet acc n f frames)
  with assms(2) show ?thesis by (auto simp: pipeline_ok_def intro: delivers_push)
next
  case (next_packet i packet acc n)
  with assms(2) show ?thesis by (auto simp: pipeline_ok_def)
next
  case (read_ends i packet acc i' w)
  with assms(2) capture_read_ends [OF _ read_ends(3)] have
    "w = pp_world p \<or> (\<exists>e. w = record_failure id e (pp_world p))"
    by (auto simp: pipeline_ok_def simp del: stream_inv.simps)
  with read_ends assms(2) show ?thesis
    by (auto simp: pipeline_ok_def intro: delivers_weaken [OF delivers_record_failure])
next
  case (capture_ends i i' w)
  with assms(2) show ?thesis by (auto simp: pipeline_ok_def intro: capture_teardown_delivers)
next
  case (pop s k w f)
  with assms(2) pop_frame_delivers [OF _ pop(3)] show ?thesis by (auto simp: pipeline_ok_def)
next
  case (pop_again s k w)
  with assms(2) pop_frame_delivers [OF _ pop_again(3)] show ?thesis by (auto simp: pipeline_ok_def)
next
  case (pop_ends s k w)
  with assms(2) pop_frame_delivers [OF _ pop_ends(3)] show ?thesis by (auto simp: pipeline_ok_def)
next
  case (write_frame s k f s' k' w)
  with assms(2) sink_write_Continue [OF write_frame(3)] show ?thesis by (simp add: pipeline_ok_def)
next
  case (write_ends s k f s' w)
  with assms(2) show ?thesis by (auto simp: pipeline_ok_def intro: sink_write_Break_delivers)
next
  case (sink_ends s s' w)
  with assms(2) show ?thesis by (auto simp: pipeline_ok_def intro: sink_teardown_delivers)
next
  case (control w)
  with assms(2) controlled_delivers [OF control(2)] show ?thesis by (simp add: pipeline_ok_def)
qed

lemma pipeline_reaches_ok:
  assumes "pipeline_reaches inp sink role (pipeline_start i s w) p"
    and "w_queue w = frame_queue_new" "\<not> w_terminal_failure w"
  shows "pipeline_ok p"
  using assms(1)
  by (induction rule: rtranclp_induct) (simp_all add: pipeline_ok_start assms(2,3) pipeline_step_ok)

lemma cut_stream_length: "f \<in> set (snd (cut_stream packets)) \<Longrightarrow> length f = FRAME_SAMPLES"
  by (induction packets rule: rev_induct)
    (auto simp: cut_stream_snoc cut_packet_def Let_def split: prod.splits dest: chunks_length)

lemma emitted_subseq: "stream_inv packets emitted c \<Longrightarrow> subseq emitted (snd (cut_stream packets))"
  by (cases c) auto

lemma written_subseq:
  assumes "pipeline_ok p"
  shows "subseq (pp_written p) (snd (cut_stream (pp_packets p)))"
proof -
  from assms have "subseq (pp_written p @ in_hand (pp_sink p) @ qs_frames (w_queue (pp_world p))) (pp_emitted p)"
    "subseq (pp_emitted p) (snd (cut_stream (pp_packets p)))"
    by (auto simp: pipeline_ok_def delivers_def intro: emitted_subseq)
  then show ?thesis using subseq_first subseq_order.trans by blast
qed

lemma all_written:
  assumes "pipeline_ok p" "pp_capture p = CaptureDone" "sink_ended (pp_sink p)"
    and "\<not> qs_failed (w_queue (pp_world p))"
  shows "of_nat (length (snd (cut_stream (pp_packets p)))) =
    of_nat (length (pp_written p)) + qm_discarded (qs_metrics (w_queue (pp_world p)))"
proof -
  have "in_hand (pp_sink p) = []" using assms(3) by (cases "pp_sink p") auto
  with assms show ?thesis by (simp add: pipeline_ok_def delivers_def)
qed

lemma u64_of_nat_inject:
  assumes "of_nat m = (of_nat n :: u64)" "m < 2 ^ 64" "n < 2 ^ 64"
  shows "m = n"
proof -
  have "m = unat (of_nat m :: u64)" "n = unat (of_nat n :: u64)"
    using assms(2,3) by (simp_all add: unat_of_nat take_bit_nat_eq_self)
  with assms(1) show ?thesis by simp
qed

lemma everything_written:
  assumes "pipeline_ok p" "pp_capture p = CaptureDone" "sink_ended (pp_sink p)"
    and "\<not> qs_failed (w_queue (pp_world p))" "qm_discarded (qs_metrics (w_queue (pp_world p))) = 0"
    and "length (snd (cut_stream (pp_packets p))) < 2 ^ 64"
  shows "pp_written p = snd (cut_stream (pp_packets p))"
proof (rule subseq_same_length)
  show sub: "subseq (pp_written p) (snd (cut_stream (pp_packets p)))" using assms(1) by (rule written_subseq)
  then have "length (pp_written p) < 2 ^ 64" using assms(6) by (auto dest: list_emb_length)
  then show "length (pp_written p) = length (snd (cut_stream (pp_packets p)))"
    using all_written [OF assms(1-4)] assms(5,6) u64_of_nat_inject
    by (metis add.right_neutral)
qed


text \<open>A packet of ten silent milliseconds through an adapter that accepts it.\<close>

definition silent_packet :: packet_metadata where
  "silent_packet = default_packet_metadata\<lparr>pm_frames := FRAME_SAMPLES, pm_silent := True\<rparr>"

definition silent_input :: "nat audio_input" where
  "silent_input = \<lparr>ai_read_packet = (\<lambda>packet n. (Suc n, packet, Inr (Some silent_packet))),
     ai_stop = (\<lambda>n. (n, Inr ()))\<rparr>"

definition silent_frame :: pcm_samples where
  "silent_frame = replicate FRAME_SAMPLES 0"

lemma silent_read:
  assumes "\<not> w_stop_requested w"
  shows "\<exists>packet' n. capture_read silent_input role (0, replicate PACKET_CAPACITY (Fin 0), default_frame_accumulator, w) =
      Continue (1, packet', frame_accumulator_of [], [silent_frame], n, on_snapshot (count_packet silent_packet) w)"
    "packet_read silent_input (replicate PACKET_CAPACITY (Fin 0)) 0 = [(False, silent_frame)]"
proof -
  have fits: "pm_frames silent_packet \<le> length (replicate PACKET_CAPACITY (Fin 0 :: fp))"
    by (simp add: silent_packet_def PACKET_CAPACITY_def FRAME_SAMPLES_def)
  have resets: "\<not> packet_resets silent_packet"
    by (simp add: silent_packet_def default_packet_metadata_def)
  have "map (converted_sample (pm_silent silent_packet))
      (take (pm_frames silent_packet) (replicate PACKET_CAPACITY (Fin 0))) = silent_frame"
    by (simp add: silent_packet_def PACKET_CAPACITY_def FRAME_SAMPLES_def silent_frame_def
        converted_sample_def pcm16_Fin)
  moreover have "chunks FRAME_SAMPLES silent_frame = [silent_frame]" "leftover FRAME_SAMPLES silent_frame = []"
    by (simp_all add: silent_frame_def FRAME_SAMPLES_def chunks.simps leftover.simps)
  moreover have "ai_read_packet silent_input packet i = (Suc i, packet, Inr (Some silent_packet))" for packet i
    by (simp add: silent_input_def)
  ultimately show "\<exists>packet' n. capture_read silent_input role (0, replicate PACKET_CAPACITY (Fin 0), default_frame_accumulator, w) =
      Continue (1, packet', frame_accumulator_of [], [silent_frame], n, on_snapshot (count_packet silent_packet) w)"
    "packet_read silent_input (replicate PACKET_CAPACITY (Fin 0)) 0 = [(False, silent_frame)]"
    using capture_read_packet [OF assms _ _ fits, of "[]" silent_input "replicate PACKET_CAPACITY (Fin 0)" 0 1] resets
    by (simp_all add: packet_read_def default_frame_accumulator_of FRAME_SAMPLES_def)
qed

text \<open>The capture thread reads the packet, is asked to stop, and is through; then the sink thread hands the frame
  over and finds the queue finished.\<close>

lemma silent_run:
  assumes "ao_write_frame sink (pcm_frame_new 0 silent_frame) s = (s', Inr r)"
  shows "\<exists>p. pipeline_reaches silent_input sink role (pipeline_start 0 s (initial_world ())) p
    \<and> pp_packets p = [(False, silent_frame)] \<and> pp_written p = [silent_frame]
    \<and> pp_capture p = CaptureDone \<and> pp_sink p = SinkEnding s'
    \<and> \<not> qs_failed (w_queue (pp_world p)) \<and> qm_discarded (qs_metrics (w_queue (pp_world p))) = 0"
proof -
  note frame_queue_defs [simp] and count_sanitized_def [simp] and count_sink_accepted_def [simp]
  let ?step = "pipeline_step silent_input sink role" and ?p0 = "pipeline_start 0 s (initial_world ())"
  have w0: "\<not> w_stop_requested (initial_world ())" "w_queue (initial_world ()) = frame_queue_new"
    by (simp_all add: initial_world_def)
  obtain packet n where read: "capture_read silent_input role (0, replicate PACKET_CAPACITY (Fin 0),
      default_frame_accumulator, initial_world ())
    = Continue (1, packet, frame_accumulator_of [], [silent_frame], n, on_snapshot (count_packet silent_packet) (initial_world ()))"
    using silent_read(1) [OF w0(1)] by blast
  define w1 where "w1 = emit_frame id silent_frame (on_snapshot (count_packet silent_packet) (initial_world ()))"
  define w2 where "w2 = (count_sanitized n w1)\<lparr>w_stop_requested := True\<rparr>"
  define w3 where "w3 = finish_queue id w2"
  define q where "q = fst (frame_queue_take (w_queue w3))"
  define w4 where "w4 = w3\<lparr>w_queue := q\<rparr>"
  have w1: "w_queue w1 = fst (frame_queue_push silent_frame frame_queue_new)"
    by (simp add: w1_def w0(2))
  have w3: "qs_frames (w_queue w3) = [silent_frame]" "qs_producer_done (w_queue w3)" "\<not> qs_failed (w_queue w3)"
    "qm_discarded (qs_metrics (w_queue w3)) = 0"
    by (simp_all add: w3_def w2_def finish_queue_def w1 QUEUE_CAPACITY_def Let_def)
  have q: "qs_frames q = []" "qs_producer_done q" "\<not> qs_failed q" "qm_discarded (qs_metrics q) = 0"
    using w3 by (simp_all add: q_def)
  have popped: "pop_frame id w3 = (w4, Frame silent_frame)"
    using w3 by (simp add: pop_frame_def Let_def w4_def q_def)
  define w5 where "w5 = count_sink_accepted id w4"
  have w5: "w_queue w5 = q" by (simp add: w5_def w4_def)
  have wrote: "sink_write sink (s, 0, silent_frame, w4) = Continue (s', 1, w5)"
    using assms by (simp add: sink_write_def w5_def sat_add_small)
  define P where "P w c t packets emitted written = (\<lparr>pp_world = w, pp_capture = c, pp_sink = t,
      pp_packets = packets, pp_emitted = emitted, pp_written = written\<rparr> :: (unit, nat, 'a) pipeline)"
    for w c t packets emitted written
  note P_def [simp]
  let ?r = "[(False, silent_frame)]" and ?f = "[silent_frame]" and ?acc = "frame_accumulator_of []"
    and ?buffer = "replicate PACKET_CAPACITY (Fin 0)" and ?w0 = "on_snapshot (count_packet silent_packet) (initial_world ())"
  have s0: "?step ?p0 (P ?w0 (Emitting 1 packet ?acc n ?f) (Popping s 0) ?r [] [])"
    using pipeline_step.read_packet [of ?p0 0 ?buffer default_frame_accumulator silent_input role, OF _] read
      silent_read(2) [OF w0(1)] by (simp add: pipeline_start_def)
  have s1: "?step (P ?w0 (Emitting 1 packet ?acc n ?f) (Popping s 0) ?r [] [])
      (P w1 (Emitting 1 packet ?acc n []) (Popping s 0) ?r ?f [])"
    using pipeline_step.emit [of "P ?w0 (Emitting 1 packet ?acc n ?f) (Popping s 0) ?r [] []"] by (simp add: w1_def)
  have s2: "?step (P w1 (Emitting 1 packet ?acc n []) (Popping s 0) ?r ?f [])
      (P (count_sanitized n w1) (Reading 1 packet ?acc) (Popping s 0) ?r ?f [])"
    using pipeline_step.next_packet [of "P w1 (Emitting 1 packet ?acc n []) (Popping s 0) ?r ?f []"] by simp
  have s3: "?step (P (count_sanitized n w1) (Reading 1 packet ?acc) (Popping s 0) ?r ?f [])
      (P w2 (Reading 1 packet ?acc) (Popping s 0) ?r ?f [])"
    using pipeline_step.control [of "P (count_sanitized n w1) (Reading 1 packet ?acc) (Popping s 0) ?r ?f []", OF _]
      controlled_stop [of "count_sanitized n w1"] by (simp add: w2_def)
  have s4: "?step (P w2 (Reading 1 packet ?acc) (Popping s 0) ?r ?f []) (P w2 (CaptureEnding 1) (Popping s 0) ?r ?f [])"
    using pipeline_step.read_ends [of "P w2 (Reading 1 packet ?acc) (Popping s 0) ?r ?f []"]
    by (simp add: capture_read_def w2_def)
  have s5: "?step (P w2 (CaptureEnding 1) (Popping s 0) ?r ?f []) (P w3 CaptureDone (Popping s 0) ?r ?f [])"
    using pipeline_step.capture_ends [of "P w2 (CaptureEnding 1) (Popping s 0) ?r ?f []"]
    by (simp add: capture_teardown_def silent_input_def w3_def)
  have s6: "?step (P w3 CaptureDone (Popping s 0) ?r ?f []) (P w4 CaptureDone (Writing s 0 silent_frame) ?r ?f [])"
    using pipeline_step.pop [of "P w3 CaptureDone (Popping s 0) ?r ?f []"] popped by simp
  have s7: "?step (P w4 CaptureDone (Writing s 0 silent_frame) ?r ?f []) (P w5 CaptureDone (Popping s' 1) ?r ?f ?f)"
    using pipeline_step.write_frame [of "P w4 CaptureDone (Writing s 0 silent_frame) ?r ?f []"] wrote by simp
  have s8: "?step (P w5 CaptureDone (Popping s' 1) ?r ?f ?f) (P w5 CaptureDone (SinkEnding s') ?r ?f ?f)"
    using pipeline_step.pop_ends [of "P w5 CaptureDone (Popping s' 1) ?r ?f ?f" s' 1 w5] q w5
    by (simp add: pop_frame_def)
  have "pipeline_reaches silent_input sink role ?p0 (P w5 CaptureDone (SinkEnding s') ?r ?f ?f)"
    using s0 s1 s2 s3 s4 s5 s6 s7 s8 by (meson converse_rtranclp_into_rtranclp r_into_rtranclp)
  with q w5 show ?thesis by (intro exI conjI) auto
qed


end
