(* ===== verification/Adapter_Contract.thy ===== *)
theory Adapter_Contract
  imports Bypass_Pipeline
begin

text \<open>
  What the sink thread relies on from an output adapter that plays what it accepts, as a locale, and what follows
  for the whole bypass: whatever the threads do, what is played is the stream that was captured.
\<close>

section \<open>The pipeline seen from the adapter\<close>

fun sink_state :: "'s sink_thread \<Rightarrow> 's" where
  "sink_state (Popping s k) = s"
| "sink_state (Writing s k f) = s"
| "sink_state (SinkEnding s) = s"
| "sink_state (SinkDone s) = s"

text \<open>After \<open>n\<close> frames the session is ready for the frame with the number \<open>n\<close>, or it has ended.\<close>

fun counts_along :: "(nat \<Rightarrow> 's \<Rightarrow> bool) \<Rightarrow> ('s \<Rightarrow> bool) \<Rightarrow> nat \<Rightarrow> 's sink_thread \<Rightarrow> bool" where
  "counts_along ready sound n (Popping s k) \<longleftrightarrow> ready n s \<and> k = of_nat n"
| "counts_along ready sound n (Writing s k f) \<longleftrightarrow> ready n s \<and> k = of_nat n"
| "counts_along ready sound n (SinkEnding s) \<longleftrightarrow> sound s"
| "counts_along ready sound n (SinkDone s) \<longleftrightarrow> sound s"

text \<open>Everything handed over has been played, but perhaps the last frame of a run that failed.\<close>

definition heard_ok ::
  "('s \<Rightarrow> 'h list) \<Rightarrow> 'h list \<Rightarrow> (pcm_samples \<Rightarrow> 'h) \<Rightarrow> ('x, 'i, 's) pipeline \<Rightarrow> bool" where
  "heard_ok heard before sent p \<longleftrightarrow>
     (\<exists>given. heard (sink_state (pp_sink p)) = before @ map sent given
        \<and> (given = pp_written p \<or>
           sink_ended (pp_sink p) \<and> qs_failed (w_queue (pp_world p)) \<and> (\<exists>f. pp_written p = given @ [f])))"

lemma pipeline_step_failed:
  assumes "pipeline_step inp sink role p p'" "qs_failed (w_queue (pp_world p))"
  shows "qs_failed (w_queue (pp_world p'))"
  using assms
proof (cases rule: pipeline_step.cases)
  case (read_packet i packet acc i' packet' acc' frames n w)
  with assms(2) capture_read_world [OF read_packet(3)] show ?thesis by simp
next
  case (read_ends i packet acc i' w)
  from read_ends(3) have "w = pp_world p \<or> (\<exists>e. w = record_failure id e (pp_world p))"
    by (auto simp: capture_read_def split: if_splits prod.splits sum.splits option.splits)
  with read_ends assms(2) show ?thesis by (auto simp: record_failure_world frame_queue_fail_def)
next
  case (capture_ends i i' w)
  then show ?thesis
    using assms(2) by (auto simp: capture_teardown_def finish_queue_def record_failure_world Let_def
        frame_queue_fail_def frame_queue_finish_producer_def split: prod.splits sum.splits if_splits)
next
  case (write_frame s k f s' k' w)
  with assms(2) sink_write_Continue [OF write_frame(3)] show ?thesis by simp
next
  case (write_ends s k f s' w)
  with assms(2) sink_write_Break [OF write_ends(3)] show ?thesis
    by (auto simp: record_failure_world frame_queue_fail_def)
next
  case (sink_ends s s' w)
  then show ?thesis
    using assms(2) by (auto simp: sink_teardown_def record_failure_world Let_def frame_queue_fail_def
        dest!: refresh_world split: prod.splits sum.splits if_splits)
qed (auto simp: frame_queue_push_def pop_frame_def frame_queue_take_def Let_def controlled_def frame_queue_fail_def
    record_failure_world split: if_splits)

lemma in_hand_length:
  assumes "pipeline_ok p" "pp_sink p = Writing s k f"
  shows "length f = FRAME_SAMPLES"
proof -
  from assms have "subseq ((pp_written p @ [f]) @ qs_frames (w_queue (pp_world p))) (pp_emitted p)"
    "stream_inv (pp_packets p) (pp_emitted p) (pp_capture p)"
    by (auto simp: pipeline_ok_def delivers_def)
  then have "subseq ((pp_written p @ [f]) @ qs_frames (w_queue (pp_world p))) (snd (cut_stream (pp_packets p)))"
    using emitted_subseq subseq_order.trans by blast
  then have "f \<in> set (snd (cut_stream (pp_packets p)))"
    using list_emb_set by fastforce
  then show ?thesis by (rule cut_stream_length)
qed

lemma pipeline_step_written:
  "pipeline_step inp sink role p p' \<Longrightarrow> length (pp_written p) \<le> length (pp_written p')"
  by (erule pipeline_step.cases) auto

lemma next_sequence:
  assumes "n < 2 ^ 64 - 1"
  shows "sat_add (of_nat n) 1 = (of_nat (Suc n) :: u64)"
proof -
  have "unat (of_nat n :: u64) = n" using assms by (simp add: unat_of_nat take_bit_nat_eq_self)
  moreover have "unat (of_nat (Suc n) :: u64) = Suc n"
    using assms by (simp only: unat_of_nat) (simp add: take_bit_nat_eq_self)
  ultimately show ?thesis using assms by (simp add: word_unat_eq_iff unat_sat_add del: of_nat_Suc)
qed

section \<open>The contract\<close>

locale playing_adapter =
  fixes sink :: "'s audio_output"
    and heard :: "'s \<Rightarrow> 'h list"
    and sent :: "pcm_samples \<Rightarrow> 'h"
    and ready :: "nat \<Rightarrow> 's \<Rightarrow> bool"
    and sound :: "'s \<Rightarrow> bool"
    and limit :: nat
  assumes few: "limit < 2 ^ 64"
    and ready_sound: "ready n s \<Longrightarrow> sound s"
    and write_failed: "ready n s \<Longrightarrow> Suc n < limit \<Longrightarrow> length f = FRAME_SAMPLES
      \<Longrightarrow> ao_write_frame sink (pcm_frame_new (of_nat n) f) s = (s', Inl e)
      \<Longrightarrow> sound s' \<and> (heard s' = heard s \<or> heard s' = heard s @ [sent f])"
    and write_accepted: "ready n s \<Longrightarrow> Suc n < limit \<Longrightarrow> length f = FRAME_SAMPLES
      \<Longrightarrow> ao_write_frame sink (pcm_frame_new (of_nat n) f) s = (s', Inr a)
      \<Longrightarrow> ready (Suc n) s' \<and> heard s' = heard s @ [sent f]"
    and diagnostics_kept: "ao_diagnostics sink s = (s', d)
      \<Longrightarrow> heard s' = heard s \<and> (ready n s \<longrightarrow> ready n s') \<and> (sound s \<longrightarrow> sound s')"
    and close_kept: "sound s \<Longrightarrow> ao_close_session sink s = (s', c) \<Longrightarrow> heard s' = heard s \<and> sound s'"
begin

lemma refresh_kept:
  "refresh_sink_diagnostics sink others s w = (s', w', r)
    \<Longrightarrow> heard s' = heard s \<and> (ready n s \<longrightarrow> ready n s') \<and> (sound s \<longrightarrow> sound s')"
  using diagnostics_kept [of s] by (auto simp: refresh_sink_diagnostics_def split: prod.splits sum.splits)

lemma write_continues:
  assumes "ready n s" "Suc n < limit" "length f = FRAME_SAMPLES"
    and "sink_write sink (s, of_nat n, f, w) = Continue (s', k', w')"
  shows "ready (Suc n) s' \<and> heard s' = heard s @ [sent f] \<and> k' = of_nat (Suc n)"
proof -
  obtain s1 a where a: "ao_write_frame sink (pcm_frame_new (of_nat n) f) s = (s1, Inr a)"
    using assms(4) by (auto simp: sink_write_def split: prod.splits sum.splits)
  have "n < 2 ^ 64 - 1" using assms(2) few by simp
  from write_accepted [OF assms(1-3) a] next_sequence [OF this] assms(4) a show ?thesis
    by (auto simp: sink_write_def Let_def simp del: of_nat_Suc
        dest: refresh_kept [where n = "Suc n"] split: if_splits prod.splits sum.splits)
qed

lemma write_breaks:
  assumes "ready n s" "Suc n < limit" "length f = FRAME_SAMPLES"
    and "sink_write sink (s, of_nat n, f, w) = Break (s', w')"
  shows "sound s' \<and> (heard s' = heard s \<or> heard s' = heard s @ [sent f]) \<and> w_terminal_failure w'"
proof -
  obtain s1 r where r: "ao_write_frame sink (pcm_frame_new (of_nat n) f) s = (s1, r)" by fastforce
  show ?thesis
  proof (cases r)
    case (Inl e)
    with r write_failed [OF assms(1-3), of s1 e] assms(4) show ?thesis
      by (auto simp: sink_write_def record_failure_world)
  next
    case (Inr a)
    with r write_accepted [OF assms(1-3), of s1 a] assms(4) ready_sound [of "Suc n" s1] show ?thesis
      by (auto simp: sink_write_def Let_def record_failure_world dest: refresh_kept [where n = "Suc n"]
          split: if_splits prod.splits sum.splits)
  qed
qed

lemma teardown_kept:
  assumes "sound s" "sink_teardown sink others s w = (s', w')"
  shows "heard s' = heard s \<and> sound s'"
proof -
  obtain s1 c where c: "ao_close_session sink s = (s1, c)" by fastforce
  from close_kept [OF assms(1) c] assms(2) c show ?thesis
    by (auto simp: sink_teardown_def Let_def dest!: refresh_kept split: prod.splits sum.splits if_splits)
qed

lemma contract_step:
  assumes step: "pipeline_step inp sink role p p'" and ok: "pipeline_ok p"
    and count: "counts_along ready sound (length (pp_written p)) (pp_sink p)" and heard: "heard_ok heard before sent p"
    and room: "length (pp_written p') < limit"
  shows "counts_along ready sound (length (pp_written p')) (pp_sink p') \<and> heard_ok heard before sent p'"
  using step
proof (cases rule: pipeline_step.cases)
  case (write_frame s k f s' k' w)
  have at: "ready (length (pp_written p)) s" "k = of_nat (length (pp_written p))" "Suc (length (pp_written p)) < limit"
    "heard s = before @ map sent (pp_written p)"
    using count heard room write_frame(1,2) by (auto simp: heard_ok_def)
  from write_continues [OF at(1,3) in_hand_length [OF ok write_frame(2)]] write_frame(1,3) at show ?thesis
    by (auto simp: heard_ok_def simp del: of_nat_Suc)
next
  case (write_ends s k f s' w)
  have at: "ready (length (pp_written p)) s" "k = of_nat (length (pp_written p))" "Suc (length (pp_written p)) < limit"
    "heard s = before @ map sent (pp_written p)"
    using count heard room write_ends(1,2) by (auto simp: heard_ok_def)
  from write_breaks [OF at(1,3) in_hand_length [OF ok write_ends(2)]] write_ends(3) at(2) have
    ended: "sound s'" "heard s' = heard s \<or> heard s' = heard s @ [sent f]" "w_terminal_failure w" by auto
  have "qs_failed (w_queue w)"
    using pipeline_step_ok [OF step ok] write_ends(1) ended(3) by (simp add: pipeline_ok_def delivers_def)
  with ended at(4) write_ends(1) show ?thesis
    by (auto simp: heard_ok_def intro: exI [of _ "pp_written p"] exI [of _ "pp_written p @ [f]"])
next
  case (pop_ends s k w)
  with count heard ready_sound show ?thesis by (auto simp: heard_ok_def)
next
  case (sink_ends s s' w)
  from teardown_kept [OF _ sink_ends(3)] count heard sink_ends(1,2) pipeline_step_failed [OF step] show ?thesis
    by (auto simp: heard_ok_def)
qed (use count heard pipeline_step_failed [OF step] in \<open>auto simp: heard_ok_def\<close>)

lemma contract_reached:
  assumes "pipeline_reaches inp sink role (pipeline_start i s w) p"
    and "ready 0 s" "w_queue w = frame_queue_new" "\<not> w_terminal_failure w" "length (pp_written p) < limit"
  shows "counts_along ready sound (length (pp_written p)) (pp_sink p) \<and> heard_ok heard (heard s) sent p"
  using assms(1,5)
proof (induction rule: rtranclp_induct)
  case base
  then show ?case using assms(2) by (simp add: heard_ok_def pipeline_start_def)
next
  case (step p p')
  have "pipeline_ok p" using step.hyps(1) assms(3,4) by (rule pipeline_reaches_ok)
  moreover have "length (pp_written p) < limit"
    using step.prems pipeline_step_written [OF step.hyps(2)] by simp
  ultimately show ?case
    using contract_step [OF step.hyps(2)] step.IH step.prems by blast
qed

text \<open>What is played, in every interleaving.\<close>

theorem plays_the_stream:
  assumes "pipeline_reaches inp sink role (pipeline_start i s w) p"
    and "ready 0 s" "w_queue w = frame_queue_new" "\<not> w_terminal_failure w" "length (pp_written p) < limit"
  shows "\<exists>given. heard (sink_state (pp_sink p)) = heard s @ map sent given
    \<and> subseq given (snd (cut_stream (pp_packets p)))
    \<and> (given = pp_written p \<or> qs_failed (w_queue (pp_world p)) \<and> (\<exists>f. pp_written p = given @ [f]))
    \<and> sound (sink_state (pp_sink p))
    \<and> (pp_capture p = CaptureDone \<and> sink_ended (pp_sink p) \<and> \<not> qs_failed (w_queue (pp_world p))
        \<and> qm_discarded (qs_metrics (w_queue (pp_world p))) = 0 \<and> length (snd (cut_stream (pp_packets p))) < 2 ^ 64
        \<longrightarrow> given = snd (cut_stream (pp_packets p)))"
proof -
  note ok = pipeline_reaches_ok [OF assms(1,3,4)]
  from contract_reached [OF assms] obtain given where
    given: "heard (sink_state (pp_sink p)) = heard s @ map sent given"
      "given = pp_written p \<or> qs_failed (w_queue (pp_world p)) \<and> (\<exists>f. pp_written p = given @ [f])"
    and count: "counts_along ready sound (length (pp_written p)) (pp_sink p)"
    by (auto simp: heard_ok_def)
  have "subseq given (pp_written p)" using given(2) by auto
  then have "subseq given (snd (cut_stream (pp_packets p)))"
    using written_subseq [OF ok] subseq_order.trans by blast
  moreover have "sound (sink_state (pp_sink p))"
    using count ready_sound by (cases "pp_sink p") auto
  ultimately show ?thesis
    using given everything_written [OF ok] by blast
qed

end

end
