(* ===== verification/Ieee_Arith.thy ===== *)
theory Ieee_Arith
  imports Ieee
begin

text \<open>
  The remaining operations of \<^verbatim>\<open>f64\<close> and \<^verbatim>\<open>f32\<close>: addition, subtraction, division, square root,
  the comparisons that skip a NaN, the total order, conversions, and the bytes of a single.  A finite
  result is again the exact result rounded once.  A zero has no sign here: where the code could see the
  sign (in the bytes of a single, in the total order) its zeros are positive or equal zeros are
  interchangeable.
\<close>

section \<open>Arithmetic\<close>

fun fp_neg :: "fp \<Rightarrow> fp" where
  "fp_neg NaN = NaN"
| "fp_neg PInf = NInf"
| "fp_neg NInf = PInf"
| "fp_neg (Fin q) = Fin (- q)"

fun fp_abs :: "fp \<Rightarrow> fp" where
  "fp_abs NaN = NaN"
| "fp_abs PInf = PInf"
| "fp_abs NInf = PInf"
| "fp_abs (Fin q) = Fin \<bar>q\<bar>"

fun fp_add :: "float_format \<Rightarrow> fp \<Rightarrow> fp \<Rightarrow> fp" where
  "fp_add fmt (Fin a) (Fin b) = fp_rounded fmt (a + b)"
| "fp_add fmt NaN _ = NaN"
| "fp_add fmt _ NaN = NaN"
| "fp_add fmt PInf NInf = NaN"
| "fp_add fmt NInf PInf = NaN"
| "fp_add fmt PInf _ = PInf"
| "fp_add fmt _ PInf = PInf"
| "fp_add fmt NInf _ = NInf"
| "fp_add fmt _ NInf = NInf"

definition fp_sub :: "float_format \<Rightarrow> fp \<Rightarrow> fp \<Rightarrow> fp" where
  "fp_sub fmt x y = fp_add fmt x (fp_neg y)"

text \<open>A quotient by zero takes the sign of the dividend: a zero divisor counts as positive.\<close>

fun fp_div :: "float_format \<Rightarrow> fp \<Rightarrow> fp \<Rightarrow> fp" where
  "fp_div fmt (Fin a) (Fin b) =
     (if b \<noteq> 0 then fp_rounded fmt (a / b) else if 0 < a then PInf else if a < 0 then NInf else NaN)"
| "fp_div fmt NaN _ = NaN"
| "fp_div fmt _ NaN = NaN"
| "fp_div fmt (Fin _) _ = Fin 0"
| "fp_div fmt x (Fin b) = (if b < 0 then fp_neg x else x)"
| "fp_div fmt _ _ = NaN"

section \<open>Square root\<close>

fun isqrt :: "nat \<Rightarrow> nat" where
  "isqrt n = (if n = 0 then 0
     else let r = 2 * isqrt (n div 4) in if (r + 1) * (r + 1) \<le> n then r + 1 else r)"

declare isqrt.simps [simp del]

lemma isqrt_correct: "isqrt n * isqrt n \<le> n \<and> n < (isqrt n + 1) * (isqrt n + 1)"
proof (induction n rule: isqrt.induct)
  case (1 n)
  show ?case
  proof (cases "n = 0")
    case False
    let ?r = "isqrt (n div 4)"
    from 1 [OF False] have *: "?r * ?r \<le> n div 4" "n div 4 < (?r + 1) * (?r + 1)" by auto
    have "4 * (n div 4) \<le> n" "n < 4 * (n div 4) + 4" by auto
    with * have "4 * (?r * ?r) \<le> n" "n < 4 * ((?r + 1) * (?r + 1))" by linarith+
    moreover have "isqrt n = (if (2 * ?r + 1) * (2 * ?r + 1) \<le> n then 2 * ?r + 1 else 2 * ?r)"
      using False by (simp add: isqrt.simps [of n] Let_def)
    ultimately show ?thesis by (auto simp: algebra_simps)
  qed (simp add: isqrt.simps)
qed

lemma isqrt_unique:
  assumes "r * r \<le> n" "n < (r + 1) * (r + 1)"
  shows "isqrt n = r"
proof -
  have "isqrt n * isqrt n < (r + 1) * (r + 1)" "r * r < (isqrt n + 1) * (isqrt n + 1)"
    using isqrt_correct [of n] assms by linarith+
  then have "isqrt n < r + 1" "r < isqrt n + 1"
    by (meson mult_le_mono not_less)+
  then show ?thesis by simp
qed

text \<open>
  The exponent of the last place of the root, by comparing squares; then the root in units of the last
  place, rounded to nearest with ties to even.
\<close>

fun root_search :: "nat \<Rightarrow> nat \<Rightarrow> int \<Rightarrow> rat \<Rightarrow> int" where
  "root_search p 0 e q = e"
| "root_search p (Suc k) e q = (if q < 4 powi (int p + e) then e else root_search p k (e + 1) q)"

definition round_root :: "float_format \<Rightarrow> rat \<Rightarrow> rat" where
  "round_root fmt q =
     (let e = root_search (precision fmt) (nat (max_exp fmt - min_exp fmt)) (min_exp fmt) q;
          u = 2 powi e;
          v = q / (u * u);
          f = isqrt (nat \<lfloor>v\<rfloor>);
          m = (of_nat f + 1 / 2) * (of_nat f + 1 / 2);
          n = (if v < m then f else if m < v then f + 1 else if even f then f else f + 1)
      in of_nat n * u)"

fun fp_sqrt :: "float_format \<Rightarrow> fp \<Rightarrow> fp" where
  "fp_sqrt fmt NaN = NaN"
| "fp_sqrt fmt PInf = PInf"
| "fp_sqrt fmt NInf = NaN"
| "fp_sqrt fmt (Fin q) = (if q < 0 then NaN else Fin (round_root fmt q))"

lemma round_root_nonneg: "0 \<le> round_root fmt q"
  by (simp add: round_root_def Let_def)

lemma nearest_root:
  fixes v :: rat
  defines "f \<equiv> isqrt (nat \<lfloor>v\<rfloor>)"
  assumes "0 \<le> v"
  shows "of_nat f * of_nat f \<le> v" "v < (of_nat f + 1) * (of_nat f + 1)"
proof -
  have *: "f * f \<le> nat \<lfloor>v\<rfloor>" "nat \<lfloor>v\<rfloor> < (f + 1) * (f + 1)"
    using isqrt_correct [of "nat \<lfloor>v\<rfloor>"] by (auto simp: f_def)
  have "of_nat (f * f) \<le> (of_nat (nat \<lfloor>v\<rfloor>) :: rat)" using *(1) by (rule of_nat_mono)
  also have "\<dots> \<le> v" using assms(2) by simp
  finally show "of_nat f * of_nat f \<le> v" by simp
  have "v < of_nat (nat \<lfloor>v\<rfloor>) + 1" using assms(2) by simp linarith
  also have "\<dots> \<le> of_nat ((f + 1) * (f + 1))"
    using *(2) by (metis Suc_eq_plus1 Suc_leI of_nat_1 of_nat_add of_nat_le_iff)
  finally show "v < (of_nat f + 1) * (of_nat f + 1)" by (simp add: algebra_simps)
qed

text \<open>The rounded root is within half a unit in the last place of the exact one, stated on the squares.\<close>

lemma round_root_error:
  assumes "0 \<le> q"
  shows "\<exists>u > 0. \<exists>n :: nat. round_root fmt q = of_nat n * u
    \<and> q \<le> ((of_nat n + 1 / 2) * u) * ((of_nat n + 1 / 2) * u)
    \<and> (0 < n \<longrightarrow> ((of_nat n - 1 / 2) * u) * ((of_nat n - 1 / 2) * u) \<le> q)"
proof -
  define u :: rat where
    "u = 2 powi root_search (precision fmt) (nat (max_exp fmt - min_exp fmt)) (min_exp fmt) q"
  define v where "v = q / (u * u)"
  define f where "f = isqrt (nat \<lfloor>v\<rfloor>)"
  define m :: rat where "m = (of_nat f + 1 / 2) * (of_nat f + 1 / 2)"
  define n where "n = (if v < m then f else if m < v then f + 1 else if even f then f else f + 1)"
  have u: "0 < u" by (simp add: u_def)
  have v: "0 \<le> v" using assms by (simp add: v_def)
  have q: "q = v * (u * u)" using u by (simp add: v_def)
  have f: "of_nat f * of_nat f \<le> v" "v < (of_nat f + 1) * (of_nat f + 1)"
    using nearest_root [OF v] by (simp_all add: f_def)
  have up: "v \<le> (of_nat n + 1 / 2) * (of_nat n + 1 / 2)"
  proof (cases "n = f")
    case True
    then have "v \<le> m" by (auto simp: n_def split: if_splits)
    with True show ?thesis by (simp add: m_def)
  next
    case False
    then have "n = f + 1" by (auto simp: n_def split: if_splits)
    with f(2) show ?thesis by (simp add: algebra_simps)
  qed
  have down: "(of_nat n - 1 / 2) * (of_nat n - 1 / 2) \<le> v" if "0 < n"
  proof (cases "n = f")
    case True
    with that have "(1 :: rat) \<le> of_nat f" by simp
    with True f(1) show ?thesis by (simp add: algebra_simps)
  next
    case False
    then have "n = f + 1" "m \<le> v" by (auto simp: n_def split: if_splits)
    then show ?thesis by (simp add: m_def algebra_simps)
  qed
  have "round_root fmt q = of_nat n * u"
    by (simp add: round_root_def Let_def n_def m_def f_def v_def u_def)
  moreover have "q \<le> ((of_nat n + 1 / 2) * u) * ((of_nat n + 1 / 2) * u)"
    using mult_right_mono [OF up, of "u * u"] u by (simp add: q mult_ac)
  moreover have "((of_nat n - 1 / 2) * u) * ((of_nat n - 1 / 2) * u) \<le> q" if "0 < n"
    using mult_right_mono [OF down [OF that], of "u * u"] u by (simp add: q mult_ac)
  ultimately show ?thesis using u by blast
qed

section \<open>Comparisons and conversions\<close>

text \<open>\<^verbatim>\<open>f64::min\<close> and \<^verbatim>\<open>f64::max\<close> return the other argument when one is a NaN.\<close>

definition fp_min :: "fp \<Rightarrow> fp \<Rightarrow> fp" where
  "fp_min x y = (if x = NaN then y else if y = NaN then x else if fp_less y x then y else x)"

definition fp_max :: "fp \<Rightarrow> fp \<Rightarrow> fp" where
  "fp_max x y = (if x = NaN then y else if y = NaN then x else if fp_less x y then y else x)"

fun fp_value :: "fp \<Rightarrow> rat" where
  "fp_value (Fin q) = q"
| "fp_value _ = 0"

definition fp_of_nat :: "float_format \<Rightarrow> nat \<Rightarrow> fp" where
  "fp_of_nat fmt n = fp_rounded fmt (of_nat n)"

definition fp_of_int :: "float_format \<Rightarrow> int \<Rightarrow> fp" where
  "fp_of_int fmt n = fp_rounded fmt (of_int n)"

fun fp_ceil :: "fp \<Rightarrow> fp" where
  "fp_ceil (Fin q) = Fin (of_int \<lceil>q\<rceil>)"
| "fp_ceil x = x"

fun fp_to_unsigned :: "nat \<Rightarrow> fp \<Rightarrow> nat" where
  "fp_to_unsigned w NaN = 0"
| "fp_to_unsigned w PInf = 2 ^ w - 1"
| "fp_to_unsigned w NInf = 0"
| "fp_to_unsigned w (Fin q) = min (2 ^ w - 1) (nat (truncate q))"

text \<open>\<^verbatim>\<open>x as f32\<close>.\<close>

fun fp_to_single :: "fp \<Rightarrow> fp" where
  "fp_to_single (Fin q) = fp_rounded Binary32 q"
| "fp_to_single x = x"

text \<open>
  \<^verbatim>\<open>f64::midpoint\<close>: the mean, halving first when the sum could overflow; an argument whose half would be
  subnormal is then added whole.
\<close>

definition fp_midpoint :: "fp \<Rightarrow> fp \<Rightarrow> fp" where
  "fp_midpoint a b =
     (let lo = Fin (2 powi (- 1021)); hi = fp_div Binary64 (Fin (max_finite Binary64)) (Fin 2) in
      if fp_le (fp_abs a) hi \<and> fp_le (fp_abs b) hi
      then fp_div Binary64 (fp_add Binary64 a b) (Fin 2)
      else if fp_less (fp_abs a) lo then fp_add Binary64 a (fp_div Binary64 b (Fin 2))
      else if fp_less (fp_abs b) lo then fp_add Binary64 (fp_div Binary64 a (Fin 2)) b
      else fp_add Binary64 (fp_div Binary64 a (Fin 2)) (fp_div Binary64 b (Fin 2)))"

text \<open>The bits of a single: sign, biased exponent and fraction.  A quiet NaN stands for every NaN.\<close>

fun single_bits :: "fp \<Rightarrow> u32" where
  "single_bits NaN = 0x7FC00000"
| "single_bits PInf = 0x7F800000"
| "single_bits NInf = 0xFF800000"
| "single_bits (Fin q) =
     (let e = last_place Binary32 q; m = nat \<lfloor>\<bar>q\<bar> / 2 powi e\<rfloor>
      in (if q < 0 then 0x80000000 else 0) + of_nat (nat (e + 149) * 2 ^ 23 + m))"

definition le_bytes :: "nat \<Rightarrow> nat \<Rightarrow> u8 list" where
  "le_bytes k n = map (\<lambda>i. of_nat (n div 2 ^ (8 * i) mod 256)) [0..<k]"

lemma length_le_bytes [simp]: "length (le_bytes k n) = k"
  by (simp add: le_bytes_def)

lemma last_place_eq:
  assumes "2 powi (int (precision fmt) + e - 1) \<le> \<bar>q\<bar>" "\<bar>q\<bar> < 2 powi (int (precision fmt) + e)"
    and "min_exp fmt \<le> e" "e \<le> max_exp fmt"
  shows "last_place fmt q = e"
proof (rule antisym)
  show "last_place fmt q \<le> e"
  proof (rule ccontr)
    assume "\<not> last_place fmt q \<le> e"
    then have "2 powi (int (precision fmt) + last_place fmt q - 1) \<le> \<bar>q\<bar>"
      using assms(3) by (intro last_place_lower) simp
    moreover have "(2 powi (int (precision fmt) + e) :: rat) \<le> 2 powi (int (precision fmt) + last_place fmt q - 1)"
      using \<open>\<not> last_place fmt q \<le> e\<close> by (intro power_int_increasing) simp_all
    ultimately show False using assms(2) by linarith
  qed
  show "e \<le> last_place fmt q"
  proof (rule ccontr)
    assume less: "\<not> e \<le> last_place fmt q"
    have "(2 powi (int (precision fmt) + e) :: rat) \<le> 2 powi (int (precision fmt) + max_exp fmt)"
      using assms(4) by (intro power_int_increasing) simp_all
    then have "\<bar>q\<bar> < 2 powi (int (precision fmt) + last_place fmt q)"
      using assms(2) by (intro last_place_upper) linarith
    moreover have "(2 powi (int (precision fmt) + last_place fmt q) :: rat) \<le> 2 powi (int (precision fmt) + e - 1)"
      using less by (intro power_int_increasing) simp_all
    ultimately show False using assms(1) by linarith
  qed
qed

lemma fp_of_nat_exact: "n \<le> 2 ^ precision fmt \<Longrightarrow> fp_of_nat fmt n = Fin (of_nat n)"
  using fp_rounded_finite [of "of_nat n" "int n" fmt] round_value_of_int [of "int n" fmt]
  by (simp add: fp_of_nat_def)

lemma fp_of_int_exact: "\<bar>n\<bar> \<le> 2 ^ precision fmt \<Longrightarrow> fp_of_int fmt n = Fin (of_int n)"
  using fp_rounded_finite [of "of_int n" "\<bar>n\<bar>" fmt] round_value_of_int [of n fmt]
  by (simp add: fp_of_int_def)

end
