(* ===== verification/Windows_Format.thy ===== *)
theory Windows_Format
  imports Output_Contract Ieee_Arith
begin

text \<open>
  The conversion of a PCM frame to the mix format of the render endpoint, \<^verbatim>\<open>FrameConverter\<close> in
  \<^verbatim>\<open>crates/mini-aec-windows-output/src/lib.rs\<close>: linear resampling of the 480 samples to 10 ms of the
  endpoint's rate, the same sample in every channel, in the endpoint's representation.  A panic is \<open>None\<close>.
  The \<^verbatim>\<open>wasapi\<close> crate is not code of the repository: of its errors and of its wave format only what the code
  reads is kept.
\<close>

section \<open>Errors of the audio library\<close>

datatype wasapi_error_kind =
    DeviceNotFound | IllegalDeviceState | EventTimeout | UnsupportedFormat | WindowsCode u32 | OtherWasapi

record wasapi_error =
  we_kind :: wasapi_error_kind
  we_text :: message

definition output_error_kind_of :: "wasapi_error_kind \<Rightarrow> output_error_kind" where
  "output_error_kind_of k =
     (case k of
        DeviceNotFound \<Rightarrow> OK_PrerequisiteMissing
      | IllegalDeviceState \<Rightarrow> OK_PrerequisiteMissing
      | WindowsCode code \<Rightarrow>
          if code = 0x80070005 then OK_AccessDenied
          else if code = 0x88890004 \<or> code = 0x88890026 \<or> code = 0x8007048F then OK_DeviceInvalidated
          else OK_RenderFailure
      | UnsupportedFormat \<Rightarrow> OK_InvalidFormat
      | _ \<Rightarrow> OK_RenderFailure)"

definition wasapi_output_error :: "string \<Rightarrow> wasapi_error \<Rightarrow> output_error" where
  "wasapi_output_error operation e =
     output_error_new (output_error_kind_of (we_kind e))
       (Pieces [Text ''failed to '', Text operation, Text '': '', we_text e])"

section \<open>The converter\<close>

record wave_format =
  wf_samplespersec :: u32
  wf_nchannels :: u16
  wf_bitspersample :: u16
  wf_subformat :: "wasapi_error + output_sample_type"

record frame_converter =
  fc_format :: output_format
  fc_output_frames :: u32
  fc_bytes :: "u8 list"
  fc_requires_conversion :: bool

definition supported_representation :: "output_sample_type \<Rightarrow> u16 \<Rightarrow> bool" where
  "supported_representation ty bits \<longleftrightarrow>
     (case ty of Float \<Rightarrow> bits = 32 | Integer \<Rightarrow> bits = 16 \<or> bits = 24 \<or> bits = 32)"

definition sample_type_text :: "output_sample_type \<Rightarrow> string" where
  "sample_type_text ty = (case ty of Integer \<Rightarrow> ''Integer'' | Float \<Rightarrow> ''Float'')"

definition frame_converter_new :: "wave_format \<Rightarrow> output_error + frame_converter" where
  "frame_converter_new format =
     (let rate = wf_samplespersec format; channels = wf_nchannels format;
          bits = wf_bitspersample format in
      res_bind (map_err (wasapi_output_error ''read output sample type'') (wf_subformat format)) (\<lambda>ty.
        if rate = 0 \<or> rate mod 100 \<noteq> 0 \<or> channels = 0 \<or> 8 < channels
        then Inl (output_error_new OK_InvalidFormat
               (Pieces [Text ''unsupported output mix format: '', Number (unat rate), Text '' Hz, '',
                  Number (unat channels), Text '' channels'']))
        else if \<not> supported_representation ty bits
        then Inl (output_error_new OK_InvalidFormat
               (Pieces [Text ''unsupported output sample representation: '', Text (sample_type_text ty),
                  Text '' '', Number (unat bits), Text ''-bit'']))
        else let frames = rate div 100 in
          Inr \<lparr>fc_format = \<lparr>of_sample_rate_hz = rate, of_channels = channels,
                    of_bits_per_sample = bits, of_sample_type = ty\<rparr>,
                fc_output_frames = frames,
                fc_bytes = replicate (unat frames * unat channels * unat (bits div 8)) 0,
                fc_requires_conversion =
                  (rate \<noteq> 48000 \<or> channels \<noteq> 1 \<or> bits \<noteq> 16 \<or> ty \<noteq> Integer)\<rparr>))"

definition frame_converter_clear :: "frame_converter \<Rightarrow> frame_converter" where
  "frame_converter_clear c = c\<lparr>fc_bytes := replicate (length (fc_bytes c)) 0\<rparr>"

section \<open>One sample\<close>

definition signed_bytes :: "nat \<Rightarrow> int \<Rightarrow> u8 list" where
  "signed_bytes k n = le_bytes k (unat (word_of_int n :: u32))"

text \<open>\<^verbatim>\<open>encode_sample\<close> into a slice of the given length.\<close>

definition encode_sample :: "fp \<Rightarrow> output_format \<Rightarrow> nat \<Rightarrow> u8 list option" where
  "encode_sample sample format n =
     (let normalized = fp_clamp (fp_div Binary64 sample (Fin 32767)) (Fin (- 1)) (Fin 1);
          copy = (\<lambda>bytes. if length bytes = n then Some bytes else None) in
      if of_sample_type format = Float \<and> of_bits_per_sample format = 32
      then copy (le_bytes 4 (unat (single_bits (fp_to_single normalized))))
      else if of_sample_type format = Integer \<and> of_bits_per_sample format = 16
      then copy (signed_bytes 2 (fp_to_signed 16
             (fp_clamp (fp_round sample) (Fin (- 32768)) (Fin 32767))))
      else if of_sample_type format = Integer \<and> of_bits_per_sample format = 24
      then copy (signed_bytes 3 (fp_to_signed 32
             (fp_clamp (fp_round (fp_mul Binary64 normalized (Fin 8388607)))
               (Fin (- 8388608)) (Fin 8388607))))
      else if of_sample_type format = Integer \<and> of_bits_per_sample format = 32
      then copy (signed_bytes 4 (fp_to_signed 32
             (fp_clamp (fp_round (fp_mul Binary64 normalized (Fin 2147483647)))
               (Fin (- 2147483648)) (Fin 2147483647))))
      else None)"

text \<open>The sample at one position of the output; \<^verbatim>\<open>input[left]\<close> and \<^verbatim>\<open>input[right]\<close> may be out of range.\<close>

definition resample_at :: "pcm_samples \<Rightarrow> nat \<Rightarrow> nat \<Rightarrow> fp option" where
  "resample_at input frames i =
     (let numerator = i * FRAME_SAMPLES;
          left = numerator div frames;
          remainder = numerator mod frames;
          right = min (left + 1) (FRAME_SAMPLES - 1) in
      if left < length input \<and> right < length input
      then let left_sample = Fin (of_int (sint (input ! left))) in
        Some (fp_add Binary64 left_sample
          (fp_div Binary64
            (fp_mul Binary64 (fp_sub Binary64 (Fin (of_int (sint (input ! right)))) left_sample)
              (fp_of_nat Binary64 remainder))
            (fp_of_nat Binary64 frames)))
      else None)"

definition write_slice :: "nat \<Rightarrow> 'a list \<Rightarrow> 'a list \<Rightarrow> 'a list option" where
  "write_slice offset xs bytes =
     (if offset + length xs \<le> length bytes
      then Some (take offset bytes @ xs @ drop (offset + length xs) bytes) else None)"

section \<open>A whole frame\<close>

definition frame_converter_convert :: "pcm_samples \<Rightarrow> frame_converter \<Rightarrow> frame_converter option" where
  "frame_converter_convert input c =
     (let frames = unat (fc_output_frames c);
          channels = unat (of_channels (fc_format c));
          bytes_per_sample = unat (of_bits_per_sample (fc_format c) div 8) in
      map_option (\<lambda>bytes. c\<lparr>fc_bytes := bytes\<rparr>)
        (fold_opt (\<lambda>output_index bytes.
           case resample_at input frames output_index of None \<Rightarrow> None
           | Some sample \<Rightarrow>
               fold_opt (\<lambda>channel bytes.
                 let offset = (output_index * channels + channel) * bytes_per_sample in
                 case encode_sample sample (fc_format c) bytes_per_sample of None \<Rightarrow> None
                 | Some encoded \<Rightarrow> write_slice offset encoded bytes) [0..<channels] bytes)
           [0..<frames] (fc_bytes c)))"

section \<open>Writing blocks in order\<close>

lemma write_slice_nil [simp]: "b \<le> length bytes \<Longrightarrow> write_slice b [] bytes = Some bytes"
  by (simp add: write_slice_def)

lemma write_slice_append:
  assumes "b + length xs + length ys \<le> length bytes"
  shows "(case write_slice b xs bytes of None \<Rightarrow> None
          | Some bytes' \<Rightarrow> write_slice (b + length xs) ys bytes') = write_slice b (xs @ ys) bytes"
  using assms by (simp add: write_slice_def ac_simps)

text \<open>A loop that writes block after block writes the concatenation of the blocks.\<close>

lemma fold_write_blocks:
  assumes "\<And>i. i < n \<Longrightarrow> length (e i) = k" and "b + n * k \<le> length bytes"
  shows "fold_opt (\<lambda>i. write_slice (b + i * k) (e i)) [0..<n] bytes
    = write_slice b (concat (map e [0..<n])) bytes"
  using assms
proof (induction n)
  case (Suc n)
  have len: "length (concat (map e [0..<n])) = n * k"
    using Suc.prems(1) by (induction n) (simp_all add: algebra_simps)
  have "fold_opt (\<lambda>i. write_slice (b + i * k) (e i)) [0..<n] bytes
      = write_slice b (concat (map e [0..<n])) bytes"
    using Suc by simp
  then show ?case
    using write_slice_append [of b "concat (map e [0..<n])" "e n" bytes] Suc.prems len
    by (auto simp: fold_opt_append split: option.splits)
qed simp

section \<open>Encoding never fails on a negotiated format\<close>

definition converter_ok :: "frame_converter \<Rightarrow> bool" where
  "converter_ok c \<longleftrightarrow>
     supported_representation (of_sample_type (fc_format c)) (of_bits_per_sample (fc_format c))
   \<and> 0 < fc_output_frames c \<and> 0 < of_channels (fc_format c) \<and> of_channels (fc_format c) \<le> 8
   \<and> of_sample_rate_hz (fc_format c) = 100 * fc_output_frames c
   \<and> unat (fc_output_frames c) * 100 = unat (of_sample_rate_hz (fc_format c))
   \<and> length (fc_bytes c) = unat (fc_output_frames c) * unat (of_channels (fc_format c))
       * unat (of_bits_per_sample (fc_format c) div 8)"

definition sample_bytes :: "output_format \<Rightarrow> fp \<Rightarrow> u8 list" where
  "sample_bytes format sample =
     the (encode_sample sample format (unat (of_bits_per_sample format div 8)))"

lemma encode_sample_total:
  assumes "supported_representation (of_sample_type format) (of_bits_per_sample format)"
  defines "k \<equiv> unat (of_bits_per_sample format div 8)"
  shows "encode_sample sample format k = Some (sample_bytes format sample)"
    "length (sample_bytes format sample) = k"
  using assms
  by (auto simp: encode_sample_def sample_bytes_def supported_representation_def signed_bytes_def
      Let_def split: output_sample_type.splits)

section \<open>Linear interpolation\<close>

definition interpolate :: "pcm_samples \<Rightarrow> nat \<Rightarrow> nat \<Rightarrow> fp" where
  "interpolate input frames i = the (resample_at input frames i)"

lemma resample_at_total:
  assumes "length input = FRAME_SAMPLES" "i < frames"
  shows "resample_at input frames i = Some (interpolate input frames i)"
proof -
  have "i * 480 < frames * 480" using assms(2) by simp
  then have "i * FRAME_SAMPLES div frames < FRAME_SAMPLES"
    by (simp add: FRAME_SAMPLES_def less_mult_imp_div_less mult.commute)
  then show ?thesis
    using assms(1) by (simp add: interpolate_def resample_at_def Let_def FRAME_SAMPLES_def)
qed

lemma fp_rounded_between:
  assumes "of_int a \<le> q" "q \<le> of_int b" "\<bar>a\<bar> \<le> 2 ^ 32" "\<bar>b\<bar> \<le> (2 ^ 32 :: int)"
  shows "\<exists>v. fp_rounded Binary64 q = Fin v \<and> of_int a \<le> v \<and> v \<le> of_int b"
proof -
  have big: "(2 ^ 32 :: int) \<le> 2 ^ precision Binary64" by simp
  have "rat_of_int (- (2 ^ 32)) \<le> of_int a" "rat_of_int b \<le> of_int (2 ^ 32)"
    using assms(3,4) unfolding of_int_le_iff by linarith+
  then have "\<bar>q\<bar> \<le> of_int (2 ^ 32)"
    using assms(1,2) unfolding of_int_minus abs_le_iff by linarith
  then have "fp_rounded Binary64 q = Fin (round_value Binary64 q)"
    by (rule fp_rounded_finite) simp
  with round_value_between [of a q b Binary64] assms big show ?thesis by fastforce
qed

lemma sint_i16_bounds: "- 32768 \<le> sint (x :: i16)" "sint (x :: i16) \<le> 32767"
  using sint_ge [of x] sint_lt [of x] by simp_all

lemma fraction_between:
  assumes "m < f"
  shows "of_int (min 0 d) \<le> of_int (d * int m) / (of_nat f :: rat)"
    "of_int (d * int m) / (of_nat f :: rat) \<le> of_int (max 0 d)"
proof -
  have f: "0 < (of_nat f :: rat)" using assms by simp
  have "min 0 d * int f \<le> d * int m \<and> d * int m \<le> max 0 d * int f"
  proof (cases "0 \<le> d")
    case True
    then show ?thesis using assms by (simp add: mult_left_mono)
  next
    case False
    then have "d * int f \<le> d * int m" using assms by (intro mult_left_mono_neg) simp_all
    with False show ?thesis by (simp add: mult_nonpos_nonneg)
  qed
  then have "rat_of_int (min 0 d * int f) \<le> of_int (d * int m)"
    "rat_of_int (d * int m) \<le> of_int (max 0 d * int f)"
    unfolding of_int_le_iff by blast+
  then show "of_int (min 0 d) \<le> of_int (d * int m) / (of_nat f :: rat)"
    "of_int (d * int m) / (of_nat f :: rat) \<le> of_int (max 0 d)"
    using f by (simp_all add: pos_le_divide_eq pos_divide_le_eq)
qed

text \<open>
  The arithmetic of one interpolated sample between two levels: the differences and the product are exact,
  the quotient and the final sum are rounded, and neither leaves the interval.
\<close>

lemma interpolation_arith:
  assumes "\<bar>l\<bar> \<le> 32768" "\<bar>r\<bar> \<le> 32768" "m < f" "f < 2 ^ 32"
  shows "\<exists>v. fp_add Binary64 (Fin (of_int l))
      (fp_div Binary64
        (fp_mul Binary64 (fp_sub Binary64 (Fin (of_int r)) (Fin (of_int l))) (fp_of_nat Binary64 m))
        (fp_of_nat Binary64 f)) = Fin v
    \<and> of_int (min l r) \<le> v \<and> v \<le> of_int (max l r) \<and> (m = 0 \<longrightarrow> v = of_int l)"
proof -
  define d where "d = r - l"
  have d: "\<bar>d\<bar> \<le> 2 ^ 17" using assms(1,2) by (simp add: d_def)
  have sub: "fp_sub Binary64 (Fin (of_int r)) (Fin (of_int l)) = Fin (of_int d)"
    using fp_of_int_exact [of d Binary64] d by (simp add: fp_sub_def fp_of_int_def d_def)
  have nat: "fp_of_nat Binary64 m = Fin (of_nat m)" "fp_of_nat Binary64 f = Fin (of_nat f)"
    using assms(3,4) by (simp_all add: fp_of_nat_exact)
  have "\<bar>d\<bar> * int m \<le> 2 ^ 17 * 2 ^ 32"
    using d assms(3,4) by (intro mult_mono) auto
  then have "\<bar>d * int m\<bar> \<le> 2 ^ precision Binary64" by (simp add: abs_mult)
  from fp_of_int_exact [OF this]
  have mul: "fp_mul Binary64 (Fin (of_int d)) (Fin (of_nat m)) = Fin (of_int (d * int m))"
    by (simp add: fp_mul_def fp_of_int_def)
  define t where "t = of_int (d * int m) / (of_nat f :: rat)"
  have t: "of_int (min 0 d) \<le> t" "t \<le> of_int (max 0 d)"
    using fraction_between [OF assms(3)] by (simp_all only: t_def)
  have "\<exists>y. fp_rounded Binary64 t = Fin y \<and> of_int (min 0 d) \<le> y \<and> y \<le> of_int (max 0 d)"
    using d by (intro fp_rounded_between [OF t]) auto
  then obtain y where y: "fp_rounded Binary64 t = Fin y" "of_int (min 0 d) \<le> y" "y \<le> of_int (max 0 d)"
    by blast
  have between: "of_int (min l r) \<le> of_int l + y" "of_int l + y \<le> of_int (max l r)"
    using y(2,3) by (auto simp: d_def min_def max_def split: if_splits)
  have "\<exists>v. fp_rounded Binary64 (of_int l + y) = Fin v \<and> of_int (min l r) \<le> v \<and> v \<le> of_int (max l r)"
    using assms(1,2) by (intro fp_rounded_between [OF between]) auto
  then obtain v where v: "fp_rounded Binary64 (of_int l + y) = Fin v" "of_int (min l r) \<le> v"
      "v \<le> of_int (max l r)" by blast
  have "v = of_int l" if "m = 0"
  proof -
    have "y = 0" using that y(1) by (simp add: t_def fp_rounded_def Let_def max_finite_def)
    then show ?thesis
      using v(1) fp_of_int_exact [of l Binary64] assms(1) by (simp add: fp_of_int_def)
  qed
  moreover have "fp_div Binary64 (Fin (of_int (d * int m))) (Fin (of_nat f)) = Fin y"
    using y(1) assms(3) by (simp add: t_def)
  ultimately show ?thesis
    using v by (auto simp: sub nat mul)
qed

lemma abs_sint_i16: "\<bar>sint (x :: i16)\<bar> \<le> 32768"
  using sint_i16_bounds [of x] by (simp add: abs_le_iff)

text \<open>
  An interpolated sample lies between its two neighbours, so resampling never overshoots, and at a
  position without remainder it is the sample itself.
\<close>

lemma interpolate_between:
  assumes "length input = FRAME_SAMPLES" "i < frames" "frames < 2 ^ 32"
  defines "l \<equiv> sint (input ! (i * FRAME_SAMPLES div frames))"
    and "r \<equiv> sint (input ! min (i * FRAME_SAMPLES div frames + 1) (FRAME_SAMPLES - 1))"
  shows "\<exists>v. interpolate input frames i = Fin v \<and> of_int (min l r) \<le> v \<and> v \<le> of_int (max l r)
    \<and> (i * FRAME_SAMPLES mod frames = 0 \<longrightarrow> v = of_int l)"
proof -
  have "\<bar>l\<bar> \<le> 32768" "\<bar>r\<bar> \<le> 32768"
    unfolding l_def r_def by (rule abs_sint_i16)+
  from interpolation_arith [OF this _ assms(3), of "i * FRAME_SAMPLES mod frames"]
  obtain v where v: "fp_add Binary64 (Fin (of_int l))
      (fp_div Binary64
        (fp_mul Binary64 (fp_sub Binary64 (Fin (of_int r)) (Fin (of_int l)))
          (fp_of_nat Binary64 (i * FRAME_SAMPLES mod frames)))
        (fp_of_nat Binary64 frames)) = Fin v"
    "of_int (min l r) \<le> v" "v \<le> of_int (max l r)" "i * FRAME_SAMPLES mod frames = 0 \<longrightarrow> v = of_int l"
    using assms(2) by auto
  have "Some (interpolate input frames i) = Some (Fin v)"
    using resample_at_total [OF assms(1,2)] v(1)
    by (simp add: resample_at_def Let_def l_def r_def split: if_splits)
  with v show ?thesis by auto
qed

section \<open>What the converter guarantees\<close>

lemma frame_converter_new_ok: "frame_converter_new format = Inr c \<Longrightarrow> converter_ok c"
proof -
  assume new: "frame_converter_new format = Inr c"
  define rate where "rate = wf_samplespersec format"
  define channels where "channels = wf_nchannels format"
  from new have rate: "rate \<noteq> 0" "rate mod 100 = 0" and channels: "channels \<noteq> 0" "\<not> 8 < channels"
    and c: "fc_output_frames c = rate div 100" "of_sample_rate_hz (fc_format c) = rate"
      "of_channels (fc_format c) = channels"
      "supported_representation (of_sample_type (fc_format c)) (of_bits_per_sample (fc_format c))"
      "length (fc_bytes c) = unat (rate div 100) * unat channels
         * unat (of_bits_per_sample (fc_format c) div 8)"
    by (auto simp: frame_converter_new_def Let_def res_bind_eq_Inr rate_def channels_def split: if_splits)
  have split: "rate = 100 * (rate div 100)"
    using word_mod_div_equality [of rate 100] rate(2) by (simp add: mult.commute)
  have mod0: "unat rate mod 100 = 0"
    using rate(2) unat_mod [of rate 100] by simp
  have "unat (rate div 100) * 100 = unat rate"
    unfolding unat_div using mod0 by simp presburger
  moreover have "rate div 100 \<noteq> 0" using split rate(1) by auto
  ultimately show ?thesis
    using split channels c by (simp add: converter_ok_def word_gt_0 not_less)
qed

definition converted_frame :: "output_format \<Rightarrow> nat \<Rightarrow> pcm_samples \<Rightarrow> u8 list" where
  "converted_frame format frames input =
     concat (map (\<lambda>i. concat (replicate (unat (of_channels format))
                        (sample_bytes format (interpolate input frames i)))) [0..<frames])"

lemma write_slice_length: "write_slice b xs bytes = Some bytes' \<Longrightarrow> length bytes' = length bytes"
  by (auto simp: write_slice_def split: if_splits)

lemma length_blocks:
  assumes "\<And>i. i < n \<Longrightarrow> length (e i) = k"
  shows "length (concat (map e [0..<n])) = n * k"
  using assms by (induction n) (simp_all add: algebra_simps)

lemma write_slice_all: "length xs = length bytes \<Longrightarrow> write_slice 0 xs bytes = Some xs"
  by (simp add: write_slice_def)

lemma concat_map_const: "concat (map (\<lambda>_. xs) [0..<n]) = concat (replicate n xs)"
  by (simp add: map_replicate_const)

lemma channels_written:
  fixes C k :: nat
  assumes "supported_representation (of_sample_type format) (of_bits_per_sample format)"
    and "k = unat (of_bits_per_sample format div 8)" "i < frames"
    and "length bytes = frames * C * k"
  shows "fold_opt (\<lambda>channel bytes.
       let offset = (i * C + channel) * k in
       case encode_sample sample format k of None \<Rightarrow> None
       | Some encoded \<Rightarrow> write_slice offset encoded bytes) [0..<C] bytes
    = write_slice (0 + i * (C * k)) (concat (replicate C (sample_bytes format sample))) bytes"
proof -
  have e: "encode_sample sample format k = Some (sample_bytes format sample)"
    "length (sample_bytes format sample) = k"
    using encode_sample_total [OF assms(1), of sample] assms(2) by simp_all
  have "(i + 1) * (C * k) \<le> frames * (C * k)" using assms(3) by (intro mult_le_mono1) simp
  then have room: "i * (C * k) + C * k \<le> length bytes" using assms(4) by (simp add: algebra_simps)
  have "fold_opt (\<lambda>channel. write_slice (i * (C * k) + channel * k) (sample_bytes format sample))
      [0..<C] bytes
    = write_slice (i * (C * k)) (concat (map (\<lambda>_. sample_bytes format sample) [0..<C])) bytes"
    using e(2) room by (intro fold_write_blocks) simp_all
  then show ?thesis by (simp add: e(1) Let_def algebra_simps map_replicate_const)
qed

lemma convert_converter_ok:
  assumes "converter_ok c" "length input = FRAME_SAMPLES"
  shows "frame_converter_convert input c
    = Some (c\<lparr>fc_bytes := converted_frame (fc_format c) (unat (fc_output_frames c)) input\<rparr>)"
proof -
  define frames where "frames = unat (fc_output_frames c)"
  define C where "C = unat (of_channels (fc_format c))"
  define k where "k = unat (of_bits_per_sample (fc_format c) div 8)"
  define block where
    "block i = concat (replicate C (sample_bytes (fc_format c) (interpolate input frames i)))" for i
  let ?step = "\<lambda>i bytes. case resample_at input frames i of None \<Rightarrow> None
     | Some sample \<Rightarrow> fold_opt (\<lambda>channel bytes.
         let offset = (i * C + channel) * k in
         case encode_sample sample (fc_format c) k of None \<Rightarrow> None
         | Some encoded \<Rightarrow> write_slice offset encoded bytes) [0..<C] bytes"
  have rep: "supported_representation (of_sample_type (fc_format c)) (of_bits_per_sample (fc_format c))"
    and len: "length (fc_bytes c) = frames * C * k"
    using assms(1) by (simp_all add: converter_ok_def frames_def C_def k_def)
  have block: "length (block i) = C * k" for i
    using encode_sample_total(2) [OF rep] by (simp add: block_def k_def length_concat sum_list_replicate)
  have "fold_opt ?step [0..<frames] (fc_bytes c)
      = fold_opt (\<lambda>i. write_slice (0 + i * (C * k)) (block i)) [0..<frames] (fc_bytes c)"
    using len channels_written [OF rep k_def] resample_at_total [OF assms(2)]
    by (intro fold_opt_cong [where I = "\<lambda>bytes. length bytes = frames * C * k"])
      (auto simp: block_def dest: write_slice_length)
  also have "\<dots> = write_slice 0 (concat (map block [0..<frames])) (fc_bytes c)"
    using block len by (intro fold_write_blocks) (simp_all add: mult.assoc)
  also have "\<dots> = Some (concat (map block [0..<frames]))"
    using length_blocks [of frames block "C * k"] block len by (intro write_slice_all) (simp add: mult.assoc)
  finally have "fold_opt ?step [0..<frames] (fc_bytes c) = Some (concat (map block [0..<frames]))" .
  then show ?thesis
    unfolding frame_converter_convert_def converted_frame_def Let_def frames_def C_def k_def block_def
    by (simp only: option.map)
qed

text \<open>C27
  A converter for any accepted mix format never panics, whatever is left in its buffer: it fills the buffer
  exactly with the interpolated samples in order, each repeated for every channel in the format's
  representation, and changes nothing else.\<close>

theorem frame_converter_convert_spec:
  assumes "frame_converter_new format = Inr c" "length input = FRAME_SAMPLES"
    "length bytes = length (fc_bytes c)"
  shows "frame_converter_convert input (c\<lparr>fc_bytes := bytes\<rparr>)
    = Some (c\<lparr>fc_bytes := converted_frame (fc_format c) (unat (fc_output_frames c)) input\<rparr>)"
  using convert_converter_ok [of "c\<lparr>fc_bytes := bytes\<rparr>" input] frame_converter_new_ok [OF assms(1)]
    assms(2,3)
  by (simp add: converter_ok_def)

section \<open>Reading 16-bit frames back\<close>

text \<open>What a client that records the endpoint decodes from a buffer of 16-bit samples.\<close>

fun pcm16_of_bytes :: "u8 list \<Rightarrow> i16 list" where
  "pcm16_of_bytes (lo # hi # bytes) =
     of_nat (unat lo + 256 * unat hi) # pcm16_of_bytes bytes"
| "pcm16_of_bytes _ = []"

lemma pcm16_of_bytes_signed:
  "pcm16_of_bytes (signed_bytes 2 n @ bytes) = word_of_int n # pcm16_of_bytes bytes"
proof -
  define m where "m = unat (word_of_int n :: u32)"
  have m: "int m = n mod 2 ^ 32"
    by (simp add: m_def unsigned_of_int take_bit_eq_mod)
  have "unat (of_nat (m mod 256) :: u8) = m mod 256"
    "unat (of_nat (m div 256 mod 256) :: u8) = m div 256 mod 256"
    by (simp_all add: unat_of_nat_small)
  moreover have "m mod 256 + 256 * (m div 256 mod 256) = m mod 65536"
    using mod_mult2_eq [of m 256 256] by simp
  moreover have "(of_nat (m mod 65536) :: i16) = word_of_int n"
  proof -
    have "n mod 2 ^ 32 mod 2 ^ 16 = n mod 2 ^ 16" by (intro mod_mod_cancel) simp
    then have "int (m mod 65536) mod 2 ^ 16 = n mod 2 ^ 16" using m by (simp add: zmod_int)
    then have "(word_of_int (int (m mod 65536)) :: i16) = word_of_int n"
      by (simp add: word_of_int_eq_iff take_bit_eq_mod)
    then show ?thesis by simp
  qed
  moreover have "signed_bytes 2 n = [of_nat (m mod 256), of_nat (m div 256 mod 256)]"
    by (simp add: signed_bytes_def le_bytes_def m_def upt_rec)
  ultimately show ?thesis by simp
qed

lemma pcm16_of_bytes_blocks:
  "pcm16_of_bytes (concat (map (\<lambda>n. signed_bytes 2 n) ns) @ bytes)
    = map word_of_int ns @ pcm16_of_bytes bytes"
  by (induction ns) (simp_all add: pcm16_of_bytes_signed)

text \<open>The level a 16-bit endpoint is given at one position.\<close>

definition level16 :: "fp \<Rightarrow> int" where
  "level16 sample = fp_to_signed 16 (fp_clamp (fp_round sample) (Fin (- 32768)) (Fin 32767))"

lemma sample_bytes_16:
  assumes "of_sample_type format = Integer" "of_bits_per_sample format = 16"
  shows "sample_bytes format sample = signed_bytes 2 (level16 sample)"
  using assms by (simp add: sample_bytes_def encode_sample_def level16_def signed_bytes_def Let_def)

lemma level16_between:
  assumes "of_int a \<le> v" "v \<le> of_int b" "- 32768 \<le> a" "b \<le> 32767"
  shows "a \<le> level16 (Fin v)" "level16 (Fin v) \<le> b"
proof -
  have "a \<le> round_half_away v" "round_half_away v \<le> b"
    using round_half_away_mono [OF assms(1)] round_half_away_mono [OF assms(2)] by simp_all
  moreover from this assms(3,4) have "rat_of_int (- 32768) \<le> of_int (round_half_away v)"
    "rat_of_int (round_half_away v) \<le> of_int 32767"
    unfolding of_int_le_iff by linarith+
  ultimately show "a \<le> level16 (Fin v)" "level16 (Fin v) \<le> b"
    using assms(3,4) by (auto simp: level16_def)
qed

lemma nth_replicated_blocks:
  "i < n \<Longrightarrow> j < k \<Longrightarrow> concat (map (\<lambda>i. replicate k (g i)) [0..<n]) ! (i * k + j) = g i"
proof (induction n)
  case (Suc n)
  have len: "length (concat (map (\<lambda>i. replicate k (g i)) [0..<n])) = n * k"
    by (rule length_blocks) simp
  show ?case
  proof (cases "i < n")
    case True
    then have "(i + 1) * k \<le> n * k" by (intro mult_le_mono1) simp
    then have "i * k + j < n * k" using Suc.prems(2) by (simp add: algebra_simps)
    with True Suc len show ?thesis by (simp add: nth_append)
  next
    case False
    then have "i = n" using Suc.prems(1) by simp
    with Suc.prems(2) len show ?thesis by (simp add: nth_append)
  qed
qed simp

lemma concat_map_concat: "concat (map f (concat xss)) = concat (map (\<lambda>xs. concat (map f xs)) xss)"
  by (induction xss) simp_all

lemma converted_frame_16:
  assumes "of_sample_type format = Integer" "of_bits_per_sample format = 16"
  shows "pcm16_of_bytes (converted_frame format frames input)
    = concat (map (\<lambda>i. replicate (unat (of_channels format))
        (word_of_int (level16 (interpolate input frames i)))) [0..<frames])"
proof -
  define ns where "ns = concat (map (\<lambda>i. replicate (unat (of_channels format))
      (level16 (interpolate input frames i))) [0..<frames])"
  have "converted_frame format frames input = concat (map (signed_bytes 2) ns)"
    by (simp add: converted_frame_def ns_def sample_bytes_16 [OF assms] concat_map_concat o_def)
  then have "pcm16_of_bytes (converted_frame format frames input) = map word_of_int ns"
    using pcm16_of_bytes_blocks [of ns "[]"] by simp
  then show ?thesis by (simp add: ns_def map_concat o_def)
qed

lemma converter_ok_frames:
  "converter_ok c \<Longrightarrow> 0 < unat (fc_output_frames c) \<and> unat (fc_output_frames c) < 2 ^ 32"
  using unsigned_less [of "fc_output_frames c", where ?'a = nat]
  by (auto simp: converter_ok_def unat_gt_0 word_gt_0)

text \<open>C28
  On a 16-bit endpoint of any rate and any number of channels, what a client decodes at a position lies
  between the two neighbouring input samples and is the same in every channel; at a position without a
  fraction it is the input sample itself.  Resampling never overshoots and never clips.\<close>

theorem resampling_stays_between:
  assumes "frame_converter_new format = Inr c" "length input = FRAME_SAMPLES"
    and "of_sample_type (fc_format c) = Integer" "of_bits_per_sample (fc_format c) = 16"
    and "i < unat (fc_output_frames c)" "channel < unat (of_channels (fc_format c))"
  shows "\<exists>c' out. frame_converter_convert input c = Some c'
    \<and> out = sint (pcm16_of_bytes (fc_bytes c') ! (i * unat (of_channels (fc_format c)) + channel))
    \<and> (let left = i * FRAME_SAMPLES div unat (fc_output_frames c);
           l = sint (input ! left); r = sint (input ! min (left + 1) (FRAME_SAMPLES - 1)) in
       min l r \<le> out \<and> out \<le> max l r
       \<and> (i * FRAME_SAMPLES mod unat (fc_output_frames c) = 0 \<longrightarrow> out = l))"
proof -
  define frames where "frames = unat (fc_output_frames c)"
  define left where "left = i * FRAME_SAMPLES div frames"
  define l where "l = sint (input ! left)"
  define r where "r = sint (input ! min (left + 1) (FRAME_SAMPLES - 1))"
  have ok: "converter_ok c" using assms(1) by (rule frame_converter_new_ok)
  obtain v where v: "interpolate input frames i = Fin v" "of_int (min l r) \<le> v" "v \<le> of_int (max l r)"
      "i * FRAME_SAMPLES mod frames = 0 \<longrightarrow> v = of_int l"
    using interpolate_between [OF assms(2), of i frames] assms(5) converter_ok_frames [OF ok]
    by (auto simp: frames_def l_def r_def left_def)
  have range: "- 32768 \<le> min l r" "max l r \<le> 32767"
    by (simp_all add: l_def r_def sint_i16_bounds)
  have level: "min l r \<le> level16 (Fin v)" "level16 (Fin v) \<le> max l r"
    using level16_between [OF v(2,3) range] .
  have exact: "level16 (Fin v) = l" if "i * FRAME_SAMPLES mod frames = 0"
    using v(4) that level16_between [of l v l] range by (simp add: order_antisym)
  have "- 32768 \<le> level16 (Fin v)" "level16 (Fin v) < 32768" using level range by linarith+
  then have "sint (word_of_int (level16 (Fin v)) :: i16) = level16 (Fin v)"
    by (simp add: signed_of_int signed_take_bit_int_eq_self)
  moreover have "pcm16_of_bytes (converted_frame (fc_format c) frames input)
      ! (i * unat (of_channels (fc_format c)) + channel) = word_of_int (level16 (Fin v))"
    using assms(5,6) v(1)
    by (simp add: converted_frame_16 [OF assms(3,4)] nth_replicated_blocks frames_def)
  ultimately show ?thesis
    using convert_converter_ok [OF ok assms(2)] level exact
    by (simp add: frames_def left_def l_def r_def Let_def)
qed

definition cable_format :: wave_format where
  "cable_format = \<lparr>wf_samplespersec = 100, wf_nchannels = 2, wf_bitspersample = 16,
     wf_subformat = Inr Integer\<rparr>"

definition cable_converter :: frame_converter where
  "cable_converter = \<lparr>fc_format = \<lparr>of_sample_rate_hz = 100, of_channels = 2, of_bits_per_sample = 16,
     of_sample_type = Integer\<rparr>, fc_output_frames = 1, fc_bytes = [0, 0, 0, 0],
     fc_requires_conversion = True\<rparr>"

lemma cable_converter_new: "frame_converter_new cable_format = Inr cable_converter"
  by code_simp

text \<open>Two channels at the lowest rate: one frame of output holds the first sample twice.\<close>

lemma resampling_stays_between_witness:
  "\<exists>c' out. frame_converter_convert (7 # replicate 479 9) cable_converter = Some c'
    \<and> out = sint (pcm16_of_bytes (fc_bytes c') ! 1) \<and> out = 7"
  using resampling_stays_between [OF cable_converter_new, of "7 # replicate 479 9" 0 1]
  by (auto simp: FRAME_SAMPLES_def cable_converter_def Let_def)

lemma frame_converter_convert_spec_witness:
  "frame_converter_convert (replicate 480 0) (cable_converter\<lparr>fc_bytes := [1, 2, 3, 4]\<rparr>)
    = Some (cable_converter\<lparr>fc_bytes := converted_frame (fc_format cable_converter) 1 (replicate 480 0)\<rparr>)"
  using frame_converter_convert_spec [OF cable_converter_new, of "replicate 480 0" "[1, 2, 3, 4]"]
  by (simp add: FRAME_SAMPLES_def cable_converter_def)

text \<open>On an endpoint whose mix format is the engine's own (48 kHz, mono, 16-bit), and on no other, no conversion
  is reported, and the client decodes exactly the frame that was written.\<close>

theorem native_frame_passthrough:
  assumes "frame_converter_new format = Inr c" "length input = FRAME_SAMPLES"
  shows "(\<not> fc_requires_conversion c \<longleftrightarrow>
      fc_format c = \<lparr>of_sample_rate_hz = 48000, of_channels = 1, of_bits_per_sample = 16,
        of_sample_type = Integer\<rparr>)
    \<and> (\<not> fc_requires_conversion c \<longrightarrow>
        (\<exists>c'. frame_converter_convert input c = Some c' \<and> pcm16_of_bytes (fc_bytes c') = input))"
proof (intro conjI impI)
  show native: "\<not> fc_requires_conversion c \<longleftrightarrow>
      fc_format c = \<lparr>of_sample_rate_hz = 48000, of_channels = 1, of_bits_per_sample = 16,
        of_sample_type = Integer\<rparr>"
    using assms(1) by (auto simp: frame_converter_new_def Let_def res_bind_eq_Inr split: if_splits)
  assume "\<not> fc_requires_conversion c"
  with native have fmt: "fc_format c = \<lparr>of_sample_rate_hz = 48000, of_channels = 1,
      of_bits_per_sample = 16, of_sample_type = Integer\<rparr>" by blast
  have ok: "converter_ok c" using assms(1) by (rule frame_converter_new_ok)
  then have frames: "unat (fc_output_frames c) = 480"
    by (simp add: converter_ok_def fmt)
  have "word_of_int (level16 (interpolate input 480 i)) = input ! i" if i: "i < 480" for i
  proof -
    obtain v where v: "interpolate input 480 i = Fin v" "v = of_int (sint (input ! i))"
      using interpolate_between [OF assms(2) i] by (auto simp: FRAME_SAMPLES_def)
    have "level16 (Fin v) = sint (input ! i)"
      using level16_between [of "sint (input ! i)" v "sint (input ! i)"] v(2) sint_i16_bounds [of "input ! i"]
      by (simp add: order_antisym)
    with v(1) show ?thesis by simp
  qed
  then have "map (\<lambda>i. word_of_int (level16 (interpolate input 480 i))) [0..<480] = map (nth input) [0..<480]"
    by simp
  also have "\<dots> = input" using map_nth [of input] assms(2) by (simp only: FRAME_SAMPLES_def)
  finally show "\<exists>c'. frame_converter_convert input c = Some c' \<and> pcm16_of_bytes (fc_bytes c') = input"
    using convert_converter_ok [OF ok assms(2)] converted_frame_16 [of "fc_format c" 480 input]
    by (simp add: fmt frames)
qed

definition native_converter :: frame_converter where
  "native_converter = \<lparr>fc_format = \<lparr>of_sample_rate_hz = 48000, of_channels = 1, of_bits_per_sample = 16,
     of_sample_type = Integer\<rparr>, fc_output_frames = 480, fc_bytes = replicate 960 0,
     fc_requires_conversion = False\<rparr>"

lemma native_converter_new:
  "frame_converter_new \<lparr>wf_samplespersec = 48000, wf_nchannels = 1, wf_bitspersample = 16,
     wf_subformat = Inr Integer\<rparr> = Inr native_converter"
  by code_simp

lemma native_frame_passthrough_witness:
  "\<exists>c'. frame_converter_convert (replicate 480 5) native_converter = Some c'
    \<and> pcm16_of_bytes (fc_bytes c') = replicate 480 5"
  using native_frame_passthrough [OF native_converter_new, of "replicate 480 5"]
  by (simp add: FRAME_SAMPLES_def native_converter_def)

end
