(* ===== verification/Windows_Devices.thy ===== *)
theory Windows_Devices
  imports Windows_Format
begin

text \<open>
  Finding the VB-CABLE endpoints, \<^verbatim>\<open>crates/mini-aec-windows-output/src/lib.rs\<close>: the exact-identity preflight
  \<^verbatim>\<open>resolve_vb_cable_pair\<close> and the inventory \<^verbatim>\<open>enumerate_vb_cable_pairs\<close> the tray offers.  What Windows
  answers while one of them runs is the record \<open>device_platform\<close>; each answer may be an error.
\<close>

datatype direction = RenderFlow | CaptureFlow

datatype device_state = DeviceActive | DeviceNotActive

record device =
  dv_id :: "wasapi_error + str"
  dv_friendlyname :: "wasapi_error + str"
  dv_state :: "wasapi_error + device_state"
  dv_interface_friendlyname :: "wasapi_error + str"

record device_platform =
  dp_initialize_mta :: "message + unit"
  dp_enumerator :: "wasapi_error + unit"
  dp_collection :: "direction \<Rightarrow> wasapi_error + (wasapi_error + device) list"

section \<open>Looking up and describing a device\<close>

definition describe_device :: "device \<Rightarrow> endpoint_role \<Rightarrow> output_error + output_endpoint" where
  "describe_device d role =
     res_bind (map_err (wasapi_output_error ''read endpoint identity'') (dv_id d)) (\<lambda>ident.
     res_bind (map_err (wasapi_output_error ''read endpoint display name'') (dv_friendlyname d)) (\<lambda>name.
     res_bind (map_err (wasapi_output_error ''read endpoint state'') (dv_state d)) (\<lambda>state.
     res_bind (map_err (wasapi_output_error ''read endpoint adapter metadata'')
                (dv_interface_friendlyname d)) (\<lambda>family.
       Inr \<lparr>oe_endpoint_id = ident, oe_friendly_name = name, oe_role = role,
            oe_active = (state = DeviceActive), oe_device_family = family\<rparr>))))"

fun find_device :: "str \<Rightarrow> (wasapi_error + device) list \<Rightarrow> output_error + device option" where
  "find_device ident [] = Inr None"
| "find_device ident (item # items) =
     res_bind (map_err (wasapi_output_error ''access an audio endpoint'') item) (\<lambda>d.
     res_bind (map_err (wasapi_output_error ''read endpoint identity'') (dv_id d)) (\<lambda>candidate.
       if candidate = ident then Inr (Some d) else find_device ident items))"

definition find_in_direction ::
  "device_platform \<Rightarrow> direction \<Rightarrow> str \<Rightarrow> output_error + device option" where
  "find_in_direction pf dir ident =
     res_bind (map_err (wasapi_output_error ''enumerate active audio endpoints'') (dp_collection pf dir))
       (find_device ident)"

definition opposite :: "direction \<Rightarrow> direction" where
  "opposite dir = (case dir of RenderFlow \<Rightarrow> CaptureFlow | CaptureFlow \<Rightarrow> RenderFlow)"

definition find_active_device ::
  "device_platform \<Rightarrow> direction \<Rightarrow> str \<Rightarrow> output_error + device" where
  "find_active_device pf dir ident =
     res_bind (find_in_direction pf dir ident) (\<lambda>found.
       case found of Some d \<Rightarrow> Inr d
       | None \<Rightarrow>
           res_bind (find_in_direction pf (opposite dir) ident) (\<lambda>other.
             if other \<noteq> None
             then Inl (output_error_new OK_InvalidEndpoint
                    (Text ''configured endpoint has the wrong Windows data-flow role''))
             else Inl (output_error_new OK_PrerequisiteMissing
                    (Pieces [Text ''configured endpoint '', Quoted ident,
                       Text '' is unavailable or inactive'']))))"

definition describe_exact ::
  "device_platform \<Rightarrow> direction \<Rightarrow> endpoint_role \<Rightarrow> str \<Rightarrow> output_error + output_endpoint" where
  "describe_exact pf dir role ident =
     res_bind (find_active_device pf dir ident) (\<lambda>d. describe_device d role)"

section \<open>The preflight\<close>

definition initialize_com :: "string \<Rightarrow> device_platform \<Rightarrow> output_error + unit" where
  "initialize_com purpose pf =
     map_err (\<lambda>e. output_error_new OK_RenderFailure
                (Pieces [Text ''failed to initialize COM '', Text purpose, Text '': '', e]))
       (dp_initialize_mta pf)"

definition resolve_vb_cable_pair ::
  "device_platform \<Rightarrow> str \<Rightarrow> str \<Rightarrow> output_error + output_pair" where
  "resolve_vb_cable_pair pf playback_id recording_id =
     res_bind (initialize_com ''for VB-CABLE preflight'' pf) (\<lambda>_.
     res_bind (map_err (wasapi_output_error ''create the device enumerator'') (dp_enumerator pf)) (\<lambda>_.
     res_bind (describe_exact pf RenderFlow Playback playback_id) (\<lambda>p.
     res_bind (describe_exact pf CaptureFlow Recording recording_id) (\<lambda>r.
       resolve_pair [p, r] playback_id recording_id))))"

section \<open>The inventory of pairs\<close>

definition is_vb_audio_family :: "str \<Rightarrow> bool" where
  "is_vb_audio_family family \<longleftrightarrow> str_contains (to_ascii_lowercase family) (lit ''vb-audio'')"

fun describe_all ::
  "endpoint_role \<Rightarrow> (wasapi_error + device) list \<Rightarrow> output_error + output_endpoint list" where
  "describe_all role [] = Inr []"
| "describe_all role (item # items) =
     res_bind (map_err (wasapi_output_error ''access a VB-CABLE endpoint'') item) (\<lambda>d.
     res_bind (describe_device d role) (\<lambda>e.
     res_bind (describe_all role items) (\<lambda>es. Inr (e # es))))"

definition enumerate_output_endpoints ::
  "device_platform \<Rightarrow> direction \<Rightarrow> endpoint_role \<Rightarrow> output_error + output_endpoint list" where
  "enumerate_output_endpoints pf dir role =
     res_bind (map_err (wasapi_output_error ''enumerate VB-CABLE endpoints'') (dp_collection pf dir))
       (describe_all role)"

definition vb_cable_pairs :: "output_endpoint list \<Rightarrow> output_endpoint list \<Rightarrow> output_pair list" where
  "vb_cable_pairs playbacks recordings =
     concat (map (\<lambda>p. if \<not> is_vb_audio_family (oe_device_family p) then []
       else concat (map (\<lambda>r.
         if \<not> is_vb_audio_family (oe_device_family r)
            \<or> \<not> eq_ignore_ascii_case (oe_device_family p) (oe_device_family r) then []
         else case resolve_pair [p, r] (oe_endpoint_id p) (oe_endpoint_id r) of
             Inr pair \<Rightarrow> [pair] | Inl _ \<Rightarrow> []) recordings)) playbacks)"

definition enumerate_vb_cable_pairs :: "device_platform \<Rightarrow> output_error + output_pair list" where
  "enumerate_vb_cable_pairs pf =
     res_bind (initialize_com ''for VB-CABLE inventory'' pf) (\<lambda>_.
     res_bind (map_err (wasapi_output_error ''create the device enumerator'') (dp_enumerator pf)) (\<lambda>_.
     res_bind (enumerate_output_endpoints pf RenderFlow Playback) (\<lambda>playbacks.
     res_bind (enumerate_output_endpoints pf CaptureFlow Recording) (\<lambda>recordings.
       Inr (vb_cable_pairs playbacks recordings)))))"

section \<open>The inventory agrees with the preflight\<close>

lemma describe_device_InrD:
  "describe_device d role = Inr e \<Longrightarrow> dv_id d = Inr (oe_endpoint_id e) \<and> oe_role e = role"
  by (auto simp: describe_device_def res_bind_eq_Inr)

lemma describe_all_find:
  "describe_all role items = Inr es \<Longrightarrow> distinct (map oe_endpoint_id es) \<Longrightarrow>
     res_bind (find_device ident items) (\<lambda>found. case found of None \<Rightarrow> Inr None
         | Some d \<Rightarrow> res_bind (describe_device d role) (\<lambda>e. Inr (Some e)))
       = Inr (find (\<lambda>e. oe_endpoint_id e = ident) es)"
proof (induction items arbitrary: es)
  case (Cons item items)
  then obtain d e es' where item: "item = Inr d" "describe_device d role = Inr e"
      "describe_all role items = Inr es'" "es = e # es'"
    by (auto simp: res_bind_eq_Inr)
  from describe_device_InrD [OF item(2)] have "dv_id d = Inr (oe_endpoint_id e)" by simp
  with item Cons show ?case by simp
qed simp

lemma describe_exact_listed:
  assumes "enumerate_output_endpoints pf dir role = Inr es" "distinct (map oe_endpoint_id es)"
  shows "describe_exact pf dir role ident = Inr e \<longleftrightarrow> e \<in> set es \<and> oe_endpoint_id e = ident"
proof -
  from assms(1) obtain items where items: "dp_collection pf dir = Inr items"
      "describe_all role items = Inr es"
    by (auto simp: enumerate_output_endpoints_def res_bind_eq_Inr)
  have found: "find (\<lambda>e. oe_endpoint_id e = ident) es = Some e \<longleftrightarrow> e \<in> set es \<and> oe_endpoint_id e = ident"
    using assms(2) by (induction es) auto
  show ?thesis
  proof (cases "find_device ident items")
    case (Inl err)
    then show ?thesis using describe_all_find [OF items(2) assms(2), of ident] by simp
  next
    case (Inr r)
    then show ?thesis
      using describe_all_find [OF items(2) assms(2), of ident] found items(1)
      by (cases r) (auto simp: describe_exact_def find_active_device_def find_in_direction_def
          res_bind_eq_Inr split: if_splits)
  qed
qed

lemma trim_infix: "\<exists>a b. s = a @ trim s @ b"
proof -
  have "\<exists>a. t = a @ dropWhile is_whitespace t" for t :: str
    by (metis takeWhile_dropWhile_id)
  then obtain a b where a: "s = a @ dropWhile is_whitespace s"
    and b: "rev (dropWhile is_whitespace s)
      = b @ dropWhile is_whitespace (rev (dropWhile is_whitespace s))" by blast
  from b have "dropWhile is_whitespace s = trim s @ rev b"
    unfolding trim_def by (metis rev_append rev_rev_ident)
  with a show ?thesis by metis
qed

lemma is_vb_audio_family_trim: "is_vb_audio_family (trim s) \<Longrightarrow> is_vb_audio_family s"
proof -
  assume "is_vb_audio_family (trim s)"
  moreover obtain a b where "s = a @ trim s @ b" using trim_infix by blast
  then have "to_ascii_lowercase s
      = to_ascii_lowercase a @ to_ascii_lowercase (trim s) @ to_ascii_lowercase b"
    unfolding to_ascii_lowercase_def by (metis map_append)
  ultimately show ?thesis
    unfolding is_vb_audio_family_def str_contains_iff by (metis append.assoc)
qed

lemma is_vb_audio_family_cong: "eq_ignore_ascii_case a b \<Longrightarrow> is_vb_audio_family a = is_vb_audio_family b"
  by (simp add: eq_ignore_ascii_case_def is_vb_audio_family_def)

lemma resolve_pair_InrD:
  "resolve_pair devs pid rid = Inr pr \<Longrightarrow> is_vb_audio_family (oe_device_family (playback pr))
    \<and> playback pr \<in> set devs \<and> recording pr \<in> set devs
    \<and> oe_endpoint_id (playback pr) = pid \<and> oe_endpoint_id (recording pr) = rid
    \<and> oe_role (playback pr) = Playback \<and> oe_role (recording pr) = Recording"
  by (cases pr) (auto simp: resolve_pair_def res_bind_eq_Inr same_vb_family_def
      is_vb_audio_family_def [symmetric] is_vb_audio_family_trim
      dest: select_endpoint_InrD split: if_splits)

lemma set_vb_cable_pairs:
  "pr \<in> set (vb_cable_pairs ps rs) \<longleftrightarrow>
     (\<exists>p \<in> set ps. \<exists>r \<in> set rs. eq_ignore_ascii_case (oe_device_family p) (oe_device_family r)
        \<and> is_vb_audio_family (oe_device_family p)
        \<and> resolve_pair [p, r] (oe_endpoint_id p) (oe_endpoint_id r) = Inr pr)"
proof -
  have "pr \<in> set (vb_cable_pairs ps rs) \<longleftrightarrow>
     (\<exists>p \<in> set ps. \<exists>r \<in> set rs. is_vb_audio_family (oe_device_family p)
        \<and> is_vb_audio_family (oe_device_family r)
        \<and> eq_ignore_ascii_case (oe_device_family p) (oe_device_family r)
        \<and> Inr pr = resolve_pair [p, r] (oe_endpoint_id p) (oe_endpoint_id r))"
    by (auto simp: vb_cable_pairs_def split: if_splits sum.splits)
  then show ?thesis using is_vb_audio_family_cong by metis
qed

text \<open>C29
  The tray offers exactly the endpoint pairs the engine will accept: when the inventory can be read and
  endpoint identities are unique in each direction, a pair is listed if and only if the exact-identity
  preflight for its two identities returns that very pair, and its two endpoints name the same adapter
  family.\<close>

theorem listed_pairs_pass_preflight:
  assumes "enumerate_vb_cable_pairs pf = Inr pairs"
    and "enumerate_output_endpoints pf RenderFlow Playback = Inr ps" "distinct (map oe_endpoint_id ps)"
    and "enumerate_output_endpoints pf CaptureFlow Recording = Inr rs" "distinct (map oe_endpoint_id rs)"
  shows "pr \<in> set pairs \<longleftrightarrow>
     resolve_vb_cable_pair pf (oe_endpoint_id (playback pr)) (oe_endpoint_id (recording pr)) = Inr pr
   \<and> eq_ignore_ascii_case (oe_device_family (playback pr)) (oe_device_family (recording pr))"
proof -
  have ready: "dp_initialize_mta pf = Inr ()" "dp_enumerator pf = Inr ()"
    and pairs: "pairs = vb_cable_pairs ps rs"
    using assms(1,2,4) by (auto simp: enumerate_vb_cable_pairs_def initialize_com_def res_bind_eq_Inr)
  have preflight: "resolve_vb_cable_pair pf pid rid = Inr pr \<longleftrightarrow>
      (\<exists>p r. p \<in> set ps \<and> oe_endpoint_id p = pid \<and> r \<in> set rs \<and> oe_endpoint_id r = rid
        \<and> resolve_pair [p, r] pid rid = Inr pr)" for pid rid
    by (simp add: resolve_vb_cable_pair_def initialize_com_def ready res_bind_eq_Inr
        describe_exact_listed [OF assms(2,3)] describe_exact_listed [OF assms(4,5)])
  have parts: "p = playback pr \<and> r = recording pr"
    if "resolve_pair [p, r] (oe_endpoint_id p) (oe_endpoint_id r) = Inr pr"
      "p \<in> set ps" "r \<in> set rs" for p r
  proof -
    have "oe_endpoint_id p \<noteq> oe_endpoint_id r"
      using that(1) by (auto simp: resolve_pair_def split: if_splits)
    with resolve_pair_InrD [OF that(1)] show ?thesis by auto
  qed
  show ?thesis
  proof
    assume "pr \<in> set pairs"
    then obtain p r where pr: "p \<in> set ps" "r \<in> set rs"
        "eq_ignore_ascii_case (oe_device_family p) (oe_device_family r)"
        "resolve_pair [p, r] (oe_endpoint_id p) (oe_endpoint_id r) = Inr pr"
      unfolding pairs set_vb_cable_pairs by blast
    moreover from parts [OF pr(4,1,2)] have "p = playback pr" "r = recording pr" by simp_all
    ultimately show "resolve_vb_cable_pair pf (oe_endpoint_id (playback pr))
          (oe_endpoint_id (recording pr)) = Inr pr
        \<and> eq_ignore_ascii_case (oe_device_family (playback pr)) (oe_device_family (recording pr))"
      unfolding preflight by blast
  next
    assume "resolve_vb_cable_pair pf (oe_endpoint_id (playback pr)) (oe_endpoint_id (recording pr)) = Inr pr
      \<and> eq_ignore_ascii_case (oe_device_family (playback pr)) (oe_device_family (recording pr))"
    then obtain p r where pr: "p \<in> set ps" "r \<in> set rs"
        "resolve_pair [p, r] (oe_endpoint_id p) (oe_endpoint_id r) = Inr pr"
        "eq_ignore_ascii_case (oe_device_family (playback pr)) (oe_device_family (recording pr))"
      unfolding preflight by auto
    moreover from parts [OF pr(3,1,2)] have "p = playback pr" "r = recording pr" by simp_all
    moreover from resolve_pair_InrD [OF pr(3)] have "is_vb_audio_family (oe_device_family (playback pr))"
      by blast
    ultimately show "pr \<in> set pairs"
      unfolding pairs set_vb_cable_pairs by blast
  qed
qed

definition cable_device :: "string \<Rightarrow> string \<Rightarrow> device" where
  "cable_device ident family =
     \<lparr>dv_id = Inr (lit ident), dv_friendlyname = Inr (lit ident), dv_state = Inr DeviceActive,
      dv_interface_friendlyname = Inr (lit family)\<rparr>"

definition cable_platform :: device_platform where
  "cable_platform =
     \<lparr>dp_initialize_mta = Inr (), dp_enumerator = Inr (),
      dp_collection = (\<lambda>dir. Inr (case dir of
          RenderFlow \<Rightarrow> [Inr (cable_device ''speakers'' ''Realtek''), Inr (cable_device ''in'' ''VB-Audio'')]
        | CaptureFlow \<Rightarrow> [Inr (cable_device ''out'' ''vb-audio'')]))\<rparr>"

definition cable_endpoint :: "string \<Rightarrow> string \<Rightarrow> endpoint_role \<Rightarrow> output_endpoint" where
  "cable_endpoint ident family role =
     \<lparr>oe_endpoint_id = lit ident, oe_friendly_name = lit ident, oe_role = role, oe_active = True,
      oe_device_family = lit family\<rparr>"

definition listed_pair :: output_pair where
  "listed_pair = \<lparr>playback = cable_endpoint ''in'' ''VB-Audio'' Playback,
     recording = cable_endpoint ''out'' ''vb-audio'' Recording\<rparr>"

lemma cable_platform_endpoints:
  "enumerate_output_endpoints cable_platform RenderFlow Playback
    = Inr [cable_endpoint ''speakers'' ''Realtek'' Playback, cable_endpoint ''in'' ''VB-Audio'' Playback]"
  "enumerate_output_endpoints cable_platform CaptureFlow Recording
    = Inr [cable_endpoint ''out'' ''vb-audio'' Recording]"
  by (simp_all add: enumerate_output_endpoints_def cable_platform_def describe_device_def cable_device_def
      cable_endpoint_def)

lemma cable_platform_lists: "enumerate_vb_cable_pairs cable_platform = Inr [listed_pair]"
  by (simp add: enumerate_vb_cable_pairs_def cable_platform_endpoints)
    (simp add: initialize_com_def cable_platform_def vb_cable_pairs_def listed_pair_def cable_endpoint_def
      is_vb_audio_family_def to_ascii_lowercase_def lit_def ascii_lower_def eq_ignore_ascii_case_def
      resolve_pair_def trim_def is_whitespace_def select_endpoint_def same_vb_family_def)

lemma listed_pairs_pass_preflight_witness:
  "resolve_vb_cable_pair cable_platform (lit ''in'') (lit ''out'') = Inr listed_pair"
  using listed_pairs_pass_preflight 
      [OF cable_platform_lists cable_platform_endpoints(1) _ cable_platform_endpoints(2), of listed_pair]
  by (simp add: listed_pair_def cable_endpoint_def lit_def)

end
