(* ===== verification/Windows_Output.thy ===== *)
theory Windows_Output
  imports Windows_Devices
begin

text \<open>
  The output adapter of the product, \<^verbatim>\<open>RenderStream\<close> and \<^verbatim>\<open>WindowsVbCableOutput\<close> in
  \<^verbatim>\<open>crates/mini-aec-windows-output/src/lib.rs\<close>: a shared-mode stream on the CABLE Input endpoint that is
  given one whole converted frame per write, and the session around it with its diagnostics.

  The WASAPI client, its event and the clock are the record \<open>render_api\<close> over a state \<open>'w\<close> that any of its
  operations may change.  Time is in nanoseconds.  \<open>None\<close> is a call that does not return: the fuel for the
  waiting loop runs out (\<open>render_write_returns\<close> says how much is enough).
\<close>

record 'w render_api =
  ra_platform :: "'w \<Rightarrow> device_platform"
  ra_get_iaudioclient :: "device \<Rightarrow> 'w \<Rightarrow> 'w \<times> (wasapi_error + unit)"
  ra_get_mixformat :: "'w \<Rightarrow> 'w \<times> (wasapi_error + wave_format)"
  ra_get_device_period :: "'w \<Rightarrow> 'w \<times> (wasapi_error + int)"
  ra_initialize_client :: "wave_format \<Rightarrow> int \<Rightarrow> 'w \<Rightarrow> 'w \<times> (wasapi_error + unit)"
  ra_set_get_eventhandle :: "'w \<Rightarrow> 'w \<times> (wasapi_error + unit)"
  ra_get_audiorenderclient :: "'w \<Rightarrow> 'w \<times> (wasapi_error + unit)"
  ra_get_audioclock :: "'w \<Rightarrow> 'w \<times> (wasapi_error + unit)"
  ra_get_frequency :: "'w \<Rightarrow> 'w \<times> (wasapi_error + u64)"
  ra_get_buffer_size :: "'w \<Rightarrow> 'w \<times> (wasapi_error + u32)"
  ra_available_space :: "'w \<Rightarrow> 'w \<times> (wasapi_error + u32)"
  ra_wait_for_event :: "u32 \<Rightarrow> 'w \<Rightarrow> 'w \<times> (wasapi_error + unit)"
  ra_write_to_device :: "nat \<Rightarrow> u8 list \<Rightarrow> 'w \<Rightarrow> 'w \<times> (wasapi_error + unit)"
  ra_current_padding :: "'w \<Rightarrow> 'w \<times> (wasapi_error + u32)"
  ra_start_stream :: "'w \<Rightarrow> 'w \<times> (wasapi_error + unit)"
  ra_get_position :: "'w \<Rightarrow> 'w \<times> (wasapi_error + u64 \<times> u64)"
  ra_stop_stream :: "'w \<Rightarrow> 'w \<times> (wasapi_error + unit)"
  ra_reset_stream :: "'w \<Rightarrow> 'w \<times> (wasapi_error + unit)"
  ra_now :: "'w \<Rightarrow> 'w \<times> nat"

text \<open>A call of the library followed by \<^verbatim>\<open>map_err(..)?\<close>.\<close>

definition api_call ::
  "string \<Rightarrow> ('w \<Rightarrow> 'w \<times> (wasapi_error + 'a)) \<Rightarrow> ('a \<Rightarrow> 'w \<Rightarrow> 'w \<times> (output_error + 'b))
   \<Rightarrow> 'w \<Rightarrow> 'w \<times> (output_error + 'b)" where
  "api_call operation m f w =
     (case m w of
        (w', Inl e) \<Rightarrow> (w', Inl (wasapi_output_error operation e))
      | (w', Inr a) \<Rightarrow> f a w')"

definition api_lift ::
  "output_error + 'a \<Rightarrow> ('a \<Rightarrow> 'w \<Rightarrow> 'w \<times> (output_error + 'b)) \<Rightarrow> 'w \<Rightarrow> 'w \<times> (output_error + 'b)" where
  "api_lift r f w = (case r of Inl e \<Rightarrow> (w, Inl e) | Inr a \<Rightarrow> f a w)"

section \<open>The stream\<close>

definition OUTPUT_WAIT :: nat where "OUTPUT_WAIT = 100 * 1000000"

record render_stream =
  rs_clock_frequency :: u64
  rs_buffer_frames :: u32
  rs_converter :: frame_converter
  rs_underrun_grace :: nat
  rs_last_write_at :: "nat option"
  rs_started :: bool
  rs_stopped :: bool

record render_progress =
  rp_padding :: u32
  rp_underrun :: bool
  rp_clock_position :: u64
  rp_clock_qpc_position :: u64

text \<open>Two frames, or as much as the buffer holds.\<close>

definition prefill_frames :: "u32 \<Rightarrow> u32 \<Rightarrow> u32" where
  "prefill_frames buffer_frames frames =
     min buffer_frames (of_nat (min (2 ^ 32 - 1) (unat frames * 2)))"

definition underrun_grace :: "u32 \<Rightarrow> u32 \<Rightarrow> nat" where
  "underrun_grace prefill rate =
     (if rate = 0 then 0 else min (2 ^ 64 - 1) (unat prefill * 1000000000) div unat rate)"

definition render_open ::
  "'w render_api \<Rightarrow> str \<Rightarrow> 'w \<Rightarrow> 'w \<times> (output_error + render_stream)" where
  "render_open api endpoint_id w =
     (let pf = ra_platform api w in
      api_lift (initialize_com ''in the output worker'' pf) (\<lambda>_.
      api_lift (map_err (wasapi_output_error ''create the output device enumerator'')
                  (dp_enumerator pf)) (\<lambda>_.
      api_lift (find_active_device pf RenderFlow endpoint_id) (\<lambda>device.
      api_call ''create the WASAPI render client'' (ra_get_iaudioclient api device) (\<lambda>_.
      api_call ''read the shared-mode mix format'' (ra_get_mixformat api) (\<lambda>mix.
      api_lift (frame_converter_new mix) (\<lambda>converter.
      api_call ''read the output device period'' (ra_get_device_period api) (\<lambda>default_period.
      api_call ''initialize the shared-mode render stream''
        (ra_initialize_client api mix default_period) (\<lambda>_.
      api_call ''create the WASAPI render event'' (ra_set_get_eventhandle api) (\<lambda>_.
      api_call ''create the WASAPI render service'' (ra_get_audiorenderclient api) (\<lambda>_.
      api_call ''create the WASAPI output clock'' (ra_get_audioclock api) (\<lambda>_.
      api_call ''read the WASAPI output clock frequency'' (ra_get_frequency api) (\<lambda>clock_frequency.
      api_call ''read the WASAPI output buffer capacity'' (ra_get_buffer_size api) (\<lambda>buffer_frames w.
        (w, Inr \<lparr>rs_clock_frequency = clock_frequency, rs_buffer_frames = buffer_frames,
           rs_converter = converter,
           rs_underrun_grace =
             underrun_grace (prefill_frames buffer_frames (fc_output_frames converter))
               (of_sample_rate_hz (fc_format converter)),
           rs_last_write_at = None, rs_started = False, rs_stopped = False\<rparr>)))))))))))))) w)"

text \<open>One turn of the loop that waits for room for a whole frame.\<close>

definition wait_turn ::
  "'w render_api \<Rightarrow> nat \<Rightarrow> u32 \<Rightarrow> 'w \<times> u32 \<Rightarrow> ('w \<times> u32, 'w \<times> (output_error + unit)) flow" where
  "wait_turn api deadline frames = (\<lambda>(w, available).
     if \<not> available < frames then Break (w, Inr ())
     else case ra_now api w of (w, now) \<Rightarrow>
       let remaining = deadline - now in
       if remaining = 0
       then Break (w, Inl (output_error_new OK_RejectedWrite
              (Pieces [Text ''timed out with '', Number (unat available),
                 Text '' WASAPI frames available; one complete converted frame requires '',
                 Number (unat frames)])))
       else let timeout_ms = of_nat (min (2 ^ 32 - 1) (max 1 (remaining div 1000000))) in
         case ra_wait_for_event api timeout_ms w of
           (w, Inl e) \<Rightarrow>
             Break (w, Inl (if we_kind e = EventTimeout
               then output_error_new OK_RejectedWrite
                      (Text ''timed out waiting for bounded WASAPI output space'')
               else wasapi_output_error ''wait for the WASAPI render event'' e))
         | (w, Inr _) \<Rightarrow>
             (case ra_available_space api w of
                (w, Inl e) \<Rightarrow> Break (w, Inl (wasapi_output_error ''query output buffer space after wake'' e))
              | (w, Inr available) \<Rightarrow> Continue (w, available)))"

text \<open>
  What follows once there is room: the frame is written, the stream is started as soon as it is prefilled,
  and the clock is read.  The stream keeps what was changed before a failing call.
\<close>

definition render_commit ::
  "'w render_api \<Rightarrow> nat \<Rightarrow> bool \<Rightarrow> render_stream \<Rightarrow> 'w
   \<Rightarrow> 'w \<times> render_stream \<times> (output_error + render_progress)" where
  "render_commit api write_started_at underrun s w =
     (let frames = fc_output_frames (rs_converter s) in
      case ra_write_to_device api (unat frames) (fc_bytes (rs_converter s)) w of
        (w, Inl e) \<Rightarrow> (w, s, Inl (wasapi_output_error ''render one complete frame'' e))
      | (w, Inr _) \<Rightarrow>
      (case ra_current_padding api w of
        (w, Inl e) \<Rightarrow> (w, s, Inl (wasapi_output_error ''read output padding'' e))
      | (w, Inr padding) \<Rightarrow>
      (case (if \<not> rs_started s \<and> prefill_frames (rs_buffer_frames s) frames \<le> padding
             then ra_start_stream api w else (w, Inr ())) of
        (w, Inl e) \<Rightarrow> (w, s, Inl (wasapi_output_error ''start the prefilled WASAPI render stream'' e))
      | (w, Inr _) \<Rightarrow>
        let s = s\<lparr>rs_started := rs_started s \<or> prefill_frames (rs_buffer_frames s) frames \<le> padding,
                  rs_last_write_at := Some write_started_at\<rparr> in
        if rs_started s
        then (case ra_get_position api w of
           (w, Inl e) \<Rightarrow> (w, s, Inl (wasapi_output_error ''read the WASAPI output clock position'' e))
         | (w, Inr (position, qpc)) \<Rightarrow>
             (w, s, Inr \<lparr>rp_padding = padding, rp_underrun = underrun, rp_clock_position = position,
                         rp_clock_qpc_position = qpc\<rparr>))
        else (w, s, Inr \<lparr>rp_padding = padding, rp_underrun = underrun, rp_clock_position = 0,
                         rp_clock_qpc_position = 0\<rparr>))))"

definition render_write ::
  "'w render_api \<Rightarrow> nat \<Rightarrow> pcm_samples \<Rightarrow> render_stream \<Rightarrow> 'w
   \<Rightarrow> ('w \<times> render_stream \<times> (output_error + render_progress)) option" where
  "render_write api fuel samples s w =
     (case frame_converter_convert samples (rs_converter s) of None \<Rightarrow> None
      | Some converter \<Rightarrow>
        let s = s\<lparr>rs_converter := converter\<rparr>; frames = fc_output_frames converter in
        (case ra_available_space api w of
          (w, Inl e) \<Rightarrow> Some (w, s, Inl (wasapi_output_error ''query output buffer space'' e))
        | (w, Inr available) \<Rightarrow>
          (case ra_now api w of (w, now) \<Rightarrow>
            let underrun = (rs_started s \<and> rs_buffer_frames s = available
                  \<and> (case rs_last_write_at s of None \<Rightarrow> False
                     | Some last_write \<Rightarrow> rs_underrun_grace s < now - last_write)) in
            (case run_loop (wait_turn api (now + OUTPUT_WAIT) frames) fuel (w, available) of
               None \<Rightarrow> None
             | Some (w, Inl e) \<Rightarrow> Some (w, s, Inl e)
             | Some (w, Inr _) \<Rightarrow> Some (render_commit api now underrun s w)))))"

definition render_stop ::
  "'w render_api \<Rightarrow> render_stream \<Rightarrow> 'w \<Rightarrow> 'w \<times> render_stream \<times> (output_error + unit)" where
  "render_stop api s w =
     (if rs_stopped s then (w, s, Inr ())
      else case (if rs_started s then ra_stop_stream api w else (w, Inr ())) of
        (w, Inl e) \<Rightarrow> (w, s, Inl (wasapi_output_error ''stop the WASAPI render stream'' e))
      | (w, Inr _) \<Rightarrow>
        (case ra_reset_stream api w of
          (w, Inl e) \<Rightarrow> (w, s, Inl (wasapi_output_error ''reset the WASAPI render stream'' e))
        | (w, Inr _) \<Rightarrow>
            (w, s\<lparr>rs_converter := frame_converter_clear (rs_converter s), rs_stopped := True\<rparr>, Inr ())))"

section \<open>The session\<close>

record vb_cable_output =
  vo_pair :: output_pair
  vo_stream :: "render_stream option"
  vo_diagnostics :: output_diagnostics
  vo_next_sequence :: u64

definition vb_cable_output_new :: "output_pair \<Rightarrow> vb_cable_output" where
  "vb_cable_output_new pair =
     \<lparr>vo_pair = pair, vo_stream = None, vo_diagnostics = default_diagnostics, vo_next_sequence = 0\<rparr>"

definition vb_open_session ::
  "'w render_api \<Rightarrow> session_config \<Rightarrow> vb_cable_output \<Rightarrow> 'w
   \<Rightarrow> 'w \<times> vb_cable_output \<times> (output_error + unit)" where
  "vb_open_session api config out w =
     (if vo_stream out \<noteq> None
      then (w, out, Inl (output_error_new OK_InvalidState (Text ''output session is already open'')))
      else case render_open api (oe_endpoint_id (playback (vo_pair out))) w of
        (w, Inl e) \<Rightarrow> (w, out, Inl e)
      | (w, Inr stream) \<Rightarrow>
          (w, out\<lparr>vo_diagnostics := default_diagnostics\<lparr>
                    od_state := Open,
                    od_active_session := Some (sc_session_id config),
                    od_negotiated_format := Some (fc_format (rs_converter stream)),
                    od_output_clock_frequency := Some (rs_clock_frequency stream),
                    od_counters := default_counters\<lparr>dc_session_opens := 1\<rparr>\<rparr>,
                  vo_next_sequence := 0, vo_stream := Some stream\<rparr>, Inr ()))"

abbreviation map_counters ::
  "(diagnostic_counters \<Rightarrow> diagnostic_counters) \<Rightarrow> output_diagnostics \<Rightarrow> output_diagnostics" where
  "map_counters f \<equiv> od_counters_update f"

definition count_rejected :: "diagnostic_counters \<Rightarrow> diagnostic_counters" where
  "count_rejected c = c\<lparr>dc_rejected_writes := dc_rejected_writes c + 1\<rparr>"

definition count_output_failure :: "output_error \<Rightarrow> diagnostic_counters \<Rightarrow> diagnostic_counters" where
  "count_output_failure e c =
     (let c = c\<lparr>dc_output_failures := dc_output_failures c + 1\<rparr> in
      if oerr_kind e = OK_DeviceInvalidated
      then c\<lparr>dc_endpoint_invalidations := dc_endpoint_invalidations c + 1\<rparr> else c)"

definition count_written :: "bool \<Rightarrow> bool \<Rightarrow> diagnostic_counters \<Rightarrow> diagnostic_counters" where
  "count_written converted underrun c =
     (let c = (if converted then c\<lparr>dc_converted_frames := dc_converted_frames c + 1\<rparr> else c);
          c = (if underrun \<and> 0 < dc_accepted_frames c
               then c\<lparr>dc_underruns := dc_underruns c + 1\<rparr> else c)
      in c\<lparr>dc_accepted_frames := dc_accepted_frames c + 1\<rparr>)"

definition note_written ::
  "u64 \<Rightarrow> render_stream \<Rightarrow> render_progress \<Rightarrow> output_diagnostics \<Rightarrow> output_diagnostics" where
  "note_written sequence stream progress d =
     (map_counters (count_written (fc_requires_conversion (rs_converter stream)) (rp_underrun progress)) d)
       \<lparr>od_last_accepted_sequence := Some sequence,
        od_current_padding_frames := rp_padding progress,
        od_current_depth := rp_padding progress,
        od_high_water_mark := max (od_high_water_mark d) (rp_padding progress),
        od_rendered_frames :=
          sat_add (od_rendered_frames d) (ucast (fc_output_frames (rs_converter stream))),
        od_output_clock_position := Some (rp_clock_position progress),
        od_output_clock_qpc_position := Some (rp_clock_qpc_position progress)\<rparr>"

definition vb_write_frame ::
  "'w render_api \<Rightarrow> nat \<Rightarrow> pcm_frame \<Rightarrow> vb_cable_output \<Rightarrow> 'w
   \<Rightarrow> ('w \<times> vb_cable_output \<times> (output_error + write_receipt)) option" where
  "vb_write_frame api fuel frame out w =
     (if pcm_sequence frame \<noteq> vo_next_sequence out
      then Some (w, out\<lparr>vo_diagnostics := map_counters count_rejected (vo_diagnostics out)\<rparr>,
             Inl (output_error_new OK_SequenceViolation (Text ''output frame sequence is not monotonic'')))
      else case vo_stream out of
        None \<Rightarrow> Some (w, out,
          Inl (output_error_new OK_InvalidState (Text ''output session is closed'')))
      | Some stream \<Rightarrow>
        (case render_write api fuel (pcm_data frame) stream w of
           None \<Rightarrow> None
         | Some (w, stream, Inl e) \<Rightarrow>
             Some (w, out\<lparr>vo_stream := Some stream,
                          vo_diagnostics := map_counters (count_output_failure e) (vo_diagnostics out)\<rparr>,
               Inl e)
         | Some (w, stream, Inr progress) \<Rightarrow>
             Some (w, out\<lparr>vo_stream := Some stream,
                          vo_next_sequence := sat_add (vo_next_sequence out) 1,
                          vo_diagnostics :=
                            note_written (pcm_sequence frame) stream progress (vo_diagnostics out)\<rparr>,
               Inr (Accepted (pcm_sequence frame)))))"

definition vb_diagnostics :: "vb_cable_output \<Rightarrow> output_error + output_diagnostics" where
  "vb_diagnostics out = Inr (vo_diagnostics out)"

text \<open>The state after \<^verbatim>\<open>self.stream.take()\<close>: a failing stop returns before anything else is changed.\<close>

definition vb_close_session ::
  "'w render_api \<Rightarrow> vb_cable_output \<Rightarrow> 'w \<Rightarrow> 'w \<times> vb_cable_output \<times> (output_error + unit)" where
  "vb_close_session api out w =
     (let closed = (\<lambda>d. d\<lparr>od_state := Closed, od_active_session := None, od_current_depth := 0,
                        od_current_padding_frames := 0\<rparr>) in
      case vo_stream out of
        None \<Rightarrow> (w, out\<lparr>vo_next_sequence := 0, vo_diagnostics := closed (vo_diagnostics out)\<rparr>, Inr ())
      | Some stream \<Rightarrow>
        (case render_stop api stream w of
          (w, _, Inl e) \<Rightarrow> (w, out\<lparr>vo_stream := None\<rparr>, Inl e)
        | (w, _, Inr _) \<Rightarrow>
            (w, out\<lparr>vo_stream := None, vo_next_sequence := 0,
                    vo_diagnostics := closed (map_counters
                      (\<lambda>c. c\<lparr>dc_session_closes := dc_session_closes c + 1\<rparr>) (vo_diagnostics out))\<rparr>,
             Inr ())))"

text \<open>\<^verbatim>\<open>Drop\<close> closes the session and ignores the result.\<close>

definition vb_drop :: "'w render_api \<Rightarrow> vb_cable_output \<Rightarrow> 'w \<Rightarrow> 'w" where
  "vb_drop api out w = fst (vb_close_session api out w)"

end
