(* ===== verification/Windows_Session.thy ===== *)
theory Windows_Session
  imports Windows_Output "HOL-Library.Sublist"
begin

text \<open>
  What the output adapter guarantees: a write returns, the endpoint only ever receives whole converted
  frames in the order they were accepted, the diagnostics of a session account for every write, and what a
  failing close leaves behind.
\<close>

section \<open>Writing returns\<close>

definition clock_of :: "'w render_api \<Rightarrow> 'w \<Rightarrow> nat" where
  "clock_of api w = snd (ra_now api w)"

text \<open>Reading the clock does not turn it back, and a round of waiting takes at least a nanosecond.\<close>

definition waiting_takes_time :: "'w render_api \<Rightarrow> bool" where
  "waiting_takes_time api \<longleftrightarrow>
     (\<forall>w. clock_of api w \<le> clock_of api (fst (ra_now api w)))
   \<and> (\<forall>w t w' w'' a. ra_wait_for_event api t (fst (ra_now api w)) = (w', Inr ()) \<longrightarrow>
        ra_available_space api w' = (w'', Inr a) \<longrightarrow> clock_of api w < clock_of api w'')"

lemma wait_turn_Continue:
  assumes "wait_turn api deadline frames (w, available) = Continue c"
  shows "\<exists>t w' w'' a. c = (w'', a) \<and> clock_of api w < deadline
    \<and> ra_wait_for_event api t (fst (ra_now api w)) = (w', Inr ()) \<and> ra_available_space api w' = (w'', Inr a)"
  using assms
  by (auto simp: wait_turn_def clock_of_def Let_def split: if_splits prod.splits sum.splits)

lemma wait_loop_returns:
  assumes "waiting_takes_time api" "deadline - clock_of api w < fuel"
  shows "\<exists>b. run_loop (wait_turn api deadline frames) fuel (w, available) = Some b"
proof -
  let ?\<mu> = "\<lambda>c. deadline - clock_of api (fst c)"
  have "\<exists>b. run_loop (wait_turn api deadline frames) (Suc (?\<mu> (w, available))) (w, available) = Some b"
  proof (rule run_loop_terminates [where I = "\<lambda>_. True"])
    fix c c' assume step: "wait_turn api deadline frames c = Continue c'"
    obtain w available where c: "c = (w, available)" by fastforce
    from wait_turn_Continue [OF step [unfolded c]] obtain t w' w'' a where c': "c' = (w'', a)"
      "clock_of api w < deadline"
      "ra_wait_for_event api t (fst (ra_now api w)) = (w', Inr ())" "ra_available_space api w' = (w'', Inr a)"
      by blast
    with assms(1) have "clock_of api w < clock_of api w''"
      unfolding waiting_takes_time_def by blast
    with c c' show "True \<and> ?\<mu> c' < ?\<mu> c" by simp
  qed simp
  then obtain b where "run_loop (wait_turn api deadline frames) (Suc (?\<mu> (w, available))) (w, available) = Some b"
    by blast
  from run_loop_mono [OF this, of fuel] assms(2) show ?thesis by auto
qed

lemma render_write_total:
  assumes "waiting_takes_time api" "converter_ok (rs_converter s)" "length samples = FRAME_SAMPLES"
    "OUTPUT_WAIT < fuel"
  shows "\<exists>r. render_write api fuel samples s w = Some r"
proof -
  obtain converter where converter: "frame_converter_convert samples (rs_converter s) = Some converter"
    using convert_converter_ok [OF assms(2,3)] by blast
  obtain w1 res where space: "ra_available_space api w = (w1, res)" by fastforce
  show ?thesis
  proof (cases res)
    case (Inl e)
    with converter space show ?thesis by (simp add: render_write_def)
  next
    case (Inr available)
    obtain w2 now where now: "ra_now api w1 = (w2, now)" by fastforce
    then have "now \<le> clock_of api w2"
      using assms(1) by (metis clock_of_def fst_conv snd_conv waiting_takes_time_def)
    then have "now + OUTPUT_WAIT - clock_of api w2 < fuel" using assms(4) by simp
    from wait_loop_returns [OF assms(1) this] obtain b where
      "run_loop (wait_turn api (now + OUTPUT_WAIT) (fc_output_frames converter)) fuel (w2, available) = Some b"
      by blast
    with converter space Inr now show ?thesis
      by (auto simp: render_write_def Let_def split: prod.split sum.split) (metis prod_cases3)
  qed
qed


section \<open>What the endpoint receives\<close>

text \<open>
  An observation of the endpoint: the writes that succeeded, in order.  Nothing else the adapter calls
  changes it.
\<close>

definition hears :: "'w render_api \<Rightarrow> ('w \<Rightarrow> (nat \<times> u8 list) list) \<Rightarrow> bool" where
  "hears api heard \<longleftrightarrow>
     (\<forall>n bytes w. heard (fst (ra_write_to_device api n bytes w))
        = (case snd (ra_write_to_device api n bytes w) of Inl _ \<Rightarrow> heard w | Inr _ \<Rightarrow> heard w @ [(n, bytes)]))
   \<and> (\<forall>w. heard (fst (ra_available_space api w)) = heard w \<and> heard (fst (ra_now api w)) = heard w
        \<and> heard (fst (ra_current_padding api w)) = heard w \<and> heard (fst (ra_start_stream api w)) = heard w
        \<and> heard (fst (ra_get_position api w)) = heard w)
   \<and> (\<forall>t w. heard (fst (ra_wait_for_event api t w)) = heard w)"

lemma hears_fst:
  assumes "hears api heard"
  shows "ra_available_space api w = (w', r1) \<Longrightarrow> heard w' = heard w"
    "ra_now api w = (w', r2) \<Longrightarrow> heard w' = heard w"
    "ra_current_padding api w = (w', r3) \<Longrightarrow> heard w' = heard w"
    "ra_start_stream api w = (w', r4) \<Longrightarrow> heard w' = heard w"
    "ra_get_position api w = (w', r5) \<Longrightarrow> heard w' = heard w"
    "ra_wait_for_event api t w = (w', r6) \<Longrightarrow> heard w' = heard w"
    "ra_write_to_device api n bytes w = (w', Inl e) \<Longrightarrow> heard w' = heard w"
    "ra_write_to_device api n bytes w = (w', Inr ()) \<Longrightarrow> heard w' = heard w @ [(n, bytes)]"
  using assms unfolding hears_def by (metis fst_conv snd_conv sum.case)+

lemma wait_turn_heard:
  assumes "hears api heard"
  shows "wait_turn api deadline frames (w, a) = Continue (w', a') \<Longrightarrow> heard w' = heard w"
    "wait_turn api deadline frames (w, a) = Break (w', r) \<Longrightarrow> heard w' = heard w"
  by (auto simp: wait_turn_def Let_def hears_fst [OF assms] split: if_splits prod.splits sum.splits)

lemma wait_loop_heard:
  assumes "hears api heard" "run_loop (wait_turn api deadline frames) fuel (w, a) = Some (w', r)"
  shows "heard w' = heard w"
proof -
  have "heard (fst (w', r)) = heard w"
    by (rule run_loop_invariant [OF assms(2), where I = "\<lambda>c. heard (fst c) = heard w"])
      (auto simp: wait_turn_heard [OF assms(1)])
  then show ?thesis by simp
qed

lemma render_commit_heard:
  assumes "hears api heard" "render_commit api t u s w = (w', s', r)"
  defines "sent \<equiv> (unat (fc_output_frames (rs_converter s)), fc_bytes (rs_converter s))"
  shows "(\<forall>p. r = Inr p \<longrightarrow> heard w' = heard w @ [sent]) \<and> (heard w' = heard w \<or> heard w' = heard w @ [sent])"
    "rs_converter s' = rs_converter s"
  using assms(2)
  by (auto simp: render_commit_def sent_def Let_def hears_fst [OF assms(1)]
      split: if_splits prod.splits sum.splits)

text \<open>What a write leaves alone, and what it can fail with.\<close>

definition same_format :: "frame_converter \<Rightarrow> frame_converter \<Rightarrow> bool" where
  "same_format c c' \<longleftrightarrow> fc_format c' = fc_format c \<and> fc_output_frames c' = fc_output_frames c
     \<and> fc_requires_conversion c' = fc_requires_conversion c \<and> length (fc_bytes c') = length (fc_bytes c)"

lemma same_format_refl [simp]: "same_format c c"
  by (simp add: same_format_def)

lemma same_format_trans: "same_format a b \<Longrightarrow> same_format b c \<Longrightarrow> same_format a c"
  by (simp add: same_format_def)

lemma same_format_ok: "same_format c c' \<Longrightarrow> converter_ok c \<Longrightarrow> converter_ok c'"
  by (simp add: same_format_def converter_ok_def)

definition adapter_error :: "output_error \<Rightarrow> bool" where
  "adapter_error e \<longleftrightarrow> oerr_kind e = OK_SequenceViolation \<or> oerr_kind e = OK_InvalidState"

lemma library_error [simp]: "\<not> adapter_error (wasapi_output_error op e)"
  by (simp add: adapter_error_def wasapi_output_error_def output_error_kind_of_def
      split: wasapi_error_kind.split)

lemma rejected_write_error [simp]: "\<not> adapter_error (output_error_new OK_RejectedWrite m)"
  by (simp add: adapter_error_def)

lemma wait_loop_error:
  "run_loop (wait_turn api deadline frames) fuel c = Some (w', Inl e) \<Longrightarrow> \<not> adapter_error e"
proof -
  assume "run_loop (wait_turn api deadline frames) fuel c = Some (w', Inl e)"
  then have "case (w', Inl e :: output_error + unit) of (_, Inl e) \<Rightarrow> \<not> adapter_error e | _ \<Rightarrow> True"
    by (rule run_loop_invariant [where I = "\<lambda>_. True"])
      (auto simp: wait_turn_def Let_def split: if_splits prod.splits sum.splits)
  then show ?thesis by simp
qed

lemma render_commit_keeps:
  "render_commit api t u s w = (w', s', r) \<Longrightarrow> rs_converter s' = rs_converter s \<and> rs_stopped s' = rs_stopped s
    \<and> (\<forall>e. r = Inl e \<longrightarrow> \<not> adapter_error e)"
  by (auto simp: render_commit_def Let_def split: if_splits prod.splits sum.splits)

lemma render_write_cases:
  assumes "render_write api fuel samples s w = Some (w', s', r)"
    "converter_ok (rs_converter s)" "length samples = FRAME_SAMPLES"
  defines "s1 \<equiv> s\<lparr>rs_converter := rs_converter s\<lparr>fc_bytes :=
      converted_frame (fc_format (rs_converter s)) (unat (fc_output_frames (rs_converter s))) samples\<rparr>\<rparr>"
  shows "(\<exists>e. ra_available_space api w = (w', Inl e) \<and> s' = s1 \<and> r = Inl (wasapi_output_error ''query output buffer space'' e))
    \<or> (\<exists>w1 a w2 now w3 v. ra_available_space api w = (w1, Inr a) \<and> ra_now api w1 = (w2, now)
        \<and> run_loop (wait_turn api (now + OUTPUT_WAIT) (fc_output_frames (rs_converter s))) fuel (w2, a) = Some (w3, v)
        \<and> ((\<exists>e. v = Inl e \<and> w' = w3 \<and> s' = s1 \<and> r = Inl e)
          \<or> (\<exists>u. v = Inr () \<and> render_commit api now u s1 w3 = (w', s', r))))"
  using assms(1)
  by (auto simp: render_write_def convert_converter_ok [OF assms(2,3)] s1_def Let_def
      split: prod.splits sum.splits option.splits)

lemma converted_length:
  assumes "converter_ok c" "length samples = FRAME_SAMPLES"
  shows "length (converted_frame (fc_format c) (unat (fc_output_frames c)) samples) = length (fc_bytes c)"
proof -
  have rep: "supported_representation (of_sample_type (fc_format c)) (of_bits_per_sample (fc_format c))"
    using assms(1) by (simp add: converter_ok_def)
  have "length (converted_frame (fc_format c) (unat (fc_output_frames c)) samples)
    = unat (fc_output_frames c) * (unat (of_channels (fc_format c))
       * unat (of_bits_per_sample (fc_format c) div 8))"
    unfolding converted_frame_def
    by (rule length_blocks) (simp add: length_concat sum_list_replicate encode_sample_total(2) [OF rep])
  with assms(1) show ?thesis by (simp add: converter_ok_def mult.assoc)
qed

lemma render_write_keeps:
  assumes "render_write api fuel samples s w = Some (w', s', r)"
    "converter_ok (rs_converter s)" "length samples = FRAME_SAMPLES"
  shows "same_format (rs_converter s) (rs_converter s')" "rs_stopped s' = rs_stopped s"
    "\<And>e. r = Inl e \<Longrightarrow> \<not> adapter_error e"
  using render_write_cases [OF assms] converted_length [OF assms(2,3)]
  by (auto simp: same_format_def dest!: render_commit_keeps wait_loop_error)

lemma render_write_heard:
  assumes "render_write api fuel samples s w = Some (w', s', r)"
    "converter_ok (rs_converter s)" "length samples = FRAME_SAMPLES" "hears api heard"
  defines "sent \<equiv> (unat (fc_output_frames (rs_converter s)),
      converted_frame (fc_format (rs_converter s)) (unat (fc_output_frames (rs_converter s))) samples)"
  shows "heard w' = heard w @ [sent] \<or> heard w' = heard w \<and> is_err r"
  using render_write_cases [OF assms(1-3)]
proof (elim disjE exE conjE)
  fix w1 a w2 now w3 v u
  assume "ra_available_space api w = (w1, Inr a)" "ra_now api w1 = (w2, now)"
    and run: "run_loop (wait_turn api (now + OUTPUT_WAIT) (fc_output_frames (rs_converter s))) fuel (w2, a)
      = Some (w3, v)"
    and commit: "render_commit api now u (s\<lparr>rs_converter := rs_converter s\<lparr>fc_bytes :=
      converted_frame (fc_format (rs_converter s)) (unat (fc_output_frames (rs_converter s))) samples\<rparr>\<rparr>) w3
      = (w', s', r)"
  then have "heard w3 = heard w"
    using wait_loop_heard [OF assms(4) run] hears_fst [OF assms(4)] by simp
  with render_commit_heard(1) [OF assms(4) commit] show ?thesis
    by (cases r) (auto simp: sent_def)
next
  fix w1 a w2 now w3 v e
  assume "ra_available_space api w = (w1, Inr a)" "ra_now api w1 = (w2, now)" "w' = w3" "r = Inl e"
    and run: "run_loop (wait_turn api (now + OUTPUT_WAIT) (fc_output_frames (rs_converter s))) fuel (w2, a)
      = Some (w3, v)"
  then show ?thesis
    using wait_loop_heard [OF assms(4) run] hears_fst [OF assms(4)] by simp
qed (simp add: hears_fst [OF assms(4)])

section \<open>Accounting for the writes of a session\<close>

fun vb_writes ::
  "'w render_api \<Rightarrow> nat \<Rightarrow> pcm_frame list \<Rightarrow> vb_cable_output \<Rightarrow> 'w
   \<Rightarrow> ('w \<times> vb_cable_output \<times> (output_error + write_receipt) list) option" where
  "vb_writes api fuel [] out w = Some (w, out, [])"
| "vb_writes api fuel (f # fs) out w =
     (case vb_write_frame api fuel f out w of None \<Rightarrow> None
      | Some (w, out, r) \<Rightarrow>
        (case vb_writes api fuel fs out w of None \<Rightarrow> None
         | Some (w, out, rs) \<Rightarrow> Some (w, out, r # rs)))"

definition out_of_order :: "output_error + write_receipt \<Rightarrow> bool" where
  "out_of_order r = (case r of Inl e \<Rightarrow> oerr_kind e = OK_SequenceViolation | Inr _ \<Rightarrow> False)"

definition accepted :: "output_error + write_receipt \<Rightarrow> bool" where
  "accepted r = (case r of Inl _ \<Rightarrow> False | Inr _ \<Rightarrow> True)"

definition device_failed :: "output_error + write_receipt \<Rightarrow> bool" where
  "device_failed r \<longleftrightarrow> \<not> accepted r \<and> \<not> out_of_order r"

lemma outcome_simps [simp]:
  "accepted (Inr a)" "\<not> accepted (Inl e)" "\<not> out_of_order (Inr a)" "\<not> device_failed (Inr a)"
  "out_of_order (Inl e) \<longleftrightarrow> oerr_kind e = OK_SequenceViolation"
  "device_failed (Inl e) \<longleftrightarrow> oerr_kind e \<noteq> OK_SequenceViolation"
  by (simp_all add: accepted_def out_of_order_def device_failed_def)

definition count :: "('a \<Rightarrow> bool) \<Rightarrow> 'a list \<Rightarrow> nat" where
  "count P xs = length (filter P xs)"

lemma count_simps [simp]:
  "count P [] = 0" "count P (x # xs) = (if P x then Suc (count P xs) else count P xs)"
  by (simp_all add: count_def)

text \<open>The frames whose write was accepted.\<close>

fun accepted_writes :: "pcm_frame list \<Rightarrow> (output_error + write_receipt) list \<Rightarrow> pcm_frame list" where
  "accepted_writes (f # fs) (r # rs) =
     (if accepted r then f # accepted_writes fs rs else accepted_writes fs rs)"
| "accepted_writes _ _ = []"

text \<open>
  The diagnostics after \<open>n\<close> accepted writes, \<open>rej\<close> writes out of order and \<open>bad\<close> writes that failed at the
  device.
\<close>

definition accounts :: "frame_converter \<Rightarrow> nat \<Rightarrow> nat \<Rightarrow> nat \<Rightarrow> vb_cable_output \<Rightarrow> bool" where
  "accounts c n rej bad out \<longleftrightarrow>
     (let d = vo_diagnostics out; k = od_counters d in
      (\<exists>s. vo_stream out = Some s \<and> same_format c (rs_converter s) \<and> \<not> rs_stopped s)
    \<and> unat (vo_next_sequence out) = n
    \<and> unat (dc_accepted_frames k) = n
    \<and> od_last_accepted_sequence d = (if n = 0 then None else Some (of_nat (n - 1)))
    \<and> unat (od_rendered_frames d) = n * unat (fc_output_frames c)
    \<and> unat (dc_converted_frames k) = (if fc_requires_conversion c then n else 0)
    \<and> unat (dc_underruns k) \<le> n - 1
    \<and> unat (dc_rejected_writes k) = rej
    \<and> unat (dc_output_failures k) = bad \<and> unat (dc_endpoint_invalidations k) \<le> bad
    \<and> od_current_depth d = od_current_padding_frames d
    \<and> od_current_padding_frames d \<le> od_high_water_mark d
    \<and> od_state d = Open \<and> od_negotiated_format d = Some (fc_format c)
    \<and> dc_session_opens k = 1 \<and> dc_session_closes k = 0)"

lemma unat_Suc_small:
  fixes a :: u64
  shows "unat a < 2 ^ 64 - 1 \<Longrightarrow> unat (a + 1) = Suc (unat a)"
  by (simp add: unat_word_ariths)

lemma accounts_open:
  assumes "vb_open_session api config out w = (w', out', Inr ())"
  shows "\<exists>s. vo_stream out' = Some s \<and> converter_ok (rs_converter s) \<and> accounts (rs_converter s) 0 0 0 out'"
proof -
  from assms obtain s where "vo_stream out = None"
    and "render_open api (oe_endpoint_id (playback (vo_pair out))) w = (w', Inr s)"
    and out': "out' = out\<lparr>vo_diagnostics := default_diagnostics\<lparr>
                    od_state := Open,
                    od_active_session := Some (sc_session_id config),
                    od_negotiated_format := Some (fc_format (rs_converter s)),
                    od_output_clock_frequency := Some (rs_clock_frequency s),
                    od_counters := default_counters\<lparr>dc_session_opens := 1\<rparr>\<rparr>,
                  vo_next_sequence := 0, vo_stream := Some s\<rparr>"
    by (auto simp: vb_open_session_def split: if_splits prod.splits sum.splits)
  moreover from this(2) have "\<not> rs_stopped s \<and> (\<exists>mix. frame_converter_new mix = Inr (rs_converter s))"
    by (auto simp: render_open_def api_lift_def api_call_def Let_def split: prod.splits sum.splits)
  ultimately show ?thesis
    using frame_converter_new_ok
    by (auto simp: accounts_def default_diagnostics_def default_counters_def)
qed

lemma accounts_rejected:
  assumes "accounts c n rej bad out" "n + rej + bad < 2 ^ 32"
  shows "accounts c n (Suc rej) bad
    (out\<lparr>vo_diagnostics := map_counters count_rejected (vo_diagnostics out)\<rparr>)"
  using assms by (auto simp: accounts_def count_rejected_def unat_Suc_small Let_def)

lemma accounts_failed:
  assumes "accounts c n rej bad out" "n + rej + bad < 2 ^ 32"
    and "same_format c (rs_converter s)" "\<not> rs_stopped s"
  shows "accounts c n rej (Suc bad)
    (out\<lparr>vo_stream := Some s, vo_diagnostics := map_counters (count_output_failure e) (vo_diagnostics out)\<rparr>)"
proof -
  have "unat (dc_endpoint_invalidations (od_counters (vo_diagnostics out))) \<le> bad"
    using assms(1) by (simp add: accounts_def Let_def)
  then have "unat (dc_endpoint_invalidations (od_counters (vo_diagnostics out)) + 1) \<le> Suc bad"
    using assms(2) by (subst unat_Suc_small) auto
  with assms show ?thesis by (auto simp: accounts_def count_output_failure_def unat_Suc_small Let_def)
qed

lemma rendered_total:
  fixes r :: u64 and f :: u32
  assumes "unat r = n * unat f" "n < 2 ^ 32"
  shows "unat (sat_add r (ucast f)) = Suc n * unat f"
proof -
  have f: "unat f < 2 ^ 32" using unsigned_less [of f, where ?'a = nat] by simp
  then have "Suc n * unat f \<le> 2 ^ 32 * (2 ^ 32 - 1)" using assms(2) by (intro mult_mono) auto
  moreover have "unat (ucast f :: u64) = unat f"
    using f by (simp add: unsigned_ucast_eq take_bit_nat_eq_self)
  ultimately show ?thesis using assms(1) by (simp add: unat_sat_add)
qed

lemma accounts_written:
  assumes "accounts c n rej bad out" "n + rej + bad < 2 ^ 32"
    and "same_format c (rs_converter s)" "\<not> rs_stopped s"
  shows "accounts c (Suc n) rej bad
    (out\<lparr>vo_stream := Some s, vo_next_sequence := sat_add (vo_next_sequence out) 1,
         vo_diagnostics := note_written (of_nat n) s progress (vo_diagnostics out)\<rparr>)"
proof -
  let ?d = "vo_diagnostics out" and ?k = "od_counters (vo_diagnostics out)"
  have "unat (sat_add (vo_next_sequence out) 1) = Suc n" "unat (dc_accepted_frames ?k + 1) = Suc n"
    "unat (sat_add (od_rendered_frames ?d) (ucast (fc_output_frames (rs_converter s))))
      = Suc n * unat (fc_output_frames c)"
    using assms rendered_total [of "od_rendered_frames ?d" n "fc_output_frames c"]
    by (auto simp: accounts_def same_format_def unat_sat_add unat_Suc_small Let_def)
  moreover have "unat (dc_converted_frames ?k + 1) = Suc n" if "fc_requires_conversion c"
    using assms(1,2) that by (auto simp: accounts_def unat_Suc_small Let_def)
  moreover have "unat (dc_underruns ?k + 1) \<le> n" if "0 < dc_accepted_frames ?k"
  proof -
    have "unat (dc_underruns ?k) \<le> n - 1" "0 < n"
      using assms(1) that by (auto simp: accounts_def Let_def word_gt_0 unat_gt_0 [symmetric])
    moreover from this have "unat (dc_underruns ?k + 1) = Suc (unat (dc_underruns ?k))"
      using assms(2) by (intro unat_Suc_small) simp
    ultimately show ?thesis by simp
  qed
  moreover have "fc_requires_conversion (rs_converter s) = fc_requires_conversion c"
    using assms(3) by (simp add: same_format_def)
  ultimately show ?thesis
    using assms by (auto simp: accounts_def note_written_def count_written_def Let_def)
qed

lemma accounts_step:
  assumes "accounts c n rej bad out" "converter_ok c" "n + rej + bad < 2 ^ 32"
    and "length (pcm_data f) = FRAME_SAMPLES" "vb_write_frame api fuel f out w = Some (w', out', r)"
  shows "accounts c (n + of_bool (accepted r)) (rej + of_bool (out_of_order r))
      (bad + of_bool (device_failed r)) out'
    \<and> (\<forall>a. r = Inr a \<longrightarrow> a = Accepted (of_nat n) \<and> pcm_sequence f = of_nat n)"
proof (cases "pcm_sequence f = vo_next_sequence out")
  case False
  then show ?thesis using assms accounts_rejected [OF assms(1,3)] by (auto simp: vb_write_frame_def)
next
  case True
  obtain s where s: "vo_stream out = Some s" "same_format c (rs_converter s)" "\<not> rs_stopped s"
    using assms(1) by (auto simp: accounts_def Let_def)
  have seq: "vo_next_sequence out = of_nat n"
    using assms(1) by (auto simp: accounts_def Let_def)
  obtain s' res where wrote: "render_write api fuel (pcm_data f) s w = Some (w', s', res)"
    using assms(5) True s(1) by (auto simp: vb_write_frame_def split: option.splits prod.splits sum.splits)
  have kept: "same_format c (rs_converter s')" "\<not> rs_stopped s'"
    "\<And>e. res = Inl e \<Longrightarrow> oerr_kind e \<noteq> OK_SequenceViolation"
    using render_write_keeps [OF wrote same_format_ok [OF s(2) assms(2)] assms(4)] s(2,3)
    by (auto intro: same_format_trans simp: adapter_error_def)
  show ?thesis
  proof (cases res)
    case (Inl e)
    then show ?thesis
      using assms(5) True s(1) wrote kept accounts_failed [OF assms(1,3) kept(1,2)]
      by (auto simp: vb_write_frame_def)
  next
    case (Inr progress)
    then show ?thesis
      using assms(5) True s(1) wrote seq accounts_written [OF assms(1,3) kept(1,2)]
      by (auto simp: vb_write_frame_def)
  qed
qed

lemma accounts_run:
  assumes "accounts c n rej bad out" "converter_ok c" "n + rej + bad + length fs < 2 ^ 32"
    and "\<forall>f \<in> set fs. length (pcm_data f) = FRAME_SAMPLES"
    and "vb_writes api fuel fs out w = Some (w', out', rs)"
  shows "accounts c (n + count accepted rs) (rej + count out_of_order rs) (bad + count device_failed rs) out'
    \<and> length rs = length fs
    \<and> map pcm_sequence (accepted_writes fs rs)
      = map of_nat [n..<n + count accepted rs]"
  using assms
proof (induction fs arbitrary: n rej bad out w rs)
  case (Cons f fs)
  from Cons.prems(5) obtain w1 out1 r rs1 where step: "vb_write_frame api fuel f out w = Some (w1, out1, r)"
    and rest: "vb_writes api fuel fs out1 w1 = Some (w', out', rs1)" and rs: "rs = r # rs1"
    by (auto split: option.splits)
  let ?n = "n + of_bool (accepted r)" and ?rej = "rej + of_bool (out_of_order r)"
    and ?bad = "bad + of_bool (device_failed r)"
  have one: "of_bool (accepted r) + of_bool (out_of_order r) + of_bool (device_failed r) = (1 :: nat)"
    by (cases r) auto
  from accounts_step [OF Cons.prems(1,2) _ _ step] Cons.prems(3,4)
  have s: "accounts c ?n ?rej ?bad out1" "\<forall>a. r = Inr a \<longrightarrow> pcm_sequence f = of_nat n" by auto
  have room: "?n + ?rej + ?bad + length fs < 2 ^ 32" using Cons.prems(3) one by simp
  have fs: "\<forall>f \<in> set fs. length (pcm_data f) = FRAME_SAMPLES" using Cons.prems(4) by simp
  note IH = Cons.IH [OF s(1) Cons.prems(2) room fs rest]
  show ?case
    using IH s(2) rs by (cases r) (auto simp: upt_conv_Cons ac_simps Suc_le_eq)
qed simp

text \<open>C26
  From a successful open, whatever frames are written and whatever fails: the accepted writes carry exactly
  the sequence numbers 0, 1, 2, ...; the diagnostics count accepted, rejected and failed writes exactly;
  the rendered frames are ten milliseconds per accepted write; converted frames are all or none; there is
  an underrun at most between two accepted writes; and the padding is below the high-water mark.\<close>

theorem session_accounts_for_writes:
  assumes "vb_open_session api config out0 w0 = (w1, out1, Inr ())" "length fs < 2 ^ 32"
    and "\<forall>f \<in> set fs. length (pcm_data f) = FRAME_SAMPLES"
    and "vb_writes api fuel fs out1 w1 = Some (w2, out2, rs)"
  shows "\<exists>s. vo_stream out1 = Some s \<and> length rs = length fs
    \<and> map pcm_sequence (accepted_writes fs rs) = map of_nat [0..<count accepted rs]
    \<and> accounts (rs_converter s) (count accepted rs) (count out_of_order rs) (count device_failed rs) out2"
proof -
  obtain s where s: "vo_stream out1 = Some s" "converter_ok (rs_converter s)"
      "accounts (rs_converter s) 0 0 0 out1"
    using accounts_open [OF assms(1)] by blast
  with accounts_run [OF s(3,2) _ assms(3,4)] assms(2) show ?thesis by auto
qed

section \<open>Whole frames in order\<close>

lemma vb_write_frame_heard:
  assumes "hears api heard" "vo_stream out = Some s" "same_format c (rs_converter s)" "converter_ok c"
    and "length (pcm_data f) = FRAME_SAMPLES" "vb_write_frame api fuel f out w = Some (w', out', r)"
  defines "sent \<equiv> (unat (fc_output_frames c), converted_frame (fc_format c) (unat (fc_output_frames c)) (pcm_data f))"
  shows "(heard w' = heard w @ [sent] \<or> heard w' = heard w \<and> \<not> accepted r)
    \<and> (\<exists>s'. vo_stream out' = Some s' \<and> same_format c (rs_converter s'))"
proof (cases "pcm_sequence f = vo_next_sequence out")
  case False
  then show ?thesis using assms(2,3,6) by (auto simp: vb_write_frame_def)
next
  case True
  have ok: "converter_ok (rs_converter s)" using assms(3,4) by (rule same_format_ok)
  obtain s' res where wrote: "render_write api fuel (pcm_data f) s w = Some (w', s', res)"
    and out': "vo_stream out' = Some s'" and r: "is_err res \<Longrightarrow> \<not> accepted r"
    using assms(2,6) True by (auto simp: vb_write_frame_def split: option.splits prod.splits sum.splits)
  have "same_format c (rs_converter s')"
    using render_write_keeps(1) [OF wrote ok assms(5)] assms(3) by (auto intro: same_format_trans)
  with render_write_heard [OF wrote ok assms(5,1)] out' r assms(3) show ?thesis
    by (auto simp: sent_def same_format_def)
qed

text \<open>The endpoint never receives a partial frame: whatever fails, what it is given during a session is the
  list of complete conversions of some of the written frames, in the order of the writes, among them every
  frame whose write was accepted.\<close>

theorem endpoint_hears_whole_frames:
  assumes "hears api heard" "vb_open_session api config out0 w0 = (w1, out1, Inr ())"
    and "\<forall>f \<in> set fs. length (pcm_data f) = FRAME_SAMPLES"
    and "vb_writes api fuel fs out1 w1 = Some (w2, out2, rs)"
  shows "\<exists>s given. vo_stream out1 = Some s
    \<and> heard w2 = heard w1 @ map (\<lambda>f. (unat (fc_output_frames (rs_converter s)),
         converted_frame (fc_format (rs_converter s)) (unat (fc_output_frames (rs_converter s))) (pcm_data f))) given
    \<and> subseq given fs
    \<and> subseq (accepted_writes fs rs) given"
proof -
  obtain s where s: "vo_stream out1 = Some s" "converter_ok (rs_converter s)"
    using accounts_open [OF assms(2)] by blast
  define c where "c = rs_converter s"
  have c: "converter_ok c" "\<exists>s. vo_stream out1 = Some s \<and> same_format c (rs_converter s)"
    using s by (simp_all add: c_def)
  define sent where "sent f = (unat (fc_output_frames c),
    converted_frame (fc_format c) (unat (fc_output_frames c)) (pcm_data f))" for f :: pcm_frame
  have "\<exists>given. heard w2 = heard w1 @ map sent given \<and> subseq given fs
      \<and> subseq (accepted_writes fs rs) given"
    using assms(3,4) c(2)
  proof (induction fs arbitrary: out1 w1 rs)
    case (Cons f fs)
    from Cons.prems(2) obtain w' out' r rs1 where step: "vb_write_frame api fuel f out1 w1 = Some (w', out', r)"
      and rest: "vb_writes api fuel fs out' w' = Some (w2, out2, rs1)" and rs: "rs = r # rs1"
      by (auto split: option.splits)
    obtain s where "vo_stream out1 = Some s" "same_format c (rs_converter s)" using Cons.prems(3) by blast
    from vb_write_frame_heard [OF assms(1) this c(1) _ step] Cons.prems(1)
    have heard: "heard w' = heard w1 @ [sent f] \<or> heard w' = heard w1 \<and> \<not> accepted r"
      and next_stream: "\<exists>s'. vo_stream out' = Some s' \<and> same_format c (rs_converter s')"
      by (auto simp: sent_def)
    have fs: "\<forall>f \<in> set fs. length (pcm_data f) = FRAME_SAMPLES" using Cons.prems(1) by simp
    obtain given where given: "heard w2 = heard w' @ map sent given" "subseq given fs"
        "subseq (accepted_writes fs rs1) given"
      using Cons.IH [OF fs rest next_stream] by blast
    from heard show ?case
    proof
      assume "heard w' = heard w1 @ [sent f]"
      with given rs show ?thesis
        by (intro exI [of _ "f # given"]) (auto intro: list_emb_Cons)
    next
      assume "heard w' = heard w1 \<and> \<not> accepted r"
      with given rs show ?thesis by (intro exI [of _ given]) auto
    qed
  qed simp
  with s(1) show ?thesis unfolding sent_def [abs_def] c_def by blast
qed

section \<open>A close that fails\<close>

text \<open>When the stream cannot be stopped, close reports the error but has already given the stream up: the
  diagnostics keep saying that the session is open, every further write is refused because the session is
  closed or the number is wrong, and the next close succeeds without counting a closed session.\<close>

theorem failed_close_is_forgotten:
  assumes "vo_stream out = Some s" "render_stop api s w = (w1, s1, Inl e)"
  shows "\<exists>out1. vb_close_session api out w = (w1, out1, Inl e) \<and> vo_stream out1 = None
    \<and> vo_diagnostics out1 = vo_diagnostics out
    \<and> (\<forall>fuel f w. \<exists>out2 e2. vb_write_frame api fuel f out1 w = Some (w, out2, Inl e2) \<and> adapter_error e2)
    \<and> (\<forall>w. \<exists>out3. vb_close_session api out1 w = (w, out3, Inr ())
        \<and> od_counters (vo_diagnostics out3) = od_counters (vo_diagnostics out))"
  using assms by (auto simp: vb_close_session_def vb_write_frame_def adapter_error_def)

section \<open>A concrete endpoint\<close>

text \<open>A clock, a buffer that always has room, and the writes so far.\<close>

type_synonym endpoint = "nat \<times> (nat \<times> u8 list) list"

definition roomy_api :: "endpoint render_api" where
  "roomy_api =
     \<lparr>ra_platform = (\<lambda>_. cable_platform),
      ra_get_iaudioclient = (\<lambda>_ w. (w, Inr ())), ra_get_mixformat = (\<lambda>w. (w, Inr cable_format)),
      ra_get_device_period = (\<lambda>w. (w, Inr 100000)), ra_initialize_client = (\<lambda>_ _ w. (w, Inr ())),
      ra_set_get_eventhandle = (\<lambda>w. (w, Inr ())), ra_get_audiorenderclient = (\<lambda>w. (w, Inr ())),
      ra_get_audioclock = (\<lambda>w. (w, Inr ())), ra_get_frequency = (\<lambda>w. (w, Inr 48000)),
      ra_get_buffer_size = (\<lambda>w. (w, Inr 4)), ra_available_space = (\<lambda>w. (w, Inr 4)),
      ra_wait_for_event = (\<lambda>_ (t, log). ((t + 1, log), Inr ())),
      ra_write_to_device = (\<lambda>n bytes (t, log). ((t, log @ [(n, bytes)]), Inr ())),
      ra_current_padding = (\<lambda>w. (w, Inr 2)), ra_start_stream = (\<lambda>w. (w, Inr ())),
      ra_get_position = (\<lambda>w. (w, Inr (7, 8))), ra_stop_stream = (\<lambda>w. (w, Inr ())),
      ra_reset_stream = (\<lambda>w. (w, Inr ())), ra_now = (\<lambda>w. (w, fst w))\<rparr>"

lemma roomy_waits: "waiting_takes_time roomy_api"
  by (auto simp: waiting_takes_time_def clock_of_def roomy_api_def)

lemma roomy_hears: "hears roomy_api snd"
  by (auto simp: hears_def roomy_api_def)

definition cable_stream :: render_stream where
  "cable_stream = \<lparr>rs_clock_frequency = 48000, rs_buffer_frames = 4, rs_converter = cable_converter,
     rs_underrun_grace = 20000000, rs_last_write_at = None, rs_started = False, rs_stopped = False\<rparr>"

definition cable_config :: session_config where
  "cable_config = session_config_new (SessionId 9)"

definition cable_session :: vb_cable_output where
  "cable_session = fst (snd (vb_open_session roomy_api cable_config (vb_cable_output_new listed_pair) (0, [])))"

lemma cable_find:
  "find_active_device cable_platform RenderFlow (lit ''in'') = Inr (cable_device ''in'' ''VB-Audio'')"
  by (simp add: find_active_device_def find_in_direction_def cable_platform_def cable_device_def lit_def)

lemma cable_ready: "initialize_com purpose cable_platform = Inr ()" "dp_enumerator cable_platform = Inr ()"
  by (simp_all add: initialize_com_def cable_platform_def)

lemma roomy_open:
  "render_open roomy_api (lit ''in'') w = (w, Inr cable_stream)"
proof -
  have "underrun_grace (prefill_frames 4 1) 100 = 20000000"
    by (simp add: underrun_grace_def prefill_frames_def)
  then show ?thesis
    by (simp add: render_open_def api_lift_def api_call_def roomy_api_def cable_converter_new
        cable_stream_def cable_ready cable_find)
      (simp add: cable_converter_def)
qed

lemma cable_session_open:
  "vb_open_session roomy_api cable_config (vb_cable_output_new listed_pair) (0, [])
    = ((0, []), cable_session, Inr ())"
  "vo_stream cable_session = Some cable_stream"
  by (simp_all add: cable_session_def vb_open_session_def vb_cable_output_new_def listed_pair_def
      cable_endpoint_def roomy_open)

lemma cable_converter_ok: "converter_ok cable_converter"
  using cable_converter_new by (rule frame_converter_new_ok)

lemma vb_write_frame_returns:
  assumes "waiting_takes_time api" "OUTPUT_WAIT < fuel" "length (pcm_data f) = FRAME_SAMPLES"
    and "\<forall>s. vo_stream out = Some s \<longrightarrow> converter_ok (rs_converter s)"
  shows "\<exists>w' out' r. vb_write_frame api fuel f out w = Some (w', out', r)
    \<and> (\<forall>s. vo_stream out' = Some s \<longrightarrow> converter_ok (rs_converter s))"
proof (cases "pcm_sequence f = vo_next_sequence out \<and> vo_stream out \<noteq> None")
  case True
  then obtain s where s: "vo_stream out = Some s" "converter_ok (rs_converter s)" using assms(4) by auto
  have "\<exists>x. render_write api fuel (pcm_data f) s w = Some x"
    using assms(1) s(2) assms(3,2) by (rule render_write_total)
  then obtain w' s' r where wrote: "render_write api fuel (pcm_data f) s w = Some (w', s', r)"
    by (metis prod_cases3)
  have "converter_ok (rs_converter s')"
    using same_format_ok [OF render_write_keeps(1) [OF wrote s(2) assms(3)] s(2)] .
  with True s(1) wrote show ?thesis by (auto simp: vb_write_frame_def split: sum.split)
qed (use assms(4) in \<open>auto simp: vb_write_frame_def split: option.split\<close>)

lemma vb_writes_return:
  assumes "waiting_takes_time api" "OUTPUT_WAIT < fuel"
    and "\<forall>f \<in> set fs. length (pcm_data f) = FRAME_SAMPLES"
    and "\<forall>s. vo_stream out = Some s \<longrightarrow> converter_ok (rs_converter s)"
  shows "\<exists>w' out' rs. vb_writes api fuel fs out w = Some (w', out', rs)"
  using assms(3,4)
proof (induction fs arbitrary: out w)
  case (Cons f fs)
  obtain w' out' r where "vb_write_frame api fuel f out w = Some (w', out', r)"
      "\<forall>s. vo_stream out' = Some s \<longrightarrow> converter_ok (rs_converter s)"
    using vb_write_frame_returns [OF assms(1,2) _ Cons.prems(2)] Cons.prems(1) by fastforce
  moreover from Cons.IH [OF _ this(2)] Cons.prems(1) obtain w2 out2 rs where
    "vb_writes api fuel fs out' w' = Some (w2, out2, rs)" by fastforce
  ultimately show ?case by simp
qed simp

text \<open>Three writes in the concrete session, the third with a wrong number.\<close>

definition three_frames :: "pcm_frame list" where
  "three_frames = map (\<lambda>n. pcm_frame_new n (replicate 480 3)) [0, 1, 7]"

lemma three_frames_length: "\<forall>f \<in> set three_frames. length (pcm_data f) = FRAME_SAMPLES"
  by (simp add: three_frames_def pcm_frame_new_def FRAME_SAMPLES_def)

lemma three_writes:
  "\<exists>w2 out2 rs. vb_writes roomy_api (OUTPUT_WAIT + 1) three_frames cable_session (0, []) = Some (w2, out2, rs)"
  using roomy_waits three_frames_length
  by (rule vb_writes_return [OF _ less_add_one]) (simp add: cable_session_open(2) cable_stream_def cable_converter_ok)

lemma session_accounts_for_writes_witness:
  "\<exists>w2 out2 rs. vb_writes roomy_api (OUTPUT_WAIT + 1) three_frames cable_session (0, []) = Some (w2, out2, rs)
    \<and> accounts cable_converter (count accepted rs) (count out_of_order rs) (count device_failed rs) out2"
  using three_writes session_accounts_for_writes [OF cable_session_open(1) _ three_frames_length]
  by (fastforce simp: cable_session_open(2) cable_stream_def three_frames_def)

lemma endpoint_hears_whole_frames_witness:
  "\<exists>w2 out2 rs given. vb_writes roomy_api (OUTPUT_WAIT + 1) three_frames cable_session (0, []) = Some (w2, out2, rs)
    \<and> snd w2 = map (\<lambda>f. (1, converted_frame (fc_format cable_converter) 1 (pcm_data f))) given
    \<and> subseq given three_frames"
proof -
  obtain w2 out2 rs where run:
    "vb_writes roomy_api (OUTPUT_WAIT + 1) three_frames cable_session (0, []) = Some (w2, out2, rs)"
    using three_writes by blast
  from endpoint_hears_whole_frames [OF roomy_hears cable_session_open(1) three_frames_length this]
  have "\<exists>given. snd w2 = map (\<lambda>f. (1, converted_frame (fc_format cable_converter) 1 (pcm_data f))) given
      \<and> subseq given three_frames"
    by (auto simp: cable_session_open(2) cable_stream_def cable_converter_def)
  with run show ?thesis by blast
qed


definition stuck_api :: "endpoint render_api" where
  "stuck_api = roomy_api\<lparr>ra_reset_stream := (\<lambda>w. (w, Inl \<lparr>we_kind = OtherWasapi, we_text = Text ''stuck''\<rparr>))\<rparr>"

lemma failed_close_is_forgotten_witness:
  "\<exists>e out1. vb_close_session stuck_api cable_session (0, []) = ((0, []), out1, Inl e)
    \<and> od_state (vo_diagnostics out1) = Open \<and> vo_stream out1 = None"
proof -
  have "\<exists>e. render_stop stuck_api cable_stream (0, []) = ((0, []), cable_stream, Inl e)"
    by (simp add: render_stop_def stuck_api_def cable_stream_def)
  then obtain e where e: "render_stop stuck_api cable_stream (0, []) = ((0, []), cable_stream, Inl e)" ..
  have "od_state (vo_diagnostics cable_session) = Open"
    by (simp add: cable_session_def vb_open_session_def vb_cable_output_new_def listed_pair_def
        cable_endpoint_def roomy_open)
  with failed_close_is_forgotten [OF cable_session_open(2) e] show ?thesis by auto
qed

end
