(* ===== verification/Windows_Pipeline.thy ===== *)
theory Windows_Pipeline
  imports Adapter_Contract Windows_Session
begin

text \<open>
  The bypass on Windows from the captured packets to the endpoint: the pipeline of \<open>Bypass_Pipeline\<close> with the
  output adapter of \<open>Windows_Output\<close> as its sink, the factories of the tray and of the lab that connect it, and
  what the endpoint hears of the captured stream.
\<close>

section \<open>The adapter as the engine's output\<close>

text \<open>\<^verbatim>\<open>impl AudioOutput for WindowsVbCableOutput\<close>.  With more fuel than nanoseconds in the limit of the
  waiting loop a write returns, see \<open>vb_write_frame_returns\<close>.\<close>

definition windows_audio_output :: "'w render_api \<Rightarrow> nat \<Rightarrow> ('w \<times> vb_cable_output) audio_output" where
  "windows_audio_output api fuel = \<lparr>
     ao_open_session = (\<lambda>config (w, out). case vb_open_session api config out w of (w, out, r) \<Rightarrow> ((w, out), r)),
     ao_write_frame = (\<lambda>frame (w, out). case the (vb_write_frame api fuel frame out w) of (w, out, r) \<Rightarrow> ((w, out), r)),
     ao_diagnostics = (\<lambda>(w, out). ((w, out), vb_diagnostics out)),
     ao_close_session = (\<lambda>(w, out). case vb_close_session api out w of (w, out, r) \<Rightarrow> ((w, out), r))\<rparr>"

text \<open>\<^verbatim>\<open>WindowsOutputFactory\<close> of the tray and of the lab.\<close>

definition windows_resolve_pair :: "device_platform \<Rightarrow> str \<Rightarrow> str \<Rightarrow> output_error + output_pair" where
  "windows_resolve_pair pf cable_input cable_output = resolve_vb_cable_pair pf cable_input cable_output"

definition windows_connect :: "'w \<Rightarrow> output_pair \<Rightarrow> output_error + ('w \<times> vb_cable_output)" where
  "windows_connect w pair = Inr (w, vb_cable_output_new pair)"

definition windows_output_factory :: "device_platform \<Rightarrow> 'w \<Rightarrow> ('w \<times> vb_cable_output) audio_output_factory" where
  "windows_output_factory pf w =
     \<lparr>aof_resolve_pair = windows_resolve_pair pf, aof_connect = windows_connect w\<rparr>"

section \<open>One write of the sink thread\<close>

definition sent_as :: "frame_converter \<Rightarrow> pcm_samples \<Rightarrow> nat \<times> u8 list" where
  "sent_as c f = (unat (fc_output_frames c), converted_frame (fc_format c) (unat (fc_output_frames c)) f)"

definition stops_quietly :: "'w render_api \<Rightarrow> ('w \<Rightarrow> (nat \<times> u8 list) list) \<Rightarrow> bool" where
  "stops_quietly api heard \<longleftrightarrow>
     (\<forall>w. heard (fst (ra_stop_stream api w)) = heard w \<and> heard (fst (ra_reset_stream api w)) = heard w)"

definition rejected_writes :: "vb_cable_output \<Rightarrow> u64" where
  "rejected_writes out = dc_rejected_writes (od_counters (vo_diagnostics out))"

lemma accounts_rejected_writes: "accounts c n 0 bad out \<Longrightarrow> rejected_writes out = 0"
  by (simp add: accounts_def rejected_writes_def Let_def unat_eq_0)

lemma in_sequence_write:
  assumes "accounts c n rej bad out" "converter_ok c" "n < 2 ^ 32" "pcm_sequence f = of_nat n"
    and "length (pcm_data f) = FRAME_SAMPLES" "vb_write_frame api fuel f out w = Some (w', out', r)"
  shows "\<not> out_of_order r"
proof -
  obtain s where s: "vo_stream out = Some s" "same_format c (rs_converter s)" "unat (vo_next_sequence out) = n"
    using assms(1) by (auto simp: accounts_def Let_def)
  have seq: "pcm_sequence f = vo_next_sequence out" using s(3) assms(4) by auto
  obtain s' res where wrote: "render_write api fuel (pcm_data f) s w = Some (w', s', res)"
    and r: "r = (case res of Inl e \<Rightarrow> Inl e | Inr _ \<Rightarrow> Inr (Accepted (pcm_sequence f)))"
    using assms(6) seq s(1) by (auto simp: vb_write_frame_def split: option.splits prod.splits sum.splits)
  from render_write_keeps [OF wrote same_format_ok [OF s(2) assms(2)] assms(5)] r show ?thesis
    by (auto simp: adapter_error_def split: sum.split)
qed

text \<open>
  The contract of \<open>Adapter_Contract\<close>, read off the adapter: what is heard are the writes the endpoint accepted, and
  the session is ready while its diagnostics account for the writes.  The assumptions on the library are part of
  the two predicates, so that the laws hold for every library.
\<close>

definition windows_sound ::
  "'w render_api \<Rightarrow> ('w \<Rightarrow> (nat \<times> u8 list) list) \<Rightarrow> 'w \<times> vb_cable_output \<Rightarrow> bool" where
  "windows_sound api heard s \<longleftrightarrow> hears api heard \<and> stops_quietly api heard \<and> rejected_writes (snd s) = 0"

definition windows_ready ::
  "'w render_api \<Rightarrow> nat \<Rightarrow> ('w \<Rightarrow> (nat \<times> u8 list) list) \<Rightarrow> frame_converter \<Rightarrow> nat \<Rightarrow> 'w \<times> vb_cable_output \<Rightarrow> bool" where
  "windows_ready api fuel heard c n s \<longleftrightarrow> waiting_takes_time api \<and> OUTPUT_WAIT < fuel \<and> hears api heard
     \<and> stops_quietly api heard \<and> converter_ok c \<and> accounts c n 0 0 (snd s)"

lemma windows_write:
  assumes "windows_ready api fuel heard c n s" "Suc n < 2 ^ 32" "length f = FRAME_SAMPLES"
    and "ao_write_frame (windows_audio_output api fuel) (pcm_frame_new (of_nat n) f) s = (s', r)"
  shows "windows_sound api heard s'"
    "accepted r \<Longrightarrow> heard (fst s') = heard (fst s) @ [sent_as c f] \<and> windows_ready api fuel heard c (Suc n) s'"
    "heard (fst s') = heard (fst s) \<or> heard (fst s') = heard (fst s) @ [sent_as c f]"
proof -
  let ?f = "pcm_frame_new (of_nat n) f"
  obtain w out where state: "s = (w, out)" by fastforce
  have lib: "waiting_takes_time api" "OUTPUT_WAIT < fuel" "hears api heard" "stops_quietly api heard" "converter_ok c"
    and acc: "accounts c n 0 0 out"
    using assms(1) by (auto simp: windows_ready_def state)
  obtain rs where rs: "vo_stream out = Some rs" "same_format c (rs_converter rs)"
    using acc by (auto simp: accounts_def Let_def)
  have data: "length (pcm_data ?f) = FRAME_SAMPLES" "pcm_sequence ?f = of_nat n" "pcm_data ?f = f"
    using assms(3) by (simp_all add: pcm_frame_new_def)
  obtain w' out' where wrote: "vb_write_frame api fuel ?f out w = Some (w', out', r)" and s': "s' = (w', out')"
  proof -
    have "\<forall>s. vo_stream out = Some s \<longrightarrow> converter_ok (rs_converter s)"
      using rs same_format_ok [OF rs(2) lib(5)] by auto
    from vb_write_frame_returns [OF lib(1,2) data(1) this] obtain w' out' r' where
      "vb_write_frame api fuel ?f out w = Some (w', out', r')" by blast
    with assms(4) show ?thesis by (intro that) (auto simp: windows_audio_output_def state)
  qed
  have small: "n < 2 ^ 32" "n + 0 + 0 < 2 ^ 32" using assms(2) by auto
  have ordered: "\<not> out_of_order r"
    using in_sequence_write [OF acc lib(5) small(1) data(2,1) wrote] .
  from accounts_step [OF acc lib(5) small(2) data(1) wrote] ordered
  have acc': "accounts c (n + of_bool (accepted r)) 0 (of_bool (device_failed r)) out'" by simp
  from vb_write_frame_heard [OF lib(3) rs lib(5) data(1) wrote] data(3)
  have heard: "heard w' = heard w @ [sent_as c f] \<or> heard w' = heard w \<and> \<not> accepted r"
    by (auto simp: sent_as_def)
  show "windows_sound api heard s'" using accounts_rejected_writes [OF acc'] s' lib by (simp add: windows_sound_def)
  show "heard (fst s') = heard (fst s) \<or> heard (fst s') = heard (fst s) @ [sent_as c f]"
    using heard s' state by auto
  show "heard (fst s') = heard (fst s) @ [sent_as c f] \<and> windows_ready api fuel heard c (Suc n) s'" if "accepted r"
    using that heard acc' s' state lib by (cases r) (auto simp: windows_ready_def)
qed

lemma windows_close:
  assumes "windows_sound api heard s" "ao_close_session (windows_audio_output api fuel) s = (s', r)"
  shows "heard (fst s') = heard (fst s) \<and> windows_sound api heard s'"
proof -
  obtain v out where s: "s = (v, out)" by fastforce
  obtain v1 out1 where closed: "vb_close_session api out v = (v1, out1, r)" and s': "s' = (v1, out1)"
    using assms(2) s by (auto simp: windows_audio_output_def split: prod.splits)
  have stop: "ra_stop_stream api v = (v1, r1) \<Longrightarrow> heard v1 = heard v"
    "ra_reset_stream api v = (v1, r2) \<Longrightarrow> heard v1 = heard v" for v v1 r1 r2
    using assms(1) by (metis fst_conv stops_quietly_def windows_sound_def)+
  from closed have "heard v1 = heard v \<and> rejected_writes out1 = rejected_writes out"
    by (auto simp: vb_close_session_def render_stop_def rejected_writes_def Let_def
        split: option.splits prod.splits sum.splits if_splits dest!: stop)
  with assms(1) s s' show ?thesis by (simp add: windows_sound_def)
qed

interpretation cable: playing_adapter "windows_audio_output api fuel" "\<lambda>s. heard (fst s)" "sent_as c"
    "windows_ready api fuel heard c" "windows_sound api heard" "2 ^ 32"
  for api fuel heard c
proof
  show "windows_ready api fuel heard c n s \<Longrightarrow> windows_sound api heard s" for n s
    by (auto simp: windows_ready_def windows_sound_def intro: accounts_rejected_writes)
  show "ao_diagnostics (windows_audio_output api fuel) s = (s', d) \<Longrightarrow> heard (fst s') = heard (fst s)
      \<and> (windows_ready api fuel heard c n s \<longrightarrow> windows_ready api fuel heard c n s')
      \<and> (windows_sound api heard s \<longrightarrow> windows_sound api heard s')" for s s' d n
    by (auto simp: windows_audio_output_def split: prod.splits)
qed (use windows_write windows_close in \<open>fastforce+\<close>)

section \<open>What the endpoint hears of the stream\<close>

text \<open>C1
  A bypass on Windows from the packets to the endpoint, in every interleaving of the threads: from a
  successful open on, the endpoint hears the complete conversions of frames of the captured stream, in its
  order and each at most once, and never a frame that was not handed over; no write is refused for its
  sequence number.  When both threads are through, nothing has failed and the queue never overflowed, it has
  heard the whole stream.  A session of 2^32 frames lasts more than a year.\<close>

theorem endpoint_hears_microphone:
  assumes "waiting_takes_time api" "OUTPUT_WAIT < fuel" "hears api heard" "stops_quietly api heard"
    and "vb_open_session api config out0 v0 = (v1, out1, Inr ())"
    and "w_queue w = frame_queue_new" "\<not> w_terminal_failure w"
    and "pipeline_reaches inp (windows_audio_output api fuel) role (pipeline_start i (v1, out1) w) p"
    and "length (pp_written p) < 2 ^ 32"
  defines "stream \<equiv> snd (cut_stream (pp_packets p))" and "q \<equiv> w_queue (pp_world p)"
  shows "\<exists>s given. vo_stream out1 = Some s
    \<and> heard (fst (sink_state (pp_sink p))) = heard v1 @ map (sent_as (rs_converter s)) given
    \<and> subseq given stream \<and> (given = pp_written p \<or> qs_failed q \<and> (\<exists>f. pp_written p = given @ [f]))
    \<and> rejected_writes (snd (sink_state (pp_sink p))) = 0
    \<and> (pp_capture p = CaptureDone \<and> sink_ended (pp_sink p) \<and> \<not> qs_failed q
        \<and> qm_discarded (qs_metrics q) = 0 \<and> length stream < 2 ^ 64 \<longrightarrow> given = stream)"
proof -
  obtain s where s: "vo_stream out1 = Some s" "converter_ok (rs_converter s)" "accounts (rs_converter s) 0 0 0 out1"
    using accounts_open [OF assms(5)] by blast
  with assms(1-4) have "windows_ready api fuel heard (rs_converter s) 0 (v1, out1)" by (simp add: windows_ready_def)
  from cable.plays_the_stream [OF assms(8) this assms(6,7,9)] s(1) show ?thesis
    by (auto simp: stream_def q_def windows_sound_def)
qed

text \<open>The concrete endpoint of \<open>Windows_Session\<close> at the end of the pipeline.\<close>

lemma roomy_accepts:
  "\<exists>s' r. ao_write_frame (windows_audio_output roomy_api (OUTPUT_WAIT + 1)) (pcm_frame_new 0 silent_frame)
     ((0, []), cable_session) = (s', Inr r)"
proof -
  obtain bytes where "frame_converter_convert silent_frame cable_converter = Some (cable_converter\<lparr>fc_bytes := bytes\<rparr>)"
    using convert_converter_ok [OF cable_converter_ok, of silent_frame] by (auto simp: silent_frame_def)
  moreover have "fc_output_frames cable_converter = 1" by (simp add: cable_converter_def)
  ultimately have "\<exists>w' s' p. render_write roomy_api (OUTPUT_WAIT + 1) silent_frame cable_stream (0, []) = Some (w', s', Inr p)"
    by (simp add: render_write_def roomy_api_def wait_turn_def render_commit_def cable_stream_def Let_def)
  then show ?thesis
    using cable_session_open
    by (auto simp: windows_audio_output_def vb_write_frame_def pcm_frame_new_def cable_session_def vb_open_session_def
        vb_cable_output_new_def listed_pair_def cable_endpoint_def roomy_open)
qed

lemma endpoint_hears_microphone_witness:
  "\<exists>p :: (unit, nat, endpoint \<times> vb_cable_output) pipeline.
      pipeline_reaches silent_input (windows_audio_output roomy_api (OUTPUT_WAIT + 1)) Microphone
        (pipeline_start 0 ((0, []), cable_session) (initial_world ())) p
    \<and> pp_capture p = CaptureDone
    \<and> snd (fst (sink_state (pp_sink p))) = [sent_as cable_converter silent_frame]"
proof -
  let ?sink = "windows_audio_output roomy_api (OUTPUT_WAIT + 1)"
  have quiet: "stops_quietly roomy_api snd" by (simp add: stops_quietly_def roomy_api_def)
  obtain s' r where "ao_write_frame ?sink (pcm_frame_new 0 silent_frame) ((0, []), cable_session) = (s', Inr r)"
    using roomy_accepts by blast
  from silent_run [OF this, of Microphone] obtain p where
    run: "pipeline_reaches silent_input ?sink Microphone (pipeline_start 0 ((0, []), cable_session) (initial_world ())) p"
    and p: "pp_packets p = [(False, silent_frame)]" "pp_written p = [silent_frame]" "pp_capture p = CaptureDone"
      "pp_sink p = SinkEnding s'" "\<not> qs_failed (w_queue (pp_world p))"
      "qm_discarded (qs_metrics (w_queue (pp_world p))) = 0" by blast
  have world: "w_queue (initial_world ()) = frame_queue_new" "\<not> w_terminal_failure (initial_world ())"
    by (simp_all add: initial_world_def)
  have "length (pp_written p) < 2 ^ 32" using p(2) by simp
  from endpoint_hears_microphone [OF roomy_waits less_add_one roomy_hears quiet cable_session_open(1) world run this] p(2,5)
  have "snd (fst (sink_state (pp_sink p))) = [sent_as cable_converter silent_frame]"
    by (auto simp: cable_session_open(2) cable_stream_def)
  with run p(3) show ?thesis by blast
qed

end
