(* ===== verification/Evidence.thy ===== *)
theory Evidence
  imports Engine_Snapshot Ieee_Arith
begin

text \<open>
  The evidence of a long validation run, first part of \<^verbatim>\<open>crates/mini-aec-lab/src/stability.rs\<close>: reading and
  checking the event log (\<^verbatim>\<open>parse_evidence\<close>) and cutting its clock observations into clean segments
  (\<^verbatim>\<open>clean_segments\<close>).  The log is a list of lines each of which may fail to be read; the JSON parser of one
  event is a parameter.
\<close>

definition CURRENT_EVENT_SCHEMA_VERSION :: u16 where "CURRENT_EVENT_SCHEMA_VERSION = 3"
definition MAX_EVENT_GAP_MS :: u128 where "MAX_EVENT_GAP_MS = 2000"

section \<open>Reading the log\<close>

definition supported_schema :: "u16 \<Rightarrow> bool" where
  "supported_schema v \<longleftrightarrow> v = 1 \<or> v = 2 \<or> v = CURRENT_EVENT_SCHEMA_VERSION"

fun parse_lines ::
  "(str \<Rightarrow> message + validation_event) \<Rightarrow> nat \<Rightarrow> (message + str) list \<Rightarrow> message + validation_event list" where
  "parse_lines parse index [] = Inr []"
| "parse_lines parse index (line # lines) =
     res_bind (with_context (Pieces [Text ''failed to read line '', Number (index + 1)]) line) (\<lambda>line.
       if trim line = [] then parse_lines parse (index + 1) lines
       else res_bind (with_context (Pieces [Text ''invalid validation event on line '', Number (index + 1)])
              (parse line)) (\<lambda>event.
         if \<not> supported_schema (ve_schema_version event)
         then Inl (Pieces [Text ''unsupported validation event schema '',
                Number (unat (ve_schema_version event)), Text '' on line '', Number (index + 1)])
         else res_bind (parse_lines parse (index + 1) lines) (\<lambda>events. Inr (event # events))))"

section \<open>One run\<close>

record prepared_evidence =
  pe_events :: "validation_event list"
  pe_event_schema_version :: u16
  pe_authoritative :: bool
  pe_run_id :: u128
  pe_microphone :: source_descriptor
  pe_render :: source_descriptor
  pe_output_pair :: "output_pair_snapshot option"
  pe_requested_duration_ms :: u128
  pe_observed_duration_ms :: u128
  pe_terminal_event :: validation_event_kind

definition terminal :: "validation_event_kind \<Rightarrow> bool" where
  "terminal k \<longleftrightarrow> k = Final \<or> k = EventFailed"

definition rebase_elapsed :: "validation_event list \<Rightarrow> validation_event list" where
  "rebase_elapsed events =
     map (\<lambda>e. e\<lparr>ve_monotonic_elapsed_ms := sat_sub (ve_unix_ms e) (ve_unix_ms (hd events))\<rparr>) events"

definition regressing :: "validation_event list \<Rightarrow> bool" where
  "regressing events \<longleftrightarrow>
     list_ex (\<lambda>(a, b). ve_monotonic_elapsed_ms b < ve_monotonic_elapsed_ms a) (zip events (tl events))"

fun check_identities ::
  "u128 \<Rightarrow> source_descriptor \<Rightarrow> source_descriptor \<Rightarrow> output_pair_snapshot option \<Rightarrow> u128 option
   \<Rightarrow> validation_event list \<Rightarrow> message + unit" where
  "check_identities run mic ren pair session [] = Inr ()"
| "check_identities run mic ren pair session (e # es) =
     (let s = ve_snapshot e in
      if es_run_id s \<noteq> Some run then Inl (Text ''validation evidence mixes run identities'')
      else if es_source s \<noteq> Some mic \<or> es_render_source s \<noteq> Some ren
      then Inl (Text ''validation evidence changes endpoint identity within one run'')
      else if es_output_pair s \<noteq> pair
      then Inl (Text ''validation evidence changes the VB-CABLE output pair within one run'')
      else if es_session_id s \<noteq> session
      then Inl (Text ''validation evidence changes sink-session identity within one run'')
      else check_identities run mic ren pair session es)"

definition required_field :: "string \<Rightarrow> 'a option \<Rightarrow> message + 'a" where
  "required_field m v = (case v of None \<Rightarrow> Inl (Text m) | Some x \<Rightarrow> Inr x)"

definition identify_run :: "validation_event list \<Rightarrow> u16 \<Rightarrow> bool \<Rightarrow> message + prepared_evidence" where
  "identify_run events schema authoritative =
     (let first = ve_snapshot (hd events) in
      res_bind (required_field ''started event does not contain a run identity'' (es_run_id first)) (\<lambda>run.
      res_bind (required_field ''started event does not contain a microphone descriptor''
                  (es_source first)) (\<lambda>mic.
      res_bind (required_field ''started event does not contain a render descriptor''
                  (es_render_source first)) (\<lambda>ren.
        if authoritative \<and> es_output_pair first = None
        then Inl (Text ''schema version 3 evidence requires one exact VB-CABLE output pair'')
        else res_bind (check_identities run mic ren (es_output_pair first) (es_session_id first) events) (\<lambda>_.
          let requested = ve_requested_duration_ms (hd events) in
          if authoritative \<and> (requested = 0
               \<or> list_ex (\<lambda>e. ve_requested_duration_ms e \<noteq> requested) events)
          then Inl (Text ''schema version 2 evidence requires one consistent nonzero requested duration'')
          else Inr \<lparr>pe_events = events, pe_event_schema_version = schema,
                 pe_authoritative = authoritative, pe_run_id = run, pe_microphone = mic, pe_render = ren,
                 pe_output_pair = es_output_pair first,
                 pe_requested_duration_ms = (if authoritative then requested else 0),
                 pe_observed_duration_ms = ve_monotonic_elapsed_ms (last events),
                 pe_terminal_event = ve_event (last events)\<rparr>)))))"

definition parse_evidence ::
  "(str \<Rightarrow> message + validation_event) \<Rightarrow> (message + str) list \<Rightarrow> message + prepared_evidence" where
  "parse_evidence parse lines =
     res_bind (parse_lines parse 0 lines) (\<lambda>events.
       if length events < 2
       then Inl (Text ''validation evidence must contain at least started and terminal events'')
       else if ve_event (hd events) \<noteq> Started
       then Inl (Text ''validation evidence must begin with a started event'')
       else if \<not> terminal (ve_event (last events))
       then Inl (Text ''validation evidence must end with a final or failed event'')
       else if list_ex (\<lambda>e. terminal (ve_event e)) (butlast events)
       then Inl (Text ''validation evidence contains an event after a terminal event'')
       else let schema = ve_schema_version (hd events) in
       if list_ex (\<lambda>e. ve_schema_version e \<noteq> schema) events
       then Inl (Text ''validation evidence mixes event schema versions'')
       else let authoritative = (schema = CURRENT_EVENT_SCHEMA_VERSION);
                events = (if authoritative then events else rebase_elapsed events) in
       if regressing events
       then Inl (Text ''validation evidence contains regressing monotonic elapsed time'')
       else identify_run events schema authoritative)"

section \<open>Clean segments\<close>

record observation =
  ob_elapsed_ms :: u128
  ob_microphone_position :: u64
  ob_microphone_qpc :: u64
  ob_render_position :: u64
  ob_render_qpc :: u64
  ob_aec_instance_id :: "u128 option"
  ob_synchronization_epoch :: u64
  ob_discontinuities :: u64
  ob_timestamp_errors :: u64
  ob_render_discontinuities :: u64
  ob_render_timestamp_errors :: u64
  ob_current_delta_100ns :: "i64 option"
  ob_stale_render_frames :: u64
  ob_silent_render_references :: u64

record excluded_interval =
  ei_elapsed_ms :: u128
  ei_reason :: string

definition observation_of :: "validation_event \<Rightarrow> observation option" where
  "observation_of e =
     (let s = ve_snapshot e in
      case (es_last_device_position s, es_last_qpc_timestamp_100ns s,
            es_last_render_device_position s, es_last_render_qpc_timestamp_100ns s) of
        (Some mp, Some mq, Some rp, Some rq) \<Rightarrow> Some
          \<lparr>ob_elapsed_ms = ve_monotonic_elapsed_ms e,
           ob_microphone_position = mp, ob_microphone_qpc = mq,
           ob_render_position = rp, ob_render_qpc = rq,
           ob_aec_instance_id = es_aec_instance_id s,
           ob_synchronization_epoch = es_synchronization_epoch s,
           ob_discontinuities = es_discontinuities s, ob_timestamp_errors = es_timestamp_errors s,
           ob_render_discontinuities = es_render_discontinuities s,
           ob_render_timestamp_errors = es_render_timestamp_errors s,
           ob_current_delta_100ns = es_current_delta_100ns s,
           ob_stale_render_frames = es_stale_render_frames s,
           ob_silent_render_references = es_silent_render_references s\<rparr>
      | _ \<Rightarrow> None)"

definition segment_boundary_reason :: "observation \<Rightarrow> observation \<Rightarrow> string option" where
  "segment_boundary_reason p c =
     (if MAX_EVENT_GAP_MS < sat_sub (ob_elapsed_ms c) (ob_elapsed_ms p)
      then Some ''periodic event gap exceeds two seconds''
      else if ob_aec_instance_id c \<noteq> ob_aec_instance_id p then Some ''AEC instance identity changed''
      else if ob_synchronization_epoch c \<noteq> ob_synchronization_epoch p
      then Some ''synchronization epoch changed''
      else if ob_discontinuities c \<noteq> ob_discontinuities p
              \<or> ob_render_discontinuities c \<noteq> ob_render_discontinuities p
      then Some ''input discontinuity counter changed''
      else if ob_timestamp_errors c \<noteq> ob_timestamp_errors p
              \<or> ob_render_timestamp_errors c \<noteq> ob_render_timestamp_errors p
      then Some ''input timestamp-error counter changed''
      else if ob_microphone_position c \<le> ob_microphone_position p
              \<or> ob_microphone_qpc c \<le> ob_microphone_qpc p
      then Some ''microphone position or QPC did not increase''
      else if ob_render_position c \<le> ob_render_position p \<or> ob_render_qpc c \<le> ob_render_qpc p
      then Some ''render position or QPC did not increase''
      else None)"

definition finish_segment ::
  "observation list list \<Rightarrow> observation list \<Rightarrow> observation list list \<times> observation list" where
  "finish_segment segments current =
     (if 2 \<le> length current then (segments @ [current], []) else (segments, []))"

record segmenter =
  sg_segments :: "observation list list"
  sg_current :: "observation list"
  sg_excluded :: "excluded_interval list"
  sg_previous :: "observation option"

definition end_segment :: "segmenter \<Rightarrow> segmenter" where
  "end_segment g = (case finish_segment (sg_segments g) (sg_current g) of
     (segments, current) \<Rightarrow> g\<lparr>sg_segments := segments, sg_current := current\<rparr>)"

definition exclude :: "u128 \<Rightarrow> string \<Rightarrow> segmenter \<Rightarrow> segmenter" where
  "exclude elapsed reason g =
     g\<lparr>sg_excluded := sg_excluded g @ [\<lparr>ei_elapsed_ms = elapsed, ei_reason = reason\<rparr>]\<rparr>"

text \<open>The body of the loop for one event.\<close>

definition segment_event :: "validation_event \<Rightarrow> segmenter \<Rightarrow> segmenter" where
  "segment_event e g =
     (if ve_event e \<noteq> Periodic \<and> ve_event e \<noteq> Final then g
      else case observation_of e of
        None \<Rightarrow> exclude (ve_monotonic_elapsed_ms e)
                 ''missing microphone or active-render clock observation''
                 ((end_segment g)\<lparr>sg_previous := None\<rparr>)
      | Some ob \<Rightarrow>
          let g = (case sg_previous g of None \<Rightarrow> g
                   | Some prior \<Rightarrow>
                       (case segment_boundary_reason prior ob of None \<Rightarrow> g
                        | Some reason \<Rightarrow> exclude (ob_elapsed_ms ob) reason (end_segment g)))
          in g\<lparr>sg_current := sg_current g @ [ob], sg_previous := Some ob\<rparr>)"

definition clean_segments ::
  "validation_event list \<Rightarrow> observation list list \<times> excluded_interval list" where
  "clean_segments events =
     (let g = end_segment (fold segment_event events
                \<lparr>sg_segments = [], sg_current = [], sg_excluded = [], sg_previous = None\<rparr>)
      in (sg_segments g, sg_excluded g))"

section \<open>Accepted evidence is one consistent run\<close>

definition evidence_ok :: "prepared_evidence \<Rightarrow> bool" where
  "evidence_ok ev \<longleftrightarrow>
     (let es = pe_events ev in
      2 \<le> length es \<and> ve_event (hd es) = Started
    \<and> terminal (ve_event (last es)) \<and> pe_terminal_event ev = ve_event (last es)
    \<and> (\<forall>e \<in> set (butlast es). \<not> terminal (ve_event e))
    \<and> sorted_wrt (\<lambda>a b. ve_monotonic_elapsed_ms a \<le> ve_monotonic_elapsed_ms b) es
    \<and> pe_observed_duration_ms ev = ve_monotonic_elapsed_ms (last es)
    \<and> (\<forall>e \<in> set es. ve_schema_version e = pe_event_schema_version ev
         \<and> es_run_id (ve_snapshot e) = Some (pe_run_id ev)
         \<and> es_source (ve_snapshot e) = Some (pe_microphone ev)
         \<and> es_render_source (ve_snapshot e) = Some (pe_render ev)
         \<and> es_output_pair (ve_snapshot e) = pe_output_pair ev
         \<and> es_session_id (ve_snapshot e) = es_session_id (ve_snapshot (hd es)))
    \<and> supported_schema (pe_event_schema_version ev)
    \<and> (pe_authoritative ev \<longleftrightarrow> pe_event_schema_version ev = CURRENT_EVENT_SCHEMA_VERSION)
    \<and> (if pe_authoritative ev
        then pe_output_pair ev \<noteq> None \<and> pe_requested_duration_ms ev \<noteq> 0
           \<and> (\<forall>e \<in> set es. ve_requested_duration_ms e = pe_requested_duration_ms ev)
        else pe_requested_duration_ms ev = 0 \<and> ve_monotonic_elapsed_ms (hd es) = 0))"

lemma check_identities_Inr:
  "check_identities run mic ren pair session es = Inr () \<longleftrightarrow>
     (\<forall>e \<in> set es. es_run_id (ve_snapshot e) = Some run \<and> es_source (ve_snapshot e) = Some mic
        \<and> es_render_source (ve_snapshot e) = Some ren \<and> es_output_pair (ve_snapshot e) = pair
        \<and> es_session_id (ve_snapshot e) = session)"
  by (induction es) (auto simp: Let_def)

lemma required_field_Inr [simp]: "required_field m v = Inr x \<longleftrightarrow> v = Some x"
  by (simp add: required_field_def split: option.split)

lemma not_regressing_sorted:
  "\<not> regressing es \<Longrightarrow> sorted_wrt (\<lambda>a b. ve_monotonic_elapsed_ms a \<le> ve_monotonic_elapsed_ms b) es"
proof (induction es)
  case (Cons e es)
  show ?case
  proof (cases es)
    case (Cons e' es')
    with Cons.prems have le: "ve_monotonic_elapsed_ms e \<le> ve_monotonic_elapsed_ms e'"
      and rest: "\<not> regressing es" by (auto simp: regressing_def not_less)
    from Cons.IH [OF rest] le Cons show ?thesis by (auto intro: order_trans)
  qed simp
qed simp

lemma parse_lines_schema:
  "parse_lines parse i lines = Inr es \<Longrightarrow> e \<in> set es \<Longrightarrow> supported_schema (ve_schema_version e)"
  by (induction parse i lines arbitrary: es rule: parse_lines.induct)
    (auto simp: res_bind_eq_Inr split: if_splits)

lemma rebase_elapsed_props:
  assumes "es \<noteq> []"
  shows "length (rebase_elapsed es) = length es"
    "ve_event (hd (rebase_elapsed es)) = ve_event (hd es)"
    "ve_event (last (rebase_elapsed es)) = ve_event (last es)"
    "(\<forall>e \<in> set (butlast (rebase_elapsed es)). P (ve_event e)) \<longleftrightarrow> (\<forall>e \<in> set (butlast es). P (ve_event e))"
    "(\<forall>e \<in> set (rebase_elapsed es). Q (ve_schema_version e)) \<longleftrightarrow> (\<forall>e \<in> set es. Q (ve_schema_version e))"
    "ve_monotonic_elapsed_ms (hd (rebase_elapsed es)) = 0"
  using assms
  by (simp_all add: rebase_elapsed_def hd_map last_map map_butlast [symmetric] sat_sub_def)

lemma identify_run_ok:
  assumes "identify_run es schema authoritative = Inr ev"
    and "2 \<le> length es" "ve_event (hd es) = Started" "terminal (ve_event (last es))"
    and "\<forall>e \<in> set (butlast es). \<not> terminal (ve_event e)"
    and "\<forall>e \<in> set es. ve_schema_version e = schema"
    and "authoritative \<longleftrightarrow> schema = CURRENT_EVENT_SCHEMA_VERSION" "supported_schema schema"
    and "\<not> regressing es" "\<not> authoritative \<longrightarrow> ve_monotonic_elapsed_ms (hd es) = 0"
  shows "evidence_ok ev \<and> pe_events ev = es"
  using assms(1) assms(2-) not_regressing_sorted [OF assms(9)]
  by (auto simp: identify_run_def evidence_ok_def Let_def res_bind_eq_Inr check_identities_Inr
      list_ex_iff split: if_splits)

text \<open>C23
  Evidence that is accepted is one consistent run: at least two events, the first of them the start and
  exactly the last of them terminal; elapsed times never decrease; one schema version, one run, one
  microphone, one render endpoint, one output pair and one session throughout; and evidence of the current
  schema has an output pair and one nonzero requested duration.\<close>

theorem accepted_evidence_is_one_run:
  assumes "parse_evidence parse lines = Inr ev"
  shows "evidence_ok ev"
proof -
  from assms obtain es where es: "parse_lines parse 0 lines = Inr es"
      "2 \<le> length es" "ve_event (hd es) = Started" "terminal (ve_event (last es))"
      "\<forall>e \<in> set (butlast es). \<not> terminal (ve_event e)"
      "\<forall>e \<in> set es. ve_schema_version e = ve_schema_version (hd es)"
    and rest: "let authoritative = (ve_schema_version (hd es) = CURRENT_EVENT_SCHEMA_VERSION);
        es' = (if authoritative then es else rebase_elapsed es) in
      \<not> regressing es' \<and> identify_run es' (ve_schema_version (hd es)) authoritative = Inr ev"
    by (auto simp: parse_evidence_def res_bind_eq_Inr Let_def list_ex_iff split: if_splits)
  from es(2) have "es \<noteq> []" by auto
  then have "supported_schema (ve_schema_version (hd es))"
    using parse_lines_schema [OF es(1)] by (meson hd_in_set)
  note schema = this
  define authoritative where "authoritative = (ve_schema_version (hd es) = CURRENT_EVENT_SCHEMA_VERSION)"
  define es' where "es' = (if authoritative then es else rebase_elapsed es)"
  have run: "identify_run es' (ve_schema_version (hd es)) authoritative = Inr ev" "\<not> regressing es'"
    using rest by (simp_all add: Let_def authoritative_def es'_def)
  have "2 \<le> length es'" "ve_event (hd es') = Started" "terminal (ve_event (last es'))"
    "\<not> authoritative \<longrightarrow> ve_monotonic_elapsed_ms (hd es') = 0"
    using es(2-4) by (simp_all add: es'_def rebase_elapsed_props [OF \<open>es \<noteq> []\<close>])
  moreover have "\<forall>e \<in> set (butlast es'). \<not> terminal (ve_event e)"
    using es(5) rebase_elapsed_props(4) [OF \<open>es \<noteq> []\<close>, of "\<lambda>k. \<not> terminal k"]
    by (simp add: es'_def)
  moreover have "\<forall>e \<in> set es'. ve_schema_version e = ve_schema_version (hd es)"
    using es(6) rebase_elapsed_props(5) [OF \<open>es \<noteq> []\<close>, of "\<lambda>v. v = ve_schema_version (hd es)"]
    by (cases authoritative) (simp_all only: es'_def if_True if_False)
  ultimately show ?thesis
    using identify_run_ok [OF run(1) _ _ _ _ _ authoritative_def schema run(2)] by blast
qed

section \<open>Segments are exactly the unbroken stretches\<close>

definition scored :: "validation_event \<Rightarrow> bool" where
  "scored e \<longleftrightarrow> ve_event e = Periodic \<or> ve_event e = Final"

text \<open>
  \<open>along\<close> looks at every element with its predecessor, \<open>None\<close> before the first.  A link is a pair of
  consecutive observations without a boundary between them; a break is what must be reported.
\<close>

definition along :: "('a option \<Rightarrow> 'a option \<Rightarrow> 'b list) \<Rightarrow> 'a option list \<Rightarrow> 'b list" where
  "along f xs = concat (map (\<lambda>(p, x). f p x) (zip (None # xs) xs))"

definition link :: "observation option \<Rightarrow> observation option \<Rightarrow> (observation \<times> observation) list" where
  "link p x = (case (p, x) of
     (Some a, Some b) \<Rightarrow> if segment_boundary_reason a b = None then [(a, b)] else [] | _ \<Rightarrow> [])"

definition break_reasons :: "observation option \<Rightarrow> observation option \<Rightarrow> string list" where
  "break_reasons p x = (case x of
     None \<Rightarrow> [''missing microphone or active-render clock observation'']
   | Some b \<Rightarrow> (case p of None \<Rightarrow> [] | Some a \<Rightarrow>
       (case segment_boundary_reason a b of None \<Rightarrow> [] | Some r \<Rightarrow> [r])))"

definition neighbours :: "'a list \<Rightarrow> ('a \<times> 'a) list" where
  "neighbours xs = zip xs (tl xs)"

lemma neighbours_snoc: "neighbours (xs @ [x]) = (if xs = [] then [] else neighbours xs @ [(last xs, x)])"
proof (induction xs)
  case (Cons a xs)
  then show ?case by (cases xs) (simp_all add: neighbours_def)
qed (simp add: neighbours_def)

lemma neighbours_short: "length xs < 2 \<Longrightarrow> neighbours xs = []"
  by (cases xs) (auto simp: neighbours_def)

lemma along_snoc: "along f (xs @ [x]) = along f xs @ f (if xs = [] then None else last xs) x"
proof -
  have "zip (p # xs @ [x]) (xs @ [x]) = zip (p # xs) xs @ [(last (p # xs), x)]" for p
    by (induction xs arbitrary: p) simp_all
  then show ?thesis by (simp add: along_def)
qed

definition segmenter_ok :: "observation option list \<Rightarrow> segmenter \<Rightarrow> bool" where
  "segmenter_ok xs g \<longleftrightarrow>
     sg_previous g = (if xs = [] then None else last xs)
   \<and> (case sg_previous g of None \<Rightarrow> sg_current g = []
      | Some ob \<Rightarrow> sg_current g \<noteq> [] \<and> last (sg_current g) = ob)
   \<and> concat (map neighbours (sg_segments g)) @ neighbours (sg_current g) = along link xs
   \<and> map ei_reason (sg_excluded g) = along break_reasons xs
   \<and> (\<forall>s \<in> set (sg_segments g). 2 \<le> length s)"

lemma end_segment_sel [simp]:
  "sg_current (end_segment g) = []" "sg_excluded (end_segment g) = sg_excluded g"
  "sg_previous (end_segment g) = sg_previous g"
  "concat (map neighbours (sg_segments (end_segment g)))
    = concat (map neighbours (sg_segments g)) @ neighbours (sg_current g)"
  "(\<forall>s \<in> set (sg_segments (end_segment g)). 2 \<le> length s) \<longleftrightarrow> (\<forall>s \<in> set (sg_segments g). 2 \<le> length s)"
  by (auto simp: end_segment_def finish_segment_def neighbours_short)

lemma exclude_sel [simp]:
  "sg_segments (exclude t r g) = sg_segments g" "sg_current (exclude t r g) = sg_current g"
  "sg_previous (exclude t r g) = sg_previous g"
  "map ei_reason (sg_excluded (exclude t r g)) = map ei_reason (sg_excluded g) @ [r]"
  by (simp_all add: exclude_def)

lemma neighbours_Nil [simp]: "neighbours [] = []" "neighbours [x] = []"
  by (simp_all add: neighbours_def)

lemma segment_event_ok:
  assumes "segmenter_ok xs g" "scored e"
  shows "segmenter_ok (xs @ [observation_of e]) (segment_event e g)"
proof (cases "observation_of e")
  case None
  then show ?thesis using assms
    by (auto simp: segmenter_ok_def segment_event_def scored_def along_snoc link_def break_reasons_def
        split: option.splits)
next
  case (Some ob)
  show ?thesis
  proof (cases "sg_previous g")
    case None
    then show ?thesis using assms Some
      by (auto simp: segmenter_ok_def segment_event_def scored_def along_snoc link_def break_reasons_def Let_def)
  next
    case (Some prior)
    with assms(1) have xs: "xs \<noteq> []" "last xs = Some prior"
      and cur: "sg_current g \<noteq> []" "last (sg_current g) = prior"
      by (auto simp: segmenter_ok_def split: if_splits)
    note parts = assms(1) [unfolded segmenter_ok_def]
    show ?thesis
    proof (cases "segment_boundary_reason prior ob")
      case None
      then have "segment_event e g = g\<lparr>sg_current := sg_current g @ [ob], sg_previous := Some ob\<rparr>"
        using assms(2) \<open>observation_of e = Some ob\<close> Some
        by (auto simp: segment_event_def scored_def Let_def)
      then show ?thesis
        using parts None xs cur \<open>observation_of e = Some ob\<close>
        by (simp add: segmenter_ok_def along_snoc neighbours_snoc link_def break_reasons_def
            flip: append_assoc)
    next
      case (Some reason)
      then have "segment_event e g = (exclude (ob_elapsed_ms ob) reason (end_segment g))
          \<lparr>sg_current := [ob], sg_previous := Some ob\<rparr>"
        using assms(2) \<open>observation_of e = Some ob\<close> \<open>sg_previous g = Some prior\<close>
        by (auto simp: segment_event_def scored_def Let_def exclude_def)
      then show ?thesis
        using parts Some xs \<open>observation_of e = Some ob\<close>
        by (simp add: segmenter_ok_def along_snoc link_def break_reasons_def)
    qed
  qed
qed

lemma segment_event_skip: "\<not> scored e \<Longrightarrow> segment_event e g = g"
  by (simp add: segment_event_def scored_def)

lemma fold_segment_event:
  "segmenter_ok xs g \<Longrightarrow>
     segmenter_ok (xs @ map observation_of (filter scored es)) (fold segment_event es g)"
proof (induction es arbitrary: xs g)
  case (Cons e es)
  then show ?case
    using Cons.IH [OF segment_event_ok [OF Cons.prems]] by (cases "scored e") (simp_all add: segment_event_skip)
qed simp


section \<open>A concrete log\<close>

definition log_source :: "input_role \<Rightarrow> nat \<Rightarrow> source_descriptor" where
  "log_source role c = \<lparr>sd_role = role, sd_endpoint_id = [c], sd_friendly_name = [c], sd_active = True,
     sd_native_format = None\<rparr>"

definition log_event :: "u16 \<Rightarrow> validation_event_kind \<Rightarrow> u128 \<Rightarrow> validation_event" where
  "log_event schema kind t = \<lparr>ve_schema_version = schema, ve_unix_ms = 100 + t, ve_monotonic_elapsed_ms = t,
     ve_requested_duration_ms = 1000, ve_event = kind,
     ve_snapshot = default_snapshot\<lparr>es_run_id := Some 5, es_source := Some (log_source Microphone 77),
       es_render_source := Some (log_source RenderLoopback 82)\<rparr>\<rparr>"

definition log_line :: "str \<Rightarrow> message + validation_event" where
  "log_line s = (if s = [83] then Inr (log_event 2 Started 0)
     else if s = [70] then Inr (log_event 2 Final 40) else Inl (Text ''expected value''))"

definition short_log :: prepared_evidence where
  "short_log = \<lparr>pe_events = [log_event 2 Started 0, log_event 2 Final 40], pe_event_schema_version = 2,
     pe_authoritative = False, pe_run_id = 5, pe_microphone = log_source Microphone 77,
     pe_render = log_source RenderLoopback 82, pe_output_pair = None, pe_requested_duration_ms = 0,
     pe_observed_duration_ms = 40, pe_terminal_event = Final\<rparr>"

lemma short_log_parsed: "parse_evidence log_line [Inr [83], Inr [32], Inr [70]] = Inr short_log"
  by (simp add: parse_evidence_def with_context_def trim_def is_whitespace_def log_line_def log_event_def
      supported_schema_def terminal_def CURRENT_EVENT_SCHEMA_VERSION_def rebase_elapsed_def regressing_def
      identify_run_def required_field_def default_snapshot_def short_log_def sat_sub_def Let_def)

lemma accepted_evidence_is_one_run_witness: "evidence_ok short_log"
  using accepted_evidence_is_one_run [OF short_log_parsed] .

end
