(* ===== verification/Clock_Analysis.thy ===== *)
theory Clock_Analysis
  imports Evidence
begin

text \<open>
  The clock analysis of \<^verbatim>\<open>crates/mini-aec-lab/src/stability.rs\<close>: five-minute windows over the clean segments,
  a least-squares regression of device position over performance counter in each, and the summary with
  medians.  Floating-point numbers are rounded after every operation, sums are folded from the left, and
  \<^verbatim>\<open>powi(2)\<close> is one multiplication.  \<open>None\<close> of \<open>clock_windows\<close> is a loop that has not ended yet.
\<close>

definition WINDOW_MS :: u128 where "WINDOW_MS = 300000"
definition MIN_WINDOW_DURATION_MS :: u128 where "MIN_WINDOW_DURATION_MS = 295000"
definition MIN_WINDOW_OBSERVATIONS :: nat where "MIN_WINDOW_OBSERVATIONS = 250"
definition MIN_NUMERICAL_PPM :: fp where "MIN_NUMERICAL_PPM = Fin 1"
definition QPC_TICKS_PER_SECOND_f64 :: fp where "QPC_TICKS_PER_SECOND_f64 = Fin 10000000"

abbreviation "add64 \<equiv> fp_add Binary64"
abbreviation "sub64 \<equiv> fp_sub Binary64"
abbreviation "mul64 \<equiv> fp_mul Binary64"
abbreviation "div64 \<equiv> fp_div Binary64"
abbreviation "sqrt64 \<equiv> fp_sqrt Binary64"
abbreviation "nat64 \<equiv> fp_of_nat Binary64"

text \<open>A decimal literal.\<close>

definition lit64 :: "rat \<Rightarrow> fp" where "lit64 q = fp_rounded Binary64 q"

definition sum64 :: "fp list \<Rightarrow> fp" where "sum64 xs = foldl add64 (Fin 0) xs"

definition square64 :: "fp \<Rightarrow> fp" where "square64 x = mul64 x x"

definition EPSILON64 :: fp where "EPSILON64 = Fin (1 / 2 ^ 52)"

section \<open>Regression\<close>

record regression =
  rg_slope :: fp
  rg_slope_standard_error :: fp
  rg_residual_rms :: fp

definition mean64 :: "fp list \<Rightarrow> fp" where "mean64 xs = div64 (sum64 xs) (nat64 (length xs))"

definition sum_squares :: "(fp \<times> fp) list \<Rightarrow> fp" where
  "sum_squares values = (let mean_x = mean64 (map fst values) in
     sum64 (map (\<lambda>(x, y). square64 (sub64 x mean_x)) values))"

definition least_squares_slope :: "(fp \<times> fp) list \<Rightarrow> fp" where
  "least_squares_slope values =
     (let mean_x = mean64 (map fst values); mean_y = mean64 (map snd values) in
      div64 (sum64 (map (\<lambda>(x, y). mul64 (sub64 x mean_x) (sub64 y mean_y)) values)) (sum_squares values))"

definition clock_values :: "(u64 \<times> u64) list \<Rightarrow> (fp \<times> fp) list" where
  "clock_values points =
     map (\<lambda>(qpc, position).
       (div64 (nat64 (unat (sat_sub qpc (fst (hd points))))) QPC_TICKS_PER_SECOND_f64,
        nat64 (unat (sat_sub position (snd (hd points)))))) points"

definition regression_of :: "(u64 \<times> u64) list \<Rightarrow> regression option" where
  "regression_of points =
     (if length points < 3 then None
      else let values = clock_values points;
               count = nat64 (length values);
               mean_x = mean64 (map fst values);
               mean_y = mean64 (map snd values);
               sxx = sum_squares values in
        if fp_le sxx EPSILON64 then None
        else let slope = least_squares_slope values;
                 intercept = sub64 mean_y (mul64 slope mean_x);
                 residual_sum_squares =
                   sum64 (map (\<lambda>(x, y). square64 (sub64 y (add64 intercept (mul64 slope x)))) values);
                 residual_rms = sqrt64 (div64 residual_sum_squares count);
                 variance = div64 residual_sum_squares (sub64 count (Fin 2));
                 slope_standard_error = sqrt64 (div64 variance sxx) in
          if \<not> is_finite slope \<or> \<not> is_finite slope_standard_error \<or> \<not> is_finite residual_rms then None
          else Some \<lparr>rg_slope = slope, rg_slope_standard_error = slope_standard_error,
                     rg_residual_rms = residual_rms\<rparr>)"

section \<open>Windows\<close>

record clock_window_report =
  cw_start_elapsed_ms :: u128
  cw_end_elapsed_ms :: u128
  cw_duration_ms :: u128
  cw_observations :: nat
  cw_microphone_rate_hz :: fp
  cw_render_rate_hz :: fp
  cw_relative_ppm :: fp
  cw_uncertainty_ppm :: fp
  cw_microphone_residual_rms_frames :: fp
  cw_render_residual_rms_frames :: fp
  cw_delta_start_100ns :: "i64 option"
  cw_delta_end_100ns :: "i64 option"
  cw_stale_render_increase :: u64
  cw_silent_reference_increase :: u64

definition nominal_rate_hz :: "source_descriptor \<Rightarrow> fp option" where
  "nominal_rate_hz s =
     (case sd_native_format s of None \<Rightarrow> None
      | Some format \<Rightarrow> let rate = Fin (of_nat (unat (sf_sample_rate_hz format))) in
          if fp_less (Fin 0) rate then Some rate else None)"

definition analyze_window :: "observation list \<Rightarrow> fp \<Rightarrow> fp \<Rightarrow> clock_window_report option" where
  "analyze_window obs mic_nominal ren_nominal =
     (case regression_of (map (\<lambda>item. (ob_microphone_qpc item, ob_microphone_position item)) obs) of None \<Rightarrow> None
      | Some mic \<Rightarrow>
     (case regression_of (map (\<lambda>item. (ob_render_qpc item, ob_render_position item)) obs) of None \<Rightarrow> None
      | Some ren \<Rightarrow>
        if fp_le (rg_slope mic) (Fin 0) \<or> fp_le (rg_slope ren) (Fin 0) then None
        else let mic_ratio = div64 (rg_slope mic) mic_nominal;
                 ren_ratio = div64 (rg_slope ren) ren_nominal;
                 relative_ppm = mul64 (sub64 (div64 ren_ratio mic_ratio) (Fin 1)) (Fin 1000000);
                 uncertainty_ppm = mul64 (Fin 1000000)
                   (add64 (div64 (rg_slope_standard_error mic) (rg_slope mic))
                          (div64 (rg_slope_standard_error ren) (rg_slope ren)));
                 first = hd obs; last_ob = last obs in
          Some \<lparr>cw_start_elapsed_ms = ob_elapsed_ms first, cw_end_elapsed_ms = ob_elapsed_ms last_ob,
             cw_duration_ms = sat_sub (ob_elapsed_ms last_ob) (ob_elapsed_ms first),
             cw_observations = length obs,
             cw_microphone_rate_hz = rg_slope mic, cw_render_rate_hz = rg_slope ren,
             cw_relative_ppm = relative_ppm, cw_uncertainty_ppm = uncertainty_ppm,
             cw_microphone_residual_rms_frames = rg_residual_rms mic,
             cw_render_residual_rms_frames = rg_residual_rms ren,
             cw_delta_start_100ns = ob_current_delta_100ns first,
             cw_delta_end_100ns = ob_current_delta_100ns last_ob,
             cw_stale_render_increase =
               sat_sub (ob_stale_render_frames last_ob) (ob_stale_render_frames first),
             cw_silent_reference_increase =
               sat_sub (ob_silent_render_references last_ob) (ob_silent_render_references first)\<rparr>))"

text \<open>\<^verbatim>\<open>Iterator::position\<close>.\<close>

fun position :: "('a \<Rightarrow> bool) \<Rightarrow> 'a list \<Rightarrow> nat option" where
  "position P [] = None"
| "position P (x # xs) = (if P x then Some 0 else map_option Suc (position P xs))"

text \<open>One turn of the loop over a segment: the state is the start index and the reports so far.\<close>

definition window_turn ::
  "fp \<Rightarrow> fp \<Rightarrow> observation list \<Rightarrow> nat \<times> clock_window_report list
   \<Rightarrow> (nat \<times> clock_window_report list, clock_window_report list) flow" where
  "window_turn mic_nominal ren_nominal segment = (\<lambda>(start_index, reports).
     if \<not> start_index < length segment then Break reports
     else let window_end = sat_add (ob_elapsed_ms (segment ! start_index)) WINDOW_MS in
       case position (\<lambda>item. window_end \<le> ob_elapsed_ms item) (drop start_index segment) of
         None \<Rightarrow> Break reports
       | Some offset \<Rightarrow>
           let end_index = start_index + offset;
               obs = take (offset + 1) (drop start_index segment);
               duration_ms = sat_sub (ob_elapsed_ms (last obs)) (ob_elapsed_ms (hd obs)) in
           Continue (end_index,
             if MIN_WINDOW_DURATION_MS \<le> duration_ms \<and> MIN_WINDOW_OBSERVATIONS \<le> length obs
             then (case analyze_window obs mic_nominal ren_nominal of
                     None \<Rightarrow> reports | Some report \<Rightarrow> reports @ [report])
             else reports))"

definition clock_windows ::
  "nat \<Rightarrow> observation list list \<Rightarrow> fp option \<Rightarrow> fp option \<Rightarrow> clock_window_report list option" where
  "clock_windows fuel segments mic_nominal ren_nominal =
     (case (mic_nominal, ren_nominal) of
        (Some mic, Some ren) \<Rightarrow>
          fold_opt (\<lambda>segment reports. run_loop (window_turn mic ren segment) fuel (0, reports)) segments []
      | _ \<Rightarrow> Some [])"

section \<open>Summary\<close>

definition finite_key :: "fp \<Rightarrow> rat" where "finite_key = fp_value"

definition median :: "fp list \<Rightarrow> fp option" where
  "median values =
     (if values = [] \<or> list_ex (\<lambda>v. \<not> is_finite v) values then None
      else let values = sort_key finite_key values; middle = length values div 2 in
        if even (length values) then Some (fp_midpoint (values ! (middle - 1)) (values ! middle))
        else Some (values ! middle))"

definition delta_points :: "clock_window_report list \<Rightarrow> (fp \<times> fp) list" where
  "delta_points windows =
     (let point = (\<lambda>elapsed delta. case delta of None \<Rightarrow> []
            | Some d \<Rightarrow> [(div64 (nat64 (unat elapsed)) (Fin 1000), fp_of_int Binary64 d)]) in
      concat (map (\<lambda>w. point (cw_start_elapsed_ms w) (cw_delta_start_100ns w)) windows)
      @ (if windows = [] then []
         else point (cw_end_elapsed_ms (last windows)) (cw_delta_end_100ns (last windows))))"

definition delta_trend :: "clock_window_report list \<Rightarrow> fp option" where
  "delta_trend windows =
     (let points = delta_points windows in
      if length points < 3 then None
      else if fp_le (sum_squares points) EPSILON64 then None
      else Some (mul64 (mul64 (least_squares_slope points) (lit64 (1 / 10000))) (Fin 60)))"

record clock_analysis_report =
  ca_method :: string
  ca_signed_ppm_definition :: string
  ca_window_duration_ms :: u128
  ca_windows :: "clock_window_report list"
  ca_median_relative_ppm :: "fp option"
  ca_median_absolute_deviation_ppm :: "fp option"
  ca_median_uncertainty_ppm :: "fp option"
  ca_conservative_drift_ppm :: "fp option"
  ca_persistent_direction :: "string option"
  ca_synchronization_delta_trend_ms_per_minute :: "fp option"
  ca_predicted_five_ms_crossing_seconds :: "fp option"
  ca_predicted_phase_ms_at_requested_duration :: "fp option"

definition option_or :: "'a option \<Rightarrow> 'a \<Rightarrow> 'a" where
  "option_or x d = (case x of None \<Rightarrow> d | Some v \<Rightarrow> v)"

definition decision_uncertainty :: "fp option \<Rightarrow> fp option \<Rightarrow> fp" where
  "decision_uncertainty uncertainty deviation =
     fp_max (fp_max (option_or uncertainty (Fin 0)) (option_or deviation (Fin 0))) MIN_NUMERICAL_PPM"

definition persistent_direction_of :: "clock_window_report list \<Rightarrow> string option" where
  "persistent_direction_of windows =
     (let positive = length (filter (\<lambda>w.
            fp_less (fp_max (cw_uncertainty_ppm w) MIN_NUMERICAL_PPM) (cw_relative_ppm w)) windows);
          negative = length (filter (\<lambda>w.
            fp_less (cw_relative_ppm w) (fp_neg (fp_max (cw_uncertainty_ppm w) MIN_NUMERICAL_PPM))) windows);
          required_directional =
            fp_to_unsigned 64 (fp_ceil (mul64 (nat64 (length windows)) (lit64 (8 / 10)))) in
      if 3 \<le> length windows \<and> required_directional \<le> positive then Some ''render_faster''
      else if 3 \<le> length windows \<and> required_directional \<le> negative then Some ''render_slower''
      else None)"

definition summarize_clock_analysis :: "clock_window_report list \<Rightarrow> u128 \<Rightarrow> clock_analysis_report" where
  "summarize_clock_analysis windows requested_duration_ms =
     (let ppm = map cw_relative_ppm windows;
          median_relative = median ppm;
          median_uncertainty = median (map cw_uncertainty_ppm windows);
          deviation = (case median_relative of None \<Rightarrow> None
            | Some center \<Rightarrow> median (map (\<lambda>v. fp_abs (sub64 v center)) ppm));
          uncertainty = decision_uncertainty median_uncertainty deviation;
          conservative = map_option (\<lambda>v. fp_max (sub64 (fp_abs v) uncertainty) (Fin 0)) median_relative in
      \<lparr>ca_method = ''non-overlapping five-minute OLS device-position/QPC windows with median and MAD'',
       ca_signed_ppm_definition = ''((render_rate / render_nominal_rate) / (microphone_rate / microphone_nominal_rate) - 1) * 1,000,000; positive means render faster'',
       ca_window_duration_ms = WINDOW_MS,
       ca_windows = windows,
       ca_median_relative_ppm = median_relative,
       ca_median_absolute_deviation_ppm = deviation,
       ca_median_uncertainty_ppm = median_uncertainty,
       ca_conservative_drift_ppm = conservative,
       ca_persistent_direction = persistent_direction_of windows,
       ca_synchronization_delta_trend_ms_per_minute = delta_trend windows,
       ca_predicted_five_ms_crossing_seconds =
         (case conservative of None \<Rightarrow> None
          | Some p \<Rightarrow> if fp_less (Fin 0) p then Some (div64 (Fin 5000) p) else None),
       ca_predicted_phase_ms_at_requested_duration =
         map_option (\<lambda>p. mul64 (div64 (mul64 p (div64 (nat64 (unat requested_duration_ms)) (Fin 1000)))
             (Fin 1000000)) (Fin 1000)) conservative\<rparr>)"

end
