(* ===== verification/Stability.thy ===== *)
theory Stability
  imports Clock_Analysis
begin

text \<open>
  The verdicts of \<^verbatim>\<open>crates/mini-aec-lab/src/stability.rs\<close>: the data-quality gate, the classification of
  clock drift, the functional gate over the final counters, and the report that combines them.  Reasons are
  kept as messages in the order the code pushes them.
\<close>

definition REPORT_SCHEMA_VERSION :: u16 where "REPORT_SCHEMA_VERSION = 3"
definition SNAPSHOT_INTERVAL_MS :: u128 where "SNAPSHOT_INTERVAL_MS = 1000"
definition MIN_GATE_DURATION_MS :: u128 where "MIN_GATE_DURATION_MS = 1800000"
definition MIN_LONGEST_SEGMENT_MS :: u128 where "MIN_LONGEST_SEGMENT_MS = 600000"
definition MIN_COVERAGE :: fp where "MIN_COVERAGE = lit64 (95 / 100)"
definition ALIGNMENT_TOLERANCE_MS :: fp where "ALIGNMENT_TOLERANCE_MS = Fin 5"

datatype drift_disposition =
  BoundedSynchronizerSufficient | ClockDriftCompensationRequired | DriftInconclusive

datatype functional_disposition = FunctionalPassed | FunctionalFailed | FunctionalInconclusive

datatype follow_up_guidance =
    MonitorEarlyVersionDiagnostics | CompleteOperatorObservations | ResolveFunctionalFailure
  | RepeatThirtyMinuteEvidence | ProposeClockDriftCompensation

record operator_observations =
  oo_client_continuously_consumed :: bool
  oo_render_active_during_scored_interval :: bool
  oo_no_stale_replay_or_unexplained_interruption :: bool
  oo_explained_counters :: "str list"
  oo_notes :: "str option"

text \<open>\<^verbatim>\<open>if b { reasons.push(m) }\<close>.\<close>

definition push_if :: "bool \<Rightarrow> message \<Rightarrow> message list" where
  "push_if b m = (if b then [m] else [])"

section \<open>Data quality\<close>

record clean_segment_summary =
  cs_start_elapsed_ms :: u128
  cs_end_elapsed_ms :: u128
  cs_duration_ms :: u128
  cs_observations :: nat

record data_quality_report =
  dq_expected_periodic_events :: u64
  dq_observed_periodic_events :: u64
  dq_periodic_event_coverage :: fp
  dq_usable_duration_ms :: u128
  dq_required_usable_duration_ms :: u128
  dq_longest_clean_segment_ms :: u128
  dq_clean_segments :: "clean_segment_summary list"
  dq_excluded_intervals :: "excluded_interval list"
  dq_gate_ready :: bool
  dq_reasons :: "message list"

definition segment_duration :: "observation list \<Rightarrow> u128" where
  "segment_duration segment = sat_sub (ob_elapsed_ms (last segment)) (ob_elapsed_ms (hd segment))"

definition summarize_segment :: "observation list \<Rightarrow> clean_segment_summary" where
  "summarize_segment segment =
     \<lparr>cs_start_elapsed_ms = ob_elapsed_ms (hd segment), cs_end_elapsed_ms = ob_elapsed_ms (last segment),
      cs_duration_ms = segment_duration segment, cs_observations = length segment\<rparr>"

definition periodic_event_coverage :: "u64 \<Rightarrow> u64 \<Rightarrow> fp" where
  "periodic_event_coverage observed expected =
     (if expected = 0 then Fin 0
      else fp_min (div64 (nat64 (unat observed)) (nat64 (unat expected))) (Fin 1))"

definition decimal :: "nat \<Rightarrow> fp \<Rightarrow> message" where
  "decimal n x = Decimal n (quotient_of (fp_value x))"

definition quality_reasons ::
  "prepared_evidence \<Rightarrow> fp \<Rightarrow> u128 \<Rightarrow> u128 \<Rightarrow> u128 \<Rightarrow> message list" where
  "quality_reasons ev coverage usable required longest =
     push_if (\<not> pe_authoritative ev)
       (Text ''schema version 1 lacks authoritative monotonic duration metadata'')
   @ push_if (pe_requested_duration_ms ev < MIN_GATE_DURATION_MS)
       (Text ''requested duration is shorter than the 30-minute gate'')
   @ push_if (pe_observed_duration_ms ev < pe_requested_duration_ms ev)
       (Text ''run ended before its requested duration'')
   @ push_if (fp_less coverage MIN_COVERAGE)
       (Pieces [Text ''periodic event coverage '', decimal 3 coverage, Text '' is below '',
          decimal 2 MIN_COVERAGE])
   @ push_if (usable < required)
       (Pieces [Text ''usable clock duration '', Number (unat usable), Text '' ms is below required '',
          Number (unat required), Text '' ms''])
   @ push_if (longest < MIN_LONGEST_SEGMENT_MS)
       (Text ''no clean clock segment reaches ten minutes'')"

definition data_quality ::
  "prepared_evidence \<Rightarrow> observation list list \<Rightarrow> excluded_interval list \<Rightarrow> data_quality_report" where
  "data_quality ev segments excluded =
     (let expected = ucast (pe_requested_duration_ms ev div SNAPSHOT_INTERVAL_MS);
          observed = of_nat (length (filter (\<lambda>e. ve_event e = Periodic) (pe_events ev)));
          coverage = periodic_event_coverage observed expected;
          summaries = map summarize_segment segments;
          usable = sum_list (map cs_duration_ms summaries);
          longest = foldl max 0 (map cs_duration_ms summaries);
          required = of_nat (min (2 ^ 128 - 1) (unat (pe_requested_duration_ms ev) * 5)) div 6;
          reasons = quality_reasons ev coverage usable required longest in
      \<lparr>dq_expected_periodic_events = expected, dq_observed_periodic_events = observed,
       dq_periodic_event_coverage = coverage, dq_usable_duration_ms = usable,
       dq_required_usable_duration_ms = required, dq_longest_clean_segment_ms = longest,
       dq_clean_segments = summaries, dq_excluded_intervals = excluded,
       dq_gate_ready = (reasons = []), dq_reasons = reasons\<rparr>)"

section \<open>Clock drift\<close>

definition recurring_consequence :: "clock_analysis_report \<Rightarrow> bool" where
  "recurring_consequence a =
     (if ca_persistent_direction a = Some ''render_faster''
      then 3 \<le> length (filter (\<lambda>w. 0 < cw_silent_reference_increase w) (ca_windows a))
      else if ca_persistent_direction a = Some ''render_slower''
      then 3 \<le> length (filter (\<lambda>w. 0 < cw_stale_render_increase w) (ca_windows a))
      else False)"

definition synchronization_failure :: "prepared_evidence \<Rightarrow> bool" where
  "synchronization_failure ev =
     (case es_last_error (ve_snapshot (last (pe_events ev))) of None \<Rightarrow> False
      | Some e \<Rightarrow> ee_kind e = EK_SynchronizationFailure)"

definition trend_conflicts :: "prepared_evidence \<Rightarrow> clock_analysis_report \<Rightarrow> bool" where
  "trend_conflicts ev a =
     (case (ca_persistent_direction a, ca_synchronization_delta_trend_ms_per_minute a) of
        (Some dir, Some trend) \<Rightarrow>
          (dir = ''render_faster'' \<and> fp_less (lit64 (1 / 100)) trend
            \<or> dir = ''render_slower'' \<and> fp_less trend (fp_neg (lit64 (1 / 100))))
        \<and> fp_le (Fin 1) (mul64 (fp_abs trend)
             (div64 (nat64 (unat (pe_requested_duration_ms ev))) (Fin 60000)))
      | _ \<Rightarrow> False)"

definition classify_drift ::
  "prepared_evidence \<Rightarrow> data_quality_report \<Rightarrow> clock_analysis_report \<Rightarrow> drift_disposition \<times> message list" where
  "classify_drift ev q a =
     (if \<not> dq_gate_ready q then (DriftInconclusive, dq_reasons q)
      else if length (ca_windows a) < 3
      then (DriftInconclusive, [Text ''fewer than three eligible five-minute clock windows''])
      else let med = option_or (ca_median_relative_ppm a) (Fin 0);
               uncertainty = decision_uncertainty (ca_median_uncertainty_ppm a)
                 (ca_median_absolute_deviation_ppm a) in
      if fp_less uncertainty (fp_abs med) \<and> ca_persistent_direction a = None
      then (DriftInconclusive, [Text ''clock windows show material but inconsistent drift direction''])
      else let recurring = recurring_consequence a; failure = synchronization_failure ev in
      if (recurring \<or> failure) \<and> ca_persistent_direction a = None
      then (DriftInconclusive,
        [Text ''synchronization consequences lack consistent directional clock evidence''])
      else if trend_conflicts ev a
      then (DriftInconclusive,
        [Text ''clock-rate direction conflicts with the synchronization-delta trend''])
      else let crosses = (case ca_predicted_phase_ms_at_requested_duration a of None \<Rightarrow> False
             | Some phase \<Rightarrow> fp_le ALIGNMENT_TOLERANCE_MS phase) in
      if ca_persistent_direction a \<noteq> None \<and> (crosses \<or> recurring \<or> failure)
      then (ClockDriftCompensationRequired,
          push_if crosses
            (Text ''conservative persistent drift reaches the 5 ms pairing tolerance during the gate'')
        @ push_if recurring
            (Text ''drift-correlated synchronization maintenance recurs in at least three windows'')
        @ push_if failure
            (Text ''directional clock evidence precedes terminal synchronization failure''))
      else (BoundedSynchronizerSufficient,
        [Text ''measured clock behavior remains inside the existing bounded synchronizer contract'']))"

section \<open>The functional gate\<close>

definition counter_failure :: "string \<Rightarrow> u64 \<Rightarrow> str list \<Rightarrow> message list" where
  "counter_failure name n explained =
     push_if (0 < n \<and> lit name \<notin> set explained)
       (Pieces [Text ''counter '', Text name, Text '' increased by '', Number (unat n),
          Text '' without an operator explanation''])"

definition queue_depths :: "validation_event list \<Rightarrow> bool \<Rightarrow> u32 list" where
  "queue_depths events render =
     map (\<lambda>e. if render then es_render_queue_depth (ve_snapshot e) else es_queue_depth (ve_snapshot e))
       (filter (\<lambda>e. ve_event e = Periodic) events)"

fun growing_scan :: "u32 option \<Rightarrow> u8 \<Rightarrow> u32 list \<Rightarrow> bool" where
  "growing_scan previous n [] = False"
| "growing_scan previous n (depth # depths) =
     (if (case previous of None \<Rightarrow> False | Some p \<Rightarrow> p < depth)
      then (let n = sat_add n 1 in if 3 \<le> n then True else growing_scan (Some depth) n depths)
      else growing_scan (Some depth) 0 depths)"

definition has_growing_queue :: "validation_event list \<Rightarrow> bool \<Rightarrow> bool" where
  "has_growing_queue events render = growing_scan None 0 (queue_depths events render)"

definition lifecycle_failures :: "prepared_evidence \<Rightarrow> engine_snapshot \<Rightarrow> message list" where
  "lifecycle_failures ev s =
     push_if (pe_terminal_event ev = EventFailed \<or> es_last_error s \<noteq> None)
       (Text ''the engine reported a terminal failure'')
   @ push_if (pe_authoritative ev \<and> pe_observed_duration_ms ev < pe_requested_duration_ms ev)
       (Text ''the run ended before its requested duration'')
   @ push_if (pe_terminal_event ev = Final \<and> es_state s \<noteq> Stopped)
       (Text ''the final event does not report a stopped engine'')"

definition counter_failures :: "engine_snapshot \<Rightarrow> engine_snapshot \<Rightarrow> str list \<Rightarrow> message list" where
  "counter_failures s0 s explained =
     (let increase = (\<lambda>f. sat_sub (f s) (f s0)) in
      counter_failure ''microphone_queue_overflows'' (increase es_queue_overflows) explained
    @ counter_failure ''microphone_discarded_frames'' (increase es_discarded_frames) explained
    @ counter_failure ''render_queue_overflows'' (increase es_render_queue_overflows) explained
    @ counter_failure ''render_discarded_frames'' (increase es_render_discarded_frames) explained
    @ counter_failure ''input_discontinuities''
        (sat_add (increase es_discontinuities) (increase es_render_discontinuities)) explained
    @ counter_failure ''timestamp_errors''
        (sat_add (increase es_timestamp_errors) (increase es_render_timestamp_errors)) explained
    @ counter_failure ''alignment_resets'' (increase es_alignment_resets) explained
    @ counter_failure ''aec_resets_or_rebuilds''
        (sat_add (increase es_aec_resets) (increase es_aec_rebuilds)) explained)"

definition safety_failures ::
  "validation_event list \<Rightarrow> engine_snapshot \<Rightarrow> engine_snapshot \<Rightarrow> message list" where
  "safety_failures events s0 s =
     (let increase = (\<lambda>f. sat_sub (f s) (f s0)) in
      push_if (0 < increase es_aec_invalid_outputs) (Text ''AEC produced invalid output'')
    @ push_if (0 < increase es_processing_deadline_misses)
        (Text ''AEC processing missed the 10 ms deadline'')
    @ push_if (0 < increase es_sink_failures) (Text ''the VB-CABLE output reported a failure'')
    @ push_if (increase es_aec_processed_frames = 0 \<or> increase es_sink_accepted_frames = 0)
        (Text ''the run produced no accepted AEC output frames'')
    @ push_if (es_queue_depth s \<noteq> 0 \<or> es_render_queue_depth s \<noteq> 0)
        (Text ''a stopped run retained queued audio'')
    @ push_if (has_growing_queue events False \<or> has_growing_queue events True)
        (Text ''periodic evidence shows a queue growing across consecutive observations''))"

fun find_map :: "('a \<Rightarrow> 'b option) \<Rightarrow> 'a list \<Rightarrow> 'b option" where
  "find_map f [] = None"
| "find_map f (x # xs) = (case f x of None \<Rightarrow> find_map f xs | Some y \<Rightarrow> Some y)"

definition output_latest :: "validation_event list \<Rightarrow> sink_transport_snapshot option" where
  "output_latest events = find_map (\<lambda>e. es_sink_diagnostics_latest (ve_snapshot e)) (rev events)"

definition output_start :: "validation_event list \<Rightarrow> sink_transport_snapshot option" where
  "output_start events =
     (case find_map (\<lambda>e. es_sink_diagnostics_start (ve_snapshot e)) events of
        Some d \<Rightarrow> Some d
      | None \<Rightarrow> find_map (\<lambda>e. es_sink_diagnostics_latest (ve_snapshot e)) events)"

text \<open>The failures and what is inconclusive.\<close>

definition output_verdict :: "prepared_evidence \<Rightarrow> str list \<Rightarrow> message list \<times> message list" where
  "output_verdict ev explained =
     (case (output_start (pe_events ev), output_latest (pe_events ev)) of
        (Some start, Some latest) \<Rightarrow>
          (let increase = (\<lambda>f. sat_sub (f latest) (f start)) in
            (push_if (0 < increase st_rejected_writes)
               (Text ''the VB-CABLE output rejected one or more writes'')
           @ push_if (0 < increase st_overflows \<or> 0 < increase st_discarded_frames)
               (Text ''the VB-CABLE output overflowed or discarded frames'')
           @ push_if (0 < increase st_endpoint_invalidations)
               (Text ''the VB-CABLE endpoint was invalidated'')
           @ push_if (0 < increase st_output_failures)
               (Text ''the VB-CABLE output recorded one or more render failures'')
           @ counter_failure ''output_underruns'' (increase st_underruns) explained,
             push_if (pe_authoritative ev \<and> st_negotiated_format latest = None)
               (Text ''the negotiated VB-CABLE output format is unavailable'')))
      | _ \<Rightarrow> ([], [Text ''start/latest output diagnostics are unavailable'']))"

definition operator_failures :: "operator_observations option \<Rightarrow> message list" where
  "operator_failures operator =
     (case operator of None \<Rightarrow> []
      | Some oo \<Rightarrow>
          push_if (\<not> oo_client_continuously_consumed oo)
            (Text ''operator did not confirm continuous ordinary-client consumption'')
        @ push_if (\<not> oo_render_active_during_scored_interval oo)
            (Text ''operator did not confirm active render during the scored interval'')
        @ push_if (\<not> oo_no_stale_replay_or_unexplained_interruption oo)
            (Text ''operator observed or could not rule out stale replay or unexplained interruption'')
        @ push_if (oo_explained_counters oo \<noteq> []
            \<and> (case oo_notes oo of None \<Rightarrow> True | Some notes \<Rightarrow> trim notes = []))
            (Text ''explained counters require nonempty operator notes''))"

definition explained_of :: "operator_observations option \<Rightarrow> str list" where
  "explained_of operator = (case operator of None \<Rightarrow> [] | Some oo \<Rightarrow> oo_explained_counters oo)"

definition classify_functional ::
  "prepared_evidence \<Rightarrow> operator_observations option \<Rightarrow> functional_disposition \<times> message list" where
  "classify_functional ev operator =
     (let s = ve_snapshot (last (pe_events ev)); s0 = ve_snapshot (hd (pe_events ev));
          explained = explained_of operator;
          failures = lifecycle_failures ev s @ counter_failures s0 s explained
            @ safety_failures (pe_events ev) s0 s @ fst (output_verdict ev explained)
            @ operator_failures operator;
          inconclusive = push_if (operator = None)
              (Text ''operator observations are required for end-to-end functional acceptance'')
            @ snd (output_verdict ev explained) in
      if failures \<noteq> [] then (FunctionalFailed, failures)
      else if inconclusive \<noteq> [] then (FunctionalInconclusive, inconclusive)
      else (FunctionalPassed,
        [Text ''metadata and required operator observations satisfy the functional-stability gate'']))"

section \<open>The report\<close>

record output_health_report =
  oh_negotiated_format :: "output_format_snapshot option"
  oh_rendered_frames :: u64
  oh_converted_frames :: u64
  oh_final_padding_frames :: u32
  oh_output_clock_frequency :: "u64 option"
  oh_output_clock_position :: "u64 option"
  oh_output_clock_qpc_position :: "u64 option"
  oh_underruns :: u64
  oh_rejected_writes :: u64
  oh_endpoint_invalidations :: u64
  oh_output_failures :: u64

definition summarize_output_health :: "prepared_evidence \<Rightarrow> output_health_report" where
  "summarize_output_health ev =
     (case output_latest (pe_events ev) of
        None \<Rightarrow> \<lparr>oh_negotiated_format = None, oh_rendered_frames = 0, oh_converted_frames = 0,
          oh_final_padding_frames = 0, oh_output_clock_frequency = None, oh_output_clock_position = None,
          oh_output_clock_qpc_position = None, oh_underruns = 0, oh_rejected_writes = 0,
          oh_endpoint_invalidations = 0, oh_output_failures = 0\<rparr>
      | Some d \<Rightarrow> \<lparr>oh_negotiated_format = st_negotiated_format d,
          oh_rendered_frames = st_rendered_frames d, oh_converted_frames = st_converted_frames d,
          oh_final_padding_frames = st_current_padding_frames d,
          oh_output_clock_frequency = st_output_clock_frequency d,
          oh_output_clock_position = st_output_clock_position d,
          oh_output_clock_qpc_position = st_output_clock_qpc_position d,
          oh_underruns = st_underruns d, oh_rejected_writes = st_rejected_writes d,
          oh_endpoint_invalidations = st_endpoint_invalidations d,
          oh_output_failures = st_output_failures d\<rparr>)"

record stability_report =
  sr_schema_version :: u16
  sr_event_schema_version :: u16
  sr_authoritative :: bool
  sr_software_revision :: "str option"
  sr_source_events :: str
  sr_run_id :: u128
  sr_session_id :: "u128 option"
  sr_aec_instance_id :: "u128 option"
  sr_microphone :: source_descriptor
  sr_render :: source_descriptor
  sr_output_pair :: "output_pair_snapshot option"
  sr_output_health :: output_health_report
  sr_requested_duration_ms :: u128
  sr_observed_duration_ms :: u128
  sr_terminal_event :: validation_event_kind
  sr_data_quality :: data_quality_report
  sr_clock_analysis :: clock_analysis_report
  sr_drift_disposition :: drift_disposition
  sr_drift_reasons :: "message list"
  sr_functional_disposition :: functional_disposition
  sr_functional_reasons :: "message list"
  sr_operator_observations :: "operator_observations option"
  sr_thirty_minute_accepted :: bool
  sr_follow_up :: follow_up_guidance

definition follow_up_for :: "drift_disposition \<Rightarrow> functional_disposition \<Rightarrow> follow_up_guidance" where
  "follow_up_for drift functional =
     (case drift of
        ClockDriftCompensationRequired \<Rightarrow> ProposeClockDriftCompensation
      | DriftInconclusive \<Rightarrow> RepeatThirtyMinuteEvidence
      | BoundedSynchronizerSufficient \<Rightarrow>
          (case functional of
             FunctionalPassed \<Rightarrow> MonitorEarlyVersionDiagnostics
           | FunctionalFailed \<Rightarrow> ResolveFunctionalFailure
           | FunctionalInconclusive \<Rightarrow> CompleteOperatorObservations))"

text \<open>\<open>None\<close>: the loop over the windows has not ended with this fuel.\<close>

definition analyze ::
  "nat \<Rightarrow> prepared_evidence \<Rightarrow> operator_observations option \<Rightarrow> str option \<Rightarrow> str \<Rightarrow> stability_report option" where
  "analyze fuel ev operator revision source_path =
     (case clean_segments (pe_events ev) of (segments, excluded) \<Rightarrow>
      case clock_windows fuel segments (nominal_rate_hz (pe_microphone ev)) (nominal_rate_hz (pe_render ev)) of
        None \<Rightarrow> None
      | Some windows \<Rightarrow>
         let quality = data_quality ev segments excluded;
             clock = summarize_clock_analysis windows (pe_requested_duration_ms ev) in
         case classify_drift ev quality clock of (drift, drift_reasons) \<Rightarrow>
         case classify_functional ev operator of (functional, functional_reasons) \<Rightarrow>
         let final = ve_snapshot (last (pe_events ev)) in
         Some \<lparr>sr_schema_version = REPORT_SCHEMA_VERSION,
           sr_event_schema_version = pe_event_schema_version ev,
           sr_authoritative = pe_authoritative ev, sr_software_revision = revision,
           sr_source_events = source_path, sr_run_id = pe_run_id ev,
           sr_session_id = es_session_id final, sr_aec_instance_id = es_aec_instance_id final,
           sr_microphone = pe_microphone ev, sr_render = pe_render ev,
           sr_output_pair = pe_output_pair ev, sr_output_health = summarize_output_health ev,
           sr_requested_duration_ms = pe_requested_duration_ms ev,
           sr_observed_duration_ms = pe_observed_duration_ms ev,
           sr_terminal_event = pe_terminal_event ev, sr_data_quality = quality,
           sr_clock_analysis = clock, sr_drift_disposition = drift, sr_drift_reasons = drift_reasons,
           sr_functional_disposition = functional, sr_functional_reasons = functional_reasons,
           sr_operator_observations = operator,
           sr_thirty_minute_accepted = (MIN_GATE_DURATION_MS \<le> pe_requested_duration_ms ev
             \<and> drift = BoundedSynchronizerSufficient \<and> functional = FunctionalPassed),
           sr_follow_up = follow_up_for drift functional\<rparr>)"

end
