(* ===== verification/Clock_Properties.thy ===== *)
theory Clock_Properties
  imports Clock_Analysis
begin

text \<open>
  What the clock analysis guarantees: the loop over a segment ends unless an elapsed time is the greatest
  128-bit number, and the windows it scores are long enough and do not overlap.
\<close>

lemma first_position_Some:
  "position P xs = Some n \<Longrightarrow> n < length xs \<and> P (xs ! n) \<and> (\<forall>m < n. \<not> P (xs ! m))"
proof (induction xs arbitrary: n)
  case (Cons x xs)
  then show ?case by (auto split: if_splits simp: less_Suc_eq_0_disj)
qed simp

section \<open>The loop ends\<close>

definition slice :: "'a list \<Rightarrow> nat \<Rightarrow> nat \<Rightarrow> 'a list" where
  "slice xs i j = take (j - i + 1) (drop i xs)"

lemma window_turn_Continue:
  assumes "window_turn mic ren segment (i, reports) = Continue c"
  shows "\<exists>j. i \<le> j \<and> j < length segment
    \<and> sat_add (ob_elapsed_ms (segment ! i)) WINDOW_MS \<le> ob_elapsed_ms (segment ! j)
    \<and> (\<forall>k. i \<le> k \<and> k < j \<longrightarrow> ob_elapsed_ms (segment ! k) < sat_add (ob_elapsed_ms (segment ! i)) WINDOW_MS)
    \<and> c = (j, reports @ (if MIN_WINDOW_DURATION_MS
              \<le> sat_sub (ob_elapsed_ms (last (slice segment i j))) (ob_elapsed_ms (hd (slice segment i j)))
            \<and> MIN_WINDOW_OBSERVATIONS \<le> length (slice segment i j)
           then (case analyze_window (slice segment i j) mic ren of None \<Rightarrow> [] | Some r \<Rightarrow> [r]) else []))"
proof -
  from assms obtain offset where i: "i < length segment"
    and pos: "position (\<lambda>item. sat_add (ob_elapsed_ms (segment ! i)) WINDOW_MS \<le> ob_elapsed_ms item)
      (drop i segment) = Some offset"
    by (auto simp: window_turn_def Let_def split: if_splits option.splits)
  from first_position_Some [OF pos] have off: "i + offset < length segment"
    "sat_add (ob_elapsed_ms (segment ! i)) WINDOW_MS \<le> ob_elapsed_ms (segment ! (i + offset))"
    "\<And>k. i \<le> k \<Longrightarrow> k < i + offset \<Longrightarrow>
       ob_elapsed_ms (segment ! k) < sat_add (ob_elapsed_ms (segment ! i)) WINDOW_MS"
    using i by (auto simp: not_le) (metis add_diff_inverse_nat add_less_cancel_left linorder_not_le not_le)
  with assms i pos show ?thesis
    by (intro exI [of _ "i + offset"])
      (auto simp: window_turn_def slice_def Let_def split: option.splits)
qed

lemma sat_add_gt: "a \<noteq> - 1 \<Longrightarrow> a < sat_add a WINDOW_MS" for a :: u128
proof -
  assume "a \<noteq> - 1"
  then have "unat a \<noteq> unat (- 1 :: u128)" by (metis unsigned_word_eqI)
  then have "unat a \<noteq> 2 ^ 128 - 1" by (simp add: unat_minus_one_word)
  moreover have "unat a < 2 ^ 128" using unsigned_less [of a, where ?'a = nat] by simp
  ultimately have "unat a < unat (sat_add a WINDOW_MS)"
    by (simp add: unat_sat_add WINDOW_MS_def)
  then show ?thesis by (simp add: word_less_nat_alt)
qed

lemma window_loop_returns:
  assumes "\<forall>item \<in> set segment. ob_elapsed_ms item \<noteq> - 1" "length segment < fuel"
  shows "\<exists>reports'. run_loop (window_turn mic ren segment) fuel (0, reports) = Some reports'"
proof -
  let ?\<mu> = "\<lambda>c. length segment - fst c"
  have "\<exists>b. run_loop (window_turn mic ren segment) (Suc (?\<mu> (0, reports))) (0, reports) = Some b"
  proof (rule run_loop_terminates [where I = "\<lambda>_. True"])
    fix c c' assume step: "window_turn mic ren segment c = Continue c'"
    obtain i reports where c: "c = (i, reports)" by fastforce
    from window_turn_Continue [OF step [unfolded c]] obtain j where j: "i \<le> j" "j < length segment"
        "sat_add (ob_elapsed_ms (segment ! i)) WINDOW_MS \<le> ob_elapsed_ms (segment ! j)" "fst c' = j"
      by auto
    have "ob_elapsed_ms (segment ! i) < sat_add (ob_elapsed_ms (segment ! i)) WINDOW_MS"
      using assms(1) j(1,2) by (intro sat_add_gt) auto
    with j have "i \<noteq> j" by auto
    with j c show "True \<and> ?\<mu> c' < ?\<mu> c" by auto
  qed simp
  then obtain b where "run_loop (window_turn mic ren segment) (Suc (length segment)) (0, reports) = Some b"
    by auto
  from run_loop_mono [OF this, of fuel] assms(2) show ?thesis by auto
qed

lemma fold_opt_returns:
  assumes "\<And>x s. x \<in> set xs \<Longrightarrow> \<exists>s'. f x s = Some s'"
  shows "\<exists>s'. fold_opt f xs s = Some s'"
  using assms
proof (induction xs arbitrary: s)
  case (Cons x xs)
  obtain s' where "f x s = Some s'" using Cons.prems [of x s] by auto
  with Cons show ?case by simp
qed simp

lemma clock_windows_total:
  assumes "\<forall>segment \<in> set segments. length segment < fuel \<and> (\<forall>item \<in> set segment. ob_elapsed_ms item \<noteq> - 1)"
  shows "\<exists>reports. clock_windows fuel segments mic ren = Some reports"
  using assms
  by (auto simp: clock_windows_def split: option.split intro!: fold_opt_returns window_loop_returns)

text \<open>
  An observation at the greatest elapsed time is its own window end: the loop stays where it is.
\<close>

lemma window_turn_stuck:
  assumes "i < length segment" "ob_elapsed_ms (segment ! i) = - 1"
  shows "\<exists>reports'. window_turn mic ren segment (i, reports) = Continue (i, reports')"
proof -
  have "sat_add (- 1) WINDOW_MS = (- 1 :: u128)" 
    by (simp add: sat_add_def WINDOW_MS_def unat_minus_one_word)
  moreover obtain rest where "drop i segment = segment ! i # rest"
    using assms(1) by (metis Cons_nth_drop_Suc)
  ultimately show ?thesis
    using assms by (simp add: window_turn_def Let_def)
qed

lemma window_loop_stuck:
  assumes "i < length segment" "ob_elapsed_ms (segment ! i) = - 1"
  shows "run_loop (window_turn mic ren segment) fuel (i, reports) = None"
proof (induction fuel arbitrary: reports)
  case (Suc fuel)
  obtain reports' where "window_turn mic ren segment (i, reports) = Continue (i, reports')"
    using window_turn_stuck [OF assms] by blast
  with Suc show ?case by simp
qed simp

text \<open>The loop that cuts segments into five-minute windows ends, one turn per observation at most, as long as no
  elapsed time is the greatest 128-bit number; but a segment that begins with such an observation, which a
  log may contain, keeps it running for ever.\<close>

theorem window_loop_ends_unless_saturated:
  "((\<forall>segment \<in> set segments. length segment < fuel \<and> (\<forall>item \<in> set segment. ob_elapsed_ms item \<noteq> - 1))
     \<longrightarrow> (\<exists>reports. clock_windows fuel segments mic ren = Some reports))
   \<and> (ob_elapsed_ms item = - 1 \<longrightarrow> clock_windows fuel ((item # segment) # segments) (Some m) (Some r) = None)"
  using clock_windows_total [of segments fuel mic ren] window_loop_stuck [of 0 "item # segment" m r fuel "[]"]
  by (simp add: clock_windows_def)

section \<open>Windows are long and disjoint\<close>

definition eligible :: "observation list \<Rightarrow> fp \<Rightarrow> fp \<Rightarrow> nat \<times> nat \<Rightarrow> bool" where
  "eligible segment mic ren = (\<lambda>(i, j).
     i \<le> j \<and> j < length segment
   \<and> MIN_WINDOW_DURATION_MS \<le> sat_sub (ob_elapsed_ms (segment ! j)) (ob_elapsed_ms (segment ! i))
   \<and> MIN_WINDOW_OBSERVATIONS \<le> j - i + 1
   \<and> analyze_window (slice segment i j) mic ren \<noteq> None)"

definition window_reports ::
  "observation list \<Rightarrow> fp \<Rightarrow> fp \<Rightarrow> (nat \<times> nat) list \<Rightarrow> clock_window_report list" where
  "window_reports segment mic ren bounds =
     map (\<lambda>(i, j). the (analyze_window (slice segment i j) mic ren)) bounds"

definition disjoint_windows :: "(nat \<times> nat) list \<Rightarrow> bool" where
  "disjoint_windows bounds \<longleftrightarrow> sorted_wrt (\<lambda>(i, j) (i', j'). j \<le> i') bounds"

lemma slice_ends:
  assumes "i \<le> j" "j < length xs"
  shows "hd (slice xs i j) = xs ! i" "last (slice xs i j) = xs ! j" "length (slice xs i j) = j - i + 1"
proof -
  show len: "length (slice xs i j) = j - i + 1" using assms by (simp add: slice_def)
  then have "slice xs i j \<noteq> []" by auto
  with assms len show "hd (slice xs i j) = xs ! i" "last (slice xs i j) = xs ! j"
    by (simp_all add: hd_conv_nth last_conv_nth) (simp_all add: slice_def)
qed

lemma window_loop_bounds:
  assumes "run_loop (window_turn mic ren segment) fuel (i, reports) = Some reports'"
  shows "\<exists>bounds. reports' = reports @ window_reports segment mic ren bounds
    \<and> list_all (eligible segment mic ren) bounds \<and> disjoint_windows bounds
    \<and> (\<forall>b \<in> set bounds. i \<le> fst b)"
  using assms
proof (induction fuel arbitrary: i reports)
  case (Suc fuel)
  show ?case
  proof (cases "window_turn mic ren segment (i, reports)")
    case (Break r)
    then have "r = reports" by (auto simp: window_turn_def Let_def split: if_splits option.splits)
    with Suc.prems Break show ?thesis
      by (intro exI [of _ "[]"]) (simp add: window_reports_def disjoint_windows_def)
  next
    case (Continue c)
    from window_turn_Continue [OF Continue] obtain j new where j: "i \<le> j" "j < length segment"
      and c: "c = (j, reports @ new)"
      and new: "new = [] \<or> eligible segment mic ren (i, j) \<and> new = window_reports segment mic ren [(i, j)]"
      by (auto simp: eligible_def window_reports_def slice_ends split: if_splits option.splits)
    have "run_loop (window_turn mic ren segment) fuel (j, reports @ new) = Some reports'"
      using Suc.prems Continue c by simp
    from Suc.IH [OF this] obtain bounds where IH:
      "reports' = (reports @ new) @ window_reports segment mic ren bounds"
      "list_all (eligible segment mic ren) bounds" "disjoint_windows bounds" "\<forall>b \<in> set bounds. j \<le> fst b"
      by blast
    from new show ?thesis
    proof
      assume "new = []"
      with IH j show ?thesis by (intro exI [of _ bounds]) auto
    next
      assume "eligible segment mic ren (i, j) \<and> new = window_reports segment mic ren [(i, j)]"
      with IH j show ?thesis
        by (intro exI [of _ "(i, j) # bounds"])
          (auto simp: window_reports_def disjoint_windows_def)
    qed
  qed
qed simp

text \<open>C25
  Every scored window is a stretch of one clean segment that lasts at least 295 seconds and has at least 250
  observations, and the windows of a segment follow each other, sharing at most an end point, so that no
  stretch of the run is counted twice.\<close>

theorem clock_windows_disjoint:
  assumes "clock_windows fuel segments (Some mic) (Some ren) = Some reports"
  shows "\<exists>bounds. length bounds = length segments
    \<and> reports = concat (map (\<lambda>(segment, bs). window_reports segment mic ren bs) (zip segments bounds))
    \<and> list_all2 (\<lambda>segment bs. list_all (eligible segment mic ren) bs \<and> disjoint_windows bs) segments bounds"
proof -
  have "\<exists>bounds. length bounds = length segments
    \<and> reports = before @ concat (map (\<lambda>(segment, bs). window_reports segment mic ren bs) (zip segments bounds))
    \<and> list_all2 (\<lambda>segment bs. list_all (eligible segment mic ren) bs \<and> disjoint_windows bs) segments bounds"
    if "fold_opt (\<lambda>segment reports. run_loop (window_turn mic ren segment) fuel (0, reports)) segments before
      = Some reports" for before
    using that
  proof (induction segments arbitrary: before)
    case (Cons segment segments)
    then obtain mid where mid: "run_loop (window_turn mic ren segment) fuel (0, before) = Some mid"
      and rest: "fold_opt (\<lambda>segment reports. run_loop (window_turn mic ren segment) fuel (0, reports))
        segments mid = Some reports"
      by (auto split: option.splits)
    from window_loop_bounds [OF mid] obtain bs where bs: "mid = before @ window_reports segment mic ren bs"
        "list_all (eligible segment mic ren) bs" "disjoint_windows bs" by blast
    from Cons.IH [OF rest] obtain bounds where "length bounds = length segments"
      "reports = mid @ concat (map (\<lambda>(segment, bs). window_reports segment mic ren bs) (zip segments bounds))"
      "list_all2 (\<lambda>segment bs. list_all (eligible segment mic ren) bs \<and> disjoint_windows bs) segments bounds"
      by blast
    with bs show ?case by (intro exI [of _ "bs # bounds"]) simp
  qed simp
  from this [of "[]"] assms show ?thesis by (simp add: clock_windows_def)
qed

section \<open>A concrete segment\<close>

text \<open>Seven minutes at 48 kHz with one observation per second.\<close>

definition steady_observation :: "u128 \<Rightarrow> nat \<Rightarrow> observation" where
  "steady_observation elapsed n =
     \<lparr>ob_elapsed_ms = elapsed, ob_microphone_position = of_nat (48000 * n),
      ob_microphone_qpc = of_nat (10000000 * n), ob_render_position = of_nat (48000 * n),
      ob_render_qpc = of_nat (10000000 * n), ob_aec_instance_id = Some 1, ob_synchronization_epoch = 1,
      ob_discontinuities = 0, ob_timestamp_errors = 0, ob_render_discontinuities = 0,
      ob_render_timestamp_errors = 0, ob_current_delta_100ns = Some 0, ob_stale_render_frames = 0,
      ob_silent_render_references = 0\<rparr>"

definition steady_segment :: "observation list" where
  "steady_segment = map (\<lambda>n. steady_observation (of_nat (1000 * n)) n) [0..<420]"

lemma steady_segment_elapsed:
  "length steady_segment = 420" "item \<in> set steady_segment \<Longrightarrow> ob_elapsed_ms item \<noteq> - 1"
proof -
  show "length steady_segment = 420" by (simp add: steady_segment_def)
  assume "item \<in> set steady_segment"
  then obtain n where n: "n < 420" "ob_elapsed_ms item = of_nat (1000 * n)"
    by (auto simp: steady_segment_def steady_observation_def)
  then have "unat (ob_elapsed_ms item) = 1000 * n"
    using unat_of_nat_small [of "1000 * n", where ?'a = 128] by simp
  with n(1) show "ob_elapsed_ms item \<noteq> - 1" by (auto simp: unat_minus_one_word)
qed

lemma window_loop_ends_unless_saturated_witness:
  "(\<exists>reports. clock_windows 421 [steady_segment] (Some (Fin 48000)) (Some (Fin 48000)) = Some reports)
    \<and> clock_windows 421 [[steady_observation (- 1) 0, steady_observation (- 1) 1]]
        (Some (Fin 48000)) (Some (Fin 48000)) = None"
  using window_loop_ends_unless_saturated [where segments = "[steady_segment]" and fuel = 421
      and mic = "Some (Fin 48000)" and ren = "Some (Fin 48000)"]
    window_loop_ends_unless_saturated [where segments = "[]" and fuel = 421
      and item = "steady_observation (- 1) 0" and segment = "[steady_observation (- 1) 1]"
      and m = "Fin 48000" and r = "Fin 48000"]
  by (simp add: steady_segment_elapsed) (simp add: steady_observation_def)

lemma clock_windows_disjoint_witness:
  "\<exists>reports bounds. clock_windows 421 [steady_segment] (Some (Fin 48000)) (Some (Fin 48000)) = Some reports
    \<and> reports = window_reports steady_segment (Fin 48000) (Fin 48000) bounds
    \<and> list_all (eligible steady_segment (Fin 48000) (Fin 48000)) bounds \<and> disjoint_windows bounds"
proof -
  obtain reports where reports:
    "clock_windows 421 [steady_segment] (Some (Fin 48000)) (Some (Fin 48000)) = Some reports"
    using clock_windows_total [of "[steady_segment]" 421 "Some (Fin 48000)" "Some (Fin 48000)"]
      steady_segment_elapsed by auto
  from clock_windows_disjoint [OF this] reports show ?thesis
    by (auto simp: list_all2_Cons1)
qed

end
