(* ===== verification/Stability_Properties.thy ===== *)
theory Stability_Properties
  imports Stability Clock_Properties
begin

text \<open>
  What the verdicts of a stability report mean: an accepted run has all the evidence the gate asks for, the
  queue check finds exactly three consecutive increases, the 80 percent rule for a persistent direction is
  exact in spite of its floating-point arithmetic, and compensation is only asked for on directional evidence.
\<close>

lemma push_if_Nil [simp]: "push_if b m = [] \<longleftrightarrow> \<not> b"
  by (simp add: push_if_def)

section \<open>Growing queues\<close>

definition rises :: "u32 list \<Rightarrow> nat \<Rightarrow> bool" where
  "rises ds i \<longleftrightarrow> i + 3 < length ds \<and> ds ! i < ds ! (i + 1) \<and> ds ! (i + 1) < ds ! (i + 2)
     \<and> ds ! (i + 2) < ds ! (i + 3)"

text \<open>The scan after \<open>k\<close> increases needs \<open>3 - k\<close> more at once, or three later.\<close>

fun rises_from :: "nat \<Rightarrow> u32 list \<Rightarrow> bool" where
  "rises_from 0 ds = True"
| "rises_from (Suc k) (a # b # ds) = (a < b \<and> rises_from k (b # ds))"
| "rises_from (Suc k) ds = False"

lemma rises_Cons: "(\<exists>i. rises (a # ds) i) \<longleftrightarrow> rises_from 3 (a # ds) \<or> (\<exists>i. rises ds i)"
proof -
  have zero: "rises (a # ds) 0 \<longleftrightarrow> rises_from 3 (a # ds)"
    by (cases ds rule: remdups_adj.cases; cases "tl (tl ds)")
      (auto simp: rises_def numeral_eq_Suc)
  have "rises (a # ds) (Suc i) \<longleftrightarrow> rises ds i" for i
    by (auto simp: rises_def add.commute [of 3])
  then show ?thesis using zero by (metis not0_implies_Suc)
qed

lemma rises_from_mono: "rises_from m ds \<Longrightarrow> rises_from (m - k) ds"
proof -
  have "rises_from (Suc m) ds \<Longrightarrow> rises_from m ds" for m ds
    by (induction m ds rule: rises_from.induct) auto
  then have "rises_from (m + l) ds \<Longrightarrow> rises_from m ds" for m l ds
    by (induction l) auto
  then show "rises_from m ds \<Longrightarrow> rises_from (m - k) ds"
    by (metis diff_le_self le_add_diff_inverse)
qed

lemma growing_scan_rises:
  "n < 3 \<Longrightarrow> growing_scan (Some a) (of_nat n) ds \<longleftrightarrow>
     rises_from (3 - n) (a # ds) \<or> (\<exists>i. rises (a # ds) i)"
proof (induction ds arbitrary: a n)
  case Nil
  then show ?case by (cases "3 - n") (auto simp: rises_def)
next
  case (Cons d ds)
  have step: "rises_from (3 - n) (a # d # ds) \<longleftrightarrow> a < d \<and> rises_from (3 - Suc n) (d # ds)"
  proof -
    have "3 - n = Suc (3 - Suc n)" using Cons.prems by simp
    then show ?thesis by simp
  qed
  show ?case
  proof (cases "a < d")
    case True
    have n: "sat_add (of_nat n) 1 = (of_nat (Suc n) :: u8)"
      using Cons.prems unat_of_nat_small [of n, where ?'a = 8] by (simp add: sat_add_def add.commute)
    have three: "(3 :: u8) \<le> of_nat (Suc n) \<longleftrightarrow> n = 2"
      using Cons.prems unat_of_nat_small [of "Suc n", where ?'a = 8]
      by (auto simp: word_le_nat_alt simp del: of_nat_Suc)
    show ?thesis
    proof (cases "n = 2")
      case True
      with \<open>a < d\<close> n three step show ?thesis by simp
    next
      case False
      then have "Suc n < 3" using Cons.prems by simp
      from Cons.IH [OF this, of d] \<open>a < d\<close> n three False step
        rises_from_mono [of 3 "d # ds" "Suc n"] rises_from_mono [of 2 "d # ds" n]
      show ?thesis by (auto simp: rises_Cons [of a] Let_def numeral_eq_Suc)
    qed
  next
    case False
    have "rises_from 3 (a # d # ds) = False" using False by (simp add: numeral_eq_Suc)
    with False step Cons.IH [of 0 d] show ?thesis
      by (auto simp: rises_Cons [of a] rises_Cons [of d])
  qed
qed

text \<open>The check for a growing queue is exact: it reports one if and only if the depth rises strictly over four
  consecutive periodic events.\<close>

theorem growing_queue_iff:
  "has_growing_queue events render \<longleftrightarrow> (\<exists>i. rises (queue_depths events render) i)"
proof (cases "queue_depths events render")
  case Nil
  then show ?thesis by (simp add: has_growing_queue_def rises_def)
next
  case (Cons d ds)
  have "rises_from 3 (d # ds) \<Longrightarrow> \<exists>i. rises (d # ds) i" by (simp add: rises_Cons)
  with growing_scan_rises [of 0 d ds] Cons show ?thesis
    by (auto simp: has_growing_queue_def)
qed

section \<open>The 80 percent rule\<close>

text \<open>The literal 0.8 is the double just above it, so a multiple of five windows is the delicate case.\<close>

lemma literal_eighty_percent: "round_value Binary64 (8 / 10) = 7205759403792794 / 2 ^ 53"
proof -
  have lp: "last_place Binary64 (8 / 10) = - 53"
    by (rule last_place_eq) (simp_all add: power_int_def)
  have x: "8 / 10 / 2 powi (- 53) = (36028797018963968 / 5 :: rat)"
    by (simp add: power_int_def power_one_over)
  have "\<lfloor>36028797018963968 / 5 :: rat\<rfloor> = 7205759403792793" by (intro floor_unique) simp_all
  then have r: "round_half_even (8 / 10 / 2 powi (- 53)) = 7205759403792794"
    unfolding x round_half_even_def Let_def by simp
  show ?thesis unfolding round_value_def lp Let_def r by (simp add: power_int_def power_one_over)
qed

lemma last_place_small:
  assumes "\<bar>q\<bar> \<le> 2 ^ 40"
  shows "last_place Binary64 q \<le> - 12"
  using last_place_bound [of q 40 Binary64] assms by simp

lemma round_value_tie_free:
  assumes "0 \<le> k" "k < 2 ^ 39"
  shows "round_value Binary64 (of_int k * (1 + 1 / 2 ^ 54)) = of_int k"
proof -
  define q :: rat where "q = of_int k * (1 + 1 / 2 ^ 54)"
  define e where "e = last_place Binary64 q"
  define N where "N = k * 2 ^ nat (- e)"
  have k: "(of_int k :: rat) \<le> 2 ^ 39"
    using assms(2) by (metis less_le of_int_le_iff of_int_numeral of_int_power)
  have q: "0 \<le> q" "q \<le> 2 ^ 40" using assms(1) k by (auto simp: q_def)
  then have e: "e \<le> - 12" unfolding e_def by (intro last_place_small) simp
  have u: "(2 :: rat) powi e = 1 / 2 ^ nat (- e)" using e by (simp add: power_int_def inverse_eq_divide power_one_over)
  have qu: "q / 2 powi e = of_int N + of_int N / 2 ^ 54"
    by (simp add: q_def u N_def algebra_simps)
  have "q < 2 powi (int (precision Binary64) + e)"
    using last_place_upper [of q Binary64] q e_def by (simp add: power_int_def)
  then have "q / 2 powi e < 2 ^ 53" by (simp add: power_int_add divide_less_eq)
  moreover have "0 \<le> N" using assms(1) by (simp add: N_def)
  ultimately have N: "0 \<le> (of_int N :: rat)" "(of_int N :: rat) < 2 ^ 53"
    unfolding qu by (simp_all add: field_simps)
  have "\<lfloor>q / 2 powi e\<rfloor> = N"
    unfolding qu using N by (intro floor_unique) (simp_all add: field_simps)
  moreover have "q / 2 powi e - of_int N < 1 / 2"
    unfolding qu using N by (simp add: field_simps)
  ultimately have "round_half_even (q / 2 powi e) = N"
    by (simp add: round_half_even_def Let_def)
  then show ?thesis
    unfolding q_def [symmetric] by (simp add: round_value_def e_def [symmetric] Let_def u N_def)
qed

lemma required_directional_exact:
  assumes "n < 2 ^ 38"
  shows "fp_to_unsigned 64 (fp_ceil (mul64 (nat64 n) (lit64 (8 / 10)))) = (4 * n + 4) div 5"
proof -
  define c :: rat where "c = 7205759403792794 / 2 ^ 53"
  define q where "q = of_nat n * c"
  define v where "v = round_value Binary64 q"
  have n: "(of_nat n :: rat) \<le> 2 ^ 38"
    using assms by (metis less_le of_nat_le_iff of_nat_numeral of_nat_power)
  have q: "0 \<le> q" "q \<le> 2 ^ 38" using n by (auto simp: q_def c_def)
  have lit: "lit64 (8 / 10) = Fin c"
    using fp_rounded_finite [of "8 / 10" 1 Binary64] literal_eighty_percent
    by (simp add: lit64_def c_def)
  have mul: "mul64 (nat64 n) (lit64 (8 / 10)) = Fin v"
    using fp_of_nat_exact [of n Binary64] assms lit q fp_rounded_finite [of q "2 ^ 38" Binary64]
    by (simp add: fp_mul_def q_def v_def)
  have "\<lceil>v\<rceil> = int ((4 * n + 4) div 5)"
  proof (cases "n mod 5 = 0")
    case True
    then obtain j where j: "n = 5 * j" by (metis mod_0_imp_dvd dvdE)
    have q_eq: "q = of_int (int (4 * j)) * (1 + 1 / 2 ^ 54)" by (simp add: q_def c_def j)
    have "v = of_int (int (4 * j))"
      unfolding v_def q_eq by (rule round_value_tie_free) (use assms j in simp_all)
    then have "\<lceil>v\<rceil> = int (4 * j)" by (simp only: ceiling_of_int)
    moreover have "(4 * n + 4) div 5 = 4 * j" unfolding j by presburger
    ultimately show ?thesis by simp
  next
    case False
    define m where "m = 4 * n div 5"
    have lp: "last_place Binary64 q \<le> - 12" using q by (intro last_place_small) simp
    have "\<bar>v - q\<bar> \<le> 2 powi (last_place Binary64 q - 1)" unfolding v_def by (rule round_value_error)
    also have "\<dots> \<le> 2 powi (- 13)" using lp by (intro power_int_increasing) simp_all
    finally have err: "\<bar>v - q\<bar> \<le> 1 / 8192" by (simp add: power_int_def power_one_over)
    have "5 * m + 1 \<le> 4 * n" "4 * n + 1 \<le> 5 * m + 5"
      using False by (simp_all add: m_def) presburger+
    then have "of_nat (5 * m + 1) \<le> (of_nat (4 * n) :: rat)" "of_nat (4 * n + 1) \<le> (of_nat (5 * m + 5) :: rat)"
      unfolding of_nat_le_iff by simp_all
    then have "of_nat m + 1 / 5 \<le> (4 / 5 * of_nat n :: rat)" "4 / 5 * of_nat n + 1 / 5 \<le> (of_nat m + 1 :: rat)"
      by simp_all
    moreover have "4 / 5 * of_nat n \<le> q" "q \<le> 4 / 5 * of_nat n + 1 / 16"
      using n by (simp_all add: q_def c_def)
    ultimately have "of_nat m < v" "v \<le> of_nat m + 1" using err by linarith+
    then have "\<lceil>v\<rceil> = int m + 1" by (intro ceiling_unique) simp_all
    moreover have "(4 * n + 4) div 5 = m + 1" using False by (simp add: m_def) presburger
    ultimately show ?thesis by simp
  qed
  moreover have "(4 * n + 4) div 5 \<le> 2 ^ 64 - 1" using assms by simp
  moreover have "Ieee.truncate (of_nat k) = int k" for k
    by (simp add: Ieee.truncate_def)
  ultimately show ?thesis unfolding mul by simp
qed

definition faster :: "clock_window_report \<Rightarrow> bool" where
  "faster w \<longleftrightarrow> fp_less (fp_max (cw_uncertainty_ppm w) MIN_NUMERICAL_PPM) (cw_relative_ppm w)"

definition slower :: "clock_window_report \<Rightarrow> bool" where
  "slower w \<longleftrightarrow> fp_less (cw_relative_ppm w) (fp_neg (fp_max (cw_uncertainty_ppm w) MIN_NUMERICAL_PPM))"

lemma not_faster_and_slower: "\<not> (faster w \<and> slower w)"
  by (cases "cw_uncertainty_ppm w"; cases "cw_relative_ppm w")
    (auto simp: faster_def slower_def fp_max_def MIN_NUMERICAL_PPM_def split: if_splits)

lemma faster_slower_count:
  "length (filter faster ws) + length (filter slower ws) \<le> length ws"
  using not_faster_and_slower by (induction ws) auto

text \<open>A persistent direction is reported if and only if there are at least three windows and at least four
  fifths of them lie beyond their own uncertainty and one part per million on that side: the floating-point
  product and its ceiling compute the threshold exactly, and the two directions exclude each other.\<close>

theorem persistent_direction_exact:
  assumes "length ws < 2 ^ 38"
  shows "(persistent_direction_of ws = Some ''render_faster'' \<longleftrightarrow>
      3 \<le> length ws \<and> 4 * length ws \<le> 5 * length (filter faster ws))
    \<and> (persistent_direction_of ws = Some ''render_slower'' \<longleftrightarrow>
      3 \<le> length ws \<and> 4 * length ws \<le> 5 * length (filter slower ws))
    \<and> persistent_direction_of ws \<in> {None, Some ''render_faster'', Some ''render_slower''}"
proof -
  have threshold: "(4 * n + 4) div 5 \<le> k \<longleftrightarrow> 4 * n \<le> 5 * k" for n k :: nat
    using div_less_iff_less_mult [of 5 "4 * n + 4" "k + 1"] by auto
  have dir: "persistent_direction_of ws =
     (if 3 \<le> length ws \<and> 4 * length ws \<le> 5 * length (filter faster ws) then Some ''render_faster''
      else if 3 \<le> length ws \<and> 4 * length ws \<le> 5 * length (filter slower ws) then Some ''render_slower''
      else None)"
    unfolding persistent_direction_of_def Let_def required_directional_exact [OF assms] threshold
      faster_def slower_def by (rule refl)
  have "\<not> (4 * length ws \<le> 5 * length (filter faster ws) \<and> 4 * length ws \<le> 5 * length (filter slower ws))"
    if "3 \<le> length ws"
    using faster_slower_count [of ws] that by linarith
  then show ?thesis unfolding dir by (simp split: if_split)
qed

definition drifting_window :: clock_window_report where
  "drifting_window =
     \<lparr>cw_start_elapsed_ms = 0, cw_end_elapsed_ms = 300000, cw_duration_ms = 300000,
      cw_observations = 300, cw_microphone_rate_hz = Fin 48000, cw_render_rate_hz = Fin 48000,
      cw_relative_ppm = Fin 9, cw_uncertainty_ppm = Fin 2,
      cw_microphone_residual_rms_frames = Fin 0, cw_render_residual_rms_frames = Fin 0,
      cw_delta_start_100ns = None, cw_delta_end_100ns = None,
      cw_stale_render_increase = 0, cw_silent_reference_increase = 0\<rparr>"

theorem persistent_direction_exact_witness:
  "persistent_direction_of [drifting_window, drifting_window, drifting_window] = Some ''render_faster''"
proof -
  have "faster drifting_window"
    by (simp add: faster_def drifting_window_def fp_max_def MIN_NUMERICAL_PPM_def)
  then show ?thesis
    using persistent_direction_exact [of "[drifting_window, drifting_window, drifting_window]"] by simp
qed

section \<open>When compensation is asked for\<close>

text \<open>Clock-drift compensation is asked for exactly when the data-quality gate is open, at least three windows
  agree on a direction, the trend of the synchronizer does not contradict it, and there is a consequence: a
  predicted crossing of the 5 ms tolerance, recurring maintenance in at least three windows, or a terminal
  synchronization failure.\<close>

theorem compensation_needs_evidence:
  "fst (classify_drift ev q a) = ClockDriftCompensationRequired \<longleftrightarrow>
      dq_gate_ready q \<and> 3 \<le> length (ca_windows a) \<and> ca_persistent_direction a \<noteq> None
    \<and> \<not> trend_conflicts ev a
    \<and> ((\<exists>phase. ca_predicted_phase_ms_at_requested_duration a = Some phase
          \<and> fp_le ALIGNMENT_TOLERANCE_MS phase)
       \<or> recurring_consequence a \<or> synchronization_failure ev)"
  by (auto simp: classify_drift_def Let_def not_less split: option.splits)

section \<open>What acceptance means\<close>

lemma data_quality_ready:
  "dq_gate_ready (data_quality ev segments excluded) \<longleftrightarrow>
     pe_authoritative ev \<and> MIN_GATE_DURATION_MS \<le> pe_requested_duration_ms ev
   \<and> pe_requested_duration_ms ev \<le> pe_observed_duration_ms ev
   \<and> \<not> fp_less (dq_periodic_event_coverage (data_quality ev segments excluded)) MIN_COVERAGE
   \<and> dq_required_usable_duration_ms (data_quality ev segments excluded)
       \<le> dq_usable_duration_ms (data_quality ev segments excluded)
   \<and> MIN_LONGEST_SEGMENT_MS \<le> dq_longest_clean_segment_ms (data_quality ev segments excluded)"
  by (simp add: data_quality_def quality_reasons_def Let_def not_less)

text \<open>An accepted run has a clean measurement, a clock that needs no correction, ends in good order,
and left its output and its operator without complaint.\<close>

definition explained_increase :: "string \<Rightarrow> str list \<Rightarrow> bool \<Rightarrow> bool" where
  "explained_increase counter explained increased \<longleftrightarrow> \<not> increased \<or> lit counter \<in> set explained"

definition quality_gate :: "prepared_evidence \<Rightarrow> data_quality_report \<Rightarrow> bool" where
  "quality_gate ev q \<longleftrightarrow>
     pe_authoritative ev \<and> MIN_GATE_DURATION_MS \<le> pe_requested_duration_ms ev
   \<and> pe_requested_duration_ms ev \<le> pe_observed_duration_ms ev
   \<and> \<not> fp_less (dq_periodic_event_coverage q) MIN_COVERAGE
   \<and> dq_required_usable_duration_ms q \<le> dq_usable_duration_ms q
   \<and> MIN_LONGEST_SEGMENT_MS \<le> dq_longest_clean_segment_ms q"

definition drift_gate :: "prepared_evidence \<Rightarrow> clock_analysis_report \<Rightarrow> bool" where
  "drift_gate ev a \<longleftrightarrow> 3 \<le> length (ca_windows a) \<and> \<not> recurring_consequence a
   \<and> \<not> synchronization_failure ev \<and> \<not> trend_conflicts ev a
   \<and> (case ca_persistent_direction a of
        None \<Rightarrow> \<not> fp_less (decision_uncertainty (ca_median_uncertainty_ppm a) (ca_median_absolute_deviation_ppm a))
                   (fp_abs (option_or (ca_median_relative_ppm a) (Fin 0)))
      | Some d \<Rightarrow> \<not> (\<exists>phase \<in> set_option (ca_predicted_phase_ms_at_requested_duration a).
                   fp_le ALIGNMENT_TOLERANCE_MS phase))"

definition orderly_end :: "prepared_evidence \<Rightarrow> engine_snapshot \<Rightarrow> bool" where
  "orderly_end ev s \<longleftrightarrow> pe_terminal_event ev \<noteq> EventFailed \<and> es_last_error s = None
   \<and> (pe_terminal_event ev = Final \<longrightarrow> es_state s = Stopped)
   \<and> \<not> (pe_authoritative ev \<and> pe_observed_duration_ms ev < pe_requested_duration_ms ev)"

definition clean_counters :: "engine_snapshot \<Rightarrow> engine_snapshot \<Rightarrow> str list \<Rightarrow> bool" where
  "clean_counters s0 s explained \<longleftrightarrow>
     (let grew = (\<lambda>f. f s0 < f s) in
       explained_increase ''microphone_queue_overflows'' explained (grew es_queue_overflows)
     \<and> explained_increase ''microphone_discarded_frames'' explained (grew es_discarded_frames)
     \<and> explained_increase ''render_queue_overflows'' explained (grew es_render_queue_overflows)
     \<and> explained_increase ''render_discarded_frames'' explained (grew es_render_discarded_frames)
     \<and> explained_increase ''input_discontinuities'' explained
         (grew es_discontinuities \<or> grew es_render_discontinuities)
     \<and> explained_increase ''timestamp_errors'' explained
         (grew es_timestamp_errors \<or> grew es_render_timestamp_errors)
     \<and> explained_increase ''alignment_resets'' explained (grew es_alignment_resets)
     \<and> explained_increase ''aec_resets_or_rebuilds'' explained (grew es_aec_resets \<or> grew es_aec_rebuilds))"

definition safe_audio :: "engine_snapshot \<Rightarrow> engine_snapshot \<Rightarrow> bool" where
  "safe_audio s0 s \<longleftrightarrow>
     (let grew = (\<lambda>f. f s0 < f s) in
       \<not> grew es_aec_invalid_outputs \<and> \<not> grew es_processing_deadline_misses \<and> \<not> grew es_sink_failures
     \<and> grew es_aec_processed_frames \<and> grew es_sink_accepted_frames
     \<and> es_queue_depth s = 0 \<and> es_render_queue_depth s = 0)"

definition clean_output :: "prepared_evidence \<Rightarrow> str list \<Rightarrow> bool" where
  "clean_output ev explained \<longleftrightarrow>
     (\<exists>start \<in> set_option (output_start (pe_events ev)). \<exists>latest \<in> set_option (output_latest (pe_events ev)).
        let grew = (\<lambda>f. f start < f latest) in
        \<not> grew st_rejected_writes \<and> \<not> grew st_overflows \<and> \<not> grew st_discarded_frames
      \<and> \<not> grew st_endpoint_invalidations \<and> \<not> grew st_output_failures
      \<and> explained_increase ''output_underruns'' explained (grew st_underruns)
      \<and> \<not> (pe_authoritative ev \<and> st_negotiated_format latest = None))"

definition operator_confirms :: "operator_observations option \<Rightarrow> bool" where
  "operator_confirms operator \<longleftrightarrow>
     (\<exists>oo \<in> set_option operator. oo_client_continuously_consumed oo
      \<and> oo_render_active_during_scored_interval oo \<and> oo_no_stale_replay_or_unexplained_interruption oo
      \<and> (oo_explained_counters oo = [] \<or> (\<exists>notes \<in> set_option (oo_notes oo). trim notes \<noteq> [])))"

definition functional_gate :: "prepared_evidence \<Rightarrow> operator_observations option \<Rightarrow> bool" where
  "functional_gate ev operator \<longleftrightarrow>
     (let s0 = ve_snapshot (hd (pe_events ev)); s = ve_snapshot (last (pe_events ev)) in
       orderly_end ev s \<and> clean_counters s0 s (explained_of operator) \<and> safe_audio s0 s
     \<and> \<not> has_growing_queue (pe_events ev) False \<and> \<not> has_growing_queue (pe_events ev) True
     \<and> clean_output ev (explained_of operator) \<and> operator_confirms operator)"

lemma sat_sub_pos [simp]: "0 < sat_sub a b \<longleftrightarrow> b < a" for a b :: "'a::len word"
proof -
  have "0 < sat_sub a b \<longleftrightarrow> 0 < unat (sat_sub a b)" by (simp add: word_less_nat_alt)
  then show ?thesis by (simp add: unat_sat_sub word_less_nat_alt)
qed

lemma sat_sub_zero [simp]: "sat_sub a b = 0 \<longleftrightarrow> a \<le> b" for a b :: "'a::len word"
  using sat_sub_pos [of a b] by (metis not_le word_gt_0)

lemma sat_add_pos [simp]: "0 < sat_add a b \<longleftrightarrow> 0 < a \<or> 0 < b" for a b :: "u64"
proof -
  have "0 < sat_add a b \<longleftrightarrow> 0 < unat (sat_add a b)" by (simp add: word_less_nat_alt)
  then show ?thesis by (simp add: unat_sat_add word_less_nat_alt)
qed

lemma sat_add_zero [simp]: "sat_add a b = 0 \<longleftrightarrow> a = 0 \<and> b = 0" for a b :: "u64"
  using sat_add_pos [of a b] by (auto simp: word_gt_0)

lemma counter_failure_none [simp]: "counter_failure name n explained = [] \<longleftrightarrow> n = 0 \<or> lit name \<in> set explained"
  by (auto simp: counter_failure_def word_gt_0)

lemma lifecycle_failures_none: "lifecycle_failures ev s = [] \<longleftrightarrow> orderly_end ev s"
  by (auto simp: lifecycle_failures_def orderly_end_def)

lemma counter_failures_none: "counter_failures s0 s explained = [] \<longleftrightarrow> clean_counters s0 s explained"
  by (simp add: counter_failures_def clean_counters_def explained_increase_def Let_def not_less [symmetric])

lemma safety_failures_none:
  "safety_failures events s0 s = [] \<longleftrightarrow>
     safe_audio s0 s \<and> \<not> has_growing_queue events False \<and> \<not> has_growing_queue events True"
  by (auto simp: safety_failures_def safe_audio_def Let_def not_less not_le)

lemma output_verdict_none: "output_verdict ev explained = ([], []) \<longleftrightarrow> clean_output ev explained"
  by (auto simp: output_verdict_def clean_output_def explained_increase_def Let_def not_less split: option.splits)

lemma operator_failures_none: "operator \<noteq> None \<and> operator_failures operator = [] \<longleftrightarrow> operator_confirms operator"
  by (auto simp: operator_failures_def operator_confirms_def split: option.splits)

lemma functional_passed:
  "fst (classify_functional ev operator) = FunctionalPassed \<longleftrightarrow> functional_gate ev operator"
proof -
  define s0 where "s0 = ve_snapshot (hd (pe_events ev))"
  define s where "s = ve_snapshot (last (pe_events ev))"
  define fs where "fs = lifecycle_failures ev s @ counter_failures s0 s (explained_of operator)
    @ safety_failures (pe_events ev) s0 s
    @ fst (output_verdict ev (explained_of operator)) @ operator_failures operator"
  define inc where "inc = push_if (operator = None)
      (Text ''operator observations are required for end-to-end functional acceptance'')
    @ snd (output_verdict ev (explained_of operator))"
  have "fst (classify_functional ev operator) = FunctionalPassed \<longleftrightarrow> fs = [] \<and> inc = []"
    unfolding classify_functional_def Let_def s0_def [symmetric] s_def [symmetric] fs_def [symmetric]
      inc_def [symmetric] by simp
  also have "\<dots> \<longleftrightarrow> lifecycle_failures ev s = [] \<and> counter_failures s0 s (explained_of operator) = []
    \<and> safety_failures (pe_events ev) s0 s = [] \<and> output_verdict ev (explained_of operator) = ([], [])
    \<and> operator \<noteq> None \<and> operator_failures operator = []"
    unfolding fs_def inc_def prod_eq_iff by auto
  also have "\<dots> \<longleftrightarrow> functional_gate ev operator"
    unfolding lifecycle_failures_none counter_failures_none safety_failures_none output_verdict_none
      operator_failures_none functional_gate_def Let_def s0_def s_def by blast
  finally show ?thesis .
qed

lemma drift_sufficient:
  "fst (classify_drift ev q a) = BoundedSynchronizerSufficient \<longleftrightarrow> dq_gate_ready q \<and> drift_gate ev a"
proof -
  have "\<not> recurring_consequence a \<and> \<not> trend_conflicts ev a" if "ca_persistent_direction a = None"
    using that by (simp add: recurring_consequence_def trend_conflicts_def)
  then show ?thesis
    by (auto simp: classify_drift_def drift_gate_def Let_def not_less split: option.splits)
qed

text \<open>C22
  The report accepts the thirty-minute run exactly when the gate is passed: authoritative evidence of at
  least thirty minutes and of the requested duration, with enough coverage, usable time and a ten-minute
  clean segment; three clock windows whose drift the synchronizer bounds; a terminal event that is no
  failure, with no error and no increase of a counter that the operator has not explained; audio processed
  and accepted, no invalid output, missed deadline, sink failure, retained or growing queue; an output with
  no failure; and an operator who confirmed every observation.\<close>

theorem acceptance_is_the_gate:
  "map_option sr_thirty_minute_accepted (analyze fuel ev operator revision source_path) =
     (case clean_segments (pe_events ev) of (segments, excluded) \<Rightarrow>
      map_option (\<lambda>windows. quality_gate ev (data_quality ev segments excluded)
          \<and> drift_gate ev (summarize_clock_analysis windows (pe_requested_duration_ms ev))
          \<and> functional_gate ev operator)
        (clock_windows fuel segments (nominal_rate_hz (pe_microphone ev)) (nominal_rate_hz (pe_render ev))))"
proof -
  have ready: "dq_gate_ready (data_quality ev segments excluded) \<longleftrightarrow>
      quality_gate ev (data_quality ev segments excluded)" for segments excluded
    by (simp add: data_quality_ready quality_gate_def)
  show ?thesis
    by (cases "clean_segments (pe_events ev)")
      (auto simp: analyze_def Let_def split_beta drift_sufficient functional_passed ready quality_gate_def
        split: option.splits)
qed

end
