(* ===== verification/Lab_Paths.thy ===== *)
theory Lab_Paths
  imports Prelude
begin

text \<open>
  Paths as \<^verbatim>\<open>std::path\<close> sees them on Windows, where the lab runs, and the two guards that keep its evidence
  under the repository's \<^verbatim>\<open>artifacts\<close> directory: \<^verbatim>\<open>validated_evidence_root\<close> of
  \<^verbatim>\<open>crates/mini-aec-lab/src/platform/windows/bypass.rs\<close>, which looks at the path only, and those of
  \<^verbatim>\<open>crates/mini-aec-lab/src/stability.rs\<close>, which also resolve it.

  A path is the list of its components.  The file system is the record \<open>lab_fs\<close> over a state \<open>'w\<close>; each
  operation may fail.  \<open>repository_root\<close> is the part of \<^verbatim>\<open>env!("CARGO_MANIFEST_DIR")\<close> above the crate.
\<close>

section \<open>Paths\<close>

datatype path_prefix = DiskPrefix nat | VerbatimDisk nat | OtherPrefix str

datatype component = PrefixComponent path_prefix | RootDir | CurDir | ParentDir | Normal str

type_synonym lab_path = "component list"

definition is_absolute :: "lab_path \<Rightarrow> bool" where
  "is_absolute p \<longleftrightarrow> (case p of PrefixComponent _ # RootDir # _ \<Rightarrow> True | _ \<Rightarrow> False)"

definition starts_with :: "lab_path \<Rightarrow> lab_path \<Rightarrow> bool" where
  "starts_with p base \<longleftrightarrow> take (length base) p = base"

definition is_verbatim :: "lab_path \<Rightarrow> bool" where
  "is_verbatim p \<longleftrightarrow> (case p of PrefixComponent (VerbatimDisk _) # _ \<Rightarrow> True | _ \<Rightarrow> False)"

definition prefix_of :: "lab_path \<Rightarrow> lab_path" where
  "prefix_of p = (case p of PrefixComponent q # _ \<Rightarrow> [PrefixComponent q] | _ \<Rightarrow> [])"

definition is_normal :: "component \<Rightarrow> bool" where
  "is_normal c \<longleftrightarrow> (case c of Normal _ \<Rightarrow> True | _ \<Rightarrow> False)"

text \<open>\<^verbatim>\<open>join\<close>: an absolute path or one with a prefix replaces the base, a rooted one all but its prefix; onto a
  verbatim base the components are pushed one by one, because such a path may not hold any dots.\<close>

definition push_component :: "component \<Rightarrow> lab_path \<Rightarrow> lab_path" where
  "push_component c base =
     (case c of
        CurDir \<Rightarrow> base
      | ParentDir \<Rightarrow> if base \<noteq> [] \<and> is_normal (last base) then butlast base else base
      | RootDir \<Rightarrow> prefix_of base @ [RootDir]
      | _ \<Rightarrow> base @ [c])"

definition join_path :: "lab_path \<Rightarrow> lab_path \<Rightarrow> lab_path" where
  "join_path base p =
     (case p of
        PrefixComponent _ # _ \<Rightarrow> p
      | _ \<Rightarrow>
          if is_verbatim base then fold push_component p base
          else if p \<noteq> [] \<and> hd p = RootDir then prefix_of base @ p
          else if base = [] then p
          else base @ filter (\<lambda>c. c \<noteq> CurDir) p)"

definition parent_of :: "lab_path \<Rightarrow> lab_path option" where
  "parent_of p =
     (if p = [] then None
      else case last p of PrefixComponent _ \<Rightarrow> None | RootDir \<Rightarrow> None | _ \<Rightarrow> Some (butlast p))"

definition file_name_of :: "lab_path \<Rightarrow> str option" where
  "file_name_of p = (if p = [] then None else case last p of Normal name \<Rightarrow> Some name | _ \<Rightarrow> None)"

definition with_file_name :: "lab_path \<Rightarrow> str \<Rightarrow> lab_path" where
  "with_file_name p name =
     join_path (if file_name_of p = None then p else butlast p) [Normal name]"

lemma join_normals [simp]: "base \<noteq> [] \<Longrightarrow> join_path base [Normal name] = base @ [Normal name]"
  by (simp add: join_path_def push_component_def)

section \<open>The guards\<close>

record 'w lab_fs =
  lf_display :: "lab_path \<Rightarrow> str"
  lf_canonicalize :: "lab_path \<Rightarrow> 'w \<Rightarrow> message + lab_path"
  lf_exists :: "lab_path \<Rightarrow> 'w \<Rightarrow> bool"
  lf_create_dir_all :: "lab_path \<Rightarrow> 'w \<Rightarrow> 'w \<times> (message + unit)"

definition has_parent_dir :: "lab_path \<Rightarrow> bool" where
  "has_parent_dir p \<longleftrightarrow> ParentDir \<in> set p"

text \<open>The crate lies two directories below the root of the repository.\<close>

definition repository_root :: "lab_path \<Rightarrow> message + lab_path" where
  "repository_root manifest_dir =
     (case parent_of manifest_dir of
        None \<Rightarrow> Inl (Text ''failed to resolve the MiniAEC repository root'')
      | Some p \<Rightarrow>
          (case parent_of p of
             None \<Rightarrow> Inl (Text ''failed to resolve the MiniAEC repository root'')
           | Some root \<Rightarrow> Inr root))"

definition artifacts_of :: "lab_path \<Rightarrow> lab_path" where
  "artifacts_of root = join_path root [Normal (lit ''artifacts'')]"

definition repository_absolute :: "lab_path \<Rightarrow> lab_path \<Rightarrow> message + lab_path" where
  "repository_absolute manifest_dir p =
     res_bind (repository_root manifest_dir) (\<lambda>root.
       Inr (if is_absolute p then p else join_path root p))"

definition validated_evidence_root ::
  "'w lab_fs \<Rightarrow> lab_path \<Rightarrow> lab_path \<Rightarrow> message + lab_path" where
  "validated_evidence_root fs manifest_dir requested =
     (if has_parent_dir requested
      then Inl (Text ''bypass evidence path must not contain parent-directory traversal'')
      else res_bind (repository_root manifest_dir) (\<lambda>root.
        let absolute = (if is_absolute requested then requested else join_path root requested);
            artifacts = artifacts_of root in
        if \<not> starts_with absolute artifacts
        then Inl (Pieces [Text ''VB-CABLE evidence must remain below '', Shown (lf_display fs artifacts)])
        else Inr absolute))"

definition is_within_read_evidence_roots ::
  "'w lab_fs \<Rightarrow> lab_path \<Rightarrow> lab_path \<Rightarrow> 'w \<Rightarrow> message + bool" where
  "is_within_read_evidence_roots fs manifest_dir p w =
     res_bind (repository_root manifest_dir) (\<lambda>root.
       if lf_exists fs (artifacts_of root) w
       then res_bind (lf_canonicalize fs (artifacts_of root) w) (\<lambda>canonical.
         Inr (starts_with p canonical))
       else Inr False)"

definition validated_existing_evidence_path ::
  "'w lab_fs \<Rightarrow> lab_path \<Rightarrow> lab_path \<Rightarrow> 'w \<Rightarrow> message + lab_path" where
  "validated_existing_evidence_path fs manifest_dir requested w =
     (if has_parent_dir requested
      then Inl (Text ''evidence path must not contain parent-directory traversal'')
      else res_bind (repository_absolute manifest_dir requested) (\<lambda>absolute.
        res_bind (with_context (Pieces [Text ''failed to resolve existing evidence '',
                     Shown (lf_display fs absolute)]) (lf_canonicalize fs absolute w)) (\<lambda>canonical.
        res_bind (is_within_read_evidence_roots fs manifest_dir canonical w) (\<lambda>within.
          if \<not> within then Inl (Text ''evidence must remain below the ignored artifacts/ root'')
          else Inr canonical))))"

definition validated_output_path ::
  "'w lab_fs \<Rightarrow> lab_path \<Rightarrow> lab_path \<Rightarrow> 'w \<Rightarrow> 'w \<times> (message + lab_path)" where
  "validated_output_path fs manifest_dir requested w =
     (if has_parent_dir requested
      then (w, Inl (Text ''report path must not contain parent-directory traversal''))
      else case repository_absolute manifest_dir requested of Inl e \<Rightarrow> (w, Inl e) | Inr absolute \<Rightarrow>
      case repository_root manifest_dir of Inl e \<Rightarrow> (w, Inl e) | Inr root \<Rightarrow>
      if \<not> starts_with absolute (artifacts_of root)
      then (w, Inl (Text ''report must remain below artifacts/''))
      else case parent_of absolute of
        None \<Rightarrow> (w, Inl (Text ''report path has no parent''))
      | Some parent \<Rightarrow>
          (case lf_create_dir_all fs parent w of
             (w, Inl e) \<Rightarrow> (w, with_context (Pieces [Text ''failed to create report directory '',
                                  Shown (lf_display fs parent)]) (Inl e))
           | (w, Inr _) \<Rightarrow> (w,
               res_bind (with_context (Pieces [Text ''failed to resolve report directory '',
                           Shown (lf_display fs parent)]) (lf_canonicalize fs parent w)) (\<lambda>canonical_parent.
               res_bind (lf_canonicalize fs (artifacts_of root) w) (\<lambda>canonical_artifacts.
                 if \<not> starts_with canonical_parent canonical_artifacts
                 then Inl (Text ''report must remain below artifacts/'')
                 else Inr absolute)))))"

section \<open>What the guards let through\<close>

lemma starts_with_iff: "starts_with p base \<longleftrightarrow> (\<exists>rest. p = base @ rest)"
  unfolding starts_with_def by (metis append_eq_conv_conj append_take_drop_id)

lemma starts_with_hd: "starts_with p base \<Longrightarrow> base \<noteq> [] \<Longrightarrow> p \<noteq> [] \<and> hd p = hd base"
  by (auto simp: starts_with_iff)

lemma parent_of_Some: "parent_of p = Some q \<Longrightarrow> p \<noteq> [] \<and> q = butlast p"
  by (auto simp: parent_of_def split: if_splits component.splits)

lemma existing_evidence_within:
  assumes "validated_existing_evidence_path fs manifest_dir requested w = Inr p"
  obtains root artifacts absolute where "repository_root manifest_dir = Inr root"
    "lf_canonicalize fs (artifacts_of root) w = Inr artifacts" "starts_with p artifacts"
    "lf_canonicalize fs absolute w = Inr p" "\<not> has_parent_dir requested"
  using assms
  by (auto simp: validated_existing_evidence_path_def is_within_read_evidence_roots_def
      repository_absolute_def res_bind_eq_Inr split: if_splits)

lemma output_path_within:
  assumes "validated_output_path fs manifest_dir requested w = (w', Inr p)"
  obtains root parent canonical artifacts where "repository_root manifest_dir = Inr root"
    "\<not> has_parent_dir requested" "p = (if is_absolute requested then requested else join_path root requested)"
    "starts_with p (artifacts_of root)" "parent_of p = Some parent"
    "lf_create_dir_all fs parent w = (w', Inr ())"
    "lf_canonicalize fs parent w' = Inr canonical" "lf_canonicalize fs (artifacts_of root) w' = Inr artifacts"
    "starts_with canonical artifacts"
  using assms
  by (auto simp: validated_output_path_def repository_absolute_def res_bind_eq_Inr
      split: if_splits option.splits prod.splits sum.splits)

section \<open>Calls of the environment\<close>

text \<open>A call that may fail, followed by \<^verbatim>\<open>?\<close>.\<close>

definition env_call ::
  "('c \<Rightarrow> 'c \<times> (message + 'a)) \<Rightarrow> ('a \<Rightarrow> 'c \<Rightarrow> 'c \<times> (message + 'b)) \<Rightarrow> 'c \<Rightarrow> 'c \<times> (message + 'b)" where
  "env_call m f c = (case m c of (c, Inl e) \<Rightarrow> (c, Inl e) | (c, Inr a) \<Rightarrow> f a c)"

end
