(* ===== verification/Stability_Report.thy ===== *)
theory Stability_Report
  imports Stability Lab_Paths
begin

text \<open>
  The command \<^verbatim>\<open>stability-report\<close> of the lab, \<^verbatim>\<open>create_report\<close> in
  \<^verbatim>\<open>crates/mini-aec-lab/src/stability.rs\<close>: which files it reads, which one it writes, and what it refuses.
  The file operations and the JSON conversions are the record \<open>report_env\<close>.
\<close>

record ('w, 'b) report_env =
  re_fs :: "'w lab_fs"
  re_open_lines :: "lab_path \<Rightarrow> 'w \<Rightarrow> message + (message + str) list"
  re_read :: "lab_path \<Rightarrow> 'w \<Rightarrow> message + 'b"
  re_write :: "lab_path \<Rightarrow> 'b \<Rightarrow> 'w \<Rightarrow> 'w \<times> (message + unit)"
  re_parse_event :: "str \<Rightarrow> message + validation_event"
  re_parse_operator :: "'b \<Rightarrow> message + operator_observations"
  re_print_report :: "stability_report \<Rightarrow> message + 'b"

record report_config =
  rc_events_path :: lab_path
  rc_output_path :: "lab_path option"
  rc_operator_observations_path :: "lab_path option"
  rc_software_revision :: "str option"

definition read_operator_observations ::
  "('w, 'b) report_env \<Rightarrow> lab_path \<Rightarrow> lab_path \<Rightarrow> 'w \<Rightarrow> message + operator_observations" where
  "read_operator_observations env manifest_dir p w =
     res_bind (validated_existing_evidence_path (re_fs env) manifest_dir p w) (\<lambda>p.
     res_bind (with_context (Pieces [Text ''failed to read '', Shown (lf_display (re_fs env) p)])
                (re_read env p w)) (\<lambda>bytes.
       with_context (Pieces [Text ''failed to parse operator observations from '',
                       Shown (lf_display (re_fs env) p)]) (re_parse_operator env bytes)))"

definition read_evidence ::
  "('w, 'b) report_env \<Rightarrow> lab_path \<Rightarrow> 'w \<Rightarrow> message + prepared_evidence" where
  "read_evidence env p w =
     res_bind (with_context (Pieces [Text ''failed to open '', Shown (lf_display (re_fs env) p)])
                (re_open_lines env p w)) (\<lambda>lines.
       parse_evidence (re_parse_event env) lines)"

definition report_inputs ::
  "('w, 'b) report_env \<Rightarrow> lab_path \<Rightarrow> report_config \<Rightarrow> 'w
     \<Rightarrow> message + lab_path \<times> operator_observations option \<times> prepared_evidence" where
  "report_inputs env manifest_dir cfg w =
     res_bind (validated_existing_evidence_path (re_fs env) manifest_dir (rc_events_path cfg) w) (\<lambda>events_path.
     res_bind (case rc_operator_observations_path cfg of
                 None \<Rightarrow> Inr None
               | Some p \<Rightarrow> res_bind (read_operator_observations env manifest_dir p w) (\<lambda>oo. Inr (Some oo))) (\<lambda>operator.
     res_bind (read_evidence env events_path w) (\<lambda>evidence.
       Inr (events_path, operator, evidence))))"

text \<open>\<open>None\<close>: the analysis has not ended with this fuel.\<close>

definition create_report ::
  "nat \<Rightarrow> ('w, 'b) report_env \<Rightarrow> lab_path \<Rightarrow> report_config \<Rightarrow> 'w \<Rightarrow> ('w \<times> (message + lab_path)) option" where
  "create_report fuel env manifest_dir cfg w =
     (case report_inputs env manifest_dir cfg w of
        Inl e \<Rightarrow> Some (w, Inl e)
      | Inr (events_path, operator, evidence) \<Rightarrow>
        (case analyze fuel evidence operator (rc_software_revision cfg)
                (lf_display (re_fs env) events_path) of
           None \<Rightarrow> None
         | Some report \<Rightarrow>
           let requested_output =
             (case rc_output_path cfg of
                None \<Rightarrow> with_file_name events_path (lit ''stability-report.json'')
              | Some p \<Rightarrow> p) in
           Some (case validated_output_path (re_fs env) manifest_dir requested_output w of
             (w, Inl e) \<Rightarrow> (w, Inl e)
           | (w, Inr output_path) \<Rightarrow>
               (case re_print_report env report of
                  Inl e \<Rightarrow> (w, Inl e)
                | Inr bytes \<Rightarrow>
                    (case re_write env output_path bytes w of
                       (w, Inl e) \<Rightarrow> (w, with_context (Pieces [Text ''failed to write '',
                                         Shown (lf_display (re_fs env) output_path)]) (Inl e))
                     | (w, Inr _) \<Rightarrow> (w, Inr output_path))))))"

section \<open>Where a report may come from and go to\<close>

lemma report_inputs_evidence:
  assumes "report_inputs env manifest_dir cfg w = Inr (events_path, operator, evidence)"
  shows "validated_existing_evidence_path (re_fs env) manifest_dir (rc_events_path cfg) w = Inr events_path"
    "read_evidence env events_path w = Inr evidence"
  using assms by (auto simp: report_inputs_def res_bind_eq_Inr)

text \<open>C39
  A report that is created comes from a log whose resolved path is below the resolved artifacts directory,
  and it is the one file that is written: below the artifacts directory as it is spelled, in a directory that
  resolves to one below it.  Nothing else keeps the file that is written apart from the log it was read from.\<close>

theorem report_stays_in_artifacts:
  assumes "create_report fuel env manifest_dir cfg w = Some (w', Inr out)"
  shows "\<exists>repo artifacts artifacts' events_path operator evidence report bytes w1 canonical.
     repository_root manifest_dir = Inr repo
   \<and> lf_canonicalize (re_fs env) (artifacts_of repo) w = Inr artifacts
   \<and> starts_with events_path artifacts \<and> read_evidence env events_path w = Inr evidence
   \<and> analyze fuel evidence operator (rc_software_revision cfg) (lf_display (re_fs env) events_path) = Some report
   \<and> re_print_report env report = Inr bytes
   \<and> lf_create_dir_all (re_fs env) (butlast out) w = (w1, Inr ()) \<and> re_write env out bytes w1 = (w', Inr ())
   \<and> starts_with out (artifacts_of repo)
   \<and> lf_canonicalize (re_fs env) (butlast out) w1 = Inr canonical
   \<and> lf_canonicalize (re_fs env) (artifacts_of repo) w1 = Inr artifacts' \<and> starts_with canonical artifacts'"
proof -
  obtain events_path operator evidence where
    inputs: "report_inputs env manifest_dir cfg w = Inr (events_path, operator, evidence)"
    using assms by (auto simp: create_report_def split: sum.splits)
  define requested where "requested = (case rc_output_path cfg of
    None \<Rightarrow> with_file_name events_path (lit ''stability-report.json'') | Some p \<Rightarrow> p)"
  from assms obtain report w1 bytes where
    report: "analyze fuel evidence operator (rc_software_revision cfg)
      (lf_display (re_fs env) events_path) = Some report"
    and path: "validated_output_path (re_fs env) manifest_dir requested w = (w1, Inr out)"
    and written: "re_print_report env report = Inr bytes" "re_write env out bytes w1 = (w', Inr ())"
    by (auto simp: create_report_def inputs Let_def requested_def with_context_def
        split: option.splits prod.splits sum.splits)
  note evidence = report_inputs_evidence [OF inputs]
  from existing_evidence_within [OF evidence(1)] obtain repo artifacts where
    events: "repository_root manifest_dir = Inr repo"
      "lf_canonicalize (re_fs env) (artifacts_of repo) w = Inr artifacts" "starts_with events_path artifacts"
    by blast
  from output_path_within [OF path] events(1) obtain canonical artifacts' where
    "starts_with out (artifacts_of repo)" "lf_create_dir_all (re_fs env) (butlast out) w = (w1, Inr ())"
    "lf_canonicalize (re_fs env) (butlast out) w1 = Inr canonical"
    "lf_canonicalize (re_fs env) (artifacts_of repo) w1 = Inr artifacts'" "starts_with canonical artifacts'"
    by (metis Inr_inject parent_of_Some)
  with events evidence(2) report written show ?thesis by blast
qed

section \<open>The default place of a report is refused\<close>

lemma starts_with_prefix:
  assumes "is_verbatim p" "starts_with p base" "base \<noteq> []"
  shows "is_verbatim base"
proof -
  obtain rest where "p = base @ rest" using assms(2) by (auto simp: starts_with_iff)
  then show ?thesis using assms(1,3) by (cases base) (simp_all add: is_verbatim_def)
qed

lemma is_verbatim_with_file_name:
  assumes "is_verbatim p"
  shows "is_verbatim (with_file_name p name)"
proof -
  obtain d rest where p: "p = PrefixComponent (VerbatimDisk d) # rest"
    using assms by (auto simp: is_verbatim_def split: list.splits component.splits path_prefix.splits)
  show ?thesis
    by (cases "rest = []")
      (simp_all add: with_file_name_def is_verbatim_def file_name_of_def p split: component.splits)
qed

lemma artifacts_not_verbatim:
  assumes "repository_root (PrefixComponent (DiskPrefix d) # rest) = Inr repo"
  shows "artifacts_of repo \<noteq> []" "\<not> is_verbatim (artifacts_of repo)"
proof -
  obtain p where "parent_of (PrefixComponent (DiskPrefix d) # rest) = Some p" "parent_of p = Some repo"
    using assms by (auto simp: repository_root_def split: option.splits)
  then have "repo = [] \<or> (\<exists>r. repo = PrefixComponent (DiskPrefix d) # r)"
    using parent_of_Some by (metis butlast.simps(1) butlast.simps(2))
  then show "artifacts_of repo \<noteq> []" "\<not> is_verbatim (artifacts_of repo)"
    by (auto simp: artifacts_of_def join_path_def is_verbatim_def push_component_def)
qed

text \<open>C40
  Without \<^verbatim>\<open>--output\<close> no report is ever written on Windows.  There \<^verbatim>\<open>canonicalize\<close> returns paths with the
  extended prefix, the default place of the report is next to the resolved log and so has that prefix, and
  the artifacts directory it is compared with is spelled with a plain drive letter: the report is refused as
  not being below \<^verbatim>\<open>artifacts\<close>, and nothing has been touched.\<close>

theorem default_report_refused:
  assumes "\<And>p q. lf_canonicalize (re_fs env) p w = Inr q \<Longrightarrow> is_verbatim q"
    and "rc_output_path cfg = None"
    and "create_report fuel env (PrefixComponent (DiskPrefix d) # rest) cfg w = Some (w', r)"
  shows "is_err r \<and> w' = w"
proof (cases "report_inputs env (PrefixComponent (DiskPrefix d) # rest) cfg w")
  case (Inl e)
  with assms(3) show ?thesis by (auto simp: create_report_def)
next
  case (Inr inputs)
  obtain events_path operator evidence where inputs: "inputs = (events_path, operator, evidence)"
    by (cases inputs)
  define requested where "requested = with_file_name events_path (lit ''stability-report.json'')"
  note evidence = report_inputs_evidence(1) [OF Inr [unfolded inputs]]
  have "is_verbatim events_path"
    using existing_evidence_within [OF evidence] assms(1) by metis
  then have verbatim: "is_verbatim requested" by (simp add: requested_def is_verbatim_with_file_name)
  have "\<exists>e. validated_output_path (re_fs env) (PrefixComponent (DiskPrefix d) # rest) requested w = (w, Inl e)"
  proof -
    have "\<not> starts_with absolute (artifacts_of repo)"
      if "repository_root (PrefixComponent (DiskPrefix d) # rest) = Inr repo"
        "absolute = (if is_absolute requested then requested else join_path repo requested)" for repo absolute
    proof -
      have "absolute = requested"
        using verbatim that(2) by (auto simp: is_verbatim_def join_path_def split: list.splits component.splits)
      then show ?thesis
        using starts_with_prefix [of requested "artifacts_of repo"] artifacts_not_verbatim [OF that(1)] verbatim
        by blast
    qed
    then show ?thesis
      by (auto simp: validated_output_path_def repository_absolute_def split: sum.splits)
  qed
  then show ?thesis
    using assms(2,3) by (auto simp: create_report_def Inr inputs requested_def Let_def split: option.splits)
qed

section \<open>A concrete repository\<close>

definition windows_canonical :: "lab_path \<Rightarrow> lab_path" where
  "windows_canonical p =
     (case p of PrefixComponent (DiskPrefix d) # rest \<Rightarrow> PrefixComponent (VerbatimDisk d) # rest
      | PrefixComponent (VerbatimDisk d) # rest \<Rightarrow> p
      | _ \<Rightarrow> PrefixComponent (VerbatimDisk 67) # RootDir # p)"

definition small_env :: "(lab_path list, unit) report_env" where
  "small_env = \<lparr>
     re_fs = \<lparr>lf_display = (\<lambda>p. []), lf_canonicalize = (\<lambda>p w. Inr (windows_canonical p)),
       lf_exists = (\<lambda>p w. True), lf_create_dir_all = (\<lambda>p w. (w, Inr ()))\<rparr>,
     re_open_lines = (\<lambda>p w. Inr [Inr [83], Inr [32], Inr [70]]), re_read = (\<lambda>p w. Inr ()),
     re_write = (\<lambda>p b w. (p # w, Inr ())), re_parse_event = log_line,
     re_parse_operator = (\<lambda>b. Inl (Text ''no observations'')), re_print_report = (\<lambda>r. Inr ())\<rparr>"

lemma small_env_sel [simp]:
  "lf_display (re_fs small_env) p = []" "lf_canonicalize (re_fs small_env) p w = Inr (windows_canonical p)"
  "lf_exists (re_fs small_env) p w" "lf_create_dir_all (re_fs small_env) p w = (w, Inr ())"
  "re_open_lines small_env p w = Inr [Inr [83], Inr [32], Inr [70]]"
  "re_write small_env p b w = (p # w, Inr ())" "re_parse_event small_env = log_line"
  "re_print_report small_env r = Inr ()"
  by (simp_all add: small_env_def)

definition small_crate :: lab_path where
  "small_crate = [PrefixComponent (DiskPrefix 67), RootDir, Normal (lit ''repo''), Normal (lit ''crates''),
     Normal (lit ''lab'')]"

definition small_config :: "lab_path option \<Rightarrow> report_config" where
  "small_config out = \<lparr>rc_events_path = [Normal (lit ''artifacts''), Normal (lit ''engine.jsonl'')],
     rc_output_path = out, rc_operator_observations_path = None, rc_software_revision = None\<rparr>"

lemma small_config_sel [simp]:
  "rc_events_path (small_config out) = [Normal (lit ''artifacts''), Normal (lit ''engine.jsonl'')]"
  "rc_output_path (small_config out) = out" "rc_operator_observations_path (small_config out) = None"
  "rc_software_revision (small_config out) = None"
  by (simp_all add: small_config_def)

lemma small_report: "\<exists>report. analyze 1 short_log None None [] = Some report"
  by (simp add: analyze_def clock_windows_def nominal_rate_hz_def short_log_def log_source_def Let_def
      split: prod.splits)

lemma small_inputs:
  "report_inputs small_env small_crate (small_config out) w =
     Inr ([PrefixComponent (VerbatimDisk 67), RootDir, Normal (lit ''repo''), Normal (lit ''artifacts''),
       Normal (lit ''engine.jsonl'')], None, short_log)"
  by (simp add: report_inputs_def validated_existing_evidence_path_def has_parent_dir_def
      repository_absolute_def repository_root_def parent_of_def is_absolute_def join_path_def
      is_within_read_evidence_roots_def artifacts_of_def is_verbatim_def starts_with_def windows_canonical_def
      small_crate_def read_evidence_def with_context_def short_log_parsed)

theorem report_stays_in_artifacts_witness:
  "\<exists>w'. create_report 1 small_env small_crate
      (small_config (Some [Normal (lit ''artifacts''), Normal (lit ''engine.jsonl'')])) [] = Some (w',
        Inr [PrefixComponent (DiskPrefix 67), RootDir, Normal (lit ''repo''), Normal (lit ''artifacts''),
          Normal (lit ''engine.jsonl'')])
    \<and> starts_with [PrefixComponent (DiskPrefix 67), RootDir, Normal (lit ''repo''), Normal (lit ''artifacts''),
          Normal (lit ''engine.jsonl'')] (artifacts_of (take 3 small_crate))"
proof -
  let ?out = "[PrefixComponent (DiskPrefix 67), RootDir, Normal (lit ''repo''), Normal (lit ''artifacts''),
          Normal (lit ''engine.jsonl'')]"
  let ?cfg = "small_config (Some [Normal (lit ''artifacts''), Normal (lit ''engine.jsonl'')])"
  have "validated_output_path (re_fs small_env) small_crate
      [Normal (lit ''artifacts''), Normal (lit ''engine.jsonl'')] w = (w, Inr ?out)" for w
    by (simp add: validated_output_path_def has_parent_dir_def
      repository_absolute_def repository_root_def parent_of_def is_absolute_def join_path_def
      artifacts_of_def is_verbatim_def starts_with_def windows_canonical_def
      small_crate_def with_context_def)
  then have run: "create_report 1 small_env small_crate ?cfg [] = Some ([?out], Inr ?out)"
    using small_report by (auto simp: create_report_def small_inputs)
  have repo: "repository_root small_crate = Inr (take 3 small_crate)"
    by (simp add: repository_root_def parent_of_def small_crate_def)
  show ?thesis using run report_stays_in_artifacts [OF run] by (auto simp: repo)
qed

theorem default_report_refused_witness:
  "\<exists>e. create_report 1 small_env small_crate (small_config None) [] = Some ([], Inl e)"
proof -
  have canonical: "lf_canonicalize (re_fs small_env) p w = Inr q \<Longrightarrow> is_verbatim q" for p q w
    by (auto simp: windows_canonical_def is_verbatim_def
        split: list.splits component.splits path_prefix.splits)
  have "create_report 1 small_env small_crate (small_config None) [] \<noteq> None"
    using small_report by (auto simp: create_report_def small_inputs Let_def)
  then obtain w' r where run: "create_report 1 small_env small_crate (small_config None) [] = Some (w', r)"
    by fast
  have "is_err r \<and> w' = []"
    using default_report_refused [of small_env "[]" "small_config None" 1 67] canonical run
    by (simp add: small_crate_def)
  then show ?thesis using run by (cases r) simp_all
qed

end
