(* ===== verification/Single_Bytes.thy ===== *)
theory Single_Bytes
  imports Ieee_Arith
begin

text \<open>
  \<^verbatim>\<open>f32::from_le_bytes\<close>, which the input adapter and the recorder apply to every sample they are given, and
  that it undoes \<^verbatim>\<open>to_le_bytes\<close> on every single.  Like the rest of the model it has one zero and one NaN.
\<close>

definition of_le_bytes :: "u8 list \<Rightarrow> nat" where
  "of_le_bytes bytes = foldr (\<lambda>b n. unat b + 256 * n) bytes 0"

text \<open>Sign, biased exponent and fraction; an exponent of 0 has no hidden bit, 255 is infinite or no number.\<close>

definition single_of_bits :: "nat \<Rightarrow> fp" where
  "single_of_bits n =
     (let negative = 2 ^ 31 \<le> n; biased = n mod 2 ^ 31 div 2 ^ 23; fraction = n mod 2 ^ 23;
          size = (if biased = 0 then rat_of_nat fraction * 2 powi (- 149)
                  else rat_of_nat (2 ^ 23 + fraction) * 2 powi (int biased - 150)) in
      if biased = 255 then (if fraction \<noteq> 0 then NaN else if negative then NInf else PInf)
      else Fin (if negative then - size else size))"

definition f32_from_le_bytes :: "u8 list \<Rightarrow> fp" where
  "f32_from_le_bytes bytes = single_of_bits (of_le_bytes bytes)"

definition f32_to_le_bytes :: "fp \<Rightarrow> u8 list" where
  "f32_to_le_bytes x = le_bytes 4 (unat (single_bits x))"

section \<open>Bytes\<close>

lemma le_bytes_Suc: "le_bytes (Suc k) n = of_nat (n mod 256) # le_bytes k (n div 256)"
proof -
  have "of_nat (n div 2 ^ (8 * Suc i) mod 256) = (of_nat (n div 256 div 2 ^ (8 * i) mod 256) :: u8)" for i
    by (simp add: div_mult2_eq power_add)
  moreover have "[0..<Suc k] = 0 # map Suc [0..<k]" by (simp add: upt_conv_Cons map_Suc_upt del: upt_Suc)
  ultimately show ?thesis by (simp add: le_bytes_def comp_def del: upt_Suc)
qed

lemma of_le_bytes_le_bytes: "n < 256 ^ k \<Longrightarrow> of_le_bytes (le_bytes k n) = n"
proof (induction k arbitrary: n)
  case 0
  then show ?case by (simp add: of_le_bytes_def le_bytes_def)
next
  case (Suc k)
  then have "of_le_bytes (le_bytes k (n div 256)) = n div 256" by (simp add: less_mult_imp_div_less mult.commute)
  then show ?case
    by (simp add: le_bytes_Suc of_le_bytes_def unat_of_nat)
qed

section \<open>Singles\<close>

definition is_single :: "fp \<Rightarrow> bool" where
  "is_single x \<longleftrightarrow> (case x of Fin q \<Rightarrow> fp_rounded Binary32 q = Fin q | _ \<Rightarrow> True)"

text \<open>A finite single is a whole number of last places, fewer than \<open>2\<^sup>2\<^sup>4\<close> and, above the subnormals, at least
  \<open>2\<^sup>2\<^sup>3\<close>.\<close>

lemma finite_single:
  assumes "fp_rounded Binary32 q = Fin q" "0 \<le> q"
  obtains m :: nat where "q = of_nat m * 2 powi last_place Binary32 q" "m < 2 ^ 24"
    "- 149 < last_place Binary32 q \<Longrightarrow> 2 ^ 23 \<le> m"
proof -
  define e where "e = last_place Binary32 q"
  have v: "round_value Binary32 q = q" "\<bar>q\<bar> \<le> max_finite Binary32"
    using assms(1) by (auto simp: fp_rounded_def Let_def split: if_splits)
  define m where "m = nat (round_half_even (q / 2 powi e))"
  have u: "(0 :: rat) < 2 powi e" by simp
  have q: "of_int (round_half_even (q / 2 powi e)) * 2 powi e = q"
    using v(1) by (simp add: round_value_def Let_def e_def)
  then have "0 \<le> rat_of_int (round_half_even (q / 2 powi e))"
    using assms(2) u by (metis zero_le_mult_iff less_le_not_le)
  then have m: "q = of_nat m * 2 powi e" using q by (simp add: m_def)
  have "max_finite Binary32 < 2 powi (int (precision Binary32) + max_exp Binary32)"
    by (simp add: max_finite_def)
  with v(2) have "\<bar>q\<bar> < 2 powi (24 + e)"
    using last_place_upper [of q Binary32] by (simp add: e_def)
  then have "rat_of_nat m * 2 powi e < 2 ^ 24 * 2 powi e" using assms(2) by (simp add: m power_int_add)
  then have small: "m < 2 ^ 24" using u by (metis mult_less_cancel_right_pos of_nat_less_iff of_nat_numeral of_nat_power)
  have big: "2 ^ 23 \<le> m" if "- 149 < e"
  proof -
    from that have "2 powi (24 + e - 1) \<le> \<bar>q\<bar>" using last_place_lower [of Binary32 q] by (simp add: e_def)
    then have "2 ^ 23 * 2 powi e \<le> rat_of_nat m * 2 powi e" using assms(2) by (simp add: m power_int_add)
    then show ?thesis using u by (metis mult_le_cancel_right_pos of_nat_le_iff of_nat_numeral of_nat_power)
  qed
  show thesis using that m small big unfolding e_def by blast
qed

lemma single_of_bits_finite:
  assumes "m < 2 ^ 24" "- 149 \<le> e" "e \<le> 104" "- 149 < e \<Longrightarrow> 2 ^ 23 \<le> m" "b = 0 \<or> b = 2 ^ 31"
  shows "single_of_bits (b + nat (e + 149) * 2 ^ 23 + m)
    = Fin ((if b = 0 then 1 else - 1) * (rat_of_nat m * 2 powi e))"
proof -
  define k where "k = nat (e + 149)"
  have k: "int k = e + 149" "k \<le> 253" using assms(2,3) by (auto simp: k_def)
  define n where "n = k * 2 ^ 23 + m"
  have n: "n < 2 ^ 31" using assms(1) k(2) by (simp add: n_def)
  have "(2 ^ 31 + n) mod 2 ^ 23 = n mod 2 ^ 23"
    using mod_mult_self3 [of 256 "2 ^ 23 :: nat" n] by simp
  then have parts: "(b + n) mod 2 ^ 31 = n" "2 ^ 31 \<le> b + n \<longleftrightarrow> b \<noteq> 0" "(b + n) mod 2 ^ 23 = n mod 2 ^ 23"
    using n assms(5) by auto
  have size: "(if n div 2 ^ 23 = 0 then rat_of_nat (n mod 2 ^ 23) * 2 powi (- 149)
        else rat_of_nat (2 ^ 23 + n mod 2 ^ 23) * 2 powi (int (n div 2 ^ 23) - 150)) = rat_of_nat m * 2 powi e
      \<and> n div 2 ^ 23 \<noteq> 255"
  proof (cases "m < 2 ^ 23")
    case True
    with assms(2,4) have "e = - 149" by linarith
    moreover with k have "k = 0" by simp
    ultimately show ?thesis using True by (simp add: n_def)
  next
    case False
    then obtain f where f: "m = 2 ^ 23 + f" by (metis le_Suc_ex not_less)
    with assms(1) have "f < 2 ^ 23" by simp
    then have d: "n div 2 ^ 23 = Suc k" "n mod 2 ^ 23 = f" by (simp_all add: n_def f)
    have "int (Suc k) - 150 = e" using k(1) by simp
    with d k(2) show ?thesis by (simp add: f)
  qed
  show ?thesis
    unfolding add.assoc k_def [symmetric] n_def [symmetric] single_of_bits_def Let_def parts
    using size by auto
qed

lemma single_bits_roundtrip: "is_single x \<Longrightarrow> single_of_bits (unat (single_bits x)) = x"
proof (cases x)
  case (Fin q)
  assume "is_single x"
  with Fin have r: "fp_rounded Binary32 q = Fin q" by (simp add: is_single_def)
  define e where "e = last_place Binary32 q"
  have e: "- 149 \<le> e" "e \<le> 104" using last_place_range [of Binary32 q] by (simp_all add: e_def)
  have abs: "fp_rounded Binary32 \<bar>q\<bar> = Fin \<bar>q\<bar>"
    using r by (auto simp: fp_rounded_def Let_def abs_if round_value_minus split: if_splits)
  have "last_place Binary32 \<bar>q\<bar> = e" by (simp add: e_def abs_if)
  then obtain m where m: "\<bar>q\<bar> = of_nat m * 2 powi e" "m < 2 ^ 24" "- 149 < e \<Longrightarrow> 2 ^ 23 \<le> m"
    using finite_single [OF abs abs_ge_zero] by metis
  define b :: nat where "b = (if q < 0 then 2 ^ 31 else 0)"
  have u: "(2 powi e :: rat) \<noteq> 0" by simp
  have "nat (e + 149) \<le> 253" using e by linarith
  then have n: "b + nat (e + 149) * 2 ^ 23 + m < 2 ^ 32" using m(2) by (simp add: b_def)
  have floor: "\<lfloor>\<bar>q\<bar> / 2 powi e\<rfloor> = int m" using m(1) u by simp
  have sign: "(if q < 0 then 0x80000000 else 0) = (of_nat b :: u32)" by (simp add: b_def)
  have "single_bits (Fin q) = of_nat b + of_nat (nat (e + 149) * 2 ^ 23 + m)"
    by (simp only: single_bits.simps Let_def e_def [symmetric] floor nat_int sign)
  then have "single_bits (Fin q) = of_nat (b + nat (e + 149) * 2 ^ 23 + m)"
    by (simp only: of_nat_add add.assoc)
  moreover from n have "unat (of_nat (b + nat (e + 149) * 2 ^ 23 + m) :: u32) = b + nat (e + 149) * 2 ^ 23 + m"
    unfolding unat_of_nat by simp
  ultimately have "unat (single_bits (Fin q)) = b + nat (e + 149) * 2 ^ 23 + m" by (simp only:)
  then have "single_of_bits (unat (single_bits (Fin q))) = Fin ((if b = 0 then 1 else - 1) * \<bar>q\<bar>)"
    using single_of_bits_finite [OF m(2) e m(3), of b] by (simp add: b_def m(1))
  then show ?thesis by (simp add: Fin b_def abs_if split: if_splits)
qed (simp_all add: single_of_bits_def)

lemma f32_bytes_roundtrip [simp]: "is_single x \<Longrightarrow> f32_from_le_bytes (f32_to_le_bytes x) = x"
  by (simp add: f32_from_le_bytes_def f32_to_le_bytes_def of_le_bytes_le_bytes single_bits_roundtrip unsigned_less
      unsigned_less [where 'b = 32, THEN less_le_trans])

lemma length_f32_to_le_bytes [simp]: "length (f32_to_le_bytes x) = 4"
  by (simp add: f32_to_le_bytes_def)

end
