(* ===== verification/Windows_Input.thy ===== *)
theory Windows_Input
  imports Windows_Devices Engine_Types Single_Bytes
begin

text \<open>
  The input adapter of the product, \<^verbatim>\<open>crates/mini-aec-engine/src/windows.rs\<close>: the inventories of capture and
  render endpoints, the resolution of an exact endpoint identity, and the shared-mode capture stream whose
  packets the input workers read.

  The \<^verbatim>\<open>wasapi\<close> crate is the record \<open>input_platform\<close> of what Windows answers about its devices and the record
  \<open>input_api\<close> of the operations of one stream, over a state \<open>'w\<close> that any of them may change.  Time is in
  nanoseconds; a panic of a slice is \<open>None\<close>.
\<close>

record device_format = wave_format +
  wf_validbitspersample :: u16
  wf_blockalign :: u32
  wf_channelmask :: u32

record input_device = device +
  dv_description :: "wasapi_error + str"
  dv_device_format :: "wasapi_error + device_format"

record input_platform =
  ip_initialize_mta :: "message + unit"
  ip_enumerator :: "wasapi_error + unit"
  ip_collection :: "direction \<Rightarrow> wasapi_error + (wasapi_error + input_device) list"
  ip_default_device :: "direction \<Rightarrow> wasapi_error + input_device"

definition source_error_new :: "source_error_kind \<Rightarrow> message \<Rightarrow> source_error" where
  "source_error_new k m = \<lparr>serr_kind = k, serr_message = m\<rparr>"

definition source_error_kind_of :: "wasapi_error_kind \<Rightarrow> source_error_kind" where
  "source_error_kind_of k =
     (case k of
        DeviceNotFound \<Rightarrow> SK_Unavailable
      | IllegalDeviceState \<Rightarrow> SK_Unavailable
      | WindowsCode code \<Rightarrow>
          if code = 0x80070005 then SK_AccessDenied
          else if code = 0x88890004 \<or> code = 0x88890026 \<or> code = 0x8007048F then SK_DeviceInvalidated
          else SK_CaptureFailure
      | _ \<Rightarrow> SK_CaptureFailure)"

definition map_wasapi :: "string \<Rightarrow> wasapi_error \<Rightarrow> source_error" where
  "map_wasapi operation e =
     source_error_new (source_error_kind_of (we_kind e))
       (Pieces [Text ''failed to '', Text operation, Text '': '', we_text e])"

definition initialize_com_input :: "string \<Rightarrow> input_platform \<Rightarrow> source_error + unit" where
  "initialize_com_input purpose pf =
     map_err (\<lambda>e. source_error_new SK_CaptureFailure
                (Pieces [Text ''failed to initialize COM '', Text purpose, Text '': '', e]))
       (ip_initialize_mta pf)"

definition create_enumerator :: "string \<Rightarrow> input_platform \<Rightarrow> source_error + unit" where
  "create_enumerator operation pf = map_err (map_wasapi operation) (ip_enumerator pf)"

section \<open>Describing and finding a device\<close>

definition describe_source :: "input_device \<Rightarrow> input_role \<Rightarrow> source_error + source_descriptor" where
  "describe_source d role =
     res_bind (map_err (map_wasapi ''read the capture endpoint ID'') (dv_id d)) (\<lambda>endpoint_id.
     res_bind (map_err (map_wasapi ''read the capture endpoint name'') (dv_friendlyname d)) (\<lambda>name.
     res_bind (map_err (map_wasapi ''read the capture endpoint state'') (dv_state d)) (\<lambda>state.
       Inr \<lparr>sd_role = role, sd_endpoint_id = endpoint_id, sd_friendly_name = name,
            sd_active = (state = DeviceActive),
            sd_native_format = (case dv_device_format d of Inl _ \<Rightarrow> None
              | Inr f \<Rightarrow> Some \<lparr>sf_sample_rate_hz = wf_samplespersec f, sf_channels = wf_nchannels f,
                  sf_bits_per_sample = wf_validbitspersample f\<rparr>)\<rparr>)))"

fun find_source ::
  "input_role \<Rightarrow> str \<Rightarrow> (wasapi_error + input_device) list \<Rightarrow> source_error + input_device" where
  "find_source role ident [] =
     Inl (source_error_new SK_Unavailable (Pieces [Text (input_role_debug role), Text '' endpoint ID '',
       Quoted ident, Text '' is unavailable or inactive'']))"
| "find_source role ident (item # items) =
     res_bind (map_err (map_wasapi ''access a capture endpoint'') item) (\<lambda>d.
     res_bind (map_err (map_wasapi ''read a capture endpoint ID'') (dv_id d)) (\<lambda>candidate.
       if candidate = ident then Inr d else find_source role ident items))"

definition role_direction :: "input_role \<Rightarrow> direction" where
  "role_direction role = (case role of Microphone \<Rightarrow> CaptureFlow | RenderLoopback \<Rightarrow> RenderFlow)"

definition find_source_device ::
  "input_platform \<Rightarrow> input_role \<Rightarrow> str \<Rightarrow> source_error + input_device" where
  "find_source_device pf role ident =
     res_bind (map_err (map_wasapi ''enumerate requested endpoints'') (ip_collection pf (role_direction role)))
       (find_source role ident)"

definition windows_resolve :: "input_platform \<Rightarrow> input_role \<Rightarrow> str \<Rightarrow> source_error + source_descriptor" where
  "windows_resolve pf role endpoint_id =
     res_bind (initialize_com_input ''for endpoint resolution'' pf) (\<lambda>_.
     res_bind (create_enumerator ''create the device enumerator'' pf) (\<lambda>_.
     res_bind (find_source_device pf role endpoint_id) (\<lambda>device.
     res_bind (describe_source device role) (\<lambda>descriptor.
       if sd_endpoint_id descriptor \<noteq> endpoint_id
       then Inl (source_error_new SK_InvalidSource
              (Text ''Windows returned a different endpoint identity than requested''))
       else Inr descriptor))))"

section \<open>The inventories\<close>

fun describe_sources ::
  "string \<Rightarrow> input_role \<Rightarrow> (wasapi_error + input_device) list \<Rightarrow> source_error + source_descriptor list" where
  "describe_sources operation role [] = Inr []"
| "describe_sources operation role (item # items) =
     res_bind (map_err (map_wasapi operation) item) (\<lambda>d.
     res_bind (describe_source d role) (\<lambda>s.
     res_bind (describe_sources operation role items) (\<lambda>ss. Inr (s # ss))))"

definition enumerate_capture_endpoints :: "input_platform \<Rightarrow> source_error + source_descriptor list" where
  "enumerate_capture_endpoints pf =
     res_bind (initialize_com_input ''for endpoint enumeration'' pf) (\<lambda>_.
     res_bind (create_enumerator ''create the device enumerator'' pf) (\<lambda>_.
     res_bind (map_err (map_wasapi ''enumerate capture endpoints'') (ip_collection pf CaptureFlow))
       (describe_sources ''access a capture endpoint'' Microphone)))"

definition enumerate_render_endpoints :: "input_platform \<Rightarrow> source_error + source_descriptor list" where
  "enumerate_render_endpoints pf =
     res_bind (initialize_com_input ''for render endpoint enumeration'' pf) (\<lambda>_.
     res_bind (create_enumerator ''create the device enumerator'' pf) (\<lambda>_.
     res_bind (map_err (map_wasapi ''enumerate render endpoints'') (ip_collection pf RenderFlow))
       (describe_sources ''access a render endpoint'' RenderLoopback)))"

definition enumerate_default_endpoint ::
  "input_platform \<Rightarrow> direction \<Rightarrow> input_role \<Rightarrow> source_error + source_descriptor" where
  "enumerate_default_endpoint pf dir role =
     res_bind (initialize_com_input ''for default endpoint resolution'' pf) (\<lambda>_.
     res_bind (create_enumerator ''create the device enumerator'' pf) (\<lambda>_.
     res_bind (map_err (map_wasapi ''resolve the Windows default endpoint'') (ip_default_device pf dir))
       (\<lambda>device. describe_source device role)))"

definition enumerate_default_capture_endpoint :: "input_platform \<Rightarrow> source_error + source_descriptor" where
  "enumerate_default_capture_endpoint pf = enumerate_default_endpoint pf CaptureFlow Microphone"

definition enumerate_default_render_endpoint :: "input_platform \<Rightarrow> source_error + source_descriptor" where
  "enumerate_default_render_endpoint pf = enumerate_default_endpoint pf RenderFlow RenderLoopback"

section \<open>The stream\<close>

record buffer_info =
  bi_data_discontinuity :: bool
  bi_silent :: bool
  bi_timestamp_error :: bool
  bi_index :: u64
  bi_timestamp :: u64

text \<open>\<open>read_from_device\<close> writes into the slice it is lent and returns it.\<close>

record 'w input_api =
  ia_platform :: "'w \<Rightarrow> input_platform"
  ia_get_iaudioclient :: "input_device \<Rightarrow> 'w \<Rightarrow> 'w \<times> (wasapi_error + unit)"
  ia_get_device_period :: "'w \<Rightarrow> 'w \<times> (wasapi_error + int \<times> int)"
  ia_initialize_client :: "wave_format \<Rightarrow> int \<Rightarrow> 'w \<Rightarrow> 'w \<times> (wasapi_error + unit)"
  ia_set_get_eventhandle :: "'w \<Rightarrow> 'w \<times> (wasapi_error + unit)"
  ia_get_buffer_size :: "'w \<Rightarrow> 'w \<times> (wasapi_error + u32)"
  ia_get_audiocaptureclient :: "'w \<Rightarrow> 'w \<times> (wasapi_error + unit)"
  ia_start_stream :: "'w \<Rightarrow> 'w \<times> (wasapi_error + unit)"
  ia_get_next_packet_size :: "'w \<Rightarrow> 'w \<times> (wasapi_error + u32 option)"
  ia_wait_for_event :: "u32 \<Rightarrow> 'w \<Rightarrow> 'w \<times> (wasapi_error + unit)"
  ia_read_from_device :: "u8 list \<Rightarrow> 'w \<Rightarrow> 'w \<times> u8 list \<times> (wasapi_error + u32 \<times> buffer_info)"
  ia_stop_stream :: "'w \<Rightarrow> 'w \<times> (wasapi_error + unit)"

text \<open>A call of the library followed by \<^verbatim>\<open>map_err(..)?\<close>.\<close>

definition input_call ::
  "string \<Rightarrow> ('w \<Rightarrow> 'w \<times> (wasapi_error + 'a)) \<Rightarrow> ('a \<Rightarrow> 'w \<Rightarrow> 'w \<times> (source_error + 'b))
   \<Rightarrow> 'w \<Rightarrow> 'w \<times> (source_error + 'b)" where
  "input_call operation m f w =
     (case m w of (w', Inl e) \<Rightarrow> (w', Inl (map_wasapi operation e)) | (w', Inr a) \<Rightarrow> f a w')"

definition input_lift ::
  "source_error + 'a \<Rightarrow> ('a \<Rightarrow> 'w \<Rightarrow> 'w \<times> (source_error + 'b)) \<Rightarrow> 'w \<Rightarrow> 'w \<times> (source_error + 'b)" where
  "input_lift r f w = (case r of Inl e \<Rightarrow> (w, Inl e) | Inr a \<Rightarrow> f a w)"

record windows_audio_input =
  wi_packet_bytes :: "u8 list"
  wi_stopped :: bool

definition requested_format :: wave_format where
  "requested_format = \<lparr>wf_samplespersec = SAMPLE_RATE_HZ, wf_nchannels = CHANNELS, wf_bitspersample = 32,
     wf_subformat = Inr Float\<rparr>"

definition windows_input_open ::
  "'w input_api \<Rightarrow> input_role \<Rightarrow> str \<Rightarrow> 'w \<Rightarrow> 'w \<times> (source_error + windows_audio_input)" where
  "windows_input_open api role endpoint_id w =
     (let pf = ia_platform api w in
      input_lift (initialize_com_input ''in the capture worker'' pf) (\<lambda>_.
      input_lift (create_enumerator ''create the capture device enumerator'' pf) (\<lambda>_.
      input_lift (find_source_device pf role endpoint_id) (\<lambda>device.
      input_lift (describe_source device role) (\<lambda>current.
      if \<not> sd_active current
      then (\<lambda>w. (w, Inl (source_error_new SK_Unavailable (Pieces [Text ''capture endpoint '',
             Quoted (sd_friendly_name current), Text '' is no longer active'']))))
      else
      input_call ''create the WASAPI audio client'' (ia_get_iaudioclient api device) (\<lambda>_.
      input_call ''read the WASAPI device period'' (ia_get_device_period api) (\<lambda>(_, minimum_period).
      input_call ''initialize the 48 kHz mono capture stream''
        (ia_initialize_client api requested_format minimum_period) (\<lambda>_.
      input_call ''create the WASAPI capture event'' (ia_set_get_eventhandle api) (\<lambda>_.
      input_call ''read the WASAPI capture buffer size'' (ia_get_buffer_size api) (\<lambda>buffer_frames.
      input_call ''create the WASAPI capture client'' (ia_get_audiocaptureclient api) (\<lambda>_.
      input_call ''start the WASAPI capture stream'' (ia_start_stream api) (\<lambda>_ w.
        (w, Inr \<lparr>wi_packet_bytes = replicate (unat buffer_frames * 4) 0, wi_stopped = False\<rparr>)))))))))))) w)"

definition windows_open ::
  "'w input_api \<Rightarrow> input_role \<Rightarrow> source_descriptor \<Rightarrow> 'w \<Rightarrow> 'w \<times> (source_error + windows_audio_input)" where
  "windows_open api role source w =
     (if sd_role source \<noteq> role
      then (w, Inl (source_error_new SK_InvalidSource
             (Text ''endpoint descriptor role does not match the requested input role'')))
      else if \<not> sd_active source
      then (w, Inl (source_error_new SK_Unavailable (Pieces [Text ''capture endpoint '',
             Quoted (sd_friendly_name source), Text '' is not active''])))
      else windows_input_open api role (sd_endpoint_id source) w)"

section \<open>Reading a packet\<close>

definition next_packet_frames :: "'w input_api \<Rightarrow> 'w \<Rightarrow> 'w \<times> (source_error + u32 option)" where
  "next_packet_frames api w =
     (case ia_get_next_packet_size api w of
        (w, r) \<Rightarrow> (w, map_err (map_wasapi ''query the WASAPI capture packet size'') r))"

text \<open>The size of the next packet, after waiting once for one; \<^verbatim>\<open>None\<close> when there is none.\<close>

definition await_packet :: "'w input_api \<Rightarrow> nat \<Rightarrow> 'w \<Rightarrow> 'w \<times> (source_error + u32 option)" where
  "await_packet api timeout w =
     (let size = (\<lambda>frames. case frames of None \<Rightarrow> 0 | Some n \<Rightarrow> n) in
      case next_packet_frames api w of (w, Inl e) \<Rightarrow> (w, Inl e) | (w, Inr frames) \<Rightarrow>
      if size frames \<noteq> 0 then (w, Inr (Some (size frames)))
      else case ia_wait_for_event api (of_nat (min (2 ^ 32 - 1) (timeout div 1000000))) w of
        (w, Inl e) \<Rightarrow> (w, if we_kind e = EventTimeout then Inr None
            else Inl (map_wasapi ''wait for the WASAPI capture event'' e))
      | (w, Inr _) \<Rightarrow>
          (case next_packet_frames api w of (w, Inl e) \<Rightarrow> (w, Inl e) | (w, Inr frames) \<Rightarrow>
           (w, Inr (if size frames = 0 then None else Some (size frames)))))"

text \<open>The first samples of the caller's buffer, as far as the packet has any.\<close>

definition fill_samples :: "bool \<Rightarrow> nat \<Rightarrow> u8 list \<Rightarrow> fp list \<Rightarrow> fp list" where
  "fill_samples silent n bytes samples =
     (if silent then replicate n (Fin 0) @ drop n samples
      else let decoded = take n (map f32_from_le_bytes (chunks 4 bytes)) in
        decoded @ drop (length decoded) samples)"

definition windows_read_packet ::
  "'w input_api \<Rightarrow> nat \<Rightarrow> fp list \<Rightarrow> 'w \<times> windows_audio_input
     \<Rightarrow> (('w \<times> windows_audio_input) \<times> fp list \<times> (source_error + packet_metadata option)) option" where
  "windows_read_packet api timeout samples = (\<lambda>(w, self).
     case await_packet api timeout w of
       (w, Inl e) \<Rightarrow> Some ((w, self), samples, Inl e)
     | (w, Inr None) \<Rightarrow> Some ((w, self), samples, Inr None)
     | (w, Inr (Some packet_frames)) \<Rightarrow>
       (let frames = unat packet_frames; required = frames * 4 in
        if length samples < frames
        then Some ((w, self), samples, Inl (source_error_new SK_CaptureFailure
               (Pieces [Text ''WASAPI packet contains '', Number frames,
                  Text '' frames; engine packet capacity is '', Number (length samples)])))
        else if length (wi_packet_bytes self) < required
        then Some ((w, self), samples, Inl (source_error_new SK_CaptureFailure
               (Text ''WASAPI returned a packet larger than its preallocated endpoint buffer'')))
        else case ia_read_from_device api (take required (wi_packet_bytes self)) w of (w, bytes, r) \<Rightarrow>
          let self = self\<lparr>wi_packet_bytes := bytes @ drop required (wi_packet_bytes self)\<rparr> in
          (case r of
             Inl e \<Rightarrow> Some ((w, self), samples, Inl (map_wasapi ''read the WASAPI capture packet'' e))
           | Inr (read_frames, info) \<Rightarrow>
             if length samples < unat read_frames then None
             else Some ((w, self),
               fill_samples (bi_silent info) (unat read_frames) (take required (wi_packet_bytes self)) samples,
               Inr (Some \<lparr>pm_frames = unat read_frames, pm_silent = bi_silent info,
                 pm_data_discontinuity = bi_data_discontinuity info,
                 pm_timestamp_error = bi_timestamp_error info, pm_device_position = bi_index info,
                 pm_qpc_timestamp_100ns = bi_timestamp info\<rparr>)))))"

section \<open>Stopping\<close>

definition windows_stop ::
  "'w input_api \<Rightarrow> 'w \<times> windows_audio_input \<Rightarrow> ('w \<times> windows_audio_input) \<times> (source_error + unit)" where
  "windows_stop api = (\<lambda>(w, self).
     if wi_stopped self then ((w, self), Inr ())
     else case ia_stop_stream api w of
       (w, Inl e) \<Rightarrow> ((w, self), Inl (map_wasapi ''stop the WASAPI capture stream'' e))
     | (w, Inr _) \<Rightarrow> ((w, self\<lparr>wi_stopped := True\<rparr>), Inr ()))"

definition windows_drop :: "'w input_api \<Rightarrow> 'w \<times> windows_audio_input \<Rightarrow> 'w" where
  "windows_drop api i = fst (fst (windows_stop api i))"

section \<open>The adapter as the engine sees it\<close>

text \<open>
  The trait objects of the engine: the state of an input is that of its stream and of the library.  A panic
  has no value there (\<open>windows_read_packet_exact\<close>: there is none).
\<close>

definition INPUT_WAIT :: nat where "INPUT_WAIT = 100 * 1000000"

definition windows_audio_input_of :: "'w input_api \<Rightarrow> ('w \<times> windows_audio_input) audio_input" where
  "windows_audio_input_of api =
     \<lparr>ai_read_packet = (\<lambda>samples i. the (windows_read_packet api INPUT_WAIT samples i)),
      ai_stop = windows_stop api\<rparr>"

definition windows_input_factory ::
  "'w input_api \<Rightarrow> 'w \<Rightarrow> ('w \<times> windows_audio_input) audio_input_factory" where
  "windows_input_factory api w =
     \<lparr>aif_resolve = windows_resolve (ia_platform api w),
      aif_open = (\<lambda>role source. case windows_open api role source w of
        (w, Inl e) \<Rightarrow> Inl e | (w, Inr s) \<Rightarrow> Inr (w, s))\<rparr>"

end
