(* ===== verification/Offline.thy ===== *)
theory Offline
  imports Clock_Analysis Echo Lab_Paths Windows_Format
begin

text \<open>
  The command \<^verbatim>\<open>aec\<close> of the lab, \<^verbatim>\<open>crates/mini-aec-lab/src/offline.rs\<close>: it aligns the two tracks of a
  recorded run on one timeline by their first QPC timestamps, runs the echo canceller over them frame by
  frame and measures what it removed.

  A panic, of an \<^verbatim>\<open>expect\<close> or of an index, is \<open>None\<close>.  The wave files (crate \<^verbatim>\<open>hound\<close>), JSON, the WebRTC
  processor and the two functions \<^verbatim>\<open>f64::powf\<close> and \<^verbatim>\<open>f64::log10\<close>, whose precision Rust leaves open, are
  parameters.
\<close>

definition SAMPLE_RATE :: u32 where "SAMPLE_RATE = 48000"
definition QPC_TICKS_PER_SECOND_offline :: nat where "QPC_TICKS_PER_SECOND_offline = 10000000"
definition FRAME_SAMPLES_offline :: nat where "FRAME_SAMPLES_offline = 480"
definition AEC_IMPLEMENTATION :: string where
  "AEC_IMPLEMENTATION = ''webrtc-audio-processing 2.1 / WebRTC M131''"
definition AEC_CONFIGURATION :: string where "AEC_CONFIGURATION = ''upstream-default''"

section \<open>The manifest of a run\<close>

record capture_stats =
  cs_first_qpc_timestamp_100ns :: "u64 option"

record capture_track =
  ct_output_file :: str
  ct_requested_sample_rate :: u32
  ct_requested_channels :: u16
  ct_stats :: capture_stats

record capture_manifest =
  cm_tracks :: "string \<rightharpoonup> capture_track"

definition manifest_track :: "capture_manifest \<Rightarrow> string \<Rightarrow> message + capture_track" where
  "manifest_track manifest name =
     (case cm_tracks manifest name of
        None \<Rightarrow> Inl (Pieces [Text ''manifest does not contain '', Quoted (lit name), Text '' track''])
      | Some track \<Rightarrow> Inr track)"

definition validate_track :: "capture_track \<Rightarrow> u16 \<Rightarrow> string \<Rightarrow> message + unit" where
  "validate_track track channels name =
     (if ct_requested_sample_rate track \<noteq> SAMPLE_RATE
      then Inl (Pieces [Text name, Text '' sample rate is '', Number (unat (ct_requested_sample_rate track)),
             Text '', expected '', Number (unat SAMPLE_RATE)])
      else if ct_requested_channels track \<noteq> channels
      then Inl (Pieces [Text name, Text '' has '', Number (unat (ct_requested_channels track)),
             Text '' channels, expected '', Number (unat channels)])
      else Inr ())"

definition required_qpc :: "capture_track \<Rightarrow> string \<Rightarrow> message + u64" where
  "required_qpc track name =
     (case cs_first_qpc_timestamp_100ns (ct_stats track) of
        None \<Rightarrow> Inl (Pieces [Text name, Text '' has no first QPC timestamp''])
      | Some t \<Rightarrow> Inr t)"

section \<open>Reading a wave file\<close>

datatype sample_format = WaveFloat | WaveInt

record wave_spec =
  ws_channels :: u16
  ws_sample_rate :: u32
  ws_bits_per_sample :: u16
  ws_sample_format :: sample_format

record wave_file =
  wv_spec :: wave_spec
  wv_samples :: "(message + fp) list"

text \<open>The samples of the channels in turn; with no channel the remainder panics.\<close>

fun deinterleave ::
  "str \<Rightarrow> nat \<Rightarrow> nat \<Rightarrow> (message + fp) list \<Rightarrow> fp list list \<Rightarrow> (message + fp list list) option" where
  "deinterleave path n index [] channels = Some (Inr channels)"
| "deinterleave path n index (sample # samples) channels =
     (if n = 0 then None
      else case with_context (Pieces [Text ''failed reading '', Shown path]) sample of
        Inl e \<Rightarrow> Some (Inl e)
      | Inr x \<Rightarrow> deinterleave path n (index + 1) samples
          (channels[index mod n := channels ! (index mod n) @ [x]]))"

definition read_float_wave ::
  "str \<Rightarrow> message + wave_file \<Rightarrow> u16 \<Rightarrow> (message + fp list list) option" where
  "read_float_wave path opened expected_channels =
     (case with_context (Pieces [Text ''failed to open '', Shown path]) opened of
        Inl e \<Rightarrow> Some (Inl e)
      | Inr file \<Rightarrow>
        (let spec = wv_spec file in
         if ws_sample_rate spec \<noteq> SAMPLE_RATE \<or> ws_channels spec \<noteq> expected_channels
            \<or> ws_bits_per_sample spec \<noteq> 32 \<or> ws_sample_format spec \<noteq> WaveFloat
         then Some (Inl (Pieces [Shown path, Text '' has unsupported format: '',
                Number (unat (ws_sample_rate spec)), Number (unat (ws_channels spec)),
                Number (unat (ws_bits_per_sample spec)), Text ''; expected '', Number (unat SAMPLE_RATE),
                Text '' Hz, '', Number (unat expected_channels), Text '' ch, f32'']))
         else deinterleave path (unat expected_channels) 0 (wv_samples file)
                (replicate (unat expected_channels) [])))"

text \<open>The mean of the channels, as long as the shortest of them.\<close>

definition downmix :: "fp list list \<Rightarrow> fp list option" where
  "downmix channels =
     (let sample_count = (if channels = [] then 0 else Min (set (map length channels)));
          channel_count = length channels in
      if 2 ^ 16 \<le> channel_count then None
      else Some (map (\<lambda>i. fp_div Binary32
               (foldl (fp_add Binary32) (Fin 0) (map (\<lambda>channel. channel ! i) channels))
               (fp_of_nat Binary32 channel_count)) [0..<sample_count]))"

section \<open>Aligning the tracks\<close>

record aligned_audio =
  al_microphone :: "fp list"
  al_render :: "fp list"
  al_microphone_offset_samples :: nat
  al_render_offset_samples :: nat
  al_microphone_minus_render_start_ms :: fp

text \<open>To the nearest sample, half a sample up; 64 bits of ticks fit 64 bits of samples.\<close>

definition qpc_delta_to_samples :: "u64 \<Rightarrow> nat" where
  "qpc_delta_to_samples qpc_delta =
     (unat qpc_delta * unat SAMPLE_RATE + QPC_TICKS_PER_SECOND_offline div 2) div QPC_TICKS_PER_SECOND_offline"

definition qpc_delta_ms :: "u64 \<Rightarrow> fp option" where
  "qpc_delta_ms delta =
     (let whole_seconds = unat delta div QPC_TICKS_PER_SECOND_offline;
          subsecond_ticks = unat delta mod QPC_TICKS_PER_SECOND_offline in
      if 2 ^ 32 \<le> whole_seconds then None
      else Some (add64 (mul64 (nat64 whole_seconds) (Fin 1000))
                  (div64 (mul64 (nat64 subsecond_ticks) (Fin 1000)) (nat64 QPC_TICKS_PER_SECOND_offline))))"

definition signed_qpc_delta_ms :: "u64 \<Rightarrow> u64 \<Rightarrow> fp option" where
  "signed_qpc_delta_ms left right =
     (if right \<le> left then qpc_delta_ms (left - right) else map_option fp_neg (qpc_delta_ms (right - left)))"

definition div_ceil :: "nat \<Rightarrow> nat \<Rightarrow> nat" where
  "div_ceil a b = a div b + (if a mod b = 0 then 0 else 1)"

definition align_tracks :: "fp list \<Rightarrow> fp list \<Rightarrow> u64 \<Rightarrow> u64 \<Rightarrow> aligned_audio option" where
  "align_tracks microphone render microphone_qpc render_qpc =
     (let origin = min microphone_qpc render_qpc;
          mic_offset = qpc_delta_to_samples (microphone_qpc - origin);
          ren_offset = qpc_delta_to_samples (render_qpc - origin);
          common = div_ceil (max (mic_offset + length microphone) (ren_offset + length render))
                     FRAME_SAMPLES_offline * FRAME_SAMPLES_offline;
          silence = replicate common (Fin 0) in
      case write_slice mic_offset microphone silence of None \<Rightarrow> None | Some mic \<Rightarrow>
      case write_slice ren_offset render silence of None \<Rightarrow> None | Some ren \<Rightarrow>
      case signed_qpc_delta_ms microphone_qpc render_qpc of None \<Rightarrow> None | Some ms \<Rightarrow>
        Some \<lparr>al_microphone = mic, al_render = ren, al_microphone_offset_samples = mic_offset,
              al_render_offset_samples = ren_offset, al_microphone_minus_render_start_ms = ms\<rparr>)"

section \<open>Running the canceller\<close>

record aec_stats =
  as_echo_return_loss_db :: "fp option"
  as_echo_return_loss_enhancement_db :: "fp option"
  as_residual_echo_likelihood :: "fp option"
  as_residual_echo_likelihood_recent_max :: "fp option"
  as_delay_ms :: "u32 option"

record processor_stats =
  ps_echo_return_loss :: "fp option"
  ps_echo_return_loss_enhancement :: "fp option"
  ps_residual_echo_likelihood :: "fp option"
  ps_residual_echo_likelihood_recent_max :: "fp option"
  ps_delay_ms :: "u32 option"

definition aec_stats_from :: "processor_stats \<Rightarrow> aec_stats" where
  "aec_stats_from s = \<lparr>as_echo_return_loss_db = ps_echo_return_loss s,
     as_echo_return_loss_enhancement_db = ps_echo_return_loss_enhancement s,
     as_residual_echo_likelihood = ps_residual_echo_likelihood s,
     as_residual_echo_likelihood_recent_max = ps_residual_echo_likelihood_recent_max s,
     as_delay_ms = ps_delay_ms s\<rparr>"

record ('w, 'p) offline_processor = "('w, 'p) webrtc_processor" +
  wp_get_stats :: "'p \<Rightarrow> processor_stats"

record libm =
  powf :: "fp \<Rightarrow> fp \<Rightarrow> fp"
  log10 :: "fp \<Rightarrow> fp"

definition sample_count_f64 :: "nat \<Rightarrow> fp option" where
  "sample_count_f64 samples = (let n = max samples 1 in if 2 ^ 32 \<le> n then None else Some (nat64 n))"

definition energy :: "fp list \<Rightarrow> fp" where
  "energy samples = sum64 (map square64 samples)"

definition mean_power :: "fp list \<Rightarrow> fp option" where
  "mean_power samples = map_option (div64 (energy samples)) (sample_count_f64 (length samples))"

definition threshold_power :: "libm \<Rightarrow> fp \<Rightarrow> fp" where
  "threshold_power m dbfs = powf m (Fin 10) (div64 dbfs (Fin 10))"

text \<open>One pair of frames; the processor works on one channel in place.\<close>

definition aec_step ::
  "('w, 'p) offline_processor \<Rightarrow> fp \<Rightarrow> fp list \<times> fp list
     \<Rightarrow> 'p \<times> (message + fp list \<times> aec_stats option) \<Rightarrow> ('p \<times> (message + fp list \<times> aec_stats option)) option" where
  "aec_step lib threshold frames st =
     (case st of (p, Inl e) \<Rightarrow> Some (p, Inl e) | (p, Inr (out, active)) \<Rightarrow>
      case frames of (microphone_frame, render_frame) \<Rightarrow>
      case wp_process_render_frame lib [render_frame] p of
        (p, _, Inl e) \<Rightarrow> Some (p, with_context (Text ''WebRTC failed to process render frame'') (Inl e))
      | (p, _, Inr _) \<Rightarrow>
          (case wp_process_capture_frame lib [microphone_frame] p of
             (p, _, Inl e) \<Rightarrow> Some (p, with_context (Text ''WebRTC failed to process capture frame'') (Inl e))
           | (p, capture_channels, Inr _) \<Rightarrow>
               (case capture_channels of [] \<Rightarrow> None | frame # _ \<Rightarrow>
                case mean_power render_frame of None \<Rightarrow> None | Some loudness \<Rightarrow>
                Some (p, Inr (out @ frame,
                  if fp_less threshold loudness then Some (aec_stats_from (wp_get_stats lib p)) else active)))))"

definition run_aec ::
  "('w, 'p) offline_processor \<Rightarrow> libm \<Rightarrow> fp list \<Rightarrow> fp list \<Rightarrow> fp \<Rightarrow> 'p
     \<Rightarrow> ('p \<times> (message + fp list \<times> aec_stats option)) option" where
  "run_aec lib m microphone render active_threshold_dbfs p =
     fold_opt (aec_step lib (threshold_power m active_threshold_dbfs))
       (zip (chunks FRAME_SAMPLES_offline microphone) (chunks FRAME_SAMPLES_offline render)) (p, Inr ([], None))"

section \<open>Measuring\<close>

record aec_metrics =
  mt_microphone_input_rms_dbfs :: fp
  mt_microphone_input_peak_dbfs :: fp
  mt_aec_output_rms_dbfs :: fp
  mt_aec_output_peak_dbfs :: fp
  mt_total_reduction_db :: fp
  mt_render_active_frames :: nat
  mt_active_input_rms_dbfs :: fp
  mt_active_output_rms_dbfs :: fp
  mt_active_reduction_db :: fp

definition rms_dbfs :: "libm \<Rightarrow> fp \<Rightarrow> nat \<Rightarrow> fp option" where
  "rms_dbfs m e samples = map_option (\<lambda>n.
     mul64 (Fin 10) (log10 m (fp_max (div64 e n) (lit64 (1 / 10 ^ 24))))) (sample_count_f64 samples)"

definition peak_dbfs :: "libm \<Rightarrow> fp list \<Rightarrow> fp" where
  "peak_dbfs m samples =
     mul64 (Fin 20) (log10 m (fp_max (foldl fp_max (Fin 0) (map fp_abs samples)) (lit64 (1 / 10 ^ 12))))"

definition reduction_db :: "libm \<Rightarrow> fp \<Rightarrow> fp \<Rightarrow> fp" where
  "reduction_db m input_energy output_energy =
     mul64 (Fin 10) (log10 m (fp_max (div64 input_energy (fp_max output_energy (lit64 (1 / 10 ^ 24))))
       (lit64 (1 / 10 ^ 24))))"

text \<open>The energies and the count over the frames in which the render track is louder than the threshold.\<close>

definition active_step ::
  "fp \<Rightarrow> (fp list \<times> fp list) \<times> fp list \<Rightarrow> fp \<times> fp \<times> nat \<times> nat \<Rightarrow> (fp \<times> fp \<times> nat \<times> nat) option" where
  "active_step threshold = (\<lambda>((input_frame, output_frame), render_frame) (e_in, e_out, samples, frames).
     case mean_power render_frame of None \<Rightarrow> None | Some loudness \<Rightarrow>
     Some (if fp_less threshold loudness
       then (add64 e_in (energy input_frame), add64 e_out (energy output_frame),
             samples + FRAME_SAMPLES_offline, frames + 1)
       else (e_in, e_out, samples, frames)))"

definition calculate_metrics ::
  "libm \<Rightarrow> fp list \<Rightarrow> fp list \<Rightarrow> fp list \<Rightarrow> fp \<Rightarrow> aec_metrics option" where
  "calculate_metrics m input output render active_threshold_dbfs =
     (case fold_opt (active_step (threshold_power m active_threshold_dbfs))
             (zip (zip (chunks FRAME_SAMPLES_offline input) (chunks FRAME_SAMPLES_offline output))
                (chunks FRAME_SAMPLES_offline render)) (Fin 0, Fin 0, 0, 0) of
        None \<Rightarrow> None
      | Some (active_input_energy, active_output_energy, active_samples, active_frames) \<Rightarrow>
        (case (rms_dbfs m (energy input) (length input), rms_dbfs m (energy output) (length output),
               rms_dbfs m active_input_energy active_samples,
               rms_dbfs m active_output_energy active_samples) of
           (Some input_rms, Some output_rms, Some active_input_rms, Some active_output_rms) \<Rightarrow>
             Some \<lparr>mt_microphone_input_rms_dbfs = input_rms,
               mt_microphone_input_peak_dbfs = peak_dbfs m input,
               mt_aec_output_rms_dbfs = output_rms, mt_aec_output_peak_dbfs = peak_dbfs m output,
               mt_total_reduction_db = reduction_db m (energy input) (energy output),
               mt_render_active_frames = active_frames,
               mt_active_input_rms_dbfs = active_input_rms, mt_active_output_rms_dbfs = active_output_rms,
               mt_active_reduction_db = reduction_db m active_input_energy active_output_energy\<rparr>
         | _ \<Rightarrow> None))"

section \<open>The command\<close>

record aec_config =
  ac_run_dir :: lab_path
  ac_stream_delay_ms :: "u16 option"
  ac_active_threshold_dbfs :: fp

record aec_report =
  ar_schema_version :: u32
  ar_source_run :: str
  ar_aec_implementation :: string
  ar_aec_configuration :: string
  ar_sample_rate :: u32
  ar_frame_samples :: nat
  ar_frames_processed :: nat
  ar_common_timeline_samples :: nat
  ar_microphone_offset_samples :: nat
  ar_render_offset_samples :: nat
  ar_microphone_minus_render_start_ms :: fp
  ar_stream_delay_ms :: "u16 option"
  ar_active_threshold_dbfs :: fp
  ar_metrics :: aec_metrics
  ar_active_frame_stats :: "aec_stats option"
  ar_final_stats :: aec_stats

record ('w, 'b) offline_env =
  ox_fs :: "'w lab_fs"
  ox_path_of :: "str \<Rightarrow> lab_path"
  ox_read :: "lab_path \<Rightarrow> 'w \<Rightarrow> message + 'b"
  ox_write :: "lab_path \<Rightarrow> 'b \<Rightarrow> 'w \<Rightarrow> 'w \<times> (message + unit)"
  ox_parse_manifest :: "'b \<Rightarrow> message + capture_manifest"
  ox_print_report :: "aec_report \<Rightarrow> message + 'b"
  ox_open_wave :: "lab_path \<Rightarrow> 'w \<Rightarrow> message + wave_file"
  ox_create_wave :: "lab_path \<Rightarrow> wave_spec \<Rightarrow> 'w \<Rightarrow> 'w \<times> (message + unit)"
  ox_write_sample :: "fp \<Rightarrow> 'w \<Rightarrow> 'w \<times> (message + unit)"
  ox_finalize_wave :: "'w \<Rightarrow> 'w \<times> (message + unit)"

definition output_directory :: "lab_path \<Rightarrow> u16 option \<Rightarrow> lab_path" where
  "output_directory run_dir stream_delay_ms =
     join_path (join_path run_dir [Normal (lit ''processed'')])
       [Normal (lit (case stream_delay_ms of None \<Rightarrow> ''aec-default-adaptive''
          | Some delay \<Rightarrow> ''aec-default-delay-'' @ show_nat (unat delay) @ ''ms''))]"

definition read_manifest :: "('w, 'b) offline_env \<Rightarrow> lab_path \<Rightarrow> 'w \<Rightarrow> message + capture_manifest" where
  "read_manifest env run_dir w =
     (let path = join_path run_dir [Normal (lit ''manifest.json'')]; shown = Shown (lf_display (ox_fs env) path) in
      res_bind (with_context (Pieces [Text ''failed to read '', shown]) (ox_read env path w)) (\<lambda>bytes.
        with_context (Pieces [Text ''failed to parse '', shown]) (ox_parse_manifest env bytes)))"

fun write_samples ::
  "('w, 'b) offline_env \<Rightarrow> fp list \<Rightarrow> 'w \<Rightarrow> 'w \<times> (message + unit)" where
  "write_samples env [] w = (w, Inr ())"
| "write_samples env (x # xs) w =
     (case ox_write_sample env x w of (w, Inl e) \<Rightarrow> (w, Inl e) | (w, Inr _) \<Rightarrow> write_samples env xs w)"

definition write_mono_wave_at_rate ::
  "('w, 'b) offline_env \<Rightarrow> lab_path \<Rightarrow> fp list \<Rightarrow> u32 \<Rightarrow> 'w \<Rightarrow> 'w \<times> (message + unit)" where
  "write_mono_wave_at_rate env path samples sample_rate w =
     (let shown = Shown (lf_display (ox_fs env) path) in
      case ox_create_wave env path \<lparr>ws_channels = 1, ws_sample_rate = sample_rate, ws_bits_per_sample = 32,
             ws_sample_format = WaveFloat\<rparr> w of
        (w, Inl e) \<Rightarrow> (w, with_context (Pieces [Text ''failed to create '', shown]) (Inl e))
      | (w, Inr _) \<Rightarrow>
          (case write_samples env samples w of
             (w, Inl e) \<Rightarrow> (w, Inl e)
           | (w, Inr _) \<Rightarrow>
               (case ox_finalize_wave env w of (w, r) \<Rightarrow>
                  (w, with_context (Pieces [Text ''failed to finalize '', shown]) r))))"

definition write_mono_wave ::
  "('w, 'b) offline_env \<Rightarrow> lab_path \<Rightarrow> fp list \<Rightarrow> 'w \<Rightarrow> 'w \<times> (message + unit)" where
  "write_mono_wave env path samples = write_mono_wave_at_rate env path samples SAMPLE_RATE"

text \<open>A step that may panic or fail, followed by the rest of the command.\<close>

definition offline_bind ::
  "(message + 'a) option \<Rightarrow> 'w \<Rightarrow> ('a \<Rightarrow> ('w \<times> (message + 'b)) option) \<Rightarrow> ('w \<times> (message + 'b)) option" where
  "offline_bind m w f = (case m of None \<Rightarrow> None | Some (Inl e) \<Rightarrow> Some (w, Inl e) | Some (Inr a) \<Rightarrow> f a)"

definition offline_do ::
  "'w \<times> (message + 'a) \<Rightarrow> ('a \<Rightarrow> 'w \<Rightarrow> ('w \<times> (message + 'b)) option) \<Rightarrow> ('w \<times> (message + 'b)) option" where
  "offline_do m f = (case m of (w, Inl e) \<Rightarrow> Some (w, Inl e) | (w, Inr a) \<Rightarrow> f a w)"

text \<open>What is read from the run: both tracks, aligned.\<close>

definition aligned_tracks ::
  "('w, 'b) offline_env \<Rightarrow> lab_path \<Rightarrow> 'w \<Rightarrow> (message + aligned_audio) option" where
  "aligned_tracks env run_dir w =
     (let wave = (\<lambda>track. let path = join_path run_dir (ox_path_of env (ct_output_file track)) in
            read_float_wave (lf_display (ox_fs env) path) (ox_open_wave env path w) (ct_requested_channels track));
          checked = res_bind (read_manifest env run_dir w) (\<lambda>manifest.
            res_bind (manifest_track manifest ''microphone'') (\<lambda>mic.
            res_bind (manifest_track manifest ''render-reference'') (\<lambda>ren.
            res_bind (validate_track mic 1 ''microphone'') (\<lambda>_.
            res_bind (validate_track ren 2 ''render-reference'') (\<lambda>_. Inr (mic, ren)))))) in
      case checked of Inl e \<Rightarrow> Some (Inl e) | Inr (mic, ren) \<Rightarrow>
      case wave mic of None \<Rightarrow> None | Some (Inl e) \<Rightarrow> Some (Inl e) | Some (Inr microphone) \<Rightarrow>
      case wave ren of None \<Rightarrow> None | Some (Inl e) \<Rightarrow> Some (Inl e) | Some (Inr render_channels) \<Rightarrow>
      case downmix render_channels of None \<Rightarrow> None | Some render \<Rightarrow>
      case res_bind (required_qpc mic ''microphone'') (\<lambda>microphone_qpc.
             res_bind (required_qpc ren ''render-reference'') (\<lambda>render_qpc. Inr (microphone_qpc, render_qpc))) of
        Inl e \<Rightarrow> Some (Inl e)
      | Inr (microphone_qpc, render_qpc) \<Rightarrow>
          (case microphone of [] \<Rightarrow> None
           | samples # _ \<Rightarrow> map_option Inr (align_tracks samples render microphone_qpc render_qpc)))"

definition source_run_name :: "'w lab_fs \<Rightarrow> lab_path \<Rightarrow> str" where
  "source_run_name fs run_dir = (case file_name_of run_dir of None \<Rightarrow> lf_display fs run_dir | Some name \<Rightarrow> name)"

definition offline_process ::
  "('w, 'b) offline_env \<Rightarrow> ('w, 'p) offline_processor \<Rightarrow> libm \<Rightarrow> aec_config \<Rightarrow> 'w
     \<Rightarrow> ('w \<times> (message + unit)) option" where
  "offline_process env lib m config w =
     (if \<not> is_finite (ac_active_threshold_dbfs config)
      then Some (w, Inl (Text ''active threshold must be finite''))
      else offline_bind (aligned_tracks env (ac_run_dir config) w) w (\<lambda>aligned.
        let output_dir = output_directory (ac_run_dir config) (ac_stream_delay_ms config);
            file = (\<lambda>name. join_path output_dir [Normal (lit name)]) in
        case lf_create_dir_all (ox_fs env) output_dir w of
          (w, Inl e) \<Rightarrow> Some (w, with_context (Pieces [Text ''failed to create '',
             Shown (lf_display (ox_fs env) output_dir)]) (Inl e))
        | (w, Inr _) \<Rightarrow>
        offline_do (write_mono_wave env (file ''aligned-microphone.wav'') (al_microphone aligned) w) (\<lambda>_ w.
        offline_do (write_mono_wave env (file ''aligned-render-reference.wav'') (al_render aligned) w) (\<lambda>_ w.
        case wp_new lib SAMPLE_RATE w of
          (w, Inl e) \<Rightarrow> Some (w, with_context (Text ''failed to create WebRTC processor'') (Inl e))
        | (w, Inr p) \<Rightarrow>
        let p = wp_set_full_echo_canceller lib (map_option unat (ac_stream_delay_ms config)) p in
        case run_aec lib m (al_microphone aligned) (al_render aligned) (ac_active_threshold_dbfs config) p of
          None \<Rightarrow> None
        | Some (p, Inl e) \<Rightarrow> Some (w, Inl e)
        | Some (p, Inr (aec_output, active_frame_stats)) \<Rightarrow>
        offline_do (write_mono_wave env (file ''aec-output.wav'') aec_output w) (\<lambda>_ w.
        case calculate_metrics m (al_microphone aligned) aec_output (al_render aligned)
               (ac_active_threshold_dbfs config) of
          None \<Rightarrow> None
        | Some metrics \<Rightarrow>
        let report = \<lparr>ar_schema_version = 2,
              ar_source_run = source_run_name (ox_fs env) (ac_run_dir config),
              ar_aec_implementation = AEC_IMPLEMENTATION, ar_aec_configuration = AEC_CONFIGURATION,
              ar_sample_rate = SAMPLE_RATE, ar_frame_samples = FRAME_SAMPLES_offline,
              ar_frames_processed = length aec_output div FRAME_SAMPLES_offline,
              ar_common_timeline_samples = length aec_output,
              ar_microphone_offset_samples = al_microphone_offset_samples aligned,
              ar_render_offset_samples = al_render_offset_samples aligned,
              ar_microphone_minus_render_start_ms = al_microphone_minus_render_start_ms aligned,
              ar_stream_delay_ms = ac_stream_delay_ms config,
              ar_active_threshold_dbfs = ac_active_threshold_dbfs config, ar_metrics = metrics,
              ar_active_frame_stats = active_frame_stats,
              ar_final_stats = aec_stats_from (wp_get_stats lib p)\<rparr> in
        case ox_print_report env report of
          Inl e \<Rightarrow> Some (w, Inl e)
        | Inr bytes \<Rightarrow>
            (case ox_write env (file ''aec-report.json'') bytes w of (w, r) \<Rightarrow>
               Some (w, with_context (Pieces [Text ''failed to write '',
                  Shown (lf_display (ox_fs env) (file ''aec-report.json''))]) r)))))))"

end
