(* ===== verification/Lab_Capture.thy ===== *)
theory Lab_Capture
  imports Windows_Input Offline
begin

text \<open>
  The command \<^verbatim>\<open>capture\<close> of the lab, \<^verbatim>\<open>crates/mini-aec-lab/src/platform/windows/capture.rs\<close>: two threads read
  the microphone and the loopback of the render endpoint and send every packet over one channel; the main
  thread writes them to two wave files, logs every message and leaves a manifest for the command \<^verbatim>\<open>aec\<close>.

  A thread is a function of the audio library's state that also lists the messages it sent; the main thread
  is a function of the messages in the order in which the channel delivers them, which ends when both senders
  are gone.  \<open>None\<close> is a panic or a call that does not return: each loop has fuel, one unit per turn.
\<close>

definition RECORDED_SAMPLE_RATE :: u32 where "RECORDED_SAMPLE_RATE = 48000"
definition EVENT_WAIT_MS :: u32 where "EVENT_WAIT_MS = 100"

datatype track = MicrophoneTrack | RenderReference

fun track_channels :: "track \<Rightarrow> u16" where
  "track_channels MicrophoneTrack = 1"
| "track_channels RenderReference = 2"

fun track_filename :: "track \<Rightarrow> string" where
  "track_filename MicrophoneTrack = ''microphone.wav''"
| "track_filename RenderReference = ''render-reference.wav''"

fun track_direction :: "track \<Rightarrow> direction" where
  "track_direction MicrophoneTrack = CaptureFlow"
| "track_direction RenderReference = RenderFlow"

text \<open>\<^verbatim>\<open>{track:?}\<close> and \<^verbatim>\<open>{direction:?}\<close>, and the key of a track in the manifest (kebab case).\<close>

fun track_debug :: "track \<Rightarrow> string" where
  "track_debug MicrophoneTrack = ''Microphone''"
| "track_debug RenderReference = ''RenderReference''"

fun direction_debug :: "direction \<Rightarrow> string" where
  "direction_debug RenderFlow = ''Render''"
| "direction_debug CaptureFlow = ''Capture''"

fun track_key :: "track \<Rightarrow> string" where
  "track_key MicrophoneTrack = ''microphone''"
| "track_key RenderReference = ''render-reference''"

section \<open>Messages and records\<close>

record device_descriptor =
  dd_id :: str
  dd_name :: str
  dd_native_sample_rate :: u32
  dd_native_channels :: u16
  dd_native_bits_per_sample :: u16

record buffer_metadata =
  bm_device_position :: u64
  bm_qpc_timestamp_100ns :: u64
  bm_data_discontinuity :: bool
  bm_silent :: bool
  bm_timestamp_error :: bool

datatype capture_message =
    TrackStarted track device_descriptor
  | TrackPacket track u32 "u8 list" buffer_metadata
  | TrackStopped track
  | TrackFailed track message

datatype event_record =
    StartedRecord track device_descriptor
  | PacketRecord track u32 buffer_metadata
  | StoppedRecord track
  | FailedRecord track message

record track_stats =
  ts_packets :: u64
  ts_frames :: u64
  ts_silent_packets :: u64
  ts_discontinuities :: u64
  ts_timestamp_errors :: u64
  ts_first_device_position :: "u64 option"
  ts_last_device_position :: "u64 option"
  ts_first_qpc_timestamp_100ns :: "u64 option"
  ts_last_qpc_timestamp_100ns :: "u64 option"

definition default_track_stats :: track_stats where
  "default_track_stats = \<lparr>ts_packets = 0, ts_frames = 0, ts_silent_packets = 0, ts_discontinuities = 0,
     ts_timestamp_errors = 0, ts_first_device_position = None, ts_last_device_position = None,
     ts_first_qpc_timestamp_100ns = None, ts_last_qpc_timestamp_100ns = None\<rparr>"

record track_manifest =
  tm_device :: device_descriptor
  tm_output_file :: string
  tm_requested_sample_rate :: u32
  tm_requested_channels :: u16
  tm_stats :: track_stats

record run_manifest =
  rm_schema_version :: u32
  rm_created_unix_ms :: u128
  rm_requested_duration_ms :: u128
  rm_tracks :: "track \<rightharpoonup> track_manifest"
  rm_failures :: "track \<rightharpoonup> message"

section \<open>Choosing a device\<close>

text \<open>Operations of the audio library, the clock, the channel and the lower-casing of \<^verbatim>\<open>str\<close>.\<close>

record 'w track_api = "'w input_api" +
  ta_now :: "'w \<Rightarrow> 'w \<times> nat"
  ta_send :: "capture_message \<Rightarrow> 'w \<Rightarrow> 'w \<times> bool"
  ta_to_lowercase :: "str \<Rightarrow> str"

definition api_context :: "message \<Rightarrow> wasapi_error + 'a \<Rightarrow> message + 'a" where
  "api_context m r = with_context m (map_err we_text r)"

text \<open>The devices whose identity or name is the selector, and those that contain it, with their names.\<close>

fun match_devices ::
  "(str \<Rightarrow> str) \<Rightarrow> str \<Rightarrow> (wasapi_error + input_device) list
     \<Rightarrow> (input_device \<times> str) list \<Rightarrow> (input_device \<times> str) list
     \<Rightarrow> message + (input_device \<times> str) list \<times> (input_device \<times> str) list" where
  "match_devices lower selector [] exact partial = Inr (exact, partial)"
| "match_devices lower selector (item # items) exact partial =
     res_bind (api_context (Text ''failed to access an enumerated audio device'') item) (\<lambda>device.
     res_bind (api_context (Text ''failed to read device ID'') (dv_id device)) (\<lambda>ident.
     res_bind (api_context (Text ''failed to read device friendly name'') (dv_friendlyname device)) (\<lambda>name.
       if eq_ignore_ascii_case ident selector \<or> eq_ignore_ascii_case name selector
       then match_devices lower selector items (exact @ [(device, name)]) partial
       else if str_contains (lower ident) (lower selector) \<or> str_contains (lower name) (lower selector)
       then match_devices lower selector items exact (partial @ [(device, name)])
       else match_devices lower selector items exact partial)))"

fun join_names :: "str list \<Rightarrow> str" where
  "join_names [] = []"
| "join_names [name] = name"
| "join_names (name # names) = name @ lit '', '' @ join_names names"

definition select_device ::
  "(str \<Rightarrow> str) \<Rightarrow> input_platform \<Rightarrow> direction \<Rightarrow> str option \<Rightarrow> message + input_device" where
  "select_device lower pf dir selector =
     (case selector of
        None \<Rightarrow> api_context (Pieces [Text ''failed to get default '', Text (direction_debug dir), Text '' device''])
          (ip_default_device pf dir)
      | Some selector \<Rightarrow>
        res_bind (api_context (Pieces [Text ''failed to enumerate '', Text (direction_debug dir), Text '' devices''])
          (ip_collection pf dir)) (\<lambda>items.
        res_bind (match_devices lower selector items [] []) (\<lambda>(exact, partial).
          case (if exact = [] then partial else exact) of
            [] \<Rightarrow> Inl (Pieces [Text ''no '', Text (direction_debug dir), Text '' device matches '', Quoted selector])
          | [(device, _)] \<Rightarrow> Inr device
          | matches \<Rightarrow> Inl (Pieces [Text (direction_debug dir), Text '' selector '', Quoted selector,
              Text '' is ambiguous: '', Shown (join_names (map snd matches))]))))"

section \<open>The thread of a track\<close>

text \<open>The state of a thread: the library's and the messages sent so far.\<close>

type_synonym 'w sender = "'w \<times> capture_message list"

definition track_call ::
  "string \<Rightarrow> ('w \<Rightarrow> 'w \<times> (wasapi_error + 'a)) \<Rightarrow> 'w sender \<Rightarrow> 'w sender \<times> (message + 'a)" where
  "track_call context m = (\<lambda>(w, sent). case m w of (w, r) \<Rightarrow> ((w, sent), api_context (Text context) r))"

definition send_message ::
  "'w track_api \<Rightarrow> capture_message \<Rightarrow> 'w sender \<Rightarrow> 'w sender \<times> (message + unit)" where
  "send_message api m = (\<lambda>(w, sent).
     case ta_send api m w of
       (w, True) \<Rightarrow> ((w, sent @ [m]), Inr ())
     | (w, False) \<Rightarrow> ((w, sent), Inl (Text ''capture writer disconnected'')))"

definition track_format :: "track \<Rightarrow> wave_format" where
  "track_format t = \<lparr>wf_samplespersec = RECORDED_SAMPLE_RATE, wf_nchannels = track_channels t,
     wf_bitspersample = 32, wf_subformat = Inr Float\<rparr>"

definition bytes_per_frame :: "track \<Rightarrow> nat" where
  "bytes_per_frame t = unat (track_channels t) * 4"

text \<open>A packet of the given size is read into the buffer, which grows when it is too short, and sent.\<close>

definition packet_metadata_of :: "buffer_info \<Rightarrow> buffer_metadata" where
  "packet_metadata_of info =
     \<lparr>bm_device_position = bi_index info, bm_qpc_timestamp_100ns = bi_timestamp info,
      bm_data_discontinuity = bi_data_discontinuity info, bm_silent = bi_silent info,
      bm_timestamp_error = bi_timestamp_error info\<rparr>"

definition forward_packet ::
  "'w track_api \<Rightarrow> track \<Rightarrow> nat \<Rightarrow> u8 list \<times> 'w sender \<Rightarrow> ((u8 list \<times> 'w sender) \<times> (message + bool)) option" where
  "forward_packet api t required = (\<lambda>(buffer, (w, sent)).
     let buffer = (if length buffer < required then buffer @ replicate (required - length buffer) 0 else buffer) in
     case ia_read_from_device api (take required buffer) w of (w, bytes, r) \<Rightarrow>
     let buffer = bytes @ drop required buffer in
     (case api_context (Text ''failed to read WASAPI capture packet'') r of
        Inl e \<Rightarrow> Some ((buffer, (w, sent)), Inl e)
      | Inr (frames, info) \<Rightarrow>
        if length buffer < unat frames * bytes_per_frame t then None
        else
          (case send_message api (TrackPacket t frames (take (unat frames * bytes_per_frame t) buffer)
                 (packet_metadata_of info)) (w, sent) of
             (s, Inl e) \<Rightarrow> Some ((buffer, s), Inl e)
           | (s, Inr _) \<Rightarrow> Some ((buffer, s), Inr True))))"

text \<open>One turn of the inner loop; \<open>Inr False\<close> when there is no further packet.\<close>

definition packet_turn ::
  "'w track_api \<Rightarrow> track \<Rightarrow> u8 list \<times> 'w sender \<Rightarrow> ((u8 list \<times> 'w sender) \<times> (message + bool)) option" where
  "packet_turn api t = (\<lambda>(buffer, s).
     case track_call ''failed to query WASAPI packet size'' (ia_get_next_packet_size api) s of
       (s, Inl e) \<Rightarrow> Some ((buffer, s), Inl e)
     | (s, Inr None) \<Rightarrow> Some ((buffer, s), Inr False)
     | (s, Inr (Some packet_frames)) \<Rightarrow>
         if packet_frames = 0 then Some ((buffer, s), Inr False)
         else forward_packet api t (unat packet_frames * bytes_per_frame t) (buffer, s))"

text \<open>A body that is repeated until it breaks, fails, panics or the fuel is used up.\<close>

fun track_loop ::
  "nat \<Rightarrow> ('s \<Rightarrow> ('s \<times> (message + bool)) option) \<Rightarrow> 's \<Rightarrow> ('s \<times> (message + unit)) option" where
  "track_loop 0 body s = None"
| "track_loop (Suc n) body s =
     (case body s of
        None \<Rightarrow> None
      | Some (s, Inl e) \<Rightarrow> Some (s, Inl e)
      | Some (s, Inr False) \<Rightarrow> Some (s, Inr ())
      | Some (s, Inr True) \<Rightarrow> track_loop n body s)"

text \<open>One turn of the outer loop: wait for the event and read what is there.\<close>

definition capture_turn ::
  "'w track_api \<Rightarrow> nat \<Rightarrow> track \<Rightarrow> nat \<Rightarrow> u8 list \<times> 'w sender
     \<Rightarrow> ((u8 list \<times> 'w sender) \<times> (message + bool)) option" where
  "capture_turn api fuel t deadline = (\<lambda>(buffer, (w, sent)).
     case ta_now api w of (w, now) \<Rightarrow>
     if \<not> now < deadline then Some ((buffer, (w, sent)), Inr False)
     else case ia_wait_for_event api EVENT_WAIT_MS w of (w, _) \<Rightarrow>
       map_option (\<lambda>(s, r). (s, map_sum id (\<lambda>_. True) r)) (track_loop fuel (packet_turn api t) (buffer, (w, sent))))"

definition read_descriptor :: "input_device \<Rightarrow> message + device_descriptor" where
  "read_descriptor device =
     res_bind (api_context (Text ''failed to read native device format'') (dv_device_format device)) (\<lambda>format.
     res_bind (api_context (Text ''failed to read device ID'') (dv_id device)) (\<lambda>ident.
     res_bind (api_context (Text ''failed to read device friendly name'') (dv_friendlyname device)) (\<lambda>name.
       Inr \<lparr>dd_id = ident, dd_name = name, dd_native_sample_rate = wf_samplespersec format,
            dd_native_channels = wf_nchannels format,
            dd_native_bits_per_sample = wf_validbitspersample format\<rparr>)))"

definition prepare_track ::
  "'w track_api \<Rightarrow> track \<Rightarrow> str option \<Rightarrow> 'w \<Rightarrow> message + input_device \<times> device_descriptor" where
  "prepare_track api t selector w =
     (let pf = ia_platform api w in
      res_bind (with_context (Text ''failed to initialize COM in capture thread'') (ip_initialize_mta pf)) (\<lambda>_.
      res_bind (api_context (Text ''failed to create device enumerator'') (ip_enumerator pf)) (\<lambda>_.
      res_bind (select_device (ta_to_lowercase api) pf (track_direction t) selector) (\<lambda>device.
      res_bind (read_descriptor device) (\<lambda>descriptor. Inr (device, descriptor))))))"

text \<open>The stream up to its capture client, and the size of its buffer.\<close>

definition open_track_stream ::
  "'w track_api \<Rightarrow> track \<Rightarrow> input_device \<Rightarrow> 'w sender \<Rightarrow> 'w sender \<times> (message + u32)" where
  "open_track_stream api t device =
     env_call (track_call ''failed to create WASAPI audio client'' (ia_get_iaudioclient api device)) (\<lambda>_.
     env_call (track_call ''failed to read WASAPI device period'' (ia_get_device_period api)) (\<lambda>(_, minimum_period).
     env_call (track_call ''failed to initialize WASAPI capture stream''
       (ia_initialize_client api (track_format t) minimum_period)) (\<lambda>_.
     env_call (track_call ''failed to create WASAPI event handle'' (ia_set_get_eventhandle api)) (\<lambda>_.
     env_call (track_call ''failed to read WASAPI buffer size'' (ia_get_buffer_size api)) (\<lambda>buffer_frames.
     env_call (track_call ''failed to create WASAPI capture client'' (ia_get_audiocaptureclient api)) (\<lambda>_ s.
       (s, Inr buffer_frames)))))))"

definition record_track ::
  "'w track_api \<Rightarrow> nat \<Rightarrow> track \<Rightarrow> str option \<Rightarrow> nat \<Rightarrow> 'w sender
     \<Rightarrow> ('w sender \<times> (message + unit)) option" where
  "record_track api fuel t selector duration s =
     (case prepare_track api t selector (fst s) of Inl e \<Rightarrow> Some (s, Inl e) | Inr (device, descriptor) \<Rightarrow>
      case open_track_stream api t device s of (s, Inl e) \<Rightarrow> Some (s, Inl e) | (s, Inr buffer_frames) \<Rightarrow>
      case env_call (send_message api (TrackStarted t descriptor)) (\<lambda>_.
             track_call ''failed to start WASAPI capture stream'' (ia_start_stream api)) s of
        (s, Inl e) \<Rightarrow> Some (s, Inl e)
      | ((w, sent), Inr _) \<Rightarrow>
      case ta_now api w of (w, now) \<Rightarrow>
      if 2 ^ 64 * 1000000000 \<le> now + duration then None
      else case track_loop fuel (capture_turn api fuel t (now + duration))
             (replicate (unat buffer_frames * bytes_per_frame t) 0, (w, sent)) of
        None \<Rightarrow> None
      | Some ((_, s), Inl e) \<Rightarrow> Some (s, Inl e)
      | Some ((_, s), Inr _) \<Rightarrow>
          Some (env_call (track_call ''failed to stop WASAPI capture stream'' (ia_stop_stream api)) (\<lambda>_.
            send_message api (TrackStopped t)) s))"

text \<open>The body of the thread: an error is sent as the last message.\<close>

definition capture_thread ::
  "'w track_api \<Rightarrow> nat \<Rightarrow> track \<Rightarrow> str option \<Rightarrow> nat \<Rightarrow> 'w \<Rightarrow> 'w sender option" where
  "capture_thread api fuel t selector duration w =
     (case record_track api fuel t selector duration (w, []) of
        None \<Rightarrow> None
      | Some (s, Inr _) \<Rightarrow> Some s
      | Some (s, Inl e) \<Rightarrow> Some (fst (send_message api (TrackFailed t e) s)))"

end
