(* ===== verification/Lab_Devices.thy ===== *)
theory Lab_Devices
  imports Lab_Capture
begin

text \<open>
  The command \<^verbatim>\<open>devices\<close> of the lab, \<^verbatim>\<open>crates/mini-aec-lab/src/platform/windows/devices.rs\<close>: a report of
  every capture and every render endpoint with its identity, names, default roles, format, and whether its
  metadata names the virtual cable.

  What Windows answers is the record \<open>listing_platform\<close>.  The texts the \<^verbatim>\<open>wasapi\<close> crate gives a device state and
  a sample type, and the JSON of a report, are parameters.  The command returns the lines it prints.
\<close>

datatype device_role = Console | Multimedia | Communications

record listed_device = input_device +
  dv_state_text :: str

record listing_platform =
  lp_initialize_mta :: "message + unit"
  lp_enumerator :: "wasapi_error + unit"
  lp_collection :: "direction \<Rightarrow> wasapi_error + (wasapi_error + listed_device) list"
  lp_default_for_role :: "direction \<Rightarrow> device_role \<Rightarrow> wasapi_error + listed_device"
  lp_sample_type_debug :: "output_sample_type \<Rightarrow> str"

record format_info =
  fi_sample_rate :: u32
  fi_channels :: u16
  fi_bits_per_sample :: u16
  fi_valid_bits_per_sample :: u16
  fi_block_align :: u32
  fi_sample_type :: message
  fi_channel_mask :: u32

record device_info =
  di_id :: str
  di_name :: str
  di_interface_name :: "str option"
  di_description :: "str option"
  di_vb_audio_metadata :: bool
  di_state :: str
  di_default_roles :: "string list"
  di_format :: "format_info option"
  di_format_error :: "message option"

record device_report =
  dr_capture :: "device_info list"
  dr_render :: "device_info list"

section \<open>One device\<close>

text \<open>\<^verbatim>\<open>ok()\<close>, and the derived \<^verbatim>\<open>Debug\<close> of a role.\<close>

definition res_ok :: "'e + 'a \<Rightarrow> 'a option" where
  "res_ok r = (case r of Inl _ \<Rightarrow> None | Inr a \<Rightarrow> Some a)"

fun role_debug :: "device_role \<Rightarrow> string" where
  "role_debug Console = ''Console''"
| "role_debug Multimedia = ''Multimedia''"
| "role_debug Communications = ''Communications''"

definition default_device_ids :: "listing_platform \<Rightarrow> direction \<Rightarrow> (device_role \<times> str) list" where
  "default_device_ids pf dir =
     List.map_filter (\<lambda>role. case res_ok (lp_default_for_role pf dir role) of
         None \<Rightarrow> None
       | Some device \<Rightarrow> map_option (Pair role) (res_ok (dv_id device)))
       [Console, Multimedia, Communications]"

definition format_info_of :: "(output_sample_type \<Rightarrow> str) \<Rightarrow> device_format \<Rightarrow> format_info" where
  "format_info_of debug f =
     \<lparr>fi_sample_rate = wf_samplespersec f, fi_channels = wf_nchannels f,
      fi_bits_per_sample = wf_bitspersample f, fi_valid_bits_per_sample = wf_validbitspersample f,
      fi_block_align = wf_blockalign f,
      fi_sample_type = (case wf_subformat f of
          Inl error \<Rightarrow> Pieces [Text ''unknown ('', we_text error, Text '')'']
        | Inr value \<Rightarrow> Shown (debug value)),
      fi_channel_mask = wf_channelmask f\<rparr>"

definition names_vb_audio :: "str option \<Rightarrow> str option \<Rightarrow> bool" where
  "names_vb_audio interface_name description \<longleftrightarrow>
     list_ex is_vb_audio_family
       ((case interface_name of None \<Rightarrow> [] | Some s \<Rightarrow> [s]) @ (case description of None \<Rightarrow> [] | Some s \<Rightarrow> [s]))"

definition device_info_of ::
  "(output_sample_type \<Rightarrow> str) \<Rightarrow> (device_role \<times> str) list \<Rightarrow> listed_device \<Rightarrow> message + device_info" where
  "device_info_of debug default_ids device =
     res_bind (api_context (Text ''failed to read device ID'') (dv_id device)) (\<lambda>ident.
     res_bind (api_context (Text ''failed to read device friendly name'') (dv_friendlyname device)) (\<lambda>name.
     let interface_name = res_ok (dv_interface_friendlyname device);
         description = res_ok (dv_description device) in
     res_bind (api_context (Text ''failed to read device state'') (dv_state device)) (\<lambda>_.
       Inr \<lparr>di_id = ident, di_name = name, di_interface_name = interface_name, di_description = description,
            di_vb_audio_metadata = names_vb_audio interface_name description,
            di_state = dv_state_text device,
            di_default_roles =
              map (\<lambda>(role, _). role_debug role) (filter (\<lambda>(_, default_id). default_id = ident) default_ids),
            di_format = map_option (format_info_of debug) (res_ok (dv_device_format device)),
            di_format_error = (case dv_device_format device of Inl e \<Rightarrow> Some (we_text e) | Inr _ \<Rightarrow> None)\<rparr>)))"

section \<open>The report\<close>

fun device_infos ::
  "(output_sample_type \<Rightarrow> str) \<Rightarrow> (device_role \<times> str) list \<Rightarrow> (wasapi_error + listed_device) list
     \<Rightarrow> message + device_info list" where
  "device_infos debug default_ids [] = Inr []"
| "device_infos debug default_ids (item # items) =
     res_bind (api_context (Text ''failed to access an enumerated audio device'') item) (\<lambda>device.
     res_bind (device_info_of debug default_ids device) (\<lambda>info.
     res_bind (device_infos debug default_ids items) (\<lambda>infos. Inr (info # infos))))"

definition collect_devices :: "listing_platform \<Rightarrow> direction \<Rightarrow> message + device_info list" where
  "collect_devices pf dir =
     (let default_ids = default_device_ids pf dir in
      res_bind (api_context (Pieces [Text ''failed to enumerate '', Text (direction_debug dir), Text '' devices''])
        (lp_collection pf dir)) (device_infos (lp_sample_type_debug pf) default_ids))"

definition device_report_of :: "listing_platform \<Rightarrow> message + device_report" where
  "device_report_of pf =
     res_bind (with_context (Text ''failed to initialize COM in multithreaded mode'') (lp_initialize_mta pf)) (\<lambda>_.
     res_bind (api_context (Text ''failed to create device enumerator'') (lp_enumerator pf)) (\<lambda>_.
     res_bind (collect_devices pf CaptureFlow) (\<lambda>capture.
     res_bind (collect_devices pf RenderFlow) (\<lambda>render.
       Inr \<lparr>dr_capture = capture, dr_render = render\<rparr>))))"

section \<open>What is printed\<close>

definition shown_or :: "str option \<Rightarrow> message" where
  "shown_or s = (case s of None \<Rightarrow> Text ''unavailable'' | Some t \<Rightarrow> Shown t)"

definition format_lines :: "device_info \<Rightarrow> message list" where
  "format_lines d =
     (case di_format d of
        Some f \<Rightarrow> [Pieces [Text ''  format: '', Number (unat (fi_sample_rate f)), Text '' Hz, '',
          Number (unat (fi_channels f)), Text '' ch, '', Number (unat (fi_valid_bits_per_sample f)), Text ''-bit '',
          fi_sample_type f, Text '', block align '', Number (unat (fi_block_align f))]]
      | None \<Rightarrow>
          (case di_format_error d of
             Some error \<Rightarrow> [Pieces [Text ''  format: unavailable ('', error, Text '')'']]
           | None \<Rightarrow> []))"

definition device_lines :: "device_info \<Rightarrow> message list" where
  "device_lines d =
     (let defaults = (if di_default_roles d = [] then []
            else [Text '' [default: '', Shown (join_names (map lit (di_default_roles d))), Text '']'']) in
      [Pieces ([Text ''- '', Shown (di_name d)] @ defaults),
       Pieces [Text ''  id: '', Shown (di_id d)],
       Pieces [Text ''  interface: '', shown_or (di_interface_name d)],
       Pieces [Text ''  description: '', shown_or (di_description d)],
       Pieces [Text ''  VB-Audio metadata: '', Text (if di_vb_audio_metadata d then ''true'' else ''false'')],
       Pieces [Text ''  state: '', Shown (di_state d)]] @ format_lines d)"

definition print_group :: "string \<Rightarrow> device_info list \<Rightarrow> message list" where
  "print_group title devices = Pieces [Text title, Text '':''] # concat (map device_lines devices)"

definition list_devices ::
  "(device_report \<Rightarrow> message + str) \<Rightarrow> listing_platform \<Rightarrow> bool \<Rightarrow> message + message list" where
  "list_devices to_string_pretty pf json =
     res_bind (device_report_of pf) (\<lambda>report.
       if json then res_bind (to_string_pretty report) (\<lambda>text. Inr [Shown text])
       else Inr (print_group ''Capture devices'' (dr_capture report)
              @ print_group ''Render devices'' (dr_render report)))"

end
