(* ===== verification/Lab_Recorder.thy ===== *)
theory Lab_Recorder
  imports Lab_Capture
begin

text \<open>
  The main thread of the command \<^verbatim>\<open>capture\<close>: one wave file per track, one line of the event log per message,
  and at the end the manifest.  The clock, the two threads, the files, the wave writers (crate \<^verbatim>\<open>hound\<close>, known
  by a handle) and JSON are the record \<open>recorder_env\<close>.
\<close>

record ('w, 'h, 'b) recorder_env =
  rx_fs :: "'w lab_fs"
  rx_unix_time_ms :: "'w \<Rightarrow> 'w \<times> (message + u128)"
  rx_spawn :: "track \<Rightarrow> str option \<Rightarrow> nat \<Rightarrow> 'w \<Rightarrow> 'w \<times> (message + unit)"
  rx_join :: "track \<Rightarrow> 'w \<Rightarrow> 'w \<times> bool"
  rx_create_file :: "lab_path \<Rightarrow> 'w \<Rightarrow> 'w \<times> (message + unit)"
  rx_to_writer :: "event_record \<Rightarrow> 'w \<Rightarrow> 'w \<times> (message + unit)"
  rx_write_newline :: "'w \<Rightarrow> 'w \<times> (message + unit)"
  rx_flush :: "'w \<Rightarrow> 'w \<times> (message + unit)"
  rx_create_wave :: "lab_path \<Rightarrow> wave_spec \<Rightarrow> 'w \<Rightarrow> 'w \<times> (message + 'h)"
  rx_write_sample :: "'h \<Rightarrow> fp \<Rightarrow> 'w \<Rightarrow> 'w \<times> (message + unit)"
  rx_finalize :: "'h \<Rightarrow> 'w \<Rightarrow> 'w \<times> (message + unit)"
  rx_print_manifest :: "run_manifest \<Rightarrow> message + 'b"
  rx_write :: "lab_path \<Rightarrow> 'b \<Rightarrow> 'w \<Rightarrow> 'w \<times> (message + unit)"

record 'h track_writer =
  tw_writer :: 'h
  tw_manifest :: track_manifest

record capture_config =
  cc_duration :: nat
  cc_output_root :: lab_path
  cc_microphone_selector :: "str option"
  cc_render_selector :: "str option"

text \<open>A call with a context, then the rest.\<close>

definition context_call ::
  "message \<Rightarrow> ('w \<Rightarrow> 'w \<times> (message + 'a)) \<Rightarrow> 'w \<Rightarrow> 'w \<times> (message + 'a)" where
  "context_call m f w = (case f w of (w, r) \<Rightarrow> (w, with_context m r))"

section \<open>One message\<close>

definition write_record :: "('w, 'h, 'b) recorder_env \<Rightarrow> event_record \<Rightarrow> 'w \<Rightarrow> 'w \<times> (message + unit)" where
  "write_record env e = env_call (rx_to_writer env e) (\<lambda>_. rx_write_newline env)"

definition create_track_writer ::
  "('w, 'h, 'b) recorder_env \<Rightarrow> lab_path \<Rightarrow> track \<Rightarrow> device_descriptor \<Rightarrow> 'w
     \<Rightarrow> 'w \<times> (message + 'h track_writer)" where
  "create_track_writer env run_dir t device =
     (let path = join_path run_dir [Normal (lit (track_filename t))] in
      env_call (context_call (Pieces [Text ''failed to create '', Shown (lf_display (rx_fs env) path)])
        (rx_create_wave env path \<lparr>ws_channels = track_channels t, ws_sample_rate = RECORDED_SAMPLE_RATE,
           ws_bits_per_sample = 32, ws_sample_format = WaveFloat\<rparr>)) (\<lambda>h w.
        (w, Inr \<lparr>tw_writer = h, tw_manifest = \<lparr>tm_device = device, tm_output_file = track_filename t,
           tm_requested_sample_rate = RECORDED_SAMPLE_RATE, tm_requested_channels = track_channels t,
           tm_stats = default_track_stats\<rparr>\<rparr>)))"

fun write_track_samples ::
  "('w, 'h, 'b) recorder_env \<Rightarrow> 'h \<Rightarrow> fp list \<Rightarrow> 'w \<Rightarrow> 'w \<times> (message + unit)" where
  "write_track_samples env h [] w = (w, Inr ())"
| "write_track_samples env h (x # xs) w =
     (case rx_write_sample env h x w of (w, Inl e) \<Rightarrow> (w, Inl e) | (w, Inr _) \<Rightarrow> write_track_samples env h xs w)"

definition get_or_insert :: "'a \<Rightarrow> 'a option \<Rightarrow> 'a option" where
  "get_or_insert x r = (case r of None \<Rightarrow> Some x | Some y \<Rightarrow> Some y)"

definition count_track_packet :: "u32 \<Rightarrow> buffer_metadata \<Rightarrow> track_stats \<Rightarrow> track_stats" where
  "count_track_packet frames m s =
     \<lparr>ts_packets = ts_packets s + 1, ts_frames = ts_frames s + ucast frames,
      ts_silent_packets = ts_silent_packets s + of_bool (bm_silent m),
      ts_discontinuities = ts_discontinuities s + of_bool (bm_data_discontinuity m),
      ts_timestamp_errors = ts_timestamp_errors s + of_bool (bm_timestamp_error m),
      ts_first_device_position = get_or_insert (bm_device_position m) (ts_first_device_position s),
      ts_last_device_position = Some (bm_device_position m),
      ts_first_qpc_timestamp_100ns = get_or_insert (bm_qpc_timestamp_100ns m) (ts_first_qpc_timestamp_100ns s),
      ts_last_qpc_timestamp_100ns = Some (bm_qpc_timestamp_100ns m)\<rparr>"

text \<open>The samples a packet contributes to its wave file.\<close>

definition recorded_samples :: "nat \<Rightarrow> u8 list \<Rightarrow> buffer_metadata \<Rightarrow> fp list" where
  "recorded_samples expected bytes m =
     (if bm_silent m then replicate expected (Fin 0) else map f32_from_le_bytes (chunks 4 bytes))"

definition write_packet ::
  "('w, 'h, 'b) recorder_env \<Rightarrow> 'h track_writer \<Rightarrow> u32 \<Rightarrow> u8 list \<Rightarrow> buffer_metadata \<Rightarrow> 'w
     \<Rightarrow> 'w \<times> (message + 'h track_writer)" where
  "write_packet env tw frames bytes m =
     (let expected = unat frames * unat (tm_requested_channels (tw_manifest tw)) in
      if length bytes \<noteq> expected * 4
      then (\<lambda>w. (w, Inl (Pieces [Text ''capture packet contains '', Number (length bytes), Text '' bytes, expected '',
             Number (expected * 4)])))
      else env_call (write_track_samples env (tw_writer tw) (recorded_samples expected bytes m)) (\<lambda>_ w.
        (w, Inr (tw\<lparr>tw_manifest := (tw_manifest tw)\<lparr>tm_stats :=
           count_track_packet frames m (tm_stats (tw_manifest tw))\<rparr>\<rparr>))))"

record 'h recording =
  rg_writers :: "track \<rightharpoonup> 'h track_writer"
  rg_failures :: "track \<rightharpoonup> message"
  rg_finished :: nat

definition receive_message ::
  "('w, 'h, 'b) recorder_env \<Rightarrow> lab_path \<Rightarrow> capture_message \<Rightarrow> 'h recording \<Rightarrow> 'w
     \<Rightarrow> 'w \<times> (message + 'h recording)" where
  "receive_message env run_dir m g =
     (case m of
        TrackStarted t device \<Rightarrow>
          env_call (write_record env (StartedRecord t device)) (\<lambda>_.
          env_call (create_track_writer env run_dir t device) (\<lambda>tw w.
            (w, Inr (g\<lparr>rg_writers := (rg_writers g)(t \<mapsto> tw)\<rparr>))))
      | TrackPacket t frames bytes metadata \<Rightarrow>
          env_call (write_record env (PacketRecord t frames metadata)) (\<lambda>_.
            case rg_writers g t of
              None \<Rightarrow> (\<lambda>w. (w, Inl (Pieces [Text (track_debug t), Text '' sent audio before its start event''])))
            | Some tw \<Rightarrow> env_call (write_packet env tw frames bytes metadata) (\<lambda>tw w.
                (w, Inr (g\<lparr>rg_writers := (rg_writers g)(t \<mapsto> tw)\<rparr>))))
      | TrackStopped t \<Rightarrow>
          env_call (write_record env (StoppedRecord t)) (\<lambda>_ w.
            (w, Inr (g\<lparr>rg_finished := rg_finished g + 1\<rparr>)))
      | TrackFailed t e \<Rightarrow>
          env_call (write_record env (FailedRecord t e)) (\<lambda>_ w.
            (w, Inr (g\<lparr>rg_failures := (rg_failures g)(t \<mapsto> e), rg_finished := rg_finished g + 1\<rparr>))))"

text \<open>Until both tracks have finished; a receiver whose senders are gone fails.\<close>

fun receive_messages ::
  "('w, 'h, 'b) recorder_env \<Rightarrow> lab_path \<Rightarrow> capture_message list \<Rightarrow> 'h recording \<Rightarrow> 'w
     \<Rightarrow> 'w \<times> (message + 'h recording)" where
  "receive_messages env run_dir messages g w =
     (if \<not> rg_finished g < 2 then (w, Inr g)
      else case messages of
        [] \<Rightarrow> (w, with_context (Text ''capture threads ended before reporting completion'')
               (Inl (Text ''receiving on a closed channel'')))
      | m # messages \<Rightarrow> env_call (receive_message env run_dir m g) (receive_messages env run_dir messages) w)"

declare receive_messages.simps [simp del]

section \<open>The command\<close>

text \<open>The tracks in the order of the map.\<close>

fun finalize_tracks ::
  "('w, 'h, 'b) recorder_env \<Rightarrow> (track \<rightharpoonup> 'h track_writer) \<Rightarrow> track list \<Rightarrow> 'w
     \<Rightarrow> 'w \<times> (message + (track \<rightharpoonup> track_manifest))" where
  "finalize_tracks env writers [] w = (w, Inr (\<lambda>_. None))"
| "finalize_tracks env writers (t # tracks) w =
     (case writers t of
        None \<Rightarrow> finalize_tracks env writers tracks w
      | Some tw \<Rightarrow>
          env_call (context_call (Pieces [Text ''failed to finalize '', Text (track_filename t)])
            (rx_finalize env (tw_writer tw))) (\<lambda>_.
          env_call (finalize_tracks env writers tracks) (\<lambda>rest w. (w, Inr (rest(t \<mapsto> tw_manifest tw))))) w)"

definition finalize_writers ::
  "('w, 'h, 'b) recorder_env \<Rightarrow> (track \<rightharpoonup> 'h track_writer) \<Rightarrow> 'w
     \<Rightarrow> 'w \<times> (message + (track \<rightharpoonup> track_manifest))" where
  "finalize_writers env writers = finalize_tracks env writers [MicrophoneTrack, RenderReference]"

definition spawn_capture_thread ::
  "('w, 'h, 'b) recorder_env \<Rightarrow> track \<Rightarrow> str option \<Rightarrow> nat \<Rightarrow> 'w \<Rightarrow> 'w \<times> (message + unit)" where
  "spawn_capture_thread env t selector duration =
     context_call (Pieces [Text ''failed to spawn '', Text (track_debug t), Text '' capture thread''])
       (rx_spawn env t selector duration)"

definition join_thread ::
  "('w, 'h, 'b) recorder_env \<Rightarrow> track \<Rightarrow> string \<Rightarrow> 'w \<Rightarrow> 'w \<times> (message + unit)" where
  "join_thread env t name w =
     (case rx_join env t w of
        (w, True) \<Rightarrow> (w, Inr ())
      | (w, False) \<Rightarrow> (w, Inl (Pieces [Text name, Text '' capture thread panicked''])))"

definition write_manifest ::
  "('w, 'h, 'b) recorder_env \<Rightarrow> lab_path \<Rightarrow> run_manifest \<Rightarrow> 'w \<Rightarrow> 'w \<times> (message + unit)" where
  "write_manifest env run_dir manifest w =
     (let path = join_path run_dir [Normal (lit ''manifest.json'')] in
      case rx_print_manifest env manifest of
        Inl e \<Rightarrow> (w, Inl e)
      | Inr bytes \<Rightarrow> context_call (Pieces [Text ''failed to write '', Shown (lf_display (rx_fs env) path)])
          (rx_write env path bytes) w)"

definition millis :: "nat \<Rightarrow> u128" where
  "millis d = of_nat (d div 1000000)"

definition capture_command ::
  "('w, 'h, 'b) recorder_env \<Rightarrow> capture_config \<Rightarrow> capture_message list \<Rightarrow> 'w \<Rightarrow> 'w \<times> (message + unit)" where
  "capture_command env cfg messages w =
     (if cc_duration cfg = 0 then (w, Inl (Text ''capture duration must be greater than zero''))
      else env_call (rx_unix_time_ms env) (\<lambda>created_unix_ms.
        let run_dir = join_path (cc_output_root cfg) [Normal (lit (show_nat (unat created_unix_ms)))];
            events_path = join_path run_dir [Normal (lit ''events.jsonl'')];
            creating = (\<lambda>path. Pieces [Text ''failed to create '', Shown (lf_display (rx_fs env) path)]) in
        env_call (context_call (creating run_dir) (lf_create_dir_all (rx_fs env) run_dir)) (\<lambda>_.
        env_call (spawn_capture_thread env MicrophoneTrack (cc_microphone_selector cfg) (cc_duration cfg)) (\<lambda>_.
        env_call (spawn_capture_thread env RenderReference (cc_render_selector cfg) (cc_duration cfg)) (\<lambda>_.
        env_call (context_call (creating events_path) (rx_create_file env events_path)) (\<lambda>_.
        env_call (receive_messages env run_dir messages
            \<lparr>rg_writers = (\<lambda>_. None), rg_failures = (\<lambda>_. None), rg_finished = 0\<rparr>) (\<lambda>g.
        env_call (join_thread env MicrophoneTrack ''microphone'') (\<lambda>_.
        env_call (join_thread env RenderReference ''render'') (\<lambda>_.
        env_call (context_call (Text ''failed to flush capture events'') (rx_flush env)) (\<lambda>_.
        env_call (finalize_writers env (rg_writers g)) (\<lambda>tracks.
        env_call (write_manifest env run_dir \<lparr>rm_schema_version = 1, rm_created_unix_ms = created_unix_ms,
            rm_requested_duration_ms = millis (cc_duration cfg), rm_tracks = tracks,
            rm_failures = rg_failures g\<rparr>) (\<lambda>_ w.
          (w, if rg_failures g MicrophoneTrack = None \<and> rg_failures g RenderReference = None then Inr ()
              else Inl (Text ''one or more capture tracks failed; see manifest.json''))))))))))))) w)"

text \<open>What the command \<^verbatim>\<open>aec\<close> reads of a manifest: serde names a track by its key and skips the rest.\<close>

definition stored_manifest :: "run_manifest \<Rightarrow> capture_manifest" where
  "stored_manifest m = \<lparr>cm_tracks = (\<lambda>key.
     case find (\<lambda>t. track_key t = key) [MicrophoneTrack, RenderReference] of
       None \<Rightarrow> None
     | Some t \<Rightarrow> map_option (\<lambda>tm. \<lparr>ct_output_file = lit (tm_output_file tm),
         ct_requested_sample_rate = tm_requested_sample_rate tm, ct_requested_channels = tm_requested_channels tm,
         ct_stats = \<lparr>cs_first_qpc_timestamp_100ns = ts_first_qpc_timestamp_100ns (tm_stats tm)\<rparr>\<rparr>)
         (rm_tracks m t))\<rparr>"

end
