(* ===== verification/Lab_Run.thy ===== *)
theory Lab_Run
  imports Controller Lab_Paths Evidence
begin

text \<open>
  The two real-time commands of the lab, \<^verbatim>\<open>bypass\<close> and \<^verbatim>\<open>realtime_aec\<close> of
  \<^verbatim>\<open>crates/mini-aec-lab/src/platform/windows/bypass.rs\<close>: they start an engine, write one line of evidence a
  second until the requested duration is over, stop the engine and write the last line.

  The engine is any state with the three operations the run uses, and so is the rest of the world, the
  clock and the log file (\<open>run_env\<close>); instants and durations are in nanoseconds.  \<open>None\<close> is a run that
  does not return: \<^verbatim>\<open>Instant + Duration\<close> overflows and panics, the engine's stop or start does not return,
  or the fuel, one unit per line, is used up.
\<close>

definition VALIDATION_SCHEMA_VERSION :: u16 where "VALIDATION_SCHEMA_VERSION = 3"
definition SNAPSHOT_INTERVAL :: nat where "SNAPSHOT_INTERVAL = 1000000000"

record 'c run_env =
  ru_now :: "'c \<Rightarrow> 'c \<times> nat"
  ru_sleep :: "nat \<Rightarrow> 'c \<Rightarrow> 'c"
  ru_unix_time_ms :: "'c \<Rightarrow> 'c \<times> (message + u128)"
  ru_to_writer :: "validation_event \<Rightarrow> 'c \<Rightarrow> 'c \<times> (message + unit)"
  ru_write_newline :: "'c \<Rightarrow> 'c \<times> (message + unit)"
  ru_flush :: "'c \<Rightarrow> 'c \<times> (message + unit)"

record 'e engine_calls =
  ec_start :: "engine_config \<Rightarrow> 'e \<Rightarrow> ('e, unit) call"
  ec_stop :: "'e \<Rightarrow> ('e, unit) call"
  ec_snapshot :: "'e \<Rightarrow> 'e \<times> engine_snapshot"

text \<open>The engine of the development as such a record.\<close>

definition controller_calls ::
  "('x, 'h) host \<Rightarrow> nat \<Rightarrow> ('x, 'h, 'i, 's, 'f, 'a) engine engine_calls" where
  "controller_calls h fuel = \<lparr>ec_start = engine_start h fuel, ec_stop = engine_stop h fuel,
     ec_snapshot = engine_snapshot_now h\<rparr>"

section \<open>One line of evidence\<close>

definition as_millis :: "nat \<Rightarrow> u128" where
  "as_millis d = of_nat (d div 1000000)"

definition validation_event_of ::
  "validation_event_kind \<Rightarrow> engine_snapshot \<Rightarrow> u128 \<Rightarrow> nat \<Rightarrow> nat \<Rightarrow> validation_event" where
  "validation_event_of kind s unix_ms elapsed requested =
     \<lparr>ve_schema_version = VALIDATION_SCHEMA_VERSION, ve_unix_ms = unix_ms,
      ve_monotonic_elapsed_ms = as_millis elapsed, ve_requested_duration_ms = as_millis requested,
      ve_event = kind, ve_snapshot = s\<rparr>"

definition write_event ::
  "'c run_env \<Rightarrow> 'e engine_calls \<Rightarrow> validation_event_kind \<Rightarrow> nat \<Rightarrow> nat
     \<Rightarrow> 'e \<times> 'c \<Rightarrow> ('e \<times> 'c) \<times> (message + unit)" where
  "write_event env eng kind elapsed requested = (\<lambda>(e, c).
     (let (e, s) = ec_snapshot eng e;
          (c, r) = env_call (ru_unix_time_ms env) (\<lambda>unix_ms.
            env_call (ru_to_writer env (validation_event_of kind s unix_ms elapsed requested)) (\<lambda>_.
            env_call (ru_write_newline env) (\<lambda>_.
            ru_flush env))) c
      in ((e, c), r)))"

text \<open>\<^verbatim>\<open>run_started.elapsed()\<close>.\<close>

definition elapsed_since :: "'c run_env \<Rightarrow> nat \<Rightarrow> 'c \<Rightarrow> 'c \<times> nat" where
  "elapsed_since env started c = (case ru_now env c of (c, now) \<Rightarrow> (c, now - started))"

definition write_event_now ::
  "'c run_env \<Rightarrow> 'e engine_calls \<Rightarrow> validation_event_kind \<Rightarrow> nat \<Rightarrow> nat
     \<Rightarrow> 'e \<times> 'c \<Rightarrow> ('e \<times> 'c) \<times> (message + unit)" where
  "write_event_now env eng kind started requested = (\<lambda>(e, c).
     case elapsed_since env started c of (c, elapsed) \<Rightarrow>
       write_event env eng kind elapsed requested (e, c))"

section \<open>The run\<close>

text \<open>A stop whose result is ignored, then the last flush and the error of the run.\<close>

definition abandon_run ::
  "'c run_env \<Rightarrow> 'e engine_calls \<Rightarrow> string \<Rightarrow> engine_snapshot \<Rightarrow> 'e \<times> 'c
     \<Rightarrow> (('e \<times> 'c) \<times> (message + unit)) option" where
  "abandon_run env eng label s = (\<lambda>(e, c).
     let failure = (case es_last_error s of None \<Rightarrow> Text ''unknown engine failure''
                    | Some error \<Rightarrow> engine_error_text error) in
     (case ec_stop eng e of
        None \<Rightarrow> None
      | Some (e, _) \<Rightarrow>
          (case ru_flush env c of
             (c, Inl m) \<Rightarrow> Some ((e, c), with_context
               (Pieces [Text ''failed to flush '', Text label, Text '' evidence'']) (Inl m))
           | (c, Inr _) \<Rightarrow> Some ((e, c), Inl (Pieces [Text label, Text '' failed: '', failure])))))"

text \<open>One turn of the loop.  It breaks with \<open>Inr ()\<close> at the deadline and with the error of the run before it.\<close>

definition run_turn ::
  "'c run_env \<Rightarrow> 'e engine_calls \<Rightarrow> string \<Rightarrow> nat \<Rightarrow> nat \<Rightarrow> nat \<Rightarrow> 'e \<times> 'c
     \<Rightarrow> ('e \<times> 'c, (('e \<times> 'c) \<times> (message + unit)) option) flow" where
  "run_turn env eng label started deadline requested = (\<lambda>(e, c).
     case ru_now env c of (c, now) \<Rightarrow>
     if \<not> now < deadline then Break (Some ((e, c), Inr ()))
     else case ru_now env c of (c, now) \<Rightarrow>
     let c = ru_sleep env (min SNAPSHOT_INTERVAL (deadline - now)) c;
         (e, s) = ec_snapshot eng e in
     if es_state s = EngineFailed
     then (case write_event_now env eng EventFailed started requested (e, c) of
             (st, Inl m) \<Rightarrow> Break (Some (st, Inl m))
           | (st, Inr _) \<Rightarrow> Break (abandon_run env eng label s st))
     else (case write_event_now env eng Periodic started requested (e, c) of
             (st, Inl m) \<Rightarrow> Break (Some (st, Inl m))
           | (st, Inr _) \<Rightarrow> Continue st))"

definition finish_run ::
  "'c run_env \<Rightarrow> 'e engine_calls \<Rightarrow> string \<Rightarrow> nat \<Rightarrow> nat \<Rightarrow> 'e \<times> 'c
     \<Rightarrow> (('e \<times> 'c) \<times> (message + unit)) option" where
  "finish_run env eng label started requested = (\<lambda>(e, c).
     case ec_stop eng e of
       None \<Rightarrow> None
     | Some (e, Inl error) \<Rightarrow> Some ((e, c), with_context
         (Pieces [Text ''failed to stop the '', Text label, Text '' engine'']) (Inl (engine_error_text error)))
     | Some (e, Inr _) \<Rightarrow>
         (case write_event_now env eng Final started requested (e, c) of
            (st, Inl m) \<Rightarrow> Some (st, Inl m)
          | ((e, c), Inr _) \<Rightarrow>
              (case ru_flush env c of (c, r) \<Rightarrow> Some ((e, c), with_context
                 (Pieces [Text ''failed to flush '', Text label, Text '' evidence'']) r))))"

definition run_engine ::
  "'c run_env \<Rightarrow> 'e engine_calls \<Rightarrow> nat \<Rightarrow> engine_config \<Rightarrow> nat \<Rightarrow> string \<Rightarrow> 'e \<times> 'c
     \<Rightarrow> (('e \<times> 'c) \<times> (message + unit)) option" where
  "run_engine env eng fuel config duration label = (\<lambda>(e, c).
     case ru_now env c of (c, started) \<Rightarrow>
     (case ec_start eng config e of
        None \<Rightarrow> None
      | Some (e, Inl error) \<Rightarrow> Some ((e, c), with_context
          (Pieces [Text ''failed to start the MiniAEC '', Text label, Text '' engine''])
          (Inl (engine_error_text error)))
      | Some (e, Inr _) \<Rightarrow>
          (case write_event env eng Started 0 duration (e, c) of
             (st, Inl m) \<Rightarrow> Some (st, Inl m)
           | (st, Inr _) \<Rightarrow>
               if 2 ^ 64 * 1000000000 \<le> started + duration then None
               else (case run_loop (run_turn env eng label started (started + duration) duration) fuel st of
                  None \<Rightarrow> None
                | Some None \<Rightarrow> None
                | Some (Some (st, Inl m)) \<Rightarrow> Some (st, Inl m)
                | Some (Some (st, Inr _)) \<Rightarrow> finish_run env eng label started duration st))))"

section \<open>The commands\<close>

record bypass_config =
  bc_duration :: nat
  bc_output_root :: lab_path
  bc_microphone_endpoint_id :: str
  bc_cable_input_endpoint_id :: str
  bc_cable_output_endpoint_id :: str

record realtime_aec_config =
  rt_duration :: nat
  rt_output_root :: lab_path
  rt_microphone_endpoint_id :: str
  rt_render_endpoint_id :: str
  rt_cable_input_endpoint_id :: str
  rt_cable_output_endpoint_id :: str

record 'c lab_env =
  la_run :: "'c run_env"
  la_fs :: "'c lab_fs"
  la_manifest_dir :: lab_path
  la_create_file :: "lab_path \<Rightarrow> 'c \<Rightarrow> 'c \<times> (message + unit)"

text \<open>The directory of the run, named after the time, and the log in it.\<close>

definition open_run_log :: "'c lab_env \<Rightarrow> lab_path \<Rightarrow> 'c \<Rightarrow> 'c \<times> (message + lab_path)" where
  "open_run_log env requested c =
     (case validated_evidence_root (la_fs env) (la_manifest_dir env) requested of
        Inl m \<Rightarrow> (c, Inl m)
      | Inr output_root \<Rightarrow>
          env_call (ru_unix_time_ms (la_run env)) (\<lambda>ms c.
            let run_dir = join_path output_root [Normal (lit (show_nat (unat ms)))];
                events_path = join_path run_dir [Normal (lit ''engine.jsonl'')] in
            (case lf_create_dir_all (la_fs env) run_dir c of
               (c, Inl m) \<Rightarrow> (c, with_context (Pieces [Text ''failed to create '',
                  Shown (lf_display (la_fs env) run_dir)]) (Inl m))
             | (c, Inr _) \<Rightarrow>
                 (case la_create_file env events_path c of
                    (c, Inl m) \<Rightarrow> (c, with_context (Pieces [Text ''failed to create '',
                       Shown (lf_display (la_fs env) events_path)]) (Inl m))
                  | (c, Inr _) \<Rightarrow> (c, Inr events_path)))) c)"

text \<open>The engine is dropped, that is stopped, when the command returns.\<close>

definition run_and_drop ::
  "'c lab_env \<Rightarrow> 'e engine_calls \<Rightarrow> nat \<Rightarrow> engine_config \<Rightarrow> nat \<Rightarrow> string \<Rightarrow> 'e \<times> 'c
     \<Rightarrow> (('e \<times> 'c) \<times> (message + unit)) option" where
  "run_and_drop env eng fuel config duration label st =
     (case run_engine (la_run env) eng fuel config duration label st of
        None \<Rightarrow> None
      | Some ((e, c), r) \<Rightarrow>
          (case ec_stop eng e of None \<Rightarrow> None | Some (e, _) \<Rightarrow> Some ((e, c), r)))"

definition bypass_command ::
  "'c lab_env \<Rightarrow> 'e engine_calls \<Rightarrow> nat \<Rightarrow> bypass_config \<Rightarrow> 'e \<times> 'c
     \<Rightarrow> (('e \<times> 'c) \<times> (message + unit)) option" where
  "bypass_command env eng fuel cfg = (\<lambda>(e, c).
     if bc_duration cfg = 0
     then Some ((e, c), Inl (Text ''bypass duration must be greater than zero''))
     else if trim (bc_microphone_endpoint_id cfg) = [] \<or> trim (bc_cable_input_endpoint_id cfg) = []
       \<or> trim (bc_cable_output_endpoint_id cfg) = []
     then Some ((e, c), Inl (Text
       ''exact physical microphone, CABLE Input and CABLE Output endpoint IDs are required''))
     else case open_run_log env (bc_output_root cfg) c of
       (c, Inl m) \<Rightarrow> Some ((e, c), Inl m)
     | (c, Inr _) \<Rightarrow>
         run_and_drop env eng fuel
           (engine_config_bypass (bc_microphone_endpoint_id cfg) (bc_cable_input_endpoint_id cfg)
              (bc_cable_output_endpoint_id cfg))
           (bc_duration cfg) ''real-time bypass'' (e, c))"

definition realtime_aec_command ::
  "'c lab_env \<Rightarrow> 'e engine_calls \<Rightarrow> nat \<Rightarrow> realtime_aec_config \<Rightarrow> 'e \<times> 'c
     \<Rightarrow> (('e \<times> 'c) \<times> (message + unit)) option" where
  "realtime_aec_command env eng fuel cfg = (\<lambda>(e, c).
     if rt_duration cfg = 0
     then Some ((e, c), Inl (Text ''real-time AEC duration must be greater than zero''))
     else if trim (rt_microphone_endpoint_id cfg) = [] \<or> trim (rt_render_endpoint_id cfg) = []
       \<or> trim (rt_cable_input_endpoint_id cfg) = [] \<or> trim (rt_cable_output_endpoint_id cfg) = []
     then Some ((e, c), Inl (Text
       ''exact physical microphone, render, CABLE Input and CABLE Output endpoint IDs are required''))
     else case open_run_log env (rt_output_root cfg) c of
       (c, Inl m) \<Rightarrow> Some ((e, c), Inl m)
     | (c, Inr _) \<Rightarrow>
         run_and_drop env eng fuel
           (engine_config_aec (rt_microphone_endpoint_id cfg) (rt_render_endpoint_id cfg)
              (rt_cable_input_endpoint_id cfg) (rt_cable_output_endpoint_id cfg))
           (rt_duration cfg) ''real-time default AEC'' (e, c))"

text \<open>The log lies below the artifacts directory, as it is spelled.\<close>

lemma run_log_below_artifacts:
  assumes "open_run_log env requested c = (c', Inr p)"
  shows "\<exists>repo. repository_root (la_manifest_dir env) = Inr repo \<and> starts_with p (artifacts_of repo)"
proof -
  obtain repo root where root: "repository_root (la_manifest_dir env) = Inr repo"
    "starts_with root (artifacts_of repo)" and p: "\<exists>name. p = join_path (join_path root [Normal name]) [Normal (lit ''engine.jsonl'')]"
    using assms
    by (auto simp: open_run_log_def validated_evidence_root_def env_call_def res_bind_eq_Inr Let_def with_context_def
        split: sum.splits prod.splits if_splits)
  then have "root \<noteq> []"
    by (auto simp: starts_with_iff artifacts_of_def join_path_def push_component_def split: if_splits)
  with root p show ?thesis by (auto simp: starts_with_iff)
qed

end
