(* ===== verification/Lab_Main.thy ===== *)
theory Lab_Main
  imports Lab_Devices Lab_Recorder Lab_Run Stability_Report
begin

text \<open>
  The command line of the lab, \<^verbatim>\<open>crates/mini-aec-lab/src/main.rs\<close>: the arguments of its six commands with
  their defaults, and \<^verbatim>\<open>main\<close>, which hands them to the commands.

  Splitting and converting the command line is the crate \<^verbatim>\<open>clap\<close>'s work; the model starts from the value each
  option was given, if it was.  The world \<open>'w\<close> is everything the commands act on but the engine, which the two
  real-time commands create and drop.
\<close>

section \<open>The arguments\<close>

record capture_args =
  ca_duration :: u64
  ca_output :: lab_path
  ca_microphone :: "str option"
  ca_render :: "str option"

record aec_args =
  aa_run :: lab_path
  aa_stream_delay_ms :: "u16 option"
  aa_active_threshold_dbfs :: fp

record bypass_args =
  ba_microphone_id :: str
  ba_cable_input_id :: str
  ba_cable_output_id :: str
  ba_duration :: u64
  ba_output :: lab_path

record realtime_aec_args =
  ra_microphone_id :: str
  ra_render_id :: str
  ra_cable_input_id :: str
  ra_cable_output_id :: str
  ra_duration :: u64
  ra_output :: lab_path

record stability_report_args =
  sa_events :: lab_path
  sa_output :: "lab_path option"
  sa_operator_observations :: "lab_path option"
  sa_software_revision :: "str option"

datatype lab_command =
    Devices bool
  | Capture capture_args
  | AecCommand aec_args
  | BypassCommand bypass_args
  | RealtimeAec realtime_aec_args
  | StabilityReport stability_report_args

text \<open>The options as they were given, and the declared defaults of those that were not.\<close>

definition value_or :: "'a \<Rightarrow> 'a option \<Rightarrow> 'a" where
  "value_or d given = (case given of None \<Rightarrow> d | Some v \<Rightarrow> v)"

definition artifacts_subdir :: "string list \<Rightarrow> lab_path" where
  "artifacts_subdir names = Normal (lit ''artifacts'') # map (\<lambda>name. Normal (lit name)) names"

definition capture_args_of ::
  "u64 option \<Rightarrow> lab_path option \<Rightarrow> str option \<Rightarrow> str option \<Rightarrow> capture_args" where
  "capture_args_of duration output microphone render =
     \<lparr>ca_duration = value_or 10 duration, ca_output = value_or (artifacts_subdir [''runs'']) output,
      ca_microphone = microphone, ca_render = render\<rparr>"

definition aec_args_of :: "lab_path \<Rightarrow> u16 option \<Rightarrow> fp option \<Rightarrow> aec_args" where
  "aec_args_of run delay threshold =
     \<lparr>aa_run = run, aa_stream_delay_ms = delay, aa_active_threshold_dbfs = value_or (Fin (- 50)) threshold\<rparr>"

definition bypass_args_of :: "str \<Rightarrow> str \<Rightarrow> str \<Rightarrow> u64 \<Rightarrow> lab_path option \<Rightarrow> bypass_args" where
  "bypass_args_of microphone cable_input cable_output duration output =
     \<lparr>ba_microphone_id = microphone, ba_cable_input_id = cable_input, ba_cable_output_id = cable_output,
      ba_duration = duration, ba_output = value_or (artifacts_subdir [''vb-cable'', ''bypass'']) output\<rparr>"

definition realtime_aec_args_of ::
  "str \<Rightarrow> str \<Rightarrow> str \<Rightarrow> str \<Rightarrow> u64 \<Rightarrow> lab_path option \<Rightarrow> realtime_aec_args" where
  "realtime_aec_args_of microphone render cable_input cable_output duration output =
     \<lparr>ra_microphone_id = microphone, ra_render_id = render, ra_cable_input_id = cable_input,
      ra_cable_output_id = cable_output, ra_duration = duration,
      ra_output = value_or (artifacts_subdir [''vb-cable'', ''aec'']) output\<rparr>"

section \<open>The dispatch\<close>

text \<open>\<^verbatim>\<open>Duration::from_secs\<close>, in nanoseconds.\<close>

definition from_secs :: "u64 \<Rightarrow> nat" where
  "from_secs s = unat s * 1000000000"

record ('e, 'w, 'h, 'b, 'p) lab_program =
  lm_listing :: "'w \<Rightarrow> listing_platform"
  lm_to_string_pretty :: "device_report \<Rightarrow> message + str"
  lm_println :: "message \<Rightarrow> 'w \<Rightarrow> 'w"
  lm_recorder :: "('w, 'h, 'b) recorder_env"
  lm_messages :: "capture_config \<Rightarrow> 'w \<Rightarrow> capture_message list"
  lm_offline :: "('w, 'b) offline_env"
  lm_processor :: "('w, 'p) offline_processor"
  lm_libm :: libm
  lm_engine :: "'e engine_calls"
  lm_run :: "'w lab_env"
  lm_report :: "('w, 'b) report_env"

definition devices_command ::
  "('e, 'w, 'h, 'b, 'p) lab_program \<Rightarrow> bool \<Rightarrow> 'w \<Rightarrow> 'w \<times> (message + unit)" where
  "devices_command prog json w =
     (case list_devices (lm_to_string_pretty prog) (lm_listing prog w) json of
        Inl e \<Rightarrow> (w, Inl e)
      | Inr lines \<Rightarrow> (fold (lm_println prog) lines w, Inr ()))"

definition stability_report_command ::
  "('e, 'w, 'h, 'b, 'p) lab_program \<Rightarrow> nat \<Rightarrow> stability_report_args \<Rightarrow> 'w \<Rightarrow> ('w \<times> (message + unit)) option" where
  "stability_report_command prog fuel args w =
     (case create_report fuel (lm_report prog) (la_manifest_dir (lm_run prog))
        \<lparr>rc_events_path = sa_events args, rc_output_path = sa_output args,
         rc_operator_observations_path = sa_operator_observations args,
         rc_software_revision = sa_software_revision args\<rparr> w of
        None \<Rightarrow> None
      | Some (w, Inl e) \<Rightarrow> Some (w, Inl e)
      | Some (w, Inr output) \<Rightarrow>
          Some (lm_println prog (Pieces [Text ''Long-run stability report: '',
            Shown (lf_display (re_fs (lm_report prog)) output)]) w, Inr ()))"

definition lab_main ::
  "('e, 'w, 'h, 'b, 'p) lab_program \<Rightarrow> nat \<Rightarrow> lab_command \<Rightarrow> 'e \<times> 'w
     \<Rightarrow> (('e \<times> 'w) \<times> (message + unit)) option" where
  "lab_main prog fuel command = (\<lambda>(e, w).
     let beside = map_option (\<lambda>(w, r). ((e, w), r)) in
     case command of
       Devices json \<Rightarrow> beside (Some (devices_command prog json w))
     | Capture args \<Rightarrow>
         (let cfg = \<lparr>cc_duration = from_secs (ca_duration args), cc_output_root = ca_output args,
                cc_microphone_selector = ca_microphone args, cc_render_selector = ca_render args\<rparr> in
          beside (Some (capture_command (lm_recorder prog) cfg (lm_messages prog cfg w) w)))
     | AecCommand args \<Rightarrow>
         beside (offline_process (lm_offline prog) (lm_processor prog) (lm_libm prog)
           \<lparr>ac_run_dir = aa_run args, ac_stream_delay_ms = aa_stream_delay_ms args,
            ac_active_threshold_dbfs = aa_active_threshold_dbfs args\<rparr> w)
     | BypassCommand args \<Rightarrow>
         bypass_command (lm_run prog) (lm_engine prog) fuel
           \<lparr>bc_duration = from_secs (ba_duration args), bc_output_root = ba_output args,
            bc_microphone_endpoint_id = ba_microphone_id args,
            bc_cable_input_endpoint_id = ba_cable_input_id args,
            bc_cable_output_endpoint_id = ba_cable_output_id args\<rparr> (e, w)
     | RealtimeAec args \<Rightarrow>
         realtime_aec_command (lm_run prog) (lm_engine prog) fuel
           \<lparr>rt_duration = from_secs (ra_duration args), rt_output_root = ra_output args,
            rt_microphone_endpoint_id = ra_microphone_id args, rt_render_endpoint_id = ra_render_id args,
            rt_cable_input_endpoint_id = ra_cable_input_id args,
            rt_cable_output_endpoint_id = ra_cable_output_id args\<rparr> (e, w)
     | StabilityReport args \<Rightarrow> beside (stability_report_command prog fuel args w))"

end
