(* ===== verification/Lab_Run_Properties.thy ===== *)
theory Lab_Run_Properties
  imports Lab_Run Controller_Properties
begin

text \<open>
  What a completed run leaves in its log, and that the stability report can read it: the events of one run
  from its start to its end, a line a second, every one about the same run on the same endpoints.
\<close>

section \<open>The identity of a run\<close>

text \<open>What the reader of a lines compares from line to line.\<close>

type_synonym run_identity =
  "u128 option \<times> source_descriptor option \<times> source_descriptor option
     \<times> output_pair_snapshot option \<times> u128 option"

definition identity_of :: "engine_snapshot \<Rightarrow> run_identity" where
  "identity_of s = (es_run_id s, es_source s, es_render_source s, es_output_pair s, es_session_id s)"

text \<open>An engine whose identity no snapshot and no stop changes.\<close>

locale identified_engine =
  fixes snapshot :: "'e \<Rightarrow> 'e \<times> engine_snapshot" and stop :: "'e \<Rightarrow> ('e, unit) call"
    and has_identity :: "run_identity \<Rightarrow> 'e \<Rightarrow> bool"
  assumes snapshot_identity: "has_identity i e \<Longrightarrow> snapshot e = (e', s) \<Longrightarrow> has_identity i e' \<and> identity_of s = i"
    and stop_identity: "has_identity i e \<Longrightarrow> stop e = Some (e', r) \<Longrightarrow> has_identity i e'"

text \<open>The workers of a run never write those fields: only the start of a run does.\<close>

definition keeps_identity :: "('x, 'h) host \<Rightarrow> bool" where
  "keeps_identity h \<longleftrightarrow>
     (\<forall>w. identity_of (w_snapshot (ho_others h w)) = identity_of (w_snapshot w)
        \<and> identity_of (w_snapshot (ho_sleep h w)) = identity_of (w_snapshot w)
        \<and> (\<forall>task. identity_of (w_snapshot (fst (ho_spawn h task w))) = identity_of (w_snapshot w)))"

definition world_identity :: "('x, 'h) host \<Rightarrow> run_identity \<Rightarrow> 'x world \<Rightarrow> bool" where
  "world_identity h i w \<longleftrightarrow> keeps_identity h \<and> identity_of (w_snapshot w) = i"

lemma world_identity_others:
  "world_identity h i w \<Longrightarrow> world_identity h i (ho_others h w)"
  "world_identity h i w \<Longrightarrow> world_identity h i (ho_sleep h w)"
  by (simp_all add: world_identity_def keeps_identity_def)

interpretation same_run: kept_while_joining "ho_others h" "ho_sleep h" "world_identity h i"
  for h :: "('x, 'h) host" and i
  by unfold_locales
    (auto simp: world_identity_others, auto simp: world_identity_def identity_of_def with_queue_metrics_def)

lemma world_identity_state:
  "world_identity h i (on_snapshot (\<lambda>s. s\<lparr>es_state := st\<rparr>) w) = world_identity h i w"
  "world_identity h i (on_snapshot (\<lambda>s. s\<lparr>es_state := st, es_queue_depth := a, es_render_queue_depth := b\<rparr>) w)
     = world_identity h i w"
  by (simp_all add: world_identity_def identity_of_def)

lemma stop_keeps_identity:
  assumes "world_identity h i (en_world en)" "engine_stop h fuel en = Some (en', r)"
  shows "world_identity h i (en_world en')"
proof -
  note steps = world_identity_others world_identity_state same_run.kept_updates(4)
  define w where "w = ho_others h (en_world en)"
  have w: "world_identity h i w" by (simp add: w_def world_identity_others assms(1))
  define v where "v = (ho_others h (if es_state (w_snapshot w) \<noteq> EngineFailed
      then on_snapshot (\<lambda>s. s\<lparr>es_state := Stopping\<rparr>) (ho_others h w) else w))\<lparr>w_stop_requested := True\<rparr>"
  have v: "world_identity h i v" by (simp add: v_def steps w)
  from assms(2) consider "en_world en' = w"
    | en1 r1 where "cleanup_previous_run h fuel (en\<lparr>en_world := v\<rparr>) = Some (en1, r1)"
        "en_world en' = en_world en1 \<or> en_world en' =
          on_snapshot (\<lambda>s. s\<lparr>es_state := Stopped, es_queue_depth := 0, es_render_queue_depth := 0\<rparr>)
            (ho_others h (en_world en1))"
    unfolding engine_stop_def Let_def w_def [symmetric] v_def [symmetric] try_call_def
    by (auto split: if_splits option.splits sum.splits prod.splits)
  then show ?thesis
  proof cases
    case 2
    have "world_identity h i (en_world en1)"
      by (rule same_run.cleanup_kept [OF refl refl 2(1)]) (simp add: v)
    with 2(2) show ?thesis by (auto simp: steps)
  qed (simp add: w)
qed

lemma snapshot_keeps_identity:
  assumes "world_identity h i (en_world en)" "engine_snapshot_now h en = (en', s)"
  shows "world_identity h i (en_world en') \<and> identity_of s = i"
proof -
  have "identity_of (with_queue_metrics m s) = identity_of s"
    "identity_of (with_render_metrics m s) = identity_of s" for m s
    by (simp_all add: identity_of_def with_queue_metrics_def with_render_metrics_def)
  moreover have "world_identity h i w \<Longrightarrow> identity_of (w_snapshot w) = i" for w
    by (simp add: world_identity_def)
  ultimately show ?thesis
    using assms world_identity_others(1) [of h i]
    by (auto simp: engine_snapshot_now_def Let_def split: option.splits if_splits prod.splits)
qed

interpretation controller_run: identified_engine "engine_snapshot_now h" "engine_stop h fuel"
    "\<lambda>i en. world_identity h i (en_world en)" for h :: "('x, 'h) host" and fuel
  by unfold_locales (use snapshot_keeps_identity stop_keeps_identity in blast)+

section \<open>What an AEC run is about\<close>

definition aec_identity :: "run_identity \<Rightarrow> bool" where
  "aec_identity i \<longleftrightarrow> (case i of (run, mic, ren, pair, session) \<Rightarrow>
     run \<noteq> None \<and> mic \<noteq> None \<and> ren \<noteq> None \<and> pair \<noteq> None \<and> session \<noteq> None)"

lemma world_identity_ready [simp]:
  "world_identity h i (w\<lparr>w_ready := r\<rparr>) = world_identity h i w"
  "world_identity h i (w\<lparr>w_stop_requested := b\<rparr>) = world_identity h i w"
  "world_identity h i (w\<lparr>w_terminal_failure := b\<rparr>) = world_identity h i w"
  "world_identity h i (w\<lparr>w_microphone_queue := q\<rparr>) = world_identity h i w"
  "world_identity h i (w\<lparr>w_render_queue := q\<rparr>) = world_identity h i w"
  by (simp_all add: world_identity_def)

lemma spawn_keeps_identity:
  assumes "spawn_worker h task what w = (w', r)" "world_identity h i w"
  shows "world_identity h i w'"
proof -
  have "world_identity h i (fst (ho_spawn h task v))" if "world_identity h i v" for v
    using that by (auto simp: world_identity_def keeps_identity_def)
  from this [OF world_identity_others(1) [OF assms(2)]] assms(1) show ?thesis
    by (auto simp: spawn_worker_def split: prod.splits sum.splits)
qed

lemma spawn_aec_keeps_identity:
  assumes "spawn_aec_workers h mic ren pair sid w = (w', r)" "world_identity h i w"
  shows "world_identity h i w'"
  using assms
  by (auto simp: spawn_aec_workers_def spawn_aec_input_worker_def spawn_aec_processing_worker_def open_channel_def
      split: prod.splits sum.splits dest!: spawn_keeps_identity)

lemma wait_keeps_identity:
  "wait_all h ks w = (w', r) \<Longrightarrow> world_identity h i w \<Longrightarrow> world_identity h i w'"
  by (induction h ks w rule: wait_all.induct)
    (auto simp: wait_ready_def Let_def world_identity_others split: prod.splits sum.splits)

lemma begin_aec_identity:
  assumes "begin_aec h mic ren pair w = Some (w', sid)" "keeps_identity h"
  shows "\<exists>i. aec_identity i \<and> world_identity h i w'"
proof -
  obtain run session aec v where
    w': "w' = (lower_flags h (on_snapshot (\<lambda>_. starting_aec mic ren pair run session aec) v))
      \<lparr>w_microphone_queue := timed_queue_new, w_render_queue := timed_queue_new\<rparr>"
    using assms(1) by (auto simp: begin_aec_def Let_def split: prod.splits option.splits)
  define i where "i = identity_of (starting_aec mic ren pair run session aec)"
  have "world_identity h i (on_snapshot (\<lambda>_. starting_aec mic ren pair run session aec) v)"
    by (simp add: world_identity_def i_def assms(2))
  then have "world_identity h i w'"
    by (simp add: w' lower_flags_def Let_def world_identity_others)
  moreover have "aec_identity i" by (simp add: i_def aec_identity_def identity_of_def starting_aec_def)
  ultimately show ?thesis by blast
qed

lemma start_aec_identity:
  assumes "engine_start h fuel config en = Some (en', Inr ())" "ec_mode config = Aec" "keeps_identity h"
  shows "\<exists>i. aec_identity i \<and> world_identity h i (en_world en')"
proof -
  obtain pair ren where "start_aec h fuel (ec_microphone_endpoint_id config) ren pair en = Some (en', Inr ())"
    using assms(1,2) by (auto simp: engine_start_def Let_def split: if_splits sum.splits option.splits)
  from start_aec_ok [OF this] obtain mic rd en0 en1 where
    workers: "start_aec_workers h fuel mic rd pair en0 = Some (en1, Inr ())"
    and en': "en' = en1\<lparr>en_world := drop_receivers h (en_world en1)\<rparr>" by blast
  from workers obtain w0 sid w1 handles w2 where
    begun: "begin_aec h mic rd pair (en_world en0) = Some (w0, sid)"
    and spawned: "spawn_aec_workers h mic rd pair sid w0 = (w1, Inr handles)"
    and ready: "wait_all h aec_receivers w1 = (w2, Inr ())"
    and fin: "finish_start h ''AEC startup worker failed'' (\<lambda>state. if state = Starting then RunningAec else state)
       (en0\<lparr>en_run := Some handles, en_world := w2\<rparr>) = (en1, Inr ())"
    by (fastforce simp: start_aec_workers_def Let_def try_call_Some split: option.splits prod.splits sum.splits)
  obtain i where i: "aec_identity i" "world_identity h i w0" using begin_aec_identity [OF begun assms(3)] by blast
  have "world_identity h i w2"
    by (rule wait_keeps_identity [OF ready spawn_aec_keeps_identity [OF spawned i(2)]])
  then have "world_identity h i (en_world en1)"
    using fin world_identity_others(1) [of h i w2]
    by (auto simp: finish_start_def Let_def world_identity_def identity_of_def split: if_splits)
  then have "world_identity h i (en_world en')"
    by (simp add: en' drop_receivers_def Let_def world_identity_others)
  with i(1) show ?thesis by blast
qed

section \<open>The log of a completed run\<close>

text \<open>
  What \<^verbatim>\<open>Instant\<close> and a file opened for writing promise: time never goes back and fits the type, only a
  whole line that was written without an error is added to the log, and nothing else changes it.
\<close>

definition passes :: "('c \<Rightarrow> nat) \<Rightarrow> ('c \<Rightarrow> validation_event list) \<Rightarrow> 'c \<Rightarrow> 'c \<Rightarrow> bool" where
  "passes clock lines c c' \<longleftrightarrow> clock c \<le> clock c' \<and> lines c' = lines c"

definition clocked ::
  "'c run_env \<Rightarrow> ('c \<Rightarrow> nat) \<Rightarrow> ('c \<Rightarrow> validation_event list) \<Rightarrow> bool" where
  "clocked env clock lines \<longleftrightarrow>
     (\<forall>c. passes clock lines c (fst (ru_now env c)) \<and> clock c \<le> snd (ru_now env c)
        \<and> snd (ru_now env c) \<le> clock (fst (ru_now env c)) \<and> snd (ru_now env c) < 2 ^ 64 * 1000000000)
   \<and> (\<forall>d c. passes clock lines c (ru_sleep env d c))
   \<and> (\<forall>c. passes clock lines c (fst (ru_unix_time_ms env c)))
   \<and> (\<forall>c. passes clock lines c (fst (ru_write_newline env c)))
   \<and> (\<forall>c. passes clock lines c (fst (ru_flush env c)))
   \<and> (\<forall>x c c'. ru_to_writer env x c = (c', Inr ()) \<longrightarrow> clock c \<le> clock c' \<and> lines c' = lines c @ [x])"

lemma clockedD:
  assumes "clocked env clock lines"
  shows "ru_now env c = (c', t) \<Longrightarrow> clock c \<le> t \<and> t \<le> clock c' \<and> lines c' = lines c \<and> t < 2 ^ 64 * 1000000000"
    "clock c \<le> clock (ru_sleep env d c) \<and> lines (ru_sleep env d c) = lines c"
    "ru_unix_time_ms env c = (c', u) \<Longrightarrow> clock c \<le> clock c' \<and> lines c' = lines c"
    "ru_write_newline env c = (c', r) \<Longrightarrow> clock c \<le> clock c' \<and> lines c' = lines c"
    "ru_flush env c = (c', r) \<Longrightarrow> clock c \<le> clock c' \<and> lines c' = lines c"
    "ru_to_writer env x c = (c', Inr ()) \<Longrightarrow> clock c \<le> clock c' \<and> lines c' = lines c @ [x]"
  using assms unfolding clocked_def passes_def by (metis fst_conv snd_conv)+

text \<open>Lines written one after the other, between two instants.\<close>

type_synonym stamp = "nat \<times> engine_snapshot \<times> u128"

definition stamped_line :: "nat \<Rightarrow> nat \<Rightarrow> validation_event_kind \<Rightarrow> stamp \<Rightarrow> validation_event" where
  "stamped_line started requested kind = (\<lambda>(t, s, u). validation_event_of kind s u (t - started) requested)"

definition stamped_between :: "run_identity \<Rightarrow> nat \<Rightarrow> nat \<Rightarrow> stamp list \<Rightarrow> bool" where
  "stamped_between i a b xs \<longleftrightarrow> a \<le> b \<and> sorted (map fst xs)
     \<and> (\<forall>(t, s, u) \<in> set xs. a \<le> t \<and> t \<le> b \<and> t < 2 ^ 64 * 1000000000 \<and> identity_of s = i)"

lemma stamped_between_Nil: "stamped_between i a b [] \<longleftrightarrow> a \<le> b"
  by (simp add: stamped_between_def)

lemma stamped_between_append:
  "stamped_between i a b xs \<Longrightarrow> stamped_between i b c ys \<Longrightarrow> stamped_between i a c (xs @ ys)"
  by (fastforce simp: stamped_between_def sorted_append)

lemma stamped_between_one:
  "a \<le> t \<Longrightarrow> t \<le> b \<Longrightarrow> t < 2 ^ 64 * 1000000000 \<Longrightarrow> identity_of s = i \<Longrightarrow> stamped_between i a b [(t, s, u)]"
  by (simp add: stamped_between_def)

lemma stamped_between_weaken: "stamped_between i a b xs \<Longrightarrow> a' \<le> a \<Longrightarrow> b \<le> b' \<Longrightarrow> stamped_between i a' b' xs"
  using stamped_between_append [of i a' a "[]" b xs] stamped_between_append [of i a' b xs b' "[]"]
  by (simp add: stamped_between_Nil)

context identified_engine
begin

lemma write_event_logs:
  assumes env: "clocked env clock lines" and eng: "ec_snapshot eng = snapshot" and e: "has_identity i e"
    and run: "write_event env eng kind elapsed requested (e, c) = ((e', c'), Inr ())"
  shows "has_identity i e' \<and> clock c \<le> clock c'
    \<and> (\<exists>s u. lines c' = lines c @ [validation_event_of kind s u elapsed requested] \<and> identity_of s = i)"
proof -
  obtain s where s: "snapshot e = (e', s)"
    using run by (auto simp: write_event_def eng split: prod.splits)
  obtain c1 u c2 c3 where
    "ru_unix_time_ms env c = (c1, Inr u)"
    "ru_to_writer env (validation_event_of kind s u elapsed requested) c1 = (c2, Inr ())"
    "ru_write_newline env c2 = (c3, Inr ())" "ru_flush env c3 = (c', Inr ())"
    using run by (auto simp: write_event_def eng s env_call_def split: prod.splits sum.splits)
  note steps = clockedD(3) [OF env this(1)] clockedD(6) [OF env this(2)]
    clockedD(4) [OF env this(3)] clockedD(5) [OF env this(4)]
  then show ?thesis using snapshot_identity [OF e s] by fastforce
qed

lemma write_event_now_logs:
  assumes env: "clocked env clock lines" and eng: "ec_snapshot eng = snapshot" and e: "has_identity i e"
    and run: "write_event_now env eng kind started requested (e, c) = ((e', c'), Inr ())"
  shows "has_identity i e' \<and> (\<exists>x. lines c' = lines c @ [stamped_line started requested kind x]
    \<and> stamped_between i (clock c) (clock c') [x] \<and> clock c \<le> fst x)"
proof -
  obtain c1 t where now: "ru_now env c = (c1, t)"
    and w: "write_event env eng kind (t - started) requested (e, c1) = ((e', c'), Inr ())"
    using run by (auto simp: write_event_now_def elapsed_since_def split: prod.splits)
  obtain s u where "lines c' = lines c1 @ [validation_event_of kind s u (t - started) requested]"
    "identity_of s = i" "has_identity i e'" "clock c1 \<le> clock c'"
    using write_event_logs [OF env eng e w] by blast
  with clockedD(1) [OF env now] show ?thesis
    by (intro conjI exI [of _ "(t, s, u)"]) (auto simp: stamped_line_def intro: stamped_between_one)
qed

lemma run_turns_log:
  assumes env: "clocked env clock lines" and eng: "ec_snapshot eng = snapshot"
    and run: "run_loop (run_turn env eng label started deadline requested) fuel (e, c) = Some (Some ((e', c'), Inr ()))"
    and e: "has_identity i e"
  shows "has_identity i e' \<and> deadline \<le> clock c' \<and> (\<exists>xs. stamped_between i (clock c) (clock c') xs
    \<and> lines c' = lines c @ map (stamped_line started requested Periodic) xs)"
  using run e
proof (induction fuel arbitrary: e c)
  case (Suc fuel)
  obtain c1 now where now: "ru_now env c = (c1, now)" by (cases "ru_now env c")
  note t1 = clockedD(1) [OF env now]
  show ?case
  proof (cases "now < deadline")
    case False
    with Suc.prems now have "e' = e" "c' = c1" by (simp_all add: run_turn_def)
    with t1 False Suc.prems(2) show ?thesis
      by (intro conjI exI [of _ "[]"]) (auto simp: stamped_between_Nil)
  next
    case True
    obtain c2 now2 where now2: "ru_now env c1 = (c2, now2)" by (cases "ru_now env c1")
    define c3 where "c3 = ru_sleep env (min SNAPSHOT_INTERVAL (deadline - now2)) c2"
    obtain e1 s where s: "snapshot e = (e1, s)" by (cases "snapshot e")
    have e1: "has_identity i e1" using snapshot_identity [OF Suc.prems(2) s] by simp
    have c3: "clock c \<le> clock c3" "lines c3 = lines c"
      using t1 clockedD(1) [OF env now2] clockedD(2) [OF env, of c2 "min SNAPSHOT_INTERVAL (deadline - now2)"]
      unfolding c3_def [symmetric] by (linarith, simp)
    have aborted: "abandon_run env eng label s st \<noteq> Some (st', Inr ())" for st st'
      by (cases st) (auto simp: abandon_run_def with_context_def split: option.splits prod.splits sum.splits)
    note body = run_turn_def now True now2 c3_def [symmetric] eng s Let_def
    from Suc.prems(1) aborted obtain e2 c4 where
      w: "write_event_now env eng Periodic started requested (e1, c3) = ((e2, c4), Inr ())"
      and rest: "run_loop (run_turn env eng label started deadline requested) fuel (e2, c4)
        = Some (Some ((e', c'), Inr ()))"
      by (auto simp: body split: if_splits prod.splits sum.splits)
    obtain x where x: "has_identity i e2" "lines c4 = lines c3 @ [stamped_line started requested Periodic x]"
      "stamped_between i (clock c3) (clock c4) [x]"
      using write_event_now_logs [OF env eng e1 w] by blast
    obtain xs where xs: "has_identity i e'" "deadline \<le> clock c'" "stamped_between i (clock c4) (clock c') xs"
      "lines c' = lines c4 @ map (stamped_line started requested Periodic) xs"
      using Suc.IH [OF rest x(1)] by blast
    have "stamped_between i (clock c) (clock c') (x # xs)"
      using stamped_between_append [OF stamped_between_weaken [OF x(3) c3(1) order_refl] xs(3)] by simp
    then show ?thesis
      using xs x(2) c3(2) by (intro conjI exI [of _ "x # xs"]) simp_all
  qed
qed simp

text \<open>So the log grows by the line of the start, the lines of the seconds and the line of the end.\<close>

lemma run_engine_logs:
  assumes env: "clocked env clock lines" and eng: "ec_snapshot eng = snapshot" "ec_stop eng = stop"
    and start: "\<And>e1. ec_start eng config e = Some (e1, Inr ()) \<Longrightarrow> has_identity i e1"
    and run: "run_engine env eng fuel config duration label (e, c) = Some ((e', c'), Inr ())"
  shows "\<exists>started s u xs x. identity_of s = i \<and> started + duration \<le> fst x \<and> started + duration < 2 ^ 64 * 1000000000
    \<and> stamped_between i started (fst x) xs \<and> stamped_between i (fst x) (fst x) [x]
    \<and> lines c' = lines c @ validation_event_of Started s u 0 duration
        # map (stamped_line started duration Periodic) xs @ [stamped_line started duration Final x]"
proof -
  obtain c1 started where now: "ru_now env c = (c1, started)" by (cases "ru_now env c")
  from run obtain e1 e2 c2 e3 c3 where
    st: "ec_start eng config e = Some (e1, Inr ())"
    and first: "write_event env eng Started 0 duration (e1, c1) = ((e2, c2), Inr ())"
    and bound: "started + duration < 2 ^ 64 * 1000000000"
    and turns: "run_loop (run_turn env eng label started (started + duration) duration) fuel (e2, c2)
      = Some (Some ((e3, c3), Inr ()))"
    and fin: "finish_run env eng label started duration (e3, c3) = Some ((e', c'), Inr ())"
    by (auto simp: run_engine_def now split: option.splits prod.splits sum.splits if_splits)
  have e1: "has_identity i e1" by (rule start [OF st])
  obtain s u where s: "has_identity i e2" "clock c1 \<le> clock c2" "identity_of s = i"
    "lines c2 = lines c1 @ [validation_event_of Started s u 0 duration]"
    using write_event_logs [OF env eng(1) e1 first] by blast
  obtain xs where xs: "has_identity i e3" "started + duration \<le> clock c3"
    "stamped_between i (clock c2) (clock c3) xs"
    "lines c3 = lines c2 @ map (stamped_line started duration Periodic) xs"
    using run_turns_log [OF env eng(1) turns s(1)] by blast
  from fin obtain e4 e5 c5 where stopped: "stop e3 = Some (e4, Inr ())"
    and last: "write_event_now env eng Final started duration (e4, c3) = ((e5, c5), Inr ())"
    and flushed: "\<exists>r. ru_flush env c5 = (c', r)"
    by (auto simp: finish_run_def eng(2) with_context_def split: option.splits prod.splits sum.splits)
  have e4: "has_identity i e4" by (rule stop_identity [OF xs(1) stopped])
  obtain x where x: "lines c5 = lines c3 @ [stamped_line started duration Final x]"
    "stamped_between i (clock c3) (clock c5) [x]" "clock c3 \<le> fst x"
    using write_event_now_logs [OF env eng(1) e4 last] by blast
  have "lines c' = lines c5" using flushed clockedD(5) [OF env] by blast
  moreover have "stamped_between i started (fst x) xs"
    using clockedD(1) [OF env now] s(2) x(3) by (intro stamped_between_weaken [OF xs(3)]) auto
  moreover have "stamped_between i (fst x) (fst x) [x]"
    using x(2) by (auto simp: stamped_between_def)
  ultimately show ?thesis
    using xs(2,4) x(1,3) s(3,4) bound clockedD(1) [OF env now]
    by (intro exI [of _ started] exI [of _ s] exI [of _ u] exI [of _ xs] exI [of _ x]) auto
qed

end

section \<open>The report can read it\<close>

lemma sorted_not_regressing:
  "sorted_wrt (\<lambda>a b. ve_monotonic_elapsed_ms a \<le> ve_monotonic_elapsed_ms b) es \<Longrightarrow> \<not> regressing es"
proof (induction es)
  case (Cons e es)
  then show ?case by (cases es) (auto simp: regressing_def not_less)
qed (simp add: regressing_def)

lemma parse_lines_printed:
  assumes "\<forall>e \<in> set es. parse (print e) = Inr e \<and> trim (print e) \<noteq> []" "\<forall>e \<in> set es. supported_schema (ve_schema_version e)"
  shows "parse_lines parse n (map (\<lambda>e. Inr (print e)) es) = Inr es"
  using assms by (induction es arbitrary: n) (simp_all add: with_context_def)

lemma as_millis_mono: "a \<le> b \<Longrightarrow> b < 2 ^ 64 * 1000000000 \<Longrightarrow> as_millis a \<le> as_millis b"
proof -
  assume le: "a \<le> b" and b: "b < 2 ^ 64 * 1000000000"
  have "unat (as_millis x) = x div 1000000" if "x \<le> b" for x
    using that b by (simp add: as_millis_def unat_of_nat_small less_mult_imp_div_less)
  then show ?thesis using le by (simp add: word_le_nat_alt div_le_mono)
qed

lemma stamped_line_sel [simp]:
  "ve_schema_version (stamped_line st d kind x) = VALIDATION_SCHEMA_VERSION"
  "ve_event (stamped_line st d kind x) = kind" "ve_requested_duration_ms (stamped_line st d kind x) = as_millis d"
  "ve_snapshot (stamped_line st d kind x) = fst (snd x)"
  "ve_monotonic_elapsed_ms (stamped_line st d kind x) = as_millis (fst x - st)"
  by (simp_all add: stamped_line_def validation_event_of_def split_beta)

lemma start_line_sel [simp]:
  "ve_schema_version (validation_event_of kind s u t d) = VALIDATION_SCHEMA_VERSION"
  "ve_event (validation_event_of kind s u t d) = kind"
  "ve_requested_duration_ms (validation_event_of kind s u t d) = as_millis d"
  "ve_snapshot (validation_event_of kind s u t d) = s"
  "ve_monotonic_elapsed_ms (validation_event_of kind s u t d) = as_millis t"
  by (simp_all add: validation_event_of_def)

lemma run_lines_sorted:
  assumes xs: "stamped_between i st (fst x) xs" and x: "fst x < 2 ^ 64 * 1000000000"
  shows "sorted_wrt (\<lambda>a b. ve_monotonic_elapsed_ms a \<le> ve_monotonic_elapsed_ms b)
    (validation_event_of Started s u 0 d # map (stamped_line st d Periodic) xs @ [stamped_line st d Final x])"
proof -
  have mono: "as_millis (a - st) \<le> as_millis (b - st)" if "a \<le> b" "b < 2 ^ 64 * 1000000000" for a b
    using that by (intro as_millis_mono) auto
  have le: "fst y \<le> fst x" if "y \<in> set xs" for y
    using xs that by (auto simp: stamped_between_def split_beta)
  have "sorted_wrt (\<lambda>a b. fst a \<le> fst b) xs" using xs by (simp add: stamped_between_def sorted_map)
  then have "sorted_wrt (\<lambda>a b. as_millis (fst a - st) \<le> as_millis (fst b - st)) xs"
  proof (rule sorted_wrt_mono_rel [rotated])
    fix a b assume "b \<in> set xs" "fst a \<le> fst b"
    with mono le_less_trans [OF le x] show "as_millis (fst a - st) \<le> as_millis (fst b - st)" by blast
  qed
  moreover have "\<forall>y \<in> set xs. as_millis (fst y - st) \<le> as_millis (fst x - st)"
    using mono [OF le x] by blast
  ultimately show ?thesis by (simp add: sorted_wrt_append sorted_wrt_map as_millis_def)
qed

lemma run_lines_readable:
  assumes json: "\<forall>e \<in> set es. parse (print e) = Inr e \<and> trim (print e) \<noteq> []"
    and i: "aec_identity i" "identity_of s = i"
    and xs: "stamped_between i st (fst x) xs" and x: "stamped_between i (fst x) (fst x) [x]"
    and d: "1000000 \<le> d" "st + d \<le> fst x"
    and es: "es = validation_event_of Started s u 0 d # map (stamped_line st d Periodic) xs @ [stamped_line st d Final x]"
  shows "\<exists>evidence. parse_evidence parse (map (\<lambda>e. Inr (print e)) es) = Inr evidence
    \<and> pe_events evidence = es \<and> pe_authoritative evidence \<and> pe_requested_duration_ms evidence = as_millis d
    \<and> as_millis d \<le> pe_observed_duration_ms evidence \<and> pe_terminal_event evidence = Final"
proof -
  obtain run mic ren pair session where ident: "i = (Some run, Some mic, Some ren, Some pair, session)"
    using i(1) by (auto simp: aec_identity_def split: prod.splits)
  have bound: "fst x < 2 ^ 64 * 1000000000" using x by (auto simp: stamped_between_def)
  have same: "\<forall>e \<in> set es. ve_schema_version e = VALIDATION_SCHEMA_VERSION
      \<and> ve_requested_duration_ms e = as_millis d \<and> identity_of (ve_snapshot e) = i"
    using xs x i(2) by (auto simp: es stamped_between_def split_beta)
  have parsed: "parse_lines parse 0 (map (\<lambda>e. Inr (print e)) es) = Inr es"
    by (rule parse_lines_printed [OF json])
      (use same in \<open>simp add: supported_schema_def VALIDATION_SCHEMA_VERSION_def CURRENT_EVENT_SCHEMA_VERSION_def\<close>)
  have ends: "ve_event (hd es) = Started" "last es = stamped_line st d Final x" "2 \<le> length es" "es \<noteq> []"
    by (simp_all add: es)
  have inner: "\<not> list_ex (\<lambda>e. terminal (ve_event e)) (butlast es)"
    by (auto simp: es list_ex_iff terminal_def butlast_append)
  have schema: "\<not> list_ex (\<lambda>e. ve_schema_version e \<noteq> ve_schema_version (hd es)) es"
    "ve_schema_version (hd es) = CURRENT_EVENT_SCHEMA_VERSION"
    using same ends(4) by (auto simp: list_ex_iff VALIDATION_SCHEMA_VERSION_def CURRENT_EVENT_SCHEMA_VERSION_def)
  have order: "\<not> regressing es"
    unfolding es by (rule sorted_not_regressing [OF run_lines_sorted [OF xs bound]])
  have "as_millis d \<noteq> 0"
  proof -
    have "unat (as_millis d) = d div 1000000"
      using d bound by (simp add: as_millis_def unat_of_nat_small less_mult_imp_div_less)
    then show ?thesis using d(1) by auto
  qed
  moreover have "check_identities run mic ren (Some pair) session es = Inr ()"
    unfolding check_identities_Inr using same by (auto simp: ident identity_of_def)
  moreover have "identity_of (ve_snapshot (hd es)) = i" using same ends(4) by simp
  ultimately have "\<exists>evidence. identify_run es (ve_schema_version (hd es)) True = Inr evidence
    \<and> pe_events evidence = es \<and> pe_authoritative evidence \<and> pe_requested_duration_ms evidence = as_millis d
    \<and> pe_observed_duration_ms evidence = ve_monotonic_elapsed_ms (last es)
    \<and> pe_terminal_event evidence = ve_event (last es)"
    using same ends(4)
    by (auto simp: identify_run_def required_field_def identity_of_def ident Let_def list_ex_iff)
  moreover have "as_millis d \<le> ve_monotonic_elapsed_ms (last es)"
    using d bound by (simp add: ends(2) as_millis_mono)
  moreover have "parse_evidence parse (map (\<lambda>e. Inr (print e)) es)
      = identify_run es (ve_schema_version (hd es)) True"
    using parsed ends inner schema order by (simp add: parse_evidence_def terminal_def)
  ultimately show ?thesis by (auto simp: ends(2))
qed

text \<open>C31
  The log of an AEC run of the lab that completes without an error, over the engine of this development and in
  any interleaving with its workers, is accepted by the stability report as one authoritative run: started, a
  line a second about the same run, final; it asks for the requested duration and covers at least that.\<close>

theorem completed_run_is_readable:
  assumes "clocked env clock lines" "keeps_identity h" "ec_mode config = Aec" "1000000 \<le> duration"
    and "\<forall>e \<in> set (lines c'). parse (print e) = Inr e \<and> trim (print e) \<noteq> []" "lines c = []"
    and "run_engine env (controller_calls h k) fuel config duration label (en, c) = Some ((en', c'), Inr ())"
  shows "\<exists>evidence. parse_evidence parse (map (\<lambda>e. Inr (print e)) (lines c')) = Inr evidence
    \<and> pe_events evidence = lines c' \<and> pe_authoritative evidence
    \<and> pe_requested_duration_ms evidence = as_millis duration
    \<and> as_millis duration \<le> pe_observed_duration_ms evidence \<and> pe_terminal_event evidence = Final"
proof -
  have calls: "ec_start (controller_calls h k) = engine_start h k"
    "ec_snapshot (controller_calls h k) = engine_snapshot_now h" "ec_stop (controller_calls h k) = engine_stop h k"
    by (simp_all add: controller_calls_def)
  obtain en1 where started: "engine_start h k config en = Some (en1, Inr ())"
    using assms(7) by (auto simp: run_engine_def calls split: option.splits prod.splits sum.splits)
  obtain i where i: "aec_identity i" "world_identity h i (en_world en1)"
    using start_aec_identity [OF started assms(3,2)] by blast
  then obtain st s u xs x where log: "identity_of s = i" "st + duration \<le> fst x"
    "stamped_between i st (fst x) xs" "stamped_between i (fst x) (fst x) [x]"
    "lines c' = validation_event_of Started s u 0 duration
        # map (stamped_line st duration Periodic) xs @ [stamped_line st duration Final x]"
    using controller_run.run_engine_logs [OF assms(1) calls(2,3) _ assms(7), of i] assms(6) started
    by (auto simp: calls)
  show ?thesis by (rule run_lines_readable [OF assms(5) i(1) log(1,3,4) assms(4) log(2,5)])
qed

section \<open>A short run\<close>

definition last_instant :: nat where "last_instant = 2 ^ 64 * 1000000000 - 1"

definition short_env :: "(validation_event list \<times> nat) run_env" where
  "short_env = \<lparr>ru_now = (\<lambda>(es, t). ((es, t + 1000000000), min t last_instant)), ru_sleep = (\<lambda>d c. c),
     ru_unix_time_ms = (\<lambda>c. (c, Inr 0)), ru_to_writer = (\<lambda>x (es, t). ((es @ [x], t), Inr ())),
     ru_write_newline = (\<lambda>c. (c, Inr ())), ru_flush = (\<lambda>c. (c, Inr ()))\<rparr>"

lemma short_env_clocked: "clocked short_env (\<lambda>(es, t). min t last_instant) fst"
  by (auto simp: clocked_def passes_def short_env_def last_instant_def split_beta)

lemma calm_keeps_identity: "keeps_identity calm_host"
  by (simp add: keeps_identity_def calm_host_def ready_send_def Let_def)

lemma calm_start_aec:
  "\<exists>en. engine_start calm_host 1 (engine_config_aec [65] [68] [66] [67]) calm_engine = Some (en, Inr ())"
proof -
  let ?mic = "any_source Microphone [65]" and ?ren = "any_source RenderLoopback [68]"
  obtain w sid where begun: "begin_aec calm_host ?mic ?ren cable_pair (en_world calm_engine) = Some (w, sid)"
    using begin_returns(2) unfolding returns_iff by (metis surj_pair)
  then have w: "\<not> w_terminal_failure w"
    by (auto simp: begin_aec_def lower_flags_def Let_def split_def calm_host_def split: option.splits)
  have "\<exists>en. start_aec_workers calm_host 1 ?mic ?ren cable_pair calm_engine = Some (en, Inr ())"
    using w by (simp add: start_aec_workers_def begun)
      (simp add: spawn_aec_workers_def spawn_aec_input_worker_def spawn_aec_processing_worker_def spawn_worker_def
        aec_receivers_def wait_ready_def finish_start_def open_channel_def ready_send_def calm_host_def Let_def)
  moreover have "ready_to_start calm_host 1 calm_engine = Some (calm_engine, Inr ())"
    by (simp add: ready_to_start_def calm_host_def calm_engine_def engine_new_with_aec_def engine_new_def
        initial_world_def default_snapshot_def)
  moreover have "resolve_source calm_engine Microphone [65] = Inr ?mic"
    "resolve_source calm_engine RenderLoopback [68] = Inr ?ren"
    by (simp_all add: resolve_source_def calm_engine_def engine_new_with_aec_def engine_new_def any_source_def
        validate_source_def trim_def is_whitespace_def)
  moreover have "aof_resolve_pair (en_sink_factory calm_engine) [66] [67] = Inr cable_pair"
    "en_echo_factory calm_engine \<noteq> None"
    by (simp_all add: calm_engine_def engine_new_with_aec_def engine_new_def)
  ultimately show ?thesis
    by (auto simp: engine_start_def start_aec_def end_start_def engine_config_aec_def Let_def trim_def
        is_whitespace_def)
qed

lemma calm_stop: "\<exists>en'. engine_stop calm_host 1 en = Some (en', Inr ())"
  by (auto simp: engine_stop_def cleanup_previous_run_def join_run_def join_slot_def join_finite_def
      join_turn_def Let_def calm_host_def split: option.splits)

lemma short_write:
  "\<exists>e' u. write_event short_env eng kind elapsed d (e, es, t) = ((e', es @ [u], t), Inr ())"
  by (simp add: write_event_def env_call_def short_env_def split_beta)

lemma short_run:
  "\<exists>en' u v t. run_engine short_env (controller_calls calm_host 1) 1 (engine_config_aec [65] [68] [66] [67])
      1000000000 ''real-time default AEC'' (calm_engine, [], 0) = Some ((en', [u, v], t), Inr ())"
proof -
  define eng :: "(nat, nat, unit, unit, unit, unit) engine engine_calls"
    where "eng = controller_calls calm_host 1"
  obtain en1 where start: "ec_start eng (engine_config_aec [65] [68] [66] [67]) calm_engine = Some (en1, Inr ())"
    using calm_start_aec by (auto simp: controller_calls_def eng_def)
  obtain en2 u where first: "write_event short_env eng Started 0 1000000000 (en1, [], 1000000000)
      = ((en2, [u], 1000000000), Inr ())"
    using short_write [of eng Started 0 1000000000 en1 "[]" 1000000000] by auto
  obtain en3 where stop: "ec_stop eng en2 = Some (en3, Inr ())"
    using calm_stop by (auto simp: controller_calls_def eng_def)
  obtain en4 v where last: "write_event short_env eng Final 2000000000 1000000000 (en3, [u], 3000000000)
      = ((en4, [u, v], 3000000000), Inr ())"
    using short_write [of eng Final 2000000000 1000000000 en3 "[u]" 3000000000] by auto
  have now: "ru_now short_env (es, t) = ((es, t + 1000000000), min t last_instant)"
    "ru_flush short_env c = (c, Inr ())" for es t c
    by (simp_all add: short_env_def)
  show ?thesis
    unfolding eng_def [symmetric]
    by (simp add: run_engine_def now start first run_turn_def finish_run_def stop write_event_now_def
        elapsed_since_def last last_instant_def with_context_def)
qed

definition two_line_parser :: "validation_event \<Rightarrow> validation_event \<Rightarrow> str \<Rightarrow> message + validation_event" where
  "two_line_parser u v s = Inr (if s = [83] then u else v)"

theorem completed_run_is_readable_witness:
  "\<exists>en' u v t. run_engine short_env (controller_calls calm_host 1) 1 (engine_config_aec [65] [68] [66] [67])
      1000000000 ''real-time default AEC'' (calm_engine, [], 0) = Some ((en', [u, v], t), Inr ())
    \<and> (\<exists>evidence. parse_evidence (two_line_parser u v) [Inr [83], Inr (if v = u then [83] else [70])] = Inr evidence
        \<and> pe_authoritative evidence \<and> pe_terminal_event evidence = Final)"
proof -
  obtain en' u v t where run: "run_engine short_env (controller_calls calm_host 1) 1
      (engine_config_aec [65] [68] [66] [67]) 1000000000 ''real-time default AEC'' (calm_engine, [], 0)
      = Some ((en', [u, v], t), Inr ())"
    using short_run by blast
  have aec: "ec_mode (engine_config_aec [65] [68] [66] [67]) = Aec" by (simp add: engine_config_aec_def)
  have json: "\<forall>e \<in> set (fst ([u, v], t)). two_line_parser u v (if e = u then [83] else [70]) = Inr e
      \<and> trim (if e = u then [83] else [70]) \<noteq> []"
    by (simp add: two_line_parser_def trim_def is_whitespace_def)
  from completed_run_is_readable [OF short_env_clocked calm_keeps_identity aec _ json _ run] run
  show ?thesis by auto
qed

end
