(* ===== verification/Windows_Input_Properties.thy ===== *)
theory Windows_Input_Properties
  imports Windows_Input Aec_Input
begin

text \<open>
  What the input adapter guarantees: exactly the frames of a packet reach the caller's buffer, the listed
  endpoints are those that resolve, and the input workers run safely over it.
\<close>

section \<open>Packets\<close>

text \<open>What the \<^verbatim>\<open>wasapi\<close> crate documents for \<^verbatim>\<open>read_from_device\<close>: it fills the slice it is given, whose length a
  call cannot change, and fails unless the whole packet fits, so it never reports more frames than the slice
  holds.\<close>

definition reads_whole :: "'w input_api \<Rightarrow> bool" where
  "reads_whole api \<longleftrightarrow> (\<forall>bytes w. case ia_read_from_device api bytes w of (_, bytes', r) \<Rightarrow>
     length bytes' = length bytes \<and> (case r of Inl _ \<Rightarrow> True | Inr (n, _) \<Rightarrow> unat n * 4 \<le> length bytes))"

lemma reads_wholeD:
  assumes "reads_whole api" "ia_read_from_device api bytes w = (w', bytes', r)"
  shows "length bytes' = length bytes" "r = Inr (n, info) \<Longrightarrow> unat n * 4 \<le> length bytes"
  using assms unfolding reads_whole_def by (auto dest!: spec [of _ bytes] spec [of _ w])

lemma length_fill_samples:
  "n \<le> length samples \<Longrightarrow> length (fill_samples silent n bytes samples) = length samples"
  by (simp add: fill_samples_def Let_def)

lemma fill_samples_parts:
  assumes "n * 4 \<le> length bytes"
  shows "fill_samples silent n bytes samples
      = (if silent then replicate n (Fin 0) else map f32_from_le_bytes (take n (chunks 4 bytes))) @ drop n samples"
proof -
  have "n \<le> length bytes div 4" using assms by (simp add: less_eq_div_iff_mult_less_eq)
  then show ?thesis by (simp add: fill_samples_def Let_def take_map length_chunks min_absorb2)
qed

text \<open>The sample bytes a stream holds after a call, as far as they belong to the packet.\<close>

definition packet_samples :: "bool \<Rightarrow> nat \<Rightarrow> windows_audio_input \<Rightarrow> fp list" where
  "packet_samples silent n s =
     (if silent then replicate n (Fin 0) else map f32_from_le_bytes (take n (chunks 4 (wi_packet_bytes s))))"

lemma take_chunks_prefix: "n * 4 \<le> m \<Longrightarrow> take n (chunks 4 (take m xs)) = take n (chunks 4 xs)"
proof (induction n arbitrary: m xs)
  case (Suc n)
  show ?case
  proof (cases "length xs < 4")
    case False
    with Suc.prems obtain k where k: "m = 4 + k" using le_Suc_ex [of 4 m] by auto
    define block rest where "block = take 4 xs" and "rest = drop 4 xs"
    with False have xs: "xs = block @ rest" "length block = 4" by simp_all
    then have "take m xs = block @ take k rest" by (simp add: k)
    then have "chunks 4 (take m xs) = block # chunks 4 (take k rest)" "chunks 4 xs = block # chunks 4 rest"
      using xs by (simp_all add: chunks_block)
    with Suc.IH [of k rest] Suc.prems k show ?thesis by simp
  qed simp
qed simp

lemma read_packet_shape:
  assumes "reads_whole api"
  shows "\<exists>w' s' samples' r. windows_read_packet api timeout samples (w, s) = Some ((w', s'), samples', r)
    \<and> length (wi_packet_bytes s') = length (wi_packet_bytes s) \<and> wi_stopped s' = wi_stopped s
    \<and> length samples' = length samples
    \<and> (case r of Inr (Some m) \<Rightarrow> pm_frames m \<le> length samples
          \<and> samples' = packet_samples (pm_silent m) (pm_frames m) s' @ drop (pm_frames m) samples
        | _ \<Rightarrow> samples' = samples)"
proof (cases "await_packet api timeout w")
  case (Pair w1 r1)
  show ?thesis
  proof (cases r1)
    case (Inr found)
    show ?thesis
    proof (cases found)
      case (Some n)
      define required where "required = unat n * 4"
      show ?thesis
      proof (cases "length samples < unat n \<or> length (wi_packet_bytes s) < required")
        case False
        then have fits: "unat n \<le> length samples" "required \<le> length (wi_packet_bytes s)" by simp_all
        obtain w2 bytes r2 where read: "ia_read_from_device api (take required (wi_packet_bytes s)) w1 = (w2, bytes, r2)"
          by (cases "ia_read_from_device api (take required (wi_packet_bytes s)) w1")
        have len: "length bytes = required" using reads_wholeD(1) [OF assms read] fits by simp
        show ?thesis
        proof (cases r2)
          case (Inl e)
          with Pair Inr Some fits read len show ?thesis
            by (simp add: windows_read_packet_def required_def [symmetric] Let_def)
        next
          case (Inr got)
          then obtain k info where r2: "r2 = Inr (k, info)" by (cases got) simp
          then have k: "unat k * 4 \<le> required" using reads_wholeD(2) [OF assms read] fits by simp
          then have "unat k \<le> length samples" using fits(1) by (simp add: required_def)
          moreover define s' where "s' = s\<lparr>wi_packet_bytes := bytes @ drop required (wi_packet_bytes s)\<rparr>"
          moreover have "take (unat k) (chunks 4 bytes) = take (unat k) (chunks 4 (wi_packet_bytes s'))"
            using take_chunks_prefix [OF k, of "wi_packet_bytes s'"] len by (simp add: s'_def)
          ultimately have filled: "fill_samples (bi_silent info) (unat k) bytes samples
              = packet_samples (bi_silent info) (unat k) s' @ drop (unat k) samples"
            using k len by (simp add: fill_samples_parts packet_samples_def)
          have "length (packet_samples (bi_silent info) (unat k) s' @ drop (unat k) samples) = length samples"
            unfolding filled [symmetric] using \<open>unat k \<le> length samples\<close> by (rule length_fill_samples)
          with Pair \<open>r1 = Inr found\<close> Some fits read len r2 \<open>unat k \<le> length samples\<close> filled show ?thesis
            by (simp add: windows_read_packet_def required_def [symmetric] Let_def s'_def)
        qed
      qed (use Pair Inr Some in \<open>auto simp: windows_read_packet_def required_def Let_def\<close>)
    qed (use Pair Inr in \<open>simp add: windows_read_packet_def\<close>)
  qed (use Pair in \<open>simp add: windows_read_packet_def\<close>)
qed

section \<open>A device with one packet\<close>

definition desk_device :: "string \<Rightarrow> input_device" where
  "desk_device ident =
     \<lparr>dv_id = Inr (lit ident), dv_friendlyname = Inr (lit ident), dv_state = Inr DeviceActive,
      dv_interface_friendlyname = Inr (lit ''Realtek''), dv_description = Inr (lit ''desk''),
      dv_device_format = Inl \<lparr>we_kind = OtherWasapi, we_text = Text ''no format''\<rparr>\<rparr>"

definition desk_platform :: input_platform where
  "desk_platform =
     \<lparr>ip_initialize_mta = Inr (), ip_enumerator = Inr (),
      ip_collection = (\<lambda>dir. Inr (case dir of CaptureFlow \<Rightarrow> [Inr (desk_device ''line''), Inr (desk_device ''mic'')]
        | RenderFlow \<Rightarrow> [Inr (desk_device ''speakers'')])),
      ip_default_device = (\<lambda>_. Inr (desk_device ''mic''))\<rparr>"

text \<open>Two samples, 1 and -2, are there to be read once.\<close>

definition desk_api :: "bool input_api" where
  "desk_api =
     \<lparr>ia_platform = (\<lambda>_. desk_platform), ia_get_iaudioclient = (\<lambda>_ w. (w, Inr ())),
      ia_get_device_period = (\<lambda>w. (w, Inr (100000, 30000))), ia_initialize_client = (\<lambda>_ _ w. (w, Inr ())),
      ia_set_get_eventhandle = (\<lambda>w. (w, Inr ())), ia_get_buffer_size = (\<lambda>w. (w, Inr 480)),
      ia_get_audiocaptureclient = (\<lambda>w. (w, Inr ())), ia_start_stream = (\<lambda>w. (w, Inr ())),
      ia_get_next_packet_size = (\<lambda>w. (w, Inr (if w then Some 2 else None))),
      ia_wait_for_event = (\<lambda>_ w. (w, Inl \<lparr>we_kind = EventTimeout, we_text = Text ''timeout''\<rparr>)),
      ia_read_from_device = (\<lambda>bytes w.
        if length bytes = 8 then (False, [0, 0, 128, 63, 0, 0, 0, 192],
          Inr (2, \<lparr>bi_data_discontinuity = False, bi_silent = False, bi_timestamp_error = False, bi_index = 7,
            bi_timestamp = 9\<rparr>))
        else (w, bytes, Inl \<lparr>we_kind = OtherWasapi, we_text = Text ''short''\<rparr>)),
      ia_stop_stream = (\<lambda>w. (w, Inr ()))\<rparr>"

lemma desk_reads_whole: "reads_whole desk_api"
  by (simp add: reads_whole_def desk_api_def)


lemma desk_samples:
  "chunks 4 [0, 0, 128, 63, 0, 0, 0, 192] = [[0, 0, 128, 63], [0, 0, 0, 192 :: u8]]"
  "f32_from_le_bytes [0, 0, 128, 63] = Fin 1" "f32_from_le_bytes [0, 0, 0, 192] = Fin (- 2)"
  by (simp add: chunks.simps, (simp add: f32_from_le_bytes_def of_le_bytes_def single_of_bits_def)+)

lemma desk_packet:
  "windows_read_packet desk_api 0 [Fin 0, Fin 0, Fin 5] (True, \<lparr>wi_packet_bytes = replicate 12 0, wi_stopped = False\<rparr>)
    = Some ((False, \<lparr>wi_packet_bytes = [0, 0, 128, 63, 0, 0, 0, 192, 0, 0, 0, 0], wi_stopped = False\<rparr>),
        [Fin 1, Fin (- 2), Fin 5], Inr (Some \<lparr>pm_frames = 2, pm_silent = False, pm_data_discontinuity = False,
          pm_timestamp_error = False, pm_device_position = 7, pm_qpc_timestamp_100ns = 9\<rparr>))"
proof -
  have zeros: "replicate 12 0 = [0, 0, 0, 0, 0, 0, 0, 0, 0, 0, 0, 0 :: u8]" by (simp add: numeral_eq_Suc)
  have await: "await_packet desk_api 0 True = (True, Inr (Some 2))"
    by (simp add: await_packet_def next_packet_frames_def desk_api_def map_err_def)
  have read: "ia_read_from_device desk_api [0, 0, 0, 0, 0, 0, 0, 0] True = (False, [0, 0, 128, 63, 0, 0, 0, 192],
      Inr (2, \<lparr>bi_data_discontinuity = False, bi_silent = False, bi_timestamp_error = False, bi_index = 7,
        bi_timestamp = 9\<rparr>))"
    by (simp add: desk_api_def)
  show ?thesis
    unfolding zeros by (simp add: windows_read_packet_def await read Let_def fill_samples_def desk_samples)
qed


section \<open>The inventories agree with the resolution\<close>

definition enumerate_sources :: "input_platform \<Rightarrow> input_role \<Rightarrow> source_error + source_descriptor list" where
  "enumerate_sources pf role =
     (case role of Microphone \<Rightarrow> enumerate_capture_endpoints pf | RenderLoopback \<Rightarrow> enumerate_render_endpoints pf)"

lemma describe_source_InrD:
  "describe_source d role = Inr s \<Longrightarrow> dv_id d = Inr (sd_endpoint_id s) \<and> sd_role s = role"
  by (auto simp: describe_source_def res_bind_eq_Inr)

lemma describe_sources_find:
  "describe_sources operation role items = Inr ss \<Longrightarrow>
     (case find (\<lambda>s. sd_endpoint_id s = ident) ss of
        None \<Rightarrow> is_err (find_source role ident items)
      | Some s \<Rightarrow> res_bind (find_source role ident items) (\<lambda>d. describe_source d role) = Inr s)"
proof (induction items arbitrary: ss)
  case (Cons item items)
  then obtain d s ss' where item: "item = Inr d" "describe_source d role = Inr s"
      "describe_sources operation role items = Inr ss'" "ss = s # ss'"
    by (auto simp: res_bind_eq_Inr)
  from describe_source_InrD [OF item(2)] have "dv_id d = Inr (sd_endpoint_id s)" by simp
  with item Cons.IH [of ss'] show ?case by (simp split: option.splits)
qed (simp add: is_err_def)

text \<open>What the inventories list is what can be selected: when the endpoints of a role can be listed and their
  identities are unique, an identity resolves to a descriptor exactly when the list has that descriptor under
  that identity.\<close>

theorem listed_sources_resolve:
  assumes "enumerate_sources pf role = Inr ss" "distinct (map sd_endpoint_id ss)"
  shows "windows_resolve pf role ident = Inr s \<longleftrightarrow> s \<in> set ss \<and> sd_endpoint_id s = ident"
proof -
  from assms(1) obtain items operation where ready: "ip_initialize_mta pf = Inr ()" "ip_enumerator pf = Inr ()"
      "ip_collection pf (role_direction role) = Inr items" "describe_sources operation role items = Inr ss"
    by (cases role) (auto simp: enumerate_sources_def enumerate_capture_endpoints_def
        enumerate_render_endpoints_def initialize_com_input_def create_enumerator_def role_direction_def res_bind_eq_Inr)
  have found: "find (\<lambda>s. sd_endpoint_id s = ident) ss = Some s \<longleftrightarrow> s \<in> set ss \<and> sd_endpoint_id s = ident"
    using assms(2) by (induction ss) auto
  have resolve: "windows_resolve pf role ident = Inr s \<longleftrightarrow>
      res_bind (find_source role ident items) (\<lambda>d. describe_source d role) = Inr s \<and> sd_endpoint_id s = ident"
    by (auto simp: windows_resolve_def initialize_com_input_def create_enumerator_def find_source_device_def
        ready res_bind_eq_Inr split: if_splits)
  show ?thesis
    using describe_sources_find [OF ready(4), of ident] found unfolding resolve
    by (auto simp: res_bind_eq_Inr is_err_def split: option.splits)
qed

definition desk_source :: "string \<Rightarrow> source_descriptor" where
  "desk_source ident = \<lparr>sd_role = Microphone, sd_endpoint_id = lit ident, sd_friendly_name = lit ident,
     sd_active = True, sd_native_format = None\<rparr>"

lemma desk_sources: "enumerate_sources desk_platform Microphone = Inr [desk_source ''line'', desk_source ''mic'']"
  by (simp add: enumerate_sources_def enumerate_capture_endpoints_def initialize_com_input_def
      create_enumerator_def desk_platform_def describe_source_def desk_device_def desk_source_def)

lemma listed_sources_resolve_witness:
  "windows_resolve desk_platform Microphone (lit ''mic'') = Inr (desk_source ''mic'')"
  using listed_sources_resolve [OF desk_sources, of "lit ''mic''" "desk_source ''mic''"]
  by (simp add: desk_source_def lit_def)

section \<open>The input workers over the adapter\<close>

lemma keeps_buffer_windows:
  fixes api :: "'w input_api"
  assumes "reads_whole api"
  shows "keeps_buffer (windows_audio_input_of api)"
  unfolding keeps_buffer_def
proof (intro allI)
  fix samples and i :: "'w \<times> windows_audio_input"
  obtain w s where i: "i = (w, s)" by (cases i)
  from read_packet_shape [OF assms, of INPUT_WAIT samples w s] obtain i' samples' r where
    "windows_read_packet api INPUT_WAIT samples i = Some (i', samples', r)" "length samples' = length samples"
    unfolding i by blast
  then show "length (fst (snd (ai_read_packet (windows_audio_input_of api) samples i))) = length samples"
    by (simp add: windows_audio_input_of_def)
qed

text \<open>Over the Windows adapter an AEC input worker never panics and leaves its queue finished, whatever the device
  does and whatever the other threads do in between; the other threads' work is only added to.\<close>

theorem windows_input_worker_ends:
  assumes "reads_whole api" "cooperative others" "world_ok w"
    and "aec_input_worker (windows_input_factory api x) (windows_audio_input_of api) others role source fuel w = Some b"
  shows "\<exists>i w'. b = Ended (i, w') \<and> follows w w' \<and> qs_producer_done (role_queue role w')"
  using assms by (intro aec_input_worker_ends [OF assms(2,3) keeps_buffer_windows]) simp_all

lemma desk_stop: "ia_stop_stream desk_api w = (w, Inr ())"
  by (simp add: desk_api_def)

lemma windows_input_worker_ends_witness:
  "\<exists>i w'. aec_input_worker (windows_input_factory desk_api True) (windows_audio_input_of desk_api) id Microphone
      (desk_source ''mic'') 1 (ready_world\<lparr>w_stop_requested := True\<rparr>) = Some (Ended (i, w'))
    \<and> qs_producer_done (w_microphone_queue w')"
proof -
  have opened: "windows_open desk_api Microphone (desk_source ''mic'') True
      = (True, Inr \<lparr>wi_packet_bytes = replicate 1920 0, wi_stopped = False\<rparr>)"
    by (simp add: windows_open_def windows_input_open_def desk_source_def desk_api_def desk_platform_def
        desk_device_def initialize_com_input_def create_enumerator_def find_source_device_def role_direction_def
        describe_source_def input_call_def input_lift_def lit_def)
  have "\<exists>b. aec_input_worker (windows_input_factory desk_api True) (windows_audio_input_of desk_api) id Microphone
      (desk_source ''mic'') 1 (ready_world\<lparr>w_stop_requested := True\<rparr>) = Some b"
    by (simp add: aec_input_worker_def windows_input_factory_def opened ready_send_def ready_world_def
        initial_world_def aec_input_iteration_def aec_input_teardown_def windows_audio_input_of_def
        role_worker_def windows_stop_def desk_stop)
  moreover have "world_ok (ready_world\<lparr>w_stop_requested := True\<rparr>)" by (simp add: ready_world_ok)
  ultimately show ?thesis
    using windows_input_worker_ends [OF desk_reads_whole ready_world_ok(2)] by (fastforce simp: role_queue_def)
qed

end
