(* ===== verification/Lab_Devices_Properties.thy ===== *)
theory Lab_Devices_Properties
  imports Lab_Devices Windows_Input_Properties
begin

text \<open>
  What the command \<^verbatim>\<open>devices\<close> prints and what the engine accepts: both look at the devices Windows reports, the
  lab through \<open>listing_platform\<close>, the output crate through \<open>device_platform\<close> and the input adapter through
  \<open>input_platform\<close>.
\<close>

text \<open>The same answers of Windows, as the other two parts of the program see them.\<close>

definition output_view :: "listing_platform \<Rightarrow> device_platform" where
  "output_view pf =
     \<lparr>dp_initialize_mta = lp_initialize_mta pf, dp_enumerator = lp_enumerator pf,
      dp_collection = (\<lambda>dir. map_sum (\<lambda>e. e) (map (map_sum (\<lambda>e. e) device.truncate)) (lp_collection pf dir))\<rparr>"

definition input_view :: "listing_platform \<Rightarrow> input_platform" where
  "input_view pf =
     \<lparr>ip_initialize_mta = lp_initialize_mta pf, ip_enumerator = lp_enumerator pf,
      ip_collection = (\<lambda>dir. map_sum (\<lambda>e. e) (map (map_sum (\<lambda>e. e) input_device.truncate)) (lp_collection pf dir)),
      ip_default_device = (\<lambda>dir. map_sum (\<lambda>e. e) input_device.truncate (lp_default_for_role pf dir Console))\<rparr>"

lemma device_info_of_Inr:
  "device_info_of debug ids d = Inr info \<Longrightarrow>
     dv_id d = Inr (di_id info) \<and> dv_friendlyname d = Inr (di_name info) \<and> (\<exists>s. dv_state d = Inr s)
   \<and> di_interface_name info = res_ok (dv_interface_friendlyname d)
   \<and> di_vb_audio_metadata info = names_vb_audio (di_interface_name info) (di_description info)
   \<and> di_default_roles info = map (\<lambda>(role, _). role_debug role) (filter (\<lambda>(_, i). i = di_id info) ids)"
  by (auto simp: device_info_of_def res_bind_eq_Inr api_context_def Let_def with_context_def split: sum.splits)

lemma describe_source_listed:
  assumes "device_info_of debug ids d = Inr info"
  shows "\<exists>s. describe_source (input_device.truncate d) role = Inr s \<and> sd_endpoint_id s = di_id info
     \<and> sd_friendly_name s = di_name info"
  using device_info_of_Inr [OF assms]
  by (auto simp: describe_source_def input_device.truncate_def)

lemma find_source_listed:
  assumes "device_infos debug ids items = Inr infos" "info \<in> set infos" "distinct (map di_id infos)"
  shows "\<exists>s. res_bind (find_source role (di_id info) (map (map_sum (\<lambda>e. e) input_device.truncate) items))
       (\<lambda>d. describe_source d role) = Inr s \<and> sd_endpoint_id s = di_id info \<and> sd_friendly_name s = di_name info"
  using assms
proof (induction items arbitrary: infos)
  case (Cons item items)
  then obtain d i infos2 where item: "item = Inr d" "device_info_of debug ids d = Inr i"
      "device_infos debug ids items = Inr infos2" "infos = i # infos2"
    by (auto simp: res_bind_eq_Inr api_context_def with_context_def split: sum.splits)
  from device_info_of_Inr [OF item(2)] have ident: "dv_id (input_device.truncate d) = Inr (di_id i)"
    by (simp add: input_device.truncate_def)
  show ?case
  proof (cases "info = i")
    case True
    with describe_source_listed [OF item(2), of role] item ident show ?thesis by auto
  next
    case False
    with Cons.prems item have "info \<in> set infos2" "distinct (map di_id infos2)" "di_id i \<noteq> di_id info" by auto
    with Cons.IH [OF item(3)] item ident show ?thesis by simp
  qed
qed simp

lemma collected:
  assumes "collect_devices pf dir = Inr infos"
  obtains items where "lp_collection pf dir = Inr items"
    "device_infos (lp_sample_type_debug pf) (default_device_ids pf dir) items = Inr infos"
  using assms
  by (auto simp: collect_devices_def Let_def res_bind_eq_Inr api_context_def with_context_def split: sum.splits)

lemma reported:
  assumes "device_report_of pf = Inr r"
  shows "lp_initialize_mta pf = Inr ()" "lp_enumerator pf = Inr ()"
    "collect_devices pf CaptureFlow = Inr (dr_capture r)" "collect_devices pf RenderFlow = Inr (dr_render r)"
  using assms
  by (auto simp: device_report_of_def res_bind_eq_Inr api_context_def with_context_def split: sum.splits)

lemma collected_resolve:
  assumes "lp_initialize_mta pf = Inr ()" "lp_enumerator pf = Inr ()"
    and "collect_devices pf (role_direction role) = Inr infos" "distinct (map di_id infos)" "info \<in> set infos"
  shows "\<exists>s. windows_resolve (input_view pf) role (di_id info) = Inr s \<and> sd_friendly_name s = di_name info"
proof -
  from collected [OF assms(3)] obtain items where items: "lp_collection pf (role_direction role) = Inr items"
    "device_infos (lp_sample_type_debug pf) (default_device_ids pf (role_direction role)) items = Inr infos" .
  from find_source_listed [OF items(2) assms(5,4), of role] items(1) assms(1,2) show ?thesis
    by (auto simp: windows_resolve_def initialize_com_input_def create_enumerator_def find_source_device_def
        input_view_def res_bind_eq_Inr)
qed

text \<open>Identities that resolve.
  Every identity the command \<^verbatim>\<open>devices\<close> prints can be used: when the identities in each direction are unique,
  the engine resolves the one of any listed capture endpoint as a microphone, and of any listed render endpoint
  as the render loopback, to a source with the printed name.\<close>

theorem printed_identities_resolve:
  assumes "device_report_of pf = Inr r" "distinct (map di_id (dr_capture r))" "distinct (map di_id (dr_render r))"
  shows "list_all (\<lambda>d. \<exists>s. windows_resolve (input_view pf) Microphone (di_id d) = Inr s
       \<and> sd_friendly_name s = di_name d) (dr_capture r)
   \<and> list_all (\<lambda>d. \<exists>s. windows_resolve (input_view pf) RenderLoopback (di_id d) = Inr s
       \<and> sd_friendly_name s = di_name d) (dr_render r)"
  using collected_resolve [OF reported(1,2) [OF assms(1)], of Microphone "dr_capture r"]
    collected_resolve [OF reported(1,2) [OF assms(1)], of RenderLoopback "dr_render r"]
    reported(3,4) [OF assms(1)] assms(2,3)
  by (simp add: role_direction_def list_all_iff)

section \<open>The cables\<close>

lemma described_listed:
  assumes "describe_all role (map (map_sum (\<lambda>e. e) device.truncate) items) = Inr es" "device_infos debug ids items = Inr infos"
    "e \<in> set es" "is_vb_audio_family (oe_device_family e)"
  shows "\<exists>d \<in> set infos. di_id d = oe_endpoint_id e \<and> di_name d = oe_friendly_name e
     \<and> di_interface_name d = Some (oe_device_family e) \<and> di_vb_audio_metadata d"
  using assms
proof (induction items arbitrary: es infos)
  case (Cons item items)
  from Cons.prems(1,2) obtain d e' es' i infos2 where item: "item = Inr d" "describe_device (device.truncate d) role = Inr e'"
      "describe_all role (map (map_sum (\<lambda>e. e) device.truncate) items) = Inr es'" "es = e' # es'"
      "device_info_of debug ids d = Inr i" "device_infos debug ids items = Inr infos2" "infos = i # infos2"
    by (auto simp: res_bind_eq_Inr api_context_def with_context_def split: sum.splits)
  have "di_id i = oe_endpoint_id e' \<and> di_name i = oe_friendly_name e'
      \<and> di_interface_name i = Some (oe_device_family e')"
    using device_info_of_Inr [OF item(5)] item(2)
    by (auto simp: describe_device_def device.truncate_def res_bind_eq_Inr res_ok_def)
  moreover from this device_info_of_Inr [OF item(5)] have "is_vb_audio_family (oe_device_family e') \<longrightarrow> di_vb_audio_metadata i"
    by (simp add: names_vb_audio_def)
  ultimately show ?case using Cons.IH [OF item(3,6)] Cons.prems(3,4) item(4,7) by auto
qed simp

lemma enumerated_listed:
  assumes "enumerate_output_endpoints (output_view pf) dir role = Inr es" "collect_devices pf dir = Inr infos"
    "e \<in> set es" "is_vb_audio_family (oe_device_family e)"
  shows "\<exists>d \<in> set infos. di_id d = oe_endpoint_id e \<and> di_name d = oe_friendly_name e
     \<and> di_interface_name d = Some (oe_device_family e) \<and> di_vb_audio_metadata d"
proof -
  from collected [OF assms(2)] obtain items where items: "lp_collection pf dir = Inr items"
    "device_infos (lp_sample_type_debug pf) (default_device_ids pf dir) items = Inr infos" .
  with assms(1) have "describe_all role (map (map_sum (\<lambda>e. e) device.truncate) items) = Inr es"
    by (simp add: enumerate_output_endpoints_def output_view_def)
  from described_listed [OF this items(2) assms(3,4)] show ?thesis .
qed

text \<open>C38
  The report marks every cable the product offers: whenever both can be read, the two endpoints of each pair of
  the inventory are in the report, the playback endpoint under the render devices and the recording endpoint
  under the capture devices, with the names and the adapter of the pair and the VB-Audio mark.\<close>

theorem listed_cables_are_flagged:
  assumes "device_report_of pf = Inr r" "enumerate_vb_cable_pairs (output_view pf) = Inr pairs"
  shows "list_all (\<lambda>pr.
     (\<exists>d \<in> set (dr_render r). di_id d = oe_endpoint_id (playback pr) \<and> di_name d = oe_friendly_name (playback pr)
        \<and> di_interface_name d = Some (oe_device_family (playback pr)) \<and> di_vb_audio_metadata d)
   \<and> (\<exists>d \<in> set (dr_capture r). di_id d = oe_endpoint_id (recording pr) \<and> di_name d = oe_friendly_name (recording pr)
        \<and> di_interface_name d = Some (oe_device_family (recording pr)) \<and> di_vb_audio_metadata d)) pairs"
  unfolding list_all_iff
proof (rule ballI)
  fix pr
  assume pr: "pr \<in> set pairs"
  from assms(2) obtain ps rs where es: "enumerate_output_endpoints (output_view pf) RenderFlow Playback = Inr ps"
      "enumerate_output_endpoints (output_view pf) CaptureFlow Recording = Inr rs" "pairs = vb_cable_pairs ps rs"
    by (auto simp: enumerate_vb_cable_pairs_def res_bind_eq_Inr)
  with pr obtain p q where pq: "p \<in> set ps" "q \<in> set rs" "is_vb_audio_family (oe_device_family p)"
      "eq_ignore_ascii_case (oe_device_family p) (oe_device_family q)"
      "resolve_pair [p, q] (oe_endpoint_id p) (oe_endpoint_id q) = Inr pr"
    by (auto simp: set_vb_cable_pairs)
  have "oe_endpoint_id p \<noteq> oe_endpoint_id q"
    using pq(5) by (auto simp: resolve_pair_def split: if_splits)
  with resolve_pair_InrD [OF pq(5)] have "playback pr = p" "recording pr = q" by auto
  moreover from pq(3,4) is_vb_audio_family_cong have "is_vb_audio_family (oe_device_family q)" by blast
  ultimately show "(\<exists>d \<in> set (dr_render r). di_id d = oe_endpoint_id (playback pr)
        \<and> di_name d = oe_friendly_name (playback pr)
        \<and> di_interface_name d = Some (oe_device_family (playback pr)) \<and> di_vb_audio_metadata d)
   \<and> (\<exists>d \<in> set (dr_capture r). di_id d = oe_endpoint_id (recording pr) \<and> di_name d = oe_friendly_name (recording pr)
        \<and> di_interface_name d = Some (oe_device_family (recording pr)) \<and> di_vb_audio_metadata d)"
    using enumerated_listed [OF es(1) reported(4) [OF assms(1)] pq(1,3)]
      enumerated_listed [OF es(2) reported(3) [OF assms(1)] pq(2)] by simp
qed

section \<open>A desk with a microphone and a cable\<close>

definition listed :: "string \<Rightarrow> string \<Rightarrow> listed_device" where
  "listed ident family =
     \<lparr>dv_id = Inr (lit ident), dv_friendlyname = Inr (lit ident), dv_state = Inr DeviceActive,
      dv_interface_friendlyname = Inr (lit family), dv_description = Inr (lit ident),
      dv_device_format = Inl \<lparr>we_kind = DeviceNotFound, we_text = Text ''gone''\<rparr>, dv_state_text = lit ''Active''\<rparr>"

definition listing_desk :: listing_platform where
  "listing_desk =
     \<lparr>lp_initialize_mta = Inr (), lp_enumerator = Inr (),
      lp_collection = (\<lambda>dir. Inr (case dir of
          RenderFlow \<Rightarrow> [Inr (listed ''speakers'' ''Realtek''), Inr (listed ''in'' ''VB-Audio'')]
        | CaptureFlow \<Rightarrow> [Inr (listed ''mic'' ''Realtek''), Inr (listed ''out'' ''vb-audio'')])),
      lp_default_for_role = (\<lambda>dir role. Inr (case dir of
          RenderFlow \<Rightarrow> listed ''speakers'' ''Realtek'' | CaptureFlow \<Rightarrow> listed ''mic'' ''Realtek'')),
      lp_sample_type_debug = (\<lambda>_. lit ''Float'')\<rparr>"

definition listed_info :: "string \<Rightarrow> string \<Rightarrow> bool \<Rightarrow> string list \<Rightarrow> device_info" where
  "listed_info ident family flag roles =
     \<lparr>di_id = lit ident, di_name = lit ident, di_interface_name = Some (lit family), di_description = Some (lit ident),
      di_vb_audio_metadata = flag, di_state = lit ''Active'', di_default_roles = roles, di_format = None,
      di_format_error = Some (Text ''gone'')\<rparr>"

definition desk_report :: device_report where
  "desk_report =
     \<lparr>dr_capture = [listed_info ''mic'' ''Realtek'' False [''Console'', ''Multimedia'', ''Communications''],
        listed_info ''out'' ''vb-audio'' True []],
      dr_render = [listed_info ''speakers'' ''Realtek'' False [''Console'', ''Multimedia'', ''Communications''],
        listed_info ''in'' ''VB-Audio'' True []]\<rparr>"

lemma listing_desk_ids: "default_device_ids listing_desk dir =
   map (\<lambda>role. (role, lit (case dir of RenderFlow \<Rightarrow> ''speakers'' | CaptureFlow \<Rightarrow> ''mic'')))
     [Console, Multimedia, Communications]"
  by (cases dir) (simp_all add: default_device_ids_def listing_desk_def List.map_filter_def res_ok_def listed_def)

lemma desk_reported: "device_report_of listing_desk = Inr desk_report"
proof -
  have family: "is_vb_audio_family (lit ''VB-Audio'')" "is_vb_audio_family (lit ''vb-audio'')"
    "\<not> is_vb_audio_family (lit ''Realtek'')" "\<not> is_vb_audio_family (lit ''mic'')" "\<not> is_vb_audio_family (lit ''out'')"
    "\<not> is_vb_audio_family (lit ''in'')" "\<not> is_vb_audio_family (lit ''speakers'')"
    by (simp_all add: is_vb_audio_family_def to_ascii_lowercase_def lit_def ascii_lower_def)
  have "collect_devices listing_desk dir = Inr (case dir of RenderFlow \<Rightarrow> dr_render desk_report
      | CaptureFlow \<Rightarrow> dr_capture desk_report)" for dir
    unfolding collect_devices_def listing_desk_ids
    by (cases dir) (simp_all add: listing_desk_def listed_def device_info_of_def desk_report_def listed_info_def
        api_context_def with_context_def res_ok_def names_vb_audio_def family, simp_all add: lit_def)
  then show ?thesis
    by (simp add: device_report_of_def api_context_def with_context_def)
      (simp add: listing_desk_def desk_report_def)
qed

lemma printed_identities_resolve_witness:
  "\<exists>s. windows_resolve (input_view listing_desk) Microphone (lit ''mic'') = Inr s \<and> sd_friendly_name s = lit ''mic''"
  using printed_identities_resolve [OF desk_reported]
  by (simp add: desk_report_def listed_info_def lit_def)

lemma desk_endpoints:
  "enumerate_output_endpoints (output_view listing_desk) RenderFlow Playback
    = Inr [cable_endpoint ''speakers'' ''Realtek'' Playback, cable_endpoint ''in'' ''VB-Audio'' Playback]"
  "enumerate_output_endpoints (output_view listing_desk) CaptureFlow Recording
    = Inr [cable_endpoint ''mic'' ''Realtek'' Recording, cable_endpoint ''out'' ''vb-audio'' Recording]"
  by (simp_all add: enumerate_output_endpoints_def output_view_def listing_desk_def describe_device_def
      device.truncate_def listed_def cable_endpoint_def)

lemma desk_offers: "enumerate_vb_cable_pairs (output_view listing_desk) = Inr [listed_pair]"
  by (simp add: enumerate_vb_cable_pairs_def desk_endpoints)
    (simp add: initialize_com_def output_view_def listing_desk_def vb_cable_pairs_def listed_pair_def
      cable_endpoint_def is_vb_audio_family_def to_ascii_lowercase_def lit_def ascii_lower_def
      eq_ignore_ascii_case_def resolve_pair_def trim_def is_whitespace_def select_endpoint_def same_vb_family_def)

lemma listed_cables_are_flagged_witness:
  "\<exists>d \<in> set (dr_render desk_report). di_id d = lit ''in'' \<and> di_vb_audio_metadata d"
  using listed_cables_are_flagged [OF desk_reported desk_offers]
  by (auto simp: listed_pair_def cable_endpoint_def)

end
