(* ===== verification/Lab_Main_Properties.thy ===== *)
theory Lab_Main_Properties
  imports Lab_Main Lab_Run_Properties Lab_Devices_Properties
begin

text \<open>
  What every command of the lab leaves behind: no run of the engine, and for the two real-time commands a log
  below the artifacts directory.  What a duration that the clock cannot add does.  And that the declared default
  directories pass the guard of the commands that have one.
\<close>

section \<open>The engine after a command\<close>

lemma stop_leaves_no_run:
  "engine_stop h k en = Some (en', r) \<Longrightarrow> en_run en' = None"
  "engine_stop h k en = Some (en', Inr ()) \<Longrightarrow> es_state (w_snapshot (en_world en')) = Stopped"
  by (auto simp: engine_stop_def cleanup_previous_run_def Let_def try_call_Some
      split: if_splits option.splits sum.splits prod.splits)

lemma stop_again:
  assumes "engine_stop h k en = Some (en', r)" "en_run en = None"
  shows "es_state (w_snapshot (en_world en')) = Stopped"
  using assms by (auto simp: engine_stop_def cleanup_previous_run_def Let_def try_call_Some split: if_splits)

lemma snapshot_keeps_run: "ec_snapshot (controller_calls h k) en = (en', s) \<Longrightarrow> en_run en' = en_run en"
  by (auto simp: controller_calls_def engine_snapshot_now_def Let_def split: prod.splits option.splits if_splits)

lemma write_event_keeps_run:
  "write_event env (controller_calls h k) kind elapsed d (en, c) = ((en', c'), r) \<Longrightarrow> en_run en' = en_run en"
  by (auto simp: write_event_def dest: snapshot_keeps_run split: prod.splits)

lemma finish_run_leaves_no_run:
  assumes "finish_run env (controller_calls h k) label started d (en, c) = Some ((en', c'), Inr ())"
  shows "en_run en' = None"
proof -
  obtain en1 c1 where "engine_stop h k en = Some (en1, Inr ())"
      "write_event_now env (controller_calls h k) Final started d (en1, c) = ((en', c1), Inr ())"
    using assms by (auto simp: finish_run_def controller_calls_def split: option.splits sum.splits prod.splits)
  with stop_leaves_no_run(1) [of h k en en1 "Inr ()"] show ?thesis
    by (auto simp: write_event_now_def dest: write_event_keeps_run split: prod.splits)
qed

lemma run_engine_leaves_no_run:
  assumes "run_engine env (controller_calls h k) fuel config d label (en, c) = Some ((en', c'), Inr ())"
  shows "en_run en' = None"
  using assms by (auto simp: run_engine_def dest: finish_run_leaves_no_run
      split: prod.splits option.splits sum.splits if_splits)

lemma run_and_drop_stops:
  assumes "run_and_drop env (controller_calls h k) fuel config d label (en, c) = Some ((en', c'), r)"
  shows "en_run en' = None \<and> (r = Inr () \<longrightarrow> es_state (w_snapshot (en_world en')) = Stopped)"
proof -
  obtain en1 r' where "run_engine (la_run env) (controller_calls h k) fuel config d label (en, c) = Some ((en1, c'), r)"
      "engine_stop h k en1 = Some (en', r')"
    using assms by (auto simp: run_and_drop_def controller_calls_def split: option.splits prod.splits)
  note this stop_leaves_no_run(1) [OF this(2)] stop_again [OF this(2)]
    run_engine_leaves_no_run [of "la_run env" h k fuel config d label en c en1 c']
  then show ?thesis by auto
qed

section \<open>The log of a command\<close>

definition below_artifacts :: "'c lab_env \<Rightarrow> lab_path \<Rightarrow> 'c \<Rightarrow> bool" where
  "below_artifacts env out c \<longleftrightarrow>
     (\<exists>c1 path repo. open_run_log env out c = (c1, Inr path)
        \<and> repository_root (la_manifest_dir env) = Inr repo \<and> starts_with path (artifacts_of repo))"

lemma opened_below_artifacts: "open_run_log env out c = (c1, Inr path) \<Longrightarrow> below_artifacts env out c"
  using run_log_below_artifacts [of env] by (fastforce simp: below_artifacts_def)

text \<open>The duration, in seconds, and the output directory of a real-time command.\<close>

definition engine_options :: "lab_command \<Rightarrow> (u64 \<times> lab_path) option" where
  "engine_options command =
     (case command of
        BypassCommand args \<Rightarrow> Some (ba_duration args, ba_output args)
      | RealtimeAec args \<Rightarrow> Some (ra_duration args, ra_output args)
      | _ \<Rightarrow> None)"

lemma from_secs_0 [simp]: "from_secs d = 0 \<longleftrightarrow> d = 0"
  by (simp add: from_secs_def unat_eq_0)


section \<open>A duration that is too long\<close>

text \<open>A duration that overflows the clock.
  A real-time command whose duration the clock cannot add to the instant the run starts at never completes: the
  command is refused, fails, or starts the engine and then panics on \<^verbatim>\<open>Instant + Duration\<close>.\<close>

theorem overlong_duration_never_runs:
  assumes "engine_options command = Some (duration, out)"
    and "\<And>c. 2 ^ 64 * 1000000000 \<le> snd (ru_now (la_run (lm_run prog)) c) + from_secs duration"
  shows "lab_main prog fuel command (e, w) \<noteq> Some (st, Inr ())"
proof -
  have run: "run_engine (la_run (lm_run prog)) eng fuel config (from_secs duration) label (e, c) \<noteq> Some (st, Inr ())"
    for eng config label c st
    using assms(2) [of c]
    by (auto simp: run_engine_def with_context_def split: prod.splits option.splits sum.splits)
  then have dropped: "run_and_drop (lm_run prog) eng fuel config (from_secs duration) label (e, c) \<noteq> Some (st, Inr ())"
    for eng config label c st
    by (auto simp: run_and_drop_def split: option.splits prod.splits)
  show ?thesis
    using assms(1) dropped
    by (cases command) (auto simp: engine_options_def lab_main_def bypass_command_def realtime_aec_command_def
        Let_def split: prod.splits sum.splits if_splits)
qed

section \<open>The defaults\<close>

text \<open>The default directories of the commands pass the guard that keeps evidence below the artifacts directory,
  wherever the repository is.\<close>

theorem default_evidence_roots_pass:
  assumes "repository_root manifest_dir = Inr repo"
  shows "\<exists>p. validated_evidence_root fs manifest_dir (ba_output (bypass_args_of m i j d None)) = Inr p
       \<and> starts_with p (artifacts_of repo)"
    and "\<exists>p. validated_evidence_root fs manifest_dir (ra_output (realtime_aec_args_of m n i j d None)) = Inr p
       \<and> starts_with p (artifacts_of repo)"
proof -
  have "\<exists>p. validated_evidence_root fs manifest_dir (artifacts_subdir [a, b]) = Inr p
      \<and> starts_with p (artifacts_of repo)" for a b
    using assms
    by (cases "repo = []")
      (auto simp: validated_evidence_root_def artifacts_subdir_def has_parent_dir_def is_absolute_def artifacts_of_def
        join_path_def push_component_def starts_with_def)
  then show "\<exists>p. validated_evidence_root fs manifest_dir (ba_output (bypass_args_of m i j d None)) = Inr p
       \<and> starts_with p (artifacts_of repo)"
    and "\<exists>p. validated_evidence_root fs manifest_dir (ra_output (realtime_aec_args_of m n i j d None)) = Inr p
       \<and> starts_with p (artifacts_of repo)"
    by (simp_all add: bypass_args_of_def realtime_aec_args_of_def value_or_def)
qed

section \<open>A run of one second\<close>

type_synonym short_world = "validation_event list \<times> nat"

definition open_fs :: "'w lab_fs" where
  "open_fs = \<lparr>lf_display = (\<lambda>p. []), lf_canonicalize = (\<lambda>p w. Inr p), lf_exists = (\<lambda>p w. True),
     lf_create_dir_all = (\<lambda>p w. (w, Inr ()))\<rparr>"

definition silent_recorder :: "(short_world, unit, unit) recorder_env" where
  "silent_recorder = \<lparr>rx_fs = open_fs, rx_unix_time_ms = (\<lambda>w. (w, Inr 0)), rx_spawn = (\<lambda>t s d w. (w, Inr ())),
     rx_join = (\<lambda>t w. (w, True)), rx_create_file = (\<lambda>p w. (w, Inr ())), rx_to_writer = (\<lambda>e w. (w, Inr ())),
     rx_write_newline = (\<lambda>w. (w, Inr ())), rx_flush = (\<lambda>w. (w, Inr ())), rx_create_wave = (\<lambda>p f w. (w, Inr ())),
     rx_write_sample = (\<lambda>h x w. (w, Inr ())), rx_finalize = (\<lambda>h w. (w, Inr ())), rx_print_manifest = (\<lambda>m. Inr ()),
     rx_write = (\<lambda>p b w. (w, Inr ()))\<rparr>"

definition empty_offline :: "(short_world, unit) offline_env" where
  "empty_offline = \<lparr>ox_fs = open_fs, ox_path_of = (\<lambda>s. [Normal s]), ox_read = (\<lambda>p w. Inr ()),
     ox_write = (\<lambda>p b w. (w, Inr ())), ox_parse_manifest = (\<lambda>b. Inr \<lparr>cm_tracks = (\<lambda>_. None)\<rparr>),
     ox_print_report = (\<lambda>r. Inr ()), ox_open_wave = (\<lambda>p w. Inl (Text ''no file'')),
     ox_create_wave = (\<lambda>p f w. (w, Inr ())), ox_write_sample = (\<lambda>x w. (w, Inr ())),
     ox_finalize_wave = (\<lambda>w. (w, Inr ()))\<rparr>"

definition idle_processor :: "(short_world, unit) offline_processor" where
  "idle_processor = \<lparr>wp_new = (\<lambda>r w. (w, Inr ())), wp_set_full_echo_canceller = (\<lambda>d p. p),
     wp_process_render_frame = (\<lambda>f p. (p, f, Inr ())), wp_process_capture_frame = (\<lambda>f p. (p, f, Inr ())),
     wp_get_stats = (\<lambda>p. \<lparr>ps_echo_return_loss = None, ps_echo_return_loss_enhancement = None,
        ps_residual_echo_likelihood = None, ps_residual_echo_likelihood_recent_max = None, ps_delay_ms = None\<rparr>)\<rparr>"

definition empty_reports :: "(short_world, unit) report_env" where
  "empty_reports = \<lparr>re_fs = open_fs, re_open_lines = (\<lambda>p w. Inr []), re_read = (\<lambda>p w. Inr ()),
     re_write = (\<lambda>p b w. (w, Inr ())), re_parse_event = (\<lambda>s. Inl (Text ''no line'')),
     re_parse_operator = (\<lambda>b. Inl (Text ''no observations'')), re_print_report = (\<lambda>r. Inr ())\<rparr>"

definition short_lab :: "short_world lab_env" where
  "short_lab = \<lparr>la_run = short_env, la_fs = open_fs, la_manifest_dir = small_crate,
     la_create_file = (\<lambda>p c. (c, Inr ()))\<rparr>"

definition short_program ::
  "((nat, nat, unit, unit, unit, unit) engine, short_world, unit, unit, unit) lab_program" where
  "short_program = \<lparr>lm_listing = (\<lambda>w. listing_desk), lm_to_string_pretty = (\<lambda>r. Inr []), lm_println = (\<lambda>m w. w),
     lm_recorder = silent_recorder, lm_messages = (\<lambda>cfg w. []), lm_offline = empty_offline,
     lm_processor = idle_processor, lm_libm = \<lparr>powf = (\<lambda>x y. x), log10 = id\<rparr>,
     lm_engine = controller_calls calm_host 1, lm_run = short_lab, lm_report = empty_reports\<rparr>"

definition one_second :: realtime_aec_args where
  "one_second = realtime_aec_args_of [65] [68] [66] [67] 1 None"

lemma short_log_opened: "\<exists>path. open_run_log short_lab (ra_output one_second) c = (c, Inr path)"
proof -
  obtain repo where "repository_root (la_manifest_dir short_lab) = Inr repo"
    by (simp add: short_lab_def small_crate_def repository_root_def parent_of_def)
  from default_evidence_roots_pass(2) [OF this] obtain p where
    "validated_evidence_root (la_fs short_lab) (la_manifest_dir short_lab) (ra_output one_second) = Inr p"
    unfolding one_second_def by blast
  then show ?thesis
    by (auto simp: open_run_log_def env_call_def Let_def) (simp add: short_lab_def short_env_def open_fs_def split_beta)
qed

lemma one_second_completes:
  "\<exists>en c. lab_main short_program 1 (RealtimeAec one_second) (calm_engine, [], 0) = Some ((en, c), Inr ())"
proof -
  obtain path where opened: "open_run_log short_lab (ra_output one_second) ([], 0) = (([], 0), Inr path)"
    using short_log_opened by blast
  obtain en c where run: "run_engine short_env (controller_calls calm_host 1) 1 (engine_config_aec [65] [68] [66] [67])
      1000000000 ''real-time default AEC'' (calm_engine, [], 0) = Some ((en, c), Inr ())"
    using short_run by blast
  obtain en' where stopped: "engine_stop calm_host 1 en = Some (en', Inr ())" using calm_stop by blast
  have dropped: "run_and_drop short_lab (controller_calls calm_host 1) 1 (engine_config_aec [65] [68] [66] [67])
      1000000000 ''real-time default AEC'' (calm_engine, [], 0) = Some ((en', c), Inr ())"
    using run stopped by (simp add: run_and_drop_def) (simp add: short_lab_def controller_calls_def)
  have args: "ra_microphone_id one_second = [65]" "ra_render_id one_second = [68]" "ra_cable_input_id one_second = [66]"
    "ra_cable_output_id one_second = [67]" "ra_duration one_second = 1"
    by (simp_all add: one_second_def realtime_aec_args_of_def)
  show ?thesis
    by (simp add: lab_main_def realtime_aec_command_def args from_secs_def short_program_def opened dropped
        trim_def is_whitespace_def del: One_nat_def)
qed


lemma overlong_duration_never_runs_witness:
  "\<forall>st. lab_main (short_program\<lparr>lm_run := short_lab\<lparr>la_run := short_env\<lparr>ru_now := (\<lambda>c. (c, 1000000000))\<rparr>\<rparr>\<rparr>) 1
     (RealtimeAec (one_second\<lparr>ra_duration := - 1\<rparr>)) (calm_engine, [], 0) \<noteq> Some (st, Inr ())"
  by (rule allI, rule overlong_duration_never_runs [of _ "- 1" "ra_output one_second"])
    (simp_all add: engine_options_def from_secs_def unsigned_minus_1_eq_mask mask_eq_exp_minus_1)

end
