(* ===== verification/Offline_Properties.thy ===== *)
theory Offline_Properties
  imports Offline
begin

text \<open>
  The alignment of the two tracks is exact: where every sample lands, and by how much the common timeline
  can differ from the clock.  The canceller then runs over the whole timeline and returns all of it.
\<close>

section \<open>Alignment\<close>

lemma div_ceil_bounds:
  assumes "0 < b"
  shows "a \<le> div_ceil a b * b" "div_ceil a b * b < a + b"
proof -
  have eq: "a div b * b + a mod b = a" by (rule div_mult_mod_eq)
  have less: "a mod b < b" using assms by (rule mod_less_divisor)
  have "a \<le> div_ceil a b * b \<and> div_ceil a b * b < a + b"
  proof (cases "a mod b = 0")
    case True
    then have "div_ceil a b = a div b" by (simp add: div_ceil_def)
    with eq True have "div_ceil a b * b = a" by simp
    with assms show ?thesis by linarith
  next
    case False
    then have "div_ceil a b * b = a div b * b + b" by (simp add: div_ceil_def)
    with False eq less show ?thesis by linarith
  qed
  then show "a \<le> div_ceil a b * b" "div_ceil a b * b < a + b" by blast+
qed

lemma write_slice_silence:
  "off + length xs \<le> n \<Longrightarrow> write_slice off xs (replicate n z)
     = Some (replicate off z @ xs @ replicate (n - off - length xs) z)"
  by (simp add: write_slice_def min_def)

lemma sample_rounding:
  "\<bar>2 * (int (qpc_delta_to_samples d) * 10000000 - uint d * 48000)\<bar> \<le> 10000000"
proof -
  define n where "n = unat d * 48000 + 5000000"
  have q: "qpc_delta_to_samples d = n div 10000000"
    by (simp add: qpc_delta_to_samples_def n_def SAMPLE_RATE_def QPC_TICKS_PER_SECOND_offline_def)
  obtain r where r: "r = int (n mod 10000000)" by blast
  have "int (qpc_delta_to_samples d) * 10000000 + r = int n"
    unfolding q r by (metis div_mult_mod_eq of_nat_add of_nat_mult of_nat_numeral)
  moreover have "int n = uint d * 48000 + 5000000" by (simp add: n_def)
  moreover have "0 \<le> r" "r < 10000000" by (simp_all add: r)
  ultimately have "2 * (int (qpc_delta_to_samples d) * 10000000 - uint d * 48000) = 10000000 - 2 * r" "0 \<le> r" "r < 10000000"
    by simp_all
  then show ?thesis by linarith
qed

lemma uint_diff: "b \<le> a \<Longrightarrow> uint (a - b) = uint a - uint b" for a b :: u64
  by (simp add: uint_minus_simple_alt)

lemma qpc_delta_samples_0 [simp]: "qpc_delta_to_samples 0 = 0"
  by (simp add: qpc_delta_to_samples_def SAMPLE_RATE_def QPC_TICKS_PER_SECOND_offline_def)

lemma signed_delta_returns:
  "signed_qpc_delta_ms a b \<noteq> None \<longleftrightarrow> unat (if b \<le> a then a - b else b - a) div 10000000 < 2 ^ 32"
  by (simp add: signed_qpc_delta_ms_def qpc_delta_ms_def QPC_TICKS_PER_SECOND_offline_def Let_def not_le)

text \<open>Where the samples of a track that starts at an offset land.\<close>

definition placed :: "nat \<Rightarrow> nat \<Rightarrow> fp list \<Rightarrow> fp list" where
  "placed common off xs = replicate off (Fin 0) @ xs @ replicate (common - off - length xs) (Fin 0)"

text \<open>Both tracks come out at one length, a whole number of frames.\<close>

lemma align_tracks_lengths:
  assumes "align_tracks mic ren mq rq = Some al"
  shows "\<exists>common. 480 dvd common \<and> length (al_microphone al) = common \<and> length (al_render al) = common"
proof -
  have slice: "length ys = length zs" if "write_slice off xs zs = Some ys" for off ys zs and xs :: "fp list"
    using that by (auto simp: write_slice_def split: if_splits)
  show ?thesis
    using assms by (auto simp: align_tracks_def Let_def FRAME_SAMPLES_offline_def dest!: slice split: option.splits)
qed

text \<open>C35
  Aligning never goes out of range, and panics only for tracks that start more than 136 years apart.  The
  later track is moved back by the difference of the timestamps to the nearest sample and the earlier one not
  at all; both are padded with silence to one length, the smallest multiple of 480 that holds them, and no
  sample is changed.\<close>

theorem align_tracks_exact:
  fixes mq rq :: u64
  defines "mo \<equiv> qpc_delta_to_samples (mq - min mq rq)" and "ro \<equiv> qpc_delta_to_samples (rq - min mq rq)"
  shows "(mo = 0 \<or> ro = 0)
    \<and> \<bar>2 * ((int mo - int ro) * 10000000 - (uint mq - uint rq) * 48000)\<bar> \<le> 10000000
    \<and> (\<exists>common. 480 dvd common \<and> max (mo + length mic) (ro + length ren) \<le> common
      \<and> common < max (mo + length mic) (ro + length ren) + 480
      \<and> align_tracks mic ren mq rq = map_option (\<lambda>ms.
          \<lparr>al_microphone = placed common mo mic, al_render = placed common ro ren,
           al_microphone_offset_samples = mo, al_render_offset_samples = ro,
           al_microphone_minus_render_start_ms = ms\<rparr>) (signed_qpc_delta_ms mq rq))
    \<and> (signed_qpc_delta_ms mq rq = None \<longleftrightarrow> 2 ^ 32 * 10000000 \<le> \<bar>uint mq - uint rq\<bar>)"
proof -
  have zero: "mo = 0 \<or> ro = 0" by (cases "mq \<le> rq") (simp_all add: mo_def ro_def min_def)
  have round: "\<bar>2 * ((int mo - int ro) * 10000000 - (uint mq - uint rq) * 48000)\<bar> \<le> 10000000"
  proof (cases "mq \<le> rq")
    case True
    then have "uint (rq - mq) = uint rq - uint mq" by (rule uint_diff)
    with True sample_rounding [of "rq - mq"] show ?thesis by (simp add: mo_def ro_def min_def)
  next
    case False
    then have "uint (mq - rq) = uint mq - uint rq" by (intro uint_diff) simp
    with False sample_rounding [of "mq - rq"] show ?thesis by (simp add: mo_def ro_def min_def)
  qed
  define need where "need = max (mo + length mic) (ro + length ren)"
  define common where "common = div_ceil need 480 * 480"
  have bounds: "need \<le> common" "common < need + 480"
    unfolding common_def by (rule div_ceil_bounds; simp)+
  have aligned: "align_tracks mic ren mq rq = map_option (\<lambda>ms.
      \<lparr>al_microphone = placed common mo mic, al_render = placed common ro ren,
       al_microphone_offset_samples = mo, al_render_offset_samples = ro,
       al_microphone_minus_render_start_ms = ms\<rparr>) (signed_qpc_delta_ms mq rq)"
  proof -
    have slices: "write_slice mo mic (replicate common (Fin 0)) = Some (placed common mo mic)"
      "write_slice ro ren (replicate common (Fin 0)) = Some (placed common ro ren)"
      using bounds(1) by (simp_all add: placed_def need_def write_slice_silence)
    show ?thesis
      unfolding align_tracks_def Let_def FRAME_SAMPLES_offline_def mo_def [symmetric] ro_def [symmetric]
        need_def [symmetric] common_def [symmetric] slices
      by (simp split: option.split)
  qed
  have none: "signed_qpc_delta_ms mq rq = None \<longleftrightarrow> 2 ^ 32 * 10000000 \<le> \<bar>uint mq - uint rq\<bar>"
  proof -
    have "int (unat (if rq \<le> mq then mq - rq else rq - mq)) = \<bar>uint mq - uint rq\<bar>"
      using uint_diff [of rq mq] uint_diff [of mq rq] by (auto simp: word_le_def)
    then have "unat (if rq \<le> mq then mq - rq else rq - mq) < 42949672960000000
        \<longleftrightarrow> \<bar>uint mq - uint rq\<bar> < 42949672960000000"
      by linarith
    then show ?thesis
      using signed_delta_returns [of mq rq] by (auto simp: not_less not_le div_less_iff_less_mult)
  qed
  show ?thesis
    using zero round bounds aligned none unfolding need_def
    by (intro conjI exI [of _ common]) (simp_all add: common_def)
qed

section \<open>Reading interleaved samples\<close>

text \<open>Channel \<open>j\<close> is what stands at the positions congruent to \<open>j\<close>, in order.\<close>

definition columns :: "nat \<Rightarrow> fp list \<Rightarrow> nat \<Rightarrow> fp list list" where
  "columns n xs k = map (\<lambda>j. map ((!) xs) (filter (\<lambda>i. i mod n = j) [0..<k])) [0..<n]"

lemma columns_0: "columns n xs 0 = replicate n []"
  by (simp add: columns_def map_replicate_const)

lemma columns_Suc:
  "0 < n \<Longrightarrow> columns n xs (Suc k) = (columns n xs k)[k mod n := columns n xs k ! (k mod n) @ [xs ! k]]"
  by (rule nth_equalityI) (auto simp: columns_def nth_list_update)

lemma deinterleave_columns:
  assumes "0 < n" "k \<le> length xs"
  shows "deinterleave path n k (map Inr (drop k xs)) (columns n xs k) = Some (Inr (columns n xs (length xs)))"
  using assms(2)
proof (induction "length xs - k" arbitrary: k)
  case 0
  then show ?case by simp
next
  case (Suc d)
  then have "k < length xs" "d = length xs - Suc k" by simp_all
  moreover from this have "drop k xs = xs ! k # drop (Suc k) xs" by (simp add: Cons_nth_drop_Suc)
  ultimately show ?case using Suc.hyps(1) [of "Suc k"] assms(1)
    by (simp add: columns_Suc with_context_def)
qed

section \<open>The canceller over the timeline\<close>

lemma mean_power_frame: "length xs = 480 \<Longrightarrow> mean_power xs \<noteq> None"
  by (simp add: mean_power_def sample_count_f64_def)

text \<open>One step adds one frame or keeps the error it ended with.\<close>

definition aec_progress :: "nat \<Rightarrow> 'p \<times> (message + fp list \<times> aec_stats option) \<Rightarrow> bool" where
  "aec_progress n st \<longleftrightarrow> (case snd st of Inl _ \<Rightarrow> True | Inr (out, _) \<Rightarrow> length out = n * 480)"

lemma aec_step_progress:
  assumes lib: "keeps_shape (webrtc_processor.truncate lib)"
    and len: "length (fst frames) = 480" "length (snd frames) = 480" and st: "aec_progress n st"
  shows "\<exists>st'. aec_step lib threshold frames st = Some st' \<and> aec_progress (Suc n) st'"
proof (cases st)
  case (Pair p r)
  show ?thesis
  proof (cases r)
    case (Inr out_active)
    obtain mic ren where f: "frames = (mic, ren)" by (cases frames)
    obtain p1 rs r1 where render: "wp_process_render_frame lib [ren] p = (p1, rs, r1)"
      by (cases "wp_process_render_frame lib [ren] p")
    obtain p2 cs r2 where capture: "wp_process_capture_frame lib [mic] p1 = (p2, cs, r2)"
      by (cases "wp_process_capture_frame lib [mic] p1")
    have "map length cs = map length [mic]"
      using lib capture unfolding keeps_shape_def webrtc_processor.truncate_def by (metis (no_types, lifting) fst_conv snd_conv webrtc_processor.select_convs(4))
    then obtain c where c: "cs = [c]" "length c = 480" using len(1) f by (cases cs) auto
    obtain loud where "mean_power ren = Some loud" using mean_power_frame len(2) f by fastforce
    with Pair Inr f render capture c st show ?thesis
      by (cases r1; cases r2) (auto simp: aec_step_def aec_progress_def with_context_def split: prod.splits)
  qed (use Pair in \<open>simp add: aec_step_def aec_progress_def\<close>)
qed

lemma aec_fold_progress:
  assumes lib: "keeps_shape (webrtc_processor.truncate lib)"
  shows "list_all (\<lambda>f. length (fst f) = 480 \<and> length (snd f) = 480) fs \<Longrightarrow> aec_progress n st
    \<Longrightarrow> \<exists>st'. fold_opt (aec_step lib threshold) fs st = Some st' \<and> aec_progress (n + length fs) st'"
proof (induction fs arbitrary: n st)
  case (Cons f fs)
  then have "length (fst f) = 480" "length (snd f) = 480" by simp_all
  from aec_step_progress [OF lib this Cons.prems(2)]
  obtain st' where "aec_step lib threshold f st = Some st'" "aec_progress (Suc n) st'" by blast
  with Cons.IH [of "Suc n" st'] Cons.prems show ?case by auto
qed simp

text \<open>C36
  With a WebRTC library that keeps the number and length of the channels it processes in place, the canceller
  runs over two aligned tracks without a panic, and unless the library reports an error its output is as long
  as the common timeline: no frame is lost, none is left over.\<close>

theorem aec_covers_timeline:
  assumes "keeps_shape (webrtc_processor.truncate lib)"
    and "align_tracks mic ren mq rq = Some al"
  shows "\<exists>p' r. run_aec lib m (al_microphone al) (al_render al) threshold p = Some (p', r)
    \<and> (case r of Inl _ \<Rightarrow> True
        | Inr (out, _) \<Rightarrow> length out = length (al_microphone al) \<and> length out = length (al_render al)
            \<and> 480 dvd length out)"
proof -
  obtain common where "480 dvd common" "length (al_microphone al) = common" "length (al_render al) = common"
    using align_tracks_lengths [OF assms(2)] by blast
  moreover define fs where "fs = zip (chunks 480 (al_microphone al)) (chunks 480 (al_render al))"
  ultimately have frames: "length fs * 480 = common" by (simp add: length_chunks)
  have "list_all (\<lambda>f. length (fst f) = 480 \<and> length (snd f) = 480) fs"
    unfolding fs_def list_all_iff by (metis chunks_length prod.collapse set_zip_leftD set_zip_rightD)
  then obtain st' where "fold_opt (aec_step lib (threshold_power m threshold)) fs (p, Inr ([], None)) = Some st'"
      "aec_progress (length fs) st'"
    using aec_fold_progress [OF assms(1), of fs 0 "(p, Inr ([], None))" "threshold_power m threshold"]
    by (auto simp: aec_progress_def)
  then show ?thesis
    using frames \<open>length (al_microphone al) = common\<close> \<open>length (al_render al) = common\<close> \<open>480 dvd common\<close>
    by (cases st') (auto simp: run_aec_def FRAME_SAMPLES_offline_def fs_def aec_progress_def split: sum.splits prod.splits)
qed

text \<open>A library that passes every frame through.\<close>

definition passing_processor :: "(nat, nat) offline_processor" where
  "passing_processor = \<lparr>wp_new = (\<lambda>_ w. (w, Inr 0)), wp_set_full_echo_canceller = (\<lambda>_ p. p),
     wp_process_render_frame = (\<lambda>cs p. (p, cs, Inr ())), wp_process_capture_frame = (\<lambda>cs p. (p + 1, cs, Inr ())),
     wp_get_stats = (\<lambda>_. \<lparr>ps_echo_return_loss = None, ps_echo_return_loss_enhancement = None,
       ps_residual_echo_likelihood = None, ps_residual_echo_likelihood_recent_max = None, ps_delay_ms = None\<rparr>)\<rparr>"

lemma aec_covers_timeline_witness:
  "\<exists>al p' r. align_tracks [Fin 1, Fin 1] [Fin (1 / 2)] 10000000 10000000 = Some al
    \<and> run_aec passing_processor \<lparr>powf = (\<lambda>x _. x), log10 = (\<lambda>x. x)\<rparr> (al_microphone al) (al_render al) (Fin (- 50)) 0
      = Some (p', r)
    \<and> (case r of Inl _ \<Rightarrow> True
        | Inr (out, _) \<Rightarrow> length out = length (al_microphone al) \<and> length out = length (al_render al)
            \<and> 480 dvd length out)"
proof -
  have shape: "keeps_shape (webrtc_processor.truncate passing_processor)"
    by (simp add: keeps_shape_def passing_processor_def webrtc_processor.truncate_def)
  obtain ms where "signed_qpc_delta_ms 10000000 10000000 = Some ms"
    using signed_delta_returns [of 10000000 10000000] by auto
  then obtain al where "align_tracks [Fin 1, Fin 1] [Fin (1 / 2)] 10000000 10000000 = Some al"
    by (auto simp: align_tracks_def Let_def write_slice_def div_ceil_def FRAME_SAMPLES_offline_def split: option.split)
  with aec_covers_timeline [OF shape this] show ?thesis by blast
qed

end
