(* ===== verification/Lab_Capture_Properties.thy ===== *)
theory Lab_Capture_Properties
  imports Lab_Recorder Windows_Input_Properties
begin

text \<open>
  What a recording leaves behind: each thread sends its messages in order, the main thread keeps the tracks
  apart in any interleaving of the two, and the manifest of a recording that succeeds is what the command
  \<^verbatim>\<open>aec\<close> asks for.
\<close>

section \<open>The messages of a thread\<close>

fun track_of :: "capture_message \<Rightarrow> track" where
  "track_of (TrackStarted t _) = t"
| "track_of (TrackPacket t _ _ _) = t"
| "track_of (TrackStopped t) = t"
| "track_of (TrackFailed t _) = t"

fun is_final :: "capture_message \<Rightarrow> bool" where
  "is_final (TrackStopped _) = True"
| "is_final (TrackFailed _ _) = True"
| "is_final _ = False"

type_synonym packet = "u32 \<times> u8 list \<times> buffer_metadata"

definition packet_messages :: "track \<Rightarrow> packet list \<Rightarrow> capture_message list" where
  "packet_messages t ps = map (\<lambda>(frames, bytes, m). TrackPacket t frames bytes m) ps"

definition whole_packets :: "track \<Rightarrow> packet list \<Rightarrow> bool" where
  "whole_packets t ps \<longleftrightarrow> list_all (\<lambda>(frames, bytes, m). length bytes = unat frames * bytes_per_frame t) ps"

text \<open>What a thread has sent while it records: its start and whole packets.\<close>

definition recording_trace :: "track \<Rightarrow> capture_message list \<Rightarrow> bool" where
  "recording_trace t sent \<longleftrightarrow> sent = [] \<or>
     (\<exists>d ps. sent = TrackStarted t d # packet_messages t ps \<and> whole_packets t ps)"

definition always_sends :: "'w track_api \<Rightarrow> bool" where
  "always_sends api \<longleftrightarrow> (\<forall>m w. snd (ta_send api m w))"

lemma send_message_sends:
  assumes "always_sends api"
  shows "\<exists>w'. send_message api m (w, sent) = ((w', sent @ [m]), Inr ())"
proof -
  obtain w' b where "ta_send api m w = (w', b)" by (cases "ta_send api m w")
  moreover from this have b using assms unfolding always_sends_def by (metis snd_conv)
  ultimately show ?thesis by (simp add: send_message_def)
qed

lemma recording_trace_packet:
  assumes "recording_trace t sent" "sent \<noteq> []" "length bytes = unat frames * bytes_per_frame t"
  shows "recording_trace t (sent @ [TrackPacket t frames bytes m])"
proof -
  from assms(1,2) obtain d ps where "sent = TrackStarted t d # packet_messages t ps" "whole_packets t ps"
    unfolding recording_trace_def by blast
  with assms(3) have "sent @ [TrackPacket t frames bytes m] = TrackStarted t d # packet_messages t (ps @ [(frames, bytes, m)])
      \<and> whole_packets t (ps @ [(frames, bytes, m)])"
    by (simp add: packet_messages_def whole_packets_def)
  then show ?thesis unfolding recording_trace_def by blast
qed

definition recording_state :: "track \<Rightarrow> u8 list \<times> 'w sender \<Rightarrow> bool" where
  "recording_state t = (\<lambda>(buffer, (w, sent)). recording_trace t sent \<and> sent \<noteq> [])"

lemma forward_packet_trace:
  assumes "always_sends api" "recording_state t (buffer, (w, sent))"
    and "forward_packet api t required (buffer, (w, sent)) = Some (s', r)"
  shows "recording_state t s'"
proof -
  have trace: "recording_trace t sent" "sent \<noteq> []" using assms(2) by (simp_all add: recording_state_def)
  define room where "room = (if length buffer < required then buffer @ replicate (required - length buffer) 0 else buffer)"
  obtain w2 bytes r2 where read: "ia_read_from_device api (take required room) w = (w2, bytes, r2)"
    by (cases "ia_read_from_device api (take required room) w")
  define lent where "lent = bytes @ drop required room"
  note forward = assms(3) [unfolded forward_packet_def prod.case Let_def, folded room_def,
      unfolded read prod.case, folded lent_def]
  show ?thesis
  proof (cases "api_context (Text ''failed to read WASAPI capture packet'') r2")
    case (Inl e)
    with forward trace show ?thesis by (auto simp: recording_state_def)
  next
    case (Inr got)
    obtain frames info where got: "got = (frames, info)" by (cases got)
    define packet where "packet = take (unat frames * bytes_per_frame t) lent"
    obtain w3 where "send_message api (TrackPacket t frames packet (packet_metadata_of info)) (w2, sent)
        = ((w3, sent @ [TrackPacket t frames packet (packet_metadata_of info)]), Inr ())"
      using send_message_sends [OF assms(1)] by blast
    with forward Inr got have fits: "\<not> length lent < unat frames * bytes_per_frame t"
      and s': "s' = (lent, (w3, sent @ [TrackPacket t frames packet (packet_metadata_of info)]))"
      by (auto simp: packet_def split: if_splits)
    from fits have "length packet = unat frames * bytes_per_frame t" by (simp add: packet_def)
    with recording_trace_packet [OF trace] show ?thesis by (simp add: s' recording_state_def)
  qed
qed

lemma packet_turn_trace:
  assumes "always_sends api" "recording_state t s" "packet_turn api t s = Some (s', r)"
  shows "recording_state t s'"
proof -
  obtain buffer w sent where s: "s = (buffer, (w, sent))" by (cases s) auto
  obtain w1 r1 where next_size: "ia_get_next_packet_size api w = (w1, r1)" by (cases "ia_get_next_packet_size api w")
  have same: "recording_state t (buffer, (w1, sent))" using assms(2) by (simp add: s recording_state_def)
  with assms(3) forward_packet_trace [OF assms(1) same] show ?thesis
    unfolding s packet_turn_def
    by (auto simp: track_call_def next_size split: sum.splits option.splits if_splits)
qed

lemma track_loop_invariant:
  assumes "\<And>s s' r. I s \<Longrightarrow> body s = Some (s', r) \<Longrightarrow> I s'"
  shows "I s \<Longrightarrow> track_loop fuel body s = Some (s', r) \<Longrightarrow> I s'"
proof (induction fuel arbitrary: s)
  case (Suc fuel)
  then obtain s1 r1 where body: "body s = Some (s1, r1)" by (auto split: option.splits)
  from assms [OF Suc.prems(1) this] have "I s1" .
  with Suc.IH [of s1] Suc.prems(2) body show ?case by (auto split: sum.splits bool.splits)
qed simp

lemma packet_loop_trace:
  assumes "always_sends api" "recording_state t s" "track_loop fuel (packet_turn api t) s = Some (s', r)"
  shows "recording_state t s'"
  using packet_turn_trace [OF assms(1), of t] assms(2,3)
  by (rule track_loop_invariant [where I = "recording_state t" and body = "packet_turn api t"])

lemma capture_turn_trace:
  assumes "always_sends api" "recording_state t s" "capture_turn api fuel t deadline s = Some (s', r)"
  shows "recording_state t s'"
proof -
  obtain buffer w sent where s: "s = (buffer, (w, sent))" by (cases s) auto
  obtain w1 now where now: "ta_now api w = (w1, now)" by (cases "ta_now api w")
  obtain w2 r2 where wait: "ia_wait_for_event api EVENT_WAIT_MS w1 = (w2, r2)"
    by (cases "ia_wait_for_event api EVENT_WAIT_MS w1")
  have same: "recording_state t (buffer, (w', sent))" for w' using assms(2) by (simp add: s recording_state_def)
  have loop: "recording_state t s1"
    if "track_loop fuel (packet_turn api t) (buffer, (w2, sent)) = Some (s1, r1)" for s1 r1
    by (rule packet_loop_trace [OF assms(1) same that])
  show ?thesis
    using assms(3) same loop unfolding s capture_turn_def
    by (cases "now < deadline") (auto simp: now wait)
qed

text \<open>A computation that sends nothing.\<close>

definition quiet :: "('w sender \<Rightarrow> 'w sender \<times> 'r) \<Rightarrow> bool" where
  "quiet m \<longleftrightarrow> (\<forall>s. snd (fst (m s)) = snd s)"

lemma quiet_step:
  assumes "quiet m"
  obtains w' r where "m (w, sent) = ((w', sent), r)"
proof (cases "m (w, sent)")
  case (Pair s r)
  with assms [unfolded quiet_def, rule_format, of "(w, sent)"] have "snd s = sent" by simp
  with Pair that show thesis by (cases s) auto
qed

lemma quiet_call: "quiet (track_call c m)"
  by (auto simp: quiet_def track_call_def split: prod.splits)

lemma quiet_env: "quiet m \<Longrightarrow> (\<And>a. quiet (f a)) \<Longrightarrow> quiet (env_call m f)"
  by (simp add: quiet_def env_call_def split: prod.splits sum.splits) (metis fst_conv snd_conv)

lemma quiet_return: "quiet (\<lambda>s. (s, r))"
  by (simp add: quiet_def)

lemma quiet_open_track_stream: "quiet (open_track_stream api t device)"
  unfolding open_track_stream_def split_beta by (intro quiet_env quiet_call quiet_return)

text \<open>What a thread has sent when its recording returns.\<close>

definition recorded :: "track \<Rightarrow> 'w sender \<Rightarrow> message + unit \<Rightarrow> bool" where
  "recorded t s r \<longleftrightarrow>
     (case r of Inl _ \<Rightarrow> recording_trace t (snd s)
      | Inr _ \<Rightarrow> \<exists>pre. pre \<noteq> [] \<and> recording_trace t pre \<and> snd s = pre @ [TrackStopped t])"

lemma record_track_recorded:
  assumes "always_sends api" "record_track api fuel t selector duration (w, []) = Some (s, r)"
  shows "recorded t s r"
proof (cases "prepare_track api t selector w")
  case (Inl e)
  with assms(2) show ?thesis by (auto simp: record_track_def recorded_def recording_trace_def)
next
  case (Inr prepared)
  obtain device descriptor where prepared: "prepared = (device, descriptor)" by (cases prepared)
  obtain w1 r1 where opened: "open_track_stream api t device (w, []) = ((w1, []), r1)"
    by (rule quiet_step [OF quiet_open_track_stream])
  obtain w2 where sent: "send_message api (TrackStarted t descriptor) (w1, [])
      = ((w2, [TrackStarted t descriptor]), Inr ())"
    using send_message_sends [OF assms(1), of _ w1 "[]"] unfolding append_Nil by blast
  obtain w3 r3 where start: "track_call ''failed to start WASAPI capture stream'' (ia_start_stream api)
      (w2, [TrackStarted t descriptor]) = ((w3, [TrackStarted t descriptor]), r3)"
    by (rule quiet_step [OF quiet_call])
  obtain w4 now where now: "ta_now api w3 = (w4, now)" by (cases "ta_now api w3")
  have trace: "recording_trace t [TrackStarted t descriptor]"
    by (auto simp: recording_trace_def packet_messages_def whole_packets_def)
  note body = assms(2) [unfolded record_track_def fst_conv Inr prepared sum.case prod.case opened]
  show ?thesis
  proof (cases "is_err r1 \<or> is_err r3")
    case True
    with body trace show ?thesis
      by (cases r1; cases r3) (auto simp: env_call_def sent start recorded_def recording_trace_def is_err_def)
  next
    case False
    then obtain n where r1: "r1 = Inr n" and r3: "r3 = Inr ()" by (cases r1; cases r3) (auto simp: is_err_def)
    define b where "b = (replicate (unat n * bytes_per_frame t) 0 :: u8 list, (w4, [TrackStarted t descriptor]))"
    note body = body [unfolded r1 sum.case prod.case env_call_def sent start r3 now, folded b_def]
    obtain buffer s1 r5 where loop: "track_loop fuel (capture_turn api fuel t (now + duration)) b = Some ((buffer, s1), r5)"
      using body by (auto split: option.splits if_splits prod.splits)
    obtain w5 pre where s1: "s1 = (w5, pre)" by (cases s1)
    have "recording_state t b" by (simp add: b_def recording_state_def trace)
    with capture_turn_trace [OF assms(1)] have "recording_state t (buffer, s1)"
      using loop by (rule track_loop_invariant [where I = "recording_state t"])
    then have pre: "recording_trace t pre" "pre \<noteq> []" by (simp_all add: s1 recording_state_def)
    obtain w6 r6 where stop: "track_call ''failed to stop WASAPI capture stream'' (ia_stop_stream api) (w5, pre) = ((w6, pre), r6)"
      by (rule quiet_step [OF quiet_call])
    obtain w7 where final: "send_message api (TrackStopped t) (w6, pre) = ((w7, pre @ [TrackStopped t]), Inr ())"
      using send_message_sends [OF assms(1)] by blast
    show ?thesis
      using body loop pre
      by (cases r5; cases r6) (auto simp: s1 stop final recorded_def split: if_splits)
  qed
qed

text \<open>A thread ends with one last message, before which it has sent its start and whole packets.\<close>

definition complete_trace :: "track \<Rightarrow> device_descriptor \<Rightarrow> packet list \<Rightarrow> capture_message list" where
  "complete_trace t d ps = TrackStarted t d # packet_messages t ps @ [TrackStopped t]"

definition thread_trace :: "track \<Rightarrow> capture_message list \<Rightarrow> bool" where
  "thread_trace t sent \<longleftrightarrow>
     (\<exists>pre e. recording_trace t pre \<and> sent = pre @ [TrackFailed t e])
     \<or> (\<exists>d ps. whole_packets t ps \<and> sent = complete_trace t d ps)"

lemma capture_thread_traced:
  assumes "always_sends api" "capture_thread api fuel t selector duration w = Some (w', sent)"
  shows "thread_trace t sent"
proof -
  obtain s r where result: "record_track api fuel t selector duration (w, []) = Some (s, r)"
    using assms(2) by (auto simp: capture_thread_def split: option.splits)
  note r = record_track_recorded [OF assms(1) this]
  show ?thesis
  proof (cases r)
    case (Inl e)
    obtain w1 pre where s: "s = (w1, pre)" by (cases s)
    obtain w2 where "send_message api (TrackFailed t e) (w1, pre) = ((w2, pre @ [TrackFailed t e]), Inr ())"
      using send_message_sends [OF assms(1)] by blast
    with r assms(2) result Inl s show ?thesis
      by (auto simp: capture_thread_def recorded_def thread_trace_def)
  next
    case (Inr u)
    with r assms(2) result show ?thesis
      by (auto simp: capture_thread_def recorded_def recording_trace_def thread_trace_def complete_trace_def)
  qed
qed

text \<open>C34
  While the main thread takes its messages, the thread of a track that returns has sent one sequence of
  messages: the start, packets whose bytes are exactly their frames, and one last message, that it stopped or
  that it failed; before its start it can only have failed.\<close>

theorem capture_thread_protocol:
  assumes "always_sends api" "capture_thread api fuel t selector duration w = Some (w', sent)"
  shows "(\<exists>e. sent = [TrackFailed t e])
    \<or> (\<exists>d ps final. sent = TrackStarted t d # map (\<lambda>(frames, bytes, m). TrackPacket t frames bytes m) ps @ [final]
        \<and> list_all (\<lambda>(frames, bytes, m). length bytes = unat frames * unat (track_channels t) * 4) ps
        \<and> (final = TrackStopped t \<or> (\<exists>e. final = TrackFailed t e)))"
  using capture_thread_traced [OF assms]
  unfolding thread_trace_def recording_trace_def complete_trace_def packet_messages_def whole_packets_def
    bytes_per_frame_def
  by (fastforce simp: mult.assoc)

section \<open>The messages of both threads\<close>

definition of_track :: "track \<Rightarrow> capture_message list \<Rightarrow> capture_message list" where
  "of_track t messages = filter (\<lambda>m. track_of m = t) messages"

definition finals :: "capture_message list \<Rightarrow> nat" where
  "finals messages = length (filter is_final messages)"

lemma finals_append [simp]: "finals (xs @ ys) = finals xs + finals ys"
  by (simp add: finals_def)

lemma finals_tracks: "finals messages = finals (of_track MicrophoneTrack messages) + finals (of_track RenderReference messages)"
proof (induction messages)
  case (Cons m messages)
  then show ?case by (cases "track_of m") (auto simp: finals_def of_track_def)
qed (simp add: finals_def of_track_def)

lemma recording_trace_no_final:
  "recording_trace t pre \<Longrightarrow> finals pre = 0 \<and> list_all (\<lambda>m. track_of m = t) pre"
  by (auto simp: recording_trace_def packet_messages_def finals_def filter_empty_conv list_all_iff)

lemma thread_trace_last:
  assumes "thread_trace t sent"
  shows "\<exists>pre m. sent = pre @ [m] \<and> finals pre = 0 \<and> is_final m \<and> list_all (\<lambda>m. track_of m = t) sent"
proof -
  have started: "recording_trace t (TrackStarted t d # packet_messages t ps)" if "whole_packets t ps" for d ps
    using that by (auto simp: recording_trace_def)
  show ?thesis
    using assms unfolding thread_trace_def
  proof (elim disjE exE conjE)
    fix pre e assume "recording_trace t pre" "sent = pre @ [TrackFailed t e]"
    then show ?thesis using recording_trace_no_final by (intro exI [of _ pre] exI [of _ "TrackFailed t e"]) auto
  next
    fix d ps assume "whole_packets t ps" "sent = complete_trace t d ps"
    then show ?thesis using recording_trace_no_final [OF started]
      by (intro exI [of _ "TrackStarted t d # packet_messages t ps"] exI [of _ "TrackStopped t"])
        (auto simp: complete_trace_def)
  qed
qed

lemma of_track_shuffles:
  assumes "messages \<in> shuffles mic ren" "list_all (\<lambda>m. track_of m = MicrophoneTrack) mic"
    "list_all (\<lambda>m. track_of m = RenderReference) ren"
  shows "of_track MicrophoneTrack messages = mic" "of_track RenderReference messages = ren"
proof -
  have "filter P messages \<in> shuffles (filter P mic) (filter P ren)" for P
    using assms(1) filter_shuffles [of P mic ren] by blast
  moreover have "filter (\<lambda>m. track_of m = MicrophoneTrack) mic = mic" "filter (\<lambda>m. track_of m = RenderReference) ren = ren"
    "filter (\<lambda>m. track_of m = MicrophoneTrack) ren = []" "filter (\<lambda>m. track_of m = RenderReference) mic = []"
    using assms(2,3) by (auto simp: list_all_iff filter_id_conv filter_empty_conv)
  ultimately show "of_track MicrophoneTrack messages = mic" "of_track RenderReference messages = ren"
    unfolding of_track_def by (metis shuffles.simps(1,2) singletonD)+
qed

section \<open>The main thread keeps the tracks apart\<close>

definition track_view :: "track \<Rightarrow> 'h recording \<Rightarrow> track_manifest option \<times> message option" where
  "track_view t g = (map_option tw_manifest (rg_writers g t), rg_failures g t)"

definition fresh_manifest :: "track \<Rightarrow> device_descriptor \<Rightarrow> track_manifest" where
  "fresh_manifest t d = \<lparr>tm_device = d, tm_output_file = track_filename t,
     tm_requested_sample_rate = RECORDED_SAMPLE_RATE, tm_requested_channels = track_channels t,
     tm_stats = default_track_stats\<rparr>"

fun track_step ::
  "capture_message \<Rightarrow> track_manifest option \<times> message option \<Rightarrow> track_manifest option \<times> message option" where
  "track_step (TrackStarted t d) (tm, f) = (Some (fresh_manifest t d), f)"
| "track_step (TrackPacket t n bytes m) (tm, f) =
     (map_option (\<lambda>tm. tm\<lparr>tm_stats := count_track_packet n m (tm_stats tm)\<rparr>) tm, f)"
| "track_step (TrackStopped t) (tm, f) = (tm, f)"
| "track_step (TrackFailed t e) (tm, f) = (tm, Some e)"

lemma track_step_failed: "snd (track_step (TrackFailed t e) v) = Some e"
  by (cases v) simp

lemma env_call_Inr:
  assumes "env_call m f w = (w', Inr b)"
  obtains w1 a where "m w = (w1, Inr a)" "f a w1 = (w', Inr b)"
  using assms by (auto simp: env_call_def split: prod.splits sum.splits)

lemma create_track_writer_manifest:
  "create_track_writer env run_dir t d w = (w', Inr tw) \<Longrightarrow> tw_manifest tw = fresh_manifest t d"
  by (auto simp: create_track_writer_def fresh_manifest_def Let_def elim!: env_call_Inr)

lemma write_packet_manifest:
  "write_packet env tw n bytes m w = (w', Inr tw') \<Longrightarrow>
     tw_manifest tw' = (tw_manifest tw)\<lparr>tm_stats := count_track_packet n m (tm_stats (tw_manifest tw))\<rparr>"
  by (auto simp: write_packet_def Let_def elim!: env_call_Inr split: if_splits)

lemma receive_message_view:
  assumes "receive_message env run_dir m g w = (w', Inr g')"
  shows "track_view t g' = (if track_of m = t then track_step m (track_view t g) else track_view t g)"
    and "rg_finished g' = rg_finished g + finals [m]"
  using assms
  by (cases m; fastforce simp: receive_message_def track_view_def finals_def create_track_writer_manifest
      write_packet_manifest elim!: env_call_Inr split: option.splits)+

lemma receive_messages_view:
  "receive_messages env run_dir messages g w = (w', Inr g') \<Longrightarrow>
     \<exists>consumed rest. messages = consumed @ rest \<and> rg_finished g' = rg_finished g + finals consumed
       \<and> 2 \<le> rg_finished g' \<and> (\<forall>t. track_view t g' = fold track_step (of_track t consumed) (track_view t g))"
proof (induction env run_dir messages g w rule: receive_messages.induct)
  case (1 env run_dir messages g w)
  show ?case
  proof (cases "rg_finished g < 2")
    case False
    with "1.prems" show ?thesis
      by (intro exI [of _ "[]"] exI [of _ messages]) (simp add: receive_messages.simps finals_def of_track_def)
  next
    case True
    with "1.prems" obtain m ms where ms: "messages = m # ms"
      by (cases messages) (auto simp: receive_messages.simps with_context_def)
    from "1.prems" True obtain w1 g1 where step: "receive_message env run_dir m g w = (w1, Inr g1)"
      and rest: "receive_messages env run_dir ms g1 w1 = (w', Inr g')"
      by (auto simp: ms receive_messages.simps [of env run_dir "m # ms"] elim: env_call_Inr)
    from "1.IH" [OF _ ms rest] True obtain consumed rest where ih: "ms = consumed @ rest"
        "rg_finished g' = rg_finished g1 + finals consumed" "2 \<le> rg_finished g'"
        "\<And>t. track_view t g' = fold track_step (of_track t consumed) (track_view t g1)" by auto
    have "track_view t g' = fold track_step (of_track t (m # consumed)) (track_view t g)" for t
      using ih(4) [of t] receive_message_view(1) [OF step, of t] by (simp add: of_track_def)
    moreover have "rg_finished g' = rg_finished g + finals (m # consumed)"
      using ih(2) receive_message_view(2) [OF step] by (simp add: finals_def)
    ultimately show ?thesis using ih(1,3) ms by (intro exI [of _ "m # consumed"] exI [of _ rest]) simp
  qed
qed

text \<open>Both threads' messages are used up: each of them ends with the only last message it has.\<close>

lemma all_consumed:
  assumes "messages \<in> shuffles mic ren" "thread_trace MicrophoneTrack mic" "thread_trace RenderReference ren"
    and "messages = consumed @ rest" "2 \<le> finals consumed"
  shows "rest = []"
proof -
  note mic = thread_trace_last [OF assms(2)] and ren = thread_trace_last [OF assms(3)]
  note tracks = of_track_shuffles [OF assms(1)]
  have "of_track MicrophoneTrack messages = mic" "of_track RenderReference messages = ren"
    using mic ren tracks by blast+
  then have split: "mic = of_track MicrophoneTrack consumed @ of_track MicrophoneTrack rest"
      "ren = of_track RenderReference consumed @ of_track RenderReference rest"
    by (simp_all add: assms(4) of_track_def)
  have "finals mic = 1" "finals ren = 1" using mic ren by (auto simp: finals_def)
  then have "finals (of_track MicrophoneTrack consumed) + finals (of_track MicrophoneTrack rest) = 1"
      "finals (of_track RenderReference consumed) + finals (of_track RenderReference rest) = 1"
    using split by (metis finals_append)+
  with assms(5) finals_tracks [of consumed] have none: "finals (of_track t rest) = 0" for t
    by (cases t) simp_all
  have last: "of_track t rest = []" if "xs = of_track t consumed @ of_track t rest" "thread_trace t xs" for t xs
  proof (rule ccontr)
    assume "of_track t rest \<noteq> []"
    with thread_trace_last [OF that(2)] that(1) have "is_final (last (of_track t rest))"
      by (metis last_appendR last_snoc)
    with \<open>of_track t rest \<noteq> []\<close> none [of t] show False
      by (auto simp: finals_def filter_empty_conv)
  qed
  from last [OF split(1) assms(2)] last [OF split(2) assms(3)]
  have "track_of m \<noteq> MicrophoneTrack \<and> track_of m \<noteq> RenderReference" if "m \<in> set rest" for m
    using that by (auto simp: of_track_def filter_empty_conv)
  then show ?thesis by (metis list.set_intros(1) neq_Nil_conv track.exhaust)
qed

section \<open>The manifest\<close>

definition stats_of :: "packet list \<Rightarrow> track_stats \<Rightarrow> track_stats" where
  "stats_of ps s = fold (\<lambda>(frames, bytes, m). count_track_packet frames m) ps s"

lemma stats_of_totals:
  "ts_packets (stats_of ps s) = ts_packets s + of_nat (length ps)"
  "ts_frames (stats_of ps s) = ts_frames s + sum_list (map (\<lambda>(frames, bytes, m). ucast frames) ps)"
  "ts_first_qpc_timestamp_100ns (stats_of ps s) = (case ts_first_qpc_timestamp_100ns s of Some x \<Rightarrow> Some x
     | None \<Rightarrow> (case ps of [] \<Rightarrow> None | (frames, bytes, m) # _ \<Rightarrow> Some (bm_qpc_timestamp_100ns m)))"
  by (induction ps arbitrary: s)
    (auto simp: stats_of_def count_track_packet_def get_or_insert_def add.assoc split: option.splits list.splits)

lemma fold_packets:
  "fold track_step (packet_messages t ps) (Some tm, f) = (Some (tm\<lparr>tm_stats := stats_of ps (tm_stats tm)\<rparr>), f)"
  by (induction ps arbitrary: tm) (auto simp: packet_messages_def stats_of_def)

lemma fold_complete_trace:
  "fold track_step (complete_trace t d ps) (None, None)
    = (Some ((fresh_manifest t d)\<lparr>tm_stats := stats_of ps default_track_stats\<rparr>), None)"
  by (simp add: complete_trace_def fold_packets fresh_manifest_def)

lemma finalize_writers_manifest:
  "finalize_writers env writers w = (w', Inr tracks) \<Longrightarrow> tracks t = map_option tw_manifest (writers t)"
  by (cases t) (auto simp: finalize_writers_def split: option.splits elim!: env_call_Inr)

definition no_recording :: "'h recording" where
  "no_recording = \<lparr>rg_writers = (\<lambda>_. None), rg_failures = (\<lambda>_. None), rg_finished = 0\<rparr>"

lemma write_manifest_Inr:
  assumes "write_manifest env run_dir m w = (w', Inr u)"
  obtains bytes where "rx_print_manifest env m = Inr bytes"
    "rx_write env (join_path run_dir [Normal (lit ''manifest.json'')]) bytes w = (w', Inr ())"
  using assms by (auto simp: write_manifest_def context_call_def Let_def split: sum.splits prod.splits)

text \<open>The parts of a run that succeeds.\<close>

lemma capture_command_Inr:
  assumes "capture_command env cfg messages w = (w', Inr ())"
  obtains created run_dir g w1 w2 w3 w4 tracks bytes where
    "receive_messages env run_dir messages no_recording w1 = (w2, Inr g)"
    "finalize_writers env (rg_writers g) w3 = (w4, Inr tracks)"
    "rx_print_manifest env \<lparr>rm_schema_version = 1, rm_created_unix_ms = created,
       rm_requested_duration_ms = millis (cc_duration cfg), rm_tracks = tracks, rm_failures = rg_failures g\<rparr> = Inr bytes"
    "rx_write env (join_path run_dir [Normal (lit ''manifest.json'')]) bytes w4 = (w', Inr ())"
    "\<forall>t. rg_failures g t = None"
proof -
  from assms show thesis
    unfolding capture_command_def Let_def no_recording_def [symmetric]
    by (auto split: if_splits elim!: env_call_Inr write_manifest_Inr) (rule that, assumption+, metis track.exhaust)
qed

text \<open>What the manifest says of a track, as the command \<^verbatim>\<open>aec\<close> reads it.\<close>

definition stored_track :: "run_manifest \<Rightarrow> track \<Rightarrow> packet list \<Rightarrow> bool" where
  "stored_track manifest t ps \<longleftrightarrow> (\<exists>ct tm.
     rm_tracks manifest t = Some tm
     \<and> ts_packets (tm_stats tm) = of_nat (length ps)
     \<and> ts_frames (tm_stats tm) = sum_list (map (\<lambda>(frames, bytes, m). ucast frames) ps)
     \<and> manifest_track (stored_manifest manifest) (track_key t) = Inr ct
     \<and> validate_track ct (track_channels t) (track_key t) = Inr ()
     \<and> ct_output_file ct = lit (track_filename t)
     \<and> required_qpc ct (track_key t) = (case ps of
         [] \<Rightarrow> Inl (Pieces [Text (track_key t), Text '' has no first QPC timestamp''])
       | (frames, bytes, m) # _ \<Rightarrow> Inr (bm_qpc_timestamp_100ns m)))"

lemma stored_track_complete:
  assumes "rm_tracks manifest t = Some ((fresh_manifest t d)\<lparr>tm_stats := stats_of ps default_track_stats\<rparr>)"
  shows "stored_track manifest t ps"
  using assms
  by (cases t) (auto simp: stored_track_def fresh_manifest_def stats_of_totals default_track_stats_def
      manifest_track_def stored_manifest_def validate_track_def required_qpc_def RECORDED_SAMPLE_RATE_def
      SAMPLE_RATE_def split: list.splits)

text \<open>C33
  A recording that succeeds can be processed.  In any interleaving of the messages of its two threads, both
  have recorded to the end, and the manifest that is written last names, for each track, a file of the rate
  and the channels the command \<^verbatim>\<open>aec\<close> asks for, the number of packets and frames the thread sent, and the
  timestamp of its first packet, which is missing only if there was none.\<close>

theorem captured_run_is_processable:
  assumes "always_sends api_m" "capture_thread api_m fuel_m MicrophoneTrack selector_m d x = Some (x', mic)"
    and "always_sends api_r" "capture_thread api_r fuel_r RenderReference selector_r d y = Some (y', ren)"
    and "messages \<in> shuffles mic ren" "capture_command env cfg messages w = (w', Inr ())"
  shows "\<exists>manifest bytes path w1 d_m ps_m d_r ps_r.
      mic = complete_trace MicrophoneTrack d_m ps_m \<and> ren = complete_trace RenderReference d_r ps_r
    \<and> rx_print_manifest env manifest = Inr bytes \<and> rx_write env path bytes w1 = (w', Inr ())
    \<and> stored_track manifest MicrophoneTrack ps_m \<and> stored_track manifest RenderReference ps_r"
proof -
  have traces: "thread_trace MicrophoneTrack mic" "thread_trace RenderReference ren"
    using capture_thread_traced [OF assms(1,2)] capture_thread_traced [OF assms(3,4)] by blast+
  obtain created run_dir g w1 w2 w3 w4 tracks bytes where
      received: "receive_messages env run_dir messages no_recording w1 = (w2, Inr g)"
    and finalized: "finalize_writers env (rg_writers g) w3 = (w4, Inr tracks)"
    and written: "rx_print_manifest env \<lparr>rm_schema_version = 1, rm_created_unix_ms = created,
       rm_requested_duration_ms = millis (cc_duration cfg), rm_tracks = tracks, rm_failures = rg_failures g\<rparr> = Inr bytes"
      "rx_write env (join_path run_dir [Normal (lit ''manifest.json'')]) bytes w4 = (w', Inr ())"
    and ok: "\<forall>t. rg_failures g t = None"
    by (rule capture_command_Inr [OF assms(6)])
  from receive_messages_view [OF received] obtain consumed rest where split: "messages = consumed @ rest"
      "2 \<le> finals consumed" "\<And>t. track_view t g = fold track_step (of_track t consumed) (None, None)"
    by (auto simp: no_recording_def track_view_def)
  with all_consumed [OF assms(5) traces split(1)] have consumed: "consumed = messages" by simp
  have own: "of_track MicrophoneTrack messages = mic" "of_track RenderReference messages = ren"
    using of_track_shuffles [OF assms(5)] thread_trace_last traces by blast+
  have complete: "\<exists>d ps. xs = complete_trace t d ps \<and> tracks t = Some ((fresh_manifest t d)\<lparr>tm_stats := stats_of ps default_track_stats\<rparr>)"
    if "thread_trace t xs" "of_track t messages = xs" for t xs
  proof -
    have view: "track_view t g = fold track_step xs (None, None)" using split(3) [of t] that(2) consumed by simp
    have "\<not> (\<exists>pre e. xs = pre @ [TrackFailed t e])"
    proof
      assume "\<exists>pre e. xs = pre @ [TrackFailed t e]"
      with view have "snd (track_view t g) \<noteq> None" by (auto simp: track_step_failed)
      with ok show False by (simp add: track_view_def)
    qed
    with that(1) obtain d ps where xs: "xs = complete_trace t d ps" unfolding thread_trace_def by blast
    with view have "map_option tw_manifest (rg_writers g t) = Some ((fresh_manifest t d)\<lparr>tm_stats := stats_of ps default_track_stats\<rparr>)"
      by (simp add: track_view_def fold_complete_trace)
    with finalize_writers_manifest [OF finalized, of t] xs show ?thesis by auto
  qed
  from complete [OF traces(1) own(1)] complete [OF traces(2) own(2)]
  obtain d_m ps_m d_r ps_r where parts: "mic = complete_trace MicrophoneTrack d_m ps_m" "ren = complete_trace RenderReference d_r ps_r"
    "tracks MicrophoneTrack = Some ((fresh_manifest MicrophoneTrack d_m)\<lparr>tm_stats := stats_of ps_m default_track_stats\<rparr>)"
    "tracks RenderReference = Some ((fresh_manifest RenderReference d_r)\<lparr>tm_stats := stats_of ps_r default_track_stats\<rparr>)"
    by blast
  then show ?thesis
    using written by (intro exI conjI) (assumption | rule stored_track_complete | simp)+
qed

section \<open>A short recording\<close>

text \<open>A clock that ticks with every look at it, and one packet of one frame to be read.\<close>

definition brief_api :: "(nat \<times> nat) track_api" where
  "brief_api =
     \<lparr>ia_platform = (\<lambda>_. desk_platform\<lparr>ip_default_device := (\<lambda>_. Inr ((desk_device ''desk'')
        \<lparr>dv_device_format := Inr \<lparr>wf_samplespersec = 44100, wf_nchannels = 2, wf_bitspersample = 16,
           wf_subformat = Inr Integer, wf_validbitspersample = 16, wf_blockalign = 4, wf_channelmask = 3\<rparr>\<rparr>))\<rparr>),
      ia_get_iaudioclient = (\<lambda>_ w. (w, Inr ())),
      ia_get_device_period = (\<lambda>w. (w, Inr (100000, 30000))), ia_initialize_client = (\<lambda>_ _ w. (w, Inr ())),
      ia_set_get_eventhandle = (\<lambda>w. (w, Inr ())), ia_get_buffer_size = (\<lambda>w. (w, Inr 0)),
      ia_get_audiocaptureclient = (\<lambda>w. (w, Inr ())), ia_start_stream = (\<lambda>w. (w, Inr ())),
      ia_get_next_packet_size = (\<lambda>(now, left). ((now, left), Inr (if left = 0 then None else Some 1))),
      ia_wait_for_event = (\<lambda>_ w. (w, Inr ())),
      ia_read_from_device = (\<lambda>bytes (now, left). ((now, left - 1), bytes,
        Inr (1, \<lparr>bi_data_discontinuity = False, bi_silent = True, bi_timestamp_error = False, bi_index = 7,
          bi_timestamp = 9\<rparr>))),
      ia_stop_stream = (\<lambda>w. (w, Inr ())),
      ta_now = (\<lambda>(now, left). ((now + 1, left), now)), ta_send = (\<lambda>_ w. (w, True)), ta_to_lowercase = (\<lambda>s. s)\<rparr>"

definition brief_descriptor :: device_descriptor where
  "brief_descriptor = \<lparr>dd_id = lit ''desk'', dd_name = lit ''desk'', dd_native_sample_rate = 44100,
     dd_native_channels = 2, dd_native_bits_per_sample = 16\<rparr>"

definition brief_packet :: "track \<Rightarrow> packet" where
  "brief_packet t = (1, replicate (bytes_per_frame t) 0, \<lparr>bm_device_position = 7, bm_qpc_timestamp_100ns = 9,
     bm_data_discontinuity = False, bm_silent = True, bm_timestamp_error = False\<rparr>)"

lemma brief_sends: "always_sends brief_api"
  by (simp add: always_sends_def brief_api_def)

lemma brief_thread:
  "capture_thread brief_api (Suc (Suc 0)) t None 2 (0, 1)
    = Some ((3, 0), complete_trace t brief_descriptor [brief_packet t])"
proof -
  have prepared: "prepare_track brief_api t None w = Inr ((desk_device ''desk'')
        \<lparr>dv_device_format := Inr \<lparr>wf_samplespersec = 44100, wf_nchannels = 2, wf_bitspersample = 16,
           wf_subformat = Inr Integer, wf_validbitspersample = 16, wf_blockalign = 4, wf_channelmask = 3\<rparr>\<rparr>,
      brief_descriptor)" for w
    by (simp add: prepare_track_def brief_api_def select_device_def api_context_def with_context_def
        desk_platform_def desk_device_def read_descriptor_def brief_descriptor_def)
  have opened: "open_track_stream brief_api t device s = (s, Inr 0)" for device s
    by (cases s) (simp add: open_track_stream_def env_call_def track_call_def api_context_def with_context_def brief_api_def)
  have send: "send_message brief_api m (w, sent) = ((w, sent @ [m]), Inr ())" for m w sent
    by (simp add: send_message_def brief_api_def)
  have start: "track_call c (ia_start_stream brief_api) s = (s, Inr ())"
    and stop: "track_call c (ia_stop_stream brief_api) s = (s, Inr ())" for c s
    by (cases s; simp add: track_call_def api_context_def with_context_def brief_api_def)+
  have clock: "ta_now brief_api (now, left) = ((Suc now, left), now)"
    and wait: "ia_wait_for_event brief_api n (now, left) = ((now, left), Inr ())" for now left n
    by (simp_all add: brief_api_def)
  have size: "track_call c (ia_get_next_packet_size brief_api) ((now, left), sent)
      = (((now, left), sent), Inr (if left = 0 then None else Some 1))" for c now left sent
    by (simp add: track_call_def api_context_def with_context_def brief_api_def)
  have read: "ia_read_from_device brief_api bytes (now, left) = ((now, left - 1), bytes,
      Inr (1, \<lparr>bi_data_discontinuity = False, bi_silent = True, bi_timestamp_error = False, bi_index = 7,
          bi_timestamp = 9\<rparr>))" for bytes now left
    by (simp add: brief_api_def)
  have "0 < bytes_per_frame t" by (cases t) (simp_all add: bytes_per_frame_def)
  then show ?thesis
    by (simp add: capture_thread_def record_track_def prepared opened env_call_def send start stop clock Let_def
        capture_turn_def wait packet_turn_def size forward_packet_def read api_context_def with_context_def
        packet_metadata_of_def brief_packet_def complete_trace_def packet_messages_def)
qed

lemma capture_thread_protocol_witness:
  "\<exists>d ps final. complete_trace RenderReference brief_descriptor [brief_packet RenderReference]
      = TrackStarted RenderReference d # map (\<lambda>(frames, bytes, m). TrackPacket RenderReference frames bytes m) ps @ [final]"
  using capture_thread_protocol [OF brief_sends brief_thread] by (auto simp: complete_trace_def)

definition brief_env :: "(nat, track_manifest option, run_manifest) recorder_env" where
  "brief_env =
     \<lparr>rx_fs = \<lparr>lf_display = (\<lambda>_. []), lf_canonicalize = (\<lambda>p _. Inr p), lf_exists = (\<lambda>_ _. True),
        lf_create_dir_all = (\<lambda>_ w. (w, Inr ()))\<rparr>,
      rx_unix_time_ms = (\<lambda>w. (w, Inr 1)), rx_spawn = (\<lambda>_ _ _ w. (w, Inr ())), rx_join = (\<lambda>_ w. (w, True)),
      rx_create_file = (\<lambda>_ w. (w, Inr ())), rx_to_writer = (\<lambda>_ w. (w + 1, Inr ())),
      rx_write_newline = (\<lambda>w. (w, Inr ())), rx_flush = (\<lambda>w. (w, Inr ())), rx_create_wave = (\<lambda>_ _ w. (w, Inr None)),
      rx_write_sample = (\<lambda>_ _ w. (w, Inr ())), rx_finalize = (\<lambda>_ w. (w, Inr ())),
      rx_print_manifest = Inr, rx_write = (\<lambda>_ _ w. (w, Inr ()))\<rparr>"

definition brief_config :: capture_config where
  "brief_config = \<lparr>cc_duration = 2, cc_output_root = [], cc_microphone_selector = None, cc_render_selector = None\<rparr>"

lemma brief_ops:
  "rx_unix_time_ms brief_env w = (w, Inr 1)" "rx_spawn brief_env t r n w = (w, Inr ())"
  "rx_join brief_env t w = (w, True)" "rx_create_file brief_env p w = (w, Inr ())"
  "rx_to_writer brief_env e w = (w + 1, Inr ())" "rx_write_newline brief_env w = (w, Inr ())"
  "rx_flush brief_env w = (w, Inr ())" "rx_create_wave brief_env p spec w = (w, Inr None)"
  "rx_finalize brief_env h w = (w, Inr ())" "rx_print_manifest brief_env m = Inr m"
  "rx_write brief_env p b w = (w, Inr ())" "lf_create_dir_all (rx_fs brief_env) p w = (w, Inr ())"
  by (simp_all add: brief_env_def)

lemma brief_samples: "write_track_samples brief_env h xs w = (w, Inr ())"
  by (induction xs) (simp_all add: brief_env_def)

lemma brief_messages:
  "receive_message brief_env run_dir (TrackStarted t d) g w
    = (w + 1, Inr (g\<lparr>rg_writers := (rg_writers g)(t \<mapsto> \<lparr>tw_writer = None, tw_manifest = fresh_manifest t d\<rparr>)\<rparr>))"
  "receive_message brief_env run_dir (TrackStopped t) g w = (w + 1, Inr (g\<lparr>rg_finished := rg_finished g + 1\<rparr>))"
  "rg_writers g t = Some tw \<Longrightarrow> length bytes = unat n * unat (tm_requested_channels (tw_manifest tw)) * 4 \<Longrightarrow>
    receive_message brief_env run_dir (TrackPacket t n bytes m) g w
    = (w + 1, Inr (g\<lparr>rg_writers := (rg_writers g)(t \<mapsto> tw\<lparr>tw_manifest := (tw_manifest tw)
        \<lparr>tm_stats := count_track_packet n m (tm_stats (tw_manifest tw))\<rparr>\<rparr>)\<rparr>))"
  by (simp_all add: receive_message_def env_call_def write_record_def brief_ops create_track_writer_def Let_def
      context_call_def with_context_def fresh_manifest_def write_packet_def brief_samples)

lemma captured_run_is_processable_witness:
  "\<exists>manifest bytes path w1. rx_print_manifest brief_env manifest = Inr bytes
    \<and> rx_write brief_env path bytes w1 = (6, Inr ())
    \<and> stored_track manifest MicrophoneTrack [brief_packet MicrophoneTrack]
    \<and> stored_track manifest RenderReference [brief_packet RenderReference]"
proof -
  let ?mic = "complete_trace MicrophoneTrack brief_descriptor [brief_packet MicrophoneTrack]"
  let ?ren = "complete_trace RenderReference brief_descriptor [brief_packet RenderReference]"
  have order: "splice ?mic ?ren \<in> shuffles ?mic ?ren" by (rule splice_in_shuffles)
  have run: "capture_command brief_env brief_config (splice ?mic ?ren) 0 = (6, Inr ())"
    by (simp add: capture_command_def brief_config_def env_call_def context_call_def with_context_def brief_ops
        Let_def spawn_capture_thread_def join_thread_def finalize_writers_def write_manifest_def
        complete_trace_def packet_messages_def brief_packet_def bytes_per_frame_def receive_messages.simps
        brief_messages fresh_manifest_def)
  have inject: "ps = ps'" if "complete_trace t d ps = complete_trace t d' ps'" for t d d' ps ps'
    using that by (auto simp: complete_trace_def packet_messages_def inj_on_def split: prod.splits dest!: map_inj_on)
  show ?thesis
    using captured_run_is_processable [OF brief_sends brief_thread brief_sends brief_thread order run]
    by (metis inject)
qed

end
