(* ===== verification/Spec2Isabelle.thy ===== *)
theory Spec2Isabelle
  imports Aec_Input Aec_Stream Tray_Shell Windows_Pipeline Stability_Properties Stability_Report
    Lab_Main_Properties Offline_Properties Lab_Capture_Properties
begin

text \<open>
  A verification development for mini-aec, a Windows tray application that reads a microphone and the
  loopback of a render endpoint, removes the echo of the second from the first, and plays the result
  into a VB-CABLE endpoint, from whose recording side other programs take it as a microphone; and for its lab, a
  command-line program that records, processes and validates such runs.

  \<^bold>\<open>The program and its parts.\<close>  The tray (\<^verbatim>\<open>src-tauri/src\<close>) turns clicks into calls of its controller
  \<^verbatim>\<open>TrayEngine\<close>, which keeps the chosen endpoints, stores them in a settings file and commands the
  engine; a second thread polls the devices.  The engine (\<^verbatim>\<open>crates/mini-aec-engine/src\<close>) starts and stops runs.
  A bypass run has two threads: the capture worker cuts microphone packets into PCM frames of 480 samples and
  puts them into a bounded frame queue; the sink worker writes them to the output adapter.  An AEC run has three:
  two input workers that cut packets into time-stamped frames and put them into two bounded timed queues, and the
  processing worker that pairs them, runs the canceller and writes to the output adapter.  The workers report
  into one shared snapshot.  The adapters are behind the traits of \<^verbatim>\<open>crates/mini-aec-output/src\<close> and of the
  engine's \<^verbatim>\<open>lib.rs\<close>; their implementations are \<^verbatim>\<open>mini-aec-engine/src/windows.rs\<close> (input) and
  \<^verbatim>\<open>crates/mini-aec-windows-output/src\<close> (output).  The lab (\<^verbatim>\<open>crates/mini-aec-lab/src\<close>) runs the same engine for a
  fixed time and logs a snapshot a second, judges such a log in a stability report, records both tracks to wave
  files, processes a recording offline and lists the devices.

  \<^bold>\<open>Theories.\<close>
  \<^item> Prelude: words and Rust's saturating arithmetic, results and \<^verbatim>\<open>?\<close>, strings, messages, loops with fuel, the
    collections \<open>invar_intros\<close> and \<open>frame_simps\<close>.  Ieee and Ieee_Arith: binary floating point as rounded
    rationals, with infinities and NaN.  Single_Bytes: the bytes of an \<^verbatim>\<open>f32\<close>.
  \<^item> Output_Contract: \<^verbatim>\<open>mini-aec-output/src/lib.rs\<close>.  Engine_Types and Engine_Snapshot:
    \<^verbatim>\<open>mini-aec-engine/src/lib.rs\<close>.
  \<^item> Framing: \<^verbatim>\<open>framing.rs\<close>.  Bounded_Queue: the locales both queues interpret.  Frame_Queue:
    \<^verbatim>\<open>queue.rs\<close>.  Synchronization: \<^verbatim>\<open>synchronization.rs\<close>.  Echo: \<^verbatim>\<open>aec.rs\<close>.
  \<^item> Runtime_Shared, Sink_Worker, Capture_Worker, Aec_Input, Histogram, Pairing, Aec_Worker and Controller:
    the parts of \<^verbatim>\<open>runtime.rs\<close>.  Aec_Properties and Controller_Properties: what they guarantee.  Aec_Stream: what
    an AEC run plays.
  \<^item> Windows_Format, Windows_Devices and Windows_Output: \<^verbatim>\<open>mini-aec-windows-output/src/lib.rs\<close>, that is the frame
    converter, the cable preflight and inventory, and the render stream with its session.  Windows_Session: what a
    session guarantees.  Windows_Input and Windows_Input_Properties: \<^verbatim>\<open>mini-aec-engine/src/windows.rs\<close>.
  \<^item> Bypass_Pipeline: the capture and the sink thread of a bypass together, as one step relation.
    Adapter_Contract: what the sink thread relies on from an adapter that plays what it accepts.  Windows_Pipeline:
    the same over the Windows output adapter, and the output factories of the tray and the lab.
  \<^item> Config: \<^verbatim>\<open>config.rs\<close>.  Tray: \<^verbatim>\<open>audio.rs\<close>.  Tray_Properties: what it guarantees.  Tray_Menu: the menu of
    \<^verbatim>\<open>main.rs\<close>.  Tray_Shell: its setup, menu handler and polling thread as one running program.
  \<^item> Evidence, Clock_Analysis, Stability and Stability_Report: the lab's \<^verbatim>\<open>stability.rs\<close>, from reading a log over
    its clean segments, the regression of clocks and the verdicts to the report file.  Clock_Properties and
    Stability_Properties: what they guarantee.
  \<^item> Lab_Paths: Windows paths and the guards that keep evidence below the artifacts directory.  Lab_Run: the
    real-time commands in \<^verbatim>\<open>platform/windows/bypass.rs\<close>.  Lab_Run_Properties: their log can be read by the report.
  \<^item> Offline and Offline_Properties: \<^verbatim>\<open>offline.rs\<close>.  Lab_Capture (the recording threads) and Lab_Recorder (the
    thread that stores): \<^verbatim>\<open>platform/windows/capture.rs\<close>; Lab_Capture_Properties: what a recording leaves behind.
  \<^item> Lab_Devices and Lab_Devices_Properties: \<^verbatim>\<open>platform/windows/devices.rs\<close>.  Lab_Main and Lab_Main_Properties: the
    lab's \<^verbatim>\<open>main.rs\<close>.

  \<^bold>\<open>Correspondence.\<close>  A struct is a record whose fields carry a prefix, an enum a datatype, \<^verbatim>\<open>u32\<close>
  and the like are words that wrap, \<^verbatim>\<open>saturating_add\<close> is \<open>sat_add\<close>, \<^verbatim>\<open>usize\<close> is \<open>nat\<close>, \<^verbatim>\<open>f32\<close> and
  \<^verbatim>\<open>f64\<close> are \<open>fp\<close>.  \<^verbatim>\<open>Result\<close> is a sum with the error on the left.  A panic is \<open>None\<close> (or
  \<open>Panicked\<close> for a whole thread).  A trait object is a record of operations over an abstract state, so
  each theorem about a worker holds for every adapter, every canceller and every scheduler its hypotheses
  admit.  The operating system and the libraries are such records too: the WASAPI client and devices, files, wave
  files, the clock, JSON, the WebRTC processor and the elementary functions of \<^verbatim>\<open>f64\<close>.

  \<^bold>\<open>Concurrency.\<close>  Threads share atomics and mutex-protected state only.  A thread is a sequence of
  atomic actions on \<open>world\<close>, and an arbitrary function \<open>others\<close> is applied to the world before each of
  them.  A theorem that holds for every \<open>others\<close> holds for every interleaving; a theorem that needs the other
  threads to leave something alone says so as a hypothesis.  Three compositions are explicit instead:
  \<open>pipeline_step\<close> interleaves the capture thread, the sink thread and the controller of a bypass from one critical
  section of the queue to the next (\<open>capture_iteration_steps\<close> and \<open>sink_iteration_steps\<close> put its parts together
  to the loops of the two threads); \<open>shell_reaches\<close> interleaves clicks with the steps of the polling thread; and
  the messages of the two recording threads reach the storing thread in any merge of the two.  \<open>tray_reaches\<close> is
  the closure of the tray under its operations.  In Aec_Stream the other threads are again one function, of which
  only is assumed that it appends frames to the microphone queue and drops some (\<open>feeds\<close>).

  \<^bold>\<open>Interfaces.\<close>  \<open>latest_wins_queue\<close> and its extension \<open>polled_queue\<close> are what the workers rely on from their
  queues, interpreted on the frame queue and the timed queue; \<open>echo_contract\<close> what the processing worker relies on
  from a canceller, interpreted on the default one; \<open>playing_adapter\<close> what the sink thread relies on from an output
  adapter, interpreted on the Windows adapter; \<open>kept_while_joining\<close> what survives the joining of workers,
  interpreted on the failure latch and on the identity of a run; \<open>identified_engine\<close> what the lab's log relies on
  from an engine, interpreted on the modelled controller.

  \<^bold>\<open>Fuel.\<close>  A loop that the code runs until it is told to stop takes fuel, one unit per turn, and is \<open>None\<close>
  when it runs out.  The theorems of the kinds termination and liveness give a bound:
  \<^item> the selection of a render frame: the length of the queue; a worker: the turn at which it sees
    \<^verbatim>\<open>stop_requested\<close>; the joining loops of the controller: 601 turns, since they sleep 5 ms per turn and give up
    after 3000 ms;
  \<^item> the waiting loop of a write to the endpoint: one turn per nanosecond of its limit \<open>OUTPUT_WAIT\<close>, with a clock
    that advances while it waits;
  \<^item> the loop that cuts a segment into windows: one turn per observation, unless one of them stands at the largest
    128-bit time, where the loop of the code does not end;
  \<^item> a real-time command of the lab: one turn per line of its log; a recording thread: one turn per read of its
    device until its deadline.
  With enough fuel the result does not depend on it (\<open>run_loop_mono\<close>).

  \<^bold>\<open>What the lemmas show.\<close>
  \<^item> Engine.  The queues refine a bounded list with drop-oldest and their metrics account for every frame.  The
    accumulators cut the stream of samples into consecutive frames and depend on the sequence of packets only through
    it.  The sink worker writes every frame under consecutive numbers inside one session and always closes what it
    has opened.  Pairing never crosses the tolerance, never reorders and never consumes a render frame twice.  The
    processing worker writes silence whenever the canceller fails and stops after the failure limit.  Every command
    returns; a stop that succeeds has joined all workers; a busy engine refuses a start.
  \<^item> Windows adapters.  The conversion loop equals interpolation; the endpoint only receives whole frames in order
    and the diagnostics count every write; listed pairs are those the preflight accepts and listed sources those
    that resolve; a packet read holds what the device delivered.
  \<^item> From the microphone to the endpoint.  In every interleaving of a bypass the endpoint hears frames of the
    captured stream in order, each at most once; what is missing at the end is exactly what the queue counts as
    discarded, so without a failure and an overflow it hears the whole stream.  In every interleaving of an AEC run
    each frame played is the canceller's answer to one microphone frame and a render frame of the same time.
  \<^item> Tray.  The configuration stays well formed, survives a restart, survives a failing save, and never overwrites
    an environment override.  While no poll is under way every item on the screen picks the device it names
    (\<open>stale_item_picks_other_device\<close> shows that this fails between the two halves of a poll).
  \<^item> Lab.  The log of a run that completes is accepted by the report; what the report accepts passed every
    stated gate; clean segments are exactly the maximal runs; report and evidence files stay below the artifacts
    directory.  A recording is what the offline command asks for, whose alignment is exact and whose output covers
    the timeline.  The device listing marks every cable the product offers, and every identity it prints resolves.
    No command leaves a run behind.

  \<^bold>\<open>Not modelled.\<close>  The build script, the generated code, icons and vendored crates; the widgets of the
  user-interface library, whose operations are taken to succeed; the parsing of the command line by \<^verbatim>\<open>clap\<close>; the text
  of JSON (printing and parsing are parameters with a round-trip hypothesis where one is needed); the lines the
  offline and the real-time commands print to the terminal; the stubs of the lab for other systems, which only return
  an error; the tests and their fakes in \<^verbatim>\<open>test_support.rs\<close>.  The poisoning of a mutex, the failure of an allocation
  and the memory order of the atomics are left out; the controller's calls do not overlap in time.
\<close>

end
